(* ===== verification/Thd_Prelude.thy ===== *)
theory Thd_Prelude
  imports Complex_Main "HOL-Library.Word" "HOL-Library.Log_Nat" "HOL-Library.Signed_Division"
begin

text \<open>
  Shared vocabulary of the development: the status codes of \<^verbatim>\<open>thermald.h\<close>, C integer
  conversions, IEEE rounding for the \<^verbatim>\<open>float\<close> and \<^verbatim>\<open>double\<close> expressions of the
  sources, and the generic lemmas and theorem collections the components use.

  A C \<^verbatim>\<open>int\<close> is a HOL \<open>int\<close>; where the source converts an unsigned value to
  \<^verbatim>\<open>int\<close> the conversion \<open>s32\<close> is written out. Temperatures and counters the source
  declares unsigned are words.
\<close>

section \<open>Status codes\<close>

definition THD_SUCCESS :: int where "THD_SUCCESS = 0"
definition THD_ERROR :: int where "THD_ERROR = -1"
definition THD_FATAL_ERROR :: int where "THD_FATAL_ERROR = -2"

named_theorems thd_codes \<open>the status codes as numerals\<close>
named_theorems thd_frame \<open>which record fields an operation leaves alone\<close>

lemmas thd_status_defs [thd_codes] = THD_SUCCESS_def THD_ERROR_def THD_FATAL_ERROR_def

section \<open>C integers\<close>

type_synonym u8 = "8 word"
type_synonym u16 = "16 word"
type_synonym u32 = "32 word"
type_synonym u64 = "64 word"

text \<open>Two's complement reading of the low 32 bits: what a conversion to \<^verbatim>\<open>int\<close> yields.\<close>

definition s32 :: "int \<Rightarrow> int" where
  "s32 x = (x + 2147483648) mod 4294967296 - 2147483648"

definition in_s32 :: "int \<Rightarrow> bool" where
  "in_s32 x \<longleftrightarrow> -2147483648 \<le> x \<and> x \<le> 2147483647"

definition INT_MAX :: int where "INT_MAX = 2147483647"

text \<open>The low 32 bits read as \<^verbatim>\<open>unsigned int\<close>.\<close>

definition u32_of :: "int \<Rightarrow> int" where
  "u32_of x = x mod 4294967296"

lemma s32_in_s32 [simp]: "in_s32 (s32 x)"
  by (simp add: s32_def in_s32_def)

lemma s32_id [simp]: "in_s32 x \<Longrightarrow> s32 x = x"
  by (simp add: s32_def in_s32_def)

lemma s32_s32 [simp]: "s32 (s32 x) = s32 x"
  by simp

lemma s32_bounds: "-2147483648 \<le> s32 x" "s32 x \<le> 2147483647"
  using s32_in_s32 [of x] by (simp_all add: in_s32_def)

lemma s32_u32_of [simp]: "s32 (u32_of x) = s32 x"
  by (simp add: s32_def u32_of_def mod_add_left_eq)

lemma u32_of_range: "0 \<le> u32_of x" "u32_of x < 4294967296"
  by (simp_all add: u32_of_def)

lemma u32_of_id [simp]: "0 \<le> x \<Longrightarrow> x < 4294967296 \<Longrightarrow> u32_of x = x"
  by (simp add: u32_of_def)

lemma int_unat: "int (unat w) = uint w"
  by simp

lemma unat_lt_iff_uint: "unat w < n \<longleftrightarrow> uint w < int n"
  by (metis int_unat of_nat_less_iff)

lemma sint_word_of_int_s32: "sint (word_of_int x :: u32) = s32 x"
  by (simp add: int_word_sint s32_def)

lemma sint_eq_s32: "sint (w :: u32) = s32 (uint w)"
  using sint_word_of_int_s32 [of "uint w"] by simp

lemma sint_minus_s32: "sint (a - b :: u32) = s32 (uint a - uint b)"
  by (simp add: flip: sint_word_of_int_s32)

section \<open>IEEE rounding\<close>

text \<open>
  Binary floating point with \<open>p\<close> bits of precision, round to nearest, ties to even, on
  normal numbers: \<open>f32\<close> for \<^verbatim>\<open>float\<close> and \<open>f64\<close> for \<^verbatim>\<open>double\<close>. Each
  arithmetic operation of the source is rounded once. Infinities, NaNs and subnormal numbers do
  not occur for the magnitudes the daemon computes with and are not represented.
\<close>

definition pow2 :: "int \<Rightarrow> rat" where
  "pow2 e = (if 0 \<le> e then 2 ^ nat e else 1 / 2 ^ nat (- e))"

text \<open>The exponent of the leading binary digit of a positive rational.\<close>

definition ilog2_rat :: "rat \<Rightarrow> int" where
  "ilog2_rat x = (case quotient_of x of (n, d) \<Rightarrow>
     (let e = int (floorlog 2 (nat n)) - int (floorlog 2 (nat d))
      in if pow2 e \<le> x then e else e - 1))"

definition round_half_even :: "rat \<Rightarrow> int" where
  "round_half_even x =
     (let f = \<lfloor>x\<rfloor>; r = x - of_int f
      in if r < 1 / 2 then f else if 1 / 2 < r then f + 1 else if even f then f else f + 1)"

definition fround :: "nat \<Rightarrow> rat \<Rightarrow> rat" where
  "fround p x =
     (if x = 0 then 0
      else let u = pow2 (ilog2_rat \<bar>x\<bar> - (int p - 1)) in of_int (round_half_even (x / u)) * u)"

definition f32 :: "rat \<Rightarrow> rat" where "f32 x = fround 24 x"
definition f64 :: "rat \<Rightarrow> rat" where "f64 x = fround 53 x"

text \<open>Conversion of a floating value to \<^verbatim>\<open>int\<close>: truncation towards zero.\<close>

definition rat_trunc :: "rat \<Rightarrow> int" where
  "rat_trunc x = (if 0 \<le> x then \<lfloor>x\<rfloor> else \<lceil>x\<rceil>)"

lemma pow2_pos [simp]: "0 < pow2 e"
  by (simp add: pow2_def)

lemma fround_0 [simp]: "fround p 0 = 0"
  by (simp add: fround_def)

lemma f64_0 [simp]: "f64 0 = 0" and f32_0 [simp]: "f32 0 = 0"
  by (simp_all add: f64_def f32_def)

lemma round_half_even_of_int [simp]: "round_half_even (of_int n) = n"
  by (simp add: round_half_even_def)

lemma round_half_even_mono_nonneg: "0 \<le> x \<Longrightarrow> 0 \<le> round_half_even x"
  by (auto simp: round_half_even_def Let_def)

lemma fround_nonneg: "0 \<le> x \<Longrightarrow> 0 \<le> fround p x"
  by (auto simp: fround_def Let_def round_half_even_mono_nonneg less_imp_le intro!: mult_nonneg_nonneg)

lemma rat_trunc_of_int [simp]: "rat_trunc (of_int n) = n"
  by (simp add: rat_trunc_def)

lemma round_half_even_near: "\<bar>of_int (round_half_even x) - x\<bar> \<le> 1 / 2"
  by (auto simp: round_half_even_def Let_def abs_if) linarith+

lemma pow2_add_nat: "pow2 (int a - int b) = 2 ^ a / 2 ^ b"
proof (cases "b \<le> a")
  case True
  then have "nat (int a - int b) = a - b" by simp
  with True show ?thesis by (simp add: pow2_def power_diff)
next
  case False
  then have "nat (- (int a - int b)) = b - a" by simp
  with False show ?thesis by (simp add: pow2_def power_diff)
qed

lemma pow2_diff: "pow2 (a - int k) = pow2 a / 2 ^ k"
proof -
  obtain m n where a: "a = int m - int n" by (metis int_diff_cases)
  have "a - int k = int m - int (n + k)" using a by simp
  then show ?thesis using a pow2_add_nat [of m "n + k"] pow2_add_nat [of m n]
    by (simp only: power_add) simp
qed

lemma floorlog2_bounds:
  assumes "0 < n" shows "2 ^ (floorlog 2 n - 1) \<le> n" "n < 2 ^ floorlog 2 n"
  using floorlog_bounds [of n 2] assms by auto

lemma floorlog2_pos: "0 < n \<Longrightarrow> 0 < floorlog 2 n"
  by (simp add: floorlog_def)

lemma pow2_ilog2_le:
  assumes "0 < x" shows "pow2 (ilog2_rat x) \<le> x"
proof -
  obtain n d where q: "quotient_of x = (n, d)" by fastforce
  have d: "0 < d" and x: "x = of_int n / of_int d"
    using quotient_of_denom_pos [OF q] quotient_of_div [OF q] by auto
  then have n: "0 < n" using assms by (simp add: zero_less_divide_iff)
  define a b where "a = floorlog 2 (nat n)" and "b = floorlog 2 (nat d)"
  have a: "0 < a" "2 ^ (a - 1) \<le> nat n"
    using n floorlog2_bounds(1) [of "nat n"] floorlog2_pos [of "nat n"] unfolding a_def by linarith+
  have b: "nat d < 2 ^ b" using d floorlog2_bounds(2) [of "nat d"] unfolding b_def by linarith
  have "(2 :: rat) ^ (a - 1) \<le> of_int n"
    using a(2) n by (metis nat_0_le of_int_of_nat_eq of_nat_le_iff of_nat_numeral of_nat_power less_imp_le)
  moreover have "of_int d \<le> (2 :: rat) ^ b"
    using b d by (metis nat_0_le of_int_of_nat_eq of_nat_le_iff of_nat_numeral of_nat_power less_imp_le)
  ultimately have "2 ^ (a - 1) / 2 ^ b \<le> x"
    unfolding x using d n by (intro frac_le) auto
  then have "pow2 (int a - int b - 1) \<le> x"
    using pow2_add_nat [of "a - 1" b] a(1) by (simp add: of_nat_diff algebra_simps)
  then show ?thesis
    by (simp add: ilog2_rat_def q Let_def a_def [symmetric] b_def [symmetric])
qed

text \<open>The relative rounding error is at most half a unit in the last place.\<close>

lemma fround_error: "\<bar>fround (Suc p) x - x\<bar> \<le> \<bar>x\<bar> / 2 ^ Suc p"
proof (cases "x = 0")
  case False
  define u where "u = pow2 (ilog2_rat \<bar>x\<bar> - int p)"
  have u: "0 < u" by (simp add: u_def)
  have "u \<le> \<bar>x\<bar> / 2 ^ p"
    using pow2_ilog2_le [of "\<bar>x\<bar>"] False by (simp add: u_def pow2_diff divide_right_mono)
  have "\<bar>of_int (round_half_even (x / u)) * u - x\<bar> = \<bar>of_int (round_half_even (x / u)) - x / u\<bar> * u"
    using u by (simp add: abs_mult_pos left_diff_distrib flip: abs_mult)
  also have "\<dots> \<le> 1 / 2 * u"
    using u round_half_even_near by (intro mult_right_mono) auto
  finally have "\<bar>fround (Suc p) x - x\<bar> \<le> u / 2"
    using False by (simp add: fround_def u_def Let_def)
  with \<open>u \<le> _\<close> show ?thesis by simp
qed simp

lemma f32_error: "\<bar>f32 x - x\<bar> \<le> \<bar>x\<bar> / 16777216"
  using fround_error [of 23 x] by (simp add: f32_def)

lemma pow2_mono: "a \<le> b \<Longrightarrow> pow2 a \<le> pow2 b"
  using pow2_diff [of b "nat (b - a)"] mult_left_mono [of 1 "2 ^ nat (b - a)" "pow2 a"]
  by (simp add: field_simps less_imp_le)

text \<open>Integers of fewer than \<open>p\<close> bits are represented exactly.\<close>

lemma fround_of_int:
  assumes "\<bar>n\<bar> < 2 ^ p" shows "fround p (of_int n) = of_int n"
proof (cases "n = 0")
  case False
  define l where "l = ilog2_rat \<bar>of_int n\<bar>"
  have "pow2 l \<le> \<bar>of_int n\<bar>" using pow2_ilog2_le [of "\<bar>of_int n\<bar>"] False by (simp add: l_def)
  also have "\<bar>of_int n :: rat\<bar> < 2 ^ p"
    using assms by (metis of_int_abs of_int_less_iff of_int_numeral of_int_power)
  also have "(2 :: rat) ^ p = pow2 (int p)" by (simp add: pow2_def)
  finally have "l < int p" using pow2_mono [of "int p" l] by (meson not_less)
  then have k: "l - (int p - 1) = 0 - int (nat (int p - 1 - l))" by simp
  define k where "k = nat (int p - 1 - l)"
  have u: "pow2 (l - (int p - 1)) = 1 / 2 ^ k"
    unfolding k k_def using pow2_diff [of 0 "nat (int p - 1 - l)"] by (simp add: pow2_def)
  have "of_int n / (1 / 2 ^ k) = (of_int (n * 2 ^ k) :: rat)" by simp
  then have "round_half_even (of_int n / (1 / 2 ^ k)) = n * 2 ^ k"
    by (metis round_half_even_of_int)
  with False u show ?thesis
    by (simp add: fround_def l_def [symmetric] Let_def)
qed simp

lemma f32_of_int [simp]: "\<bar>n\<bar> < 16777216 \<Longrightarrow> f32 (of_int n) = of_int n"
  by (simp add: f32_def fround_of_int)

lemma f32_tenth:
  assumes "0 \<le> k" "k \<le> 1000" shows "rat_trunc (f32 (of_int k / 10)) = k div 10"
proof (cases "k mod 10 = 0")
  case True
  then have "(of_int k / 10 :: rat) = of_int (k div 10)" by (auto simp: field_simps elim!: dvdE)
  with assms show ?thesis by simp
next
  case False
  define x :: rat where "x = of_int k / 10"
  have k: "k = 10 * (k div 10) + k mod 10" by simp
  have "1 \<le> k mod 10" "k mod 10 \<le> 9" using False pos_mod_sign [of 10 k] pos_mod_bound [of 10 k] by linarith+
  moreover have "of_int k = (10 * of_int (k div 10) + of_int (k mod 10) :: rat)"
    by (metis k of_int_add of_int_mult of_int_numeral)
  ultimately have x: "of_int (k div 10) + 1 / 10 \<le> x" "x \<le> of_int (k div 10) + 9 / 10"
    unfolding x_def by (simp_all add: field_simps)
  have x0: "0 \<le> x" "x \<le> 100" using assms by (auto simp: x_def)
  then have "\<bar>f32 x - x\<bar> \<le> 100 / 16777216" using f32_error [of x] by simp
  then have "of_int (k div 10) \<le> f32 x" "f32 x < of_int (k div 10) + 1"
    using x by (auto simp: abs_if split: if_splits)
  then have "\<lfloor>f32 x\<rfloor> = k div 10" by (simp add: floor_eq_iff)
  moreover have "0 \<le> f32 x" using x0 fround_nonneg by (simp add: f32_def)
  ultimately show ?thesis by (simp add: rat_trunc_def x_def)
qed

lemma rat_trunc_le: "0 \<le> x \<Longrightarrow> of_int (rat_trunc x) \<le> x"
  by (simp add: rat_trunc_def)

lemma rat_trunc_gt: "0 \<le> x \<Longrightarrow> x < of_int (rat_trunc x) + 1"
  by (simp add: rat_trunc_def) linarith

lemma f32_f64_10: "f32 (f64 10) = 10"
  by code_simp

section \<open>Ranges that may run upwards or downwards\<close>

text \<open>
  Cooling devices number their states from the unthrottled \<open>min_state\<close> to the fully
  throttled \<open>max_state\<close>; for power limits the numbers decrease. \<open>between a b x\<close>
  says that \<open>x\<close> lies in the closed range with end points \<open>a\<close> and \<open>b\<close>.
\<close>

definition between :: "int \<Rightarrow> int \<Rightarrow> int \<Rightarrow> bool" where
  "between a b x \<longleftrightarrow> min a b \<le> x \<and> x \<le> max a b"

lemma between_up: "a \<le> b \<Longrightarrow> between a b x \<longleftrightarrow> a \<le> x \<and> x \<le> b"
  by (auto simp: between_def)

lemma between_down: "b \<le> a \<Longrightarrow> between a b x \<longleftrightarrow> b \<le> x \<and> x \<le> a"
  by (auto simp: between_def)

lemma between_ends [simp]: "between a b a" "between a b b"
  by (auto simp: between_def)

section \<open>Pairs and lists\<close>

lemma snd_cong: "x = (a, b) \<Longrightarrow> b = snd x"
  by simp

lemma find_Some_set: "List.find P xs = Some x \<Longrightarrow> x \<in> set xs \<and> P x"
  by (auto simp: find_Some_iff)

lemma find_None_all: "List.find P xs = None \<Longrightarrow> x \<in> set xs \<Longrightarrow> \<not> P x"
  by (auto simp: find_None_iff)

lemma butlast_sorted_key: "sorted (map f xs) \<Longrightarrow> sorted (map f (butlast xs))"
  by (simp add: map_butlast sorted_butlast)

lemma last_sorted_key_max:
  assumes "sorted (map f xs)" "x \<in> set xs"
  shows "f x \<le> f (last xs)"
  using assms by (induction xs) auto

end
