(* ===== verification/Thd_SysFs.thy ===== *)
theory Thd_SysFs
  imports Thd_Prelude
begin

text \<open>
  The file interface of the daemon, \<^verbatim>\<open>thd_sys_fs.cpp\<close>: attribute files read and written
  as decimal text, with the return values the callers test. The kernel behind the files is not
  part of the sources; it appears as two functions of the environment, \<open>e_kwrite\<close> (what a
  \<^verbatim>\<open>write\<close> to an attribute returns and does to the files) and \<open>e_ksleep\<close> (what the files
  hold after sleeping).

  Files are read by path here. \<^verbatim>\<open>csys_fs\<close> keeps descriptors; that reading a kept descriptor with
  \<^verbatim>\<open>pread\<close> at offset 0 gives what opening the file again would give is proved in the theory
  \<open>Thd_SysCache\<close>.
\<close>

section \<open>Decimal text\<close>

definition digit_char :: "nat \<Rightarrow> char" where
  "digit_char d = char_of (48 + d)"

fun show_nat :: "nat \<Rightarrow> string" where
  "show_nat n = (if n < 10 then [digit_char n] else show_nat (n div 10) @ [digit_char (n mod 10)])"

declare show_nat.simps [simp del]

text \<open>\<^verbatim>\<open>os << data\<close> for a signed value.\<close>

definition show_int :: "int \<Rightarrow> string" where
  "show_int i = (if i < 0 then CHR ''-'' # show_nat (nat (- i)) else show_nat (nat i))"

definition is_digit :: "char \<Rightarrow> bool" where
  "is_digit c \<longleftrightarrow> 48 \<le> (of_char c :: nat) \<and> (of_char c :: nat) \<le> 57"

definition is_space :: "char \<Rightarrow> bool" where
  "is_space c \<longleftrightarrow> (of_char c :: nat) = 32 \<or> (9 \<le> (of_char c :: nat) \<and> (of_char c :: nat) \<le> 13)"

definition digit_val :: "char \<Rightarrow> int" where
  "digit_val c = int (of_char c :: nat) - 48"

fun digits_val :: "int \<Rightarrow> string \<Rightarrow> int" where
  "digits_val acc [] = acc"
| "digits_val acc (c # cs) = (if is_digit c then digits_val (10 * acc + digit_val c) cs else acc)"

definition parse_sign :: "string \<Rightarrow> int" where
  "parse_sign s = (case s of [] \<Rightarrow> 0
     | c # cs \<Rightarrow> (if c = CHR ''-'' then - digits_val 0 cs
                 else if c = CHR ''+'' then digits_val 0 cs else digits_val 0 (c # cs)))"

text \<open>\<^verbatim>\<open>strtol\<close> in base 10: leading white space, an optional sign, digits; the value
  saturates at the bounds of \<^verbatim>\<open>long\<close>.\<close>

definition strtol :: "string \<Rightarrow> int" where
  "strtol s = max (- (2 ^ 63)) (min (2 ^ 63 - 1) (parse_sign (dropWhile is_space s)))"

text \<open>\<^verbatim>\<open>atoi\<close>: \<^verbatim>\<open>strtol\<close> converted to \<^verbatim>\<open>int\<close>.\<close>

definition atoi :: "string \<Rightarrow> int" where
  "atoi s = s32 (strtol s)"

text \<open>The decimal numbers that \<^verbatim>\<open>strtod\<close> and \<^verbatim>\<open>strtof\<close> accept: digits with a point and an exponent.
  Hexadecimal numbers, infinities and NaNs are not represented.\<close>

definition digits_of :: "string \<Rightarrow> string" where
  "digits_of s = takeWhile is_digit s"

definition exponent_of :: "string \<Rightarrow> int" where
  "exponent_of s =
     (case s of c # d # cs \<Rightarrow>
        (if c \<noteq> CHR ''e'' \<and> c \<noteq> CHR ''E'' then 0
         else if is_digit d \<or> (d = CHR ''-'' \<or> d = CHR ''+'') \<and> cs \<noteq> [] \<and> is_digit (hd cs) then parse_sign (d # cs)
         else 0)
      | _ \<Rightarrow> 0)"

definition power10 :: "int \<Rightarrow> rat" where
  "power10 k = (if 0 \<le> k then 10 ^ nat k else 1 / 10 ^ nat (- k))"

definition parse_decimal :: "string \<Rightarrow> rat option" where
  "parse_decimal s =
     (let whole = digits_of s; r = drop (length whole) s;
          frac = (case r of CHR ''.'' # r' \<Rightarrow> digits_of r' | _ \<Rightarrow> []);
          r2 = (case r of CHR ''.'' # r' \<Rightarrow> drop (length frac) r' | _ \<Rightarrow> r)
      in if whole = [] \<and> frac = [] then None
         else Some (of_int (digits_val 0 (whole @ frac)) * power10 (exponent_of r2 - int (length frac))))"

section \<open>The environment\<close>

text \<open>An attribute either yields its text or fails to read.\<close>

datatype attr = Text string | NoRead

type_synonym files = "string \<rightharpoonup> attr"

record env =
  e_now :: int
  e_files :: files
  e_link :: "string \<Rightarrow> bool"
  e_kwrite :: "string \<Rightarrow> string \<Rightarrow> files \<Rightarrow> int \<times> files"
  e_ksleep :: "int \<Rightarrow> files \<Rightarrow> files"

definition ENOENT :: int where "ENOENT = 2"
definition EIO :: int where "EIO = 5"
definition EINVAL :: int where "EINVAL = 22"
definition ELOOP :: int where "ELOOP = 40"
definition ENODATA :: int where "ENODATA = 61"

lemmas errno_defs [thd_codes] = ENOENT_def EIO_def EINVAL_def ELOOP_def ENODATA_def

text \<open>\<^verbatim>\<open>csys_fs::exists\<close>.\<close>

definition sysfs_exists :: "'a env_scheme \<Rightarrow> string \<Rightarrow> bool" where
  "sysfs_exists e p \<longleftrightarrow> e_files e p \<noteq> None"

text \<open>\<^verbatim>\<open>csys_fs::write(path, buf)\<close>: \<^verbatim>\<open>O_NOFOLLOW\<close> refuses a symbolic link; otherwise
  the kernel decides, a negative result being \<^verbatim>\<open>-errno\<close>.\<close>

definition sysfs_write :: "'a env_scheme \<Rightarrow> string \<Rightarrow> string \<Rightarrow> int \<times> 'a env_scheme" where
  "sysfs_write e p buf =
     (if e_link e p then (- ELOOP, e)
      else case e_files e p of None \<Rightarrow> (- ENOENT, e)
      | Some _ \<Rightarrow> (case e_kwrite e p buf (e_files e) of (r, fs) \<Rightarrow> (r, e\<lparr>e_files := fs\<rparr>)))"

text \<open>\<^verbatim>\<open>csys_fs::write(path, unsigned int)\<close>: the argument is printed as an unsigned value,
  also when the caller passes a negative \<^verbatim>\<open>int\<close>.\<close>

definition sysfs_write_uint :: "'a env_scheme \<Rightarrow> string \<Rightarrow> int \<Rightarrow> int \<times> 'a env_scheme" where
  "sysfs_write_uint e p data = sysfs_write e p (show_int (u32_of data))"

text \<open>\<^verbatim>\<open>csys_fs::read(path, int *)\<close>: at most 15 characters are read; the target keeps its
  old value when nothing is read. The result is the return value and the new target value.\<close>

definition sysfs_read_int :: "'a env_scheme \<Rightarrow> string \<Rightarrow> int \<Rightarrow> int \<times> int" where
  "sysfs_read_int e p old =
     (if e_link e p then (- ELOOP, old)
      else case e_files e p of None \<Rightarrow> (- ENOENT, old)
      | Some NoRead \<Rightarrow> (-1, old)
      | Some (Text t) \<Rightarrow> (let str = take 15 t; ret = int (length str)
          in if 0 < ret then (ret, atoi str) else (ret, old)))"

text \<open>\<^verbatim>\<open>csys_fs::read(path, unsigned long *)\<close>: up to 31 characters, \<^verbatim>\<open>atol\<close>.\<close>

definition sysfs_read_ulong :: "'a env_scheme \<Rightarrow> string \<Rightarrow> u64 \<Rightarrow> int \<times> u64" where
  "sysfs_read_ulong e p old =
     (if e_link e p then (- ELOOP, old)
      else case e_files e p of None \<Rightarrow> (- ENOENT, old)
      | Some NoRead \<Rightarrow> (-1, old)
      | Some (Text t) \<Rightarrow> (let str = take 31 t; ret = int (length str)
          in if 0 < ret then (ret, word_of_int (strtol str)) else (ret, old)))"

text \<open>\<^verbatim>\<open>csys_fs::read(path, std::string &)\<close>: one white-space delimited token; the target is
  unchanged when the file holds none.\<close>

definition first_token :: "string \<Rightarrow> string" where
  "first_token t = takeWhile (\<lambda>c. \<not> is_space c) (dropWhile is_space t)"

definition sysfs_read_str :: "'a env_scheme \<Rightarrow> string \<Rightarrow> string \<Rightarrow> int \<times> string" where
  "sysfs_read_str e p old =
     (if e_link e p then (- EINVAL, old)
      else case e_files e p of None \<Rightarrow> (- EINVAL, old)
      | Some NoRead \<Rightarrow> (- EIO, old)
      | Some (Text t) \<Rightarrow> (0, if first_token t = [] then old else first_token t))"

text \<open>\<^verbatim>\<open>sleep(n)\<close>.\<close>

definition env_sleep :: "'a env_scheme \<Rightarrow> int \<Rightarrow> 'a env_scheme" where
  "env_sleep e n = e\<lparr>e_now := e_now e + n, e_files := e_ksleep e n (e_files e)\<rparr>"

section \<open>Frame lemmas\<close>

lemma sysfs_write_frame [thd_frame]:
  "e_now (snd (sysfs_write e p b)) = e_now e"
  "e_link (snd (sysfs_write e p b)) = e_link e"
  "e_kwrite (snd (sysfs_write e p b)) = e_kwrite e"
  "e_ksleep (snd (sysfs_write e p b)) = e_ksleep e"
  by (auto simp: sysfs_write_def split: option.splits prod.splits)

text \<open>\<open>files_only e e'\<close>: the environments differ in their files at most.\<close>

definition files_only :: "'a env_scheme \<Rightarrow> 'a env_scheme \<Rightarrow> bool" where
  "files_only e e' \<longleftrightarrow> (\<exists>fs. e' = e\<lparr>e_files := fs\<rparr>)"

lemma files_only_refl [simp]: "files_only e e"
proof -
  have "e = e\<lparr>e_files := e_files e\<rparr>" by simp
  then show ?thesis unfolding files_only_def by blast
qed

lemma files_only_update [simp]: "files_only e (e\<lparr>e_files := fs\<rparr>)"
  by (auto simp: files_only_def)

lemma files_only_trans: "files_only e e1 \<Longrightarrow> files_only e1 e2 \<Longrightarrow> files_only e e2"
  by (auto simp: files_only_def)

lemma sysfs_write_files [simp]: "files_only e (snd (sysfs_write e p b))"
  by (auto simp: sysfs_write_def split: option.splits prod.splits)

lemma sysfs_write_uint_files [simp]: "files_only e (snd (sysfs_write_uint e p d))"
  by (simp add: sysfs_write_uint_def)

lemma sysfs_write_filesD: "sysfs_write e p b = (r, e') \<Longrightarrow> files_only e e'"
  by (metis snd_conv sysfs_write_files)

lemma sysfs_write_uint_filesD: "sysfs_write_uint e p d = (r, e') \<Longrightarrow> files_only e e'"
  by (metis snd_conv sysfs_write_uint_files)

lemma sysfs_write_uint_frame [thd_frame]:
  "e_now (snd (sysfs_write_uint e p d)) = e_now e"
  "e_link (snd (sysfs_write_uint e p d)) = e_link e"
  "e_kwrite (snd (sysfs_write_uint e p d)) = e_kwrite e"
  "e_ksleep (snd (sysfs_write_uint e p d)) = e_ksleep e"
  by (simp_all add: sysfs_write_uint_def thd_frame)

section \<open>Printing and reading back\<close>

lemma of_char_digit [simp]: "d < 10 \<Longrightarrow> (of_char (digit_char d) :: nat) = 48 + d"
  by (simp add: digit_char_def)

lemma is_digit_digit_char [simp]: "d < 10 \<Longrightarrow> is_digit (digit_char d)"
  by (simp add: is_digit_def)

lemma digit_val_digit_char [simp]: "d < 10 \<Longrightarrow> digit_val (digit_char d) = int d"
  by (simp add: digit_val_def)

lemma digits_val_show_nat:
  "digits_val 0 (show_nat n @ r) = digits_val (int n) r"
proof (induction n arbitrary: r rule: show_nat.induct)
  case (1 n)
  show ?case
  proof (cases "n < 10")
    case True
    then show ?thesis by (simp add: show_nat.simps [of n])
  next
    case False
    then have "digits_val 0 (show_nat n @ r)
        = digits_val 0 (show_nat (n div 10) @ digit_char (n mod 10) # r)"
      by (simp add: show_nat.simps [of n])
    also have "\<dots> = digits_val (int (n div 10)) (digit_char (n mod 10) # r)"
      using False by (rule "1.IH")
    also have "\<dots> = digits_val (10 * int (n div 10) + int (n mod 10)) r"
      by simp
    also have "10 * int (n div 10) + int (n mod 10) = int n"
      by (metis mult_div_mod_eq of_nat_add of_nat_mult of_nat_numeral)
    finally show ?thesis .
  qed
qed

lemma show_nat_hd: "\<exists>d cs. d < 10 \<and> show_nat n = digit_char d # cs"
proof (induction n rule: show_nat.induct)
  case (1 n)
  then show ?case by (cases "n < 10") (auto simp: show_nat.simps [of n])
qed

lemma digit_char_not [simp]:
  "d < 10 \<Longrightarrow> \<not> is_space (digit_char d)"
  "d < 10 \<Longrightarrow> digit_char d \<noteq> CHR ''-''"
  "d < 10 \<Longrightarrow> digit_char d \<noteq> CHR ''+''"
  by (auto simp: is_space_def dest: arg_cong [of _ _ "of_char :: char \<Rightarrow> nat"])

lemma parse_sign_show_int: "parse_sign (dropWhile is_space (show_int i)) = i"
proof (cases "i < 0")
  case True
  have "digits_val 0 (show_nat (nat (- i))) = - i"
    using digits_val_show_nat [of "nat (- i)" "[]"] True by simp
  with True show ?thesis
    by (simp add: show_int_def parse_sign_def is_space_def)
next
  case False
  obtain d cs where d: "d < 10" and s: "show_nat (nat i) = digit_char d # cs"
    using show_nat_hd by blast
  have "digits_val 0 (digit_char d # cs) = i"
    using digits_val_show_nat [of "nat i" "[]"] False by (simp add: s)
  with False d s show ?thesis
    by (simp add: show_int_def parse_sign_def del: digits_val.simps)
qed

lemma strtol_show_int: "- (2 ^ 63) \<le> i \<Longrightarrow> i < 2 ^ 63 \<Longrightarrow> strtol (show_int i) = i"
  by (simp add: strtol_def parse_sign_show_int)

lemma atoi_show_int: "in_s32 i \<Longrightarrow> atoi (show_int i) = i"
  by (simp add: atoi_def strtol_show_int in_s32_def)

lemma length_show_nat: "n < 10 ^ k \<Longrightarrow> 0 < k \<Longrightarrow> length (show_nat n) \<le> k"
proof (induction k arbitrary: n)
  case 0
  then show ?case by simp
next
  case (Suc k)
  show ?case
  proof (cases "n < 10")
    case True
    then show ?thesis by (simp add: show_nat.simps [of n])
  next
    case False
    then have "0 < k" using Suc.prems by (cases k) auto
    moreover have "n div 10 < 10 ^ k" using Suc.prems by simp
    ultimately have "length (show_nat (n div 10)) \<le> k" by (rule Suc.IH [rotated])
    with False show ?thesis by (simp add: show_nat.simps [of n])
  qed
qed

lemma length_show_int:
  assumes "in_s32 i" shows "length (show_int i) \<le> 11"
proof -
  have "nat (- i) < 10 ^ 10" and "nat i < 10 ^ 10" using assms by (auto simp: in_s32_def)
  from this [THEN length_show_nat] show ?thesis by (auto simp: show_int_def)
qed

lemma show_int_nonempty [simp]: "show_int i \<noteq> []"
  using show_nat_hd [of "nat i"] by (auto simp: show_int_def)

text \<open>
  C18. Round trip of the attribute files: an \<^verbatim>\<open>int\<close> that is not negative, written by
  \<^verbatim>\<open>csys_fs::write(path, unsigned int)\<close> to an attribute that stores what it accepts, is what
  \<^verbatim>\<open>csys_fs::read(path, int *)\<close> returns afterwards, with a positive return value.
\<close>

theorem sysfs_write_read_roundtrip:
  assumes "\<not> e_link e p" and "e_files e p \<noteq> None"
    and "\<And>fs. e_kwrite e p (show_int v) fs = (int (length (show_int v)), fs(p \<mapsto> Text (show_int v)))"
    and "0 \<le> v" and "v \<le> INT_MAX"
  shows "sysfs_read_int (snd (sysfs_write_uint e p v)) p old = (int (length (show_int v)), v)"
proof -
  have v: "in_s32 v" using assms(4,5) by (simp add: in_s32_def INT_MAX_def)
  have "u32_of v = v" using assms(4,5) by (simp add: INT_MAX_def)
  then have "snd (sysfs_write_uint e p v) = e\<lparr>e_files := (e_files e)(p \<mapsto> Text (show_int v))\<rparr>"
    using assms(1-3) by (auto simp: sysfs_write_uint_def sysfs_write_def)
  moreover have "take 15 (show_int v) = show_int v"
    using length_show_int [OF v] by simp
  ultimately show ?thesis
    using assms(1) v by (simp add: sysfs_read_int_def atoi_show_int Let_def)
qed

text \<open>A kernel that accepts and stores every write, on files that are not links.\<close>

definition stores :: "'a env_scheme \<Rightarrow> bool" where
  "stores e \<longleftrightarrow> e_link e = (\<lambda>_. False) \<and>
     e_kwrite e = (\<lambda>p b fs. (int (length b), fs(p \<mapsto> Text b)))"

lemma stores_write:
  "stores e \<Longrightarrow> sysfs_write e p b =
     (if e_files e p = None then (- ENOENT, e)
      else (int (length b), e\<lparr>e_files := (e_files e)(p \<mapsto> Text b)\<rparr>))"
  by (auto simp: stores_def sysfs_write_def split: option.splits)

lemma stores_files [simp]: "stores (e\<lparr>e_files := fs\<rparr>) = stores e"
  by (simp add: stores_def)

lemma files_only_stores: "files_only e e' \<Longrightarrow> stores e' = stores e"
  by (auto simp: files_only_def)

lemma stores_read_int:
  assumes "stores e" "e_files e p = Some (Text (show_int v))" "in_s32 v"
  shows "sysfs_read_int e p old = (int (length (show_int v)), v)"
proof -
  have "take 15 (show_int v) = show_int v" using length_show_int [OF assms(3)] by simp
  with assms show ?thesis by (simp add: sysfs_read_int_def stores_def atoi_show_int Let_def)
qed

text \<open>An environment whose attributes store what is written to them.\<close>

definition storing_env :: "int \<Rightarrow> files \<Rightarrow> env" where
  "storing_env t fs = \<lparr>e_now = t, e_files = fs, e_link = (\<lambda>_. False),
     e_kwrite = (\<lambda>p b fs. (int (length b), fs(p \<mapsto> Text b))), e_ksleep = (\<lambda>_ fs. fs)\<rparr>"

theorem sysfs_write_read_roundtrip_witness:
  "sysfs_read_int (snd (sysfs_write_uint (storing_env 0 [''cur_state'' \<mapsto> Text ''0'']) ''cur_state'' 42))
     ''cur_state'' 0 = (int (length (show_int 42)), 42)"
  by (rule sysfs_write_read_roundtrip) (simp_all add: storing_env_def INT_MAX_def)

end
