(* ===== verification/Thd_PowerMeter.thy ===== *)
theory Thd_PowerMeter
  imports Thd_SysFs
begin

text \<open>
  The RAPL power meter, \<^verbatim>\<open>thd_rapl_power_meter.cpp\<close>: per domain energy counters in
  milli-joule, the power computed from two readings, and the running minimum and maximum.
  Counters are 64 bit and powers 32 bit words, as declared.
\<close>

unbundle bit_operations_syntax

datatype domain_type = INVALID | PACKAGE | DRAM | CORE | UNCORE

record rapl_domain =
  rd_type :: domain_type
  rd_name :: string
  rd_path :: string
  rd_max_energy_range :: u64
  rd_max_energy_range_threshold :: u64
  rd_half_way :: bool
  rd_energy_cumulative_counter :: u64
  rd_energy_counter :: u64
  rd_power :: u32
  rd_max_power :: u32
  rd_min_power :: u32

record power_meter =
  pm_rapl_present :: bool
  pm_domain_list :: "rapl_domain list"
  pm_last_time :: int
  pm_enable_measurement :: bool

text \<open>The environment of the cooling devices: files, clock and the power meter.\<close>

record menv = env +
  e_meter :: power_meter

text \<open>First use of a domain: the range of its counter. The threshold is half the range.\<close>

definition rapl_read_range :: "'a env_scheme \<Rightarrow> rapl_domain \<Rightarrow> rapl_domain" where
  "rapl_read_range e d =
     (if rd_max_energy_range d = 0 then
        (case sysfs_read_ulong e (rd_path d @ ''/'' @ ''max_energy_range_uj'') 0 of (status, v) \<Rightarrow>
           (let d' = (if 0 \<le> status then d\<lparr>rd_max_energy_range := v div 1000\<rparr> else d)
            in d'\<lparr>rd_max_energy_range_threshold := rd_max_energy_range d' div 2\<rparr>))
      else d)"

text \<open>A new reading: the domain, the previous counter value and the correction for a wrap.\<close>

definition rapl_new_counter :: "u64 \<Rightarrow> rapl_domain \<Rightarrow> rapl_domain \<times> u64 \<times> u64" where
  "rapl_new_counter energy_uj d0 =
     (let counter = rd_energy_counter d0;
          d = d0\<lparr>rd_energy_counter := energy_uj div 1000\<rparr>
      in if rd_half_way d \<and> rd_energy_counter d < rd_max_energy_range_threshold d
         then (d\<lparr>rd_energy_cumulative_counter :=
                   rd_energy_cumulative_counter d + rd_max_energy_range d, rd_half_way := False\<rparr>,
               0, rd_max_energy_range d - counter)
         else if rd_max_energy_range_threshold d < rd_energy_counter d
         then (d\<lparr>rd_half_way := True\<rparr>, counter, 0)
         else (d, counter, 0))"

definition rapl_extremes :: "rapl_domain \<Rightarrow> rapl_domain" where
  "rapl_extremes d0 =
     (let d = (if rd_max_power d0 < rd_power d0 then d0\<lparr>rd_max_power := rd_power d0\<rparr> else d0)
      in if rd_min_power d = 0 then d\<lparr>rd_min_power := rd_power d\<rparr>
         else if rd_power d < rd_min_power d then d\<lparr>rd_min_power := rd_power d\<rparr> else d)"

text \<open>The accounting for a reading \<open>energy_uj\<close>, \<open>dt\<close> seconds after the last.\<close>

definition rapl_account :: "int \<Rightarrow> u64 \<Rightarrow> rapl_domain \<Rightarrow> rapl_domain" where
  "rapl_account dt energy_uj d0 =
     (case rapl_new_counter energy_uj d0 of (d, counter, diff) \<Rightarrow>
        rapl_extremes
          (if counter \<noteq> 0
           then d\<lparr>rd_power := ucast ((rd_energy_counter d - counter + diff) div word_of_int dt)\<rparr>
           else d))"

text \<open>One domain of the loop.\<close>

definition rapl_energy_domain :: "'a env_scheme \<Rightarrow> int \<Rightarrow> rapl_domain \<Rightarrow> rapl_domain" where
  "rapl_energy_domain e dt d =
     (let d' = rapl_read_range e d
      in case sysfs_read_ulong e (rd_path d' @ ''/'' @ ''energy_uj'') 0 of (status, energy_uj) \<Rightarrow>
           if 0 \<le> status then rapl_account dt energy_uj d' else d')"

definition rapl_energy_loop :: "menv \<Rightarrow> bool \<times> menv" where
  "rapl_energy_loop e =
     (let m = e_meter e in
      if \<not> pm_enable_measurement m then (False, e)
      else if e_now e - pm_last_time m \<le> 0 then (True, e)
      else (True, e\<lparr>e_meter := m\<lparr>pm_domain_list :=
                map (rapl_energy_domain e (e_now e - pm_last_time m)) (pm_domain_list m),
              pm_last_time := e_now e\<rparr>\<rparr>))"

definition rapl_start_measure_power :: "menv \<Rightarrow> menv" where
  "rapl_start_measure_power e = e\<lparr>e_meter := (e_meter e)\<lparr>pm_enable_measurement := True\<rparr>\<rparr>"

definition rapl_stop_measure_power :: "menv \<Rightarrow> menv" where
  "rapl_stop_measure_power e = e\<lparr>e_meter := (e_meter e)\<lparr>pm_enable_measurement := False\<rparr>\<rparr>"

definition rapl_measure_power :: "menv \<Rightarrow> menv" where
  "rapl_measure_power e =
     (if pm_rapl_present (e_meter e) \<and> pm_enable_measurement (e_meter e)
      then snd (rapl_energy_loop e) else e)"

definition find_domain :: "domain_type \<Rightarrow> menv \<Rightarrow> rapl_domain option" where
  "find_domain ty e = List.find (\<lambda>d. rd_type d = ty) (pm_domain_list (e_meter e))"

text \<open>The retry of the readers: measure, sleep a second, measure again.\<close>

definition rapl_remeasure :: "menv \<Rightarrow> menv" where
  "rapl_remeasure e = snd (rapl_energy_loop (env_sleep (snd (rapl_energy_loop e)) 1))"

definition rapl_action_get_energy :: "domain_type \<Rightarrow> menv \<Rightarrow> u64 \<times> menv" where
  "rapl_action_get_energy ty e =
     (case find_domain ty e of None \<Rightarrow> (0, e)
      | Some d \<Rightarrow>
          (let value = (rd_energy_counter d + rd_energy_cumulative_counter d) * 1000
           in if value = 0 then
                (let e' = snd (rapl_energy_loop e)
                 in case find_domain ty e' of None \<Rightarrow> (0, e')
                    | Some d' \<Rightarrow> ((rd_energy_counter d' + rd_energy_cumulative_counter d') * 1000, e'))
              else (value, e)))"

definition rapl_action_get_power :: "domain_type \<Rightarrow> menv \<Rightarrow> u32 \<times> menv" where
  "rapl_action_get_power ty e =
     (if \<not> pm_rapl_present (e_meter e) then (0, e)
      else case find_domain ty e of None \<Rightarrow> (0, e)
      | Some d \<Rightarrow>
          (if rd_power d * 1000 = 0 then
             (let e' = rapl_remeasure e
              in case find_domain ty e' of None \<Rightarrow> (0, e')
                 | Some d' \<Rightarrow> (rd_power d' * 1000, e'))
           else (rd_power d * 1000, e)))"

text \<open>The overload that also reports the extremes; its results are power, maximum, minimum.\<close>

definition rapl_action_get_power_range ::
    "domain_type \<Rightarrow> u32 \<Rightarrow> u32 \<Rightarrow> menv \<Rightarrow> (u32 \<times> u32 \<times> u32) \<times> menv" where
  "rapl_action_get_power_range ty max0 min0 e =
     (if \<not> pm_rapl_present (e_meter e) then ((0, max0, min0), e)
      else case find_domain ty e of None \<Rightarrow> ((0, max0, min0), e)
      | Some d \<Rightarrow>
          (let e' = (if rd_power d * 1000 = 0 then rapl_remeasure e else e)
           in case find_domain ty e' of None \<Rightarrow> ((0, max0, min0), e')
              | Some d' \<Rightarrow> ((rd_power d' * 1000, rd_max_power d' * 1000, rd_min_power d' * 1000), e')))"

definition rapl_action_get_last_power :: "domain_type \<Rightarrow> menv \<Rightarrow> u32" where
  "rapl_action_get_last_power ty e =
     (if \<not> pm_rapl_present (e_meter e) then 0
      else case find_domain ty e of None \<Rightarrow> 0 | Some d \<Rightarrow> rd_power d * 1000)"

text \<open>The larger of the two constraint limits, for the first domain of the type that has one.\<close>

definition constraint_max :: "'a env_scheme \<Rightarrow> string \<Rightarrow> u32" where
  "constraint_max e p = (case sysfs_read_int e p 0 of (status, v) \<Rightarrow>
     if 0 \<le> status \<and> 0 < v then word_of_int v else 0)"

fun get_max_power_list :: "'a env_scheme \<Rightarrow> domain_type \<Rightarrow> rapl_domain list \<Rightarrow> u32" where
  "get_max_power_list e ty [] = 0"
| "get_max_power_list e ty (d # ds) =
     (if ty = rd_type d then
        (let c0 = constraint_max e (rd_path d @ ''/'' @ ''constraint_0_max_power_uw'');
             c1 = constraint_max e (rd_path d @ ''/'' @ ''constraint_1_max_power_uw'');
             value = (if c0 < c1 then c1 else c0)
         in if value \<noteq> 0 then value else get_max_power_list e ty ds)
      else get_max_power_list e ty ds)"

definition rapl_action_get_max_power :: "domain_type \<Rightarrow> menv \<Rightarrow> u32" where
  "rapl_action_get_max_power ty e =
     (if \<not> pm_rapl_present (e_meter e) then 0
      else get_max_power_list e ty (pm_domain_list (e_meter e)))"

section \<open>Lemmas\<close>

lemma rapl_energy_loop_env [thd_frame]:
  "e_now (snd (rapl_energy_loop e)) = e_now e"
  "e_files (snd (rapl_energy_loop e)) = e_files e"
  "e_link (snd (rapl_energy_loop e)) = e_link e"
  "e_kwrite (snd (rapl_energy_loop e)) = e_kwrite e"
  by (simp_all add: rapl_energy_loop_def Let_def)

lemma rapl_action_get_power_kernel [thd_frame]:
  "e_link (snd (rapl_action_get_power ty e)) = e_link e"
  "e_kwrite (snd (rapl_action_get_power ty e)) = e_kwrite e"
  by (auto simp: rapl_action_get_power_def rapl_remeasure_def env_sleep_def Let_def thd_frame
      split: option.splits)

text \<open>The recorded extremes enclose the current power.\<close>

definition power_in_range :: "rapl_domain \<Rightarrow> bool" where
  "power_in_range d \<longleftrightarrow> rd_min_power d \<le> rd_power d \<and> rd_power d \<le> rd_max_power d"

lemma rapl_extremes_in_range: "power_in_range (rapl_extremes d)"
  by (auto simp: power_in_range_def rapl_extremes_def Let_def)

lemma rapl_extremes_frame [simp]:
  "rd_power (rapl_extremes d) = rd_power d"
  "rd_half_way (rapl_extremes d) = rd_half_way d"
  "rd_energy_counter (rapl_extremes d) = rd_energy_counter d"
  "rd_energy_cumulative_counter (rapl_extremes d) = rd_energy_cumulative_counter d"
  by (simp_all add: rapl_extremes_def Let_def)

lemma rapl_account_in_range: "power_in_range (rapl_account dt v d)"
  by (simp add: rapl_account_def rapl_extremes_in_range split: prod.splits)

lemma rapl_read_range_power [simp]:
  "rd_power (rapl_read_range e d) = rd_power d"
  "rd_min_power (rapl_read_range e d) = rd_min_power d"
  "rd_max_power (rapl_read_range e d) = rd_max_power d"
  "rd_type (rapl_read_range e d) = rd_type d"
  by (auto simp: rapl_read_range_def Let_def split: prod.splits)

lemma rapl_energy_domain_in_range:
  "power_in_range d \<Longrightarrow> power_in_range (rapl_energy_domain e dt d)"
  by (auto simp: rapl_energy_domain_def Let_def rapl_account_in_range split: prod.splits)
    (simp add: power_in_range_def)

definition meter_inv :: "menv \<Rightarrow> bool" where
  "meter_inv e \<longleftrightarrow> list_all power_in_range (pm_domain_list (e_meter e))"

lemma rapl_energy_loop_inv: "meter_inv e \<Longrightarrow> meter_inv (snd (rapl_energy_loop e))"
  by (auto simp: meter_inv_def rapl_energy_loop_def Let_def list_all_iff rapl_energy_domain_in_range)

lemma env_sleep_inv: "meter_inv (env_sleep e n) = meter_inv e"
  by (simp add: meter_inv_def env_sleep_def)

lemma rapl_remeasure_inv: "meter_inv e \<Longrightarrow> meter_inv (rapl_remeasure e)"
  by (simp add: rapl_remeasure_def rapl_energy_loop_inv env_sleep_inv)

text \<open>
  C7. Invariant of the power meter: every operation that changes the meter keeps, for every
  domain, the recorded minimum at most the current power and the current power at most the
  recorded maximum.
\<close>

theorem power_meter_invariant:
  assumes "meter_inv e"
  shows "meter_inv (snd (rapl_energy_loop e)) \<and> meter_inv (rapl_measure_power e)
     \<and> meter_inv (rapl_start_measure_power e) \<and> meter_inv (rapl_stop_measure_power e)
     \<and> meter_inv (snd (rapl_action_get_power ty e)) \<and> meter_inv (snd (rapl_action_get_energy ty e))
     \<and> meter_inv (snd (rapl_action_get_power_range ty mx mn e))"
  using assms rapl_energy_loop_inv [OF assms] rapl_remeasure_inv [OF assms]
  by (auto simp: rapl_measure_power_def rapl_start_measure_power_def rapl_stop_measure_power_def
      rapl_action_get_power_def rapl_action_get_energy_def rapl_action_get_power_range_def Let_def
      split: option.splits)
    (simp_all add: meter_inv_def)

definition demo_domain :: rapl_domain where
  "demo_domain = \<lparr>rd_type = PACKAGE, rd_name = ''package-0'', rd_path = ''/p'',
     rd_max_energy_range = 1000, rd_max_energy_range_threshold = 500, rd_half_way = False,
     rd_energy_cumulative_counter = 0, rd_energy_counter = 100, rd_power = 5, rd_max_power = 9,
     rd_min_power = 3\<rparr>"

definition demo_meter :: "files \<Rightarrow> menv" where
  "demo_meter fs = \<lparr>e_now = 20, e_files = fs, e_link = (\<lambda>_. False),
     e_kwrite = (\<lambda>p b fs. (int (length b), fs(p \<mapsto> Text b))), e_ksleep = (\<lambda>_ fs. fs),
     e_meter = \<lparr>pm_rapl_present = True, pm_domain_list = [demo_domain], pm_last_time = 10,
                pm_enable_measurement = True\<rparr>\<rparr>"

theorem power_meter_invariant_witness:
  "meter_inv (snd (rapl_energy_loop (demo_meter [''/p/energy_uj'' \<mapsto> Text ''400000''])))"
proof -
  have "meter_inv (demo_meter [''/p/energy_uj'' \<mapsto> Text ''400000''])"
    by (simp add: meter_inv_def demo_meter_def demo_domain_def power_in_range_def)
  from power_meter_invariant [OF this] show ?thesis by blast
qed

text \<open>
  Between two readings without a wrap of the counter, the power is the energy difference in
  milli-joule divided by the seconds elapsed, cut to 32 bits.
\<close>

theorem rapl_account_power:
  assumes "rd_energy_counter d \<noteq> 0"
    and "\<not> rd_half_way d \<or> rd_max_energy_range_threshold d \<le> v div 1000"
    and "rd_energy_counter d \<le> v div 1000" and "0 < dt" and "dt < 2 ^ 63"
  shows "unat (rd_power (rapl_account dt v d))
     = ((unat v div 1000 - unat (rd_energy_counter d)) div nat dt) mod 2 ^ 32"
proof -
  have nw: "\<not> (rd_half_way d \<and> v div 1000 < rd_max_energy_range_threshold d)"
    using assms(2) by auto
  have dt: "unat (word_of_int dt :: u64) = nat dt"
    using assms(4,5) by (simp add: unat_eq_nat_uint uint_word_of_int)
  have "rd_power (rapl_account dt v d) = ucast ((v div 1000 - rd_energy_counter d) div word_of_int dt)"
    using assms(1) nw by (auto simp: rapl_account_def rapl_new_counter_def Let_def)
  moreover have "unat (v div 1000 - rd_energy_counter d) = unat v div 1000 - unat (rd_energy_counter d)"
    using assms(3) by (simp add: unat_sub unat_div)
  ultimately show ?thesis
    by (simp add: unat_div dt take_bit_nat_def unsigned_ucast_eq)
qed

theorem rapl_account_power_witness:
  "unat (rd_power (rapl_account 10 400000 demo_domain))
     = ((unat (400000 :: u64) div 1000 - unat (rd_energy_counter demo_domain)) div nat 10) mod 2 ^ 32"
  by (rule rapl_account_power) (simp_all add: demo_domain_def)

text \<open>
  When the counter wraps (the domain was past half of its range and the new reading is below
  it) the range is added to the cumulative counter, but the reported power keeps its old value:
  the previous reading is cleared before the test that guards the power computation.
\<close>

theorem rapl_account_wrap_keeps_power:
  assumes "rd_half_way d" and "v div 1000 < rd_max_energy_range_threshold d"
  shows "rd_power (rapl_account dt v d) = rd_power d
     \<and> rd_energy_cumulative_counter (rapl_account dt v d)
         = rd_energy_cumulative_counter d + rd_max_energy_range d
     \<and> \<not> rd_half_way (rapl_account dt v d)"
  using assms by (simp add: rapl_account_def rapl_new_counter_def Let_def)

theorem rapl_account_wrap_keeps_power_witness:
  "rd_power (rapl_account 10 50000 (demo_domain\<lparr>rd_half_way := True, rd_energy_counter := 900\<rparr>)) = 5"
proof -
  have "rd_half_way (demo_domain\<lparr>rd_half_way := True, rd_energy_counter := 900\<rparr>)"
    and "(50000 :: u64) div 1000
      < rd_max_energy_range_threshold (demo_domain\<lparr>rd_half_way := True, rd_energy_counter := 900\<rparr>)"
    by (simp_all add: demo_domain_def)
  from rapl_account_wrap_keeps_power [OF this, of 10] show ?thesis by (simp add: demo_domain_def)
qed

end
