(* ===== verification/Thd_Pid.thy ===== *)
theory Thd_Pid
  imports Thd_Prelude
begin

text \<open>
  The PID controller of \<^verbatim>\<open>thd_pid.cpp\<close>. The gains and accumulators are \<^verbatim>\<open>double\<close>
  values; every arithmetic operation is rounded by \<open>f64\<close> in the order the source evaluates it.
\<close>

record pid_param =
  pp_valid :: int
  pp_kp :: rat
  pp_ki :: rat
  pp_kd :: rat

record pid =
  pid_err_sum :: rat
  pid_last_err :: rat
  pid_last_time :: int
  pid_target_temp :: u32
  pid_kp :: rat
  pid_ki :: rat
  pid_kd :: rat

text \<open>The constructor.\<close>

definition cthd_pid :: pid where
  "cthd_pid = \<lparr>pid_err_sum = 0, pid_last_err = 0, pid_last_time = 0, pid_target_temp = 0,
     pid_kp = f64 (5 / 10000), pid_ki = f64 (1 / 10000), pid_kd = f64 (1 / 10000)\<rparr>"

definition set_pid_param :: "rat \<Rightarrow> rat \<Rightarrow> rat \<Rightarrow> pid \<Rightarrow> pid" where
  "set_pid_param kp ki kd p = p\<lparr>pid_kp := kp, pid_ki := ki, pid_kd := kd\<rparr>"

definition set_target_temp :: "u32 \<Rightarrow> pid \<Rightarrow> pid" where
  "set_target_temp t p = p\<lparr>pid_target_temp := t\<rparr>"

definition pid_reset :: "pid \<Rightarrow> pid" where
  "pid_reset p = p\<lparr>pid_err_sum := 0, pid_last_err := 0, pid_last_time := 0\<rparr>"

text \<open>
  \<^verbatim>\<open>pid_output(curr_temp, initial_value)\<close> at time \<open>now\<close>. The error is the wrapped
  unsigned difference read as \<^verbatim>\<open>int\<close>. On the first call the integral term is initialised so
  that the output starts at \<open>initial_value\<close>.
\<close>

definition pid_output :: "int \<Rightarrow> u32 \<Rightarrow> int \<Rightarrow> pid \<Rightarrow> int \<times> pid" where
  "pid_output now curr_temp initial_value p =
     (let err = sint (curr_temp - pid_target_temp p);
          first = (pid_last_time p = 0);
          last_time = (if first then now else pid_last_time p);
          err_sum0 =
            (if first then
               (if pid_ki p \<noteq> 0
                then f64 (f64 (of_int initial_value - f64 (pid_kp p * of_int err)) / pid_ki p)
                else 0)
             else pid_err_sum p);
          timeChange = now - last_time;
          err_sum = f64 (err_sum0 + f64 (of_int (err * timeChange)));
          d_err = (if timeChange \<noteq> 0
                   then f64 (f64 (of_int err - pid_last_err p) / f64 (of_int timeChange)) else 0);
          output = f64 (f64 (f64 (pid_kp p * of_int err) + f64 (pid_ki p * err_sum))
                        + f64 (pid_kd p * d_err))
      in (rat_trunc output,
          p\<lparr>pid_err_sum := err_sum, pid_last_err := of_int err, pid_last_time := now\<rparr>))"

lemma pid_output_keeps [thd_frame]:
  "pid_target_temp (snd (pid_output now t i p)) = pid_target_temp p"
  "pid_kp (snd (pid_output now t i p)) = pid_kp p"
  "pid_ki (snd (pid_output now t i p)) = pid_ki p"
  "pid_kd (snd (pid_output now t i p)) = pid_kd p"
  by (simp_all add: pid_output_def Let_def)

lemma pid_output_last_time: "pid_last_time (snd (pid_output now t i p)) = now"
  by (simp add: pid_output_def Let_def)

text \<open>The error is exact for temperatures below \<open>2^31\<close>.\<close>

lemma pid_error_exact:
  assumes "unat c < 2147483648" and "unat t < 2147483648"
  shows "sint (c - t :: u32) = int (unat c) - int (unat t)"
proof -
  have "in_s32 (uint c - uint t)"
    using assms uint_ge_0 [of c] uint_ge_0 [of t] unfolding in_s32_def unat_lt_iff_uint by linarith
  then show ?thesis by (simp add: sint_minus_s32)
qed

end
