(* ===== verification/Thd_CdevDrv.thy ===== *)
theory Thd_CdevDrv
  imports Thd_PowerMeter Thd_Pid
begin

text \<open>
  Cooling devices and their drivers: the state of \<^verbatim>\<open>cthd_cdev\<close> (\<^verbatim>\<open>thd_cdev.h\<close>) and the
  classes derived from it: thermal sysfs (\<^verbatim>\<open>thd_cdev_therm_sys_fs.cpp\<close>), an arbitrary sysfs
  file (\<^verbatim>\<open>thd_cdev_gen_sysfs.cpp\<close>), RAPL power limits (\<^verbatim>\<open>thd_cdev_rapl.cpp\<close>,
  \<^verbatim>\<open>thd_cdev_rapl_dram.cpp\<close>), cpufreq (\<^verbatim>\<open>thd_cdev_cpufreq.cpp\<close>), intel_pstate
  (\<^verbatim>\<open>thd_cdev_intel_pstate_driver.cpp\<close>) and the LCD backlight
  (\<^verbatim>\<open>thd_cdev_backlight.cpp\<close>).

  The base class is the record \<open>cdev\<close>; what a derived class adds is the argument of its
  constructor of \<open>driver\<close>, and a virtual method is a function that dispatches on it.
\<close>

section \<open>State\<close>

record zone_trip_limits =
  zl_zone :: int
  zl_trip :: int
  zl_target_state_valid :: int
  zl_target_value :: int
  zl_min_state :: int
  zl_max_state :: int
  zl_min_max_valid :: int

record rapl =
  rp_phy_max :: int
  rp_constraint_index :: int
  rp_pl2_index :: int
  rp_dynamic_phy_max_enable :: bool
  rp_pl0_max_pwr :: int
  rp_pl0_min_pwr :: int
  rp_pl0_min_window :: int
  rp_pl0_max_window :: int
  rp_pl0_step_pwr :: int
  rp_pl1_max_pwr :: int
  rp_pl1_min_pwr :: int
  rp_pl1_min_window :: int
  rp_pl1_max_window :: int
  rp_pl1_step_pwr :: int
  rp_pl1_valid :: int
  rp_bios_locked :: bool
  rp_constrained :: bool
  rp_power_on_constraint_0_pwr :: int
  rp_power_on_constraint_0_time_window :: int
  rp_power_on_enable_status :: int
  rp_device_name :: string

record cpufreq =
  cf_cpu_start_index :: int
  cf_cpu_end_index :: int
  cf_cpufreqs :: "int list"
  cf_pstate_active_freq_index :: int
  cf_cpu_index :: int

record pstate =
  ps_unit_value :: rat
  ps_min_compensation :: int
  ps_turbo_status :: bool

record backlight =
  bl_ref_backlight_state :: int
  bl_min_back_light :: int

datatype driver =
    Drv_base
  | Drv_sysfs
  | Drv_gen_sysfs
  | Drv_rapl rapl
  | Drv_cpufreq cpufreq
  | Drv_pstate pstate
  | Drv_backlight backlight

record cdev =
  cd_index :: int
  cd_base_path :: string
  cd_max_state :: int
  cd_min_state :: int
  cd_curr_state :: int
  cd_curr_pow :: nat
  cd_base_pow_state :: int
  cd_inc_dec_val :: int
  cd_auto_down_adjust :: bool
  cd_read_back :: bool
  cd_type_str :: string
  cd_alias_str :: string
  cd_debounce_interval :: int
  cd_last_action_time :: int
  cd_trend_increase :: bool
  cd_pid_enable :: bool
  cd_pid_ctrl :: pid
  cd_last_state :: int
  cd_zone_trip_limits :: "zone_trip_limits list"
  cd_write_prefix :: string
  cd_inc_val :: int
  cd_dec_val :: int
  cd_driver :: driver

definition default_debounce_interval :: int where "default_debounce_interval = 2"
definition default_max_exponent :: nat where "default_max_exponent = 20"

text \<open>The constructor of the base class, and those of the derived classes.\<close>

definition cthd_cdev :: "int \<Rightarrow> string \<Rightarrow> driver \<Rightarrow> cdev" where
  "cthd_cdev idx control_path drv = \<lparr>cd_index = idx, cd_base_path = control_path,
     cd_max_state = 0, cd_min_state = 0, cd_curr_state = 0, cd_curr_pow = 0,
     cd_base_pow_state = 0, cd_inc_dec_val = 1, cd_auto_down_adjust = False, cd_read_back = True,
     cd_type_str = [], cd_alias_str = [], cd_debounce_interval = default_debounce_interval,
     cd_last_action_time = 0, cd_trend_increase = False, cd_pid_enable = False,
     cd_pid_ctrl = cthd_pid, cd_last_state = 0, cd_zone_trip_limits = [], cd_write_prefix = [],
     cd_inc_val = 0, cd_dec_val = 0, cd_driver = drv\<rparr>"

definition rapl_init :: "string \<Rightarrow> rapl" where
  "rapl_init name = \<lparr>rp_phy_max = 0, rp_constraint_index = 0, rp_pl2_index = -1,
     rp_dynamic_phy_max_enable = False, rp_pl0_max_pwr = 0, rp_pl0_min_pwr = 0,
     rp_pl0_min_window = 0, rp_pl0_max_window = 0, rp_pl0_step_pwr = 0, rp_pl1_max_pwr = 0,
     rp_pl1_min_pwr = 0, rp_pl1_min_window = 0, rp_pl1_max_window = 0, rp_pl1_step_pwr = 0,
     rp_pl1_valid = 0, rp_bios_locked = False, rp_constrained = False,
     rp_power_on_constraint_0_pwr = 0, rp_power_on_constraint_0_time_window = 0,
     rp_power_on_enable_status = 0, rp_device_name = name\<rparr>"

definition cthd_sysfs_cdev_rapl :: "int \<Rightarrow> string \<Rightarrow> cdev" where
  "cthd_sysfs_cdev_rapl idx path = cthd_cdev idx path (Drv_rapl (rapl_init ''TCPU.D0''))"

definition cthd_sysfs_cdev_rapl_dram :: "int \<Rightarrow> cdev" where
  "cthd_sysfs_cdev_rapl_dram idx =
     cthd_cdev idx ''/sys/devices/virtual/powercap/intel-rapl/intel-rapl:0/''
       (Drv_rapl (rapl_init ''TMEM.D0''))"

definition cthd_cdev_cpufreq :: "int \<Rightarrow> int \<Rightarrow> cdev" where
  "cthd_cdev_cpufreq idx cpu = cthd_cdev idx ''/sys/devices/system/cpu/''
     (Drv_cpufreq \<lparr>cf_cpu_start_index = 0, cf_cpu_end_index = 0, cf_cpufreqs = [],
        cf_pstate_active_freq_index = 0, cf_cpu_index = cpu\<rparr>)"

definition cthd_intel_p_state_cdev :: "int \<Rightarrow> cdev" where
  "cthd_intel_p_state_cdev idx = cthd_cdev idx ''/sys/devices/system/cpu/intel_pstate/''
     (Drv_pstate \<lparr>ps_unit_value = 1, ps_min_compensation = 0, ps_turbo_status = False\<rparr>)"

text \<open>The attribute files of a device.\<close>

definition cd_attr :: "cdev \<Rightarrow> string \<Rightarrow> string" where
  "cd_attr c s = cd_base_path c @ s"

definition therm_attr :: "cdev \<Rightarrow> string \<Rightarrow> string" where
  "therm_attr c s = cd_attr c (''cooling_device'' @ show_int (cd_index c) @ s)"

section \<open>RAPL: limits, windows and the enable flag\<close>

definition constraint_attr :: "cdev \<Rightarrow> int \<Rightarrow> string \<Rightarrow> string" where
  "constraint_attr c i s = cd_attr c (''constraint_'' @ show_int i @ s)"

text \<open>A read of the RAPL readers: the value, or \<^verbatim>\<open>THD_ERROR\<close>.\<close>

definition rapl_read :: "menv \<Rightarrow> string \<Rightarrow> int" where
  "rapl_read e p = (case sysfs_read_int e p 0 of (ret, v) \<Rightarrow> if 0 < ret then v else THD_ERROR)"

text \<open>A write of the updaters that report \<^verbatim>\<open>THD_ERROR\<close>.\<close>

definition rapl_write :: "menv \<Rightarrow> string \<Rightarrow> int \<Rightarrow> int \<times> menv" where
  "rapl_write e p v = (case sysfs_write_uint e p v of (ret, e') \<Rightarrow>
     (if ret \<le> 0 then THD_ERROR else THD_SUCCESS, e'))"

text \<open>A write of the updaters that pass the error on.\<close>

definition rapl_write_ret :: "menv \<Rightarrow> string \<Rightarrow> int \<Rightarrow> int \<times> menv" where
  "rapl_write_ret e p v = (case sysfs_write_uint e p v of (ret, e') \<Rightarrow>
     (if ret \<le> 0 then ret else THD_SUCCESS, e'))"

definition rapl_read_pl1_max :: "menv \<Rightarrow> rapl \<Rightarrow> cdev \<Rightarrow> int" where
  "rapl_read_pl1_max e r c = rapl_read e (constraint_attr c (rp_constraint_index r) ''_max_power_uw'')"

definition rapl_read_pl1 :: "menv \<Rightarrow> rapl \<Rightarrow> cdev \<Rightarrow> int" where
  "rapl_read_pl1 e r c = rapl_read e (constraint_attr c (rp_constraint_index r) ''_power_limit_uw'')"

definition rapl_update_pl1 :: "menv \<Rightarrow> rapl \<Rightarrow> cdev \<Rightarrow> int \<Rightarrow> int \<times> menv" where
  "rapl_update_pl1 e r c pl1 =
     rapl_write_ret e (constraint_attr c (rp_constraint_index r) ''_power_limit_uw'') pl1"

definition rapl_read_pl2 :: "menv \<Rightarrow> rapl \<Rightarrow> cdev \<Rightarrow> int" where
  "rapl_read_pl2 e r c = rapl_read e (constraint_attr c (rp_pl2_index r) ''_power_limit_uw'')"

definition rapl_update_pl2 :: "menv \<Rightarrow> rapl \<Rightarrow> cdev \<Rightarrow> int \<Rightarrow> int \<times> menv" where
  "rapl_update_pl2 e r c pl2 =
     (if rp_pl2_index r = -1 then (THD_ERROR, e)
      else rapl_write_ret e (constraint_attr c (rp_pl2_index r) ''_power_limit_uw'') pl2)"

definition rapl_read_time_window :: "menv \<Rightarrow> rapl \<Rightarrow> cdev \<Rightarrow> int" where
  "rapl_read_time_window e r c =
     rapl_read e (constraint_attr c (rp_constraint_index r) ''_time_window_us'')"

definition rapl_update_time_window :: "menv \<Rightarrow> rapl \<Rightarrow> cdev \<Rightarrow> int \<Rightarrow> int \<times> menv" where
  "rapl_update_time_window e r c w =
     rapl_write e (constraint_attr c (rp_constraint_index r) ''_time_window_us'') w"

definition rapl_update_pl2_time_window :: "menv \<Rightarrow> rapl \<Rightarrow> cdev \<Rightarrow> int \<Rightarrow> int \<times> menv" where
  "rapl_update_pl2_time_window e r c w =
     rapl_write e (constraint_attr c (rp_pl2_index r) ''_time_window_us'') w"

definition rapl_update_enable_status :: "menv \<Rightarrow> cdev \<Rightarrow> int \<Rightarrow> int \<times> menv" where
  "rapl_update_enable_status e c enable = rapl_write e (cd_attr c ''enabled'') enable"

definition rapl_read_enable_status :: "menv \<Rightarrow> cdev \<Rightarrow> int" where
  "rapl_read_enable_status e c = rapl_read e (cd_attr c ''enabled'')"

definition set_tcc :: "menv \<Rightarrow> int \<Rightarrow> menv" where
  "set_tcc e tcc =
     (let p = ''/sys/bus/pci/devices/0000:00:04.0/'' @ ''tcc_offset_degree_celsius''
      in if sysfs_exists e p then snd (sysfs_write_uint e p tcc) else e)"

section \<open>Setting a state\<close>

definition def_rapl_time_window :: int where "def_rapl_time_window = 1000000"
definition rapl_min_default_step :: int where "rapl_min_default_step = 500000"
definition rapl_max_sane_phy_max :: int where "rapl_max_sane_phy_max = 1000000000"

text \<open>
  RAPL \<^verbatim>\<open>set_curr_state\<close>. States are power limits, \<open>cd_max_state\<close> the lowest. The
  request is first raised to \<open>cd_max_state\<close>; a value at or above \<open>cd_min_state\<close> releases the
  device, otherwise the first throttling request sets window and enable flag.
\<close>

definition rapl_release :: "menv \<Rightarrow> rapl \<Rightarrow> cdev \<Rightarrow> menv \<times> rapl" where
  "rapl_release e r c =
     (let e1 = (if rp_power_on_enable_status r = 0 then snd (rapl_update_enable_status e c 0) else e);
          e2 = snd (rapl_update_time_window e1 r c (rp_power_on_constraint_0_time_window r))
      in (e2, r\<lparr>rp_constrained := False\<rparr>))"

definition rapl_constrain :: "menv \<Rightarrow> rapl \<Rightarrow> cdev \<Rightarrow> menv \<times> rapl" where
  "rapl_constrain e r c =
     (if \<not> rp_constrained r then
        (let e1 = snd (rapl_update_time_window e r c
               (if rp_pl0_min_window r \<noteq> 0 then rp_pl0_min_window r else def_rapl_time_window));
             e2 = (if rp_power_on_enable_status r = 0
                   then snd (rapl_update_enable_status e1 c 1) else e1)
         in (e2, r\<lparr>rp_constrained := True\<rparr>))
      else (e, r))"

definition rapl_set_curr_state :: "menv \<Rightarrow> rapl \<Rightarrow> cdev \<Rightarrow> int \<Rightarrow> int \<Rightarrow> menv \<times> cdev" where
  "rapl_set_curr_state e r c state control =
     (if rp_bios_locked r then
        (e, c\<lparr>cd_curr_state :=
               (if state \<le> cd_inc_dec_val c then cd_min_state c else cd_max_state c)\<rparr>)
      else
        (let new0 = (if state < cd_max_state c then cd_max_state c else state);
             new_state = (if cd_min_state c \<le> new0
                          then (if rp_power_on_constraint_0_pwr r \<noteq> 0
                                then rp_power_on_constraint_0_pwr r else cd_min_state c)
                          else new0)
         in case (if cd_min_state c \<le> new0 then rapl_release e r c
                  else if control \<noteq> 0 then rapl_constrain e r c else (e, r)) of (e1, r1) \<Rightarrow>
           (case rapl_update_pl1 e1 r1 c new_state of (ret, e2) \<Rightarrow>
              (e2, c\<lparr>cd_curr_state := new_state,
                     cd_driver := Drv_rapl (if ret < 0 \<and> ret = - ENODATA
                                            then r1\<lparr>rp_bios_locked := True\<rparr> else r1)\<rparr>))))"

definition sysfs_set_curr_state :: "menv \<Rightarrow> cdev \<Rightarrow> int \<Rightarrow> menv \<times> cdev" where
  "sysfs_set_curr_state e c state =
     (if sysfs_exists e (therm_attr c ''/cur_state'')
      then (snd (sysfs_write e (therm_attr c ''/cur_state'') (show_int state)),
            c\<lparr>cd_curr_state := state\<rparr>)
      else (e, c\<lparr>cd_curr_state := 0\<rparr>))"

definition gen_sysfs_set_curr_state :: "menv \<Rightarrow> cdev \<Rightarrow> int \<Rightarrow> menv \<times> cdev" where
  "gen_sysfs_set_curr_state e c state =
     (snd (sysfs_write e (cd_attr c []) (cd_write_prefix c @ show_int state)),
      c\<lparr>cd_curr_state := state\<rparr>)"

text \<open>cpufreq: the frequency of the state is written for every CPU from the first to the last. A
  device for a single CPU asks \<^verbatim>\<open>apply_cpu_operation\<close> of the engine, which answers no.\<close>

definition scaling_max_attr :: "cdev \<Rightarrow> int \<Rightarrow> string" where
  "scaling_max_attr c i = cd_attr c (''cpu'' @ show_int i @ ''/cpufreq/scaling_max_freq'')"

definition cpufreq_write_cpu :: "cdev \<Rightarrow> int \<Rightarrow> int \<Rightarrow> menv \<Rightarrow> menv" where
  "cpufreq_write_cpu c freq i e =
     (if sysfs_exists e (scaling_max_attr c i)
      then snd (sysfs_write e (scaling_max_attr c i) (show_int freq)) else e)"

definition apply_cpu_operation :: "int \<Rightarrow> bool" where
  "apply_cpu_operation cpu = False"

definition cpufreq_set_curr_state :: "menv \<Rightarrow> cpufreq \<Rightarrow> cdev \<Rightarrow> int \<Rightarrow> menv \<times> cdev" where
  "cpufreq_set_curr_state e f c state =
     (if 0 \<le> state \<and> state < int (length (cf_cpufreqs f)) then
        (let freq = cf_cpufreqs f ! nat state;
             c' = c\<lparr>cd_curr_state := state,
                    cd_driver := Drv_cpufreq (f\<lparr>cf_pstate_active_freq_index := state\<rparr>)\<rparr>
         in if cf_cpu_index f = -1 then
              (fold (cpufreq_write_cpu c freq) [cf_cpu_start_index f .. cf_cpu_end_index f] e,
               if cf_cpu_start_index f \<le> cf_cpu_end_index f then c' else c)
            else if apply_cpu_operation (cf_cpu_index f)
            then (cpufreq_write_cpu c freq (cf_cpu_index f) e, c') else (e, c))
      else (e, c))"

definition turbo_disable_percent :: int where "turbo_disable_percent = 70"

definition set_turbo_disable_status :: "menv \<Rightarrow> cdev \<Rightarrow> pstate \<Rightarrow> bool \<Rightarrow> menv \<times> pstate" where
  "set_turbo_disable_status e c s enable =
     (if enable = ps_turbo_status s then (e, s)
      else (snd (sysfs_write e (cd_attr c ''/no_turbo'') (if enable then ''1'' else ''0'')),
            s\<lparr>ps_turbo_status := enable\<rparr>))"

text \<open>The percentage of a P state: \<^verbatim>\<open>100 - (state + min_compensation) * unit_value\<close> in
  \<^verbatim>\<open>float\<close>.\<close>

definition pstate_percent :: "pstate \<Rightarrow> int \<Rightarrow> int" where
  "pstate_percent s state =
     (if state = 0 then 100
      else rat_trunc (f32 (100 - f32 (f32 (of_int (state + ps_min_compensation s)) * ps_unit_value s))))"

definition pstate_set_curr_state :: "menv \<Rightarrow> pstate \<Rightarrow> cdev \<Rightarrow> int \<Rightarrow> menv \<times> cdev" where
  "pstate_set_curr_state e s c state =
     (let failed = (if state = 0 then 0 else cd_max_state c)
      in if sysfs_exists e (cd_attr c ''/max_perf_pct'') then
           (let pct = pstate_percent s state
            in case set_turbo_disable_status e c s (pct \<le> turbo_disable_percent) of (e1, s1) \<Rightarrow>
              (case sysfs_write e1 (cd_attr c ''/max_perf_pct'') (show_int pct) of (ret, e2) \<Rightarrow>
                 (e2, c\<lparr>cd_curr_state := (if ret < 0 then failed else state),
                        cd_driver := Drv_pstate s1\<rparr>)))
         else (e, c\<lparr>cd_curr_state := failed\<rparr>))"

definition backlight_restore :: "menv \<Rightarrow> backlight \<Rightarrow> cdev \<Rightarrow> menv \<times> cdev" where
  "backlight_restore e b c =
     (if bl_ref_backlight_state b \<noteq> 0 then
        (case sysfs_write_uint e (cd_attr c ''brightness'') (bl_ref_backlight_state b) of (ret, e') \<Rightarrow>
           if ret < 0 then (e', c)
           else (e', c\<lparr>cd_curr_state := 0, cd_driver := Drv_backlight (b\<lparr>bl_ref_backlight_state := 0\<rparr>)\<rparr>))
      else (e, c\<lparr>cd_curr_state := 0\<rparr>))"

text \<open>The reference brightness: read on the first step into throttling; \<open>None\<close> when that
  read fails.\<close>

definition backlight_ref :: "menv \<Rightarrow> backlight \<Rightarrow> cdev \<Rightarrow> int \<Rightarrow> int option" where
  "backlight_ref e b c state =
     (if bl_ref_backlight_state b = 0 \<and> state = cd_inc_dec_val c then
        (case sysfs_read_int e (cd_attr c ''brightness'') 0 of (ret, v) \<Rightarrow>
           if ret < 0 then None else Some v)
      else Some (bl_ref_backlight_state b))"

definition backlight_value :: "backlight \<Rightarrow> int \<Rightarrow> int \<Rightarrow> int" where
  "backlight_value b ref state =
     (if ref - state \<le> bl_min_back_light b then bl_min_back_light b else ref - state)"

definition backlight_set_curr_state :: "menv \<Rightarrow> backlight \<Rightarrow> cdev \<Rightarrow> int \<Rightarrow> menv \<times> cdev" where
  "backlight_set_curr_state e b c state =
     (if state = 0 then backlight_restore e b c
      else case backlight_ref e b c state of None \<Rightarrow> (e, c)
      | Some ref \<Rightarrow>
          (let c1 = c\<lparr>cd_driver := Drv_backlight (b\<lparr>bl_ref_backlight_state := ref\<rparr>)\<rparr>
           in case sysfs_write_uint e (cd_attr c ''brightness'') (backlight_value b ref state) of (ret, e') \<Rightarrow>
                if ret < 0 then (e', c1) else (e', c1\<lparr>cd_curr_state := state\<rparr>)))"

section \<open>Virtual methods\<close>

definition set_curr_state :: "menv \<Rightarrow> cdev \<Rightarrow> int \<Rightarrow> int \<Rightarrow> menv \<times> cdev" where
  "set_curr_state e c state arg =
     (case cd_driver c of
        Drv_base \<Rightarrow> (e, c)
      | Drv_sysfs \<Rightarrow> sysfs_set_curr_state e c state
      | Drv_gen_sysfs \<Rightarrow> gen_sysfs_set_curr_state e c state
      | Drv_rapl r \<Rightarrow> rapl_set_curr_state e r c state arg
      | Drv_cpufreq f \<Rightarrow> cpufreq_set_curr_state e f c state
      | Drv_pstate s \<Rightarrow> pstate_set_curr_state e s c state
      | Drv_backlight b \<Rightarrow> backlight_set_curr_state e b c state)"

text \<open>The clamp of \<^verbatim>\<open>cthd_cdev::set_curr_state_raw\<close>: first against \<^verbatim>\<open>max_state\<close>, then
  against \<^verbatim>\<open>min_state\<close>.\<close>

definition raw_clamp :: "cdev \<Rightarrow> int \<Rightarrow> int" where
  "raw_clamp c state =
     (let s = (if cd_max_state c < state then cd_max_state c else state)
      in if s < cd_min_state c then cd_min_state c else s)"

definition set_curr_state_raw :: "menv \<Rightarrow> cdev \<Rightarrow> int \<Rightarrow> int \<Rightarrow> menv \<times> cdev" where
  "set_curr_state_raw e c state arg =
     (case cd_driver c of
        Drv_gen_sysfs \<Rightarrow> set_curr_state e c state arg
      | Drv_rapl r \<Rightarrow> set_curr_state e c state arg
      | _ \<Rightarrow> set_curr_state e c (raw_clamp c state) arg)"

text \<open>\<^verbatim>\<open>get_curr_state()\<close>: thermal sysfs devices read the state back and keep what they read.\<close>

definition get_curr_state :: "menv \<Rightarrow> cdev \<Rightarrow> int \<times> cdev" where
  "get_curr_state e c =
     (if cd_driver c = Drv_sysfs \<and> cd_read_back c then
        (if sysfs_exists e (therm_attr c ''/cur_state'') then
           (case sysfs_read_int e (therm_attr c ''/cur_state'') (cd_curr_state c) of (ret, v) \<Rightarrow>
              if ret < 0 then (ret, c) else (v, c\<lparr>cd_curr_state := v\<rparr>))
         else (0, c\<lparr>cd_curr_state := 0\<rparr>))
      else (cd_curr_state c, c))"

text \<open>\<^verbatim>\<open>get_curr_state(true)\<close>: RAPL devices answer with the measured package power, or with
  the programmed limit when that is lower.\<close>

definition rapl_measured_state :: "menv \<Rightarrow> rapl \<Rightarrow> cdev \<Rightarrow> int \<times> menv" where
  "rapl_measured_state e r c =
     (case rapl_action_get_power PACKAGE (rapl_start_measure_power e) of (p, e') \<Rightarrow>
        (let power = sint p; pl1 = rapl_read_pl1 e' r c
         in (if pl1 \<noteq> THD_ERROR \<and> pl1 < power then pl1 else power, e')))"

definition get_curr_state_again :: "menv \<Rightarrow> cdev \<Rightarrow> int \<times> menv" where
  "get_curr_state_again e c =
     (case cd_driver c of
        Drv_rapl r \<Rightarrow> (if rp_dynamic_phy_max_enable r then rapl_measured_state e r c
                      else (cd_curr_state c, e))
      | _ \<Rightarrow> (cd_curr_state c, e))"

text \<open>\<^verbatim>\<open>get_max_state()\<close>: thermal sysfs devices read it again and keep what they read.\<close>

definition get_max_state :: "menv \<Rightarrow> cdev \<Rightarrow> int \<times> cdev" where
  "get_max_state e c =
     (case cd_driver c of
        Drv_sysfs \<Rightarrow>
          (if sysfs_exists e (therm_attr c ''/max_state'') then
             (case sysfs_read_int e (therm_attr c ''/max_state'') (cd_max_state c) of (ret, v) \<Rightarrow>
                if ret < 0 then (ret, c) else (v, c\<lparr>cd_max_state := v\<rparr>))
           else (0, c\<lparr>cd_max_state := 0\<rparr>))
      | Drv_cpufreq f \<Rightarrow> (int (length (cf_cpufreqs f)) - 1, c)
      | _ \<Rightarrow> (cd_max_state c, c))"

definition get_min_state :: "cdev \<Rightarrow> int" where
  "get_min_state c = cd_min_state c"

definition get_phy_max_state :: "cdev \<Rightarrow> int" where
  "get_phy_max_state c = (case cd_driver c of Drv_rapl r \<Rightarrow> rp_phy_max r | _ \<Rightarrow> cd_max_state c)"

definition map_target_state :: "cdev \<Rightarrow> int \<Rightarrow> int \<Rightarrow> int" where
  "map_target_state c target_valid target_state =
     (case cd_driver c of
        Drv_pstate s \<Rightarrow>
          (if target_valid = 0 then target_state
           else if 100 < target_state then 0
           else rat_trunc (f32 (f32 (of_int (100 - target_state)) / ps_unit_value s)))
      | Drv_backlight b \<Rightarrow>
          (if target_valid = 0 then target_state
           else if cd_max_state c < target_state then 0 else cd_max_state c - target_state)
      | _ \<Rightarrow> target_state)"

definition control_begin :: "cdev \<Rightarrow> cdev" where
  "control_begin c = (if cd_pid_enable c then c\<lparr>cd_pid_ctrl := pid_reset (cd_pid_ctrl c)\<rparr> else c)"

text \<open>The parameter setters.\<close>

definition thd_cdev_set_min_state_param :: "int \<Rightarrow> cdev \<Rightarrow> cdev" where
  "thd_cdev_set_min_state_param arg c =
     (case cd_driver c of Drv_rapl r \<Rightarrow> c\<lparr>cd_min_state := arg, cd_curr_state := arg\<rparr>
      | _ \<Rightarrow> c\<lparr>cd_min_state := arg\<rparr>)"

definition set_inc_dec_value :: "int \<Rightarrow> cdev \<Rightarrow> cdev" where
  "set_inc_dec_value v c = c\<lparr>cd_inc_dec_val := v\<rparr>"

definition set_inc_value :: "int \<Rightarrow> cdev \<Rightarrow> cdev" where
  "set_inc_value v c = c\<lparr>cd_inc_val := v\<rparr>"

definition set_dec_value :: "int \<Rightarrow> cdev \<Rightarrow> cdev" where
  "set_dec_value v c = c\<lparr>cd_dec_val := v\<rparr>"

definition cdev_set_pid_param :: "rat \<Rightarrow> rat \<Rightarrow> rat \<Rightarrow> cdev \<Rightarrow> cdev" where
  "cdev_set_pid_param kp ki kd c = c\<lparr>cd_pid_ctrl := set_pid_param kp ki kd (cd_pid_ctrl c)\<rparr>"

section \<open>The driver contract\<close>

text \<open>
  What the state controller relies on: setting a state changes at most the files, the recorded
  state and the driver's own fields; reading the state or its upper end refreshes at most that
  field.
\<close>

locale cdev_driver =
  fixes set_st :: "menv \<Rightarrow> cdev \<Rightarrow> int \<Rightarrow> int \<Rightarrow> menv \<times> cdev"
    and cur_st :: "menv \<Rightarrow> cdev \<Rightarrow> int \<times> cdev"
    and top_st :: "menv \<Rightarrow> cdev \<Rightarrow> int \<times> cdev"
  assumes set_st_frame:
      "\<exists>fs s d. set_st e c v a = (e\<lparr>e_files := fs\<rparr>, c\<lparr>cd_curr_state := s, cd_driver := d\<rparr>)"
    and cur_st_frame: "\<exists>s. snd (cur_st e c) = c\<lparr>cd_curr_state := s\<rparr>"
    and top_st_frame: "\<exists>m. snd (top_st e c) = c\<lparr>cd_max_state := m\<rparr>"
begin

lemma set_st_keeps:
  "cd_index (snd (set_st e c v a)) = cd_index c"
  "cd_base_path (snd (set_st e c v a)) = cd_base_path c"
  "cd_max_state (snd (set_st e c v a)) = cd_max_state c"
  "cd_min_state (snd (set_st e c v a)) = cd_min_state c"
  "cd_zone_trip_limits (snd (set_st e c v a)) = cd_zone_trip_limits c"
  "cd_last_state (snd (set_st e c v a)) = cd_last_state c"
  "cd_last_action_time (snd (set_st e c v a)) = cd_last_action_time c"
  "cd_trend_increase (snd (set_st e c v a)) = cd_trend_increase c"
  "cd_curr_pow (snd (set_st e c v a)) = cd_curr_pow c"
  "cd_inc_dec_val (snd (set_st e c v a)) = cd_inc_dec_val c"
  "cd_inc_val (snd (set_st e c v a)) = cd_inc_val c"
  "cd_dec_val (snd (set_st e c v a)) = cd_dec_val c"
  "cd_pid_ctrl (snd (set_st e c v a)) = cd_pid_ctrl c"
  "cd_pid_enable (snd (set_st e c v a)) = cd_pid_enable c"
  using set_st_frame [of e c v a] by auto

lemma set_st_env:
  "e_now (fst (set_st e c v a)) = e_now e"
  "e_meter (fst (set_st e c v a)) = e_meter e"
  "e_kwrite (fst (set_st e c v a)) = e_kwrite e"
  "e_link (fst (set_st e c v a)) = e_link e"
  using set_st_frame [of e c v a] by auto

lemma cur_st_keeps:
  "cd_index (snd (cur_st e c)) = cd_index c"
  "cd_max_state (snd (cur_st e c)) = cd_max_state c"
  "cd_min_state (snd (cur_st e c)) = cd_min_state c"
  "cd_zone_trip_limits (snd (cur_st e c)) = cd_zone_trip_limits c"
  "cd_last_state (snd (cur_st e c)) = cd_last_state c"
  "cd_last_action_time (snd (cur_st e c)) = cd_last_action_time c"
  "cd_trend_increase (snd (cur_st e c)) = cd_trend_increase c"
  "cd_curr_pow (snd (cur_st e c)) = cd_curr_pow c"
  "cd_inc_dec_val (snd (cur_st e c)) = cd_inc_dec_val c"
  "cd_inc_val (snd (cur_st e c)) = cd_inc_val c"
  "cd_dec_val (snd (cur_st e c)) = cd_dec_val c"
  "cd_pid_ctrl (snd (cur_st e c)) = cd_pid_ctrl c"
  "cd_pid_enable (snd (cur_st e c)) = cd_pid_enable c"
  "cd_driver (snd (cur_st e c)) = cd_driver c"
  using cur_st_frame [of e c] by auto

lemma top_st_keeps:
  "cd_index (snd (top_st e c)) = cd_index c"
  "cd_curr_state (snd (top_st e c)) = cd_curr_state c"
  "cd_min_state (snd (top_st e c)) = cd_min_state c"
  "cd_zone_trip_limits (snd (top_st e c)) = cd_zone_trip_limits c"
  "cd_last_state (snd (top_st e c)) = cd_last_state c"
  "cd_last_action_time (snd (top_st e c)) = cd_last_action_time c"
  "cd_trend_increase (snd (top_st e c)) = cd_trend_increase c"
  "cd_curr_pow (snd (top_st e c)) = cd_curr_pow c"
  "cd_inc_dec_val (snd (top_st e c)) = cd_inc_dec_val c"
  "cd_inc_val (snd (top_st e c)) = cd_inc_val c"
  "cd_dec_val (snd (top_st e c)) = cd_dec_val c"
  "cd_pid_ctrl (snd (top_st e c)) = cd_pid_ctrl c"
  "cd_pid_enable (snd (top_st e c)) = cd_pid_enable c"
  "cd_driver (snd (top_st e c)) = cd_driver c"
  using top_st_frame [of e c] by auto

lemmas keeps = set_st_keeps set_st_env cur_st_keeps top_st_keeps

end

subsection \<open>The drivers satisfy it\<close>

text \<open>The state-setting frame, for a pair of results.\<close>

definition sets_state :: "menv \<Rightarrow> cdev \<Rightarrow> menv \<times> cdev \<Rightarrow> bool" where
  "sets_state e c r \<longleftrightarrow> files_only e (fst r)
     \<and> (\<exists>s d. snd r = c\<lparr>cd_curr_state := s, cd_driver := d\<rparr>)"

lemma sets_stateI:
  assumes "files_only e e'" and "c' = c\<lparr>cd_curr_state := cd_curr_state c', cd_driver := cd_driver c'\<rparr>"
  shows "sets_state e c (e', c')"
  using assms by (auto simp: sets_state_def)

lemma rapl_write_files [simp]:
  "files_only e (snd (rapl_write e p v))" "files_only e (snd (rapl_write_ret e p v))"
  by (auto simp: rapl_write_def rapl_write_ret_def split: prod.splits dest: sysfs_write_uint_filesD)

lemma rapl_update_files [simp]:
  "files_only e (snd (rapl_update_pl1 e r c v))"
  "files_only e (snd (rapl_update_pl2 e r c v))"
  "files_only e (snd (rapl_update_time_window e r c v))"
  "files_only e (snd (rapl_update_pl2_time_window e r c v))"
  "files_only e (snd (rapl_update_enable_status e c v))"
  by (simp_all add: rapl_update_pl1_def rapl_update_pl2_def rapl_update_time_window_def
      rapl_update_pl2_time_window_def rapl_update_enable_status_def)

lemmas rapl_files_trans =
  files_only_trans [OF _ rapl_update_files(3)] files_only_trans [OF _ rapl_update_files(5)]

lemma rapl_release_files: "rapl_release e r c = (e', r') \<Longrightarrow> files_only e e'"
  by (auto simp: rapl_release_def Let_def intro: rapl_files_trans split: if_splits)

lemma rapl_constrain_files: "rapl_constrain e r c = (e', r') \<Longrightarrow> files_only e e'"
  by (auto simp: rapl_constrain_def Let_def intro: rapl_files_trans split: if_splits)

lemma rapl_sets_state: "sets_state e c (rapl_set_curr_state e r c s a)"
proof (cases "rp_bios_locked r")
  case True
  then show ?thesis by (auto simp: rapl_set_curr_state_def intro!: sets_stateI)
next
  case False
  define new0 where "new0 = (if s < cd_max_state c then cd_max_state c else s)"
  define n where "n = (if cd_min_state c \<le> new0
      then (if rp_power_on_constraint_0_pwr r \<noteq> 0 then rp_power_on_constraint_0_pwr r else cd_min_state c)
      else new0)"
  obtain e1 r1 where 1: "(if cd_min_state c \<le> new0 then rapl_release e r c
      else if a \<noteq> 0 then rapl_constrain e r c else (e, r)) = (e1, r1)" by fastforce
  obtain ret e2 where 2: "rapl_update_pl1 e1 r1 c n = (ret, e2)" by fastforce
  have "files_only e e1"
    using 1 by (auto split: if_splits dest: rapl_release_files rapl_constrain_files)
  moreover have "files_only e1 e2" using rapl_update_files(1) [of e1 r1 c n] 2 by simp
  ultimately show ?thesis
    using False 1 2 unfolding rapl_set_curr_state_def Let_def new0_def [symmetric]
    by (auto simp: n_def [symmetric] simp del: fun_upd_apply intro!: sets_stateI dest: files_only_trans)
qed

lemma cpufreq_write_cpu_files [simp]: "files_only e (cpufreq_write_cpu c f i e)"
  by (simp add: cpufreq_write_cpu_def)

lemma fold_cpufreq_files: "files_only e (fold (cpufreq_write_cpu c f) is e)"
  by (induction "is" arbitrary: e) (auto intro: files_only_trans [OF cpufreq_write_cpu_files])

lemma turbo_files: "files_only e (fst (set_turbo_disable_status e c s b))"
  by (simp add: set_turbo_disable_status_def)

lemma pstate_sets_state: "sets_state e c (pstate_set_curr_state e s c v)"
proof -
  have "files_only e e2" if "set_turbo_disable_status e c s b = (e1, s1)"
    and "sysfs_write e1 p x = (ret, e2)" for e1 s1 e2 b p x ret
    using that turbo_files [of e c s b] sysfs_write_filesD files_only_trans by (metis fst_conv)
  then show ?thesis
    by (auto simp: pstate_set_curr_state_def Let_def intro!: sets_stateI split: prod.splits)
qed

lemma backlight_sets_state: "sets_state e c (backlight_set_curr_state e b c v)"
  by (auto simp: backlight_set_curr_state_def backlight_restore_def Let_def
      intro!: sets_stateI dest: sysfs_write_uint_filesD split: prod.splits option.splits)

lemma set_curr_state_sets_state: "sets_state e c (set_curr_state e c v a)"
  by (auto simp: set_curr_state_def sysfs_set_curr_state_def gen_sysfs_set_curr_state_def
      cpufreq_set_curr_state_def Let_def rapl_sets_state pstate_sets_state backlight_sets_state
      fold_cpufreq_files intro!: sets_stateI split: driver.splits)

lemma get_curr_state_frame: "\<exists>s. snd (get_curr_state e c) = c\<lparr>cd_curr_state := s\<rparr>"
proof -
  have "\<exists>s. c = c\<lparr>cd_curr_state := s\<rparr>" by (rule exI [of _ "cd_curr_state c"]) simp
  then show ?thesis by (auto simp: get_curr_state_def split: prod.splits)
qed

lemma get_max_state_frame: "\<exists>m. snd (get_max_state e c) = c\<lparr>cd_max_state := m\<rparr>"
proof -
  have "\<exists>m. c = c\<lparr>cd_max_state := m\<rparr>" by (rule exI [of _ "cd_max_state c"]) simp
  then show ?thesis by (auto simp: get_max_state_def split: prod.splits driver.splits)
qed

lemma sets_state_pair:
  "sets_state e c r \<Longrightarrow> \<exists>fs s d. r = (e\<lparr>e_files := fs\<rparr>, c\<lparr>cd_curr_state := s, cd_driver := d\<rparr>)"
  by (cases r) (auto simp: sets_state_def files_only_def)

interpretation drv: cdev_driver set_curr_state get_curr_state get_max_state
  by unfold_locales
    (rule sets_state_pair [OF set_curr_state_sets_state] get_curr_state_frame get_max_state_frame)+

interpretation raw: cdev_driver set_curr_state_raw get_curr_state get_max_state
proof unfold_locales
  show "\<exists>fs s d. set_curr_state_raw e c v a = (e\<lparr>e_files := fs\<rparr>, c\<lparr>cd_curr_state := s, cd_driver := d\<rparr>)"
    for e c v a
    using drv.set_st_frame by (auto simp: set_curr_state_raw_def split: driver.splits)
qed (rule get_curr_state_frame get_max_state_frame)+

lemmas driver_frame [thd_frame] = drv.keeps raw.set_st_keeps raw.set_st_env

end
