(* ===== verification/Thd_CdevUpdate.thy ===== *)
theory Thd_CdevUpdate
  imports Thd_CdevDrv
begin

text \<open>
  Discovery and configuration of the cooling devices: the \<^verbatim>\<open>update()\<close> methods, which read
  the limits of a device from its attribute files, the RAPL power limits of the platform
  (\<^verbatim>\<open>read_ppcc_power_limits\<close>) and the adaptive targets of RAPL devices.
\<close>

section \<open>Thermal sysfs and generic sysfs devices\<close>

text \<open>Read an attribute into a field when the file exists; otherwise the field becomes 0. The
  result is the error to return, if any, and the new value.\<close>

definition read_or_zero :: "menv \<Rightarrow> string \<Rightarrow> int \<Rightarrow> int option \<times> int" where
  "read_or_zero e p old =
     (if sysfs_exists e p then
        (case sysfs_read_int e p old of (ret, v) \<Rightarrow> if ret < 0 then (Some ret, old) else (None, v))
      else (None, 0))"

definition sysfs_update :: "menv \<Rightarrow> cdev \<Rightarrow> int \<times> cdev" where
  "sysfs_update e c =
     (case read_or_zero e (therm_attr c ''/cur_state'') (cd_curr_state c) of
        (Some err, _) \<Rightarrow> (err, c)
      | (None, cur) \<Rightarrow>
          (let c1 = c\<lparr>cd_curr_state := cur\<rparr>
           in case read_or_zero e (therm_attr c1 ''/max_state'') (cd_max_state c1) of
                (Some err, _) \<Rightarrow> (err, c1)
              | (None, mx) \<Rightarrow>
                  (let c2 = c1\<lparr>cd_max_state := mx\<rparr>
                   in if sysfs_exists e (therm_attr c2 ''/type'') then
                        (let ty = snd (sysfs_read_str e (therm_attr c2 ''/type'') (cd_type_str c2));
                             c3 = c2\<lparr>cd_type_str := ty\<rparr>
                         in (THD_SUCCESS,
                             if ty = ''Processor'' then c3\<lparr>cd_read_back := False\<rparr> else c3))
                      else (THD_SUCCESS, c2))))"

definition starts_with :: "string \<Rightarrow> string \<Rightarrow> bool" where
  "starts_with s p \<longleftrightarrow> length p \<le> length s \<and> take (length p) s = p"

definition gen_sysfs_update :: "menv \<Rightarrow> cdev \<Rightarrow> int \<times> cdev" where
  "gen_sysfs_update e c =
     (if sysfs_exists e (cd_attr c []) then
        (if \<not> starts_with (cd_base_path c) ''/sys'' then (THD_ERROR, c)
         else case sysfs_read_int e (cd_attr c []) (cd_curr_state c) of (ret, v) \<Rightarrow>
           if ret < 0 then (ret, c)
           else (THD_SUCCESS, c\<lparr>cd_curr_state := v, cd_max_state := v, cd_min_state := v\<rparr>))
      else (THD_ERROR, c))"

section \<open>cpufreq\<close>

text \<open>\<^verbatim>\<open>istringstream(s) >> n\<close> for an \<^verbatim>\<open>int\<close>: 0 when no number is found, saturated at the
  bounds of the type; and for an \<^verbatim>\<open>unsigned int\<close>, where a minus sign negates modulo \<open>2^32\<close>.\<close>

definition istream_int :: "string \<Rightarrow> int" where
  "istream_int s = max (-2147483648) (min 2147483647 (parse_sign (dropWhile is_space s)))"

definition istream_uint :: "string \<Rightarrow> int" where
  "istream_uint s =
     (let v = parse_sign (dropWhile is_space s)
      in if 4294967295 < \<bar>v\<bar> then 4294967295 else u32_of v)"

text \<open>White-space separated tokens.\<close>

function tokens :: "string \<Rightarrow> string list" where
  "tokens s = (let r = dropWhile is_space s
     in if r = [] then [] else takeWhile (\<lambda>c. \<not> is_space c) r # tokens (dropWhile (\<lambda>c. \<not> is_space c) r))"
  by pat_completeness auto

lemma length_dropWhile_less: "xs \<noteq> [] \<Longrightarrow> P (hd xs) \<Longrightarrow> length (dropWhile P xs) < length xs"
  by (cases xs) (auto simp: le_imp_less_Suc length_dropWhile_le)

lemma hd_dropWhile_not: "dropWhile P xs \<noteq> [] \<Longrightarrow> \<not> P (hd (dropWhile P xs))"
  by (rule hd_dropWhile)

termination tokens
proof (relation "measure length")
  show "wf (measure length)" by simp
next
  fix s :: string and x :: string
  assume x: "x = dropWhile is_space s" and ne: "x \<noteq> []"
  then have "\<not> is_space (hd x)" using hd_dropWhile_not [of is_space s] by simp
  then have "length (dropWhile (\<lambda>c. \<not> is_space c) x) < length x"
    by (rule length_dropWhile_less [OF ne])
  also have "length x \<le> length s"
    by (simp add: x length_dropWhile_le)
  finally show "(dropWhile (\<lambda>c. \<not> is_space c) x, s) \<in> measure length" by simp
qed

declare tokens.simps [simp del]

text \<open>The \<^verbatim>\<open>present\<close> range \<^verbatim>\<open>first-last\<close>.\<close>

definition parse_present :: "string \<Rightarrow> (int \<times> int) option" where
  "parse_present s =
     (let t1 = takeWhile (\<lambda>c. c \<noteq> CHR ''-'') s; rest = dropWhile (\<lambda>c. c \<noteq> CHR ''-'') s
      in if rest = [] \<or> t1 = [] \<or> tl rest = [] then None
         else (let first = istream_int t1; last = istream_int (tl rest)
               in if last \<le> 0 \<or> last < first \<or> 63 < last then None else Some (first, last)))"

text \<open>The smallest \<^verbatim>\<open>scaling_min_freq\<close> and the largest \<^verbatim>\<open>scaling_max_freq\<close> over the CPUs. The
  local \<^verbatim>\<open>freq_int\<close> is not initialised; \<open>junk\<close> is what it holds, and it is also what is
  taken when the read fails.\<close>

definition scaling_step ::
    "menv \<Rightarrow> cdev \<Rightarrow> int \<Rightarrow> string \<Rightarrow> (int \<Rightarrow> int \<Rightarrow> bool) \<Rightarrow> int \<Rightarrow> int \<Rightarrow> int" where
  "scaling_step e c junk attr better i acc =
     (let p = cd_attr c (''cpu'' @ show_int i @ ''/cpufreq/'' @ attr)
      in if sysfs_exists e p then
           (case sysfs_read_int e p junk of (ret, v) \<Rightarrow>
              if ret < 0 \<or> acc = 0 \<or> better (u32_of v) acc then u32_of v else acc)
         else acc)"

definition scaling_min_frequency :: "menv \<Rightarrow> cdev \<Rightarrow> int \<Rightarrow> int \<Rightarrow> int \<Rightarrow> int" where
  "scaling_min_frequency e c junk a b =
     fold (scaling_step e c junk ''scaling_min_freq'' (\<lambda>v acc. v < acc)) [a..b] 0"

definition scaling_max_frequency :: "menv \<Rightarrow> cdev \<Rightarrow> int \<Rightarrow> int \<Rightarrow> int \<Rightarrow> int" where
  "scaling_max_frequency e c junk a b =
     fold (scaling_step e c junk ''scaling_max_freq'' (\<lambda>v acc. acc < v)) [a..b] 0"

definition add_frequency :: "int \<Rightarrow> int list \<Rightarrow> int list" where
  "add_frequency freq fs = (if fs = [] \<or> s32 freq < hd fs then fs @ [s32 freq] else s32 freq # fs)"

definition cpufreq_avail_path :: string where
  "cpufreq_avail_path = ''/sys/devices/system/cpu/cpu0/cpufreq/scaling_available_frequencies''"

definition cpufreq_add_all :: "int \<Rightarrow> int \<Rightarrow> string list \<Rightarrow> int list \<Rightarrow> int list" where
  "cpufreq_add_all mn mx toks fs =
     fold (\<lambda>t fs. let f = istream_uint t in if mn \<le> f \<and> f \<le> mx then add_frequency f fs else fs) toks fs"

definition cpufreq_init :: "int \<Rightarrow> menv \<Rightarrow> cpufreq \<Rightarrow> cdev \<Rightarrow> int \<times> cdev" where
  "cpufreq_init junk e f c =
     (if \<not> sysfs_exists e (cd_attr c ''present'') then (THD_ERROR, c)
      else case parse_present (snd (sysfs_read_str e (cd_attr c ''present'') [])) of
        None \<Rightarrow> (THD_ERROR, c)
      | Some (a, b) \<Rightarrow>
          (let f1 = f\<lparr>cf_cpu_start_index := a, cf_cpu_end_index := b\<rparr>
           in if \<not> sysfs_exists e (cd_attr c ''cpu0/cpufreq/scaling_available_frequencies'')
              then (THD_ERROR, c\<lparr>cd_driver := Drv_cpufreq f1\<rparr>)
              else case e_files e cpufreq_avail_path of
                Some (Text t) \<Rightarrow>
                  (let fs = cpufreq_add_all (scaling_min_frequency e c junk a b)
                              (scaling_max_frequency e c junk a b) (tokens t) (cf_cpufreqs f1);
                       c' = c\<lparr>cd_driver := Drv_cpufreq (f1\<lparr>cf_cpufreqs := fs, cf_pstate_active_freq_index := 0\<rparr>)\<rparr>
                   in (THD_SUCCESS, if fs \<noteq> [] then c'\<lparr>cd_max_state := int (length fs) - 1\<rparr> else c'))
              | _ \<Rightarrow> (- EINVAL, c\<lparr>cd_driver := Drv_cpufreq f1\<rparr>)))"

section \<open>intel_pstate and backlight\<close>

definition pstate_default_max_state :: int where "pstate_default_max_state = 10"

definition pstate_update :: "menv \<Rightarrow> pstate \<Rightarrow> cdev \<Rightarrow> int \<times> cdev" where
  "pstate_update e s c =
     (if sysfs_exists e (cd_attr c ''/max_perf_pct'') then
        (case sysfs_read_int e (cd_attr c ''/max_perf_pct'') (cd_curr_state c) of (ret, _) \<Rightarrow>
           if ret < 0 then (ret, c)
           else (THD_SUCCESS,
                 c\<lparr>cd_max_state := pstate_default_max_state, cd_curr_state := 0,
                   cd_driver := Drv_pstate (s\<lparr>ps_min_compensation := 0,
                     ps_unit_value := f32 (f64 (100 / of_int pstate_default_max_state))\<rparr>)\<rparr>))
      else (THD_ERROR, c))"

definition min_backlight_percent :: int where "min_backlight_percent = 25"

definition backlight_update :: "menv \<Rightarrow> backlight \<Rightarrow> cdev \<Rightarrow> int \<times> cdev" where
  "backlight_update e b c =
     (case (if sysfs_exists e (cd_attr c [])
            then sysfs_read_int e (cd_attr c ''max_brightness'') (cd_max_state c)
            else (0, cd_max_state c)) of (ret, mx) \<Rightarrow>
        if ret < 0 then (ret, c)
        else if mx \<le> 0 then (THD_ERROR, c\<lparr>cd_max_state := mx\<rparr>)
        else (THD_SUCCESS,
              set_inc_dec_value (rat_trunc (f32 (f32 (f32 (of_int mx) * 10) / 100)))
                (c\<lparr>cd_max_state := mx, cd_driver := Drv_backlight
                     (b\<lparr>bl_min_back_light := (mx * min_backlight_percent) sdiv 100\<rparr>)\<rparr>)))"

definition backlight_devices :: "string list" where
  "backlight_devices = [''/sys/class/backlight/intel_backlight/'', ''/sys/class/backlight/acpi_video0/'',
     ''/sys/class/leds/lcd-backlight/'', ''/sys/class/backlight/lcd-backlight/'']"

text \<open>The constructor tries the known directories in turn and keeps the last one tried.\<close>

fun backlight_probe :: "menv \<Rightarrow> backlight \<Rightarrow> cdev \<Rightarrow> string list \<Rightarrow> cdev" where
  "backlight_probe e b c [] = c"
| "backlight_probe e b c (d # ds) =
     (case backlight_update e b (c\<lparr>cd_base_path := d\<rparr>) of (ret, c') \<Rightarrow>
        if ret = THD_SUCCESS then c' else backlight_probe e b c' ds)"

definition cthd_cdev_backlight :: "menv \<Rightarrow> int \<Rightarrow> cdev" where
  "cthd_cdev_backlight e idx =
     (let b = \<lparr>bl_ref_backlight_state = 0, bl_min_back_light = 0\<rparr>
      in backlight_probe e b (cthd_cdev idx (hd backlight_devices) (Drv_backlight b)) backlight_devices)"

section \<open>RAPL\<close>

text \<open>The configured power limits of a participant, \<^verbatim>\<open>ppcc_t\<close> of \<^verbatim>\<open>thd_parse.h\<close>.\<close>

record ppcc =
  pc_name :: string
  pc_valid :: int
  pc_power_limit_min :: int
  pc_power_limit_max :: int
  pc_time_wind_min :: int
  pc_time_wind_max :: int
  pc_step_size :: int
  pc_limit_1_valid :: int
  pc_power_limit_1_min :: int
  pc_power_limit_1_max :: int
  pc_time_wind_1_min :: int
  pc_time_wind_1_max :: int
  pc_step_1_size :: int

definition rapl_no_time_windows :: nat where "rapl_no_time_windows = 6"

text \<open>The scan for the long term and the short term constraint; the flag says whether a long
  term constraint was found.\<close>

definition rapl_scan_constraint :: "menv \<Rightarrow> cdev \<Rightarrow> nat \<Rightarrow> bool \<times> rapl \<Rightarrow> bool \<times> rapl" where
  "rapl_scan_constraint e c i fr =
     (let p = constraint_attr c (int i) ''_name''
      in if sysfs_exists e p then
           (let ty = snd (sysfs_read_str e p []);
                fr1 = (if ty = ''long_term'' then (True, (snd fr)\<lparr>rp_constraint_index := int i\<rparr>) else fr)
            in if ty = ''short_term'' then (fst fr1, (snd fr1)\<lparr>rp_pl2_index := int i\<rparr>) else fr1)
         else fr)"

definition rapl_sysfs_valid :: "menv \<Rightarrow> cdev \<Rightarrow> rapl \<Rightarrow> int \<times> rapl" where
  "rapl_sysfs_valid e c r =
     (case fold (rapl_scan_constraint e c) [0..<rapl_no_time_windows] (False, r) of (found, r') \<Rightarrow>
        (if \<not> found then THD_ERROR
         else if \<not> sysfs_exists e (constraint_attr c (rp_constraint_index r') ''_power_limit_uw'')
         then THD_ERROR
         else if \<not> sysfs_exists e (constraint_attr c (rp_constraint_index r') ''_time_window_us'')
         then THD_ERROR else 0, r'))"

text \<open>Limits from the configuration; both ways out of the policy test return true.\<close>

definition ppcc_from_config :: "ppcc \<Rightarrow> rapl \<Rightarrow> bool \<times> rapl" where
  "ppcc_from_config p r =
     (let r1 = r\<lparr>rp_pl0_max_pwr := pc_power_limit_max p * 1000,
                 rp_pl0_min_pwr := pc_power_limit_min p * 1000,
                 rp_pl0_min_window := pc_time_wind_min p * 1000,
                 rp_pl0_max_window := pc_time_wind_max p * 1000,
                 rp_pl0_step_pwr := pc_step_size p * 1000,
                 rp_pl1_valid := pc_limit_1_valid p\<rparr>;
          r2 = (if rp_pl1_valid r1 \<noteq> 0 then
                  r1\<lparr>rp_pl1_max_pwr := pc_power_limit_1_max p * 1000,
                     rp_pl1_min_pwr := pc_power_limit_1_min p * 1000,
                     rp_pl1_min_window := pc_time_wind_1_min p * 1000,
                     rp_pl1_max_window := pc_time_wind_1_max p * 1000,
                     rp_pl1_step_pwr := pc_step_1_size p * 1000\<rparr>
                else r1)
      in (\<not> rp_pl0_max_pwr r2 \<le> rp_pl0_min_pwr r2, r2))"

text \<open>The directory with the limits of the processor participant.\<close>

definition power_limits_dirs :: "string list" where
  "power_limits_dirs = [''/sys/bus/pci/devices/0000:00:04.0/power_limits/'',
     ''/sys/bus/pci/devices/0000:00:0b.0/power_limits/'',
     ''/sys/bus/platform/devices/INT3401:00/power_limits/'']"

text \<open>Read one limit if its file exists; \<open>None\<close> when the read fails, which abandons the
  reading with the fields read so far kept.\<close>

definition read_limit :: "menv \<Rightarrow> string \<Rightarrow> int \<Rightarrow> int option" where
  "read_limit e p old =
     (if sysfs_exists e p then
        (case sysfs_read_int e p old of (ret, v) \<Rightarrow> if ret \<le> 0 then None else Some v)
      else Some old)"

definition ppcc_read_fields :: "menv \<Rightarrow> string \<Rightarrow> rapl \<Rightarrow> bool \<times> rapl" where
  "ppcc_read_fields e dir r =
     (case read_limit e (dir @ ''power_limit_0_max_uw'') (rp_pl0_max_pwr r) of None \<Rightarrow> (False, r)
      | Some a \<Rightarrow> (let r1 = r\<lparr>rp_pl0_max_pwr := a\<rparr> in
     (case read_limit e (dir @ ''power_limit_0_min_uw'') (rp_pl0_min_pwr r1) of None \<Rightarrow> (False, r1)
      | Some a \<Rightarrow> (let r2 = r1\<lparr>rp_pl0_min_pwr := a\<rparr> in
     (case read_limit e (dir @ ''power_limit_0_tmin_us'') (rp_pl0_min_window r2) of None \<Rightarrow> (False, r2)
      | Some a \<Rightarrow> (let r3 = r2\<lparr>rp_pl0_min_window := a\<rparr> in
     (case read_limit e (dir @ ''power_limit_0_tmax_us'') (rp_pl0_max_window r3) of None \<Rightarrow> (False, r3)
      | Some a \<Rightarrow> (let r4 = r3\<lparr>rp_pl0_max_window := a\<rparr> in
     (case read_limit e (dir @ ''power_limit_0_step_uw'') (rp_pl0_step_pwr r4) of None \<Rightarrow> (False, r4)
      | Some a \<Rightarrow> (True, r4\<lparr>rp_pl0_step_pwr := a\<rparr>))))))))))"

definition read_ppcc_power_limits :: "ppcc option \<Rightarrow> menv \<Rightarrow> cdev \<Rightarrow> rapl \<Rightarrow> bool \<times> rapl" where
  "read_ppcc_power_limits po e c r =
     (case po of Some p \<Rightarrow> ppcc_from_config p r
      | None \<Rightarrow>
          if snd (sysfs_read_str e (cd_attr c ''name'') []) \<noteq> ''package-0'' then (False, r)
          else case List.find (sysfs_exists e) power_limits_dirs of None \<Rightarrow> (False, r)
          | Some dir \<Rightarrow>
              (case ppcc_read_fields e dir r of (ok, r1) \<Rightarrow>
                 (ok \<and> rp_pl0_max_pwr r1 \<noteq> 0 \<and> rp_pl0_min_pwr r1 \<noteq> 0 \<and> rp_pl0_min_window r1 \<noteq> 0
                    \<and> rp_pl0_step_pwr r1 \<noteq> 0 \<and> rp_pl0_max_window r1 \<noteq> 0
                    \<and> \<not> rp_pl0_max_pwr r1 \<le> rp_pl0_min_pwr r1
                    \<and> \<not> rp_pl0_max_pwr r1 < rapl_read_pl1_max e r1 c, r1)))"

text \<open>The branch of \<^verbatim>\<open>update()\<close> for a platform with power limits.\<close>

definition rapl_update_ppcc :: "menv \<Rightarrow> rapl \<Rightarrow> cdev \<Rightarrow> menv \<times> rapl \<times> cdev" where
  "rapl_update_ppcc e r0 c0 =
     (let r = r0\<lparr>rp_phy_max := rp_pl0_max_pwr r0\<rparr>;
          c = (set_dec_value (- rp_pl0_step_pwr r) (set_inc_value (- rp_pl0_step_pwr r * 2) c0))
                \<lparr>cd_min_state := rp_pl0_max_pwr r, cd_max_state := rp_pl0_min_pwr r\<rparr>;
          e1 = snd (rapl_update_pl1 e r c (rp_pl0_max_pwr r));
          e2 = (if rp_pl0_min_window r < rp_pl0_max_window r
                then snd (rapl_update_time_window e1 r c (rp_pl0_max_window r)) else e1);
          e3 = rapl_start_measure_power e2;
          r' = r\<lparr>rp_dynamic_phy_max_enable := True\<rparr>;
          e4 = (if rapl_read_pl2 e3 r' c = 0 then
                  (if rp_pl1_max_pwr r' \<noteq> 0 then
                     snd (rapl_update_enable_status
                       (snd (rapl_update_pl2_time_window
                          (snd (rapl_update_pl2 e3 r' c (rp_pl1_max_pwr r'))) r' c (rp_pl1_max_window r')))
                       c 1)
                   else e3)
                else snd (rapl_update_enable_status e3 c 1))
      in (e4, r', c))"

text \<open>The limits derived from the maximum power: steps of 5 percent, at most 50 percent off, in
  \<^verbatim>\<open>float\<close>.\<close>

definition rapl_step_of :: "int \<Rightarrow> int" where
  "rapl_step_of phy_max = rat_trunc (f32 (f32 (f32 (of_int (- phy_max)) * 5) / 100))"

definition rapl_low_of :: "int \<Rightarrow> int" where
  "rapl_low_of mn = rat_trunc (f32 (f32 (of_int mn) - f32 (f32 (f32 (of_int mn) * 50) / 100)))"

text \<open>The tail of \<^verbatim>\<open>update()\<close>.\<close>

definition rapl_update_tail :: "menv \<Rightarrow> rapl \<Rightarrow> cdev \<Rightarrow> int \<times> menv \<times> cdev" where
  "rapl_update_tail e r c =
     (let r' = r\<lparr>rp_power_on_constraint_0_time_window := rapl_read_time_window e r c,
                 rp_power_on_enable_status := rapl_read_enable_status e c\<rparr>
      in (THD_SUCCESS, e, (cdev_set_pid_param (-1000) 100 10 c)
            \<lparr>cd_curr_state := cd_min_state c, cd_driver := Drv_rapl r'\<rparr>))"

definition rapl_update :: "ppcc option \<Rightarrow> menv \<Rightarrow> rapl \<Rightarrow> cdev \<Rightarrow> int \<times> menv \<times> cdev" where
  "rapl_update po e r c =
     (case rapl_sysfs_valid e c r of (bad, r1) \<Rightarrow>
        if bad \<noteq> 0 then (THD_ERROR, e, c\<lparr>cd_driver := Drv_rapl r1\<rparr>)
        else case read_ppcc_power_limits po e c r1 of (ppcc, r2) \<Rightarrow>
          if ppcc then (case rapl_update_ppcc e r2 c of (e', r', c') \<Rightarrow> rapl_update_tail e' r' c')
          else
            (let phy = rapl_read_pl1_max e r2 c
             in if phy < 0 \<or> rapl_max_sane_phy_max < phy then
                  (let r3 = r2\<lparr>rp_power_on_constraint_0_pwr := rapl_read_pl1 e r2 c,
                               rp_power_on_constraint_0_time_window := rapl_read_time_window e r2 c,
                               rp_phy_max := 0, rp_dynamic_phy_max_enable := True\<rparr>
                   in (THD_SUCCESS, rapl_start_measure_power e,
                       (set_inc_dec_value (- rapl_min_default_step) c)
                         \<lparr>cd_max_state := 0, cd_min_state := rapl_max_sane_phy_max,
                          cd_curr_state := rapl_max_sane_phy_max, cd_driver := Drv_rapl r3\<rparr>))
                else
                  (let pl1 = rapl_read_pl1 e r2 c;
                       phy' = (if phy < pl1 then pl1 else phy)
                   in rapl_update_tail e (r2\<lparr>rp_phy_max := phy'\<rparr>)
                        ((set_inc_dec_value (rapl_step_of phy') c)
                           \<lparr>cd_min_state := phy', cd_max_state := rapl_low_of phy'\<rparr>))))"

text \<open>The DRAM domain: the sub-directory named \<^verbatim>\<open>dram\<close> of the package, from the directory
  entries, or \<open>None\<close> when the directory cannot be opened.\<close>

definition rapl_dram_base :: string where
  "rapl_dram_base = ''/sys/devices/virtual/powercap/intel-rapl/intel-rapl:0/''"

definition is_dram_entry :: "menv \<Rightarrow> string \<Rightarrow> bool" where
  "is_dram_entry e d =
     (let p = rapl_dram_base @ d @ ''/'' @ ''name''
      in sysfs_exists e p \<and> (case sysfs_read_str e p [] of (ret, name) \<Rightarrow> 0 \<le> ret \<and> name = ''dram''))"

definition rapl_dram_update ::
    "string list option \<Rightarrow> ppcc option \<Rightarrow> menv \<Rightarrow> rapl \<Rightarrow> cdev \<Rightarrow> int \<times> menv \<times> cdev" where
  "rapl_dram_update dir po e r c =
     (case dir of None \<Rightarrow> (THD_ERROR, e, c)
      | Some entries \<Rightarrow>
          (case List.find (is_dram_entry e) entries of None \<Rightarrow> (THD_ERROR, e, c)
           | Some d \<Rightarrow> rapl_update po e r (c\<lparr>cd_base_path := rapl_dram_base @ d @ ''/''\<rparr>)))"

section \<open>Adaptive targets\<close>

record adaptive_target =
  at_target_id :: u64
  at_name :: string
  at_participant :: string
  at_domain :: u64
  at_code :: string
  at_argument :: string

text \<open>\<^verbatim>\<open>std::stoi\<close>: \<open>None\<close> is the exception, for a missing or an out of range number.\<close>

definition stoi :: "string \<Rightarrow> int option" where
  "stoi s =
     (let r = dropWhile is_space s;
          ds = (if r \<noteq> [] \<and> (hd r = CHR ''-'' \<or> hd r = CHR ''+'') then tl r else r);
          v = parse_sign r
      in if ds \<noteq> [] \<and> is_digit (hd ds) \<and> in_s32 v then Some v else None)"

definition rapl_target_pl1max :: "menv \<Rightarrow> rapl \<Rightarrow> cdev \<Rightarrow> int \<Rightarrow> menv \<times> cdev" where
  "rapl_target_pl1max e r c arg =
     (let r1 = r\<lparr>rp_pl0_max_pwr := arg * 1000\<rparr>;
          c1 = c\<lparr>cd_min_state := arg * 1000, cd_driver := Drv_rapl r1\<rparr>;
          pl1 = rapl_read_pl1 e r1 c1
      in case (if pl1 < cd_curr_state c1 then set_curr_state e c1 pl1 1 else (e, c1)) of (e2, c2) \<Rightarrow>
           (if cd_min_state c2 < cd_curr_state c2 then set_curr_state e2 c2 (cd_min_state c2) 1
            else (e2, c2)))"

definition rapl_target_pl1min :: "menv \<Rightarrow> rapl \<Rightarrow> cdev \<Rightarrow> int \<Rightarrow> menv \<times> cdev" where
  "rapl_target_pl1min e r c arg =
     (let c1 = c\<lparr>cd_max_state := arg * 1000,
                 cd_driver := Drv_rapl (r\<lparr>rp_pl0_min_pwr := arg * 1000\<rparr>)\<rparr>
      in if cd_curr_state c1 < cd_max_state c1 then set_curr_state e c1 (cd_max_state c1) 1 else (e, c1))"

definition rapl_set_adaptive_target ::
    "menv \<Rightarrow> rapl \<Rightarrow> cdev \<Rightarrow> adaptive_target \<Rightarrow> (menv \<times> cdev) option" where
  "rapl_set_adaptive_target e r c t =
     (case stoi (at_argument t) of None \<Rightarrow> None
      | Some arg \<Rightarrow> Some
          (if at_code t = ''PL1MAX'' then rapl_target_pl1max e r c arg
           else if at_code t = ''PL1MIN'' then rapl_target_pl1min e r c arg
           else if at_code t = ''PL1STEP'' then
             (e, set_dec_value (- (arg * 1000)) (set_inc_value (- (arg * 1000) * 2)
                   (c\<lparr>cd_driver := Drv_rapl (r\<lparr>rp_pl0_step_pwr := arg * 1000\<rparr>)\<rparr>)))
           else if at_code t = ''PL1TimeWindow'' then
             (e, c\<lparr>cd_driver := Drv_rapl (r\<lparr>rp_pl0_min_window := arg * 1000\<rparr>)\<rparr>)
           else if at_code t = ''PL1PowerLimit'' then (snd (rapl_update_pl1 e r c (arg * 1000)), c)
           else if at_code t = ''PL2PowerLimit'' then (snd (rapl_update_pl2 e r c (arg * 1000)), c)
           else if at_code t = ''TccOffset'' then (set_tcc e arg, c)
           else (e, c)))"

text \<open>The virtual method: only RAPL devices take adaptive targets.\<close>

definition cdev_set_adaptive_target :: "menv \<Rightarrow> cdev \<Rightarrow> adaptive_target \<Rightarrow> (menv \<times> cdev) option" where
  "cdev_set_adaptive_target e c t =
     (case cd_driver c of Drv_rapl r \<Rightarrow> rapl_set_adaptive_target e r c t | _ \<Rightarrow> Some (e, c))"

end
