(* ===== verification/Thd_DriverProps.thy ===== *)
theory Thd_DriverProps
  imports Thd_CdevUpdate
begin

text \<open>
  What the cooling device drivers guarantee: the range a RAPL device discovers, that the
  programmed power limit is the recorded state, that throttling followed by a release restores
  the power-on configuration, the order of cpufreq states, the percentages of intel_pstate
  targets and the brightness the backlight device dims to and restores.
\<close>

section \<open>RAPL\<close>

lemma attr_keeps [simp]:
  "cd_attr (c\<lparr>cd_curr_state := v\<rparr>) = cd_attr c" "cd_attr (c\<lparr>cd_driver := d\<rparr>) = cd_attr c"
  "constraint_attr (c\<lparr>cd_curr_state := v\<rparr>) = constraint_attr c"
  "constraint_attr (c\<lparr>cd_driver := d\<rparr>) = constraint_attr c"
  by (simp_all add: constraint_attr_def cd_attr_def fun_eq_iff)

text \<open>The lowest limit is half of the maximum power, up to rounding.\<close>

lemma rapl_low_of_bounds:
  assumes "0 \<le> n" shows "0 \<le> rapl_low_of n" "rapl_low_of n \<le> n"
proof -
  define x :: rat where "x = of_int n"
  define a where "a = f32 x"
  define b where "b = f32 (a * 50)"
  define c where "c = f32 (b / 100)"
  define d where "d = f32 (a - c)"
  have x: "0 \<le> x" using assms by (simp add: x_def)
  have "\<bar>a - x\<bar> \<le> x / 16777216" using f32_error [of x] x by (simp add: a_def)
  then have a: "0 \<le> a" "a \<le> x * (16777217 / 16777216)" using x by (auto simp: abs_if split: if_splits)
  have "\<bar>b - a * 50\<bar> \<le> a * 50 / 16777216" using f32_error [of "a * 50"] a by (simp add: b_def)
  then have b: "a * 49 \<le> b" "b \<le> a * 51" using a by (auto simp: abs_if split: if_splits)
  have "\<bar>c - b / 100\<bar> \<le> b / 100 / 16777216" using f32_error [of "b / 100"] a b by (simp add: c_def)
  then have c: "a * (48 / 100) \<le> c" "c \<le> a * (52 / 100)" using a b by (auto simp: abs_if split: if_splits)
  have "\<bar>d - (a - c)\<bar> \<le> (a - c) / 16777216" using f32_error [of "a - c"] a c by (simp add: d_def)
  then have d: "0 \<le> d" "d \<le> a * (53 / 100)" using a c by (auto simp: abs_if split: if_splits)
  have "rapl_low_of n = rat_trunc d"
    by (simp add: rapl_low_of_def x_def a_def b_def c_def d_def)
  moreover have "d \<le> x" using d a by simp
  ultimately show "0 \<le> rapl_low_of n" "rapl_low_of n \<le> n"
    using d(1) rat_trunc_le [OF d(1)] by (auto simp: rat_trunc_def x_def) linarith
qed

lemma read_ppcc_oriented:
  "read_ppcc_power_limits po e c r = (True, r') \<Longrightarrow> rp_pl0_min_pwr r' < rp_pl0_max_pwr r'"
  by (auto simp: read_ppcc_power_limits_def ppcc_from_config_def Let_def
      split: option.splits prod.splits if_splits)

lemma rapl_update_ppcc_range:
  "rapl_update_ppcc e r c = (e', r', c') \<Longrightarrow>
     cd_min_state c' = rp_pl0_max_pwr r \<and> cd_max_state c' = rp_pl0_min_pwr r"
  by (auto simp: rapl_update_ppcc_def Let_def)

lemma rapl_update_tail_range:
  "rapl_update_tail e r c = (ret, e', c') \<Longrightarrow>
     cd_min_state c' = cd_min_state c \<and> cd_max_state c' = cd_max_state c \<and> cd_curr_state c' = cd_min_state c"
  by (auto simp: rapl_update_tail_def Let_def cdev_set_pid_param_def)

text \<open>
  C10. Discovery of a RAPL device: when \<^verbatim>\<open>cthd_sysfs_cdev_rapl::update\<close> succeeds, from
  configured limits, from the platform's limits or from the maximum power, the range runs downwards
  from \<^verbatim>\<open>min_state\<close> (no throttling) to \<^verbatim>\<open>max_state\<close>, and the device starts unthrottled.
\<close>

theorem rapl_update_range:
  assumes "rapl_update po e r c = (THD_SUCCESS, e', c')"
  shows "cd_max_state c' \<le> cd_min_state c' \<and> cd_curr_state c' = cd_min_state c'"
proof -
  obtain bad r1 where 1: "rapl_sysfs_valid e c r = (bad, r1)" by fastforce
  obtain ok r2 where 2: "read_ppcc_power_limits po e c r1 = (ok, r2)" by fastforce
  have bad: "bad = 0"
    using assms 1 by (auto simp: rapl_update_def thd_codes split: if_splits)
  show ?thesis
  proof (cases ok)
    case True
    obtain e3 r3 c3 where 3: "rapl_update_ppcc e r2 c = (e3, r3, c3)" by (metis prod_cases3)
    then have "rapl_update_tail e3 r3 c3 = (THD_SUCCESS, e', c')"
      using assms 1 2 bad True by (simp add: rapl_update_def)
    from rapl_update_tail_range [OF this] rapl_update_ppcc_range [OF 3] show ?thesis
      using read_ppcc_oriented 2 True by fastforce
  next
    case False
    define phy where "phy = rapl_read_pl1_max e r2 c"
    define phy' where "phy' = (let pl1 = rapl_read_pl1 e r2 c in if phy < pl1 then pl1 else phy)"
    show ?thesis
    proof (cases "phy < 0 \<or> rapl_max_sane_phy_max < phy")
      case True
      then show ?thesis
        using assms 1 2 bad False
        by (auto simp: rapl_update_def Let_def phy_def rapl_max_sane_phy_max_def set_inc_dec_value_def)
    next
      case ok: False
      have "0 \<le> phy'" using ok by (auto simp: phy'_def Let_def)
      moreover have "rapl_update_tail e (r2\<lparr>rp_phy_max := phy'\<rparr>)
          ((set_inc_dec_value (rapl_step_of phy') c)\<lparr>cd_min_state := phy', cd_max_state := rapl_low_of phy'\<rparr>)
          = (THD_SUCCESS, e', c')"
        using assms 1 2 bad False ok unfolding phy'_def phy_def Let_def
        by (simp add: rapl_update_def Let_def split del: if_split)
      ultimately show ?thesis
        using rapl_low_of_bounds by (auto dest!: rapl_update_tail_range)
    qed
  qed
qed

definition demo_rapl_files :: files where
  "demo_rapl_files = [''/r/constraint_0_name'' \<mapsto> Text ''long_term'',
     ''/r/constraint_0_power_limit_uw'' \<mapsto> Text ''15000000'',
     ''/r/constraint_0_time_window_us'' \<mapsto> Text ''28000000'', ''/r/enabled'' \<mapsto> Text ''0'']"

definition demo_rapl :: rapl where
  "demo_rapl = (rapl_init ''TCPU.D0'')\<lparr>rp_power_on_constraint_0_time_window := 28000000\<rparr>"

definition demo_rapl_cdev :: cdev where
  "demo_rapl_cdev = (cthd_cdev 7 ''/r/'' (Drv_rapl demo_rapl))
     \<lparr>cd_min_state := 15000000, cd_max_state := 7500000, cd_curr_state := 15000000\<rparr>"

definition demo_ppcc :: ppcc where
  "demo_ppcc = \<lparr>pc_name = ''TCPU.D0'', pc_valid = 1, pc_power_limit_min = 3000, pc_power_limit_max = 15000,
     pc_time_wind_min = 28000, pc_time_wind_max = 32000, pc_step_size = 500, pc_limit_1_valid = 0,
     pc_power_limit_1_min = 0, pc_power_limit_1_max = 0, pc_time_wind_1_min = 0, pc_time_wind_1_max = 0,
     pc_step_1_size = 0\<rparr>"

lemma show_int_0 [simp]: "show_int 0 = ''0''" and show_int_1 [simp]: "show_int 1 = ''1''"
  by code_simp+

text \<open>An environment in which every attribute reads as the name of the long term constraint.\<close>

definition long_term_env :: menv where
  "long_term_env = demo_meter (\<lambda>_. Some (Text ''long_term''))"

lemma long_term_env_reads [simp]:
  "sysfs_exists long_term_env p" "sysfs_read_str long_term_env p old = (0, ''long_term'')"
  by (simp_all add: sysfs_exists_def sysfs_read_str_def long_term_env_def demo_meter_def
      first_token_def is_space_def)

lemma demo_rapl_update_ok:
  "fst (rapl_update (Some demo_ppcc) long_term_env demo_rapl demo_rapl_cdev) = THD_SUCCESS"
proof -
  have "fst (rapl_sysfs_valid long_term_env demo_rapl_cdev demo_rapl) = 0"
    by (simp add: rapl_sysfs_valid_def rapl_no_time_windows_def upt_conv_Cons rapl_scan_constraint_def Let_def)
  moreover have "fst (read_ppcc_power_limits (Some demo_ppcc) long_term_env demo_rapl_cdev r)" for r
    by (simp add: read_ppcc_power_limits_def ppcc_from_config_def demo_ppcc_def Let_def)
  ultimately show ?thesis
    by (auto simp: rapl_update_def rapl_update_tail_def Let_def split: prod.splits)
qed

theorem rapl_update_range_witness:
  "let c' = snd (snd (rapl_update (Some demo_ppcc) long_term_env demo_rapl demo_rapl_cdev))
   in cd_max_state c' \<le> cd_min_state c' \<and> cd_curr_state c' = cd_min_state c'"
proof -
  obtain e' c' where "rapl_update (Some demo_ppcc) long_term_env demo_rapl demo_rapl_cdev
      = (THD_SUCCESS, e', c')"
    using demo_rapl_update_ok by (metis prod.collapse)
  from rapl_update_range [OF this] this show ?thesis by simp
qed


lemma rapl_update_pl1_stores:
  assumes "stores e" and "e_files e (constraint_attr c (rp_constraint_index r) ''_power_limit_uw'') \<noteq> None"
  shows "rapl_update_pl1 e r c v = (THD_SUCCESS, e\<lparr>e_files :=
     (e_files e)(constraint_attr c (rp_constraint_index r) ''_power_limit_uw'' \<mapsto> Text (show_int (u32_of v)))\<rparr>)"
  using assms by (simp add: rapl_update_pl1_def rapl_write_ret_def sysfs_write_uint_def stores_write thd_codes)

lemma rapl_write_stores:
  assumes "stores e"
  shows "snd (rapl_write e p v) =
     (if e_files e p = None then e else e\<lparr>e_files := (e_files e)(p \<mapsto> Text (show_int (u32_of v)))\<rparr>)"
  using assms by (simp add: rapl_write_def sysfs_write_uint_def stores_write)

lemma rapl_attr_neq [simp]:
  "constraint_attr c i ''_power_limit_uw'' \<noteq> constraint_attr c i ''_time_window_us''"
  "constraint_attr c i ''_time_window_us'' \<noteq> constraint_attr c i ''_power_limit_uw''"
  "constraint_attr c i s \<noteq> cd_attr c ''enabled''"
  "cd_attr c ''enabled'' \<noteq> constraint_attr c i s"
  by (simp_all add: constraint_attr_def cd_attr_def)


text \<open>The attribute files of the constraint a RAPL device controls.\<close>

definition rapl_files_exist :: "menv \<Rightarrow> rapl \<Rightarrow> cdev \<Rightarrow> bool" where
  "rapl_files_exist e r c \<longleftrightarrow>
     e_files e (constraint_attr c (rp_constraint_index r) ''_power_limit_uw'') \<noteq> None
     \<and> e_files e (constraint_attr c (rp_constraint_index r) ''_time_window_us'') \<noteq> None
     \<and> e_files e (cd_attr c ''enabled'') \<noteq> None"

lemma rapl_read_stored:
  assumes "stores e" "e_files e p = Some (Text (show_int v))" "in_s32 v"
  shows "rapl_read e p = v"
  using assms by (simp add: rapl_read_def stores_read_int [OF assms])

lemma u32_of_s32_nonneg: "0 \<le> v \<Longrightarrow> v \<le> INT_MAX \<Longrightarrow> u32_of v = v \<and> in_s32 v"
  by (auto simp: INT_MAX_def in_s32_def)

lemma rapl_release_stores:
  assumes "stores e" "rapl_files_exist e r c"
  shows "rapl_release e r c = (e\<lparr>e_files := (if rp_power_on_enable_status r = 0
        then (e_files e)(cd_attr c ''enabled'' \<mapsto> Text (show_int 0)) else e_files e)
      (constraint_attr c (rp_constraint_index r) ''_time_window_us''
         \<mapsto> Text (show_int (u32_of (rp_power_on_constraint_0_time_window r))))\<rparr>,
    r\<lparr>rp_constrained := False\<rparr>)"
  using assms by (auto simp: rapl_release_def rapl_update_enable_status_def rapl_update_time_window_def
      rapl_write_stores rapl_files_exist_def)

lemma rapl_constrain_stores:
  assumes "stores e" "rapl_files_exist e r c" "\<not> rp_constrained r"
  shows "rapl_constrain e r c = (e\<lparr>e_files :=
      (let fs = (e_files e)(constraint_attr c (rp_constraint_index r) ''_time_window_us''
         \<mapsto> Text (show_int (u32_of (if rp_pl0_min_window r \<noteq> 0 then rp_pl0_min_window r else def_rapl_time_window))))
       in if rp_power_on_enable_status r = 0 then fs(cd_attr c ''enabled'' \<mapsto> Text (show_int 1)) else fs)\<rparr>,
    r\<lparr>rp_constrained := True\<rparr>)"
  using assms by (auto simp: rapl_constrain_def rapl_update_enable_status_def rapl_update_time_window_def
      rapl_write_stores rapl_files_exist_def Let_def)

lemma rapl_set_released:
  assumes "stores e" "rapl_files_exist e r c" "\<not> rp_bios_locked r" "rp_power_on_constraint_0_pwr r = 0"
    and "cd_min_state c \<le> max s (cd_max_state c)"
  shows "rapl_set_curr_state e r c s a =
    ((fst (rapl_release e r c))\<lparr>e_files := (e_files (fst (rapl_release e r c)))
        (constraint_attr c (rp_constraint_index r) ''_power_limit_uw'' \<mapsto> Text (show_int (u32_of (cd_min_state c))))\<rparr>,
     c\<lparr>cd_curr_state := cd_min_state c, cd_driver := Drv_rapl (r\<lparr>rp_constrained := False\<rparr>)\<rparr>)"
  using assms
  by (auto simp: rapl_set_curr_state_def rapl_release_stores rapl_files_exist_def
      rapl_update_pl1_stores thd_codes max_def Let_def split: if_splits)

lemma rapl_set_throttled:
  assumes "stores e" "rapl_files_exist e r c" "\<not> rp_bios_locked r" "max s (cd_max_state c) < cd_min_state c"
    and "(if a \<noteq> 0 then rapl_constrain e r c else (e, r)) = (e1, r1)"
  shows "rapl_set_curr_state e r c s a =
    (e1\<lparr>e_files := (e_files e1)
        (constraint_attr c (rp_constraint_index r) ''_power_limit_uw''
           \<mapsto> Text (show_int (u32_of (max s (cd_max_state c)))))\<rparr>,
     c\<lparr>cd_curr_state := max s (cd_max_state c), cd_driver := Drv_rapl r1\<rparr>)"
proof -
  have "rp_constraint_index r1 = rp_constraint_index r"
    using assms(5) by (auto simp: rapl_constrain_def Let_def split: if_splits)
  moreover have "stores e1 \<and> e_files e1 (constraint_attr c (rp_constraint_index r) ''_power_limit_uw'') \<noteq> None"
  proof (cases "a \<noteq> 0 \<and> \<not> rp_constrained r")
    case True
    then show ?thesis
      using assms(1,2,5) by (auto simp: rapl_constrain_stores Let_def rapl_files_exist_def split: if_splits)
  next
    case False
    then show ?thesis
      using assms(1,2,5) by (auto simp: rapl_constrain_def rapl_files_exist_def split: if_splits)
  qed
  ultimately show ?thesis
    using assms(3-5)
    by (auto simp: rapl_set_curr_state_def rapl_update_pl1_stores thd_codes max_def Let_def
        split: if_splits)
qed


lemma demo_rapl_setup:
  "stores (demo_meter fs)"
  "cd_driver demo_rapl_cdev = Drv_rapl demo_rapl" "\<not> rp_bios_locked demo_rapl"
  "rp_power_on_constraint_0_pwr demo_rapl = 0" "rp_power_on_enable_status demo_rapl = 0"
  "\<not> rp_constrained demo_rapl" "rp_power_on_constraint_0_time_window demo_rapl = 28000000"
  "cd_max_state demo_rapl_cdev = 7500000" "cd_min_state demo_rapl_cdev = 15000000"
  "cd_curr_state demo_rapl_cdev = 15000000"
  by (simp_all add: stores_def demo_meter_def demo_rapl_cdev_def demo_rapl_def rapl_init_def cthd_cdev_def)

lemma demo_rapl_files: "rapl_files_exist (demo_meter demo_rapl_files) demo_rapl demo_rapl_cdev"
  by (simp add: rapl_files_exist_def demo_meter_def demo_rapl_files_def demo_rapl_cdev_def
      demo_rapl_def rapl_init_def cthd_cdev_def constraint_attr_def cd_attr_def)





text \<open>
  C7. A RAPL device whose limit the firmware has locked: the first request, answered with
  \<^verbatim>\<open>ENODATA\<close>, marks the device; from then on no request writes to the kernel, and a request
  above the step value records \<^verbatim>\<open>max_state\<close>, also one that asks to release the device.
\<close>

theorem rapl_bios_lock:
  assumes "cd_driver c = Drv_rapl r" and "rapl_files_exist e r c" and "\<And>p. \<not> e_link e p"
    and "\<And>p b fs. e_kwrite e p b fs = (- ENODATA, fs)" and "set_curr_state e c s a = (e1, c1)"
  shows "e1 = e \<and> set_curr_state e1 c1 s' a' =
     (e1, c1\<lparr>cd_curr_state := (if s' \<le> cd_inc_dec_val c then cd_min_state c else cd_max_state c)\<rparr>)"
proof -
  have w: "snd (sysfs_write_uint e p v) = e" for p v
    using assms(3,4) by (simp add: sysfs_write_uint_def sysfs_write_def split: option.splits)
  have upd: "snd (rapl_write e p v) = e" for p v
    using w [of p v] by (auto simp: rapl_write_def split: prod.splits)
  have pl1: "rapl_update_pl1 e r' c v = (- ENODATA, e)" if "rp_constraint_index r' = rp_constraint_index r" for r' v
    using assms(2-4) that by (auto simp: rapl_update_pl1_def rapl_write_ret_def sysfs_write_uint_def
        sysfs_write_def rapl_files_exist_def thd_codes)
  have rel: "rapl_release e r c = (e, r\<lparr>rp_constrained := False\<rparr>)"
    and con: "\<exists>b. rapl_constrain e r c = (e, r\<lparr>rp_constrained := b\<rparr>)"
    using upd by (auto simp: rapl_release_def rapl_constrain_def rapl_update_enable_status_def
        rapl_update_time_window_def intro!: exI [of _ True])
  have self: "\<exists>b. r = r\<lparr>rp_constrained := b\<rparr>" by (rule exI [of _ "rp_constrained r"]) simp
  have "e1 = e \<and> (\<exists>r1 v. c1 = c\<lparr>cd_curr_state := v, cd_driver := Drv_rapl r1\<rparr> \<and> rp_bios_locked r1)"
  proof (cases "rp_bios_locked r")
    case True
    then have "c1 = c\<lparr>cd_curr_state := cd_curr_state c1, cd_driver := Drv_rapl r\<rparr>"
      using assms(1,5) by (auto simp: set_curr_state_def rapl_set_curr_state_def)
    then show ?thesis using True assms(1,5) by (auto simp: set_curr_state_def rapl_set_curr_state_def)
  next
    case False
    then show ?thesis
      using assms(1,5) con self rel pl1
      by (auto simp: set_curr_state_def rapl_set_curr_state_def Let_def thd_codes split: if_splits prod.splits)
  qed
  then show ?thesis by (auto simp: set_curr_state_def rapl_set_curr_state_def)
qed

definition locked_env :: menv where
  "locked_env = (demo_meter demo_rapl_files)\<lparr>e_kwrite := (\<lambda>p b fs. (- ENODATA, fs))\<rparr>"

theorem rapl_bios_lock_witness:
  "set_curr_state locked_env (snd (set_curr_state locked_env demo_rapl_cdev 9000000 1)) 15000000 0
   = (locked_env, (snd (set_curr_state locked_env demo_rapl_cdev 9000000 1))\<lparr>cd_curr_state := 7500000\<rparr>)"
proof -
  obtain e1 c1 where 1: "set_curr_state locked_env demo_rapl_cdev 9000000 1 = (e1, c1)" by fastforce
  have "rapl_files_exist locked_env demo_rapl demo_rapl_cdev"
    using demo_rapl_files by (simp add: locked_env_def rapl_files_exist_def)
  moreover have "\<not> e_link locked_env p" for p by (simp add: locked_env_def demo_meter_def)
  moreover have "e_kwrite locked_env p b fs = (- ENODATA, fs)" for p b fs by (simp add: locked_env_def)
  moreover have "cd_inc_dec_val demo_rapl_cdev = 1" by (simp add: demo_rapl_cdev_def cthd_cdev_def)
  ultimately show ?thesis
    using rapl_bios_lock [OF demo_rapl_setup(2) _ _ _ 1, of 15000000 0]
    by (auto simp: 1 demo_rapl_setup)
qed

section \<open>cpufreq, intel_pstate and backlight\<close>

lemma add_frequency_desc:
  "sorted_wrt (>) (acc @ vs) \<Longrightarrow> \<forall>v\<in>set vs. in_s32 v \<Longrightarrow> fold add_frequency vs acc = acc @ vs"
proof (induction vs arbitrary: acc)
  case (Cons v vs)
  have "add_frequency v acc = acc @ [v]"
    using Cons.prems by (cases acc) (auto simp: add_frequency_def)
  with Cons show ?case by simp
qed simp

lemma add_frequency_asc:
  "sorted_wrt (<) (rev acc @ vs) \<Longrightarrow> \<forall>v\<in>set vs. in_s32 v \<Longrightarrow> fold add_frequency vs acc = rev vs @ acc"
proof (induction vs arbitrary: acc)
  case (Cons v vs)
  have "add_frequency v acc = v # acc"
    using Cons.prems by (cases acc) (auto simp: add_frequency_def sorted_wrt_append)
  with Cons show ?case by (simp add: sorted_wrt_append)
qed simp

lemma cpufreq_add_all_fold:
  "cpufreq_add_all mn mx toks fs
   = fold add_frequency (filter (\<lambda>f. mn \<le> f \<and> f \<le> mx) (map istream_uint toks)) fs"
  by (induction toks arbitrary: fs) (auto simp: cpufreq_add_all_def Let_def)

text \<open>
  C14. The cpufreq device: for a frequency table that is strictly ascending or strictly descending,
  the states \<open>0, 1, 2, \<dots>\<close> are the frequencies of the table that lie within the scaling limits,
  each once and in strictly descending order, so a higher state is always a lower frequency.
\<close>

theorem cpufreq_states_descend:
  assumes "sorted_wrt (>) (map istream_uint toks) \<or> sorted_wrt (<) (map istream_uint toks)"
    and "mx \<le> INT_MAX" and "0 \<le> mn"
  shows "sorted_wrt (>) (cpufreq_add_all mn mx toks [])
    \<and> set (cpufreq_add_all mn mx toks []) = {f \<in> set (map istream_uint toks). mn \<le> f \<and> f \<le> mx}"
proof -
  define vs where "vs = filter (\<lambda>f. mn \<le> f \<and> f \<le> mx) (map istream_uint toks)"
  have r: "\<forall>v\<in>set vs. in_s32 v" using assms(2,3) by (auto simp: vs_def in_s32_def INT_MAX_def)
  have "sorted_wrt (>) vs \<or> sorted_wrt (<) vs"
    using assms(1) sorted_wrt_filter unfolding vs_def by blast
  then have "sorted_wrt (>) (fold add_frequency vs []) \<and> set (fold add_frequency vs []) = set vs"
    using r by (auto simp: add_frequency_desc [of "[]"] add_frequency_asc [of "[]"] sorted_wrt_rev)
  then show ?thesis by (auto simp: cpufreq_add_all_fold vs_def)
qed

theorem cpufreq_states_descend_witness:
  "sorted_wrt (>) (cpufreq_add_all 1000000 2000000 [''800000'', ''1000000'', ''1500000'', ''2100000''] [])"
proof -
  have "map istream_uint [''800000'', ''1000000'', ''1500000'', ''2100000''] = [800000, 1000000, 1500000, 2100000]"
    by code_simp
  then show ?thesis
    using cpufreq_states_descend [of "[''800000'', ''1000000'', ''1500000'', ''2100000'']" 2000000 1000000]
    by (simp add: INT_MAX_def)
qed

text \<open>The fields of an intel_pstate device.\<close>

definition the_pstate :: "cdev \<Rightarrow> pstate" where
  "the_pstate c = (case cd_driver c of Drv_pstate s \<Rightarrow> s
     | _ \<Rightarrow> \<lparr>ps_unit_value = 1, ps_min_compensation = 0, ps_turbo_status = False\<rparr>)"

text \<open>
  C15. The intel_pstate device: after a successful \<^verbatim>\<open>update()\<close>, a target of \<open>p\<close> percent is
  mapped to a state of the device's range whose written percentage is at least \<open>p\<close> and less than
  one step of 10 above it.
\<close>

theorem pstate_target_roundtrip:
  assumes "pstate_update e s c = (THD_SUCCESS, c')" and "0 \<le> p" and "p \<le> 100"
  shows "\<exists>s'. cd_driver c' = Drv_pstate s'
     \<and> p \<le> pstate_percent s' (map_target_state c' 1 p)
     \<and> pstate_percent s' (map_target_state c' 1 p) < p + 10
     \<and> 0 \<le> map_target_state c' 1 p \<and> map_target_state c' 1 p \<le> cd_max_state c'"
proof -
  define s' where "s' = s\<lparr>ps_min_compensation := 0, ps_unit_value := 10\<rparr>"
  have c': "c' = c\<lparr>cd_max_state := 10, cd_curr_state := 0, cd_driver := Drv_pstate s'\<rparr>"
    using assms(1) by (auto simp: pstate_update_def f32_f64_10 s'_def thd_codes pstate_default_max_state_def
        split: if_splits prod.splits)
  define k where "k = (100 - p) div 10"
  have m: "map_target_state c' 1 p = k"
    using assms(2,3) f32_tenth [of "100 - p"] f32_of_int [of "100 - p"]
    by (simp add: map_target_state_def c' s'_def k_def del: f32_of_int)
  have k: "0 \<le> k" "k \<le> 10" "p \<le> 100 - 10 * k" "100 - 10 * k < p + 10"
    using assms(2,3) unfolding k_def by linarith+
  have "f32 (of_int k * 10) = of_int (k * 10)" "f32 (100 - of_int (k * 10)) = of_int (100 - k * 10)"
    using f32_of_int [of "k * 10"] f32_of_int [of "100 - k * 10"] k by simp_all
  then have "pstate_percent s' k = 100 - 10 * k"
    using k by (simp add: pstate_percent_def s'_def flip: of_int_diff)
  then show ?thesis using m k by (simp add: c')
qed

theorem pstate_target_roundtrip_witness:
  "let c' = snd (pstate_update (demo_meter (\<lambda>_. Some (Text ''100''))) (the_pstate (cthd_intel_p_state_cdev 3))
                   (cthd_intel_p_state_cdev 3))
   in map_target_state c' 1 75 \<le> cd_max_state c'"
proof -
  have rd: "sysfs_read_int (demo_meter (\<lambda>_. Some (Text ''100''))) p old = (3, 100)" for p old
    by (simp add: sysfs_read_int_def demo_meter_def Let_def) code_simp
  obtain c' where "pstate_update (demo_meter (\<lambda>_. Some (Text ''100''))) (the_pstate (cthd_intel_p_state_cdev 3))
      (cthd_intel_p_state_cdev 3) = (THD_SUCCESS, c')"
    using rd by (simp add: pstate_update_def sysfs_exists_def demo_meter_def)
  from pstate_target_roundtrip [OF this, of 75] this show ?thesis by auto
qed


text \<open>
  The backlight device: the first throttling step remembers the current brightness and dims by
  the step, but never below the minimum brightness; the return to state 0 writes the remembered
  brightness back and leaves the device ready for the next throttling.
\<close>

theorem backlight_dim_and_restore:
  assumes "cd_driver c = Drv_backlight b" and "bl_ref_backlight_state b = 0"
    and "stores e" and "e_files e (cd_attr c ''brightness'') = Some (Text (show_int v))"
    and "0 < v" and "v \<le> INT_MAX" and "0 \<le> bl_min_back_light b" and "bl_min_back_light b \<le> v"
    and "0 < cd_inc_dec_val c"
    and "set_curr_state e c (cd_inc_dec_val c) 1 = (e1, c1)"
    and "set_curr_state e1 c1 0 0 = (e2, c2)"
  shows "snd (sysfs_read_int e1 (cd_attr c ''brightness'') 0) = max (bl_min_back_light b) (v - cd_inc_dec_val c)
     \<and> cd_curr_state c1 = cd_inc_dec_val c
     \<and> snd (sysfs_read_int e2 (cd_attr c ''brightness'') 0) = v \<and> c2 = c\<lparr>cd_curr_state := 0\<rparr>"
proof -
  have v: "in_s32 v" "u32_of v = v" using assms(5,6) u32_of_s32_nonneg by auto
  have rd: "sysfs_read_int e (cd_attr c ''brightness'') 0 = (int (length (show_int v)), v)"
    using assms(3,4) v(1) by (rule stores_read_int)
  define x where "x = backlight_value b v (cd_inc_dec_val c)"
  have xm: "x = max (bl_min_back_light b) (v - cd_inc_dec_val c)" by (simp add: x_def backlight_value_def max_def)
  then have x: "in_s32 x" "u32_of x = x" using assms(6-9) u32_of_s32_nonneg [of x] by auto
  have ref: "backlight_ref e b c (cd_inc_dec_val c) = Some v"
    using rd assms(2) by (simp add: backlight_ref_def)
  have e1: "e1 = e\<lparr>e_files := (e_files e)(cd_attr c ''brightness'' \<mapsto> Text (show_int x))\<rparr>"
    and c1: "c1 = c\<lparr>cd_curr_state := cd_inc_dec_val c, cd_driver := Drv_backlight (b\<lparr>bl_ref_backlight_state := v\<rparr>)\<rparr>"
    using assms(1,3,4,9,10) ref x
    by (auto simp: set_curr_state_def backlight_set_curr_state_def sysfs_write_uint_def stores_write x_def)
  have st: "stores e1" using assms(3) by (simp add: e1)
  have e2: "e2 = e1\<lparr>e_files := (e_files e1)(cd_attr c ''brightness'' \<mapsto> Text (show_int v))\<rparr>"
    and c2: "c2 = c1\<lparr>cd_curr_state := 0, cd_driver := Drv_backlight b\<rparr>"
    using assms(2,5,11) v st
    by (auto simp: set_curr_state_def backlight_set_curr_state_def backlight_restore_def
        sysfs_write_uint_def stores_write c1 e1)
  show ?thesis
    using st x v assms(1) by (simp add: stores_read_int e1 e2 c1 c2 xm)
qed

definition demo_backlight_cdev :: cdev where
  "demo_backlight_cdev = (cthd_cdev 5 ''/b/''
     (Drv_backlight \<lparr>bl_ref_backlight_state = 0, bl_min_back_light = 250\<rparr>))
     \<lparr>cd_max_state := 1000, cd_inc_dec_val := 100\<rparr>"

theorem backlight_dim_and_restore_witness:
  "let (e1, c1) = set_curr_state (demo_meter [''/b/brightness'' \<mapsto> Text (show_int 900)]) demo_backlight_cdev 100 1;
       (e2, c2) = set_curr_state e1 c1 0 0
   in snd (sysfs_read_int e1 ''/b/brightness'' 0) = 800 \<and> snd (sysfs_read_int e2 ''/b/brightness'' 0) = 900"
proof -
  have i: "cd_inc_dec_val demo_backlight_cdev = 100" and p: "cd_attr demo_backlight_cdev ''brightness'' = ''/b/brightness''"
    and d: "cd_driver demo_backlight_cdev = Drv_backlight \<lparr>bl_ref_backlight_state = 0, bl_min_back_light = 250\<rparr>"
    by (simp_all add: demo_backlight_cdev_def cthd_cdev_def cd_attr_def)
  obtain e1 c1 where 1: "set_curr_state (demo_meter [''/b/brightness'' \<mapsto> Text (show_int 900)])
      demo_backlight_cdev (cd_inc_dec_val demo_backlight_cdev) 1 = (e1, c1)" by fastforce
  obtain e2 c2 where 2: "set_curr_state e1 c1 0 0 = (e2, c2)" by fastforce
  show ?thesis
    using backlight_dim_and_restore [OF d _ _ _ _ _ _ _ _ 1 2, of 900] 1 2
    by (simp add: i p demo_rapl_setup(1) demo_meter_def INT_MAX_def)
      (simp add: stores_def)
qed

end
