(* ===== verification/Thd_GddvBuf.thy ===== *)
theory Thd_GddvBuf
  imports Thd_SysFs
begin

text \<open>
  Buffers and their readers: the string comparisons of \<^verbatim>\<open>thd_util.cpp\<close> and the typed
  readers of \<^verbatim>\<open>thd_gddv.cpp\<close> (\<^verbatim>\<open>get_type\<close>, \<^verbatim>\<open>get_uint64\<close>, \<^verbatim>\<open>get_string\<close>,
  \<^verbatim>\<open>get_string_obj\<close>), with the laws the table parsers rest on.

  A \<^verbatim>\<open>char *\<close> is a string that holds the allocation from the pointer on; an access outside of
  it is undefined in C++ and the fault \<open>Out_of_bounds\<close> here. Sums of \<^verbatim>\<open>int\<close> wrap around.
  A loop that does not end within its fuel is the fault \<open>Out_of_fuel\<close>.
\<close>

section \<open>Comparing C strings\<close>

definition THD_MAX_STR_CMP_LEN :: nat where "THD_MAX_STR_CMP_LEN = 4096"

fun strncmp :: "nat \<Rightarrow> string \<Rightarrow> string \<Rightarrow> int" where
  "strncmp 0 _ _ = 0"
| "strncmp (Suc n) [] [] = 0"
| "strncmp (Suc n) (a # _) [] = int (of_char a)"
| "strncmp (Suc n) [] (b # _) = - int (of_char b)"
| "strncmp (Suc n) (a # as) (b # bs) =
     (if a = b then strncmp n as bs else int (of_char a) - int (of_char b))"

definition tolower :: "char \<Rightarrow> char" where
  "tolower c = (let n = (of_char c :: nat) in if 65 \<le> n \<and> n \<le> 90 then char_of (n + 32) else c)"

definition toupper :: "char \<Rightarrow> char" where
  "toupper c = (let n = (of_char c :: nat) in if 97 \<le> n \<and> n \<le> 122 then char_of (n - 32) else c)"

definition strncasecmp :: "nat \<Rightarrow> string \<Rightarrow> string \<Rightarrow> int" where
  "strncasecmp n a b = strncmp n (map tolower a) (map tolower b)"

text \<open>\<^verbatim>\<open>nullptr\<close> is \<open>None\<close>, and stands for the empty string.\<close>

definition or_empty :: "string option \<Rightarrow> string" where
  "or_empty p = (case p of None \<Rightarrow> [] | Some s \<Rightarrow> s)"

definition thd_cmp_len :: "string option \<Rightarrow> string option \<Rightarrow> nat" where
  "thd_cmp_len p q =
     (let m = min (length (or_empty p)) THD_MAX_STR_CMP_LEN; n = min (length (or_empty q)) THD_MAX_STR_CMP_LEN
      in if n < m then m else n)"

definition thd_strcmp_n :: "string option \<Rightarrow> string option \<Rightarrow> int" where
  "thd_strcmp_n p q = strncmp (thd_cmp_len p q) (or_empty p) (or_empty q)"

definition thd_strcasecmp_n :: "string option \<Rightarrow> string option \<Rightarrow> int" where
  "thd_strcasecmp_n p q = strncasecmp (thd_cmp_len p q) (or_empty p) (or_empty q)"

text \<open>C strings hold no NUL.\<close>

definition nul_free :: "string \<Rightarrow> bool" where
  "nul_free s \<longleftrightarrow> CHR 0x00 \<notin> set s"

lemma of_char_pos: "a \<noteq> CHR 0x00 \<Longrightarrow> 0 < (of_char a :: nat)"
  by (cases a) (auto simp: of_char_def)

lemma strncmp_zero:
  "nul_free a \<Longrightarrow> nul_free b \<Longrightarrow> strncmp n a b = 0 \<longleftrightarrow> take n a = take n b"
  by (induction n a b rule: strncmp.induct) (auto simp: nul_free_def of_char_pos)

lemma thd_strcmp_n_eq:
  assumes "nul_free a" "nul_free b" "length b < THD_MAX_STR_CMP_LEN"
  shows "thd_strcmp_n (Some a) (Some b) = 0 \<longleftrightarrow> a = b"
proof -
  have "take n a = take n b \<longleftrightarrow> a = b" if "length b < n \<or> length a \<le> n \<and> length b \<le> n" for n
    using that by (auto dest: arg_cong [where f = length])
  then show ?thesis
    using assms by (auto simp: thd_strcmp_n_def or_empty_def thd_cmp_len_def Let_def strncmp_zero min_def)
qed

section \<open>Faults and results\<close>

datatype fault = Gddv_exception | Out_of_bounds | Out_of_fuel

type_synonym 'a result = "fault + 'a"

definition bind_r :: "'a result \<Rightarrow> ('a \<Rightarrow> 'b result) \<Rightarrow> 'b result" where
  "bind_r r f = (case r of Inl e \<Rightarrow> Inl e | Inr x \<Rightarrow> f x)"

lemma bind_r_simps [simp]: "bind_r (Inl e) f = Inl e" "bind_r (Inr x) f = f x"
  by (simp_all add: bind_r_def)

lemma bind_r_Inr: "bind_r r f = Inr y \<longleftrightarrow> (\<exists>x. r = Inr x \<and> f x = Inr y)"
  by (cases r) simp_all

section \<open>Memory\<close>

fun le_nat :: "string \<Rightarrow> nat" where
  "le_nat [] = 0"
| "le_nat (c # cs) = of_char c + 256 * le_nat cs"

text \<open>A little endian value of \<open>n\<close> bytes at \<open>buf + off\<close>.\<close>

definition load :: "nat \<Rightarrow> string \<Rightarrow> int \<Rightarrow> nat result" where
  "load n buf off =
     (if off < 0 \<or> int (length buf) < off + int n then Inl Out_of_bounds
      else Inr (le_nat (take n (drop (nat off) buf))))"

text \<open>The NUL terminated string at \<open>buf + off\<close>, as the constructor of \<^verbatim>\<open>std::string\<close> reads it.\<close>

definition c_string :: "string \<Rightarrow> int \<Rightarrow> string result" where
  "c_string buf off =
     (if off < 0 \<or> CHR 0x00 \<notin> set (drop (nat off) buf) then Inl Out_of_bounds
      else Inr (takeWhile (\<lambda>c. c \<noteq> CHR 0x00) (drop (nat off) buf)))"

section \<open>The readers\<close>

text \<open>\<open>len\<close> is \<^verbatim>\<open>gddv_cur_buf_len\<close>; the readers return the value and the new offset.\<close>

definition get_type :: "int \<Rightarrow> string \<Rightarrow> int \<Rightarrow> int result" where
  "get_type len buf off =
     (if off < 0 \<or> len < s32 (off + 4) then Inl Gddv_exception
      else bind_r (load 4 buf off) (\<lambda>v. Inr (s32 (int v))))"

definition get_uint64 :: "int \<Rightarrow> string \<Rightarrow> int \<Rightarrow> (u64 \<times> int) result" where
  "get_uint64 len buf off =
     (if off < 0 \<or> len < s32 (off + 4) then Inl Gddv_exception
      else bind_r (load 4 buf off) (\<lambda>ty.
        if s32 (int ty) \<noteq> 4 then Inl Gddv_exception
        else (let off1 = s32 (off + 4)
              in if len < s32 (off1 + 8) then Inl Gddv_exception
                 else bind_r (load 8 buf off1) (\<lambda>v. Inr (word_of_nat v, s32 (off1 + 8))))))"

text \<open>The pointer returned is the position of the contents.\<close>

definition get_string :: "int \<Rightarrow> string \<Rightarrow> int \<Rightarrow> (int \<times> int) result" where
  "get_string len buf off =
     (if off < 0 \<or> len < s32 (off + 4) then Inl Gddv_exception
      else bind_r (load 4 buf off) (\<lambda>ty.
        if s32 (int ty) \<noteq> 8 then Inl Gddv_exception
        else (let off1 = s32 (off + 4)
              in if len < s32 (off1 + 8) then Inl Gddv_exception
                 else bind_r (load 8 buf off1) (\<lambda>v.
                   (let off2 = s32 (off1 + 8)
                    in if INT_MAX < int v \<or> len < s32 (off2 + int v) then Inl Gddv_exception
                       else Inr (off2, s32 (off2 + int v)))))))"

text \<open>A \<^verbatim>\<open>nullptr\<close> given to \<^verbatim>\<open>std::string\<close> is undefined, hence a fault.\<close>

definition get_string_obj :: "int \<Rightarrow> string \<Rightarrow> int \<Rightarrow> (string \<times> int) result" where
  "get_string_obj len buf off =
     bind_r (get_string len buf off) (\<lambda>(p, off').
       if s32 (s32 (off' - off) - 12) < 0 then Inl Out_of_bounds
       else bind_r (c_string buf p) (\<lambda>s. Inr (s, off')))"

text \<open>\<^verbatim>\<open>while (offset < len)\<close>: entries are read until the table ends. What has been read before
  a fault is returned as well.\<close>

fun table_loop :: "nat \<Rightarrow> (int \<Rightarrow> ('e \<times> int) result) \<Rightarrow> int \<Rightarrow> int \<Rightarrow> 'e list \<times> int result" where
  "table_loop n rd len off =
     (if \<not> off < len then ([], Inr off)
      else case n of 0 \<Rightarrow> ([], Inl Out_of_fuel)
      | Suc m \<Rightarrow>
          (case rd off of Inl f \<Rightarrow> ([], Inl f)
           | Inr (x, off') \<Rightarrow> (case table_loop m rd len off' of (xs, r) \<Rightarrow> (x # xs, r))))"

declare table_loop.simps [simp del]

section \<open>Reading stays in bounds and advances\<close>

text \<open>A buffer that holds a table of \<open>len\<close> bytes and, after it, a NUL: what the copy of a value
  in \<^verbatim>\<open>parse_gddv_key\<close> provides. The length leaves room for the offset arithmetic.\<close>

definition table_buf :: "int \<Rightarrow> string \<Rightarrow> bool" where
  "table_buf len buf \<longleftrightarrow> 0 \<le> len \<and> len \<le> INT_MAX - 64 \<and> len < int (length buf) \<and> buf ! nat len = CHR 0x00"

text \<open>The contract of a reader that skips at most \<open>k\<close> bytes without looking: it fails with the
  exception only, and when it returns it has moved forward and by no more than \<open>k\<close> beyond the
  table, or its offset has wrapped around far below zero.\<close>

definition moved :: "int \<Rightarrow> int \<Rightarrow> int \<Rightarrow> int \<Rightarrow> bool" where
  "moved len k off off' \<longleftrightarrow>
     0 \<le> off \<and> (-2147483648 \<le> off' \<and> off' \<le> k - 66 \<or> off + 12 \<le> off' \<and> off' \<le> len + k)"

definition reads :: "int \<Rightarrow> int \<Rightarrow> int \<Rightarrow> ('a \<times> int) result \<Rightarrow> bool" where
  "reads len k off r \<longleftrightarrow> (case r of Inl f \<Rightarrow> f = Gddv_exception | Inr (_, off') \<Rightarrow> moved len k off off')"

lemma load_ok: "0 \<le> off \<Longrightarrow> off + int n \<le> int (length buf) \<Longrightarrow>
    load n buf off = Inr (le_nat (take n (drop (nat off) buf)))"
  by (simp add: load_def)

lemma c_string_ok:
  assumes "table_buf len buf" "0 \<le> p" "p \<le> len"
  shows "\<exists>s. c_string buf p = Inr s"
proof -
  have "drop (nat p) buf ! nat (len - p) = CHR 0x00" "nat (len - p) < length (drop (nat p) buf)"
    using assms by (auto simp: table_buf_def nat_diff_distrib)
  then have "CHR 0x00 \<in> set (drop (nat p) buf)" using nth_mem by metis
  then show ?thesis using assms by (simp add: c_string_def)
qed

lemma s32_small: "-2147483648 \<le> x \<Longrightarrow> x \<le> 2147483647 \<Longrightarrow> s32 x = x"
  by (rule s32_id) (simp add: in_s32_def)

lemma get_uint64_reads:
  assumes "table_buf len buf" "off \<le> len + 24"
  shows "reads len 0 off (get_uint64 len buf off)"
proof (cases "off < 0 \<or> len < off + 12")
  case True
  then show ?thesis
    using assms by (auto simp: reads_def get_uint64_def table_buf_def INT_MAX_def s32_small load_ok)
next
  case False
  then show ?thesis
    using assms by (auto simp: reads_def moved_def get_uint64_def table_buf_def INT_MAX_def s32_small load_ok)
qed

lemma get_type_ok:
  assumes "table_buf len buf" "off \<le> len + 24"
  shows "get_type len buf off = Inl Gddv_exception \<or> (\<exists>v. get_type len buf off = Inr v)"
  using assms by (auto simp: get_type_def table_buf_def INT_MAX_def s32_small load_ok)

lemma s32_over: "2147483648 \<le> x \<Longrightarrow> x < 4294967296 + 2147483648 \<Longrightarrow> s32 x = x - 4294967296"
proof -
  assume "2147483648 \<le> x" "x < 4294967296 + 2147483648"
  then have "(x + 2147483648 - 4294967296) mod 4294967296 = x + 2147483648 - 4294967296"
    by (intro mod_pos_pos_trivial) simp_all
  moreover have "(x + 2147483648 - 4294967296) mod 4294967296 = (x + 2147483648) mod 4294967296"
    by (rule minus_mod_self2)
  ultimately show ?thesis by (simp add: s32_def)
qed

lemma get_string_position:
  assumes "table_buf len buf" "off \<le> len + 24" "get_string len buf off = Inr (p, off')"
  shows "0 \<le> off \<and> p = off + 12 \<and> p \<le> len \<and>
    (\<exists>v. int v \<le> INT_MAX \<and> off' = s32 (p + int v) \<and> off' \<le> len)"
proof -
  obtain v where "0 \<le> off" "off + 12 \<le> len" "int v \<le> INT_MAX" "p = 12 + off" "off' = s32 (12 + off + int v)" "off' \<le> len"
    using assms by (auto simp: get_string_def bind_r_Inr table_buf_def INT_MAX_def s32_small Let_def not_less split: if_splits)
  then show ?thesis by auto
qed

lemma get_string_reads:
  assumes "table_buf len buf" "off \<le> len + 24"
  shows "reads len 0 off (get_string len buf off)"
proof (cases "get_string len buf off")
  case (Inl f)
  then have "f = Gddv_exception"
    using assms by (auto simp: get_string_def table_buf_def INT_MAX_def s32_small load_ok Let_def split: if_splits)
  then show ?thesis by (simp add: reads_def Inl)
next
  case (Inr r)
  obtain p off' where r: "r = (p, off')" by (cases r)
  obtain v where v: "int v \<le> INT_MAX" "off' = s32 (p + int v)" "off' \<le> len" "0 \<le> off" "p = off + 12" "p \<le> len"
    using get_string_position [OF assms Inr [unfolded r]] by blast
  have "moved len 0 off off'"
  proof (cases "p + int v \<le> INT_MAX")
    case True
    then show ?thesis using v by (simp add: moved_def s32_small INT_MAX_def)
  next
    case False
    then have "off' = p + int v - 4294967296" using v assms by (simp add: s32_over INT_MAX_def table_buf_def)
    then show ?thesis using v False assms by (simp add: moved_def INT_MAX_def table_buf_def)
  qed
  then show ?thesis by (simp add: reads_def Inr r)
qed

lemma readsD: "reads len k off (Inr (x, off')) \<Longrightarrow> moved len k off off'"
  by (simp add: reads_def)

lemma moved_le: "moved len k off off' \<Longrightarrow> 0 \<le> len \<Longrightarrow> off' \<le> len + k"
  by (auto simp: moved_def)

text \<open>Readers in sequence, possibly with a skip of 12 bytes between them.\<close>

lemma moved_trans:
  assumes "moved len k off off1" "moved len k' off1 off2" "k \<le> 24"
  shows "moved len k' off off2"
  using assms by (auto simp: moved_def)

definition skip12 :: "int \<Rightarrow> int" where
  "skip12 off = s32 (off + 12)"

lemma skip12_moved:
  assumes "table_buf len buf" "moved len k off off'" "k \<le> 24"
  shows "moved len (k + 12) off (skip12 off')" "skip12 off' \<le> len + k + 12"
  using assms by (auto simp: moved_def skip12_def table_buf_def INT_MAX_def s32_small)

text \<open>Where an offset can be after a reader.\<close>

definition placed :: "int \<Rightarrow> int \<Rightarrow> int \<Rightarrow> bool" where
  "placed len k off \<longleftrightarrow> -2147483648 \<le> off \<and> off \<le> len + k \<and> (off < 0 \<longrightarrow> off \<le> k - 66)"

lemma moved_placed: "moved len k off off' \<Longrightarrow> 0 \<le> len \<Longrightarrow> placed len k off'"
  by (auto simp: moved_def placed_def)

lemma placed_0 [simp]: "0 \<le> len \<Longrightarrow> placed len 0 0"
  by (simp add: placed_def)

lemma placed_skip: "table_buf len buf \<Longrightarrow> placed len k off \<Longrightarrow> k \<le> 24 \<Longrightarrow> placed len (k + 12) (skip12 off)"
  by (auto simp: placed_def skip12_def table_buf_def INT_MAX_def s32_small)

lemma reads_skip:
  assumes "table_buf len buf" "placed len k off" "k \<le> 24" "reads len k' (skip12 off) r"
  shows "reads len k' off r"
proof (cases r)
  case (Inl f)
  then show ?thesis using assms(4) by (simp add: reads_def)
next
  case (Inr y)
  then show ?thesis using assms
    by (cases y) (auto simp: reads_def moved_def placed_def skip12_def table_buf_def INT_MAX_def s32_small)
qed

lemma reads_bind:
  assumes "reads len k off r" "table_buf len buf" "k \<le> 24"
    and "\<And>x off'. placed len k off' \<Longrightarrow> reads len k' off' (f x off')"
  shows "reads len k' off (bind_r r (\<lambda>(x, off'). f x off'))"
proof (cases r)
  case (Inl e)
  then show ?thesis using assms(1) by (simp add: reads_def)
next
  case (Inr y)
  obtain x off' where y: "y = (x, off')" by (cases y)
  have m: "moved len k off off'" using assms(1) by (simp add: reads_def Inr y)
  have "reads len k' off' (f x off')"
    using assms(2) moved_placed [OF m] by (intro assms(4)) (simp add: table_buf_def)
  then have "reads len k' off (f x off')"
    using moved_trans [OF m _ assms(3)] by (auto simp: reads_def split: sum.splits)
  then show ?thesis by (simp add: Inr y)
qed

lemma reads_return:
  assumes "reads len k off r"
  shows "reads len k off (bind_r r (\<lambda>(x, off'). Inr (g x, off')))"
  using assms by (cases r) (auto simp: reads_def)

lemma reads_return_skip:
  assumes "reads len k off r" "table_buf len buf" "k \<le> 24"
  shows "reads len (k + 12) off (bind_r r (\<lambda>(x, off'). Inr (g x, skip12 off')))"
  using assms skip12_moved(1) [OF assms(2) _ assms(3)] by (cases r) (auto simp: reads_def)

lemma get_string_obj_reads:
  assumes "table_buf len buf" "off \<le> len + 24"
  shows "reads len 0 off (get_string_obj len buf off)"
proof (cases "get_string len buf off")
  case (Inl f)
  then show ?thesis using get_string_reads [OF assms] by (simp add: get_string_obj_def reads_def)
next
  case (Inr r)
  obtain p off' where r: "r = (p, off')" by (cases r)
  obtain v where v: "int v \<le> INT_MAX" "off' = s32 (p + int v)" "0 \<le> off" "p = off + 12" "p \<le> len"
    using get_string_position [OF assms Inr [unfolded r]] by blast
  have "s32 (s32 (off' - off) - 12) = s32 (int v)"
    by (simp add: v(2,4) s32_def mod_simps algebra_simps)
  also have "\<dots> = int v" using v(1) by (simp add: s32_small INT_MAX_def)
  finally have l: "\<not> s32 (s32 (off' - off) - 12) < 0" by simp
  obtain s where "c_string buf p = Inr s" using c_string_ok [OF assms(1), of p] v by auto
  then show ?thesis using get_string_reads [OF assms] by (simp add: get_string_obj_def reads_def Inr r l)
qed

lemma placed_le: "placed len k off \<Longrightarrow> k \<le> 24 \<Longrightarrow> off \<le> len + 24"
  by (simp add: placed_def)

lemma read_uint64: "table_buf len buf \<Longrightarrow> placed len k off \<Longrightarrow> k \<le> 24 \<Longrightarrow> reads len 0 off (get_uint64 len buf off)"
  by (rule get_uint64_reads) (auto dest: placed_le)

lemma read_string: "table_buf len buf \<Longrightarrow> placed len k off \<Longrightarrow> k \<le> 24 \<Longrightarrow> reads len 0 off (get_string len buf off)"
  by (rule get_string_reads) (auto dest: placed_le)

lemma read_string_obj:
  "table_buf len buf \<Longrightarrow> placed len k off \<Longrightarrow> k \<le> 24 \<Longrightarrow> reads len 0 off (get_string_obj len buf off)"
  by (rule get_string_obj_reads) (auto dest: placed_le)

lemmas read_bind_uint64 = reads_bind [OF read_uint64]
lemmas read_bind_string = reads_bind [OF read_string]
lemmas read_bind_string_obj = reads_bind [OF read_string_obj]

text \<open>A loop over entries that read as promised ends, with the exception if not regularly.\<close>

lemma table_loop_ends:
  assumes "\<And>off. placed len k off \<Longrightarrow> reads len k off (rd off)" "k \<le> 24" "0 \<le> len" "placed len k off"
    and "if off < 0 then 0 < n else len - off < int n"
  shows "snd (table_loop n rd len off) = Inl Gddv_exception \<or> (\<exists>off'. snd (table_loop n rd len off) = Inr off')"
  using assms(4,5)
proof (induction n arbitrary: off)
  case 0
  then show ?case by (simp add: table_loop.simps split: if_splits)
next
  case (Suc n)
  show ?case
  proof (cases "off < len")
    case False
    then show ?thesis by (simp add: table_loop.simps)
  next
    case True
    then have r: "reads len k off (rd off)" using Suc.prems by (intro assms(1))
    show ?thesis
    proof (cases "rd off")
      case (Inl f)
      then show ?thesis using r True by (simp add: table_loop.simps reads_def)
    next
      case (Inr y)
      obtain x off' where y: "y = (x, off')" by (cases y)
      have m: "moved len k off off'" using r by (simp add: reads_def Inr y)
      have "if off' < 0 then 0 < n else len - off' < int n"
        using m Suc.prems True assms(2) by (auto simp: moved_def split: if_splits)
      from Suc.IH [OF moved_placed [OF m assms(3)] this] show ?thesis
        using True by (subst (1 2) table_loop.simps) (auto simp: Inr y split: prod.split)
    qed
  qed
qed

end
