(* ===== verification/Thd_Cdev.thy ===== *)
theory Thd_Cdev
  imports Thd_CdevDrv
begin

text \<open>
  The state controller of a cooling device, \<^verbatim>\<open>thd_cdev.cpp\<close>: the clamps, the exponential
  controller and \<^verbatim>\<open>thd_cdev_set_state\<close>, which keeps the list of the trips that hold the
  device active and decides which of their limits is applied.

  \<^verbatim>\<open>thd_cdev_set_state\<close> is modelled in the three parts the source has: the activation branch
  and the deactivation branch, which update the list and either return early (\<open>Done\<close>) or
  determine what to apply (\<open>Apply\<close>), and the common tail that applies it. Arguments of
  informational log statements are evaluated, as they are in the source, since reading the state
  of a thermal sysfs device refreshes it; debug statements are not.
\<close>

section \<open>Definitions\<close>

definition TRIP_PT_INVALID_TARGET_STATE :: int where
  "TRIP_PT_INVALID_TARGET_STATE = 2147483647"

definition thd_clamp_state_min :: "cdev \<Rightarrow> int \<Rightarrow> int \<Rightarrow> int" where
  "thd_clamp_state_min c state temp_min =
     (if cd_min_state c \<le> cd_max_state c then
        (let mn = (if temp_min \<noteq> 0 \<and> cd_min_state c < temp_min then temp_min else cd_min_state c)
         in if state < mn then mn else state)
      else
        (let mn = (if temp_min \<noteq> 0 \<and> temp_min < cd_min_state c then temp_min else cd_min_state c)
         in if mn < state then mn else state))"

definition thd_clamp_state_max :: "cdev \<Rightarrow> int \<Rightarrow> int \<Rightarrow> int" where
  "thd_clamp_state_max c state temp_max =
     (if cd_min_state c \<le> cd_max_state c then
        (let mx = (if temp_max \<noteq> 0 \<and> temp_max < cd_max_state c then temp_max else cd_max_state c)
         in if mx < state then mx else state)
      else
        (let mx = (if temp_max \<noteq> 0 \<and> cd_max_state c < temp_max then temp_max else cd_max_state c)
         in if state < mx then mx else state))"

subsection \<open>The exponential controller\<close>

definition inc_step :: "cdev \<Rightarrow> int" where
  "inc_step c = (if cd_inc_val c \<noteq> 0 then cd_inc_val c else cd_inc_dec_val c)"

text \<open>The state a repeated activation asks for. The sum is computed in unsigned arithmetic and
  converted back to \<^verbatim>\<open>int\<close>; a result on the wrong side of the base is an overflow, which is
  only looked for when \<^verbatim>\<open>inc_val\<close> is set.\<close>

definition exponential_state :: "cdev \<Rightarrow> int" where
  "exponential_state c =
     (let st = s32 (cd_base_pow_state c + 2 ^ cd_curr_pow c * inc_step c)
      in if (cd_inc_val c < 0 \<and> cd_base_pow_state c < st) \<or> (0 < cd_inc_val c \<and> st < cd_base_pow_state c)
         then cd_max_state c else st)"

text \<open>Activation: the state to set and the device with its exponent updated.\<close>

definition exponential_up :: "menv \<Rightarrow> cdev \<Rightarrow> int \<Rightarrow> int \<Rightarrow> int \<times> menv \<times> cdev" where
  "exponential_up e c temp_min temp_max =
     (let c0 = snd (get_max_state e c) in
      case get_curr_state_again e c0 of (cur, e1) \<Rightarrow>
        (let curr = thd_clamp_state_min c0 cur temp_min;
             c1 = (if cd_trend_increase c0
                   then (let cb = (if cd_curr_pow c0 = 0 then c0\<lparr>cd_base_pow_state := curr\<rparr> else c0)
                         in if cd_curr_pow cb < default_max_exponent
                            then cb\<lparr>cd_curr_pow := cd_curr_pow cb + 1\<rparr> else cb)
                   else c0\<lparr>cd_curr_pow := 0\<rparr>);
             st = (if cd_trend_increase c0 then exponential_state c1 else curr + inc_step c0)
         in (thd_clamp_state_max c1 st temp_max, e1, c1\<lparr>cd_trend_increase := True\<rparr>)))"

text \<open>Deactivation: one step towards \<^verbatim>\<open>min_state\<close>, or straight to it.\<close>

definition dec_step :: "cdev \<Rightarrow> int" where
  "dec_step c =
     (let step = (if cd_dec_val c \<noteq> 0 then cd_dec_val c
                  else if cd_min_state c \<le> cd_max_state c then cd_inc_dec_val c else - cd_inc_dec_val c)
      in if cd_min_state c \<le> cd_max_state c \<and> step < 0 then - step
         else if cd_max_state c < cd_min_state c \<and> 0 < step then - step else step)"

definition exponential_down :: "menv \<Rightarrow> cdev \<Rightarrow> int \<Rightarrow> int \<Rightarrow> int \<times> menv \<times> cdev" where
  "exponential_down e c temp_min temp_max =
     (let c0 = snd (get_max_state e c) in
      case get_curr_state e c0 of (cur, c1) \<Rightarrow>
        (let curr = thd_clamp_state_max c1 cur temp_max;
             c2 = c1\<lparr>cd_curr_pow := 0, cd_trend_increase := False\<rparr>;
             st = (if \<not> cd_auto_down_adjust c2 then curr - dec_step c2 else cd_min_state c2)
         in (thd_clamp_state_max c2 (thd_clamp_state_min c2 st temp_min) temp_max, e, c2)))"

definition exponential_step :: "menv \<Rightarrow> cdev \<Rightarrow> int \<Rightarrow> int \<Rightarrow> int \<Rightarrow> int \<times> menv \<times> cdev" where
  "exponential_step e c state temp_min temp_max =
     (if state \<noteq> 0 then exponential_up e c temp_min temp_max
      else exponential_down e c temp_min temp_max)"

definition thd_cdev_exponential_controller ::
    "menv \<Rightarrow> cdev \<Rightarrow> int \<Rightarrow> int \<Rightarrow> int \<Rightarrow> menv \<times> cdev" where
  "thd_cdev_exponential_controller e c state temp_min temp_max =
     (case exponential_step e c state temp_min temp_max of (st, e1, c1) \<Rightarrow>
        (case set_curr_state e1 c1 st state of (e2, c2) \<Rightarrow> (e2, snd (get_curr_state e2 c2))))"

subsection \<open>Where the device stands\<close>

definition in_min_state :: "menv \<Rightarrow> cdev \<Rightarrow> bool \<times> cdev" where
  "in_min_state e c =
     (if cd_min_state c = cd_max_state c then (False, c)
      else case get_curr_state e c of (cur, c') \<Rightarrow>
        (if cd_min_state c < cd_max_state c then cur \<le> cd_min_state c else cd_min_state c \<le> cur, c'))"

definition in_max_state :: "menv \<Rightarrow> cdev \<Rightarrow> bool \<times> cdev" where
  "in_max_state e c =
     (if cd_min_state c = cd_max_state c then (False, c)
      else case get_curr_state e c of (cur, c1) \<Rightarrow>
        (case get_max_state e c1 of (mx, c2) \<Rightarrow>
           (if cd_min_state c < cd_max_state c then mx \<le> cur else cur \<le> mx, c2)))"

text \<open>Is \<open>state\<close> more (1) or less (-1) throttling than the current state?\<close>

definition cmp_current_state :: "menv \<Rightarrow> cdev \<Rightarrow> int \<Rightarrow> int \<times> cdev" where
  "cmp_current_state e c state =
     (case get_curr_state e c of (cur, c') \<Rightarrow>
        (if cur = state then 0
         else if cd_min_state c < cd_max_state c then (if cur < state then 1 else -1)
         else if cd_max_state c < cd_min_state c then (if cur < state then -1 else 1)
         else 0, c'))"

subsection \<open>The list of active trips\<close>

text \<open>\<^verbatim>\<open>std::sort\<close> with the four comparison functions of the file. Sorting is stable here, as
  it is in the library for the few entries the list has.\<close>

definition sort_clamp_values_asc :: "zone_trip_limits list \<Rightarrow> zone_trip_limits list" where
  "sort_clamp_values_asc = sort_key zl_target_value"

definition sort_clamp_values_dec :: "zone_trip_limits list \<Rightarrow> zone_trip_limits list" where
  "sort_clamp_values_dec = sort_key (\<lambda>l. - zl_target_value l)"

definition sort_min_max_values_asc :: "zone_trip_limits list \<Rightarrow> zone_trip_limits list" where
  "sort_min_max_values_asc = sort_key zl_min_state"

definition sort_min_max_values_dec :: "zone_trip_limits list \<Rightarrow> zone_trip_limits list" where
  "sort_min_max_values_dec = sort_key (\<lambda>l. - zl_max_state l)"

definition same_trip :: "int \<Rightarrow> int \<Rightarrow> zone_trip_limits \<Rightarrow> bool" where
  "same_trip zone trip l \<longleftrightarrow> zl_zone l = zone \<and> zl_trip l = trip"

text \<open>The arguments of a request.\<close>

record request =
  rq_target_temp :: int
  rq_temperature :: int
  rq_hard_target :: int
  rq_state :: int
  rq_zone :: int
  rq_trip :: int
  rq_target_state_valid :: int
  rq_target_value :: int
  rq_force :: bool
  rq_min_max_valid :: int
  rq_min_state :: int
  rq_max_state :: int

definition new_limit :: "cdev \<Rightarrow> request \<Rightarrow> zone_trip_limits" where
  "new_limit c q =
     \<lparr>zl_zone = rq_zone q, zl_trip = rq_trip q, zl_target_state_valid = rq_target_state_valid q,
      zl_target_value = rq_target_value q,
      zl_min_state =
        (if rq_min_max_valid q \<noteq> 0
         then (if rq_min_state q = TRIP_PT_INVALID_TARGET_STATE \<or> rq_min_state q = 0
               then cd_min_state c else rq_min_state q) else 0),
      zl_max_state =
        (if rq_min_max_valid q \<noteq> 0
         then (if rq_max_state q = TRIP_PT_INVALID_TARGET_STATE \<or> rq_max_state q = 0
               then cd_max_state c else rq_max_state q) else 0),
      zl_min_max_valid = rq_min_max_valid q\<rparr>"

definition add_limit :: "cdev \<Rightarrow> request \<Rightarrow> zone_trip_limits list" where
  "add_limit c q =
     (let ls = cd_zone_trip_limits c @ [new_limit c q];
          ls1 = (if rq_target_state_valid q \<noteq> 0
                 then (if cd_min_state c < cd_max_state c then sort_clamp_values_asc ls
                       else sort_clamp_values_dec ls) else ls)
      in if rq_min_max_valid q \<noteq> 0
         then (if cd_max_state c < cd_min_state c then sort_min_max_values_dec ls1
               else sort_min_max_values_asc ls1) else ls1)"

subsection \<open>Setting the state\<close>

text \<open>What a branch decides: return at once, or apply a limit (whether there is a target, the
  target, and the limits of the trip).\<close>

datatype decision = Done | Apply int int int int

definition register_trip :: "cdev \<Rightarrow> request \<Rightarrow> cdev" where
  "register_trip c q =
     (if list_ex (same_trip (rq_zone q) (rq_trip q)) (cd_zone_trip_limits c) then c
      else c\<lparr>cd_zone_trip_limits := add_limit c q\<rparr>)"

text \<open>Is the device already throttled at least as much as the limit asks for?\<close>

definition more_constrained :: "menv \<Rightarrow> cdev \<Rightarrow> bool \<Rightarrow> zone_trip_limits \<Rightarrow> bool \<times> cdev" where
  "more_constrained e c first_entry limit =
     (if \<not> first_entry \<and> zl_target_state_valid limit \<noteq> 0
      then (case cmp_current_state e c
                   (map_target_state c (zl_target_state_valid limit) (zl_target_value limit)) of
              (r, c') \<Rightarrow> (r \<le> 0, c'))
      else (False, c))"

definition debounced :: "menv \<Rightarrow> cdev \<Rightarrow> request \<Rightarrow> bool" where
  "debounced e c q \<longleftrightarrow> \<not> rq_force q \<and> cd_last_state c = rq_state q \<and> rq_state q \<noteq> 0
     \<and> e_now e - cd_last_action_time c \<le> cd_debounce_interval c"

definition apply_of :: "zone_trip_limits \<Rightarrow> decision" where
  "apply_of l = Apply (zl_target_state_valid l) (zl_target_value l) (zl_min_state l) (zl_max_state l)"

definition activate :: "menv \<Rightarrow> cdev \<Rightarrow> request \<Rightarrow> decision \<times> cdev" where
  "activate e c q =
     (let c1 = register_trip c q; limit = last (cd_zone_trip_limits c1)
      in case more_constrained e c1 (cd_zone_trip_limits c = []) limit of (already, c2) \<Rightarrow>
           if already \<or> debounced e c2 q then (Done, c2) else (apply_of limit, c2))"

definition deactivate :: "cdev \<Rightarrow> request \<Rightarrow> decision \<times> cdev" where
  "deactivate c q =
     (if cd_zone_trip_limits c \<noteq> [] then
        (let limit = last (cd_zone_trip_limits c);
             erased = same_trip (rq_zone q) (rq_trip q) limit;
             tsv_erased = (if erased then zl_target_state_valid limit else 0);
             c1 = (if erased then c\<lparr>cd_zone_trip_limits := butlast (cd_zone_trip_limits c)\<rparr> else c)
         in if cd_zone_trip_limits c1 \<noteq> [] then
              (if \<not> erased then (Done, c1)
               else (apply_of (last (cd_zone_trip_limits c1)), c1))
            else if tsv_erased \<noteq> 0 then
              (Apply (rq_target_state_valid q) (get_min_state c1) (rq_min_state q) (rq_max_state q), c1)
            else if rq_force q then (Apply 1 (get_min_state c1) (rq_min_state q) (rq_max_state q), c1)
            else (Apply (rq_target_state_valid q) (rq_target_value q) (rq_min_state q) (rq_max_state q), c1))
      else if rq_force q then (Apply 1 (get_min_state c) (rq_min_state q) (rq_max_state q), c)
      else (Apply 0 (rq_target_value q) (rq_min_state q) (rq_max_state q), c))"

text \<open>A PID result moved into the range of the device.\<close>

definition pid_range :: "cdev \<Rightarrow> int \<Rightarrow> int \<Rightarrow> int" where
  "pid_range c mx ret =
     (if get_min_state c < mx
      then (let r = (if mx < ret then mx else ret) in if r < get_min_state c then get_min_state c else r)
      else (let r = (if ret < mx then mx else ret) in if get_min_state c < r then get_min_state c else r))"

text \<open>Setting a state and logging it.\<close>

definition set_raw_and_log :: "menv \<Rightarrow> cdev \<Rightarrow> int \<Rightarrow> int \<Rightarrow> menv \<times> cdev" where
  "set_raw_and_log e c st state =
     (case set_curr_state_raw e c st state of (e', c') \<Rightarrow> (e', snd (get_curr_state e' c')))"

definition apply_target :: "menv \<Rightarrow> cdev \<Rightarrow> int \<Rightarrow> int \<Rightarrow> menv \<times> cdev" where
  "apply_target e c tv state =
     (case set_curr_state_raw e c tv state of (e', c') \<Rightarrow>
        (e', snd (get_curr_state e' (c'\<lparr>cd_curr_state := tv\<rparr>))))"

definition apply_trip_pid :: "menv \<Rightarrow> cdev \<Rightarrow> pid \<Rightarrow> request \<Rightarrow> menv \<times> cdev \<times> pid" where
  "apply_trip_pid e c p q =
     (case get_curr_state_again e c of (cur, e1) \<Rightarrow>
        (case pid_output (e_now e1) (word_of_int (rq_temperature q)) (cur - get_min_state c)
                (set_target_temp (word_of_int (rq_target_temp q)) p) of (out, p1) \<Rightarrow>
           (case get_max_state e1 c of (mx, c1) \<Rightarrow>
              (case set_raw_and_log e1 c1 (pid_range c1 mx (out + get_min_state c1)) (rq_state q) of
                 (e2, c2) \<Rightarrow> (e2, c2, if rq_state q = 0 then pid_reset p1 else p1)))))"

definition apply_cdev_pid :: "menv \<Rightarrow> cdev \<Rightarrow> request \<Rightarrow> menv \<times> cdev" where
  "apply_cdev_pid e c q =
     (case pid_output (e_now e) (word_of_int (rq_temperature q)) 0
             (set_target_temp (word_of_int (rq_target_temp q)) (cd_pid_ctrl c)) of (out, p1) \<Rightarrow>
        (case get_max_state e (c\<lparr>cd_pid_ctrl := p1\<rparr>) of (mx, c1) \<Rightarrow>
           set_raw_and_log e c1 (pid_range c1 mx (out + get_min_state c1)) (rq_state q)))"

definition begin_control :: "menv \<Rightarrow> cdev \<Rightarrow> int \<Rightarrow> cdev" where
  "begin_control e c0 state =
     (case get_curr_state e (c0\<lparr>cd_last_action_time := e_now e, cd_last_state := state\<rparr>) of (cur, c) \<Rightarrow>
        (let c1 = c\<lparr>cd_curr_state := cur\<rparr>
         in if cur = get_min_state c1
            then (control_begin c1)\<lparr>cd_curr_pow := 0, cd_trend_increase := False\<rparr> else c1))"

definition apply_limit ::
    "menv \<Rightarrow> cdev \<Rightarrow> pid_param option \<Rightarrow> pid \<Rightarrow> request \<Rightarrow> int \<Rightarrow> int \<Rightarrow> int \<Rightarrow> int
       \<Rightarrow> menv \<times> cdev \<times> pid" where
  "apply_limit e c pp p q tsv tv mn mx =
     (if tsv \<noteq> 0 then (case apply_target e c tv (rq_state q) of (e1, c1) \<Rightarrow> (e1, c1, p))
      else if rq_hard_target q \<noteq> 0 then
        (case get_max_state e c of (m, c0) \<Rightarrow>
           (case set_raw_and_log e c0 m (rq_state q) of (e1, c1) \<Rightarrow> (e1, c1, p)))
      else if (case pp of None \<Rightarrow> False | Some pr \<Rightarrow> pp_valid pr \<noteq> 0) then apply_trip_pid e c p q
      else if cd_pid_enable c then (case apply_cdev_pid e c q of (e1, c1) \<Rightarrow> (e1, c1, p))
      else (case (if rq_state q \<noteq> 0 then thd_cdev_exponential_controller e c (rq_state q) mn mx
                  else thd_cdev_exponential_controller e c (rq_state q) 0 0) of (e1, c1) \<Rightarrow> (e1, c1, p)))"

definition thd_cdev_set_state ::
    "menv \<Rightarrow> cdev \<Rightarrow> pid_param option \<Rightarrow> pid \<Rightarrow> request \<Rightarrow> int \<times> menv \<times> cdev \<times> pid" where
  "thd_cdev_set_state e c0 pp p q =
     (let entry = (if rq_state q = 0 then in_min_state e c0 else (False, c0)) in
      if fst entry \<and> cd_zone_trip_limits (snd entry) = [] then (THD_SUCCESS, e, snd entry, p)
      else case (if rq_state q \<noteq> 0 then activate e (snd entry) q else deactivate (snd entry) q) of
        (Done, c) \<Rightarrow> (THD_SUCCESS, e, c, p)
      | (Apply tsv tv mn mx, c) \<Rightarrow>
          (case apply_limit e (begin_control e c (rq_state q)) pp p q tsv tv mn mx of (e', c', p') \<Rightarrow>
             (THD_SUCCESS, e', snd (get_max_state e' c'), p')))"

definition min_state_request :: "cdev \<Rightarrow> int \<Rightarrow> int \<Rightarrow> request" where
  "min_state_request c zone trip =
     \<lparr>rq_target_temp = 0, rq_temperature = 0, rq_hard_target = 0, rq_state = 0, rq_zone = zone,
      rq_trip = trip, rq_target_state_valid = 1, rq_target_value = cd_min_state c, rq_force = True,
      rq_min_max_valid = 0, rq_min_state = 0, rq_max_state = 0\<rparr>"

definition thd_cdev_set_min_state :: "menv \<Rightarrow> cdev \<Rightarrow> int \<Rightarrow> int \<Rightarrow> int \<times> menv \<times> cdev" where
  "thd_cdev_set_min_state e c zone trip =
     (let c1 = c\<lparr>cd_trend_increase := False\<rparr>
      in case thd_cdev_set_state e c1 None cthd_pid (min_state_request c1 zone trip) of
           (_, e', c', _) \<Rightarrow> (THD_SUCCESS, e', c'))"

section \<open>Throttling depth\<close>

text \<open>
  A device's range may run upwards (thermal sysfs, cpufreq) or downwards (power limits). The
  depth of a state is its distance from \<^verbatim>\<open>min_state\<close> in the direction of
  \<^verbatim>\<open>max_state\<close>; the controller is described in terms of it, for both directions at once.
\<close>

definition depth :: "cdev \<Rightarrow> int \<Rightarrow> int" where
  "depth c x = (if cd_min_state c \<le> cd_max_state c then x - cd_min_state c else cd_min_state c - x)"

definition full_depth :: "cdev \<Rightarrow> int" where
  "full_depth c = \<bar>cd_max_state c - cd_min_state c\<bar>"

text \<open>The activation step points from \<^verbatim>\<open>min_state\<close> to \<^verbatim>\<open>max_state\<close>.\<close>

definition step_directed :: "cdev \<Rightarrow> bool" where
  "step_directed c \<longleftrightarrow> (if cd_min_state c \<le> cd_max_state c then 0 \<le> inc_step c else inc_step c \<le> 0)"

lemma full_depth_nonneg [simp]: "0 \<le> full_depth c"
  by (simp add: full_depth_def)

lemma depth_max_state [simp]: "depth c (cd_max_state c) = full_depth c"
  by (simp add: depth_def full_depth_def)

lemma depth_min_state [simp]: "depth c (cd_min_state c) = 0"
  by (simp add: depth_def)

lemma between_depth: "between (cd_min_state c) (cd_max_state c) x \<longleftrightarrow> 0 \<le> depth c x \<and> depth c x \<le> full_depth c"
  by (auto simp: between_def depth_def full_depth_def)

lemma depth_eq_iff [simp]: "depth c x = depth c y \<longleftrightarrow> x = y"
  by (simp add: depth_def)

lemma depth_clamp_min: "depth c (thd_clamp_state_min c x 0) = max 0 (depth c x)"
  by (simp add: thd_clamp_state_min_def depth_def Let_def)

lemma depth_clamp_max: "depth c (thd_clamp_state_max c x 0) = min (full_depth c) (depth c x)"
  by (simp add: thd_clamp_state_max_def depth_def full_depth_def Let_def)

text \<open>With the limits of a trip the clamps can only move further in.\<close>

lemma depth_clamp_min_ge: "max 0 (depth c x) \<le> depth c (thd_clamp_state_min c x t)"
  by (auto simp: thd_clamp_state_min_def depth_def Let_def)

lemma depth_clamp_max_le: "depth c (thd_clamp_state_max c x t) \<le> min (full_depth c) (depth c x)"
  by (auto simp: thd_clamp_state_max_def depth_def full_depth_def Let_def)

lemma clamp_max_keeps_min:
  assumes "t = 0 \<or> 0 \<le> depth c t" and "0 \<le> depth c x"
  shows "0 \<le> depth c (thd_clamp_state_max c x t)"
  using assms by (auto simp: thd_clamp_state_max_def depth_def Let_def split: if_splits)

lemma depth_inc: "step_directed c \<Longrightarrow> 0 \<le> k \<Longrightarrow> depth c (x + k * inc_step c) = depth c x + k * \<bar>inc_step c\<bar>"
  by (auto simp: step_directed_def depth_def abs_if split: if_splits)

lemma depth_dec: "depth c (x - dec_step c) = depth c x - \<bar>dec_step c\<bar>"
  by (auto simp: depth_def dec_step_def Let_def)

text \<open>Depths only look at the range.\<close>

lemma depth_cong:
  "cd_min_state c' = cd_min_state c \<Longrightarrow> cd_max_state c' = cd_max_state c \<Longrightarrow>
     depth c' = depth c \<and> full_depth c' = full_depth c"
  by (simp add: depth_def full_depth_def fun_eq_iff)

lemma exponential_state_depth:
  assumes "step_directed c" and "0 \<le> depth c (cd_base_pow_state c)"
    and "cd_inc_val c \<noteq> 0 \<or> in_s32 (cd_base_pow_state c + 2 ^ cd_curr_pow c * inc_step c)"
  shows "0 \<le> depth c (exponential_state c)"
proof (cases "in_s32 (cd_base_pow_state c + 2 ^ cd_curr_pow c * inc_step c)")
  case True
  then have "exponential_state c \<in> {cd_max_state c, cd_base_pow_state c + 2 ^ cd_curr_pow c * inc_step c}"
    by (auto simp: exponential_state_def Let_def)
  then show ?thesis
    using depth_inc [OF assms(1), of "2 ^ cd_curr_pow c" "cd_base_pow_state c"] assms(2) by auto
next
  case False
  then have i: "inc_step c = cd_inc_val c" "cd_inc_val c \<noteq> 0" using assms(3) by (auto simp: inc_step_def)
  show ?thesis
    using assms(1,2) i
    by (auto simp: exponential_state_def Let_def step_directed_def depth_def split: if_splits)
qed

section \<open>The exponential controller stays in range\<close>

text \<open>The step points the right way and the base of an exponential run is not outside the range
  on the unthrottled side.\<close>

definition ctl_inv :: "cdev \<Rightarrow> bool" where
  "ctl_inv c \<longleftrightarrow> step_directed c \<and> (0 < cd_curr_pow c \<longrightarrow> 0 \<le> depth c (cd_base_pow_state c))"

text \<open>The state an exponential run asks for does not overflow, or its overflow is detected.\<close>

definition no_overflow :: "cdev \<Rightarrow> bool" where
  "no_overflow c \<longleftrightarrow> cd_inc_val c \<noteq> 0 \<or> in_s32 (cd_base_pow_state c + 2 ^ cd_curr_pow c * inc_step c)"

lemma ctl_fields:
  assumes "cd_min_state c' = cd_min_state c" "cd_max_state c' = cd_max_state c"
    and "cd_inc_val c' = cd_inc_val c" "cd_inc_dec_val c' = cd_inc_dec_val c"
  shows "step_directed c' = step_directed c" "inc_step c' = inc_step c" "depth c' = depth c"
    "full_depth c' = full_depth c" "thd_clamp_state_max c' = thd_clamp_state_max c"
    "thd_clamp_state_min c' = thd_clamp_state_min c"
  using assms depth_cong [of c' c]
  by (auto simp: step_directed_def inc_step_def fun_eq_iff thd_clamp_state_max_def thd_clamp_state_min_def)

lemma exponential_up_range:
  assumes "exponential_up e c tmin tmax = (st, e', c')" and "ctl_inv (snd (get_max_state e c))"
    and "no_overflow c'" and "tmax = 0 \<or> 0 \<le> depth c' tmax"
  shows "between (cd_min_state c') (cd_max_state c') st \<and> ctl_inv c'"
proof -
  define c0 where "c0 = snd (get_max_state e c)"
  obtain cur e1 where 1: "get_curr_state_again e c0 = (cur, e1)" by fastforce
  define curr where "curr = thd_clamp_state_min c0 cur tmin"
  define c1 where "c1 = (if cd_trend_increase c0
       then (let cb = (if cd_curr_pow c0 = 0 then c0\<lparr>cd_base_pow_state := curr\<rparr> else c0)
             in if cd_curr_pow cb < default_max_exponent then cb\<lparr>cd_curr_pow := cd_curr_pow cb + 1\<rparr> else cb)
       else c0\<lparr>cd_curr_pow := 0\<rparr>)"
  define st0 where "st0 = (if cd_trend_increase c0 then exponential_state c1 else curr + inc_step c0)"
  have r: "st = thd_clamp_state_max c1 st0 tmax" "c' = c1\<lparr>cd_trend_increase := True\<rparr>"
    using assms(1) 1 by (auto simp: exponential_up_def c0_def curr_def c1_def st0_def Let_def)
  have f: "cd_min_state c1 = cd_min_state c0" "cd_max_state c1 = cd_max_state c0"
      "cd_inc_val c1 = cd_inc_val c0" "cd_inc_dec_val c1 = cd_inc_dec_val c0"
    by (auto simp: c1_def Let_def)
  have f': "cd_min_state c' = cd_min_state c1" "cd_max_state c' = cd_max_state c1"
      "cd_inc_val c' = cd_inc_val c1" "cd_inc_dec_val c' = cd_inc_dec_val c1"
    by (simp_all add: r)
  note fs = ctl_fields [OF f] ctl_fields [OF f']
  have inv: "step_directed c0" "0 < cd_curr_pow c0 \<longrightarrow> 0 \<le> depth c0 (cd_base_pow_state c0)"
    using assms(2) by (auto simp: ctl_inv_def c0_def)
  have curr: "0 \<le> depth c0 curr" using depth_clamp_min_ge [of c0 cur tmin] by (simp add: curr_def)
  have base: "0 \<le> depth c1 (cd_base_pow_state c1)" if "cd_trend_increase c0"
    using that curr inv(2) unfolding fs by (auto simp: c1_def Let_def)
  have "0 \<le> depth c1 st0"
  proof (cases "cd_trend_increase c0")
    case True
    then show ?thesis
      using exponential_state_depth [of c1] base inv(1) assms(3) fs
      by (simp add: st0_def no_overflow_def r)
  next
    case False
    then show ?thesis
      using depth_inc [OF inv(1), of 1 curr] curr by (simp add: st0_def fs)
  qed
  then have "0 \<le> depth c1 st" using assms(4) clamp_max_keeps_min unfolding r(1) fs by blast
  moreover have "depth c1 st \<le> full_depth c1" using depth_clamp_max_le [of c1 st0 tmax] by (simp add: r(1))
  moreover have "ctl_inv c'"
    using inv base unfolding ctl_inv_def fs by (cases "cd_trend_increase c0") (auto simp: r c1_def)
  ultimately show ?thesis by (simp add: between_depth fs)
qed

lemma exponential_down_range:
  assumes "exponential_down e c tmin tmax = (st, e', c')" and "tmax = 0 \<or> 0 \<le> depth c' tmax"
  shows "between (cd_min_state c') (cd_max_state c') st"
proof -
  obtain s0 where st: "st = thd_clamp_state_max c' (thd_clamp_state_min c' s0 tmin) tmax"
    using assms(1) by (auto simp: exponential_down_def Let_def split: prod.splits)
  have "0 \<le> depth c' (thd_clamp_state_min c' s0 tmin)" using depth_clamp_min_ge [of c' s0 tmin] by simp
  then have "0 \<le> depth c' st" unfolding st using assms(2) by (intro clamp_max_keeps_min) auto
  then show ?thesis
    using depth_clamp_max_le [of c' "thd_clamp_state_min c' s0 tmin" tmax] by (simp add: between_depth st)
qed

text \<open>
  C3. Range of the exponential controller: the state it hands to the driver, on activation and on
  deactivation, lies between \<^verbatim>\<open>min_state\<close> and \<^verbatim>\<open>max_state\<close> whichever way the range runs,
  provided the step points towards \<^verbatim>\<open>max_state\<close> and an overflow of the exponential is
  detected or does not happen; the condition on the base of the exponential run is kept.
\<close>

theorem exponential_step_in_range:
  assumes "exponential_step e c state tmin tmax = (st, e', c')"
    and "ctl_inv (snd (get_max_state e c))" and "no_overflow c'"
    and "tmax = 0 \<or> between (cd_min_state c') (cd_max_state c') tmax"
  shows "between (cd_min_state c') (cd_max_state c') st \<and> ctl_inv c'"
proof (cases "state = 0")
  case False
  then show ?thesis
    using assms exponential_up_range [of e c tmin tmax st e' c'] by (auto simp: exponential_step_def between_depth)
next
  case True
  then have d: "exponential_down e c tmin tmax = (st, e', c')" using assms(1) by (simp add: exponential_step_def)
  have "step_directed c' = step_directed (snd (get_max_state e c)) \<and> cd_curr_pow c' = 0"
    using d by (auto simp: exponential_down_def Let_def step_directed_def inc_step_def split: prod.splits)
      (metis drv.cur_st_keeps snd_conv)+
  then show ?thesis
    using exponential_down_range [OF d] assms(2,4) by (auto simp: ctl_inv_def between_depth)
qed

section \<open>Repeated requests\<close>

text \<open>A run of calls of the controller with the same request, on a device that records what it is
  told (the generic sysfs device).\<close>

primrec repeat_controller :: "nat \<Rightarrow> int \<Rightarrow> menv \<times> cdev \<Rightarrow> menv \<times> cdev" where
  "repeat_controller 0 state ec = ec"
| "repeat_controller (Suc n) state ec =
     (case repeat_controller n state ec of (e, c) \<Rightarrow> thd_cdev_exponential_controller e c state 0 0)"

lemma gen_sysfs_reads [simp]:
  assumes "cd_driver c = Drv_gen_sysfs"
  shows "get_max_state e c = (cd_max_state c, c)" "get_curr_state e c = (cd_curr_state c, c)"
    "get_curr_state_again e c = (cd_curr_state c, e)"
    "snd (set_curr_state e c st a) = c\<lparr>cd_curr_state := st\<rparr>"
  using assms by (simp_all add: get_max_state_def get_curr_state_def get_curr_state_again_def
      set_curr_state_def gen_sysfs_set_curr_state_def)

lemma controller_gen_sysfs:
  assumes "cd_driver c = Drv_gen_sysfs" and "exponential_step e c state tmin tmax = (st, e1, c1)"
    and "cd_driver c1 = Drv_gen_sysfs"
  shows "snd (thd_cdev_exponential_controller e c state tmin tmax) = c1\<lparr>cd_curr_state := st\<rparr>"
proof -
  obtain e2 c2 where "set_curr_state e1 c1 st state = (e2, c2)" by fastforce
  moreover from this have "c2 = c1\<lparr>cd_curr_state := st\<rparr>"
    using gen_sysfs_reads(4) [OF assms(3), of e1 st state] by simp
  ultimately show ?thesis using assms by (simp add: thd_cdev_exponential_controller_def)
qed

lemma controller_down_gen_sysfs:
  assumes "cd_driver c = Drv_gen_sysfs" and "\<not> cd_auto_down_adjust c"
  shows "\<exists>st. snd (thd_cdev_exponential_controller e c 0 0 0)
        = c\<lparr>cd_curr_pow := 0, cd_trend_increase := False, cd_curr_state := st\<rparr>
      \<and> depth c st = min (full_depth c) (max 0 (min (full_depth c) (depth c (cd_curr_state c)) - \<bar>dec_step c\<bar>))"
proof -
  define c2 where "c2 = c\<lparr>cd_curr_pow := 0, cd_trend_increase := False\<rparr>"
  define st where "st = thd_clamp_state_max c2 (thd_clamp_state_min c2
      (thd_clamp_state_max c (cd_curr_state c) 0 - dec_step c2) 0) 0"
  have f: "depth c2 = depth c" "full_depth c2 = full_depth c" "dec_step c2 = dec_step c"
    by (simp_all add: c2_def depth_def full_depth_def dec_step_def fun_eq_iff Let_def)
  have "exponential_step e c 0 0 0 = (st, e, c2)"
    using assms by (simp add: exponential_step_def exponential_down_def st_def c2_def Let_def)
  from controller_gen_sysfs [OF assms(1) this]
  have "snd (thd_cdev_exponential_controller e c 0 0 0)
      = c\<lparr>cd_curr_pow := 0, cd_trend_increase := False, cd_curr_state := st\<rparr>"
    using assms(1) by (simp add: c2_def)
  moreover have "depth c st = min (full_depth c) (max 0 (min (full_depth c) (depth c (cd_curr_state c)) - \<bar>dec_step c\<bar>))"
    using depth_clamp_max [of c2] depth_clamp_min [of c2] depth_dec [of c2] depth_clamp_max [of c]
    by (simp add: st_def f)
  ultimately show ?thesis by blast
qed

lemma controller_up_gen_sysfs:
  assumes "cd_driver c = Drv_gen_sysfs"
  shows "snd (thd_cdev_exponential_controller e c 1 0 0) =
     (let curr = thd_clamp_state_min c (cd_curr_state c) 0;
          c1 = (if cd_trend_increase c
                then (let cb = (if cd_curr_pow c = 0 then c\<lparr>cd_base_pow_state := curr\<rparr> else c)
                      in if cd_curr_pow cb < default_max_exponent then cb\<lparr>cd_curr_pow := cd_curr_pow cb + 1\<rparr> else cb)
                else c\<lparr>cd_curr_pow := 0\<rparr>);
          st = (if cd_trend_increase c then exponential_state c1 else curr + inc_step c)
      in c1\<lparr>cd_trend_increase := True, cd_curr_state := thd_clamp_state_max c1 st 0\<rparr>)"
  using assms
  by (subst controller_gen_sysfs [OF assms])
    (auto simp: exponential_step_def exponential_up_def Let_def)

definition no_wrap :: "cdev \<Rightarrow> bool" where
  "no_wrap c \<longleftrightarrow> \<bar>cd_min_state c\<bar> + full_depth c + 2 ^ 20 * \<bar>inc_step c\<bar> \<le> INT_MAX"

text \<open>What a run of activations does not change.\<close>

definition same_ctl :: "cdev \<Rightarrow> cdev \<Rightarrow> bool" where
  "same_ctl c c' \<longleftrightarrow> cd_driver c' = cd_driver c \<and> cd_min_state c' = cd_min_state c
     \<and> cd_max_state c' = cd_max_state c \<and> cd_inc_val c' = cd_inc_val c \<and> cd_inc_dec_val c' = cd_inc_dec_val c"

lemma same_ctlD:
  assumes "same_ctl c c'"
  shows "cd_driver c' = cd_driver c" "depth c' = depth c" "full_depth c' = full_depth c"
    "inc_step c' = inc_step c" "step_directed c' = step_directed c" "no_wrap c' = no_wrap c"
    "thd_clamp_state_max c' = thd_clamp_state_max c" "thd_clamp_state_min c' = thd_clamp_state_min c"
    "cd_min_state c' = cd_min_state c" "cd_max_state c' = cd_max_state c"
  using assms ctl_fields [of c' c] by (auto simp: same_ctl_def no_wrap_def)

text \<open>What holds after \<open>Suc k\<close> activations of a device that was not being activated before:
  the depth is the depth after one step plus the step doubled \<open>k\<close> times.\<close>

definition rising :: "cdev \<Rightarrow> nat \<Rightarrow> cdev \<Rightarrow> bool" where
  "rising c k c' \<longleftrightarrow> same_ctl c c' \<and> cd_trend_increase c' \<and> cd_curr_pow c' = k
     \<and> (0 < k \<longrightarrow> depth c (cd_base_pow_state c') = min (full_depth c) (depth c (cd_curr_state c) + \<bar>inc_step c\<bar>))
     \<and> depth c (cd_curr_state c') = min (full_depth c) (if k = 0 then depth c (cd_curr_state c) + \<bar>inc_step c\<bar>
           else min (full_depth c) (depth c (cd_curr_state c) + \<bar>inc_step c\<bar>) + 2 ^ k * \<bar>inc_step c\<bar>)"

lemma rising_first:
  assumes "cd_driver c = Drv_gen_sysfs" "\<not> cd_trend_increase c" "step_directed c" "0 \<le> depth c (cd_curr_state c)"
  shows "rising c 0 (snd (thd_cdev_exponential_controller e c 1 0 0))"
proof -
  have "thd_clamp_state_max (c\<lparr>cd_curr_pow := 0\<rparr>) = thd_clamp_state_max c"
    by (rule ctl_fields(5)) simp_all
  then show ?thesis
    using assms(2,4) depth_inc [OF assms(3), of 1]
    by (simp add: controller_up_gen_sysfs [OF assms(1)] rising_def same_ctl_def Let_def
        depth_clamp_max depth_clamp_min)
qed

lemma exponential_state_exact:
  assumes "step_directed c" "no_wrap c" "cd_curr_pow c \<le> 20" "between (cd_min_state c) (cd_max_state c) (cd_base_pow_state c)"
  shows "exponential_state c = cd_base_pow_state c + 2 ^ cd_curr_pow c * inc_step c"
proof -
  have p: "2 ^ cd_curr_pow c * \<bar>inc_step c\<bar> \<le> 2 ^ 20 * \<bar>inc_step c\<bar>"
    by (intro mult_right_mono power_increasing) (use assms(3) in auto)
  have a: "\<bar>2 ^ cd_curr_pow c * inc_step c\<bar> = 2 ^ cd_curr_pow c * \<bar>inc_step c\<bar>" by (simp add: abs_mult)
  have "\<bar>cd_base_pow_state c\<bar> \<le> \<bar>cd_min_state c\<bar> + full_depth c"
    using assms(4) by (auto simp: between_def full_depth_def)
  then have "\<bar>cd_base_pow_state c + 2 ^ cd_curr_pow c * inc_step c\<bar> \<le> INT_MAX"
    using p a assms(2) unfolding no_wrap_def by linarith
  then have "in_s32 (cd_base_pow_state c + 2 ^ cd_curr_pow c * inc_step c)"
    unfolding in_s32_def INT_MAX_def by linarith
  then show ?thesis
    using assms(1) by (auto simp: exponential_state_def step_directed_def inc_step_def mult_less_0_iff
        zero_less_mult_iff split: if_splits)
qed

lemma rising_next:
  assumes "cd_driver c = Drv_gen_sysfs" "step_directed c" "no_wrap c" "0 \<le> depth c (cd_curr_state c)"
    and "rising c k c'" "k < 20"
  shows "rising c (Suc k) (snd (thd_cdev_exponential_controller e c' 1 0 0))"
proof -
  define d1 where "d1 = min (full_depth c) (depth c (cd_curr_state c) + \<bar>inc_step c\<bar>)"
  have d1: "0 \<le> d1" "d1 \<le> full_depth c" using assms(4) by (auto simp: d1_def)
  note r = assms(5) [unfolded rising_def, folded d1_def]
  have same: "same_ctl c c'" using r by blast
  note f = same_ctlD [OF same]
  define curr where "curr = thd_clamp_state_min c' (cd_curr_state c') 0"
  define c1 where "c1 = (if k = 0 then c'\<lparr>cd_base_pow_state := curr\<rparr> else c')\<lparr>cd_curr_pow := Suc k\<rparr>"
  have s1: "same_ctl c c1" using same by (auto simp: c1_def same_ctl_def)
  note f1 = same_ctlD [OF s1]
  have "depth c curr = max 0 (depth c (cd_curr_state c'))"
    unfolding curr_def using depth_clamp_min [of c' "cd_curr_state c'"] by (simp add: f)
  then have base: "depth c (cd_base_pow_state c1) = d1"
    using r d1 by (cases "k = 0") (simp_all add: c1_def d1_def)
  have "between (cd_min_state c1) (cd_max_state c1) (cd_base_pow_state c1)"
    unfolding between_depth f1 base using d1 by simp
  then have "exponential_state c1 = cd_base_pow_state c1 + 2 ^ Suc k * inc_step c1"
    using exponential_state_exact [of c1] assms(2,3,6) f1 by (simp add: c1_def)
  then have "depth c (exponential_state c1) = d1 + 2 ^ Suc k * \<bar>inc_step c\<bar>"
    using depth_inc [of c1 "2 ^ Suc k" "cd_base_pow_state c1"] assms(2) base by (simp add: f1)
  then have cl: "depth c (thd_clamp_state_max c1 (exponential_state c1) 0)
      = min (full_depth c) (d1 + 2 ^ Suc k * \<bar>inc_step c\<bar>)"
    using depth_clamp_max [of c1 "exponential_state c1"] by (simp add: f1)
  have "snd (thd_cdev_exponential_controller e c' 1 0 0)
      = c1\<lparr>cd_trend_increase := True, cd_curr_state := thd_clamp_state_max c1 (exponential_state c1) 0\<rparr>"
    using r assms(1,6) f(1)
    by (simp add: controller_up_gen_sysfs default_max_exponent_def c1_def curr_def Let_def)
  then show ?thesis
    using s1 base cl unfolding rising_def d1_def [symmetric] by (simp add: same_ctl_def c1_def)
qed

lemma repeat_rising:
  assumes "cd_driver c = Drv_gen_sysfs" "\<not> cd_trend_increase c" "step_directed c" "no_wrap c"
    and "0 \<le> depth c (cd_curr_state c)" "k \<le> 20"
  shows "rising c k (snd (repeat_controller (Suc k) 1 (e, c)))"
  using assms(6)
proof (induction k)
  case 0
  then show ?case using rising_first assms by simp
next
  case (Suc k)
  obtain e' c' where r: "repeat_controller (Suc k) 1 (e, c) = (e', c')" by fastforce
  have "rising c (Suc k) (snd (thd_cdev_exponential_controller e' c' 1 0 0))"
    using Suc r assms by (intro rising_next) auto
  then show ?case using r by (simp del: repeat_controller.simps(2) add: repeat_controller.simps(2) [of "Suc k"])
qed



lemma controller_down_same:
  assumes "cd_driver c = Drv_gen_sysfs" "\<not> cd_auto_down_adjust c"
    and "0 \<le> depth c (cd_curr_state c)" "depth c (cd_curr_state c) \<le> full_depth c"
  shows "let c' = snd (thd_cdev_exponential_controller e c 0 0 0) in
     cd_driver c' = Drv_gen_sysfs \<and> \<not> cd_auto_down_adjust c' \<and> depth c' = depth c \<and> full_depth c' = full_depth c
     \<and> dec_step c' = dec_step c \<and> depth c (cd_curr_state c') = max 0 (depth c (cd_curr_state c) - \<bar>dec_step c\<bar>)"
proof -
  obtain st where 1: "snd (thd_cdev_exponential_controller e c 0 0 0)
        = c\<lparr>cd_curr_pow := 0, cd_trend_increase := False, cd_curr_state := st\<rparr>"
    and "depth c st = min (full_depth c) (max 0 (min (full_depth c) (depth c (cd_curr_state c)) - \<bar>dec_step c\<bar>))"
    using controller_down_gen_sysfs [OF assms(1,2)] by blast
  then have "depth c st = max 0 (depth c (cd_curr_state c) - \<bar>dec_step c\<bar>)"
    using assms(3,4) by (simp add: min_absorb2)
  moreover define c' where "c' = c\<lparr>cd_curr_pow := 0, cd_trend_increase := False, cd_curr_state := st\<rparr>"
  moreover have "depth c' = depth c \<and> full_depth c' = full_depth c" by (rule depth_cong) (simp_all add: c'_def)
  moreover have "dec_step c' = dec_step c" by (simp add: c'_def dec_step_def Let_def)
  ultimately show ?thesis using assms(1,2) 1 by (simp add: Let_def)
qed

lemma max_0_diff: "0 \<le> k \<Longrightarrow> max 0 (max 0 (d - a) - k) = max 0 (d - (a + k))" for d :: int
  by (simp add: max_def)

lemma repeat_falling:
  assumes "cd_driver c = Drv_gen_sysfs" "\<not> cd_auto_down_adjust c"
    and "0 \<le> depth c (cd_curr_state c)" "depth c (cd_curr_state c) \<le> full_depth c"
  shows "let c' = snd (repeat_controller n 0 (e, c)) in
     cd_driver c' = Drv_gen_sysfs \<and> \<not> cd_auto_down_adjust c' \<and> depth c' = depth c \<and> full_depth c' = full_depth c
     \<and> dec_step c' = dec_step c \<and> depth c (cd_curr_state c') = max 0 (depth c (cd_curr_state c) - int n * \<bar>dec_step c\<bar>)"
proof (induction n)
  case 0
  then show ?case using assms by simp
next
  case (Suc n)
  obtain e' c' where r: "repeat_controller n 0 (e, c) = (e', c')" by fastforce
  have IH: "cd_driver c' = Drv_gen_sysfs" "\<not> cd_auto_down_adjust c'" "depth c' = depth c" "full_depth c' = full_depth c"
      "dec_step c' = dec_step c" "depth c (cd_curr_state c') = max 0 (depth c (cd_curr_state c) - int n * \<bar>dec_step c\<bar>)"
    using Suc r by (simp_all add: Let_def)
  have "0 \<le> depth c' (cd_curr_state c')" "depth c' (cd_curr_state c') \<le> full_depth c'"
    using IH assms(3,4) by (auto intro: order_trans [OF _ assms(4)])
  from controller_down_same [OF IH(1,2) this, of e']
  have "let c'' = snd (thd_cdev_exponential_controller e' c' 0 0 0) in
      cd_driver c'' = Drv_gen_sysfs \<and> \<not> cd_auto_down_adjust c'' \<and> depth c'' = depth c \<and> full_depth c'' = full_depth c
      \<and> dec_step c'' = dec_step c
      \<and> depth c (cd_curr_state c'') = max 0 (depth c (cd_curr_state c) - (int n * \<bar>dec_step c\<bar> + \<bar>dec_step c\<bar>))"
    by (simp only: IH max_0_diff abs_ge_zero Let_def simp_thms)
  then show ?case using r by (simp add: Let_def distrib_right add.commute)
qed


section \<open>Witnesses\<close>

definition demo_fan :: cdev where
  "demo_fan = (cthd_cdev 1 ''/sys/fan'' Drv_gen_sysfs)\<lparr>cd_max_state := 100, cd_inc_dec_val := 10\<rparr>"

definition demo_request :: "int \<Rightarrow> int \<Rightarrow> int \<Rightarrow> int \<Rightarrow> request" where
  "demo_request state trip tsv tv =
     \<lparr>rq_target_temp = 80000, rq_temperature = 85000, rq_hard_target = 0, rq_state = state, rq_zone = 0,
      rq_trip = trip, rq_target_state_valid = tsv, rq_target_value = tv, rq_force = False,
      rq_min_max_valid = 0, rq_min_state = 0, rq_max_state = 0\<rparr>"

lemma demo_request_simps [simp]:
  "rq_state (demo_request s t v w) = s" "rq_zone (demo_request s t v w) = 0" "rq_trip (demo_request s t v w) = t"
  "rq_target_state_valid (demo_request s t v w) = v" "rq_target_value (demo_request s t v w) = w"
  "\<not> rq_force (demo_request s t v w)" "rq_min_max_valid (demo_request s t v w) = 0"
  "rq_hard_target (demo_request s t v w) = 0"
  by (simp_all add: demo_request_def)

definition held_fan :: cdev where
  "held_fan = demo_fan\<lparr>cd_zone_trip_limits := [new_limit demo_fan (demo_request 1 2 0 0)], cd_last_state := 1,
     cd_last_action_time := 19, cd_curr_state := 30\<rparr>"

lemma held_fan_simps:
  "cd_zone_trip_limits held_fan = [new_limit demo_fan (demo_request 1 2 0 0)]" "cd_driver held_fan = Drv_gen_sysfs"
  "cd_min_state held_fan = 0" "cd_max_state held_fan = 100"
  by (simp_all add: held_fan_def demo_fan_def cthd_cdev_def)

theorem exponential_step_in_range_witness:
  "let (st, e', c') = exponential_step (demo_meter Map.empty) held_fan 1 0 0 in 0 \<le> st \<and> st \<le> 100"
proof -
  obtain st e' c' where 1: "exponential_step (demo_meter Map.empty) held_fan 1 0 0 = (st, e', c')" by (metis prod_cases3)
  have c': "c' = held_fan\<lparr>cd_curr_pow := 0, cd_trend_increase := True\<rparr>"
    using 1 by (simp add: exponential_step_def exponential_up_def held_fan_simps Let_def)
      (simp add: held_fan_def demo_fan_def cthd_cdev_def)
  have "ctl_inv (snd (get_max_state (demo_meter Map.empty) held_fan))"
    by (simp add: held_fan_simps ctl_inv_def step_directed_def inc_step_def)
      (simp add: held_fan_def demo_fan_def cthd_cdev_def)
  moreover have "no_overflow c'"
    by (simp add: c' no_overflow_def inc_step_def held_fan_def demo_fan_def cthd_cdev_def in_s32_def)
  ultimately have "between (cd_min_state c') (cd_max_state c') st"
    using exponential_step_in_range [OF 1] by simp
  moreover have "cd_min_state c' = 0" "cd_max_state c' = 100" by (simp_all add: c' held_fan_simps)
  ultimately show ?thesis by (simp add: 1 between_def)
qed



end
