(* ===== verification/Thd_Sensor.thy ===== *)
theory Thd_Sensor
  imports Thd_Cdev
begin

text \<open>
  Sensors: \<^verbatim>\<open>thd_sensor.cpp\<close>, the virtual sensors of \<^verbatim>\<open>thd_sensor_virtual.cpp\<close> and the
  package power sensor of \<^verbatim>\<open>thd_sensor_rapl_power.cpp\<close>; and the part of the engine they and
  the trip points use: the vectors of sensors and cooling devices, the message pipe, the
  preference. A pointer to a sensor or a cooling device is its position in the engine's vector,
  which only ever grows.

  Reading a virtual sensor reads the sensors it is linked to. The recursion is bounded by fuel;
  \<open>None\<close> means that the read does not return within it.
\<close>

section \<open>State\<close>

record link_sensor =
  lk_sensor :: "nat option"
  lk_coeff :: rat
  lk_offset :: rat
  lk_prev_avg :: rat
  lk_power_sensor :: int

record polling_table_entry =
  pt_virtual_temp :: int
  pt_sample_period :: int

record virtual_sensor =
  vs_links :: "link_sensor list"
  vs_multiplier :: rat
  vs_offset :: rat
  vs_polling :: bool
  vs_stop_polling :: bool
  vs_last_temp :: int
  vs_polling_period :: int
  vs_polling_table :: "polling_table_entry list"

datatype sensor_kind = Plain_sensor | Virtual_sensor virtual_sensor | Rapl_power_sensor

record sensor =
  sn_index :: int
  sn_type :: int
  sn_base_path :: string
  sn_type_str :: string
  sn_async_capable :: bool
  sn_scale :: int
  sn_kind :: sensor_kind

definition SENSOR_TYPE_THERMAL_SYSFS :: int where "SENSOR_TYPE_THERMAL_SYSFS = 0"
definition SENSOR_TYPE_RAW :: int where "SENSOR_TYPE_RAW = 1"

datatype message_name = WAKEUP | TERMINATE | PREF_CHANGED | THERMAL_ZONE_NOTIFY | RELOAD_ZONES
  | POLL_ENABLE | POLL_DISABLE | FAST_POLL_ENABLE | FAST_POLL_DISABLE

text \<open>A message and the sensor id it carries.\<close>

datatype message = Message (msg_id: message_name) (msg_sensor: u32)

record sys =
  sy_env :: menv
  sy_cdevs :: "cdev list"
  sy_sensors :: "sensor list"
  sy_pipe :: "message list"
  sy_poll_interval_sec :: int
  sy_preference :: int
  sy_ignore_critical :: bool
  sy_powered_off :: bool

section \<open>Plain sensors\<close>

definition cthd_sensor :: "int \<Rightarrow> string \<Rightarrow> string \<Rightarrow> int \<Rightarrow> sensor" where
  "cthd_sensor idx control_path type_str ty =
     \<lparr>sn_index = idx, sn_type = ty, sn_base_path = control_path, sn_type_str = type_str,
      sn_async_capable = False, sn_scale = 1, sn_kind = Plain_sensor\<rparr>"

definition sensor_update :: "menv \<Rightarrow> sensor \<Rightarrow> int \<times> sensor" where
  "sensor_update e s =
     (if sn_type s = SENSOR_TYPE_THERMAL_SYSFS then
        (if sysfs_exists e (sn_base_path s @ ''type'') then
           (let s' = s\<lparr>sn_type_str := snd (sysfs_read_str e (sn_base_path s @ ''type'') (sn_type_str s))\<rparr>
            in (if sysfs_exists e (sn_base_path s @ ''temp'') then THD_SUCCESS else THD_ERROR, s'))
         else (THD_ERROR, s))
      else if sn_type s = SENSOR_TYPE_RAW then
        (if sysfs_exists e (sn_base_path s) then THD_SUCCESS else THD_ERROR, s)
      else (THD_SUCCESS, s))"

text \<open>\<^verbatim>\<open>read_temperature\<close>: a failed read and a negative temperature are 0. When the attribute is
  empty the local is not set; it is taken as 0 here.\<close>

definition plain_read :: "menv \<Rightarrow> sensor \<Rightarrow> u32" where
  "plain_read e s =
     (case sysfs_read_int e (sn_base_path s @ (if sn_type s = SENSOR_TYPE_THERMAL_SYSFS then ''temp'' else [])) 0 of
        (ret, temp) \<Rightarrow>
          word_of_int (if ret < 0 \<or> temp < 0 then 0 else temp) div word_of_int (sn_scale s))"

definition sensor_update_path :: "string \<Rightarrow> sensor \<Rightarrow> sensor" where
  "sensor_update_path str s =
     (if take 5 str = ''/sys/'' then s\<lparr>sn_base_path := str\<rparr> else s)"

definition set_async_capable :: "bool \<Rightarrow> sensor \<Rightarrow> sensor" where
  "set_async_capable v s = s\<lparr>sn_async_capable := v\<rparr>"

definition enable_uevent :: "menv \<Rightarrow> sensor \<Rightarrow> menv" where
  "enable_uevent e s =
     (let p = ''/sys/class/thermal/'' @ ''thermal_zone'' @ show_int (sn_index s) @ ''/policy''
      in if sysfs_exists e p then snd (sysfs_write e p ''user_space'') else e)"

definition set_threshold :: "int \<Rightarrow> menv \<Rightarrow> sensor \<Rightarrow> int \<Rightarrow> int \<Rightarrow> int \<times> menv" where
  "set_threshold poll_interval e s index temp =
     (if sn_type s \<noteq> SENSOR_TYPE_THERMAL_SYSFS then (THD_ERROR, e)
      else if poll_interval \<noteq> 0 then (THD_SUCCESS, e)
      else if \<not> sn_async_capable s then (THD_ERROR, e)
      else
        (let p = sn_base_path s @ ''trip_point_'' @ show_int index @ ''_temp''
         in case (if sysfs_exists e p then sysfs_write e p (show_int temp) else (0, e)) of (status, e') \<Rightarrow>
              if 0 < status then (THD_SUCCESS, enable_uevent e' s) else (THD_ERROR, e')))"

section \<open>Messages to the engine\<close>

text \<open>\<^verbatim>\<open>send_message\<close> appends to the pipe.\<close>

definition send_message :: "message_name \<Rightarrow> u32 \<Rightarrow> 'a sys_scheme \<Rightarrow> 'a sys_scheme" where
  "send_message m v st = st\<lparr>sy_pipe := sy_pipe st @ [Message m v]\<rparr>"

definition thd_engine_poll_enable :: "int \<Rightarrow> 'a sys_scheme \<Rightarrow> 'a sys_scheme" where
  "thd_engine_poll_enable sensor_id st = send_message POLL_ENABLE (word_of_int sensor_id) st"

definition thd_engine_poll_disable :: "int \<Rightarrow> 'a sys_scheme \<Rightarrow> 'a sys_scheme" where
  "thd_engine_poll_disable sensor_id st = send_message POLL_DISABLE (word_of_int sensor_id) st"

definition thd_engine_fast_poll_enable :: "int \<Rightarrow> 'a sys_scheme \<Rightarrow> 'a sys_scheme" where
  "thd_engine_fast_poll_enable sensor_id st = send_message FAST_POLL_ENABLE (word_of_int sensor_id) st"

definition thd_engine_fast_poll_disable :: "int \<Rightarrow> 'a sys_scheme \<Rightarrow> 'a sys_scheme" where
  "thd_engine_fast_poll_disable sensor_id st = send_message FAST_POLL_DISABLE (word_of_int sensor_id) st"

definition sensor_poll_trip :: "bool \<Rightarrow> sensor \<Rightarrow> 'a sys_scheme \<Rightarrow> 'a sys_scheme" where
  "sensor_poll_trip status s st =
     (if status then thd_engine_poll_enable (sn_index s) st else thd_engine_poll_disable (sn_index s) st)"

definition sensor_fast_poll :: "bool \<Rightarrow> sensor \<Rightarrow> 'a sys_scheme \<Rightarrow> 'a sys_scheme" where
  "sensor_fast_poll status s st =
     (if status then thd_engine_fast_poll_enable (sn_index s) st else thd_engine_fast_poll_disable (sn_index s) st)"

lemma sensor_poll_send:
  "sensor_poll_trip b s st = send_message (if b then POLL_ENABLE else POLL_DISABLE) (word_of_int (sn_index s)) st"
  "sensor_fast_poll b s st = send_message (if b then FAST_POLL_ENABLE else FAST_POLL_DISABLE) (word_of_int (sn_index s)) st"
  by (simp_all add: sensor_poll_trip_def sensor_fast_poll_def thd_engine_poll_enable_def thd_engine_poll_disable_def
      thd_engine_fast_poll_enable_def thd_engine_fast_poll_disable_def)

text \<open>\<^verbatim>\<open>cthd_engine::get_sensor\<close>: by position.\<close>

definition get_sensor :: "int \<Rightarrow> 'a sys_scheme \<Rightarrow> sensor option" where
  "get_sensor i st =
     (if 0 \<le> i \<and> i < int (length (sy_sensors st)) then Some (sy_sensors st ! nat i) else None)"

text \<open>\<^verbatim>\<open>search_sensor\<close>, \<^verbatim>\<open>search_cdev\<close>, \<^verbatim>\<open>match_cdev\<close>: the position of the first match.\<close>

fun find_index :: "('a \<Rightarrow> bool) \<Rightarrow> 'a list \<Rightarrow> nat option" where
  "find_index P [] = None"
| "find_index P (x # xs) = (if P x then Some 0 else map_option Suc (find_index P xs))"

definition pch_name :: "string \<Rightarrow> bool" where
  "pch_name s \<longleftrightarrow> take 4 s = ''pch_''"

definition search_sensor :: "string \<Rightarrow> 'a sys_scheme \<Rightarrow> nat option" where
  "search_sensor name st =
     find_index (\<lambda>s. sn_type_str s = name \<or> pch_name name \<and> pch_name (sn_type_str s)) (sy_sensors st)"

definition search_cdev :: "string \<Rightarrow> 'a sys_scheme \<Rightarrow> nat option" where
  "search_cdev name st = find_index (\<lambda>c. cd_type_str c = name \<or> cd_alias_str c = name) (sy_cdevs st)"

definition thd_get_cdev_at_index :: "int \<Rightarrow> 'a sys_scheme \<Rightarrow> nat option" where
  "thd_get_cdev_at_index idx st = find_index (\<lambda>c. cd_index c = idx) (sy_cdevs st)"

section \<open>Virtual sensors\<close>

text \<open>The constructor looks the linked sensor up; an unknown name gives a link without sensor.
  \<^verbatim>\<open>power_sensor\<close> is not initialised there; \<open>junk\<close> is what it holds.\<close>

definition cthd_sensor_virtual :: "int \<Rightarrow> int \<Rightarrow> string \<Rightarrow> string \<Rightarrow> rat \<Rightarrow> rat \<Rightarrow> 'a sys_scheme \<Rightarrow> sensor" where
  "cthd_sensor_virtual junk idx type_str link_type multiplier offset st =
     (cthd_sensor idx ''none'' type_str SENSOR_TYPE_THERMAL_SYSFS)
       \<lparr>sn_kind := Virtual_sensor
          \<lparr>vs_links = (if link_type = [] then []
              else [\<lparr>lk_sensor = search_sensor link_type st, lk_coeff = 0, lk_offset = 0,
                     lk_prev_avg = 0, lk_power_sensor = junk\<rparr>]),
           vs_multiplier = multiplier, vs_offset = offset, vs_polling = False, vs_stop_polling = False,
           vs_last_temp = 0, vs_polling_period = 5, vs_polling_table = []\<rparr>\<rparr>"

definition virtual_add_target :: "string \<Rightarrow> rat \<Rightarrow> rat \<Rightarrow> int \<Rightarrow> 'a sys_scheme \<Rightarrow> virtual_sensor \<Rightarrow> virtual_sensor" where
  "virtual_add_target name coeff offset psens st v =
     v\<lparr>vs_links := vs_links v @ [\<lparr>lk_sensor = search_sensor name st, lk_coeff = coeff, lk_offset = offset,
                                   lk_prev_avg = 0, lk_power_sensor = psens\<rparr>]\<rparr>"

definition sensor_update_param :: "int \<Rightarrow> string \<Rightarrow> rat \<Rightarrow> rat \<Rightarrow> 'a sys_scheme \<Rightarrow> virtual_sensor \<Rightarrow> int \<times> virtual_sensor" where
  "sensor_update_param junk name slope intercept st v =
     (case search_sensor name st of None \<Rightarrow> (THD_ERROR, v)
      | Some i \<Rightarrow> (THD_SUCCESS,
          v\<lparr>vs_links := vs_links v @ [\<lparr>lk_sensor = Some i, lk_coeff = 0, lk_offset = 0,
                                        lk_prev_avg = 0, lk_power_sensor = junk\<rparr>],
            vs_multiplier := slope, vs_offset := intercept\<rparr>))"

text \<open>\<^verbatim>\<open>std::round\<close>: halves away from zero.\<close>

definition round_away :: "rat \<Rightarrow> int" where
  "round_away x = (if 0 \<le> x then \<lfloor>x + 1 / 2\<rfloor> else - \<lfloor>- x + 1 / 2\<rfloor>)"

text \<open>One link of the weighted sum, for a reading \<open>temp0\<close>: its contribution and the link with its
  running average. The division truncates.\<close>

definition link_step :: "int \<Rightarrow> link_sensor \<Rightarrow> rat \<times> link_sensor" where
  "link_step temp0 l =
     (let temp = (if lk_power_sensor l = 0 then temp0 sdiv 1000 else temp0);
          prev = (if lk_prev_avg l = 0 then of_int temp else lk_prev_avg l);
          avg = f64 (f64 (lk_offset l * of_int temp) + f64 (f64 (1 - lk_offset l) * prev))
      in (f64 (lk_coeff l * avg), l\<lparr>lk_prev_avg := avg\<rparr>))"

definition is_scaled :: "virtual_sensor \<Rightarrow> bool" where
  "is_scaled v \<longleftrightarrow> (case vs_links v of [] \<Rightarrow> False
     | l # _ \<Rightarrow> lk_sensor l \<noteq> None \<and> lk_coeff l = 0 \<and> lk_offset l = 0)"

definition set_last_temp :: "nat \<Rightarrow> int \<Rightarrow> sensor list \<Rightarrow> sensor list" where
  "set_last_temp i t ss =
     (case sn_kind (ss ! i) of Virtual_sensor v \<Rightarrow>
        ss[i := (ss ! i)\<lparr>sn_kind := Virtual_sensor (v\<lparr>vs_last_temp := t\<rparr>)\<rparr>] | _ \<Rightarrow> ss)"

definition set_link :: "nat \<Rightarrow> nat \<Rightarrow> link_sensor \<Rightarrow> sensor list \<Rightarrow> sensor list" where
  "set_link i j l ss =
     (case sn_kind (ss ! i) of Virtual_sensor v \<Rightarrow>
        ss[i := (ss ! i)\<lparr>sn_kind := Virtual_sensor (v\<lparr>vs_links := (vs_links v)[j := l]\<rparr>)\<rparr>] | _ \<Rightarrow> ss)"

text \<open>
  \<^verbatim>\<open>read_temperature\<close> of the sensor at position \<open>i\<close>, and the loop over the links of a virtual
  sensor. The value is the unsigned result; the state is the environment and the sensors.
\<close>

type_synonym reading = "u32 \<times> menv \<times> sensor list"

definition rapl_power_read :: "menv \<Rightarrow> sensor list \<Rightarrow> reading" where
  "rapl_power_read e ss =
     (let e' = rapl_start_measure_power e
      in (rapl_action_get_last_power PACKAGE e' div 1000, e', ss))"

text \<open>The simple form: one linked sensor, scaled.\<close>

definition scaled_value :: "virtual_sensor \<Rightarrow> u32 \<Rightarrow> u32" where
  "scaled_value v w = word_of_int (rat_trunc (f64 (f64 (of_int (sint w) * vs_multiplier v) + vs_offset v)))"

fun sensor_read :: "nat \<Rightarrow> nat \<Rightarrow> menv \<Rightarrow> sensor list \<Rightarrow> reading option"
and virtual_read :: "nat \<Rightarrow> nat \<Rightarrow> virtual_sensor \<Rightarrow> menv \<Rightarrow> sensor list \<Rightarrow> reading option"
and links_read :: "nat \<Rightarrow> nat \<Rightarrow> nat \<Rightarrow> link_sensor list \<Rightarrow> rat \<Rightarrow> menv \<Rightarrow> sensor list
       \<Rightarrow> (rat \<times> menv \<times> sensor list) option" where
  "sensor_read 0 i e ss = None"
| "sensor_read (Suc n) i e ss =
     (case sn_kind (ss ! i) of
        Plain_sensor \<Rightarrow> Some (plain_read e (ss ! i), e, ss)
      | Rapl_power_sensor \<Rightarrow> Some (rapl_power_read e ss)
      | Virtual_sensor v \<Rightarrow>
          (if vs_polling v then Some (word_of_int (vs_last_temp v), e, ss) else virtual_read n i v e ss))"
| "virtual_read 0 i v e ss = None"
| "virtual_read (Suc n) i v e ss =
     (if vs_links v = [] then Some (0, e, ss)
      else if is_scaled v then
        (case sensor_read n (the (lk_sensor (hd (vs_links v)))) e ss of None \<Rightarrow> None
         | Some (w, e', ss') \<Rightarrow> Some (scaled_value v w, e', ss'))
      else
        (case links_read n i 0 (vs_links v) 0 e ss of None \<Rightarrow> None
         | Some (vt, e', ss') \<Rightarrow>
             (let temp = round_away vt in Some (word_of_int temp, e', set_last_temp i (temp * 1000) ss'))))"
| "links_read 0 i j ls acc e ss = None"
| "links_read (Suc n) i j [] acc e ss = Some (acc, e, ss)"
| "links_read (Suc n) i j (l # ls) acc e ss =
     (case (case lk_sensor l of None \<Rightarrow> Some (1000, e, ss)
            | Some k \<Rightarrow> (case sensor_read n k e ss of None \<Rightarrow> None
                | Some (w, e', ss') \<Rightarrow> Some (sint w, e', ss'))) of
        None \<Rightarrow> None
      | Some (temp, e', ss') \<Rightarrow>
          (case link_step temp l of (cvt, l') \<Rightarrow>
             links_read n i (Suc j) ls (f64 (acc + cvt)) e' (set_link i j l' ss')))"

declare sensor_read.simps [simp del] virtual_read.simps [simp del] links_read.simps [simp del]

text \<open>The timer of a virtual sensor: switching it on and off, and one round of its thread.\<close>

definition enable_periodic_timer :: "virtual_sensor \<Rightarrow> virtual_sensor" where
  "enable_periodic_timer v =
     (let period = (case vs_polling_table v of [] \<Rightarrow> 0
                    | t # _ \<Rightarrow> if pt_sample_period t < 100 then pt_sample_period t else 0);
          v1 = (if period \<noteq> 0 then v\<lparr>vs_polling_period := period\<rparr> else v)
      in if vs_polling v1 then v1 else v1\<lparr>vs_stop_polling := False, vs_polling := True\<rparr>)"

definition disable_periodic_timer :: "virtual_sensor \<Rightarrow> virtual_sensor" where
  "disable_periodic_timer v =
     (if \<not> vs_polling v then v else v\<lparr>vs_stop_polling := True, vs_polling := False\<rparr>)"

text \<open>The sample period for a temperature: that of the last table entry at or below it.\<close>

definition table_period :: "int \<Rightarrow> polling_table_entry list \<Rightarrow> int" where
  "table_period t tab =
     (case List.find (\<lambda>x. pt_virtual_temp x \<le> t) (rev tab) of None \<Rightarrow> 0 | Some x \<Rightarrow> pt_sample_period x)"

text \<open>One round of \<^verbatim>\<open>periodic_callback\<close>: the seconds to sleep, or nothing when the thread is
  to stop; \<open>None\<close> when the read does not return.\<close>

definition periodic_round :: "nat \<Rightarrow> nat \<Rightarrow> menv \<Rightarrow> sensor list \<Rightarrow> (int option \<times> menv \<times> sensor list) option" where
  "periodic_round n i e ss =
     (case sn_kind (ss ! i) of
        Virtual_sensor v \<Rightarrow>
          (if vs_stop_polling v then Some (None, e, ss)
           else case virtual_read n i v e ss of None \<Rightarrow> None
           | Some (_, e', ss') \<Rightarrow>
               (case sn_kind (ss' ! i) of
                  Virtual_sensor v' \<Rightarrow>
                    (let period = table_period (vs_last_temp v') (vs_polling_table v');
                         v2 = (if period \<noteq> 0 then v'\<lparr>vs_polling_period := period\<rparr> else v');
                         secs = (if vs_polling_period v2 \<le> 0 then 5 else vs_polling_period v2)
                     in Some (Some secs, e', ss'[i := (ss' ! i)\<lparr>sn_kind := Virtual_sensor v2\<rparr>]))
                | _ \<Rightarrow> Some (None, e', ss')))
      | _ \<Rightarrow> Some (None, e, ss))"

section \<open>Reading terminates when no sensor depends on itself\<close>

text \<open>The sensors a sensor is linked to.\<close>

definition links_of :: "sensor \<Rightarrow> nat option list" where
  "links_of s = (case sn_kind s of Virtual_sensor v \<Rightarrow> map lk_sensor (vs_links v) | _ \<Rightarrow> [])"

text \<open>Every link goes to an earlier sensor, and no sensor has more than \<open>m\<close> links.\<close>

definition links_down :: "nat \<Rightarrow> sensor list \<Rightarrow> bool" where
  "links_down m ss \<longleftrightarrow> (\<forall>i<length ss. length (links_of (ss ! i)) \<le> m \<and> (\<forall>k. Some k \<in> set (links_of (ss ! i)) \<longrightarrow> k < i))"

text \<open>Reading does not change who is linked to whom.\<close>

definition same_links :: "sensor list \<Rightarrow> sensor list \<Rightarrow> bool" where
  "same_links ss ss' \<longleftrightarrow> length ss' = length ss \<and> (\<forall>i<length ss. links_of (ss' ! i) = links_of (ss ! i))"

lemma same_links_refl [simp]: "same_links ss ss"
  by (simp add: same_links_def)

lemma same_links_trans: "same_links a b \<Longrightarrow> same_links b c \<Longrightarrow> same_links a c"
  by (simp add: same_links_def)

lemma links_down_cong: "same_links ss ss' \<Longrightarrow> links_down m ss' = links_down m ss"
  by (simp add: same_links_def links_down_def)

lemma same_links_update:
  "(i < length ss \<Longrightarrow> links_of s = links_of (ss ! i)) \<Longrightarrow> same_links ss (ss[i := s])"
  by (cases "i < length ss") (auto simp: same_links_def nth_list_update)

lemma set_last_temp_links [simp]: "same_links ss (set_last_temp i t ss)"
  by (auto simp: set_last_temp_def links_of_def split: sensor_kind.splits intro!: same_links_update)

lemma set_link_links:
  assumes "i < length ss" "links_of (ss ! i) = ls" "j < length ls" "lk_sensor l = ls ! j"
  shows "same_links ss (set_link i j l ss)"
  using assms
  by (auto simp: set_link_def links_of_def map_update list_update_same_conv split: sensor_kind.splits
      intro!: same_links_update)

lemma link_step_sensor: "link_step t l = (c, l') \<Longrightarrow> lk_sensor l' = lk_sensor l"
  by (auto simp: link_step_def Let_def)

text \<open>Fuel that is enough for the sensor at position \<open>i\<close>.\<close>

definition read_fuel :: "nat \<Rightarrow> nat \<Rightarrow> nat" where
  "read_fuel m i = (i + 1) * (m + 4)"

definition returns :: "sensor list \<Rightarrow> ('a \<times> menv \<times> sensor list) option \<Rightarrow> bool" where
  "returns ss r \<longleftrightarrow> (\<exists>w e' ss'. r = Some (w, e', ss') \<and> same_links ss ss')"

lemma returnsI: "same_links ss ss' \<Longrightarrow> returns ss (Some (w, e', ss'))"
  by (auto simp: returns_def)

lemma returns_trans: "same_links ss ss1 \<Longrightarrow> returns ss1 r \<Longrightarrow> returns ss r"
  by (auto simp: returns_def intro: same_links_trans)

lemma links_read_returns:
  assumes IH: "\<And>k n e ss. k < i \<Longrightarrow> links_down m ss \<Longrightarrow> k < length ss \<Longrightarrow> read_fuel m k \<le> n
      \<Longrightarrow> returns ss (sensor_read n k e ss)"
    and "i < length ss" "links_down m ss" "links_of (ss ! i) = pre @ map lk_sensor ls" "j = length pre"
    and "length ls + i * (m + 4) < n"
  shows "returns ss (links_read n i j ls acc e ss)"
  using assms(2-)
proof (induction ls arbitrary: n j pre acc e ss)
  case Nil
  then obtain n' where "n = Suc n'" by (cases n) auto
  then show ?case by (simp add: links_read.simps returnsI)
next
  case (Cons l ls)
  from Cons.prems obtain n' where n: "n = Suc n'" "length ls + i * (m + 4) < n'" by (cases n) auto
  define rd where "rd = (case lk_sensor l of None \<Rightarrow> Some (1000, e, ss)
            | Some k \<Rightarrow> (case sensor_read n' k e ss of None \<Rightarrow> None
                | Some (w, e', ss') \<Rightarrow> Some (sint w, e', ss')))"
  have "returns ss rd"
  proof (cases "lk_sensor l")
    case None
    then show ?thesis by (simp add: rd_def returnsI)
  next
    case (Some k)
    have k: "k < i" using Cons.prems(1-3) Some unfolding links_down_def by (metis in_set_conv_decomp list.simps(9))
    then have "read_fuel m k \<le> i * (m + 4)" unfolding read_fuel_def by (intro mult_le_mono1) simp
    then have "returns ss (sensor_read n' k e ss)"
      using IH [of k ss n' e] k Cons.prems(1,2) n(2) by linarith
    then show ?thesis by (auto simp: rd_def Some returns_def)
  qed
  then obtain t e1 ss1 where rd: "rd = Some (t, e1, ss1)" and s1: "same_links ss ss1" by (auto simp: returns_def)
  obtain c l' where st: "link_step t l = (c, l')" by fastforce
  have ls1: "i < length ss1" "links_of (ss1 ! i) = pre @ map lk_sensor (l # ls)"
    using s1 Cons.prems(1,3) by (auto simp: same_links_def)
  have s2: "same_links ss1 (set_link i j l' ss1)"
    using ls1 Cons.prems(4) link_step_sensor [OF st] by (intro set_link_links) (auto simp: nth_append)
  note s12 = same_links_trans [OF s1 s2]
  have "returns (set_link i j l' ss1) (links_read n' i (Suc j) ls (f64 (acc + c)) e1 (set_link i j l' ss1))"
  proof (rule Cons.IH [where pre = "pre @ [lk_sensor l]"])
    show "i < length (set_link i j l' ss1)" "links_of (set_link i j l' ss1 ! i) = (pre @ [lk_sensor l]) @ map lk_sensor ls"
      using s12 Cons.prems(1,3) by (auto simp: same_links_def)
    show "links_down m (set_link i j l' ss1)" using links_down_cong [OF s12] Cons.prems(2) by simp
  qed (use n Cons.prems(4) in auto)
  then have "returns ss (links_read n' i (Suc j) ls (f64 (acc + c)) e1 (set_link i j l' ss1))"
    by (rule returns_trans [OF s12])
  then show ?case unfolding n(1) links_read.simps rd_def [symmetric] by (simp add: rd st)
qed

lemma sensor_read_returns:
  assumes "links_down m ss" "i < length ss" "read_fuel m i \<le> n"
  shows "returns ss (sensor_read n i e ss)"
  using assms
proof (induction i arbitrary: n e ss rule: less_induct)
  case (less i)
  obtain n2 where n: "n = Suc (Suc n2)" "i * (m + 4) + m + 2 \<le> n2"
    using less.prems(3) by (cases n; cases "n - 1") (auto simp: read_fuel_def)
  show ?case
  proof (cases "sn_kind (ss ! i)")
    case (Virtual_sensor v)
    have lo: "links_of (ss ! i) = map lk_sensor (vs_links v)" by (simp add: links_of_def Virtual_sensor)
    have ll: "length (vs_links v) \<le> m" using less.prems(1,2) lo unfolding links_down_def by (metis length_map)
    have lr: "returns ss (links_read n2 i 0 (vs_links v) 0 e ss)"
      by (rule links_read_returns [OF less.IH less.prems(2,1)]) (use lo ll n in auto)
    have sc: "returns ss (sensor_read n2 k e ss)" if "is_scaled v" "lk_sensor (hd (vs_links v)) = Some k" for k
    proof -
      have "Some k \<in> set (links_of (ss ! i))"
        using that by (auto simp: lo is_scaled_def split: list.splits)
      then have k: "k < i" using less.prems(1,2) by (auto simp: links_down_def)
      then have "read_fuel m k \<le> i * (m + 4)" unfolding read_fuel_def by (intro mult_le_mono1) simp
      then show ?thesis using less.IH [of k ss n2 e] k less.prems n(2) by linarith
    qed
    have "returns ss (virtual_read (Suc n2) i v e ss)"
    proof (cases "is_scaled v")
      case True
      then obtain k where "lk_sensor (hd (vs_links v)) = Some k" by (auto simp: is_scaled_def split: list.splits)
      with sc [OF True this] True show ?thesis by (auto simp: virtual_read.simps returns_def)
    next
      case False
      from lr obtain vt e' ss' where "links_read n2 i 0 (vs_links v) 0 e ss = Some (vt, e', ss')" "same_links ss ss'"
        by (auto simp: returns_def)
      then show ?thesis using False same_links_trans [OF \<open>same_links ss ss'\<close> set_last_temp_links]
        by (auto simp: virtual_read.simps Let_def intro: returnsI)
    qed
    then show ?thesis by (auto simp: n(1) sensor_read.simps Virtual_sensor intro: returnsI)
  qed (auto simp: n(1) sensor_read.simps rapl_power_read_def Let_def intro: returnsI)
qed

text \<open>
  Termination of sensor reads: when every virtual sensor is linked to sensors before it only,
  as it is when it is created, reading any sensor returns, with fuel for each of the sensors up to
  it and their links; the links stay as they are.
\<close>

theorem sensor_read_terminates:
  assumes "links_down m ss" and "i < length ss" and "read_fuel m i \<le> n"
  shows "\<exists>w e' ss'. sensor_read n i e ss = Some (w, e', ss') \<and> links_down m ss'"
proof -
  obtain w e' ss' where "sensor_read n i e ss = Some (w, e', ss')" "same_links ss ss'"
    using sensor_read_returns [OF assms, of e] by (auto simp: returns_def)
  then show ?thesis using links_down_cong assms(1) by blast
qed

definition demo_sensors :: "sensor list" where
  "demo_sensors =
     [cthd_sensor 0 ''/t/'' ''cpu'' SENSOR_TYPE_THERMAL_SYSFS,
      (cthd_sensor 1 ''none'' ''virt'' SENSOR_TYPE_THERMAL_SYSFS)\<lparr>sn_kind := Virtual_sensor
         \<lparr>vs_links = [\<lparr>lk_sensor = Some 0, lk_coeff = 1, lk_offset = 1, lk_prev_avg = 0, lk_power_sensor = 0\<rparr>],
          vs_multiplier = 1, vs_offset = 0, vs_polling = False, vs_stop_polling = False, vs_last_temp = 0,
          vs_polling_period = 5, vs_polling_table = []\<rparr>\<rparr>]"

theorem sensor_read_terminates_witness:
  "\<exists>w e' ss'. sensor_read 10 1 (demo_meter Map.empty) demo_sensors = Some (w, e', ss') \<and> links_down 1 ss'"
proof (rule sensor_read_terminates)
  show "links_down 1 demo_sensors"
    by (auto simp: links_down_def demo_sensors_def links_of_def cthd_sensor_def less_Suc_eq nth_Cons')
qed (simp_all add: demo_sensors_def read_fuel_def)

text \<open>A virtual sensor with a constant and a link to itself.\<close>

definition self_linked :: "nat \<Rightarrow> sensor list \<Rightarrow> bool" where
  "self_linked i ss \<longleftrightarrow> i < length ss \<and> (\<exists>v l0 l1. sn_kind (ss ! i) = Virtual_sensor v \<and> \<not> vs_polling v
     \<and> vs_links v = [l0, l1] \<and> lk_sensor l0 = None \<and> lk_sensor l1 = Some i)"

lemma self_linked_set_link:
  assumes "self_linked i ss" "lk_sensor l = None" shows "self_linked i (set_link i 0 l ss)"
  using assms by (auto simp: self_linked_def set_link_def)

lemma self_linked_diverges: "self_linked i ss \<Longrightarrow> sensor_read n i e ss = None"
proof (induction n arbitrary: e ss rule: less_induct)
  case (less n)
  from less.prems obtain v l0 l1 where v: "sn_kind (ss ! i) = Virtual_sensor v" "\<not> vs_polling v"
      "vs_links v = [l0, l1]" "lk_sensor l0 = None" "lk_sensor l1 = Some i"
    by (auto simp: self_linked_def)
  have ns: "\<not> is_scaled v" using v by (simp add: is_scaled_def)
  have tail: "links_read k i 1 [l1] acc e1 ss1 = None" if "k < n" "self_linked i ss1" for k acc e1 ss1
    using that less.IH v(5) by (cases k) (auto simp: links_read.simps)
  have loop: "links_read k i 0 [l0, l1] 0 e ss = None" if "k < n" for k
  proof (cases k)
    case (Suc k')
    obtain c l' where st: "link_step 1000 l0 = (c, l')" by fastforce
    then have "self_linked i (set_link i 0 l' ss)"
      using self_linked_set_link [OF less.prems] link_step_sensor v(4) by metis
    then show ?thesis using tail [of k'] Suc that st v(4) by (simp add: links_read.simps)
  qed (simp add: links_read.simps)
  show ?case
  proof (cases n)
    case (Suc n1)
    then have "virtual_read n1 i v e ss = None"
      using loop v(3) ns by (cases n1) (simp_all add: virtual_read.simps)
    then show ?thesis using Suc v by (simp add: sensor_read.simps)
  qed (simp add: sensor_read.simps)
qed

text \<open>
  C21. A virtual sensor can be made to depend on itself: \<^verbatim>\<open>sensor_update_param\<close> accepts the
  sensor's own name as the new dependency, and a sensor that was created for an unknown sensor and
  then updated this way is never read to the end, however deep the recursion may go.
\<close>

theorem self_dependency_diverges:
  assumes "i < length (sy_sensors st)" and "sn_kind (sy_sensors st ! i) = Virtual_sensor v"
    and "\<not> vs_polling v" and "vs_links v = [l0]" and "lk_sensor l0 = None"
    and "search_sensor name st = Some i" and "sensor_update_param junk name slope icpt st v = (ret, v')"
  shows "ret = THD_SUCCESS \<and>
     sensor_read n i e ((sy_sensors st)[i := (sy_sensors st ! i)\<lparr>sn_kind := Virtual_sensor v'\<rparr>]) = None"
proof -
  have "self_linked i ((sy_sensors st)[i := (sy_sensors st ! i)\<lparr>sn_kind := Virtual_sensor v'\<rparr>])"
    using assms by (auto simp: self_linked_def sensor_update_param_def)
  then show ?thesis using assms(6,7) by (auto simp: self_linked_diverges sensor_update_param_def)
qed

definition demo_sys :: sys where
  "demo_sys = \<lparr>sy_env = demo_meter Map.empty, sy_cdevs = [], sy_sensors = [], sy_pipe = [],
     sy_poll_interval_sec = 0, sy_preference = 0, sy_ignore_critical = False, sy_powered_off = False\<rparr>"

text \<open>A sensor made for an unknown dependency, then for itself.\<close>

definition lone_sensor :: sensor where
  "lone_sensor = cthd_sensor_virtual 0 0 ''v'' ''nosuch'' 1 0 demo_sys"

theorem self_dependency_diverges_witness:
  "\<exists>v v'. sn_kind lone_sensor = Virtual_sensor v
     \<and> sensor_update_param 0 ''v'' 1 0 (demo_sys\<lparr>sy_sensors := [lone_sensor]\<rparr>) v = (THD_SUCCESS, v')
     \<and> sensor_read 1000 0 (demo_meter Map.empty) [lone_sensor\<lparr>sn_kind := Virtual_sensor v'\<rparr>] = None"
proof -
  define l0 where "l0 = \<lparr>lk_sensor = None, lk_coeff = 0, lk_offset = 0, lk_prev_avg = 0, lk_power_sensor = 0\<rparr>"
  obtain v where v: "sn_kind lone_sensor = Virtual_sensor v" "\<not> vs_polling v" "vs_links v = [l0]"
    by (simp add: lone_sensor_def cthd_sensor_virtual_def search_sensor_def demo_sys_def l0_def)
  obtain ret v' where u: "sensor_update_param 0 ''v'' 1 0 (demo_sys\<lparr>sy_sensors := [lone_sensor]\<rparr>) v = (ret, v')" by fastforce
  have "search_sensor ''v'' (demo_sys\<lparr>sy_sensors := [lone_sensor]\<rparr>) = Some 0"
    by (simp add: search_sensor_def lone_sensor_def cthd_sensor_virtual_def cthd_sensor_def)
  from self_dependency_diverges [OF _ _ v(2,3) _ this u, of 1000 "demo_meter Map.empty"] v u
  show ?thesis by (simp add: l0_def)
qed

end
