(* ===== verification/Thd_CdevLimits.thy ===== *)
theory Thd_CdevLimits
  imports Thd_Cdev "HOL-Library.Multiset"
begin

text \<open>
  The list of trips that hold a cooling device active: what \<^verbatim>\<open>thd_cdev_set_state\<close> does to
  it, which limit it selects, and when it leaves the device alone.
\<close>

section \<open>Sorting the limits\<close>

text \<open>The contract of \<^verbatim>\<open>std::sort\<close>: a permutation of its input in which no element precedes one
  that compares less.\<close>

locale std_sort =
  fixes lt :: "'a \<Rightarrow> 'a \<Rightarrow> bool"
    and srt :: "'a list \<Rightarrow> 'a list"
  assumes srt_perm: "mset (srt xs) = mset xs"
    and srt_ordered: "sorted_wrt (\<lambda>a b. \<not> lt b a) (srt xs)"
    and lt_irrefl: "\<not> lt a a"
begin

lemma set_srt: "set (srt xs) = set xs"
  by (metis srt_perm set_mset_mset)

lemma distinct_map_srt: "distinct (map f (srt xs)) = distinct (map f xs)"
proof -
  have "mset (map f (srt xs)) = mset (map f xs)" by (simp add: srt_perm)
  then show ?thesis by (rule mset_eq_imp_distinct_iff)
qed

lemma srt_Nil_iff: "srt xs = [] \<longleftrightarrow> xs = []"
  by (metis set_srt set_empty)

lemma last_srt: "x \<in> set xs \<Longrightarrow> \<not> lt (last (srt xs)) x"
proof -
  assume "x \<in> set xs"
  then have x: "x \<in> set (srt xs)" by (simp add: set_srt)
  then obtain ys where ys: "srt xs = ys @ [last (srt xs)]" by (metis append_butlast_last_id empty_iff empty_set)
  have "sorted_wrt (\<lambda>a b. \<not> lt b a) (ys @ [last (srt xs)])" using srt_ordered [of xs] ys by metis
  then have "\<forall>y\<in>set ys. \<not> lt (last (srt xs)) y" by (simp add: sorted_wrt_append)
  then show ?thesis using x lt_irrefl by (subst (asm) ys) auto
qed

end

lemma sort_key_std_sort:
  fixes f :: "'a \<Rightarrow> int"
  assumes "\<And>a b. lt a b \<longleftrightarrow> f a < f b"
  shows "std_sort lt (sort_key f)"
proof
  show "sorted_wrt (\<lambda>a b. \<not> lt b a) (sort_key f xs)" for xs
    using sorted_sort_key [of f xs] by (simp add: assms sorted_map not_less)
qed (simp_all add: assms)

interpretation tv_asc: std_sort "\<lambda>a b. zl_target_value a < zl_target_value b" sort_clamp_values_asc
  unfolding sort_clamp_values_asc_def by (rule sort_key_std_sort) simp

interpretation tv_dec: std_sort "\<lambda>a b. zl_target_value a > zl_target_value b" sort_clamp_values_dec
  unfolding sort_clamp_values_dec_def by (rule sort_key_std_sort) auto

interpretation mm_asc: std_sort "\<lambda>a b. zl_min_state a < zl_min_state b" sort_min_max_values_asc
  unfolding sort_min_max_values_asc_def by (rule sort_key_std_sort) simp

interpretation mm_dec: std_sort "\<lambda>a b. zl_max_state a > zl_max_state b" sort_min_max_values_dec
  unfolding sort_min_max_values_dec_def by (rule sort_key_std_sort) auto

lemmas sort_sets = tv_asc.set_srt tv_dec.set_srt mm_asc.set_srt mm_dec.set_srt
lemmas sort_distinct = tv_asc.distinct_map_srt tv_dec.distinct_map_srt mm_asc.distinct_map_srt mm_dec.distinct_map_srt

section \<open>The trips that hold a device\<close>

definition trip_key :: "zone_trip_limits \<Rightarrow> int \<times> int" where
  "trip_key l = (zl_zone l, zl_trip l)"

definition holders :: "cdev \<Rightarrow> (int \<times> int) set" where
  "holders c = trip_key ` set (cd_zone_trip_limits c)"

text \<open>No trip is in the list twice.\<close>

definition limits_inv :: "cdev \<Rightarrow> bool" where
  "limits_inv c \<longleftrightarrow> distinct (map trip_key (cd_zone_trip_limits c))"

lemma same_trip_key: "same_trip z t l \<longleftrightarrow> trip_key l = (z, t)"
  by (simp add: same_trip_def trip_key_def)

lemma trip_key_new_limit [simp]: "trip_key (new_limit c q) = (rq_zone q, rq_trip q)"
  by (simp add: trip_key_def new_limit_def)

lemma set_add_limit: "set (add_limit c q) = insert (new_limit c q) (set (cd_zone_trip_limits c))"
  by (simp add: add_limit_def Let_def sort_sets)

lemma distinct_add_limit:
  "distinct (map trip_key (add_limit c q))
   \<longleftrightarrow> distinct (map trip_key (cd_zone_trip_limits c)) \<and> (rq_zone q, rq_trip q) \<notin> holders c"
  by (auto simp: add_limit_def Let_def sort_distinct holders_def)

lemma add_limit_not_Nil [simp]: "add_limit c q \<noteq> []"
  using set_add_limit [of c q] by (metis insert_not_empty set_empty)

lemma cmp_current_state_limits [simp]:
  "cd_zone_trip_limits (snd (cmp_current_state e c st)) = cd_zone_trip_limits c"
  using drv.cur_st_keeps(4) [of e c] by (auto simp: cmp_current_state_def split: prod.splits)

lemma register_trip_limits:
  "cd_zone_trip_limits (register_trip c q) =
     (if (rq_zone q, rq_trip q) \<in> holders c then cd_zone_trip_limits c else add_limit c q)"
  by (auto simp: register_trip_def list_ex_iff same_trip_key holders_def intro!: rev_image_eqI)

lemma more_constrained_limits [simp]:
  "cd_zone_trip_limits (snd (more_constrained e c f l)) = cd_zone_trip_limits c"
  by (auto simp: more_constrained_def split: prod.splits dest!: snd_cong)

lemma activate_limits:
  "cd_zone_trip_limits (snd (activate e c q)) = cd_zone_trip_limits (register_trip c q)"
  by (auto simp: activate_def Let_def split: prod.splits dest!: snd_cong)

lemma deactivate_limits:
  "cd_zone_trip_limits (snd (deactivate c q)) =
     (if cd_zone_trip_limits c \<noteq> [] \<and> trip_key (last (cd_zone_trip_limits c)) = (rq_zone q, rq_trip q)
      then butlast (cd_zone_trip_limits c) else cd_zone_trip_limits c)"
  by (auto simp: deactivate_def same_trip_key Let_def)

subsection \<open>Applying a limit leaves the list alone\<close>

lemma set_raw_and_log_limits [simp]:
  "cd_zone_trip_limits (snd (set_raw_and_log e c st state)) = cd_zone_trip_limits c"
  by (auto simp: set_raw_and_log_def thd_frame split: prod.splits dest!: snd_cong)

lemma apply_target_limits [simp]:
  "cd_zone_trip_limits (snd (apply_target e c tv state)) = cd_zone_trip_limits c"
  by (auto simp: apply_target_def thd_frame split: prod.splits dest!: snd_cong)

lemma apply_trip_pid_limits [simp]:
  "cd_zone_trip_limits (fst (snd (apply_trip_pid e c p q))) = cd_zone_trip_limits c"
  by (auto simp: apply_trip_pid_def thd_frame split: prod.splits dest!: snd_cong)

lemma apply_cdev_pid_limits [simp]:
  "cd_zone_trip_limits (snd (apply_cdev_pid e c q)) = cd_zone_trip_limits c"
  by (auto simp: apply_cdev_pid_def thd_frame split: prod.splits dest!: snd_cong)

lemma exponential_step_limits [simp]:
  "cd_zone_trip_limits (snd (snd (exponential_step e c state mn mx))) = cd_zone_trip_limits c"
  by (auto simp: exponential_step_def exponential_up_def exponential_down_def Let_def thd_frame
      split: prod.splits dest!: snd_cong)

lemma controller_limits [simp]:
  "cd_zone_trip_limits (snd (thd_cdev_exponential_controller e c state mn mx)) = cd_zone_trip_limits c"
proof -
  obtain st e1 c1 where 1: "exponential_step e c state mn mx = (st, e1, c1)" by (metis prod_cases3)
  then have "cd_zone_trip_limits c1 = cd_zone_trip_limits c"
    using exponential_step_limits [of e c state mn mx] by simp
  with 1 show ?thesis
    by (auto simp: thd_cdev_exponential_controller_def thd_frame split: prod.splits dest!: snd_cong)
qed

lemma apply_limit_limits [simp]:
  "cd_zone_trip_limits (fst (snd (apply_limit e c pp p q tsv tv mn mx))) = cd_zone_trip_limits c"
  by (auto simp: apply_limit_def thd_frame split: prod.splits option.splits dest!: snd_cong)

lemma begin_control_limits [simp]: "cd_zone_trip_limits (begin_control e c state) = cd_zone_trip_limits c"
  by (auto simp: begin_control_def control_begin_def Let_def thd_frame split: prod.splits dest!: snd_cong)

lemma in_min_state_limits [simp]: "cd_zone_trip_limits (snd (in_min_state e c)) = cd_zone_trip_limits c"
  by (auto simp: in_min_state_def thd_frame split: prod.splits dest!: snd_cong)

text \<open>The list after a request.\<close>

definition next_limits :: "cdev \<Rightarrow> request \<Rightarrow> zone_trip_limits list" where
  "next_limits c q =
     (if rq_state q \<noteq> 0 then cd_zone_trip_limits (register_trip c q)
      else if cd_zone_trip_limits c \<noteq> [] \<and> trip_key (last (cd_zone_trip_limits c)) = (rq_zone q, rq_trip q)
      then butlast (cd_zone_trip_limits c) else cd_zone_trip_limits c)"

lemma set_state_limits:
  assumes "thd_cdev_set_state e c pp p q = (r, e', c', p')"
  shows "cd_zone_trip_limits c' = next_limits c q"
proof -
  define c0 where "c0 = snd (if rq_state q = 0 then in_min_state e c else (False, c))"
  have c0: "cd_zone_trip_limits c0 = cd_zone_trip_limits c" by (simp add: c0_def)
  define dc where "dc = (if rq_state q \<noteq> 0 then activate e c0 q else deactivate c0 q)"
  have dc: "cd_zone_trip_limits (snd dc) = next_limits c q"
    by (auto simp: dc_def next_limits_def activate_limits deactivate_limits c0 c0_def)
  have fin: "cd_zone_trip_limits (snd (get_max_state e1 c1)) = cd_zone_trip_limits c2"
    if "apply_limit e (begin_control e c2 st) pp p q a b m n = (e1, c1, p1)" for e1 c1 c2 st a b m n p1
    using apply_limit_limits [of e "begin_control e c2 st" pp p q a b m n] that by (simp add: thd_frame)
  show ?thesis
  proof (cases "fst (if rq_state q = 0 then in_min_state e c else (False, c)) \<and> cd_zone_trip_limits c0 = []")
    case True
    then have "c' = c0" "rq_state q = 0"
      using assms by (auto simp: thd_cdev_set_state_def c0_def Let_def split: if_splits)
    then show ?thesis using True c0 by (simp add: next_limits_def)
  next
    case False
    then have "cd_zone_trip_limits c' = cd_zone_trip_limits (snd dc)"
      using assms fin unfolding thd_cdev_set_state_def Let_def c0_def [symmetric] dc_def [symmetric]
      by (auto split: prod.splits decision.splits)
    with dc show ?thesis by simp
  qed
qed

lemma limits_inv_next: "limits_inv c \<Longrightarrow> distinct (map trip_key (next_limits c q))"
  by (auto simp: limits_inv_def next_limits_def register_trip_limits distinct_add_limit map_butlast distinct_butlast)

lemma holders_next_on: "rq_state q \<noteq> 0 \<Longrightarrow> trip_key ` set (next_limits c q) = insert (rq_zone q, rq_trip q) (holders c)"
  by (auto simp: next_limits_def register_trip_limits set_add_limit holders_def)

lemma holders_next_off:
  assumes "rq_state q = 0" "limits_inv c"
  shows "trip_key ` set (next_limits c q) =
     (if cd_zone_trip_limits c \<noteq> [] \<and> trip_key (last (cd_zone_trip_limits c)) = (rq_zone q, rq_trip q)
      then holders c - {(rq_zone q, rq_trip q)} else holders c)"
proof (cases "cd_zone_trip_limits c \<noteq> [] \<and> trip_key (last (cd_zone_trip_limits c)) = (rq_zone q, rq_trip q)")
  case True
  then obtain ls l where ls: "cd_zone_trip_limits c = ls @ [l]" by (metis append_butlast_last_id)
  then have "trip_key l \<notin> trip_key ` set ls" using assms(2) by (auto simp: limits_inv_def)
  with True ls assms(1) show ?thesis by (auto simp: next_limits_def holders_def)
next
  case False
  then show ?thesis using assms(1) by (auto simp: next_limits_def holders_def)
qed

text \<open>
  The active trips of a device as a set. No trip is ever listed twice; an activation adds
  exactly the requesting trip; a deactivation removes exactly the requesting trip if it is the one
  the device currently follows (the last of the list), and otherwise removes nothing.
\<close>

theorem set_state_holders:
  assumes "thd_cdev_set_state e c pp p q = (r, e', c', p')" and "limits_inv c"
  shows "limits_inv c' \<and> holders c' =
     (if rq_state q \<noteq> 0 then insert (rq_zone q, rq_trip q) (holders c)
      else if cd_zone_trip_limits c \<noteq> [] \<and> trip_key (last (cd_zone_trip_limits c)) = (rq_zone q, rq_trip q)
      then holders c - {(rq_zone q, rq_trip q)} else holders c)"
  using set_state_limits [OF assms(1)] limits_inv_next [OF assms(2), of q] holders_next_on [of q c]
    holders_next_off [OF _ assms(2), of q]
  unfolding limits_inv_def holders_def by metis

section \<open>The most throttling target wins\<close>

text \<open>How much a target throttles, for a range that runs upwards (\<open>up\<close>) or downwards.\<close>

definition target_key :: "bool \<Rightarrow> zone_trip_limits \<Rightarrow> int" where
  "target_key up l = (if up then zl_target_value l else - zl_target_value l)"

text \<open>
  The life of a device whose trips all ask for target states: requests in any order and with any
  results of the kernel, interleaved with other operations that leave the list alone.
\<close>

inductive target_run :: "bool \<Rightarrow> cdev \<Rightarrow> bool" for up where
  Start: "cd_zone_trip_limits c = [] \<Longrightarrow> target_run up c"
| On: "target_run up c \<Longrightarrow> (cd_min_state c < cd_max_state c) = up \<Longrightarrow> rq_state q \<noteq> 0 \<Longrightarrow>
     rq_target_state_valid q \<noteq> 0 \<Longrightarrow> rq_min_max_valid q = 0 \<Longrightarrow>
     thd_cdev_set_state e c pp p q = (r, e', c', p') \<Longrightarrow> target_run up c'"
| Off: "target_run up c \<Longrightarrow> rq_state q = 0 \<Longrightarrow>
     thd_cdev_set_state e c pp p q = (r, e', c', p') \<Longrightarrow> target_run up c'"
| Other: "target_run up c \<Longrightarrow> cd_zone_trip_limits c' = cd_zone_trip_limits c \<Longrightarrow> target_run up c'"

lemma add_limit_sorted:
  assumes "rq_target_state_valid q \<noteq> 0" "rq_min_max_valid q = 0" "(cd_min_state c < cd_max_state c) = up"
  shows "sorted (map (target_key up) (add_limit c q))"
  using assms by (auto simp: add_limit_def Let_def sort_clamp_values_asc_def sort_clamp_values_dec_def target_key_def [abs_def])

lemma target_run_inv:
  "target_run up c \<Longrightarrow> limits_inv c \<and> sorted (map (target_key up) (cd_zone_trip_limits c))
     \<and> (\<forall>l\<in>set (cd_zone_trip_limits c). zl_target_state_valid l \<noteq> 0)"
proof (induction rule: target_run.induct)
  case (Start c)
  then show ?case by (simp add: limits_inv_def)
next
  case (On c q e pp p r e' c' p')
  have n: "cd_zone_trip_limits c' = cd_zone_trip_limits (register_trip c q)"
    using set_state_limits [OF On(6)] On(3) by (simp add: next_limits_def)
  have "zl_target_state_valid (new_limit c q) \<noteq> 0" using On(4) by (simp add: new_limit_def)
  then show ?case
    using On(7) limits_inv_next [of c q] add_limit_sorted [OF On(4,5,2)] On(3) n
    by (auto simp: limits_inv_def register_trip_limits set_add_limit next_limits_def split: if_splits)
next
  case (Off c q e pp p r e' c' p')
  have n: "cd_zone_trip_limits c' = next_limits c q" by (rule set_state_limits [OF Off(3)])
  show ?case
    using Off(2,4) limits_inv_next [of c q] n
    by (auto simp: limits_inv_def next_limits_def intro: butlast_sorted_key dest: in_set_butlastD split: if_splits)
next
  case (Other c c')
  then show ?case by (simp add: limits_inv_def)
qed

lemma last_target_strongest:
  assumes "target_run up c" and "l \<in> set (cd_zone_trip_limits c)"
  shows "zl_target_state_valid (last (cd_zone_trip_limits c)) \<noteq> 0
     \<and> (if up then zl_target_value l \<le> zl_target_value (last (cd_zone_trip_limits c))
         else zl_target_value (last (cd_zone_trip_limits c)) \<le> zl_target_value l)"
proof -
  have inv: "sorted (map (target_key up) (cd_zone_trip_limits c))"
      "\<forall>l\<in>set (cd_zone_trip_limits c). zl_target_state_valid l \<noteq> 0"
    using target_run_inv [OF assms(1)] by auto
  have "last (cd_zone_trip_limits c) \<in> set (cd_zone_trip_limits c)" using assms(2) by (intro last_in_set) auto
  moreover have "target_key up l \<le> target_key up (last (cd_zone_trip_limits c))"
    by (rule last_sorted_key_max [OF inv(1) assms(2)])
  ultimately show ?thesis using inv(2) by (auto simp: target_key_def split: if_splits)
qed


section \<open>Requests that leave the device alone\<close>

lemma set_state_on:
  assumes "rq_state q \<noteq> 0"
  shows "thd_cdev_set_state e c pp p q =
     (case activate e c q of (Done, c1) \<Rightarrow> (THD_SUCCESS, e, c1, p)
      | (Apply tsv tv mn mx, c1) \<Rightarrow>
          (case apply_limit e (begin_control e c1 (rq_state q)) pp p q tsv tv mn mx of (e', c', p') \<Rightarrow>
             (THD_SUCCESS, e', snd (get_max_state e' c'), p')))"
  using assms by (simp add: thd_cdev_set_state_def Let_def)

text \<open>
  Debouncing: a repeated activation by a trip that already holds the device, within the
  debounce interval of the last action and not forced, changes nothing at all: no write to the
  kernel, no change of the device or of the trip's controller.
\<close>

theorem debounced_activation_ignored:
  assumes "rq_state q \<noteq> 0" and "(rq_zone q, rq_trip q) \<in> holders c"
    and "zl_target_state_valid (last (cd_zone_trip_limits c)) = 0"
    and "\<not> rq_force q" and "cd_last_state c = rq_state q"
    and "e_now e - cd_last_action_time c \<le> cd_debounce_interval c"
  shows "thd_cdev_set_state e c pp p q = (THD_SUCCESS, e, c, p)"
proof -
  have "register_trip c q = c"
    using assms(2) by (auto simp: register_trip_def list_ex_iff same_trip_key holders_def)
  then have "activate e c q = (Done, c)"
    using assms by (simp add: activate_def more_constrained_def debounced_def)
  then show ?thesis using assms(1) by (simp add: set_state_on)
qed

text \<open>
  A release by a trip that is not the one the device follows is ignored: nothing is written and
  the list keeps its entry, so the limit of that trip comes into force again when the entries
  after it are released.
\<close>

theorem release_by_other_trip_ignored:
  assumes "rq_state q = 0" and "cd_zone_trip_limits c \<noteq> []"
    and "trip_key (last (cd_zone_trip_limits c)) \<noteq> (rq_zone q, rq_trip q)"
  shows "fst (snd (thd_cdev_set_state e c pp p q)) = e
     \<and> cd_zone_trip_limits (fst (snd (snd (thd_cdev_set_state e c pp p q)))) = cd_zone_trip_limits c"
  using assms by (simp add: thd_cdev_set_state_def deactivate_def same_trip_key Let_def)

section \<open>The target is applied\<close>

lemma set_curr_state_driver_kind:
  "cd_driver (snd (set_curr_state e c st a)) = Drv_sysfs \<longleftrightarrow> cd_driver c = Drv_sysfs"
  by (auto simp: set_curr_state_def sysfs_set_curr_state_def gen_sysfs_set_curr_state_def rapl_set_curr_state_def
      cpufreq_set_curr_state_def pstate_set_curr_state_def backlight_set_curr_state_def backlight_restore_def
      Let_def split: driver.splits prod.splits option.splits if_splits)

lemma set_curr_state_raw_driver_kind:
  "cd_driver (snd (set_curr_state_raw e c st a)) = Drv_sysfs \<longleftrightarrow> cd_driver c = Drv_sysfs"
  by (auto simp: set_curr_state_raw_def set_curr_state_driver_kind split: driver.splits)

lemma get_curr_state_simple: "cd_driver c \<noteq> Drv_sysfs \<Longrightarrow> get_curr_state e c = (cd_curr_state c, c)"
  by (simp add: get_curr_state_def)

lemma apply_target_state:
  assumes "cd_driver c \<noteq> Drv_sysfs"
  shows "cd_curr_state (snd (apply_target e c tv state)) = tv"
  using assms set_curr_state_raw_driver_kind [of e c tv state]
  by (auto simp: apply_target_def get_curr_state_simple split: prod.splits)

lemma begin_control_driver [simp]: "cd_driver (begin_control e c s) = cd_driver c"
  by (auto simp: begin_control_def control_begin_def Let_def thd_frame split: prod.splits dest!: snd_cong)

text \<open>A device whose targets are states.\<close>

definition direct_target :: "cdev \<Rightarrow> bool" where
  "direct_target c \<longleftrightarrow> (case cd_driver c of Drv_sysfs \<Rightarrow> False | Drv_pstate _ \<Rightarrow> False | Drv_backlight _ \<Rightarrow> False | _ \<Rightarrow> True)"

lemma direct_target_simps:
  assumes "direct_target c"
  shows "cd_driver c \<noteq> Drv_sysfs" "map_target_state c v t = t"
  using assms by (auto simp: direct_target_def map_target_state_def split: driver.splits)

lemma cmp_current_state_direct:
  assumes "cd_driver c \<noteq> Drv_sysfs" "cd_min_state c \<noteq> cd_max_state c" "cmp_current_state e c st = (r, c')" "r \<le> 0"
  shows "c' = c \<and> (if cd_min_state c < cd_max_state c then st \<le> cd_curr_state c else cd_curr_state c \<le> st)"
  using assms by (auto simp: cmp_current_state_def get_curr_state_simple split: if_splits)

lemma activate_direct:
  assumes "direct_target c" "cd_min_state c \<noteq> cd_max_state c" "activate e c q = (d, c1)"
    and "\<not> debounced e c q" "zl_target_state_valid (last (cd_zone_trip_limits (register_trip c q))) \<noteq> 0"
  shows "c1 = register_trip c q \<and> (d = apply_of (last (cd_zone_trip_limits c1)) \<or>
     d = Done \<and> (let t = zl_target_value (last (cd_zone_trip_limits c1)) in
        if cd_min_state c < cd_max_state c then t \<le> cd_curr_state c else cd_curr_state c \<le> t))"
proof -
  define c2 where "c2 = register_trip c q"
  have f: "cd_driver c2 = cd_driver c" "cd_min_state c2 = cd_min_state c" "cd_max_state c2 = cd_max_state c"
      "cd_curr_state c2 = cd_curr_state c" "debounced e c2 q = debounced e c q"
    by (simp_all add: c2_def register_trip_def debounced_def)
  have dt: "direct_target c2" using assms(1) f(1) by (simp add: direct_target_def)
  obtain a c3 where m: "more_constrained e c2 (cd_zone_trip_limits c = []) (last (cd_zone_trip_limits c2)) = (a, c3)"
    by fastforce
  have "c3 = c2 \<and> (a \<longrightarrow> (let t = zl_target_value (last (cd_zone_trip_limits c2)) in
        if cd_min_state c < cd_max_state c then t \<le> cd_curr_state c else cd_curr_state c \<le> t))"
    using m direct_target_simps [OF dt] assms(2) f
    by (auto simp: more_constrained_def cmp_current_state_def get_curr_state_simple Let_def split: if_splits)
  then show ?thesis
    using assms(3,4) m f(5) by (auto simp: activate_def c2_def [symmetric] Let_def split: if_splits)
qed


section \<open>Forcing the minimum state\<close>

lemma set_state_off:
  assumes "rq_state q = 0" "cd_driver c \<noteq> Drv_sysfs" "cd_zone_trip_limits c \<noteq> []"
  shows "thd_cdev_set_state e c pp p q =
     (case deactivate c q of (Done, c1) \<Rightarrow> (THD_SUCCESS, e, c1, p)
      | (Apply tsv tv mn mx, c1) \<Rightarrow>
          (case apply_limit e (begin_control e c1 (rq_state q)) pp p q tsv tv mn mx of (e', c', p') \<Rightarrow>
             (THD_SUCCESS, e', snd (get_max_state e' c'), p')))"
proof -
  have "snd (in_min_state e c) = c" using assms(2) by (simp add: in_min_state_def get_curr_state_simple)
  then show ?thesis using assms by (simp add: thd_cdev_set_state_def Let_def)
qed

lemma apply_target_min: "cd_min_state (snd (apply_target e c tv state)) = cd_min_state c"
  by (auto simp: apply_target_def thd_frame split: prod.splits dest!: snd_cong)

lemma begin_control_min [simp]: "cd_min_state (begin_control e c state) = cd_min_state c"
  by (auto simp: begin_control_def control_begin_def Let_def thd_frame split: prod.splits dest!: snd_cong)

lemma set_min_state_single:
  assumes "cd_driver c \<noteq> Drv_sysfs" "cd_zone_trip_limits c = [l]" "trip_key l = (z, t)"
    and "thd_cdev_set_min_state e c z t = (r, e', c')"
  shows "cd_zone_trip_limits c' = [] \<and> cd_curr_state c' = cd_min_state c \<and> cd_min_state c' = cd_min_state c"
proof -
  define c1 where "c1 = c\<lparr>cd_trend_increase := False\<rparr>"
  define c2 where "c2 = c1\<lparr>cd_zone_trip_limits := []\<rparr>"
  define q where "q = min_state_request c1 z t"
  have q: "rq_state q = 0" "rq_target_state_valid q = 1" "rq_force q" "rq_zone q = z" "rq_trip q = t"
    by (simp_all add: q_def min_state_request_def)
  have d: "\<exists>mn mx. deactivate c1 q = (Apply 1 (cd_min_state c) mn mx, c2)"
    using assms(2,3) q by (simp add: deactivate_def same_trip_key c1_def c2_def get_min_state_def Let_def)
  obtain e1 c3 where ap: "apply_target e (begin_control e c2 0) (cd_min_state c) 0 = (e1, c3)" by fastforce
  have "cd_driver c2 \<noteq> Drv_sysfs" using assms(1) by (simp add: c1_def c2_def)
  then have c3: "cd_curr_state c3 = cd_min_state c"
    using apply_target_state [of "begin_control e c2 0" e "cd_min_state c" 0] ap by simp
  have mn: "cd_min_state c3 = cd_min_state c"
    using apply_target_min [of e "begin_control e c2 0" "cd_min_state c" 0] ap by (simp add: c1_def c2_def)
  have ls: "cd_zone_trip_limits c3 = []"
    by (metis ap snd_conv apply_target_limits begin_control_limits c2_def cdev.update_convs(19) cdev.select_convs(19) cdev.surjective)
  have "thd_cdev_set_state e c1 None cthd_pid q = (THD_SUCCESS, e1, snd (get_max_state e1 c3), cthd_pid)"
    using assms(1,2) d q ap by (subst set_state_off) (auto simp: c1_def apply_limit_def)
  moreover have "thd_cdev_set_min_state e c z t =
      (case thd_cdev_set_state e c1 None cthd_pid q of (_, e', c', _) \<Rightarrow> (THD_SUCCESS, e', c'))"
    by (simp add: thd_cdev_set_min_state_def c1_def q_def Let_def)
  ultimately have "c' = snd (get_max_state e1 c3)" using assms(4) by simp
  with c3 ls mn show ?thesis by (simp add: thd_frame)
qed

text \<open>
  C7. \<^verbatim>\<open>thd_cdev_set_min_state\<close> called for the only trip that holds a device empties the list
  and returns the device to \<^verbatim>\<open>min_state\<close>.
\<close>

theorem set_min_state_releases:
  assumes "cd_driver c \<noteq> Drv_sysfs" and "holders c = {(z, t)}" and "limits_inv c"
    and "thd_cdev_set_min_state e c z t = (r, e', c')"
  shows "cd_zone_trip_limits c' = [] \<and> cd_curr_state c' = cd_min_state c"
proof -
  have "length (cd_zone_trip_limits c) = card (holders c)"
    using assms(3) distinct_card [of "map trip_key (cd_zone_trip_limits c)"] by (simp add: limits_inv_def holders_def)
  then obtain l where l: "cd_zone_trip_limits c = [l]" using assms(2) by (auto simp: length_Suc_conv)
  moreover from this have "trip_key l = (z, t)" using assms(2) by (simp add: holders_def)
  ultimately show ?thesis using set_min_state_single [OF assms(1) _ _ assms(4)] by blast
qed

section \<open>Witnesses\<close>

lemma held_fan_holders: "holders held_fan = {(0, 2)}" "limits_inv held_fan"
  by (simp_all add: holders_def limits_inv_def held_fan_simps)

theorem set_state_holders_witness:
  "let c' = fst (snd (snd (thd_cdev_set_state (demo_meter Map.empty) held_fan None cthd_pid (demo_request 1 3 1 50))))
   in limits_inv c' \<and> holders c' = {(0, 2), (0, 3)}"
proof -
  obtain r e' c' p' where 1: "thd_cdev_set_state (demo_meter Map.empty) held_fan None cthd_pid (demo_request 1 3 1 50)
      = (r, e', c', p')" by (metis prod_cases4)
  from set_state_holders [OF 1 held_fan_holders(2)] show ?thesis
    by (auto simp: 1 held_fan_holders(1))
qed

lemma demo_fan_simps:
  "target_run True demo_fan" "cd_min_state demo_fan = 0" "cd_max_state demo_fan = 100" "direct_target demo_fan"
  "cd_zone_trip_limits demo_fan = []" "cd_last_state demo_fan = 0"
  by (rule target_run.Start) (simp_all add: demo_fan_def cthd_cdev_def direct_target_def)

text \<open>The fan with two targets.\<close>

definition two_targets :: cdev where
  "two_targets = demo_fan\<lparr>cd_zone_trip_limits := [new_limit demo_fan (demo_request 1 2 1 50),
     new_limit demo_fan (demo_request 1 1 1 70)]\<rparr>"

lemma sort_two: "sort_clamp_values_asc [a, b] = (if zl_target_value a \<le> zl_target_value b then [a, b] else [b, a])"
  by (simp add: sort_clamp_values_asc_def)

lemma add_limit_demo:
  "cd_zone_trip_limits c = [l] \<Longrightarrow> cd_min_state c < cd_max_state c \<Longrightarrow> v \<noteq> 0 \<Longrightarrow>
     add_limit c (demo_request s t v w) =
       (if zl_target_value l \<le> w then [l, new_limit c (demo_request s t v w)] else [new_limit c (demo_request s t v w), l])"
  by (simp add: add_limit_def sort_two Let_def) (simp add: new_limit_def)

lemma new_limit_cong:
  "cd_min_state c = cd_min_state d \<Longrightarrow> cd_max_state c = cd_max_state d \<Longrightarrow> new_limit c q = new_limit d q"
  by (simp add: new_limit_def)

lemma two_targets_run: "target_run True two_targets"
proof -
  define c1 where "c1 = demo_fan\<lparr>cd_zone_trip_limits := [new_limit demo_fan (demo_request 1 1 1 70)]\<rparr>"
  obtain r e' c' p' where 1: "thd_cdev_set_state (demo_meter Map.empty) demo_fan None cthd_pid (demo_request 1 1 1 70)
      = (r, e', c', p')" by (metis prod_cases4)
  have "cd_zone_trip_limits c' = cd_zone_trip_limits c1"
    using set_state_limits [OF 1]
    by (simp add: next_limits_def register_trip_limits holders_def demo_fan_simps add_limit_def sort_clamp_values_asc_def c1_def)
  moreover have "target_run True c'"
    by (rule target_run.On [OF demo_fan_simps(1) _ _ _ _ 1]) (simp_all add: demo_fan_simps)
  ultimately have run1: "target_run True c1" using target_run.Other by metis
  obtain r e' c' p' where 2: "thd_cdev_set_state (demo_meter Map.empty) c1 None cthd_pid (demo_request 1 2 1 50)
      = (r, e', c', p')" by (metis prod_cases4)
  have m: "cd_min_state c1 = 0" "cd_max_state c1 = 100" by (simp_all add: c1_def demo_fan_simps)
  have "cd_zone_trip_limits c' = add_limit c1 (demo_request 1 2 1 50)"
    using set_state_limits [OF 2] by (simp add: next_limits_def register_trip_limits holders_def c1_def)
  also have "\<dots> = cd_zone_trip_limits two_targets"
    using m new_limit_cong [of c1 demo_fan]
    by (subst add_limit_demo [where l = "new_limit demo_fan (demo_request 1 1 1 70)"])
      (simp_all add: c1_def two_targets_def demo_fan_simps, simp add: new_limit_def)
  finally have "cd_zone_trip_limits two_targets = cd_zone_trip_limits c'" ..
  moreover have "target_run True c'"
    by (rule target_run.On [OF run1 _ _ _ _ 2]) (simp_all add: m)
  ultimately show ?thesis using target_run.Other by metis
qed


theorem debounced_activation_ignored_witness:
  "thd_cdev_set_state (demo_meter Map.empty) held_fan None cthd_pid (demo_request 1 2 0 0)
     = (THD_SUCCESS, demo_meter Map.empty, held_fan, cthd_pid)"
  by (rule debounced_activation_ignored)
    (simp_all add: held_fan_simps held_fan_holders new_limit_def, simp_all add: held_fan_def demo_meter_def demo_fan_def cthd_cdev_def
      default_debounce_interval_def)

theorem release_by_other_trip_ignored_witness:
  "fst (snd (thd_cdev_set_state (demo_meter Map.empty) held_fan None cthd_pid (demo_request 0 5 0 0)))
     = demo_meter Map.empty"
  using release_by_other_trip_ignored [of "demo_request 0 5 0 0" held_fan "demo_meter Map.empty" None cthd_pid]
  by (simp add: held_fan_simps)


theorem set_min_state_releases_witness:
  "let c' = snd (snd (thd_cdev_set_min_state (demo_meter Map.empty) held_fan 0 2))
   in cd_zone_trip_limits c' = [] \<and> cd_curr_state c' = 0"
proof -
  obtain r e' c' where 1: "thd_cdev_set_min_state (demo_meter Map.empty) held_fan 0 2 = (r, e', c')"
    by (metis prod_cases3)
  from set_min_state_releases [OF _ held_fan_holders 1] show ?thesis by (simp add: 1 held_fan_simps)
qed

end
