(* ===== verification/Thd_TripPoint.thy ===== *)
theory Thd_TripPoint
  imports Thd_Sensor Thd_CdevLimits
begin

text \<open>
  Trip points, \<^verbatim>\<open>thd_trip_point.cpp\<close>: the temperature test with hysteresis, the debounced
  power-off and suspend of critical and hot trips, the switching of polling, and the activation
  and deactivation of the cooling devices bound to the trip.
\<close>

section \<open>State\<close>

datatype trip_point_type = CRITICAL | HOT | MAX_TRIP | PASSIVE | ACTIVE | POLLING | INVALID_TRIP_TYPE

datatype trip_control_type = PARALLEL | SEQUENTIAL

datatype depend_rel = EQUAL | GREATER | LESSER | LESSER_OR_EQUAL | GREATER_OR_EQUAL

record trip_pt_cdev =
  tc_cdev :: nat
  tc_influence :: int
  tc_sampling_period :: int
  tc_last_op_time :: int
  tc_target_state_valid :: int
  tc_target_state :: int
  tc_pid_param :: pid_param
  tc_pid :: pid
  tc_min_max_valid :: int
  tc_min_state :: int
  tc_max_state :: int

record trip_point =
  tp_index :: int
  tp_type :: trip_point_type
  tp_temp :: u32
  tp_hyst :: u32
  tp_cdevs :: "trip_pt_cdev list"
  tp_control_type :: trip_control_type
  tp_zone_id :: int
  tp_sensor_id :: int
  tp_trip_on :: bool
  tp_poll_on :: bool
  tp_depend_cdev :: "nat option"
  tp_depend_cdev_state :: int
  tp_depend_cdev_state_rel :: depend_rel
  tp_crit_trip_count :: nat

definition DEFAULT_SENSOR_ID :: int where "DEFAULT_SENSOR_ID = 65535"
definition consecutive_critical_events :: nat where "consecutive_critical_events = 4"

definition PREF_ENERGY_CONSERVE :: int where "PREF_ENERGY_CONSERVE = 0"
definition PREF_PERFORMANCE :: int where "PREF_PERFORMANCE = 1"
definition PREF_DISABLED :: int where "PREF_DISABLED = 2"

lemmas pref_defs [thd_codes] = PREF_ENERGY_CONSERVE_def PREF_PERFORMANCE_def PREF_DISABLED_def

definition cthd_trip_point ::
    "int \<Rightarrow> trip_point_type \<Rightarrow> u32 \<Rightarrow> u32 \<Rightarrow> int \<Rightarrow> int \<Rightarrow> trip_control_type \<Rightarrow> trip_point" where
  "cthd_trip_point idx ty temp hyst zone sensor ctl =
     \<lparr>tp_index = idx, tp_type = ty, tp_temp = temp, tp_hyst = hyst, tp_cdevs = [], tp_control_type = ctl,
      tp_zone_id = zone, tp_sensor_id = sensor, tp_trip_on = False, tp_poll_on = False,
      tp_depend_cdev = None, tp_depend_cdev_state = 0, tp_depend_cdev_state_rel = EQUAL,
      tp_crit_trip_count = 0\<rparr>"

definition trip_pt_cdev_init :: "nat \<Rightarrow> trip_pt_cdev" where
  "trip_pt_cdev_init ref =
     \<lparr>tc_cdev = ref, tc_influence = 0, tc_sampling_period = 0, tc_last_op_time = 0, tc_target_state_valid = 0,
      tc_target_state = 0, tc_pid_param = \<lparr>pp_valid = 0, pp_kp = 0, pp_ki = 0, pp_kd = 0\<rparr>, tc_pid = cthd_pid,
      tc_min_max_valid = 0, tc_min_state = 0, tc_max_state = 0\<rparr>"

text \<open>The cooling device at a position, and its replacement.\<close>

definition cdev_at :: "'a sys_scheme \<Rightarrow> nat \<Rightarrow> cdev" where
  "cdev_at st i = sy_cdevs st ! i"

definition put_cdev :: "nat \<Rightarrow> cdev \<Rightarrow> 'a sys_scheme \<Rightarrow> 'a sys_scheme" where
  "put_cdev i c st = st\<lparr>sy_cdevs := (sy_cdevs st)[i := c]\<rparr>"

section \<open>Binding cooling devices\<close>

definition same_cdev_type :: "'a sys_scheme \<Rightarrow> nat \<Rightarrow> trip_pt_cdev \<Rightarrow> bool" where
  "same_cdev_type st ref tc \<longleftrightarrow> cd_type_str (cdev_at st (tc_cdev tc)) = cd_type_str (cdev_at st ref)"

definition trip_cdev_add :: "'a sys_scheme \<Rightarrow> trip_pt_cdev \<Rightarrow> trip_point \<Rightarrow> trip_point" where
  "trip_cdev_add st tc t =
     (let tcs = (case find_index (same_cdev_type st (tc_cdev tc)) (tp_cdevs t) of
                   Some i \<Rightarrow> (tp_cdevs t)[i := (tp_cdevs t ! i)\<lparr>tc_influence := tc_influence tc\<rparr>]
                 | None \<Rightarrow> tp_cdevs t @ [tc])
      in t\<lparr>tp_cdevs := sort_key (\<lambda>x. - tc_influence x) tcs\<rparr>)"

definition thd_trip_point_add_cdev ::
    "'a sys_scheme \<Rightarrow> nat \<Rightarrow> int \<Rightarrow> int \<Rightarrow> int \<Rightarrow> int \<Rightarrow> pid_param option \<Rightarrow> int \<Rightarrow> int \<Rightarrow> int
       \<Rightarrow> trip_point \<Rightarrow> trip_point" where
  "thd_trip_point_add_cdev st ref influence sampling tsv target pp mmv mn mx t =
     (let tc0 = (trip_pt_cdev_init ref)\<lparr>tc_influence := influence, tc_sampling_period := sampling,
                  tc_target_state_valid := tsv, tc_target_state := target, tc_min_max_valid := mmv\<rparr>;
          tc1 = (if mmv \<noteq> 0 then tc0\<lparr>tc_min_state := mn, tc_max_state := mx\<rparr> else tc0);
          tc2 = (case pp of
                   Some p \<Rightarrow> (if pp_valid p \<noteq> 0
                              then tc1\<lparr>tc_pid_param := p, tc_pid := set_pid_param (pp_kp p) (pp_ki p) (pp_kd p) (tc_pid tc1)\<rparr>
                              else tc1)
                 | None \<Rightarrow> tc1)
      in trip_cdev_add st tc2 t)"

definition thd_trip_point_add_cdev_index :: "'a sys_scheme \<Rightarrow> int \<Rightarrow> int \<Rightarrow> trip_point \<Rightarrow> int \<times> trip_point" where
  "thd_trip_point_add_cdev_index st idx influence t =
     (case thd_get_cdev_at_index idx st of None \<Rightarrow> (THD_ERROR, t)
      | Some ref \<Rightarrow> (THD_SUCCESS, trip_cdev_add st ((trip_pt_cdev_init ref)\<lparr>tc_influence := influence\<rparr>) t))"

text \<open>The dependency on the state of another device, written as a relation and a number.\<close>

definition dependency_of :: "string \<Rightarrow> depend_rel \<Rightarrow> depend_rel \<times> nat" where
  "dependency_of s old =
     (let r0 = (if take 2 s = ''=='' then (EQUAL, 2) else (old, 0));
          r1 = (if take 1 s = ''>'' then (GREATER, 1) else r0);
          r2 = (if take 1 s = ''<'' then (LESSER, 1) else r1);
          r3 = (if take 2 s = ''<='' then (LESSER_OR_EQUAL, 2) else r2)
      in if take 2 s = ''>='' then (GREATER_OR_EQUAL, 2) else r3)"

definition set_dependency :: "'a sys_scheme \<Rightarrow> string \<Rightarrow> string \<Rightarrow> trip_point \<Rightarrow> trip_point" where
  "set_dependency st cdev state_str t =
     (case search_cdev cdev st of None \<Rightarrow> t
      | Some ref \<Rightarrow>
          (case dependency_of state_str (tp_depend_cdev_state_rel t) of (rel, i) \<Rightarrow>
             t\<lparr>tp_depend_cdev := Some ref, tp_depend_cdev_state_rel := rel,
               tp_depend_cdev_state := atoi (drop i state_str)\<rparr>))"

fun depend_holds :: "depend_rel \<Rightarrow> int \<Rightarrow> int \<Rightarrow> bool" where
  "depend_holds EQUAL s v = (s = v)"
| "depend_holds GREATER s v = (s > v)"
| "depend_holds LESSER s v = (s < v)"
| "depend_holds LESSER_OR_EQUAL s v = (s \<le> v)"
| "depend_holds GREATER_OR_EQUAL s v = (s \<ge> v)"

section \<open>The temperature test\<close>

definition trip_request :: "trip_point \<Rightarrow> u32 \<Rightarrow> trip_pt_cdev \<Rightarrow> cdev \<Rightarrow> int \<Rightarrow> request" where
  "trip_request t read_temp tc c state =
     \<lparr>rq_target_temp = sint (tp_temp t), rq_temperature = sint read_temp,
      rq_hard_target = (if tp_type t = MAX_TRIP then 1 else 0), rq_state = state, rq_zone = tp_zone_id t,
      rq_trip = tp_index t, rq_target_state_valid = tc_target_state_valid tc,
      rq_target_value = map_target_state c (tc_target_state_valid tc) (tc_target_state tc), rq_force = False,
      rq_min_max_valid = tc_min_max_valid tc, rq_min_state = tc_min_state tc, rq_max_state = tc_max_state tc\<rparr>"

text \<open>A request to the device of a trip entry.\<close>

definition drive_cdev ::
    "trip_point \<Rightarrow> u32 \<Rightarrow> int \<Rightarrow> trip_pt_cdev \<Rightarrow> 'a sys_scheme \<Rightarrow> int \<times> trip_pt_cdev \<times> 'a sys_scheme" where
  "drive_cdev t read_temp state tc0 st =
     (let c = cdev_at st (tc_cdev tc0);
          tc = (if tc_target_state tc0 = TRIP_PT_INVALID_TARGET_STATE
                then tc0\<lparr>tc_target_state := get_min_state c\<rparr> else tc0)
      in case thd_cdev_set_state (sy_env st) c (Some (tc_pid_param tc)) (tc_pid tc)
                (trip_request t read_temp tc c state) of
           (ret, e', c', p') \<Rightarrow> (ret, tc\<lparr>tc_pid := p'\<rparr>, (put_cdev (tc_cdev tc) c' st)\<lparr>sy_env := e'\<rparr>))"

text \<open>Is it too early to act again, and the entry with the time of the action noted.\<close>

definition too_early :: "int \<Rightarrow> trip_pt_cdev \<Rightarrow> bool" where
  "too_early now tc \<longleftrightarrow> tc_sampling_period tc \<noteq> 0 \<and> now - tc_last_op_time tc < tc_sampling_period tc"

definition note_time :: "int \<Rightarrow> trip_pt_cdev \<Rightarrow> trip_pt_cdev" where
  "note_time now tc = (if tc_sampling_period tc \<noteq> 0 then tc\<lparr>tc_last_op_time := now\<rparr> else tc)"

fun activate_cdevs ::
    "trip_point \<Rightarrow> u32 \<Rightarrow> trip_pt_cdev list \<Rightarrow> 'a sys_scheme \<Rightarrow> trip_pt_cdev list \<times> 'a sys_scheme" where
  "activate_cdevs t read_temp [] st = ([], st)"
| "activate_cdevs t read_temp (tc0 # tcs) st =
     (if too_early (e_now (sy_env st)) tc0 then (tc0 # tcs, st)
      else
        (let tc = note_time (e_now (sy_env st)) tc0
         in case in_max_state (sy_env st) (cdev_at st (tc_cdev tc)) of (full, c1) \<Rightarrow>
              (let st1 = put_cdev (tc_cdev tc) c1 st
               in if full then (case activate_cdevs t read_temp tcs st1 of (tcs', st') \<Rightarrow> (tc # tcs', st'))
                  else case drive_cdev t read_temp 1 tc st1 of (ret, tc', st2) \<Rightarrow>
                    if tp_control_type t = SEQUENTIAL \<and> ret = THD_SUCCESS then (tc' # tcs, st2)
                    else (case activate_cdevs t read_temp tcs st2 of (tcs', st') \<Rightarrow> (tc' # tcs', st')))))"

text \<open>The devices are released from the last to the first: the list is given reversed.\<close>

fun deactivate_cdevs ::
    "trip_point \<Rightarrow> u32 \<Rightarrow> trip_pt_cdev list \<Rightarrow> 'a sys_scheme \<Rightarrow> trip_pt_cdev list \<times> 'a sys_scheme" where
  "deactivate_cdevs t read_temp [] st = ([], st)"
| "deactivate_cdevs t read_temp (tc # tcs) st =
     (case in_min_state (sy_env st) (cdev_at st (tc_cdev tc)) of (idle, c1) \<Rightarrow>
        (let st1 = put_cdev (tc_cdev tc) c1 st
         in if idle then (case deactivate_cdevs t read_temp tcs st1 of (tcs', st') \<Rightarrow> (tc # tcs', st'))
            else case drive_cdev t read_temp 0 tc st1 of (_, tc', st2) \<Rightarrow>
              if tp_control_type t = SEQUENTIAL then (tc' # tcs, st2)
              else (case deactivate_cdevs t read_temp tcs st2 of (tcs', st') \<Rightarrow> (tc' # tcs', st'))))"

text \<open>Critical and hot trips: the debounce counter. \<open>Some\<close> means that the check is over.\<close>

definition power_off :: "'a sys_scheme \<Rightarrow> 'a sys_scheme" where
  "power_off st = st\<lparr>sy_powered_off := True\<rparr>"

definition suspend :: "'a sys_scheme \<Rightarrow> 'a sys_scheme" where
  "suspend st = st\<lparr>sy_env := snd (sysfs_write (sy_env st) ''/sys/power/state'' ''mem'')\<rparr>"

definition crit_check ::
    "u32 \<Rightarrow> ('a sys_scheme \<Rightarrow> 'a sys_scheme) \<Rightarrow> trip_point \<Rightarrow> 'a sys_scheme \<Rightarrow> bool \<times> trip_point \<times> 'a sys_scheme" where
  "crit_check read_temp action t st =
     (if \<not> sy_ignore_critical st \<and> tp_temp t \<le> read_temp then
        (if tp_crit_trip_count t < consecutive_critical_events
         then (True, t\<lparr>tp_crit_trip_count := tp_crit_trip_count t + 1\<rparr>, st)
         else (True, t\<lparr>tp_crit_trip_count := 0\<rparr>, action st))
      else (False, t\<lparr>tp_crit_trip_count := 0\<rparr>, st))"

text \<open>Polling trips: switch polling of the sensor on and off, reporting a reset.\<close>

definition rearm_threshold :: "sensor \<Rightarrow> u32 \<Rightarrow> 'a sys_scheme \<Rightarrow> 'a sys_scheme" where
  "rearm_threshold s temp st =
     (if sn_async_capable s
      then st\<lparr>sy_env := snd (set_threshold (sy_poll_interval_sec st) (sy_env st) s 0 (sint temp))\<rparr> else st)"

definition polling_check :: "u32 \<Rightarrow> trip_point \<Rightarrow> 'a sys_scheme \<Rightarrow> bool \<times> trip_point \<times> 'a sys_scheme" where
  "polling_check read_temp t st =
     (case get_sensor (tp_sensor_id t) st of None \<Rightarrow> (False, t, st)
      | Some s \<Rightarrow>
          (if \<not> tp_poll_on t \<and> tp_temp t \<le> read_temp
           then (False, t\<lparr>tp_poll_on := True\<rparr>,
                 rearm_threshold s (tp_temp t) (sensor_fast_poll True s (sensor_poll_trip True s st)))
           else if tp_poll_on t \<and> read_temp < tp_temp t
           then (True, t\<lparr>tp_poll_on := False\<rparr>,
                 rearm_threshold s (tp_temp t) (sensor_fast_poll False s (sensor_poll_trip False s st)))
           else (False, t, st)))"

text \<open>Which trips the preference applies to.\<close>

definition pref_applies :: "int \<Rightarrow> trip_point_type \<Rightarrow> bool" where
  "pref_applies pref ty \<longleftrightarrow>
     pref = PREF_PERFORMANCE \<and> (ty = ACTIVE \<or> ty = MAX_TRIP) \<or> pref = PREF_ENERGY_CONSERVE \<and> (ty = PASSIVE \<or> ty = MAX_TRIP)"

text \<open>The comparison with hysteresis: \<open>Some True\<close> to activate, \<open>Some False\<close> to release.\<close>

definition trip_decision :: "trip_point \<Rightarrow> u32 \<Rightarrow> bool option" where
  "trip_decision t read_temp =
     (if tp_temp t \<le> read_temp then Some True
      else if (tp_trip_on t \<and> read_temp + tp_hyst t < tp_temp t) \<or> (\<not> tp_trip_on t \<and> read_temp < tp_temp t)
      then Some False else None)"

definition apply_trip :: "u32 \<Rightarrow> trip_point \<Rightarrow> 'a sys_scheme \<Rightarrow> trip_point \<times> 'a sys_scheme" where
  "apply_trip read_temp t st =
     (case trip_decision t read_temp of
        None \<Rightarrow> (t, st)
      | Some True \<Rightarrow>
          (let t1 = t\<lparr>tp_trip_on := True\<rparr>
           in case activate_cdevs t1 read_temp (tp_cdevs t1) st of (tcs, st') \<Rightarrow> (t1\<lparr>tp_cdevs := tcs\<rparr>, st'))
      | Some False \<Rightarrow>
          (let t1 = t\<lparr>tp_trip_on := False\<rparr>
           in case deactivate_cdevs t1 read_temp (rev (tp_cdevs t1)) st of (tcs, st') \<Rightarrow>
                (t1\<lparr>tp_cdevs := rev tcs\<rparr>, st')))"

text \<open>The dependency test; reading the state of a thermal sysfs device refreshes it.\<close>

definition depend_check :: "u32 \<Rightarrow> trip_point \<Rightarrow> 'a sys_scheme \<Rightarrow> bool \<times> 'a sys_scheme" where
  "depend_check read_temp t st =
     (case tp_depend_cdev t of None \<Rightarrow> (True, st)
      | Some d \<Rightarrow>
          (if tp_temp t \<le> read_temp
           then (case get_curr_state (sy_env st) (cdev_at st d) of (s, c') \<Rightarrow>
                   (depend_holds (tp_depend_cdev_state_rel t) s (tp_depend_cdev_state t), put_cdev d c' st))
           else (True, st)))"

text \<open>
  \<^verbatim>\<open>thd_trip_point_check\<close>: the results are the returned flag, the reset flag, the trip and the
  system.
\<close>

definition critical_stage :: "u32 \<Rightarrow> trip_point \<Rightarrow> 'a sys_scheme \<Rightarrow> bool \<times> trip_point \<times> 'a sys_scheme" where
  "critical_stage read_temp t st =
     (if tp_type t = CRITICAL then crit_check read_temp power_off t st
      else if tp_type t = HOT then crit_check read_temp suspend t st
      else (False, t, st))"

definition thd_trip_point_check ::
    "int \<Rightarrow> u32 \<Rightarrow> int \<Rightarrow> trip_point \<Rightarrow> 'a sys_scheme \<Rightarrow> bool \<times> bool \<times> trip_point \<times> 'a sys_scheme" where
  "thd_trip_point_check sid read_temp pref t st0 =
     (if tp_type t = INVALID_TRIP_TYPE then (False, False, t, st0)
      else case depend_check read_temp t st0 of (ok, st) \<Rightarrow>
        if \<not> ok then (False, False, t, st)
        else if tp_sensor_id t \<noteq> DEFAULT_SENSOR_ID \<and> tp_sensor_id t \<noteq> sid then (False, False, t, st)
        else case critical_stage read_temp t st of (over, t1, st1) \<Rightarrow>
          if over then (True, False, t1, st1)
          else if tp_type t1 = POLLING \<and> tp_sensor_id t1 \<noteq> DEFAULT_SENSOR_ID
          then (case polling_check read_temp t1 st1 of (reset, t2, st2) \<Rightarrow> (True, reset, t2, st2))
          else if pref_applies pref (tp_type t1)
          then (case apply_trip read_temp t1 st1 of (t2, st2) \<Rightarrow> (True, False, t2, st2))
          else (False, False, t1, st1))"

section \<open>Reset\<close>

fun reset_cdevs :: "int \<Rightarrow> trip_point \<Rightarrow> trip_pt_cdev list \<Rightarrow> 'a sys_scheme \<Rightarrow> 'a sys_scheme" where
  "reset_cdevs force t [] st = st"
| "reset_cdevs force t (tc # tcs) st =
     (case (if force = 0 then in_min_state (sy_env st) (cdev_at st (tc_cdev tc))
            else (False, cdev_at st (tc_cdev tc))) of (idle, c1) \<Rightarrow>
        (let st1 = put_cdev (tc_cdev tc) c1 st
         in if idle then reset_cdevs force t tcs st1
            else case thd_cdev_set_min_state (sy_env st1) c1 (tp_zone_id t) (tp_index t) of (_, e', c') \<Rightarrow>
              reset_cdevs force t tcs ((put_cdev (tc_cdev tc) c' st1)\<lparr>sy_env := e'\<rparr>)))"

definition thd_trip_cdev_state_reset :: "int \<Rightarrow> trip_point \<Rightarrow> 'a sys_scheme \<Rightarrow> 'a sys_scheme" where
  "thd_trip_cdev_state_reset force t st = reset_cdevs force t (rev (tp_cdevs t)) st"

section \<open>Accessors that compute\<close>

definition is_target_valid :: "trip_point \<Rightarrow> int \<times> int" where
  "is_target_valid t =
     (case List.find (\<lambda>tc. tc_target_state_valid tc \<noteq> 0) (tp_cdevs t) of
        Some tc \<Rightarrow> (THD_SUCCESS, tc_target_state tc) | None \<Rightarrow> (THD_ERROR, 0))"

definition set_first_target_invalid :: "trip_point \<Rightarrow> int \<times> trip_point" where
  "set_first_target_invalid t =
     (case tp_cdevs t of [] \<Rightarrow> (THD_ERROR, t)
      | tc # tcs \<Rightarrow> (THD_SUCCESS, t\<lparr>tp_cdevs := tc\<lparr>tc_target_state_valid := 0\<rparr> # tcs\<rparr>))"

definition set_first_target :: "int \<Rightarrow> trip_point \<Rightarrow> int \<times> trip_point" where
  "set_first_target s t =
     (case tp_cdevs t of [] \<Rightarrow> (THD_ERROR, t)
      | tc # tcs \<Rightarrow> (THD_SUCCESS, t\<lparr>tp_cdevs := tc\<lparr>tc_target_state_valid := 1, tc_target_state := s\<rparr> # tcs\<rparr>))"

end
