(* ===== verification/Thd_Gddv.thy ===== *)
theory Thd_Gddv
  imports Thd_GddvBuf Thd_CdevUpdate Thd_TripPoint
begin

text \<open>
  The tables of the data vault, \<^verbatim>\<open>thd_gddv.cpp\<close>: the state of \<^verbatim>\<open>cthd_gddv\<close> and one parser
  per table. A parser takes the value's buffer and length and returns the new state with its status
  or fault; what a table added before a fault stays in the state, as it does when the exception
  leaves the C++ code. Values of 64 bits are converted to the width of the member they are stored in.
\<close>

section \<open>The data\<close>

record psv =
  ps_name :: string
  ps_source :: string
  ps_target :: string
  ps_priority :: int
  ps_sample_period :: int
  ps_temp :: int
  ps_domain :: int
  ps_control_knob :: int
  ps_limit :: string
  ps_step_size :: int
  ps_limit_coeff :: int
  ps_unlimit_coeff :: int

record condition =
  cn_condition :: int
  cn_device :: string
  cn_comparison :: int
  cn_argument :: int
  cn_operation :: int
  cn_time_comparison :: int
  cn_time :: int
  cn_target :: int
  cn_state :: int
  cn_state_entry_time :: int
  cn_ignore_condition :: int

record custom_condition =
  cu_condition :: int
  cu_name :: string
  cu_participant :: string
  cu_domain :: int
  cu_type :: int

record psvt =
  pv_name :: string
  pv_psvs :: "psv list"

record itmt_entry =
  ie_target :: string
  ie_trip_point :: int
  ie_pl1_min :: string
  ie_pl1_max :: string
  ie_unused :: string

record itmt =
  im_version :: int
  im_name :: string
  im_entries :: "itmt_entry list"

record trippoint =
  gt_name :: string
  gt_type_str :: string
  gt_type :: trip_point_type
  gt_temp :: int

record vsct_entry =
  vc_target :: string
  vc_domain_type :: int
  vc_coeff_type :: int
  vc_coeff :: int
  vc_operation :: int
  vc_alpha :: int
  vc_trigger_point :: int

record vspt_entry =
  vp_virtual_temp :: int
  vp_sample_period :: int

text \<open>The class. Of the handles of input devices and of the power service it matters whether they
  are there; what they report is an argument of the functions that ask them.\<close>

record gddv =
  gd_ppccs :: "ppcc list"
  gd_custom_conditions :: "custom_condition list"
  gd_psvts :: "psvt list"
  gd_itmts :: "itmt list"
  gd_idsps :: "string list"
  gd_trippoints :: "trippoint list"
  gd_int3400_path :: string
  gd_int3400_base_path :: string
  gd_upower_client :: bool
  gd_tablet_dev :: bool
  gd_lid_dev :: bool
  gd_power_slider :: int
  gd_current_target_matched :: int
  gd_cur_buf_len :: int
  gd_conditions :: "condition list list"
  gd_targets :: "adaptive_target list"
  gd_vscts_name :: string
  gd_vscts :: "vsct_entry list"
  gd_vspts :: "vspt_entry list"

definition cthd_gddv :: gddv where
  "cthd_gddv =
     \<lparr>gd_ppccs = [], gd_custom_conditions = [], gd_psvts = [], gd_itmts = [], gd_idsps = [], gd_trippoints = [],
      gd_int3400_path = [], gd_int3400_base_path = [], gd_upower_client = False, gd_tablet_dev = False,
      gd_lid_dev = False, gd_power_slider = 75, gd_current_target_matched = -1, gd_cur_buf_len = 0,
      gd_conditions = [], gd_targets = [], gd_vscts_name = [], gd_vscts = [], gd_vspts = []\<rparr>"

text \<open>The conversions of a 64 bit value to \<^verbatim>\<open>int\<close>, to the 32 and 8 bit enumerations and to
  \<^verbatim>\<open>time_t\<close>.\<close>

definition to_int :: "u64 \<Rightarrow> int" where "to_int w = s32 (uint w)"
definition to_enum32 :: "u64 \<Rightarrow> int" where "to_enum32 w = uint w mod 4294967296"
definition to_enum8 :: "u64 \<Rightarrow> int" where "to_enum8 w = uint w mod 256"

definition DECI_KELVIN_TO_CELSIUS :: "int \<Rightarrow> int" where
  "DECI_KELVIN_TO_CELSIUS t =
     (if 0 \<le> s32 (t - 2732) then s32 (s32 (t - 2732) + 5) sdiv 10 else s32 (s32 (t - 2732) - 5) sdiv 10)"

definition cur_len :: "int \<Rightarrow> gddv \<Rightarrow> gddv" where
  "cur_len len g = g\<lparr>gd_cur_buf_len := len\<rparr>"

text \<open>The fuel of a table loop: one more than the number of bytes.\<close>

definition table_fuel :: "int \<Rightarrow> nat" where
  "table_fuel len = Suc (nat len)"

section \<open>APPC and APAT\<close>

definition merge_custom :: "custom_condition \<Rightarrow> condition \<Rightarrow> condition" where
  "merge_custom cu c = c\<lparr>cn_device := cu_participant cu, cn_condition := cu_type cu mod 4294967296\<rparr>"

definition merge_appc :: "gddv \<Rightarrow> gddv" where
  "merge_appc g =
     g\<lparr>gd_conditions :=
        fold (\<lambda>cu. map (map (\<lambda>c. if cu_condition cu = cn_condition c then merge_custom cu c else c)))
          (gd_custom_conditions g) (gd_conditions g)\<rparr>"

definition appc_entry :: "int \<Rightarrow> string \<Rightarrow> int \<Rightarrow> (custom_condition \<times> int) result" where
  "appc_entry len buf off =
     bind_r (get_uint64 len buf off) (\<lambda>(cond, off).
     bind_r (get_string_obj len buf off) (\<lambda>(name, off).
     bind_r (get_string_obj len buf off) (\<lambda>(part, off).
     bind_r (get_uint64 len buf off) (\<lambda>(dom, off).
     bind_r (get_uint64 len buf off) (\<lambda>(ty, off).
       Inr (\<lparr>cu_condition = to_enum32 cond, cu_name = name, cu_participant = part, cu_domain = to_int dom,
             cu_type = to_int ty\<rparr>, off))))))"

definition parse_appc :: "string \<Rightarrow> int \<Rightarrow> gddv \<Rightarrow> gddv \<times> int result" where
  "parse_appc buf len g0 =
     (let g = cur_len len g0
      in if len < 1 then (g, Inr 0)
         else case load 1 buf 0 of Inl f \<Rightarrow> (g, Inl f)
         | Inr b \<Rightarrow>
             (if b \<noteq> 4 then (g, Inr 0)
              else case get_uint64 len buf 0 of Inl f \<Rightarrow> (g, Inl f)
              | Inr (version, off) \<Rightarrow>
                  (if version \<noteq> 1 then (g, Inr 0)
                   else case table_loop (table_fuel len) (appc_entry len buf) len off of (xs, r) \<Rightarrow>
                     (g\<lparr>gd_custom_conditions := gd_custom_conditions g @ xs\<rparr>, bind_r r (\<lambda>_. Inr 0)))))"

definition apat_entry :: "int \<Rightarrow> string \<Rightarrow> int \<Rightarrow> (adaptive_target \<times> int) result" where
  "apat_entry len buf off =
     bind_r (get_uint64 len buf off) (\<lambda>(tid, off).
     bind_r (get_string_obj len buf off) (\<lambda>(name, off).
     bind_r (get_string_obj len buf off) (\<lambda>(part, off).
     bind_r (get_uint64 len buf off) (\<lambda>(dom, off).
     bind_r (get_string_obj len buf off) (\<lambda>(code, off).
     bind_r (get_string_obj len buf off) (\<lambda>(arg, off).
       Inr (\<lparr>at_target_id = tid, at_name = name, at_participant = part, at_domain = dom, at_code = code,
             at_argument = arg\<rparr>, off)))))))"

definition parse_apat :: "string \<Rightarrow> int \<Rightarrow> gddv \<Rightarrow> gddv \<times> int result" where
  "parse_apat buf len g0 =
     (let g = cur_len len g0
      in case get_uint64 len buf 0 of Inl f \<Rightarrow> (g, Inl f)
         | Inr (version, off) \<Rightarrow>
             (if version \<noteq> 2 then (g, Inl Gddv_exception)
              else case table_loop (table_fuel len) (apat_entry len buf) len off of (xs, r) \<Rightarrow>
                (g\<lparr>gd_targets := gd_targets g @ xs\<rparr>, bind_r r (\<lambda>_. Inr 0))))"

section \<open>APCT\<close>

definition AND_op :: int where "AND_op = 1"
definition FOR_op :: int where "FOR_op = 2"

definition new_condition :: "int \<Rightarrow> condition" where
  "new_condition target =
     \<lparr>cn_condition = 0, cn_device = [], cn_comparison = 0, cn_argument = 0, cn_operation = 0,
      cn_time_comparison = 0, cn_time = 0, cn_target = target, cn_state = 0, cn_state_entry_time = 0,
      cn_ignore_condition = 0\<rparr>"

text \<open>A condition of version 1: the operation is read for all but the last place; after \<^verbatim>\<open>FOR\<close> a
  time takes up the next place.\<close>

definition apct_for_v1 :: "int \<Rightarrow> string \<Rightarrow> int \<Rightarrow> condition \<Rightarrow> int \<Rightarrow> ((condition \<times> int) \<times> int) result" where
  "apct_for_v1 len buf i c off =
     bind_r (get_uint64 len buf (skip12 off)) (\<lambda>(tc, off).
     bind_r (get_uint64 len buf off) (\<lambda>(tm, off).
       Inr ((c\<lparr>cn_time_comparison := to_enum8 tc, cn_time := sint tm\<rparr>, i + 1), skip12 off)))"

definition apct_condition_v1 :: "int \<Rightarrow> string \<Rightarrow> int \<Rightarrow> int \<Rightarrow> int \<Rightarrow> ((condition \<times> int) \<times> int) result" where
  "apct_condition_v1 len buf target i off =
     bind_r (get_uint64 len buf off) (\<lambda>(cond, off).
     bind_r (get_uint64 len buf off) (\<lambda>(cmp, off).
     bind_r (get_uint64 len buf off) (\<lambda>(arg, off).
       (let c = (new_condition target)\<lparr>cn_condition := to_enum32 cond, cn_comparison := to_enum8 cmp,
                  cn_argument := to_int arg\<rparr>
        in if i < 9
           then bind_r (get_uint64 len buf off) (\<lambda>(op, off).
                  (let c1 = c\<lparr>cn_operation := to_enum8 op\<rparr>
                   in if cn_operation c1 = FOR_op then apct_for_v1 len buf i c1 off else Inr ((c1, i), off)))
           else Inr ((c, i), off)))))"

definition apct_for_v2 :: "int \<Rightarrow> string \<Rightarrow> int \<Rightarrow> condition \<Rightarrow> int \<Rightarrow> ((condition \<times> int) \<times> int) result" where
  "apct_for_v2 len buf i c off =
     bind_r (get_string len buf (skip12 off)) (\<lambda>(_, off).
     bind_r (get_uint64 len buf (skip12 off)) (\<lambda>(tc, off).
     bind_r (get_uint64 len buf off) (\<lambda>(tm, off).
       Inr ((c\<lparr>cn_time_comparison := to_enum8 tc, cn_time := sint tm\<rparr>, i + 1), skip12 off))))"

text \<open>\<open>cnt\<close> is the 64 bit count of the set.\<close>

definition apct_condition_v2 :: "int \<Rightarrow> string \<Rightarrow> u64 \<Rightarrow> int \<Rightarrow> int \<Rightarrow> int \<Rightarrow> ((condition \<times> int) \<times> int) result" where
  "apct_condition_v2 len buf cnt target i off =
     bind_r (get_uint64 len buf off) (\<lambda>(cond, off).
     bind_r (get_string_obj len buf off) (\<lambda>(dev, off).
     bind_r (get_uint64 len buf (skip12 off)) (\<lambda>(cmp, off).
     bind_r (get_uint64 len buf off) (\<lambda>(arg, off).
       (let c = (new_condition target)\<lparr>cn_condition := to_enum32 cond, cn_device := dev,
                  cn_comparison := to_enum8 cmp, cn_argument := to_int arg\<rparr>
        in if i < to_int (cnt - 1)
           then bind_r (get_uint64 len buf off) (\<lambda>(op, off).
                  (let c1 = c\<lparr>cn_operation := to_enum8 op\<rparr>
                   in if cn_operation c1 = FOR_op then apct_for_v2 len buf i c1 off else Inr ((c1, i), off)))
           else Inr ((c, i), off))))))"

text \<open>The loop over the places of a set; \<open>rd\<close> reads the condition at place \<open>i\<close> and returns the
  place it ends at.\<close>

fun apct_set :: "nat \<Rightarrow> (int \<Rightarrow> int \<Rightarrow> ((condition \<times> int) \<times> int) result) \<Rightarrow> int \<Rightarrow> int \<Rightarrow> int \<Rightarrow> int
    \<Rightarrow> (condition list \<times> int) result" where
  "apct_set n rd len places i off =
     (if \<not> i < places then Inr ([], off)
      else if len \<le> off then Inl Gddv_exception
      else case n of 0 \<Rightarrow> Inl Out_of_fuel
      | Suc m \<Rightarrow>
          bind_r (rd i off) (\<lambda>((c, i'), off').
          bind_r (apct_set m rd len places (i' + 1) off') (\<lambda>(cs, off'').
            Inr (c # cs, off''))))"

declare apct_set.simps [simp del]

definition apct_entry_v1 :: "int \<Rightarrow> string \<Rightarrow> int \<Rightarrow> (condition list \<times> int) result" where
  "apct_entry_v1 len buf off =
     bind_r (get_uint64 len buf off) (\<lambda>(target, off).
       if to_int target = -1 then Inl Gddv_exception
       else apct_set 10 (apct_condition_v1 len buf (to_int target)) len 10 0 off)"

definition apct_entry_v2 :: "int \<Rightarrow> string \<Rightarrow> int \<Rightarrow> (condition list \<times> int) result" where
  "apct_entry_v2 len buf off =
     bind_r (get_uint64 len buf off) (\<lambda>(target, off).
       if to_int target = -1 then Inl Gddv_exception
       else bind_r (get_uint64 len buf off) (\<lambda>(cnt, off).
         apct_set (nat (to_int cnt)) (apct_condition_v2 len buf cnt (to_int target)) len (to_int cnt) 0 off))"

definition parse_apct :: "string \<Rightarrow> int \<Rightarrow> gddv \<Rightarrow> gddv \<times> int result" where
  "parse_apct buf len g0 =
     (let g = cur_len len g0
      in case get_uint64 len buf 0 of Inl f \<Rightarrow> (g, Inl f)
         | Inr (version, off) \<Rightarrow>
             (if version = 1 \<or> version = 2
              then case table_loop (table_fuel len)
                          (if version = 1 then apct_entry_v1 len buf else apct_entry_v2 len buf) len off of (xs, r) \<Rightarrow>
                (g\<lparr>gd_conditions := gd_conditions g @ xs\<rparr>, bind_r r (\<lambda>_. Inr 0))
              else (g, Inl Gddv_exception)))"

section \<open>PPCC\<close>

definition get_ppcc_param :: "string \<Rightarrow> gddv \<Rightarrow> ppcc option" where
  "get_ppcc_param name g =
     (if name \<noteq> ''TCPU.D0'' then None else List.find (\<lambda>p. pc_name p = name) (gd_ppccs g))"

definition load_int :: "string \<Rightarrow> int \<Rightarrow> int result" where
  "load_int buf off = bind_r (load 8 buf off) (\<lambda>v. Inr (s32 (int v)))"

text \<open>The five values of a limit, 12 bytes apart.\<close>

definition ppcc_limit :: "string \<Rightarrow> int \<Rightarrow> (int \<times> int \<times> int \<times> int \<times> int) result" where
  "ppcc_limit buf start =
     bind_r (load_int buf start) (\<lambda>mn.
     bind_r (load_int buf (start + 12)) (\<lambda>mx.
     bind_r (load_int buf (start + 24)) (\<lambda>tmn.
     bind_r (load_int buf (start + 36)) (\<lambda>tmx.
     bind_r (load_int buf (start + 48)) (\<lambda>step. Inr (mn, mx, tmn, tmx, step))))))"

definition parse_ppcc :: "string \<Rightarrow> string \<Rightarrow> int \<Rightarrow> gddv \<Rightarrow> gddv \<times> int result" where
  "parse_ppcc name buf len g =
     (if len < 84 then (g, Inr 0)
      else case ppcc_limit buf 28 of Inl f \<Rightarrow> (g, Inl f)
      | Inr (mn, mx, tmn, tmx, step) \<Rightarrow>
          (if len < 156 then (g, Inr 0)
           else case ppcc_limit buf (76 + 12 + 12) of Inl f \<Rightarrow> (g, Inl f)
           | Inr (mn1, mx1, tmn1, tmx1, step1) \<Rightarrow>
               (g\<lparr>gd_ppccs := gd_ppccs g @
                   [\<lparr>pc_name = name, pc_valid = 1, pc_power_limit_min = mn, pc_power_limit_max = mx,
                     pc_time_wind_min = tmn, pc_time_wind_max = tmx, pc_step_size = step,
                     pc_limit_1_valid =
                       (if mx1 \<noteq> 0 \<and> mn1 \<noteq> 0 \<and> tmn1 \<noteq> 0 \<and> tmx1 \<noteq> 0 \<and> step1 \<noteq> 0 then 1 else 0),
                     pc_power_limit_1_min = mn1, pc_power_limit_1_max = mx1, pc_time_wind_1_min = tmn1,
                     pc_time_wind_1_max = tmx1, pc_step_1_size = step1\<rparr>]\<rparr>, Inr 0)))"

section \<open>PSVT\<close>

definition or_default :: "string \<Rightarrow> string option \<Rightarrow> string" where
  "or_default d name = (case name of None \<Rightarrow> d | Some s \<Rightarrow> s)"

definition psv_limit :: "int \<Rightarrow> string \<Rightarrow> int \<Rightarrow> (string \<times> int) result" where
  "psv_limit len buf off =
     bind_r (get_type len buf off) (\<lambda>ty.
       if ty = 8 then get_string_obj len buf off
       else bind_r (get_uint64 len buf off) (\<lambda>(tmp, off). Inr (show_nat (unat tmp), off)))"

definition psvt_entry :: "int \<Rightarrow> string \<Rightarrow> int \<Rightarrow> (psv \<times> int) result" where
  "psvt_entry len buf off =
     bind_r (get_string_obj len buf off) (\<lambda>(source, off).
     bind_r (get_string_obj len buf off) (\<lambda>(target, off).
     bind_r (get_uint64 len buf off) (\<lambda>(prio, off).
     bind_r (get_uint64 len buf off) (\<lambda>(period, off).
     bind_r (get_uint64 len buf off) (\<lambda>(temp, off).
     bind_r (get_uint64 len buf off) (\<lambda>(dom, off).
     bind_r (get_uint64 len buf off) (\<lambda>(knob, off).
     bind_r (psv_limit len buf off) (\<lambda>(limit, off).
     bind_r (get_uint64 len buf off) (\<lambda>(step, off).
     bind_r (get_uint64 len buf off) (\<lambda>(lc, off).
     bind_r (get_uint64 len buf off) (\<lambda>(uc, off).
       Inr (\<lparr>ps_name = [], ps_source = source, ps_target = target, ps_priority = to_int prio,
             ps_sample_period = to_int period, ps_temp = to_int temp, ps_domain = to_int dom,
             ps_control_knob = to_int knob, ps_limit = limit, ps_step_size = to_int step,
             ps_limit_coeff = to_int lc, ps_unlimit_coeff = to_int uc\<rparr>, skip12 off))))))))))))"

definition parse_psvt :: "string option \<Rightarrow> string \<Rightarrow> int \<Rightarrow> gddv \<Rightarrow> gddv \<times> int result" where
  "parse_psvt name buf len g0 =
     (let g = cur_len len g0
      in case get_uint64 len buf 0 of Inl f \<Rightarrow> (g, Inl f)
         | Inr (version, off) \<Rightarrow>
             (if 2 < to_int version then (g, Inl Gddv_exception)
              else case table_loop (table_fuel len) (psvt_entry len buf) len off of
                (xs, Inl f) \<Rightarrow> (g, Inl f)
              | (xs, Inr _) \<Rightarrow>
                  (g\<lparr>gd_psvts := gd_psvts g @ [\<lparr>pv_name = or_default ''Default'' name, pv_psvs = xs\<rparr>]\<rparr>, Inr 0)))"

definition find_def_psvt :: "gddv \<Rightarrow> psvt option" where
  "find_def_psvt g =
     (case List.find (\<lambda>p. pv_name p = ''generic_os'') (gd_psvts g) of Some p \<Rightarrow> Some p
      | None \<Rightarrow> List.find (\<lambda>p. pv_name p = ''IETM.D0'') (gd_psvts g))"

section \<open>ITMT\<close>

definition sizeof_itmt3_header :: int where "sizeof_itmt3_header = 12"
definition sizeof_itmt3 :: int where "sizeof_itmt3 = 296"

definition itmt3_entry :: "string \<Rightarrow> int \<Rightarrow> itmt_entry result" where
  "itmt3_entry buf off =
     bind_r (c_string buf off) (\<lambda>target.
     bind_r (load_int buf (off + 64)) (\<lambda>temp.
     bind_r (c_string buf (off + 80)) (\<lambda>mn.
     bind_r (c_string buf (off + 144)) (\<lambda>mx.
       Inr \<lparr>ie_target = target, ie_trip_point = temp, ie_pl1_min = mn, ie_pl1_max = mx, ie_unused = []\<rparr>))))"

text \<open>\<open>Inr None\<close> is the return of \<^verbatim>\<open>THD_ERROR\<close> at a partial entry. \<open>off\<close> and \<open>len\<close> are
  unsigned.\<close>

function itmt3_loop :: "string \<Rightarrow> int \<Rightarrow> int \<Rightarrow> itmt_entry list option result" where
  "itmt3_loop buf len off =
     (if \<not> off < len then Inr (Some [])
      else if len - off < sizeof_itmt3 then Inr None
      else bind_r (itmt3_entry buf off) (\<lambda>x.
           bind_r (itmt3_loop buf len (off + sizeof_itmt3)) (\<lambda>xs. Inr (map_option (Cons x) xs))))"
  by pat_completeness auto
termination by (relation "measure (\<lambda>(buf, len, off). nat (len - off))") (auto simp: sizeof_itmt3_def)

declare itmt3_loop.simps [simp del]

definition parse_itmt3 :: "string option \<Rightarrow> string \<Rightarrow> int \<Rightarrow> gddv \<Rightarrow> gddv \<times> int result" where
  "parse_itmt3 name buf len0 g0 =
     (let g = cur_len len0 g0; len = u32_of len0
      in if len < sizeof_itmt3_header then (g, Inr THD_ERROR)
         else if len - sizeof_itmt3_header < sizeof_itmt3 then (g, Inr THD_ERROR)
         else case itmt3_loop buf len sizeof_itmt3_header of Inl f \<Rightarrow> (g, Inl f)
         | Inr None \<Rightarrow> (g, Inr THD_ERROR)
         | Inr (Some xs) \<Rightarrow>
             (g\<lparr>gd_itmts := gd_itmts g @
                 [\<lparr>im_version = 3, im_name = or_default ''Default'' name, im_entries = xs\<rparr>]\<rparr>, Inr 0))"

text \<open>Versions 1 and 2; the latter has four more values per entry, which are dropped.\<close>

definition itmt_entry_tail :: "int \<Rightarrow> string \<Rightarrow> int \<Rightarrow> itmt_entry \<Rightarrow> int \<Rightarrow> (itmt_entry \<times> int) result" where
  "itmt_entry_tail len buf version x off =
     (if version = 2
      then bind_r (get_uint64 len buf off) (\<lambda>(_, off).
           bind_r (get_string_obj len buf off) (\<lambda>(_, off).
           bind_r (get_uint64 len buf off) (\<lambda>(_, off).
           bind_r (get_uint64 len buf off) (\<lambda>(_, off). Inr (x, off)))))
      else Inr (x, skip12 off))"

definition itmt_table_entry :: "int \<Rightarrow> string \<Rightarrow> int \<Rightarrow> int \<Rightarrow> (itmt_entry \<times> int) result" where
  "itmt_table_entry len buf version off =
     bind_r (get_string_obj len buf off) (\<lambda>(target, off).
     bind_r (get_uint64 len buf off) (\<lambda>(trip, off).
     bind_r (get_string_obj len buf off) (\<lambda>(mn, off).
     bind_r (get_string_obj len buf off) (\<lambda>(mx, off).
     bind_r (get_string_obj len buf off) (\<lambda>(unused, off).
       itmt_entry_tail len buf version
         \<lparr>ie_target = target, ie_trip_point = to_int trip, ie_pl1_min = mn, ie_pl1_max = mx, ie_unused = unused\<rparr> off)))))"

definition parse_itmt :: "string option \<Rightarrow> string \<Rightarrow> int \<Rightarrow> gddv \<Rightarrow> gddv \<times> int result" where
  "parse_itmt name buf len g0 =
     (let g = cur_len len g0
      in case get_uint64 len buf 0 of Inl f \<Rightarrow> (g, Inl f)
         | Inr (version, off) \<Rightarrow>
             (if 2 < to_int version then (g, Inr THD_ERROR)
              else case table_loop (table_fuel len) (itmt_table_entry len buf (to_int version)) len off of
                (xs, Inl f) \<Rightarrow> (g, Inl f)
              | (xs, Inr _) \<Rightarrow>
                  (g\<lparr>gd_itmts := gd_itmts g @
                      [\<lparr>im_version = 1, im_name = or_default ''Default'' name, im_entries = xs\<rparr>]\<rparr>, Inr 0)))"

section \<open>Virtual sensors: VSPT and VSCT\<close>

definition vspt_entry_at :: "int \<Rightarrow> string \<Rightarrow> int \<Rightarrow> (vspt_entry \<times> int) result" where
  "vspt_entry_at len buf off =
     bind_r (get_uint64 len buf off) (\<lambda>(temp, off).
     bind_r (get_uint64 len buf off) (\<lambda>(period, off).
       Inr (\<lparr>vp_virtual_temp = DECI_KELVIN_TO_CELSIUS (to_int temp), vp_sample_period = to_int (period div 10)\<rparr>, off)))"

definition parse_vspt :: "string \<Rightarrow> int \<Rightarrow> gddv \<Rightarrow> gddv \<times> int result" where
  "parse_vspt buf len g0 =
     (let g = cur_len len g0
      in case get_uint64 len buf 0 of Inl f \<Rightarrow> (g, Inl f)
         | Inr (version, off) \<Rightarrow>
             (if 1 < to_int version then (g, Inr THD_ERROR)
              else case table_loop (table_fuel len) (vspt_entry_at len buf) len off of (xs, r) \<Rightarrow>
                (g\<lparr>gd_vspts := gd_vspts g @ xs\<rparr>, bind_r r (\<lambda>_. Inr THD_SUCCESS))))"

definition vsct_entry_at :: "int \<Rightarrow> string \<Rightarrow> int \<Rightarrow> (vsct_entry \<times> int) result" where
  "vsct_entry_at len buf off =
     bind_r (get_string_obj len buf off) (\<lambda>(target, off).
     bind_r (get_uint64 len buf off) (\<lambda>(dom, off).
     bind_r (get_uint64 len buf off) (\<lambda>(ct, off).
     bind_r (get_uint64 len buf off) (\<lambda>(coeff, off).
     bind_r (get_uint64 len buf off) (\<lambda>(op, off).
     bind_r (get_uint64 len buf off) (\<lambda>(alpha, off).
     bind_r (get_uint64 len buf off) (\<lambda>(trig, off).
       Inr (\<lparr>vc_target = target, vc_domain_type = to_int dom, vc_coeff_type = to_int ct, vc_coeff = to_int coeff,
             vc_operation = to_int op, vc_alpha = to_int alpha, vc_trigger_point = to_int trig\<rparr>, off))))))))"

definition parse_vsct :: "string option \<Rightarrow> string \<Rightarrow> int \<Rightarrow> gddv \<Rightarrow> gddv \<times> int result" where
  "parse_vsct name buf len g0 =
     (let g = cur_len len (g0\<lparr>gd_vscts_name := or_default ''vsct'' name\<rparr>)
      in case get_uint64 len buf 0 of Inl f \<Rightarrow> (g, Inl f)
         | Inr (version, off) \<Rightarrow>
             (if 1 < to_int version then (g, Inr THD_ERROR)
              else case table_loop (table_fuel len) (vsct_entry_at len buf) len off of (xs, r) \<Rightarrow>
                (g\<lparr>gd_vscts := gd_vscts g @ xs\<rparr>, bind_r r (\<lambda>_. Inr THD_SUCCESS))))"

section \<open>IDSP\<close>

definition hex_digit :: "nat \<Rightarrow> char" where
  "hex_digit d = (if d < 10 then char_of (48 + d) else char_of (87 + d))"

definition hex2 :: "nat \<Rightarrow> string" where
  "hex2 b = [hex_digit (b div 16), hex_digit (b mod 16)]"

definition guid_string :: "string \<Rightarrow> string" where
  "guid_string s =
     (let h = (\<lambda>is. concat (map (\<lambda>i. hex2 (of_char (s ! i))) is))
      in h [3, 2, 1, 0] @ ''-'' @ h [5, 4] @ ''-'' @ h [7, 6] @ ''-'' @ h [8, 9] @ ''-'' @ h [10, 11, 12, 13, 14, 15]
         @ [CHR 0x0A])"

text \<open>What the loop pushes, and whether it has read outside of the buffer. The pointer \<^verbatim>\<open>str\<close> is
  always \<open>start + i\<close>.\<close>

function idsp_loop :: "string \<Rightarrow> int \<Rightarrow> int \<Rightarrow> string list \<times> unit result" where
  "idsp_loop buf tot i =
     (if \<not> i < tot \<or> tot - i < 28 then ([], Inr ())
      else case load 1 buf i of Inl f \<Rightarrow> ([], Inl f)
      | Inr b \<Rightarrow>
          (if b \<noteq> 7 then ([], Inr ())
           else case load 4 buf (i + 4) of Inl f \<Rightarrow> ([], Inl f)
           | Inr v \<Rightarrow>
               (if s32 (int v) < 16 \<or> tot - (i + 4) - 8 < s32 (int v) then ([], Inr ())
                else case load 16 buf (i + 12) of Inl f \<Rightarrow> ([], Inl f)
                | Inr _ \<Rightarrow>
                    (case idsp_loop buf tot (i + 12 + s32 (int v)) of (xs, r) \<Rightarrow>
                       (map toupper (guid_string (take 16 (drop (nat (i + 12)) buf))) # xs, r)))))"
  by pat_completeness auto
termination by (relation "measure (\<lambda>(buf, tot, i). nat (tot - i))") auto

declare idsp_loop.simps [simp del]

definition parse_idsp :: "string \<Rightarrow> int \<Rightarrow> gddv \<Rightarrow> gddv \<times> int result" where
  "parse_idsp buf len g =
     (if len < 0 then (g, Inr 0)
      else case idsp_loop buf len 0 of (xs, r) \<Rightarrow>
        (g\<lparr>gd_idsps := gd_idsps g @ xs\<rparr>, bind_r r (\<lambda>_. Inr 0)))"

definition search_idsp :: "string \<Rightarrow> gddv \<Rightarrow> int" where
  "search_idsp name g = (if \<exists>s \<in> set (gd_idsps g). take 36 s = name then THD_SUCCESS else THD_ERROR)"

section \<open>Trip points and TRT\<close>

definition trip_type_of :: "string \<Rightarrow> trip_point_type" where
  "trip_type_of s =
     (if take 2 s = ''_c'' then CRITICAL else if take 2 s = ''_p'' then PASSIVE
      else if take 2 s = ''_h'' then HOT else if take 2 s = ''_a'' then ACTIVE else INVALID_TRIP_TYPE)"

definition parse_trip_point :: "string \<Rightarrow> string \<Rightarrow> string \<Rightarrow> int \<Rightarrow> gddv \<Rightarrow> gddv \<times> int result" where
  "parse_trip_point name ty buf len g =
     (if len < 4 then (g, Inr 0)
      else case load 4 buf 0 of Inl f \<Rightarrow> (g, Inl f)
      | Inr v \<Rightarrow>
          (g\<lparr>gd_trippoints := gd_trippoints g @
              [\<lparr>gt_name = name, gt_type_str = ty, gt_type = trip_type_of ty,
                gt_temp = DECI_KELVIN_TO_CELSIUS (s32 (int v))\<rparr>]\<rparr>, Inr 0))"

definition get_trip_temp :: "string \<Rightarrow> trip_point_type \<Rightarrow> gddv \<Rightarrow> int" where
  "get_trip_temp name ty g =
     (case List.find (\<lambda>t. gt_name t = name @ ''.D0'' \<and> gt_type t = ty) (gd_trippoints g) of
        None \<Rightarrow> THD_ERROR | Some t \<Rightarrow> gt_temp t)"

text \<open>The entries of a TRT are read and reported only.\<close>

definition trt_entry_at :: "int \<Rightarrow> string \<Rightarrow> int \<Rightarrow> (unit \<times> int) result" where
  "trt_entry_at len buf off =
     bind_r (get_string_obj len buf off) (\<lambda>(_, off).
     bind_r (get_string_obj len buf off) (\<lambda>(_, off).
     bind_r (get_uint64 len buf off) (\<lambda>(_, off).
     bind_r (get_uint64 len buf off) (\<lambda>(_, off).
     bind_r (get_uint64 len buf off) (\<lambda>(_, off).
     bind_r (get_uint64 len buf off) (\<lambda>(_, off).
     bind_r (get_uint64 len buf off) (\<lambda>(_, off).
     bind_r (get_uint64 len buf off) (\<lambda>(_, off). Inr ((), off)))))))))"

definition parse_trt :: "string \<Rightarrow> int \<Rightarrow> gddv \<Rightarrow> gddv \<times> int result" where
  "parse_trt buf len g =
     (case table_loop (table_fuel len) (trt_entry_at len buf) len 0 of (_, r) \<Rightarrow>
        (cur_len len g, bind_r r (\<lambda>_. Inr THD_SUCCESS)))"

end
