(* ===== verification/Thd_GddvVault.thy ===== *)
theory Thd_GddvVault
  imports Thd_Gddv
begin

text \<open>
  The data vault as a whole (\<^verbatim>\<open>thd_gddv.cpp\<close>, \<^verbatim>\<open>thd_lzma_dec.cpp\<close>): keys and their values,
  repositories with nested and compressed ones, finding and loading the vault, and the start of
  \<^verbatim>\<open>cthd_gddv\<close>. The LZMA decoder is an argument. Fuel bounds the number of items and nested
  repositories, because the code has no bound of its own on either.
\<close>

section \<open>Keys\<close>

text \<open>The tokens \<^verbatim>\<open>strtok\<close> yields one after the other with separator \<^verbatim>\<open>/\<close>; \<open>cur\<close> is the token
  being collected.\<close>

fun strtok_from :: "string \<Rightarrow> string \<Rightarrow> string list" where
  "strtok_from cur [] = (if cur = [] then [] else [cur])"
| "strtok_from cur (c # cs) =
     (if c = CHR ''/'' then (if cur = [] then strtok_from [] cs else cur # strtok_from [] cs)
      else strtok_from (cur @ [c]) cs)"

definition strtok_all :: "string \<Rightarrow> string list" where
  "strtok_all key = strtok_from [] (takeWhile (\<lambda>c. c \<noteq> CHR 0x00) key)"

definition tok :: "nat \<Rightarrow> string list \<Rightarrow> string option" where
  "tok i ts = (if i < length ts then Some (ts ! i) else None)"

record key_parts =
  kp_name :: "string option"
  kp_type :: "string option"
  kp_point :: "string option"

text \<open>\<open>None\<close> for a key without tokens, which is ignored.\<close>

definition split_key :: "string \<Rightarrow> key_parts option" where
  "split_key key =
     (case strtok_all key of [] \<Rightarrow> None
      | str # ts \<Rightarrow> Some
          (if thd_strcmp_n (Some str) (Some ''participants'') = 0
           then \<lparr>kp_name = tok 0 ts, kp_type = tok 1 ts, kp_point = tok 2 ts\<rparr>
           else if thd_strcmp_n (Some str) (Some ''shared'') = 0
           then \<lparr>kp_name = None, kp_type = tok 1 ts,
                 kp_point = (if thd_strcmp_n (tok 0 ts) (Some ''tables'') = 0 then tok 2 ts else None)\<rparr>
           else \<lparr>kp_name = None, kp_type = None, kp_point = None\<rparr>))"

type_synonym parser = "gddv \<Rightarrow> gddv \<times> int result"

definition is_type :: "key_parts \<Rightarrow> string \<Rightarrow> bool" where
  "is_type k ty \<longleftrightarrow> kp_type k \<noteq> None \<and> thd_strcmp_n (kp_type k) (Some ty) = 0"

definition is_itmt3 :: "key_parts \<Rightarrow> bool" where
  "is_itmt3 k \<longleftrightarrow> (case kp_type k of None \<Rightarrow> False | Some ty \<Rightarrow> strncmp 5 ty ''itmt3'' = 0)"

definition table_name :: "key_parts \<Rightarrow> string option" where
  "table_name k = (if kp_point k = None then kp_name k else kp_point k)"

text \<open>The tests of the key in the order of the source; the results of the parsers are not looked
  at, an exception ends the sequence.\<close>

fun run_parsers :: "(bool \<times> parser) list \<Rightarrow> gddv \<Rightarrow> gddv \<times> int result" where
  "run_parsers [] g = (g, Inr THD_SUCCESS)"
| "run_parsers ((b, f) # ps) g =
     (if b then (case f g of (g', Inl e) \<Rightarrow> (g', Inl e) | (g', Inr _) \<Rightarrow> run_parsers ps g') else run_parsers ps g)"

definition key_parsers :: "key_parts \<Rightarrow> string \<Rightarrow> int \<Rightarrow> (bool \<times> parser) list" where
  "key_parsers k val len =
     [(kp_name k \<noteq> None \<and> is_type k ''ppcc'', parse_ppcc (or_empty (kp_name k)) val len),
      (is_type k ''psvt'', parse_psvt (table_name k) val len),
      (is_type k ''appc'', parse_appc val len),
      (is_type k ''apct'', parse_apct val len),
      (is_type k ''apat'', parse_apat val len),
      (is_itmt3 k, parse_itmt3 (table_name k) val len),
      (is_type k ''itmt'', parse_itmt (table_name k) val len),
      (kp_name k \<noteq> None \<and> is_type k ''idsp'', parse_idsp val len),
      (kp_name k \<noteq> None \<and> kp_point k \<noteq> None \<and> is_type k ''trippoint'',
         parse_trip_point (or_empty (kp_name k)) (or_empty (kp_point k)) val len),
      (is_type k ''_trt'', parse_trt val len),
      (is_type k ''vsct'', parse_vsct (table_name k) val len),
      (is_type k ''vspt'', parse_vspt val len)]"

text \<open>What follows the reading of a key and its value; the value has been copied with a NUL after it.\<close>

definition dispatch_key :: "string \<Rightarrow> string \<Rightarrow> gddv \<Rightarrow> gddv \<times> int result" where
  "dispatch_key key val g =
     (case split_key key of None \<Rightarrow> (g, Inr THD_SUCCESS)
      | Some k \<Rightarrow> run_parsers (key_parsers k (val @ [CHR 0x00]) (int (length val))) g)"

definition load_bytes :: "nat \<Rightarrow> string \<Rightarrow> int \<Rightarrow> string result" where
  "load_bytes n buf off =
     (if off < 0 \<or> int (length buf) < off + int n then Inl Out_of_bounds else Inr (take n (drop (nat off) buf)))"

text \<open>A length and that many bytes: \<open>zero_ok\<close> tells the length of a value from that of a key.\<close>

definition counted_bytes :: "bool \<Rightarrow> string \<Rightarrow> int \<Rightarrow> int \<Rightarrow> (string \<times> int) result" where
  "counted_bytes zero_ok buf sz off =
     bind_r (load 4 buf off) (\<lambda>n.
       (let off1 = off + 4
        in if \<not> zero_ok \<and> n = 0 \<or> INT_MAX \<le> int n \<or> sz < s32 (off1 + int n) then Inl Gddv_exception
           else bind_r (load_bytes n buf off1) (\<lambda>s. Inr (s, s32 (off1 + int n)))))"

definition key_and_value :: "string \<Rightarrow> int \<Rightarrow> (string \<times> string \<times> int) result" where
  "key_and_value buf sz =
     (if sz < 0 \<or> sz < 8 then Inl Gddv_exception
      else bind_r (load 4 buf 0) (\<lambda>_.
           bind_r (counted_bytes False buf sz 4) (\<lambda>(key, off).
             if sz < s32 (off + 8) then Inl Gddv_exception
             else bind_r (load 4 buf off) (\<lambda>_.
                  bind_r (counted_bytes True buf sz (off + 4)) (\<lambda>(val, off').
                    Inr (key, val, off'))))))"

text \<open>The status comes with the value of \<^verbatim>\<open>*end_offset\<close>.\<close>

definition parse_gddv_key :: "string \<Rightarrow> int \<Rightarrow> gddv \<Rightarrow> gddv \<times> (int \<times> int) result" where
  "parse_gddv_key buf sz g =
     (case key_and_value buf sz of Inl f \<Rightarrow> (g, Inl f)
      | Inr (key, val, off) \<Rightarrow>
          (case dispatch_key key val g of (g', r) \<Rightarrow> (g', bind_r r (\<lambda>s. Inr (s, off)))))"

section \<open>Compressed payloads\<close>

fun le_bytes :: "nat \<Rightarrow> nat \<Rightarrow> string" where
  "le_bytes 0 v = []"
| "le_bytes (Suc n) v = char_of (v mod 256) # le_bytes n (v div 256)"

definition sizeof_LzmaHeader :: nat where "sizeof_LzmaHeader = 13"

text \<open>\<^verbatim>\<open>LzmaDecode\<close>: from the properties, the room in the destination and the source, the status
  and what was written.\<close>

type_synonym lzma_decoder = "string \<Rightarrow> nat \<Rightarrow> string \<Rightarrow> int \<times> string"

definition original_size :: "string \<Rightarrow> nat" where
  "original_size src = le_nat (take 8 (drop 5 src))"

text \<open>The first form of \<^verbatim>\<open>lzma_decompress\<close>, without a destination: the size needed.\<close>

definition lzma_size :: "string \<Rightarrow> nat option" where
  "lzma_size src =
     (if sizeof_LzmaHeader < length src \<and> take 2 src = [CHR 0x5D, CHR 0x00]
         \<and> 0 < original_size src \<and> original_size src \<noteq> 2 ^ 64 - 1
      then Some (original_size src) else None)"

definition LZMA_MAX_COMPRESSED_SIZE :: nat where
  "LZMA_MAX_COMPRESSED_SIZE = (2 ^ 64 - 1) div 2 - 1"

definition lzma_decompress :: "lzma_decoder \<Rightarrow> nat \<Rightarrow> string \<Rightarrow> string option" where
  "lzma_decompress dec destlen src =
     (if sizeof_LzmaHeader < length src
      then (case dec (take sizeof_LzmaHeader src) destlen (drop sizeof_LzmaHeader src) of (rc, out) \<Rightarrow>
              if rc = 0 \<and> original_size src \<le> length out \<and> length out \<le> LZMA_MAX_COMPRESSED_SIZE
              then Some out else None)
      else None)"

definition ESIF_SERVICE_CONFIG_COMPRESSED :: nat where "ESIF_SERVICE_CONFIG_COMPRESSED = 0x40000000"
definition ESIFDV_HEADER_SIGNATURE :: nat where "ESIFDV_HEADER_SIGNATURE = 0x1FE5"
definition ESIFDV_ITEM_KEYS_REV0_SIGNATURE :: nat where "ESIFDV_ITEM_KEYS_REV0_SIGNATURE = 0xA0D8"
definition sizeof_header :: nat where "sizeof_header = 148"

definition store :: "nat \<Rightarrow> nat \<Rightarrow> nat \<Rightarrow> string \<Rightarrow> string" where
  "store n v off buf = take off buf @ le_bytes n v @ drop (off + n) buf"

text \<open>The repository with its payload decompressed: the header is copied, the compression flag
  cleared and the payload size set. \<open>alloc\<close> is the size of the allocation, a 64 bit sum.\<close>

definition clear_compressed :: "nat \<Rightarrow> nat" where
  "clear_compressed flags = unat (and (word_of_nat flags :: u32) (not (word_of_nat ESIF_SERVICE_CONFIG_COMPRESSED)))"

definition is_compressed :: "nat \<Rightarrow> bool" where
  "is_compressed flags \<longleftrightarrow> and (word_of_nat flags :: u32) (word_of_nat ESIF_SERVICE_CONFIG_COMPRESSED) \<noteq> 0"

definition decompressed :: "nat \<Rightarrow> string \<Rightarrow> nat \<Rightarrow> string \<Rightarrow> string result" where
  "decompressed alloc buf hs out =
     (if alloc < hs + length out \<or> alloc < 144 then Inl Out_of_bounds
      else bind_r (load_bytes hs buf 0) (\<lambda>hdr.
        (let d = hdr @ out
         in Inr (store 4 (length out mod 2 ^ 32) 140 (store 4 (clear_compressed (le_nat (take 4 (drop 8 d)))) 8 d)))))"

text \<open>\<open>Inr None\<close> when \<^verbatim>\<open>handle_compressed_gddv\<close> returns an error before it parses.\<close>

definition uncompress_gddv :: "lzma_decoder \<Rightarrow> string \<Rightarrow> int \<Rightarrow> string option result" where
  "uncompress_gddv dec buf sz =
     (if sz \<le> int sizeof_header then Inr None
      else bind_r (load 2 buf 2) (\<lambda>hs.
        if sz < int hs then Inr None
        else bind_r (load_bytes (nat sz - hs) buf (int hs)) (\<lambda>src.
          (case lzma_size src of None \<Rightarrow> Inr None
           | Some destlen \<Rightarrow>
               (case lzma_decompress dec destlen src of None \<Rightarrow> Inr None
                | Some out \<Rightarrow> bind_r (decompressed ((hs + destlen) mod 2 ^ 64) buf hs out) (\<lambda>d. Inr (Some d)))))))"

section \<open>Repositories\<close>

record header =
  hd_signature :: nat
  hd_headersize :: nat
  hd_version :: nat
  hd_flags :: nat

definition load_header :: "string \<Rightarrow> header result" where
  "load_header buf =
     bind_r (load 2 buf 0) (\<lambda>sig.
     bind_r (load 2 buf 2) (\<lambda>hs.
     bind_r (load 4 buf 4) (\<lambda>ver.
     bind_r (load 4 buf 8) (\<lambda>flags.
       Inr \<lparr>hd_signature = sig, hd_headersize = hs, hd_version = ver, hd_flags = flags\<rparr>))))"

definition ESIFHDR_GET_MAJOR :: "nat \<Rightarrow> nat" where
  "ESIFHDR_GET_MAJOR v = (v div 2 ^ 24) mod 256"

text \<open>The result is the status and the value \<^verbatim>\<open>*end_offset\<close> has afterwards, which the callers
  initialise to 0 and only a complete pass sets.\<close>

fun parse_gddv :: "lzma_decoder \<Rightarrow> nat \<Rightarrow> string \<Rightarrow> int \<Rightarrow> gddv \<Rightarrow> gddv \<times> (int \<times> int) result"
and gddv_items :: "lzma_decoder \<Rightarrow> nat \<Rightarrow> nat \<Rightarrow> int \<Rightarrow> string \<Rightarrow> int \<Rightarrow> int \<Rightarrow> gddv \<Rightarrow> gddv \<times> (int \<times> int) result" where
  "parse_gddv dec 0 buf sz g = (g, Inl Out_of_fuel)"
| "parse_gddv dec (Suc n) buf sz g =
     (if sz < int sizeof_header then (g, Inr (THD_ERROR, 0))
      else case load_header buf of Inl f \<Rightarrow> (g, Inl f)
      | Inr h \<Rightarrow>
          (if hd_signature h \<noteq> ESIFDV_HEADER_SIGNATURE then (g, Inl Gddv_exception)
           else if ESIFHDR_GET_MAJOR (hd_version h) \<notin> {1, 2} then (g, Inr (THD_ERROR, 0))
           else if ESIFHDR_GET_MAJOR (hd_version h) = 2 \<and> is_compressed (hd_flags h)
           then (case uncompress_gddv dec buf sz of Inl f \<Rightarrow> (g, Inl f)
                 | Inr None \<Rightarrow> (g, Inr (THD_ERROR, 0))
                 | Inr (Some d) \<Rightarrow>
                     (case parse_gddv dec n d (s32 (int (length d))) g of (g', r) \<Rightarrow>
                        (g', bind_r r (\<lambda>(res, _). Inr (res, 0)))))
           else gddv_items dec n (ESIFHDR_GET_MAJOR (hd_version h)) (int (hd_headersize h)) buf sz
                  (int (hd_headersize h)) g))"
| "gddv_items dec 0 major hs buf sz off g =
     (if off + hs < sz then (g, Inl Out_of_fuel) else (g, Inr (0, off)))"
| "gddv_items dec (Suc n) major hs buf sz off g =
     (if \<not> off + hs < sz then (g, Inr (0, off))
      else if major = 2
      then (case load 2 buf off of Inl f \<Rightarrow> (g, Inl f)
            | Inr sig \<Rightarrow>
                (if sig = ESIFDV_ITEM_KEYS_REV0_SIGNATURE
                 then (case parse_gddv_key (drop (nat (off + 2)) buf) (sz - (off + 2)) g of
                         (g', Inl f) \<Rightarrow> (g', Inl f)
                       | (g', Inr (res, end)) \<Rightarrow>
                           (if res \<noteq> THD_SUCCESS then (g', Inr (res, 0))
                            else gddv_items dec n major hs buf sz (s32 (off + 2 + end)) g'))
                 else if sig = ESIFDV_HEADER_SIGNATURE
                 then (case parse_gddv dec n (drop (nat off) buf) (sz - off) g of
                         (g', Inl f) \<Rightarrow> (g', Inl f)
                       | (g', Inr (res, end)) \<Rightarrow>
                           (if res \<noteq> THD_SUCCESS then (g', Inr (res, 0))
                            else gddv_items dec n major hs buf sz (s32 (off + end)) g'))
                 else (g, Inr (THD_ERROR, 0))))
      else (case parse_gddv_key (drop (nat off) buf) (sz - off) g of
              (g', Inl f) \<Rightarrow> (g', Inl f)
            | (g', Inr (res, end)) \<Rightarrow>
                (if res \<noteq> THD_SUCCESS then (g', Inr (res, 0))
                 else gddv_items dec n major hs buf sz (s32 (off + end)) g')))"

declare parse_gddv.simps [simp del] gddv_items.simps [simp del]

section \<open>Finding the vault\<close>

text \<open>\<^verbatim>\<open>char\<close> is signed on x86, so the byte is sign extended.\<close>

definition crc_step :: "u32 \<Rightarrow> u32" where
  "crc_step crc = xor (drop_bit 1 crc) (if and crc 1 \<noteq> 0 then 0xedb88320 else 0)"

definition signed_char :: "char \<Rightarrow> u32" where
  "signed_char c = scast (of_char c :: u8)"

definition crc32 :: "string \<Rightarrow> u32" where
  "crc32 p = fold (\<lambda>c crc. (crc_step ^^ 8) (xor crc (signed_char c))) p 0"

text \<open>\<^verbatim>\<open>getline\<close>: fails on a file that cannot be read or is empty.\<close>

definition getline :: "'a env_scheme \<Rightarrow> string \<Rightarrow> string option" where
  "getline e p =
     (case e_files e p of Some (Text (c # cs)) \<Rightarrow> Some (takeWhile (\<lambda>c. c \<noteq> CHR 0x0A) (c # cs)) | _ \<Rightarrow> None)"

definition format_dv_filename :: "'a env_scheme \<Rightarrow> string option" where
  "format_dv_filename e =
     (case (getline e ''/sys/class/dmi/id/sys_vendor'', getline e ''/sys/class/dmi/id/product_name'',
            getline e ''/sys/class/dmi/id/product_family'', getline e ''/sys/class/dmi/id/product_sku'') of
        (Some vendor, Some name, Some family, Some sku) \<Rightarrow>
          Some (''/lib/firmware/intel/dtt/dtt_data_vault_'' @ show_nat (unat (crc32 vendor)) @ ''_''
                @ show_nat (unat (crc32 family)) @ ''_'' @ show_nat (unat (crc32 name)) @ ''_''
                @ show_nat (unat (crc32 sku)) @ ''.bin'')
      | _ \<Rightarrow> None)"

text \<open>What \<^verbatim>\<open>stat\<close> tells of a file, and what the start of the class finds around it: the feature
  that allows files, the input devices (whether they have a tablet switch and a lid switch), the
  power service and the active profile (\<open>None\<close> without a bus or daemon, \<open>Some None\<close> when the
  property is not a string).\<close>

record file_stat =
  fs_size :: nat
  fs_uid :: nat
  fs_mode :: u32

record vault_host =
  vh_stat :: "string \<Rightarrow> file_stat option"
  vh_data_vault_fs :: bool
  vh_inputs :: "(bool \<times> bool) list"
  vh_upower :: bool
  vh_profile :: "string option option"
  vh_decoder :: lzma_decoder

definition MAX_GDDV_FILE_SIZE :: nat where "MAX_GDDV_FILE_SIZE = 4 * 1024"

definition sysfs_size :: "vault_host \<Rightarrow> string \<Rightarrow> nat" where
  "sysfs_size v p = (case vh_stat v p of None \<Rightarrow> 0 | Some s \<Rightarrow> fs_size s)"

text \<open>\<^verbatim>\<open>csys_fs::read(path, buf, len)\<close>: all of the bytes or an error.\<close>

definition sysfs_read_buf :: "'a env_scheme \<Rightarrow> string \<Rightarrow> nat \<Rightarrow> string option" where
  "sysfs_read_buf e p n =
     (if e_link e p then None
      else case e_files e p of Some (Text t) \<Rightarrow> (if n \<le> length t then Some (take n t) else None)
      | Some NoRead \<Rightarrow> (if n = 0 then Some [] else None) | None \<Rightarrow> None)"

definition others_may_write :: "u32 \<Rightarrow> bool" where
  "others_may_write mode \<longleftrightarrow> and mode 18 \<noteq> 0"

definition gddv_load :: "vault_host \<Rightarrow> 'a env_scheme \<Rightarrow> string option" where
  "gddv_load v e =
     (if \<not> vh_data_vault_fs v then None
      else case format_dv_filename e of None \<Rightarrow> None
      | Some p \<Rightarrow>
          (case vh_stat v p of None \<Rightarrow> None
           | Some s \<Rightarrow>
               (if fs_uid s \<noteq> 0 then None
                else if others_may_write (fs_mode s) then None
                else if sysfs_size v p = 0 then None
                else sysfs_read_buf e p (min (sysfs_size v p) MAX_GDDV_FILE_SIZE))))"

section \<open>The start\<close>

definition setup_input_devices :: "(bool \<times> bool) list \<Rightarrow> gddv \<Rightarrow> gddv" where
  "setup_input_devices devs g =
     fold (\<lambda>(tablet, lid) g. g\<lparr>gd_tablet_dev := gd_tablet_dev g \<or> tablet, gd_lid_dev := gd_lid_dev g \<or> lid\<rparr>) devs g"

definition update_power_slider :: "string option \<Rightarrow> gddv \<Rightarrow> gddv" where
  "update_power_slider profile g =
     g\<lparr>gd_power_slider :=
        (case profile of None \<Rightarrow> 75
         | Some p \<Rightarrow>
             (if thd_strcmp_n (Some p) (Some ''power-saver'') = 0 then 25
              else if thd_strcmp_n (Some p) (Some ''balanced'') = 0 then 75
              else if thd_strcmp_n (Some p) (Some ''performance'') = 0 then 100 else 75))\<rparr>"

definition connect_services :: "vault_host \<Rightarrow> gddv \<Rightarrow> gddv" where
  "connect_services v g =
     (let g1 = (setup_input_devices (vh_inputs v) g)\<lparr>gd_upower_client := vh_upower v\<rparr>
      in case vh_profile v of None \<Rightarrow> g1 | Some p \<Rightarrow> update_power_slider p g1)"

text \<open>The part after \<^verbatim>\<open>skip_load\<close>. The exception is caught; other faults are undefined behaviour and
  stay faults.\<close>

definition gddv_parse_all :: "vault_host \<Rightarrow> nat \<Rightarrow> string \<Rightarrow> gddv \<Rightarrow> gddv \<times> int result" where
  "gddv_parse_all v n buf g =
     (case parse_gddv (vh_decoder v) n buf (int (length buf)) g of
        (g', Inl f) \<Rightarrow> (g', if f = Gddv_exception then Inr THD_FATAL_ERROR else Inl f)
      | (g', Inr (res, _)) \<Rightarrow>
          (if res \<noteq> 0 then (g', Inr THD_FATAL_ERROR) else (connect_services v (merge_appc g'), Inr THD_SUCCESS)))"

definition gddv_init :: "vault_host \<Rightarrow> nat \<Rightarrow> 'a env_scheme \<Rightarrow> string \<Rightarrow> gddv \<Rightarrow> gddv \<times> int result" where
  "gddv_init v n e base_path g0 =
     (let g = g0\<lparr>gd_int3400_base_path := base_path\<rparr>
      in case gddv_load v e of Some buf \<Rightarrow> gddv_parse_all v n buf g
         | None \<Rightarrow>
             (case sysfs_read_str e (base_path @ ''firmware_node/path'') (gd_int3400_path g) of (r, path) \<Rightarrow>
                (let g1 = g\<lparr>gd_int3400_path := path\<rparr>; sz = sysfs_size v (base_path @ ''data_vault'')
                 in if r < 0 then (g1, Inr THD_ERROR)
                    else if sz = 0 then (g1, Inr THD_ERROR)
                    else case sysfs_read_buf e (base_path @ ''data_vault'') sz of
                      None \<Rightarrow> (g1, Inr THD_FATAL_ERROR)
                    | Some buf \<Rightarrow> gddv_parse_all v n buf g1)))"

text \<open>\<^verbatim>\<open>gddv_free\<close> and \<^verbatim>\<open>destroy_dynamic_sources\<close>.\<close>

definition gddv_free :: "gddv \<Rightarrow> gddv" where
  "gddv_free g = g\<lparr>gd_upower_client := False, gd_tablet_dev := False, gd_lid_dev := False\<rparr>"

end
