(* ===== verification/Thd_GddvSafe.thy ===== *)
theory Thd_GddvSafe
  imports Thd_GddvVault
begin

text \<open>
  The parsers of the data vault read inside of their buffers and end: every table parser, on the
  copy of a value that \<^verbatim>\<open>parse_gddv_key\<close> makes, returns or throws.
\<close>

section \<open>Entries\<close>

lemma reads_mono: "reads len k off r \<Longrightarrow> k \<le> k' \<Longrightarrow> reads len k' off r"
  by (auto simp: reads_def moved_def split: sum.splits)

lemma reads_return12:
  assumes "reads len k off r" "k \<le> 12"
  shows "reads len 12 off (bind_r r (\<lambda>(x, off'). Inr (g x, off')))"
  by (rule reads_mono [OF reads_return [OF assms(1)] assms(2)])

lemma reads_return_skip12:
  assumes "reads len 0 off r" "table_buf len buf"
  shows "reads len 12 off (bind_r r (\<lambda>(x, off'). Inr (g x, skip12 off')))"
  using reads_return_skip [OF assms] by simp

lemmas return_uint64 = reads_return12 [OF read_uint64]
lemmas return_string_obj = reads_return12 [OF read_string_obj]
lemmas return_skip_uint64 = reads_return_skip12 [OF read_uint64]
lemmas return_skip_string_obj = reads_return_skip12 [OF read_string_obj]

lemma appc_entry_reads:
  assumes "table_buf len buf" "placed len 12 off"
  shows "reads len 12 off (appc_entry len buf off)"
  unfolding appc_entry_def
  by ((rule return_uint64 read_bind_uint64 read_bind_string_obj assms | assumption | simp)+)

lemma apat_entry_reads:
  assumes "table_buf len buf" "placed len 12 off"
  shows "reads len 12 off (apat_entry len buf off)"
  unfolding apat_entry_def
  by ((rule return_string_obj read_bind_uint64 read_bind_string_obj assms | assumption | simp)+)

lemma psv_limit_reads:
  assumes "table_buf len buf" "placed len k off" "k \<le> 24"
  shows "reads len 0 off (psv_limit len buf off)"
  using get_type_ok [OF assms(1) placed_le [OF assms(2,3)]]
proof
  assume "get_type len buf off = Inl Gddv_exception"
  then show ?thesis by (simp add: psv_limit_def reads_def)
next
  assume "\<exists>v. get_type len buf off = Inr v"
  then show ?thesis
    using read_string_obj [OF assms] reads_return [OF read_uint64 [OF assms], of "\<lambda>tmp. show_nat (unat tmp)"]
    by (auto simp: psv_limit_def)
qed

lemma psvt_entry_reads:
  assumes "table_buf len buf" "placed len 12 off"
  shows "reads len 12 off (psvt_entry len buf off)"
  unfolding psvt_entry_def
  by ((rule return_skip_uint64 read_bind_uint64 read_bind_string_obj reads_bind [OF psv_limit_reads] assms
       | assumption | simp)+)

text \<open>A continuation that may also end without reading on.\<close>

lemma reads_bind_or:
  assumes "reads len k off r" "table_buf len buf" "k \<le> k'" "k' \<le> 24"
    and "\<And>x off'. placed len k off' \<Longrightarrow> reads len k' off' (f x off') \<or> (\<exists>y. f x off' = Inr (y, off'))"
  shows "reads len k' off (bind_r r (\<lambda>(x, off'). f x off'))"
proof (cases r)
  case (Inl e)
  then show ?thesis using assms(1) by (simp add: reads_def)
next
  case (Inr y)
  obtain x off' where y: "y = (x, off')" by (cases y)
  have m: "moved len k off off'" using assms(1) by (simp add: reads_def Inr y)
  have p: "placed len k off'" using moved_placed [OF m] assms(2) by (simp add: table_buf_def)
  have "reads len k' off (f x off')" using assms(5) [OF p, of x]
  proof
    assume a: "reads len k' off' (f x off')"
    have "k \<le> 24" using assms(3,4) by simp
    then show ?thesis using a moved_trans [OF m] by (auto simp: reads_def split: sum.splits)
  next
    assume "\<exists>y. f x off' = Inr (y, off')"
    then show ?thesis using m assms(3) by (auto simp: reads_def moved_def)
  qed
  then show ?thesis by (simp add: Inr y)
qed

lemma itmt_entry_tail_reads:
  assumes "table_buf len buf" "reads len 0 off r"
  shows "reads len 12 off (bind_r r (\<lambda>(x, off'). itmt_entry_tail len buf version (h x) off'))"
proof (cases "version = 2")
  case True
  show ?thesis
    unfolding itmt_entry_tail_def if_P [OF True]
    by ((rule reads_bind [OF assms(2)] return_uint64 read_bind_uint64 read_bind_string_obj assms(1) | assumption | simp)+)
next
  case False
  then show ?thesis using reads_return_skip12 [OF assms(2,1), of h] by (simp add: itmt_entry_tail_def)
qed

lemma itmt_table_entry_reads:
  assumes "table_buf len buf" "placed len 12 off"
  shows "reads len 12 off (itmt_table_entry len buf version off)"
  unfolding itmt_table_entry_def
  by ((rule itmt_entry_tail_reads [OF _ read_string_obj] read_bind_uint64 read_bind_string_obj assms | assumption | simp)+)

lemma vspt_entry_reads:
  assumes "table_buf len buf" "placed len 12 off"
  shows "reads len 12 off (vspt_entry_at len buf off)"
  unfolding vspt_entry_at_def
  by ((rule return_uint64 read_bind_uint64 assms | assumption | simp)+)

lemma vsct_entry_reads:
  assumes "table_buf len buf" "placed len 12 off"
  shows "reads len 12 off (vsct_entry_at len buf off)"
  unfolding vsct_entry_at_def
  by ((rule return_uint64 read_bind_uint64 read_bind_string_obj assms | assumption | simp)+)

lemma trt_entry_reads:
  assumes "table_buf len buf" "placed len 12 off"
  shows "reads len 12 off (trt_entry_at len buf off)"
  unfolding trt_entry_at_def
  by ((rule return_uint64 read_bind_uint64 read_bind_string_obj assms | assumption | simp)+)

section \<open>Condition sets\<close>

lemma apct_for_v1_reads:
  assumes "table_buf len buf" "placed len 0 off"
  shows "reads len 12 off (apct_for_v1 len buf i c off)"
  unfolding apct_for_v1_def
  by (rule reads_skip [OF assms], simp,
      (rule return_skip_uint64 read_bind_uint64 placed_skip assms | assumption | simp)+)

lemma apct_for_v2_reads:
  assumes "table_buf len buf" "placed len 0 off"
  shows "reads len 12 off (apct_for_v2 len buf i c off)"
  unfolding apct_for_v2_def
  apply (rule reads_skip [OF assms], simp)
  apply (rule read_bind_string, rule assms, rule placed_skip [OF assms], simp, simp, rule assms, simp)
  apply (rule reads_skip [OF assms(1)], assumption, simp)
  apply (rule read_bind_uint64, rule assms, rule placed_skip [OF assms(1)], assumption)
  by ((rule return_skip_uint64 assms | assumption | simp)+)

lemma apct_operation_reads:
  assumes "table_buf len buf" "placed len 0 off"
    and "\<And>c off. placed len 0 off \<Longrightarrow> reads len 12 off (rest c off)"
  shows "reads len 12 off (bind_r (get_uint64 len buf off) (\<lambda>(op, off).
      (let c1 = c\<lparr>cn_operation := to_enum8 op\<rparr>
       in if cn_operation c1 = FOR_op then rest c1 off else Inr ((c1, i), off))))"
  using assms by (intro reads_bind_or [OF read_uint64]) (auto simp: Let_def)

lemma apct_condition_v1_reads:
  assumes "table_buf len buf" "placed len 12 off"
  shows "reads len 12 off (apct_condition_v1 len buf target i off)"
  unfolding apct_condition_v1_def
  apply (rule read_bind_uint64, rule assms, rule assms, simp, rule assms, simp)
  apply (rule read_bind_uint64, rule assms, assumption, simp, rule assms, simp)
  apply (rule reads_bind_or [OF read_uint64], rule assms, assumption, simp, rule assms, simp, simp)
  subgoal for cond off1 cmp off2 arg off3
    using apct_operation_reads [OF assms(1), of off3 "apct_for_v1 len buf i"] apct_for_v1_reads [OF assms(1)]
    by (cases "i < 9") (simp_all add: Let_def)
  done

lemma apct_condition_v2_reads:
  assumes "table_buf len buf" "placed len 12 off"
  shows "reads len 12 off (apct_condition_v2 len buf cnt target i off)"
  unfolding apct_condition_v2_def
  apply (rule read_bind_uint64, rule assms, rule assms, simp, rule assms, simp)
  apply (rule read_bind_string_obj, rule assms, assumption, simp, rule assms, simp)
  apply (rule reads_skip [OF assms(1)], assumption, simp)
  apply (rule read_bind_uint64, rule assms, rule placed_skip [OF assms(1)], assumption, simp, simp, rule assms, simp)
  apply (rule reads_bind_or [OF read_uint64], rule assms, assumption, simp, rule assms, simp, simp)
  subgoal for cond off1 dev off2 cmp off3 arg off4
    using apct_operation_reads [OF assms(1), of off4 "apct_for_v2 len buf i"] apct_for_v2_reads [OF assms(1)]
    by (cases "i < to_int (cnt - 1)") (simp_all add: Let_def)
  done

lemma apct_condition_v1_place: "apct_condition_v1 len buf target i off = Inr ((c, i'), off') \<Longrightarrow> i \<le> i'"
  by (auto simp: apct_condition_v1_def apct_for_v1_def bind_r_Inr Let_def split: if_splits)

lemma apct_condition_v2_place: "apct_condition_v2 len buf cnt target i off = Inr ((c, i'), off') \<Longrightarrow> i \<le> i'"
  by (auto simp: apct_condition_v2_def apct_for_v2_def bind_r_Inr Let_def split: if_splits)

lemma apct_set_reads:
  assumes "table_buf len buf"
    and rd: "\<And>i off. placed len 12 off \<Longrightarrow> reads len 12 off (rd i off)"
    and place: "\<And>i off c i' off'. rd i off = Inr ((c, i'), off') \<Longrightarrow> i \<le> i'"
    and "placed len 12 off" "places - i \<le> int n"
  shows "reads len 12 off (apct_set n rd len places i off) \<or> (\<exists>y. apct_set n rd len places i off = Inr (y, off))"
  using assms(4,5)
proof (induction n arbitrary: i off)
  case 0
  then show ?case by (simp add: apct_set.simps)
next
  case (Suc n)
  show ?case
  proof (cases "i < places \<and> off < len")
    case False
    then show ?thesis by (auto simp: apct_set.simps reads_def)
  next
    case True
    then have step: "apct_set (Suc n) rd len places i off =
        bind_r (rd i off) (\<lambda>((c, i'), off').
          bind_r (apct_set n rd len places (i' + 1) off') (\<lambda>(cs, off''). Inr (c # cs, off'')))"
      by (simp add: apct_set.simps [of "Suc n"])
    have r: "reads len 12 off (rd i off)" using Suc.prems by (intro rd)
    show ?thesis
    proof (cases "rd i off")
      case (Inl f)
      then show ?thesis using r step by (simp add: reads_def)
    next
      case (Inr y)
      obtain c i' off' where y: "y = ((c, i'), off')" by (metis surj_pair)
      have m: "moved len 12 off off'" using r by (simp add: reads_def Inr y)
      have p: "placed len 12 off'" using moved_placed [OF m] assms(1) by (simp add: table_buf_def)
      have "places - (i' + 1) \<le> int n" using place [OF Inr [unfolded y]] Suc.prems by simp
      note IH = Suc.IH [OF p this]
      have "reads len 12 off (apct_set n rd len places (i' + 1) off')"
        using IH moved_trans [OF m] m by (auto simp: reads_def split: sum.splits)
      then show ?thesis using step by (auto simp: Inr y reads_def split: sum.splits)
    qed
  qed
qed

lemma apct_entry_v1_reads:
  assumes "table_buf len buf" "placed len 12 off"
  shows "reads len 12 off (apct_entry_v1 len buf off)"
  unfolding apct_entry_v1_def
  apply (rule reads_bind_or [OF read_uint64], rule assms, rule assms, simp, rule assms, simp, simp)
  subgoal for t off'
    using apct_set_reads [where rd = "apct_condition_v1 len buf (to_int t)" and off = off' and i = 0 and places = 10 and n = 10,
        OF assms(1) apct_condition_v1_reads [OF assms(1)] apct_condition_v1_place]
    by (auto simp: reads_def placed_def)
  done

lemma apct_entry_v2_reads:
  assumes "table_buf len buf" "placed len 12 off"
  shows "reads len 12 off (apct_entry_v2 len buf off)"
  unfolding apct_entry_v2_def
  apply (rule read_bind_uint64, rule assms, rule assms, simp, rule assms, simp)
  subgoal for t off'
    apply (cases "to_int t = -1", simp add: reads_def)
    apply (simp, rule reads_bind_or [OF read_uint64], rule assms, assumption, simp, rule assms, simp, simp)
    subgoal for cnt off''
      using apct_set_reads [where rd = "apct_condition_v2 len buf cnt (to_int t)" and off = off'' and i = 0
          and places = "to_int cnt" and n = "nat (to_int cnt)",
          OF assms(1) apct_condition_v2_reads [OF assms(1)] apct_condition_v2_place]
      by (auto simp: placed_def)
    done
  done

section \<open>Parsers\<close>

text \<open>A parser that returns a status or throws.\<close>

definition sound :: "gddv \<times> 'a result \<Rightarrow> bool" where
  "sound r \<longleftrightarrow> (case snd r of Inl f \<Rightarrow> f = Gddv_exception | Inr _ \<Rightarrow> True)"

lemma sound_return [simp]: "sound (g, Inr x)" "sound (g, Inl Gddv_exception)"
  by (simp_all add: sound_def)

lemma sound_if: "(b \<Longrightarrow> sound x) \<Longrightarrow> (\<not> b \<Longrightarrow> sound y) \<Longrightarrow> sound (if b then x else y)"
  by simp

text \<open>The version in front of a table, and the loop over its entries.\<close>

lemma sound_version:
  assumes "table_buf len buf" "\<And>v off. get_uint64 len buf 0 = Inr (v, off) \<Longrightarrow> sound (f v off)"
  shows "sound (case get_uint64 len buf 0 of Inl e \<Rightarrow> (g, Inl e) | Inr (v, off) \<Rightarrow> f v off)"
  using read_uint64 [OF assms(1) placed_0] assms by (auto simp: reads_def table_buf_def split: sum.splits)

lemma sound_loop:
  assumes "table_buf len buf" "\<And>off. placed len 12 off \<Longrightarrow> reads len 12 off (rd off)"
    "off = 0 \<or> get_uint64 len buf 0 = Inr (v, off)" "\<And>xs. sound (f xs (Inl Gddv_exception))" "\<And>xs x. sound (f xs (Inr x))"
  shows "sound (case table_loop (table_fuel len) rd len off of (xs, r) \<Rightarrow> f xs r)"
proof -
  have l: "0 \<le> len" using assms(1) by (simp add: table_buf_def)
  have "off = 0 \<or> moved len 0 0 off"
    using assms(3) read_uint64 [OF assms(1) placed_0 [OF l]] by (auto simp: reads_def)
  then have p: "placed len 12 off" using l by (auto simp: moved_def placed_def)
  have "if off < 0 then 0 < table_fuel len else len - off < int (table_fuel len)"
    using l by (simp add: table_fuel_def)
  from table_loop_ends [OF assms(2) _ l p this] show ?thesis using assms(4,5) by (auto split: prod.split)
qed

lemma load_table: "table_buf len buf \<Longrightarrow> 0 \<le> off \<Longrightarrow> off + int n \<le> len + 1 \<Longrightarrow> \<exists>v. load n buf off = Inr v"
  by (auto simp: load_def table_buf_def)

lemma parse_appc_sound:
  assumes "table_buf len buf"
  shows "sound (parse_appc buf len g)"
proof -
  obtain b where "load 1 buf 0 = Inr b" using load_table [OF assms, of 0 1] assms by (auto simp: table_buf_def)
  then show ?thesis unfolding parse_appc_def Let_def
    by (auto intro!: sound_if sound_version [OF assms] sound_loop [OF assms appc_entry_reads [OF assms]])
qed

lemma parse_apat_sound: "table_buf len buf \<Longrightarrow> sound (parse_apat buf len g)"
  unfolding parse_apat_def Let_def by (auto intro!: sound_if sound_version sound_loop apat_entry_reads)

lemma parse_apct_sound: "table_buf len buf \<Longrightarrow> sound (parse_apct buf len g)"
  unfolding parse_apct_def Let_def
  by (auto intro!: sound_if sound_version sound_loop apct_entry_v1_reads apct_entry_v2_reads)

lemma parse_psvt_sound: "table_buf len buf \<Longrightarrow> sound (parse_psvt name buf len g)"
  unfolding parse_psvt_def Let_def by (auto intro!: sound_if sound_version sound_loop psvt_entry_reads)

lemma parse_itmt_sound: "table_buf len buf \<Longrightarrow> sound (parse_itmt name buf len g)"
  unfolding parse_itmt_def Let_def by (auto intro!: sound_if sound_version sound_loop itmt_table_entry_reads)

lemma parse_vspt_sound: "table_buf len buf \<Longrightarrow> sound (parse_vspt buf len g)"
  unfolding parse_vspt_def Let_def by (auto intro!: sound_if sound_version sound_loop vspt_entry_reads)

lemma parse_vsct_sound: "table_buf len buf \<Longrightarrow> sound (parse_vsct name buf len g)"
  unfolding parse_vsct_def Let_def by (auto intro!: sound_if sound_version sound_loop vsct_entry_reads)

lemma parse_trt_sound: "table_buf len buf \<Longrightarrow> sound (parse_trt buf len g)"
  unfolding parse_trt_def by (auto intro!: sound_loop trt_entry_reads)

text \<open>The tables read at fixed positions.\<close>

lemma load_int_table: "table_buf len buf \<Longrightarrow> 0 \<le> off \<Longrightarrow> off + 8 \<le> len \<Longrightarrow> \<exists>v. load_int buf off = Inr v"
  using load_table [of len buf off 8] by (auto simp: load_int_def)

lemma ppcc_limit_table:
  assumes "table_buf len buf" "0 \<le> start" "start + 56 \<le> len"
  shows "\<exists>v. ppcc_limit buf start = Inr v"
  using assms load_int_table [of len buf start] load_int_table [of len buf "start + 12"]
    load_int_table [of len buf "start + 24"] load_int_table [of len buf "start + 36"] load_int_table [of len buf "start + 48"]
  by (auto simp: ppcc_limit_def)

lemma parse_ppcc_sound:
  assumes "table_buf len buf"
  shows "sound (parse_ppcc name buf len g)"
  using ppcc_limit_table [OF assms, of 28] ppcc_limit_table [OF assms, of 100]
  by (auto simp: parse_ppcc_def split: prod.split)

lemma parse_trip_point_sound: "table_buf len buf \<Longrightarrow> sound (parse_trip_point name ty buf len g)"
  using load_table [of len buf 0 4] by (auto simp: parse_trip_point_def)

lemma itmt3_entry_table:
  assumes "table_buf len buf" "0 \<le> off" "off + sizeof_itmt3 \<le> len"
  shows "\<exists>x. itmt3_entry buf off = Inr x"
  using assms c_string_ok [of len buf off] load_int_table [of len buf "off + 64"] c_string_ok [of len buf "off + 80"]
    c_string_ok [of len buf "off + 144"]
  by (auto simp: itmt3_entry_def sizeof_itmt3_def)

lemma itmt3_loop_table:
  "table_buf len buf \<Longrightarrow> 0 \<le> off \<Longrightarrow> \<exists>xs. itmt3_loop buf len off = Inr xs"
proof (induction buf len off rule: itmt3_loop.induct)
  case (1 buf len off)
  show ?case
  proof (cases "off < len \<and> sizeof_itmt3 \<le> len - off")
    case False
    then show ?thesis by (auto simp: itmt3_loop.simps [of buf len off])
  next
    case True
    then obtain x where x: "itmt3_entry buf off = Inr x" using itmt3_entry_table [of len buf off] 1 by auto
    then obtain xs where "itmt3_loop buf len (off + sizeof_itmt3) = Inr xs"
      using 1 True by (auto simp: sizeof_itmt3_def)
    then show ?thesis using x True by (simp add: itmt3_loop.simps [of buf len off])
  qed
qed

lemma parse_itmt3_sound:
  assumes "table_buf len buf"
  shows "sound (parse_itmt3 name buf len g)"
proof -
  have "u32_of len = len" using assms by (intro u32_of_id) (auto simp: table_buf_def INT_MAX_def)
  then show ?thesis using itmt3_loop_table [OF assms, of sizeof_itmt3_header]
    by (auto simp: parse_itmt3_def Let_def sizeof_itmt3_header_def split: option.split)
qed

lemma idsp_loop_table:
  "table_buf len buf \<Longrightarrow> 0 \<le> i \<Longrightarrow> snd (idsp_loop buf len i) = Inr ()"
proof (induction buf len i rule: idsp_loop.induct)
  case (1 buf len i)
  show ?case
  proof (cases "i < len \<and> 28 \<le> len - i")
    case False
    then show ?thesis by (auto simp: idsp_loop.simps [of buf len i])
  next
    case True
    obtain b v w where "load 1 buf i = Inr b" "load 4 buf (i + 4) = Inr v" "load 16 buf (i + 12) = Inr w"
      using load_table [OF 1(2), of i 1] load_table [OF 1(2), of "i + 4" 4] load_table [OF 1(2), of "i + 12" 16] 1(3) True
      by auto
    moreover have "snd (idsp_loop buf len (i + 12 + s32 (int v))) = Inr ()"
      if "b = 7" "\<not> (s32 (int v) < 16 \<or> len - (i + 4) - 8 < s32 (int v))"
      using 1 True calculation that by auto
    ultimately show ?thesis using True by (subst idsp_loop.simps) (auto simp: case_prod_beta)
  qed
qed

lemma parse_idsp_sound: "table_buf len buf \<Longrightarrow> sound (parse_idsp buf len g)"
  using idsp_loop_table [of len buf 0] by (auto simp: parse_idsp_def split: prod.split)

section \<open>Keys and repositories\<close>

lemma run_parsers_sound: "list_all (\<lambda>(b, f). \<forall>g. sound (f g)) ps \<Longrightarrow> sound (run_parsers ps g)"
proof (induction ps arbitrary: g)
  case Nil
  then show ?case by simp
next
  case (Cons p ps)
  obtain b f where p: "p = (b, f)" by (cases p)
  obtain g' r where fg: "f g = (g', r)" by (cases "f g")
  have "sound (f g)" and rest: "sound (run_parsers ps g)" "sound (run_parsers ps g')" using Cons p by simp_all
  then have "sound (g', r)" by (simp add: fg)
  then show ?case using rest by (cases r) (simp_all add: p fg sound_def)
qed

lemma dispatch_key_sound:
  assumes "int (length val) \<le> INT_MAX - 64"
  shows "sound (dispatch_key key val g)"
proof -
  have t: "table_buf (int (length val)) (val @ [CHR 0x00])" using assms by (simp add: table_buf_def nth_append)
  note sound_parsers = parse_ppcc_sound [OF t] parse_psvt_sound [OF t] parse_appc_sound [OF t] parse_apct_sound [OF t]
    parse_apat_sound [OF t] parse_itmt3_sound [OF t] parse_itmt_sound [OF t] parse_idsp_sound [OF t]
    parse_trip_point_sound [OF t] parse_trt_sound [OF t] parse_vsct_sound [OF t] parse_vspt_sound [OF t]
  have "sound (run_parsers (key_parsers k (val @ [CHR 0x00]) (int (length val))) g)" for k
    by (rule run_parsers_sound) (simp only: key_parsers_def list.pred_inject sound_parsers prod.case simp_thms)
  then show ?thesis by (auto simp: dispatch_key_def split: option.split)
qed

text \<open>No four bytes of the buffer, read as a length, come so close to \<^verbatim>\<open>INT_MAX\<close> that an offset
  added to it overflows: this is what the bounds checks of \<^verbatim>\<open>parse_gddv_key\<close> rely on.\<close>

fun plain_lengths :: "string \<Rightarrow> int \<Rightarrow> bool" where
  "plain_lengths [] sz = True"
| "plain_lengths (c # cs) sz =
     ((let n = int (le_nat (take 4 (c # cs))) in n \<le> INT_MAX - sz \<or> INT_MAX \<le> n) \<and> plain_lengths cs sz)"

lemma plain_lengths_drop: "plain_lengths buf sz \<Longrightarrow> plain_lengths (drop k buf) sz"
  by (induction buf sz arbitrary: k rule: plain_lengths.induct) (auto simp: drop_Cons split: nat.split)

lemma plain_lengths_mono: "plain_lengths buf sz \<Longrightarrow> sz' \<le> sz \<Longrightarrow> plain_lengths buf sz'"
  by (induction buf sz rule: plain_lengths.induct) (auto simp: Let_def)

lemma plain_lengthsD:
  assumes "plain_lengths buf sz" "load 4 buf off = Inr n"
  shows "int n \<le> INT_MAX - sz \<or> INT_MAX \<le> int n"
proof -
  have "drop (nat off) buf \<noteq> []" "n = le_nat (take 4 (drop (nat off) buf))"
    using assms(2) by (auto simp: load_def split: if_splits)
  then show ?thesis using plain_lengths_drop [OF assms(1), of "nat off"] by (cases "drop (nat off) buf") (auto simp: Let_def)
qed

lemma counted_bytes_sound:
  assumes "plain_lengths buf sz" "sz \<le> int (length buf)" "0 \<le> off" "off + 4 \<le> sz"
  shows "case counted_bytes z buf sz off of Inl f \<Rightarrow> f = Gddv_exception
    | Inr (s, off') \<Rightarrow> off' = off + 4 + int (length s) \<and> off' \<le> sz"
proof -
  obtain n where n: "load 4 buf off = Inr n" using assms by (auto simp: load_def)
  note p = plain_lengthsD [OF assms(1) n]
  have "s32 (off + 4 + int n) = off + 4 + int n" if "int n \<le> INT_MAX - sz"
    using that assms by (intro s32_small) (auto simp: INT_MAX_def)
  then show ?thesis using n p assms by (auto simp: counted_bytes_def load_bytes_def Let_def)
qed

lemma key_and_value_sound:
  assumes "plain_lengths buf sz" "sz \<le> int (length buf)" "sz \<le> INT_MAX - 64"
  shows "case key_and_value buf sz of Inl f \<Rightarrow> f = Gddv_exception
    | Inr (key, val, off) \<Rightarrow> int (length val) \<le> INT_MAX - 64 \<and> 16 \<le> off \<and> off \<le> sz"
proof (cases "sz < 8")
  case True
  then show ?thesis by (simp add: key_and_value_def)
next
  case False
  obtain a where a: "load 4 buf 0 = Inr a" using assms False by (auto simp: load_def)
  note k = counted_bytes_sound [OF assms(1,2), of 4 False]
  show ?thesis
  proof (cases "counted_bytes False buf sz 4")
    case (Inl f)
    then show ?thesis using k False a by (simp add: key_and_value_def)
  next
    case (Inr y)
    obtain key off where y: "y = (key, off)" by (cases y)
    have off: "8 \<le> off" "off \<le> sz" using k False by (auto simp: Inr y)
    have s: "s32 (off + 8) = off + 8" using off assms(3) by (intro s32_small) (auto simp: INT_MAX_def)
    show ?thesis
    proof (cases "sz < off + 8")
      case True
      then show ?thesis using False a by (simp add: key_and_value_def Inr y s)
    next
      case room: False
      obtain b where b: "load 4 buf off = Inr b" using assms off room by (auto simp: load_def)
      have v: "case counted_bytes True buf sz (off + 4) of Inl f \<Rightarrow> f = Gddv_exception
          | Inr (s, off') \<Rightarrow> off' = off + 8 + int (length s) \<and> off' \<le> sz"
        using counted_bytes_sound [OF assms(1,2), of "off + 4" True] off room by (auto split: sum.splits)
      show ?thesis
      proof (cases "counted_bytes True buf sz (off + 4)")
        case (Inl f)
        then show ?thesis using v False room a b by (simp add: key_and_value_def Inr y s)
      next
        case r: (Inr x)
        obtain val off' where x: "x = (val, off')" by (cases x)
        show ?thesis using v False room a b off assms(3) by (simp add: key_and_value_def Inr y s r x)
      qed
    qed
  qed
qed

lemma parse_gddv_key_sound:
  assumes "plain_lengths buf sz" "sz \<le> int (length buf)" "sz \<le> INT_MAX - 64"
  shows "sound (parse_gddv_key buf sz g)"
    and "snd (parse_gddv_key buf sz g) = Inr (res, end) \<Longrightarrow> 16 \<le> end \<and> end \<le> sz"
proof -
  note k = key_and_value_sound [OF assms]
  have d: "sound (dispatch_key key val g)" if "key_and_value buf sz = Inr (key, val, off)" for key val off
    using k that by (intro dispatch_key_sound) auto
  show "sound (parse_gddv_key buf sz g)"
    using k d by (auto simp: parse_gddv_key_def sound_def bind_r_def split: sum.splits prod.splits)
  show "16 \<le> end \<and> end \<le> sz" if "snd (parse_gddv_key buf sz g) = Inr (res, end)"
    using that k by (auto simp: parse_gddv_key_def bind_r_Inr split: sum.splits prod.splits)
qed

lemma run_parsers_status: "run_parsers ps g = (g', Inr res) \<Longrightarrow> res = THD_SUCCESS"
  by (induction ps g rule: run_parsers.induct) (auto split: if_splits prod.splits sum.splits)

lemma parse_gddv_key_status: "parse_gddv_key buf sz g = (g', Inr (res, end)) \<Longrightarrow> res = THD_SUCCESS"
  by (auto simp: parse_gddv_key_def dispatch_key_def bind_r_Inr dest: run_parsers_status
      split: sum.splits prod.splits option.splits)

end
