(* ===== verification/Thd_GddvProps.thy ===== *)
theory Thd_GddvProps
  imports Thd_GddvSafe
begin

text \<open>
  Properties of the data vault parser: it stays inside of its buffers, what it does with a
  repository of keys, and the inputs on which it does not end.
\<close>

section \<open>Encoded values\<close>

lemma length_le_bytes [simp]: "length (le_bytes n v) = n"
  by (induction n arbitrary: v) simp_all

lemma le_nat_le_bytes: "v < 256 ^ n \<Longrightarrow> le_nat (le_bytes n v) = v"
proof (induction n arbitrary: v)
  case (Suc n)
  then have "v div 256 < 256 ^ n" by (simp add: less_mult_imp_div_less mult.commute)
  then show ?case using Suc.IH [of "v div 256"] by (simp add: of_char_mod_256)
qed simp

lemma load_at:
  assumes "drop (nat off) buf = le_bytes n v @ rest" "0 \<le> off" "v < 256 ^ n" "0 < n"
  shows "load n buf off = Inr v"
proof -
  have "length buf - nat off = n + length rest" using assms(1) by (metis length_append length_drop length_le_bytes)
  then have "\<not> int (length buf) < off + int n" using assms(2,4) by linarith
  then show ?thesis using assms by (simp add: load_def le_nat_le_bytes)
qed

section \<open>Repositories that are not parsed to the end\<close>

lemma zero_header:
  assumes "int sizeof_header \<le> sz" "load_header buf = Inr h" "hd_signature h = ESIFDV_HEADER_SIGNATURE"
    "ESIFHDR_GET_MAJOR (hd_version h) = 2" "\<not> is_compressed (hd_flags h)" "hd_headersize h = 0"
  shows "parse_gddv dec n buf sz g = (g, Inl Out_of_fuel)"
proof (induction n rule: less_induct)
  case (less n)
  have sig: "load 2 buf 0 = Inr ESIFDV_HEADER_SIGNATURE"
    using assms(2,3) by (auto simp: load_header_def bind_r_Inr)
  have sz: "0 < sz" using assms(1) by (simp add: sizeof_header_def)
  show ?case
  proof (cases n)
    case 0
    then show ?thesis by (simp add: parse_gddv.simps)
  next
    case (Suc m)
    have "parse_gddv dec n buf sz g = gddv_items dec m 2 0 buf sz 0 g"
      using assms by (simp add: Suc parse_gddv.simps)
    also have "\<dots> = (g, Inl Out_of_fuel)"
    proof (cases m)
      case 0
      then show ?thesis using sz by (simp add: gddv_items.simps)
    next
      case (Suc k)
      then have "parse_gddv dec k buf sz g = (g, Inl Out_of_fuel)" using less \<open>n = Suc m\<close> by simp
      then show ?thesis
        using sz sig by (simp add: Suc gddv_items.simps ESIFDV_HEADER_SIGNATURE_def ESIFDV_ITEM_KEYS_REV0_SIGNATURE_def)
    qed
    finally show ?thesis .
  qed
qed

text \<open>A repository of version 2 whose header gives its own size as zero is never parsed to the
  end: the item found behind the header is the repository itself, which is parsed recursively,
  with any amount of fuel.\<close>

theorem zero_header_diverges:
  assumes "int sizeof_header \<le> sz" "load_header buf = Inr h" "hd_signature h = ESIFDV_HEADER_SIGNATURE"
    "ESIFHDR_GET_MAJOR (hd_version h) = 2" "\<not> is_compressed (hd_flags h)" "hd_headersize h = 0"
  shows "\<forall>n. parse_gddv dec n buf sz g = (g, Inl Out_of_fuel)"
  using zero_header [OF assms] by blast

definition header_bytes :: "nat \<Rightarrow> nat \<Rightarrow> nat \<Rightarrow> string" where
  "header_bytes hs ver flags =
     le_bytes 2 ESIFDV_HEADER_SIGNATURE @ le_bytes 2 hs @ le_bytes 4 ver @ le_bytes 4 flags @ replicate 136 (CHR 0x00)"

lemma header_signature: "load 2 (header_bytes hs ver flags @ rest) 0 = Inr ESIFDV_HEADER_SIGNATURE"
  by (rule load_at) (auto simp: header_bytes_def ESIFDV_HEADER_SIGNATURE_def)

lemma load_header_bytes:
  assumes "hs < 2 ^ 16" "ver < 2 ^ 32" "flags < 2 ^ 32"
  shows "load_header (header_bytes hs ver flags @ rest) =
    Inr \<lparr>hd_signature = ESIFDV_HEADER_SIGNATURE, hd_headersize = hs, hd_version = ver, hd_flags = flags\<rparr>"
proof -
  let ?b = "header_bytes hs ver flags @ rest"
  have "load 2 ?b 2 = Inr hs"
    by (rule load_at) (use assms in \<open>auto simp: header_bytes_def\<close>)
  moreover have "load 4 ?b 4 = Inr ver"
    by (rule load_at) (use assms in \<open>auto simp: header_bytes_def\<close>)
  moreover have "load 4 ?b 8 = Inr flags"
    by (rule load_at) (use assms in \<open>auto simp: header_bytes_def\<close>)
  ultimately show ?thesis by (simp add: load_header_def header_signature)
qed

theorem zero_header_diverges_witness:
  "\<forall>n. parse_gddv (\<lambda>_ _ _. (1, [])) n (header_bytes 0 0x02000000 0 @ []) 148 cthd_gddv = (cthd_gddv, Inl Out_of_fuel)"
  by (rule zero_header_diverges [OF _ load_header_bytes])
    (simp_all add: sizeof_header_def ESIFHDR_GET_MAJOR_def is_compressed_def)

text \<open>A compressed repository leaves \<^verbatim>\<open>*end_offset\<close> alone, so as an item it does not move the
  offset of the repository it is in.\<close>

lemma compressed_end_offset:
  assumes "load_header buf = Inr h" "ESIFHDR_GET_MAJOR (hd_version h) = 2" "is_compressed (hd_flags h)"
    and "snd (parse_gddv dec n buf sz g) = Inr (res, end)"
  shows "end = 0"
  using assms by (cases n) (auto simp: parse_gddv.simps bind_r_Inr split: if_splits sum.splits option.splits prod.splits)

lemma compressed_item:
  assumes "load 2 buf off = Inr ESIFDV_HEADER_SIGNATURE" "off + hs < sz" "-2147483648 \<le> off" "off \<le> 2147483647"
    and "load_header (drop (nat off) buf) = Inr h" "ESIFHDR_GET_MAJOR (hd_version h) = 2" "is_compressed (hd_flags h)"
  shows "snd (gddv_items dec n 2 hs buf sz off g) \<noteq> Inr (THD_SUCCESS, end)"
proof (induction n arbitrary: g)
  case 0
  then show ?case using assms(2) by (simp add: gddv_items.simps)
next
  case (Suc n)
  obtain g' r where p: "parse_gddv dec n (drop (nat off) buf) (sz - off) g = (g', r)" by (cases "parse_gddv dec n (drop (nat off) buf) (sz - off) g")
  have "end' = 0" if "r = Inr (res, end')" for res end'
    using compressed_end_offset [OF assms(5-7), of dec n "sz - off" g] that p by simp
  then show ?case using Suc.IH [of g'] assms(1-4) p
    by (cases r) (auto simp: gddv_items.simps s32_small ESIFDV_HEADER_SIGNATURE_def ESIFDV_ITEM_KEYS_REV0_SIGNATURE_def thd_codes
        split: if_splits)
qed

text \<open>A compressed repository inside of another repository is never parsed successfully: its
  end is not reported to the repository around it, which parses the same item again and again. The
  loop either does not end, whatever the fuel, or ends with an error.\<close>

theorem compressed_item_never_passed:
  assumes "load 2 buf off = Inr ESIFDV_HEADER_SIGNATURE" "off + hs < sz" "-2147483648 \<le> off" "off \<le> 2147483647"
    and "load_header (drop (nat off) buf) = Inr h" "ESIFHDR_GET_MAJOR (hd_version h) = 2" "is_compressed (hd_flags h)"
  shows "\<forall>n g end. snd (gddv_items dec n 2 hs buf sz off g) \<noteq> Inr (THD_SUCCESS, end)"
  using compressed_item [OF assms] by blast

theorem compressed_item_never_passed_witness:
  "\<forall>n g end. snd (gddv_items (\<lambda>_ room _. (0, replicate room (CHR 0x00))) n 2 148
     (header_bytes 148 0x02000000 0x40000000 @ replicate 200 (CHR 0x5D)) 348 0 g) \<noteq> Inr (THD_SUCCESS, end)"
  by (rule compressed_item_never_passed [where h = "\<lparr>hd_signature = ESIFDV_HEADER_SIGNATURE, hd_headersize = 148,
        hd_version = 0x02000000, hd_flags = 0x40000000\<rparr>"])
    (simp_all add: header_signature load_header_bytes ESIFHDR_GET_MAJOR_def is_compressed_def
      ESIF_SERVICE_CONFIG_COMPRESSED_def)

section \<open>Staying in bounds\<close>

text \<open>C33. Parsing one key with its value returns or throws the exception of the class, for any
  table in the value: no parser reads outside of its buffer or goes on forever. The lengths in the
  buffer must not be within the buffer's size of \<^verbatim>\<open>INT_MAX\<close>.\<close>

theorem gddv_key_in_bounds:
  assumes "plain_lengths buf sz" "sz \<le> int (length buf)" "sz \<le> INT_MAX - 64"
  shows "case snd (parse_gddv_key buf sz g) of Inl f \<Rightarrow> f = Gddv_exception
    | Inr (res, end) \<Rightarrow> res = THD_SUCCESS \<and> 16 \<le> end \<and> end \<le> sz"
proof (cases "parse_gddv_key buf sz g")
  case (Pair g' r)
  then show ?thesis
    using parse_gddv_key_sound [OF assms, of g] parse_gddv_key_status [of buf sz g g']
    by (cases r) (auto simp: sound_def)
qed

text \<open>A key with a table that is cut short.\<close>

definition cut_key :: string where
  "cut_key =
     [CHR 0x00, CHR 0x00, CHR 0x00, CHR 0x00, CHR 0x10, CHR 0x00, CHR 0x00, CHR 0x00]
     @ ''/shared/tables/a'' @ [CHR 0x00, CHR 0x00, CHR 0x00, CHR 0x00, CHR 0x01, CHR 0x00, CHR 0x00, CHR 0x00, CHR 0x04]"

theorem gddv_key_in_bounds_witness:
  "plain_lengths cut_key 33 \<and> (case snd (parse_gddv_key cut_key 33 cthd_gddv) of Inl f \<Rightarrow> f = Gddv_exception
    | Inr (res, end) \<Rightarrow> res = THD_SUCCESS \<and> 16 \<le> end \<and> end \<le> 33)"
proof -
  have "plain_lengths cut_key 33" "length cut_key = 33" by (simp_all add: cut_key_def INT_MAX_def)
  then show ?thesis using gddv_key_in_bounds [of cut_key 33 cthd_gddv] by (simp add: INT_MAX_def)
qed

text \<open>C21. The check of a key's length against the size of the buffer is void for lengths close to
  \<^verbatim>\<open>INT_MAX\<close>: the sum with the offset overflows, the length passes and the copy runs out of the
  buffer.\<close>

theorem key_length_overflow:
  assumes "length buf < 1000000" "sz = int (length buf)" "8 \<le> sz" "load 4 buf 4 = Inr n"
    "INT_MAX - 8 < int n" "int n < INT_MAX"
  shows "parse_gddv_key buf sz g = (g, Inl Out_of_bounds)"
proof -
  obtain a where a: "load 4 buf 0 = Inr a" using assms(2,3) by (auto simp: load_def)
  have "s32 (8 + int n) = 8 + int n - 4294967296" using assms by (intro s32_over) (auto simp: INT_MAX_def)
  then have "counted_bytes False buf sz 4 = Inl Out_of_bounds"
    using assms by (auto simp: counted_bytes_def load_bytes_def Let_def INT_MAX_def)
  then show ?thesis using a assms by (simp add: parse_gddv_key_def key_and_value_def)
qed

theorem key_length_overflow_witness:
  "parse_gddv_key (le_bytes 4 0 @ le_bytes 4 0x7FFFFFFE @ replicate 24 (CHR ''k'')) 32 cthd_gddv = (cthd_gddv, Inl Out_of_bounds)"
  by (rule key_length_overflow [where n = "0x7FFFFFFE"])
    (auto intro!: load_at simp: INT_MAX_def)

text \<open>Whole vaults, with a decoder that refuses: repositories that are not compressed.\<close>

definition refuses :: "lzma_decoder \<Rightarrow> bool" where
  "refuses dec \<longleftrightarrow> (\<forall>props room src. fst (dec props room src) \<noteq> 0)"

definition fits :: "string \<Rightarrow> int \<Rightarrow> bool" where
  "fits buf sz \<longleftrightarrow> plain_lengths buf sz \<and> sz \<le> int (length buf) \<and> sz \<le> INT_MAX - 0x20000"

definition inside :: "int \<Rightarrow> gddv \<times> (int \<times> int) result \<Rightarrow> bool" where
  "inside sz r \<longleftrightarrow> (case snd r of Inl f \<Rightarrow> f \<noteq> Out_of_bounds | Inr (res, end) \<Rightarrow> 0 \<le> end \<and> end \<le> sz + 0xFFFF)"

lemma fits_drop: "fits buf sz \<Longrightarrow> 0 \<le> off \<Longrightarrow> off \<le> sz \<Longrightarrow> fits (drop (nat off) buf) (sz - off)"
  using plain_lengths_drop [of buf sz "nat off"] plain_lengths_mono [of "drop (nat off) buf" sz "sz - off"]
  by (auto simp: fits_def)

lemma le_nat_less: "le_nat s < 256 ^ length s"
proof (induction s)
  case (Cons c s)
  have "x + 256 * a < 256 * b" if "x < 256" "a < b" for x a b :: nat
    using that by linarith
  from this [OF nat_of_char_less_256 Cons] show ?case by simp
qed simp

lemma load_less: "load n buf off = Inr v \<Longrightarrow> v < 256 ^ n"
  using le_nat_less [of "take n (drop (nat off) buf)"] by (auto simp: load_def split: if_splits)

lemma fits_header:
  assumes "fits buf sz" "int sizeof_header \<le> sz"
  shows "\<exists>h. load_header buf = Inr h \<and> hd_headersize h \<le> 0xFFFF"
proof -
  have l: "148 \<le> int (length buf)" using assms by (simp add: fits_def sizeof_header_def)
  obtain hs where hs: "load 2 buf 2 = Inr hs" using l by (auto simp: load_def)
  then have "hs \<le> 0xFFFF" using load_less [OF hs] by simp
  moreover obtain a b c where "load 2 buf 0 = Inr a" "load 4 buf 4 = Inr b" "load 4 buf 8 = Inr c"
    using l by (auto simp: load_def)
  ultimately show ?thesis using hs by (simp add: load_header_def)
qed

lemma refused:
  assumes "refuses dec" "fits buf sz" "int sizeof_header \<le> sz"
  shows "uncompress_gddv dec buf sz = Inr None"
proof -
  obtain hs where hs: "load 2 buf 2 = Inr hs" using assms by (auto simp: load_def fits_def sizeof_header_def)
  have "lzma_decompress dec d src = None" for d src
    using assms(1) by (auto simp: lzma_decompress_def refuses_def split: prod.split) (metis fst_conv)
  then show ?thesis using assms hs
    by (auto simp: uncompress_gddv_def load_bytes_def fits_def split: option.split)
qed

lemma key_inside:
  assumes "fits buf sz" "0 \<le> off" "off \<le> sz"
  shows "case snd (parse_gddv_key (drop (nat off) buf) (sz - off) g) of Inl f \<Rightarrow> f \<noteq> Out_of_bounds
    | Inr (res, end) \<Rightarrow> 0 \<le> end \<and> off + end \<le> sz"
proof -
  note f = fits_drop [OF assms]
  have p: "plain_lengths (drop (nat off) buf) (sz - off)" "sz - off \<le> int (length (drop (nat off) buf))"
    "sz - off \<le> INT_MAX - 64" using f by (simp_all add: fits_def)
  show ?thesis
    using parse_gddv_key_sound [OF p, of g] by (auto simp: sound_def split: sum.split)
qed

text \<open>What follows an item.\<close>

lemma inside_step:
  assumes "case snd x of Inl f \<Rightarrow> f \<noteq> Out_of_bounds | Inr (res, end) \<Rightarrow> 0 \<le> end \<and> off + end \<le> sz + 0xFFFF"
    and "0 \<le> off" "0 \<le> sz" "sz \<le> INT_MAX - 0x20000"
    and "\<And>off' g'. 0 \<le> off' \<Longrightarrow> off' \<le> sz + 0xFFFF \<Longrightarrow> inside sz (rest off' g')"
  shows "inside sz (case x of (g', Inl f) \<Rightarrow> (g', Inl f)
    | (g', Inr (res, end)) \<Rightarrow> (if res \<noteq> THD_SUCCESS then (g', Inr (res, 0)) else rest (s32 (off + end)) g'))"
proof (cases x)
  case (Pair g' r)
  show ?thesis
  proof (cases r)
    case (Inl f)
    then show ?thesis using assms(1) by (simp add: Pair inside_def)
  next
    case (Inr y)
    obtain res "end" where y: "y = (res, end)" by (cases y)
    have "s32 (off + end) = off + end"
      using assms(1,2,4) by (intro s32_small) (auto simp: Pair Inr y INT_MAX_def)
    then have "inside sz (rest (s32 (off + end)) g')"
      using assms(1,2) by (simp, intro assms(5)) (auto simp: Pair Inr y)
    then show ?thesis using assms(3) by (auto simp: Pair Inr y inside_def)
  qed
qed

lemma inside_error: "0 \<le> sz \<Longrightarrow> inside sz (g, Inr (res, 0))"
  by (simp add: inside_def)

lemma gddv_item_inside:
  assumes "fits buf sz" "0 \<le> sz" "0 \<le> off" "off \<le> sz + 0xFFFF" "0 \<le> hs" "major = 2 \<longrightarrow> 1 \<le> hs"
    and parse: "\<And>buf sz g. fits buf sz \<Longrightarrow> 0 \<le> sz \<Longrightarrow> inside sz (parse_gddv dec n buf sz g)"
    and rest: "\<And>off' g'. 0 \<le> off' \<Longrightarrow> off' \<le> sz + 0xFFFF \<Longrightarrow> inside sz (gddv_items dec n major hs buf sz off' g')"
  shows "inside sz (gddv_items dec (Suc n) major hs buf sz off g)"
proof (cases "off + hs < sz")
  case False
  then show ?thesis using assms by (simp add: gddv_items.simps inside_def)
next
  case True
  then have off: "off < sz" "off \<le> sz" "sz \<le> INT_MAX - 0x20000" using assms by (auto simp: fits_def)
  show ?thesis
  proof (cases "major = 2")
    case False
    have "inside sz (case parse_gddv_key (drop (nat off) buf) (sz - off) g of (g', Inl f) \<Rightarrow> (g', Inl f)
        | (g', Inr (res, end)) \<Rightarrow> (if res \<noteq> THD_SUCCESS then (g', Inr (res, 0))
            else gddv_items dec n major hs buf sz (s32 (off + end)) g'))"
      using key_inside [OF assms(1,3) off(2), of g] off assms(2,3) rest by (intro inside_step) (auto split: sum.splits)
    then show ?thesis using True False by (simp add: gddv_items.simps)
  next
    case two: True
    obtain sig where sig: "load 2 buf off = Inr sig" using assms True two by (auto simp: load_def fits_def)
    have "inside sz (case parse_gddv_key (drop (nat (off + 2)) buf) (sz - (off + 2)) g of (g', Inl f) \<Rightarrow> (g', Inl f)
        | (g', Inr (res, end)) \<Rightarrow> (if res \<noteq> THD_SUCCESS then (g', Inr (res, 0))
            else gddv_items dec n major hs buf sz (s32 (off + 2 + end)) g'))"
      using key_inside [OF assms(1), of "off + 2" g] assms(2,3,6) True two off rest
      by (intro inside_step) (auto split: sum.splits)
    moreover have "inside (sz - off) (parse_gddv dec n (drop (nat off) buf) (sz - off) g)"
      using fits_drop [OF assms(1,3) off(2)] off by (intro parse) auto
    then have "inside sz (case parse_gddv dec n (drop (nat off) buf) (sz - off) g of (g', Inl f) \<Rightarrow> (g', Inl f)
        | (g', Inr (res, end)) \<Rightarrow> (if res \<noteq> THD_SUCCESS then (g', Inr (res, 0))
            else gddv_items dec n major hs buf sz (s32 (off + end)) g'))"
      using off assms(2,3) rest by (intro inside_step) (auto simp: inside_def split: sum.splits)
    ultimately show ?thesis
      unfolding gddv_items.simps using True two sig assms(2) by (simp add: inside_error)
  qed
qed

lemma parse_gddv_step_inside:
  assumes "refuses dec" "fits buf sz" "0 \<le> sz"
    and items: "\<And>major hs. 0 \<le> hs \<Longrightarrow> hs \<le> 0xFFFF \<Longrightarrow> major = 2 \<longrightarrow> 1 \<le> hs \<Longrightarrow>
      inside sz (gddv_items dec n major hs buf sz hs g)"
  shows "inside sz (parse_gddv dec (Suc n) buf sz g)"
proof (cases "sz < int sizeof_header")
  case True
  then show ?thesis using assms by (simp add: parse_gddv.simps inside_error)
next
  case False
  then obtain h where h: "load_header buf = Inr h" "hd_headersize h \<le> 0xFFFF" using fits_header [OF assms(2)] by auto
  show ?thesis
  proof (cases "ESIFHDR_GET_MAJOR (hd_version h) = 2 \<and> \<not> is_compressed (hd_flags h) \<and> hd_headersize h = 0
      \<and> hd_signature h = ESIFDV_HEADER_SIGNATURE")
    case True
    then show ?thesis using zero_header [of sz buf h dec "Suc n" g] False h by (simp add: inside_def)
  next
    case no_loop: False
    have "inside sz (gddv_items dec n (ESIFHDR_GET_MAJOR (hd_version h)) (int (hd_headersize h)) buf sz (int (hd_headersize h)) g)"
      if "hd_signature h = ESIFDV_HEADER_SIGNATURE" "\<not> (ESIFHDR_GET_MAJOR (hd_version h) = 2 \<and> is_compressed (hd_flags h))"
      using h(2) no_loop that by (intro items) auto
    then show ?thesis using False h refused [OF assms(1,2)] assms(3)
      by (auto simp: parse_gddv.simps inside_error) (auto simp: inside_def)
  qed
qed

lemma parse_gddv_inside:
  assumes "refuses dec"
  shows "(\<forall>buf sz g. fits buf sz \<longrightarrow> 0 \<le> sz \<longrightarrow> inside sz (parse_gddv dec n buf sz g))
    \<and> (\<forall>major hs buf sz off g. fits buf sz \<longrightarrow> 0 \<le> sz \<longrightarrow> 0 \<le> off \<longrightarrow> off \<le> sz + 0xFFFF \<longrightarrow> 0 \<le> hs \<longrightarrow> (major = 2 \<longrightarrow> 1 \<le> hs)
      \<longrightarrow> inside sz (gddv_items dec n major hs buf sz off g))"
proof (induction n)
  case 0
  then show ?case by (simp add: inside_def parse_gddv.simps gddv_items.simps)
next
  case (Suc n)
  then show ?case by (auto intro!: parse_gddv_step_inside [OF assms] gddv_item_inside)
qed

text \<open>C18. Parsing a data vault never reads outside of it, however its repositories and keys are
  nested, as long as nothing in it decompresses and no length in it is within the vault's size of
  \<^verbatim>\<open>INT_MAX\<close>.\<close>

theorem gddv_vault_in_bounds:
  assumes "\<forall>props room src. fst (dec props room src) \<noteq> 0" "plain_lengths buf (int (length buf))"
    "int (length buf) \<le> INT_MAX - 0x20000"
  shows "snd (parse_gddv dec n buf (int (length buf)) g) \<noteq> Inl Out_of_bounds"
proof -
  have "inside (int (length buf)) (parse_gddv dec n buf (int (length buf)) g)"
    using parse_gddv_inside [of dec n] assms by (simp add: refuses_def fits_def)
  then show ?thesis by (auto simp: inside_def)
qed

lemma plain_lengths_nul: "sz \<le> INT_MAX \<Longrightarrow> plain_lengths (replicate k (CHR 0x00)) sz"
proof (induction k)
  case (Suc k)
  have "le_nat (replicate j (CHR 0x00)) = 0" for j by (induction j) simp_all
  then have "le_nat (take 4 (replicate (Suc k) (CHR 0x00))) = 0" by (simp only: take_replicate)
  then show ?case using Suc by simp
qed simp

theorem gddv_vault_in_bounds_witness:
  "snd (parse_gddv (\<lambda>_ _ _. (1, [])) 5 (replicate 150 (CHR 0x00)) (int (length (replicate 150 (CHR 0x00)))) cthd_gddv)
     \<noteq> Inl Out_of_bounds"
  by (rule gddv_vault_in_bounds) (simp_all only: length_replicate, simp_all add: plain_lengths_nul INT_MAX_def)

end
