(* ===== verification/Thd_GddvCodec.thy ===== *)
theory Thd_GddvCodec
  imports Thd_GddvProps
begin

text \<open>
  Tables of the data vault written out and parsed back. A codec is an encoding of a table's
  entries together with the reader of an entry; a table of encoded entries is read back entry by
  entry. The parsers of targets, passive tables, virtual sensors and conditions are instances.
\<close>

section \<open>Fields\<close>

definition enc_u64 :: "u64 \<Rightarrow> string" where
  "enc_u64 w = le_bytes 4 4 @ le_bytes 8 (unat w)"

definition enc_str :: "string \<Rightarrow> string" where
  "enc_str s = le_bytes 4 8 @ le_bytes 8 (length s + 1) @ s @ [CHR 0x00]"

text \<open>What is left of a table at an offset.\<close>

definition remains :: "int \<Rightarrow> string \<Rightarrow> int \<Rightarrow> string \<Rightarrow> bool" where
  "remains len buf off t \<longleftrightarrow>
     0 \<le> off \<and> len \<le> INT_MAX - 64 \<and> drop (nat off) buf = t @ [CHR 0x00] \<and> off + int (length t) = len"

lemma length_enc [simp]: "length (enc_u64 w) = 12" "length (enc_str s) = 13 + length s"
  by (simp_all add: enc_u64_def enc_str_def)

lemma remains_start: "int (length t) \<le> INT_MAX - 64 \<Longrightarrow> remains (int (length t)) (t @ [CHR 0x00]) 0 t"
  by (simp add: remains_def)

lemma remains_next:
  assumes "remains len buf off (s @ t)"
  shows "remains len buf (off + int (length s)) t"
proof -
  have d: "drop (nat off) buf = s @ t @ [CHR 0x00]" and p: "0 \<le> off"
    using assms by (simp_all add: remains_def)
  have "drop (nat (off + int (length s))) buf = drop (length s) (drop (nat off) buf)"
    using p by (simp add: nat_add_distrib add.commute)
  also have "\<dots> = t @ [CHR 0x00]" unfolding d by simp
  finally show ?thesis using assms by (auto simp: remains_def)
qed

lemma remains_load:
  assumes "remains len buf off (s @ le_bytes n v @ t)" "v < 256 ^ n" "0 < n"
  shows "load n buf (off + int (length s)) = Inr v"
  using remains_next [OF assms(1)] assms(2,3) by (intro load_at) (auto simp: remains_def)

lemma get_uint64_at:
  assumes "remains len buf off (enc_u64 w @ t)"
  shows "get_uint64 len buf off = Inr (w, off + 12)"
proof -
  have 1: "load 4 buf off = Inr 4" using remains_load [of len buf off "[]" 4 4] assms by (simp add: enc_u64_def)
  have 2: "load 8 buf (off + 4) = Inr (unat w)"
    using remains_load [of len buf off "le_bytes 4 4" 8 "unat w" t] assms unsigned_less [of w] by (simp add: enc_u64_def)
  have "0 \<le> off" "off + 12 \<le> len" "len \<le> INT_MAX - 64" using assms by (auto simp: remains_def)
  then show ?thesis using 1 2 by (simp add: get_uint64_def Let_def s32_small INT_MAX_def)
qed

lemma get_string_at:
  assumes "remains len buf off (enc_str s @ t)"
  shows "get_string len buf off = Inr (off + 12, off + 13 + int (length s))"
proof -
  have l: "0 \<le> off" "off + 13 + int (length s) \<le> len" "len \<le> INT_MAX - 64" using assms by (auto simp: remains_def)
  then have "length s + 1 < 2 ^ 64" by (simp add: INT_MAX_def)
  then have 2: "load 8 buf (off + 4) = Inr (length s + 1)"
    using remains_load [of len buf off "le_bytes 4 8" 8 "length s + 1" "s @ [CHR 0x00] @ t"] assms by (simp add: enc_str_def)
  have 1: "load 4 buf off = Inr 8" using remains_load [of len buf off "[]" 4 8] assms by (simp add: enc_str_def)
  show ?thesis using 1 2 l by (simp add: get_string_def Let_def s32_small INT_MAX_def)
qed

lemma get_string_obj_at:
  assumes "remains len buf off (enc_str s @ t)" "nul_free s"
  shows "get_string_obj len buf off = Inr (s, off + 13 + int (length s))"
proof -
  have l: "0 \<le> off" "off + 13 + int (length s) \<le> len" "len \<le> INT_MAX - 64" using assms by (auto simp: remains_def)
  have "drop (nat (off + 12)) buf = s @ CHR 0x00 # t @ [CHR 0x00]"
    using remains_next [of len buf off "le_bytes 4 8 @ le_bytes 8 (length s + 1)" "s @ [CHR 0x00] @ t"] assms(1)
    by (simp add: enc_str_def remains_def)
  then have "c_string buf (off + 12) = Inr s"
    using assms(2) l by (auto simp: c_string_def nul_free_def takeWhile_tail)
  moreover have "s32 (s32 (off + 13 + int (length s) - off) - 12) = 1 + int (length s)"
    using l by (simp add: s32_small INT_MAX_def)
  ultimately show ?thesis using get_string_at [OF assms(1)] by (simp add: get_string_obj_def)
qed

lemma skip12_at:
  assumes "remains len buf off (s @ t)" "length s = 12"
  shows "skip12 off = off + 12" "remains len buf (off + 12) t"
  using assms remains_next [OF assms(1)] by (auto simp: skip12_def remains_def s32_small INT_MAX_def)

text \<open>The steps of an entry.\<close>

lemma step_uint64:
  assumes "remains len buf off (enc_u64 w @ t)" "remains len buf (off + 12) t \<Longrightarrow> f w (off + 12) = r"
  shows "bind_r (get_uint64 len buf off) (\<lambda>(x, off'). f x off') = r"
  using get_uint64_at [OF assms(1)] remains_next [OF assms(1)] assms(2) by simp

lemma step_string_obj:
  assumes "remains len buf off (enc_str s @ t)" "nul_free s"
    "remains len buf (off + 13 + int (length s)) t \<Longrightarrow> f s (off + 13 + int (length s)) = r"
  shows "bind_r (get_string_obj len buf off) (\<lambda>(x, off'). f x off') = r"
  using get_string_obj_at [OF assms(1,2)] remains_next [OF assms(1)] assms(3) by (simp add: ac_simps)

lemma step_string:
  assumes "remains len buf off (enc_str s @ t)"
    "remains len buf (off + 13 + int (length s)) t \<Longrightarrow> f (off + 12) (off + 13 + int (length s)) = r"
  shows "bind_r (get_string len buf off) (\<lambda>(x, off'). f x off') = r"
  using get_string_at [OF assms(1)] remains_next [OF assms(1)] assms(2) by (simp add: ac_simps)

section \<open>Codecs\<close>

locale table_codec =
  fixes enc :: "'e \<Rightarrow> string"
    and rd :: "int \<Rightarrow> string \<Rightarrow> int \<Rightarrow> ('e \<times> int) result"
    and ok :: "'e \<Rightarrow> bool"
  assumes reads_back: "ok x \<Longrightarrow> remains len buf off (enc x @ t) \<Longrightarrow> rd len buf off = Inr (x, off + int (length (enc x)))"
    and enc_length: "12 \<le> length (enc x)"
begin

lemma loop_reads_back:
  assumes "list_all ok xs" "remains len buf off (concat (map enc xs))" "length xs \<le> n"
  shows "table_loop n (rd len buf) len off = (xs, Inr len)"
  using assms
proof (induction xs arbitrary: off n)
  case Nil
  then show ?case by (simp add: table_loop.simps remains_def)
next
  case (Cons x xs)
  then obtain m where n: "n = Suc m" by (cases n) auto
  have r: "remains len buf off (enc x @ concat (map enc xs))" using Cons.prems(2) by simp
  have "table_loop m (rd len buf) len (off + int (length (enc x))) = (xs, Inr len)"
    using Cons.prems n by (intro Cons.IH remains_next [OF r]) auto
  moreover have "off < len" using r enc_length [of x] by (auto simp: remains_def)
  ultimately show ?case using reads_back [OF _ r] Cons.prems(1) n by (subst table_loop.simps) simp
qed

lemma length_entries: "length xs \<le> length (concat (map enc xs))"
proof (induction xs)
  case (Cons x xs)
  then show ?case using enc_length [of x] by simp
qed simp

text \<open>A table: a version and entries.\<close>

lemma table_reads_back:
  assumes "list_all ok xs" "t = enc_u64 v @ concat (map enc xs)" "int (length t) \<le> INT_MAX - 64"
  shows "get_uint64 (int (length t)) (t @ [CHR 0x00]) 0 = Inr (v, 12)"
    and "table_loop (table_fuel (int (length t))) (rd (int (length t)) (t @ [CHR 0x00])) (int (length t)) 12
      = (xs, Inr (int (length t)))"
proof -
  have r: "remains (int (length t)) (t @ [CHR 0x00]) 0 (enc_u64 v @ concat (map enc xs))"
    using remains_start [OF assms(3)] assms(2) by simp
  show "get_uint64 (int (length t)) (t @ [CHR 0x00]) 0 = Inr (v, 12)" using get_uint64_at [OF r] by simp
  show "table_loop (table_fuel (int (length t))) (rd (int (length t)) (t @ [CHR 0x00])) (int (length t)) 12
      = (xs, Inr (int (length t)))"
    using remains_next [OF r] length_entries [of xs] assms(1,2)
    by (intro loop_reads_back) (simp_all add: table_fuel_def)
qed

end

section \<open>Targets\<close>

definition enc_target :: "adaptive_target \<Rightarrow> string" where
  "enc_target x = enc_u64 (at_target_id x) @ enc_str (at_name x) @ enc_str (at_participant x)
     @ enc_u64 (at_domain x) @ enc_str (at_code x) @ enc_str (at_argument x)"

definition ok_target :: "adaptive_target \<Rightarrow> bool" where
  "ok_target x \<longleftrightarrow> nul_free (at_name x) \<and> nul_free (at_participant x) \<and> nul_free (at_code x) \<and> nul_free (at_argument x)"

lemma apat_entry_at:
  assumes "ok_target x" "remains len buf off (enc_target x @ t)"
  shows "apat_entry len buf off = Inr (x, off + int (length (enc_target x)))"
  using assms unfolding apat_entry_def enc_target_def ok_target_def append_assoc
  apply (elim conjE)
  apply (rule step_uint64, assumption)
  apply (rule step_string_obj, assumption, assumption)
  apply (rule step_string_obj, assumption, assumption)
  apply (rule step_uint64, assumption)
  apply (rule step_string_obj, assumption, assumption)
  apply (rule step_string_obj, assumption, assumption)
  by simp

interpretation apat: table_codec enc_target apat_entry ok_target
  by unfold_locales (auto simp: apat_entry_at, simp add: enc_target_def)

text \<open>A table of targets (APAT) is parsed to exactly the targets it was written from, after
  the targets known before.\<close>

theorem apat_roundtrip:
  assumes "list_all ok_target ts" "tab = enc_u64 2 @ concat (map enc_target ts)" "int (length tab) \<le> INT_MAX - 64"
  shows "parse_apat (tab @ [CHR 0x00]) (int (length tab)) g =
    (g\<lparr>gd_cur_buf_len := int (length tab), gd_targets := gd_targets g @ ts\<rparr>, Inr 0)"
  using apat.table_reads_back [OF assms] by (simp add: parse_apat_def cur_len_def)

definition demo_target :: adaptive_target where
  "demo_target = \<lparr>at_target_id = 7, at_name = ''t'', at_participant = ''TCPU'', at_domain = 9, at_code = ''PL1MAX'',
     at_argument = ''15000''\<rparr>"

theorem apat_roundtrip_witness:
  "parse_apat ((enc_u64 2 @ concat (map enc_target [demo_target])) @ [CHR 0x00])
     (int (length (enc_u64 2 @ concat (map enc_target [demo_target])))) cthd_gddv =
   (cthd_gddv\<lparr>gd_cur_buf_len := int (length (enc_u64 2 @ concat (map enc_target [demo_target]))),
      gd_targets := gd_targets cthd_gddv @ [demo_target]\<rparr>, Inr 0)"
proof (rule apat_roundtrip [OF _ refl])
  show "list_all ok_target [demo_target]" by (simp add: demo_target_def ok_target_def nul_free_def)
  show "int (length (enc_u64 2 @ concat (map enc_target [demo_target]))) \<le> INT_MAX - 64"
    by (simp add: demo_target_def enc_target_def INT_MAX_def)
qed

section \<open>Passive tables\<close>

definition enc_int :: "int \<Rightarrow> string" where
  "enc_int i = enc_u64 (word_of_int i)"

lemma length_enc_int [simp]: "length (enc_int i) = 12"
  by (simp add: enc_int_def)

lemma to_int_of_int [simp]: "in_s32 i \<Longrightarrow> to_int (word_of_int i) = i"
proof -
  assume i: "in_s32 i"
  have "i mod 18446744073709551616 mod 4294967296 = i mod 4294967296" by (simp add: mod_mod_cancel)
  then have "s32 (i mod 18446744073709551616) = s32 i"
    unfolding s32_def mod_add_left_eq [of "i mod 18446744073709551616" 4294967296, symmetric] mod_add_left_eq [of i, symmetric]
    by (simp only: mod_mod_trivial)
  then show ?thesis using i by (simp add: to_int_def uint_word_of_int)
qed

definition enc_psv :: "psv \<Rightarrow> string" where
  "enc_psv x = enc_str (ps_source x) @ enc_str (ps_target x) @ enc_int (ps_priority x) @ enc_int (ps_sample_period x)
     @ enc_int (ps_temp x) @ enc_int (ps_domain x) @ enc_int (ps_control_knob x) @ enc_str (ps_limit x)
     @ enc_int (ps_step_size x) @ enc_int (ps_limit_coeff x) @ enc_int (ps_unlimit_coeff x) @ enc_int 0"

definition ok_psv :: "psv \<Rightarrow> bool" where
  "ok_psv x \<longleftrightarrow> ps_name x = [] \<and> nul_free (ps_source x) \<and> nul_free (ps_target x) \<and> nul_free (ps_limit x)
     \<and> in_s32 (ps_priority x) \<and> in_s32 (ps_sample_period x) \<and> in_s32 (ps_temp x) \<and> in_s32 (ps_domain x)
     \<and> in_s32 (ps_control_knob x) \<and> in_s32 (ps_step_size x) \<and> in_s32 (ps_limit_coeff x) \<and> in_s32 (ps_unlimit_coeff x)"

lemma step_int:
  assumes "remains len buf off (enc_int i @ t)" "remains len buf (off + 12) t \<Longrightarrow> f (word_of_int i) (off + 12) = r"
  shows "bind_r (get_uint64 len buf off) (\<lambda>(x, off'). f x off') = r"
  by (rule step_uint64 [OF assms(1) [unfolded enc_int_def]]) (rule assms(2))

lemma psv_limit_at:
  assumes "remains len buf off (enc_str s @ t)" "nul_free s"
  shows "psv_limit len buf off = Inr (s, off + 13 + int (length s))"
proof -
  have "load 4 buf off = Inr 8" using remains_load [of len buf off "[]" 4 8] assms(1) by (simp add: enc_str_def)
  moreover have "0 \<le> off" "off + 13 + int (length s) \<le> len" "len \<le> INT_MAX - 64" using assms by (auto simp: remains_def)
  ultimately have "get_type len buf off = Inr 8" by (simp add: get_type_def s32_small INT_MAX_def)
  then show ?thesis using get_string_obj_at [OF assms] by (simp add: psv_limit_def)
qed

lemma step_limit:
  assumes "remains len buf off (enc_str s @ t)" "nul_free s"
    "remains len buf (off + 13 + int (length s)) t \<Longrightarrow> f s (off + 13 + int (length s)) = r"
  shows "bind_r (psv_limit len buf off) (\<lambda>(x, off'). f x off') = r"
  using psv_limit_at [OF assms(1,2)] remains_next [OF assms(1)] assms(3) by (simp add: ac_simps)

lemma return_skip:
  assumes "remains len buf off (enc_int i @ t)" "x = y" "off + 12 = end"
  shows "Inr (x, skip12 off) = Inr (y, end)"
  using skip12_at(1) [OF assms(1)] assms(2,3) by simp

lemma psvt_entry_at:
  assumes "ok_psv x" "remains len buf off (enc_psv x @ t)"
  shows "psvt_entry len buf off = Inr (x, off + int (length (enc_psv x)))"
proof -
  have s: "nul_free (ps_source x)" "nul_free (ps_target x)" "nul_free (ps_limit x)" using assms(1) by (simp_all add: ok_psv_def)
  show ?thesis
    using assms(2) unfolding psvt_entry_def enc_psv_def append_assoc
    apply (rule step_string_obj [OF _ s(1)])
    apply (rule step_string_obj [OF _ s(2)], assumption)
    apply (rule step_int, assumption)+
    apply (rule step_limit [OF _ s(3)], assumption)
    apply (rule step_int, assumption)+
    apply (rule return_skip, assumption)
    using assms(1) by (auto simp: ok_psv_def)
qed

interpretation psvt: table_codec enc_psv psvt_entry ok_psv
  by unfold_locales (simp_all add: psvt_entry_at, simp add: enc_psv_def)

text \<open>A passive table (PSVT) is parsed to exactly the entries it was written from, under its
  name.\<close>

theorem psvt_roundtrip:
  assumes "list_all ok_psv xs" "tab = enc_u64 2 @ concat (map enc_psv xs)" "int (length tab) \<le> INT_MAX - 64"
  shows "parse_psvt (Some name) (tab @ [CHR 0x00]) (int (length tab)) g =
    (g\<lparr>gd_cur_buf_len := int (length tab), gd_psvts := gd_psvts g @ [\<lparr>pv_name = name, pv_psvs = xs\<rparr>]\<rparr>, Inr 0)"
proof -
  have "to_int 2 = 2" by (simp add: to_int_def s32_small)
  then show ?thesis using psvt.table_reads_back [OF assms] by (simp add: parse_psvt_def cur_len_def or_default_def)
qed

definition demo_psv :: psv where
  "demo_psv = \<lparr>ps_name = [], ps_source = ''TCPU'', ps_target = ''SEN1'', ps_priority = 100, ps_sample_period = 50,
     ps_temp = 3232, ps_domain = 9, ps_control_knob = 65536, ps_limit = ''MIN'', ps_step_size = -1,
     ps_limit_coeff = 10, ps_unlimit_coeff = 10\<rparr>"

theorem psvt_roundtrip_witness:
  "parse_psvt (Some ''IETM.D0'') ((enc_u64 2 @ concat (map enc_psv [demo_psv])) @ [CHR 0x00])
     (int (length (enc_u64 2 @ concat (map enc_psv [demo_psv])))) cthd_gddv =
   (cthd_gddv\<lparr>gd_cur_buf_len := int (length (enc_u64 2 @ concat (map enc_psv [demo_psv]))),
      gd_psvts := gd_psvts cthd_gddv @ [\<lparr>pv_name = ''IETM.D0'', pv_psvs = [demo_psv]\<rparr>]\<rparr>, Inr 0)"
proof (rule psvt_roundtrip [OF _ refl])
  show "list_all ok_psv [demo_psv]" by (simp add: demo_psv_def ok_psv_def nul_free_def in_s32_def)
  show "int (length (enc_u64 2 @ concat (map enc_psv [demo_psv]))) \<le> INT_MAX - 64"
    by (simp add: demo_psv_def enc_psv_def INT_MAX_def)
qed

section \<open>Conditions\<close>

lemma to_enum_of_int:
  "0 \<le> i \<Longrightarrow> i < 256 \<Longrightarrow> to_enum8 (word_of_int i) = i"
  "0 \<le> i \<Longrightarrow> i < 4294967296 \<Longrightarrow> to_enum32 (word_of_int i) = i"
  by (simp_all add: to_enum8_def to_enum32_def uint_word_of_int)

definition in_s64 :: "int \<Rightarrow> bool" where
  "in_s64 i \<longleftrightarrow> - (2 ^ 63) \<le> i \<and> i < 2 ^ 63"

lemma sint_of_int: "in_s64 i \<Longrightarrow> sint (word_of_int i :: u64) = i"
  by (simp add: in_s64_def signed_of_int signed_take_bit_int_eq_self)

text \<open>A condition of version 2. The fields the parser skips are written as zeros.\<close>

definition enc_for :: "condition \<Rightarrow> string" where
  "enc_for c = enc_int 0 @ enc_str [] @ enc_int 0 @ enc_int (cn_time_comparison c) @ enc_int (cn_time c) @ enc_int 0"

definition enc_operation :: "condition \<Rightarrow> string" where
  "enc_operation c = enc_int (cn_operation c) @ (if cn_operation c = FOR_op then enc_for c else [])"

definition enc_test :: "condition \<Rightarrow> string" where
  "enc_test c = enc_int (cn_condition c) @ enc_str (cn_device c) @ enc_int 0 @ enc_int (cn_comparison c) @ enc_int (cn_argument c)"

fun enc_conds :: "condition list \<Rightarrow> string" where
  "enc_conds [] = []"
| "enc_conds [c] = enc_test c"
| "enc_conds (c # d # cs) = enc_test c @ enc_operation c @ enc_conds (d # cs)"

fun places :: "condition list \<Rightarrow> int" where
  "places [] = 0"
| "places (c # cs) = (if cn_operation c = FOR_op then 2 else 1) + places cs"

definition ok_cond :: "int \<Rightarrow> condition \<Rightarrow> bool" where
  "ok_cond target c \<longleftrightarrow>
     0 \<le> cn_condition c \<and> cn_condition c < 4294967296 \<and> nul_free (cn_device c) \<and> 0 \<le> cn_comparison c \<and> cn_comparison c < 256
     \<and> in_s32 (cn_argument c) \<and> 0 \<le> cn_operation c \<and> cn_operation c < 256 \<and> cn_target c = target \<and> cn_state c = 0
     \<and> cn_state_entry_time c = 0 \<and> cn_ignore_condition c = 0
     \<and> (if cn_operation c = FOR_op then 0 \<le> cn_time_comparison c \<and> cn_time_comparison c < 256 \<and> in_s64 (cn_time c)
        else cn_time_comparison c = 0 \<and> cn_time c = 0)"

text \<open>The last condition of a set has no operation.\<close>

fun ok_conds :: "int \<Rightarrow> condition list \<Rightarrow> bool" where
  "ok_conds target [] = False"
| "ok_conds target [c] = (ok_cond target c \<and> cn_operation c = 0)"
| "ok_conds target (c # d # cs) = (ok_cond target c \<and> ok_conds target (d # cs))"

definition enc_set :: "condition list \<Rightarrow> string" where
  "enc_set cs = enc_int (cn_target (hd cs)) @ enc_int (places cs) @ enc_conds cs"

definition ok_set :: "condition list \<Rightarrow> bool" where
  "ok_set cs \<longleftrightarrow> cs \<noteq> [] \<and> ok_conds (cn_target (hd cs)) cs \<and> in_s32 (cn_target (hd cs)) \<and> cn_target (hd cs) \<noteq> -1
     \<and> in_s32 (places cs)"

lemma step_skip_int:
  assumes "remains len buf off (enc_int i @ enc_int j @ t)"
    "remains len buf (off + 24) t \<Longrightarrow> f (word_of_int j) (off + 24) = r"
  shows "bind_r (get_uint64 len buf (skip12 off)) (\<lambda>(x, off'). f x off') = r"
proof -
  note s = skip12_at [OF assms(1)]
  show ?thesis unfolding s(1) [OF length_enc_int]
    by (rule step_int [OF s(2) [OF length_enc_int]]) (use assms(2) in \<open>simp add: ac_simps\<close>)
qed

lemma step_skip_string:
  assumes "remains len buf off (enc_int i @ enc_str s @ t)"
    "remains len buf (off + 25 + int (length s)) t \<Longrightarrow> f (off + 24) (off + 25 + int (length s)) = r"
  shows "bind_r (get_string len buf (skip12 off)) (\<lambda>(x, off'). f x off') = r"
proof -
  note s = skip12_at [OF assms(1)]
  show ?thesis unfolding s(1) [OF length_enc_int]
    by (rule step_string [OF s(2) [OF length_enc_int]]) (use assms(2) in \<open>simp add: ac_simps\<close>)
qed

lemma apct_for_at:
  assumes "remains len buf off (enc_for c @ t)" "0 \<le> cn_time_comparison c" "cn_time_comparison c < 256" "in_s64 (cn_time c)"
  shows "apct_for_v2 len buf i (c\<lparr>cn_time_comparison := 0, cn_time := 0\<rparr>) off = Inr ((c, i + 1), off + int (length (enc_for c)))"
  using assms(1) unfolding apct_for_v2_def enc_for_def append_assoc
  apply (rule step_skip_string)
  apply (rule step_skip_int, assumption)
  apply (rule step_int, assumption)
  apply (rule return_skip, assumption)
  using assms(2-4) by (simp_all add: to_enum_of_int sint_of_int)

lemma apct_test_at:
  assumes "ok_cond target c" "remains len buf off (enc_test c @ t)"
    and "remains len buf (off + int (length (enc_test c))) t \<Longrightarrow>
      f (c\<lparr>cn_operation := 0, cn_time_comparison := 0, cn_time := 0\<rparr>) (off + int (length (enc_test c))) = r"
  shows "bind_r (get_uint64 len buf off) (\<lambda>(cond, off).
     bind_r (get_string_obj len buf off) (\<lambda>(dev, off).
     bind_r (get_uint64 len buf (skip12 off)) (\<lambda>(cmp, off).
     bind_r (get_uint64 len buf off) (\<lambda>(arg, off).
       f ((new_condition target)\<lparr>cn_condition := to_enum32 cond, cn_device := dev,
                  cn_comparison := to_enum8 cmp, cn_argument := to_int arg\<rparr>) off)))) = r"
proof -
  have s: "nul_free (cn_device c)" using assms(1) by (simp add: ok_cond_def)
  have c: "new_condition target\<lparr>cn_condition := cn_condition c, cn_device := cn_device c, cn_comparison := cn_comparison c,
      cn_argument := cn_argument c\<rparr> = c\<lparr>cn_operation := 0, cn_time_comparison := 0, cn_time := 0\<rparr>"
    using assms(1) by (simp add: ok_cond_def new_condition_def)
  show ?thesis
    using assms(2) unfolding enc_test_def append_assoc
    apply (rule step_int)
    apply (rule step_string_obj [OF _ s], assumption)
    apply (rule step_skip_int, assumption)
    apply (rule step_int, assumption)
    using assms(1,3) by (simp add: ok_cond_def to_enum_of_int c enc_test_def ac_simps)
qed

lemma apct_last_at:
  assumes "ok_cond target c" "cn_operation c = 0" "\<not> i < to_int (cnt - 1)" "remains len buf off (enc_test c @ t)"
  shows "apct_condition_v2 len buf cnt target i off = Inr ((c, i), off + int (length (enc_test c)))"
proof -
  have "c\<lparr>cn_operation := 0, cn_time_comparison := 0, cn_time := 0\<rparr> = c"
    using assms(1,2) by (cases c) (simp add: ok_cond_def FOR_op_def)
  then show ?thesis
    using apct_test_at [OF assms(1,4), of "\<lambda>c off. Inr ((c, i), off)"] assms(3)
    by (simp add: apct_condition_v2_def Let_def)
qed

lemma apct_operation_at:
  assumes "ok_cond target c" "remains len buf off (enc_operation c @ t)"
  shows "bind_r (get_uint64 len buf off) (\<lambda>(op, off).
      if to_enum8 op = FOR_op
      then apct_for_v2 len buf i (c\<lparr>cn_operation := to_enum8 op, cn_time_comparison := 0, cn_time := 0\<rparr>) off
      else Inr ((c\<lparr>cn_operation := to_enum8 op, cn_time_comparison := 0, cn_time := 0\<rparr>, i), off)) =
    Inr ((c, i + places [c] - 1), off + int (length (enc_operation c)))"
proof -
  have op: "to_enum8 (word_of_int (cn_operation c)) = cn_operation c" using assms(1) by (simp add: ok_cond_def to_enum_of_int)
  show ?thesis
  proof (cases "cn_operation c = FOR_op")
    case True
    have e: "c\<lparr>cn_operation := FOR_op, cn_time_comparison := 0, cn_time := 0\<rparr> = c\<lparr>cn_time_comparison := 0, cn_time := 0\<rparr>"
      using True by (cases c) simp
    have r: "remains len buf off (enc_int (cn_operation c) @ enc_for c @ t)"
      using assms(2) True by (simp add: enc_operation_def)
    have f: "apct_for_v2 len buf i (c\<lparr>cn_time_comparison := 0, cn_time := 0\<rparr>) (off + 12) =
        Inr ((c, i + 1), off + 12 + int (length (enc_for c)))"
      using assms(1) True remains_next [OF r] by (intro apct_for_at) (auto simp: ok_cond_def)
    show ?thesis
      by (rule step_int [OF r]) (simp only: op [unfolded True] True e f simp_thms if_True, simp add: enc_operation_def True)
  next
    case False
    then have "c\<lparr>cn_time_comparison := 0, cn_time := 0\<rparr> = c" "c\<lparr>cn_operation := cn_operation c\<rparr> = c"
      using assms(1) by (cases c, simp add: ok_cond_def)+
    then show ?thesis using assms(2) False op
      unfolding enc_operation_def append_assoc by (intro step_int) auto
  qed
qed

lemma apct_mid_at:
  assumes "ok_cond target c" "i < to_int (cnt - 1)" "remains len buf off (enc_test c @ enc_operation c @ t)"
  shows "apct_condition_v2 len buf cnt target i off =
    Inr ((c, i + places [c] - 1), off + int (length (enc_test c)) + int (length (enc_operation c)))"
proof -
  have n: "remains len buf (off + int (length (enc_test c))) (enc_operation c @ t)" by (rule remains_next [OF assms(3)])
  have e: "(c\<lparr>cn_operation := 0, cn_time_comparison := 0, cn_time := 0\<rparr>)\<lparr>cn_operation := x\<rparr> =
      c\<lparr>cn_operation := x, cn_time_comparison := 0, cn_time := 0\<rparr>" for x by simp
  show ?thesis
    using apct_test_at [OF assms(1,3), of "\<lambda>c off. bind_r (get_uint64 len buf off) (\<lambda>(op, off).
        if to_enum8 op = FOR_op then apct_for_v2 len buf i (c\<lparr>cn_operation := to_enum8 op\<rparr>) off
        else Inr ((c\<lparr>cn_operation := to_enum8 op\<rparr>, i), off))"] apct_operation_at [OF assms(1) n, of i] assms(2)
    unfolding e by (simp add: apct_condition_v2_def Let_def)
qed

lemma places_pos: "cs \<noteq> [] \<Longrightarrow> 1 \<le> places cs"
proof (induction cs)
  case (Cons c cs)
  then show ?case by (cases cs) auto
qed simp

lemma apct_set_at:
  assumes "ok_conds target cs" "remains len buf off (enc_conds cs @ t)" "i + places cs = to_int cnt"
    "to_int (cnt - 1) = to_int cnt - 1" "length cs \<le> n"
  shows "apct_set n (apct_condition_v2 len buf cnt target) len (to_int cnt) i off = Inr (cs, off + int (length (enc_conds cs)))"
  using assms
proof (induction cs arbitrary: i off n rule: enc_conds.induct)
  case 1
  then show ?case by simp
next
  case (2 c)
  then obtain m where n: "n = Suc m" by (cases n) auto
  have p: "places [c] = 1" using 2 by (simp add: FOR_op_def)
  have r: "remains len buf off (enc_test c @ t)" using 2 by simp
  have "off < len" using r by (auto simp: remains_def enc_test_def)
  moreover have "apct_condition_v2 len buf cnt target i off = Inr ((c, i), off + int (length (enc_test c)))"
    using 2 p r by (intro apct_last_at) auto
  ultimately show ?case using 2 p n by (simp add: apct_set.simps)
next
  case (3 c d cs)
  then obtain m where n: "n = Suc m" by (cases n) auto
  have r: "remains len buf off (enc_test c @ enc_operation c @ enc_conds (d # cs) @ t)" using 3 by simp
  have pos: "1 \<le> places (d # cs)" by (rule places_pos) simp
  have off: "off < len" using r by (auto simp: remains_def enc_test_def)
  have c: "apct_condition_v2 len buf cnt target i off =
      Inr ((c, i + places [c] - 1), off + int (length (enc_test c)) + int (length (enc_operation c)))"
    using 3 r pos by (intro apct_mid_at) (auto split: if_splits)
  have n1: "remains len buf (off + int (length (enc_test c)) + int (length (enc_operation c))) (enc_conds (d # cs) @ t)"
    by (rule remains_next [OF remains_next [OF r]])
  have s: "apct_set m (apct_condition_v2 len buf cnt target) len (to_int cnt) (i + places [c])
      (off + int (length (enc_test c)) + int (length (enc_operation c))) =
      Inr (d # cs, off + int (length (enc_test c)) + int (length (enc_operation c)) + int (length (enc_conds (d # cs))))"
    using 3 n n1 by (intro 3) auto
  have "i < to_int cnt" using 3 pos by (auto split: if_splits)
  then show ?case using off c s n by (subst apct_set.simps) (simp del: places.simps)
qed

lemma apct_entry_at:
  assumes "ok_set cs" "remains len buf off (enc_set cs @ t)"
  shows "apct_entry_v2 len buf off = Inr (cs, off + int (length (enc_set cs)))"
proof -
  have p: "in_s32 (places cs)" "1 \<le> places cs" using assms(1) places_pos [of cs] by (auto simp: ok_set_def)
  then have cnt: "to_int (word_of_int (places cs)) = places cs" by simp
  have "in_s32 (places cs - 1)" using p by (auto simp: in_s32_def)
  then have "to_int (word_of_int (places cs - 1)) = places cs - 1" by (rule to_int_of_int)
  moreover have "word_of_int (places cs - 1) = (word_of_int (places cs) - 1 :: u64)" by simp
  ultimately have cnt1: "to_int (word_of_int (places cs) - 1) = places cs - 1" by metis
  have l: "int (length xs) \<le> places xs" for xs by (induction xs) auto
  show ?thesis
    using assms(2) unfolding apct_entry_v2_def enc_set_def append_assoc
    apply (rule step_int)
    using assms(1) apply (simp add: ok_set_def)
    apply (rule step_int, assumption)
    using apct_set_at [of "cn_target (hd cs)" cs len buf "off + 24" t 0 "word_of_int (places cs)" "nat (places cs)"] l [of cs] cnt cnt1
    by (simp add: ac_simps le_nat_iff)
qed

interpretation apct: table_codec enc_set apct_entry_v2 ok_set
  by unfold_locales (simp_all add: apct_entry_at, simp add: enc_set_def)

text \<open>C20. A table of condition sets (APCT, version 2) is parsed to exactly the sets it was written
  from: the conditions in order, each with its target, and with the time it must hold where it has
  one.\<close>

theorem apct_roundtrip:
  assumes "list_all ok_set css" "tab = enc_u64 2 @ concat (map enc_set css)" "int (length tab) \<le> INT_MAX - 64"
  shows "parse_apct (tab @ [CHR 0x00]) (int (length tab)) g =
    (g\<lparr>gd_cur_buf_len := int (length tab), gd_conditions := gd_conditions g @ css\<rparr>, Inr 0)"
  using apct.table_reads_back [OF assms] by (simp add: parse_apct_def cur_len_def)

definition demo_set :: "condition list" where
  "demo_set =
     [(new_condition 3)\<lparr>cn_condition := 17, cn_device := ''SEN1'', cn_comparison := 3, cn_argument := 3232, cn_operation := 2,
        cn_time_comparison := 3, cn_time := 10\<rparr>,
      (new_condition 3)\<lparr>cn_condition := 8, cn_comparison := 1\<rparr>]"

theorem apct_roundtrip_witness:
  "parse_apct ((enc_u64 2 @ concat (map enc_set [demo_set])) @ [CHR 0x00])
     (int (length (enc_u64 2 @ concat (map enc_set [demo_set])))) cthd_gddv =
   (cthd_gddv\<lparr>gd_cur_buf_len := int (length (enc_u64 2 @ concat (map enc_set [demo_set]))),
      gd_conditions := gd_conditions cthd_gddv @ [demo_set]\<rparr>, Inr 0)"
proof (rule apct_roundtrip [OF _ refl])
  show "list_all ok_set [demo_set]"
    by (simp add: demo_set_def ok_set_def ok_cond_def new_condition_def nul_free_def in_s32_def in_s64_def FOR_op_def)
  show "int (length (enc_u64 2 @ concat (map enc_set [demo_set]))) \<le> INT_MAX - 64"
    by (simp add: demo_set_def enc_set_def enc_test_def enc_operation_def enc_for_def new_condition_def INT_MAX_def)
qed

end
