(* ===== verification/Thd_GddvVaultProps.thy ===== *)
theory Thd_GddvVaultProps
  imports Thd_GddvCodec
begin

text \<open>
  What parsing a whole data vault amounts to: its keys are handed to their table parsers in the
  order of the vault, up to where the loop over the items stops.
\<close>

section \<open>A vault of keys\<close>

type_synonym item = "string \<times> string"

definition enc_key :: "item \<Rightarrow> string" where
  "enc_key x = le_bytes 4 0 @ le_bytes 4 (length (fst x)) @ fst x @ le_bytes 4 0 @ le_bytes 4 (length (snd x)) @ snd x"

definition enc_item :: "item \<Rightarrow> string" where
  "enc_item x = le_bytes 2 ESIFDV_ITEM_KEYS_REV0_SIGNATURE @ enc_key x"

definition vault :: "item list \<Rightarrow> string" where
  "vault xs = header_bytes sizeof_header 0x02000000 0 @ concat (map enc_item xs)"

text \<open>The specification: dispatch the keys one after the other while more than a header's length
  is left.\<close>

fun dispatch_all :: "int \<Rightarrow> int \<Rightarrow> item list \<Rightarrow> gddv \<Rightarrow> gddv \<times> (int \<times> int) result" where
  "dispatch_all sz off [] g = (g, Inr (THD_SUCCESS, off))"
| "dispatch_all sz off (x # xs) g =
     (if off + int sizeof_header < sz
      then (case dispatch_key (fst x) (snd x) g of (g', Inl f) \<Rightarrow> (g', Inl f)
            | (g', Inr _) \<Rightarrow> dispatch_all sz (off + int (length (enc_item x))) xs g')
      else (g, Inr (THD_SUCCESS, off)))"

lemma length_enc_key [simp]: "length (enc_key x) = 16 + length (fst x) + length (snd x)"
  by (simp add: enc_key_def)

lemma length_enc_item [simp]: "length (enc_item x) = 18 + length (fst x) + length (snd x)"
  by (simp add: enc_item_def)

lemma load_prefix: "v < 256 ^ n \<Longrightarrow> 0 < n \<Longrightarrow> load n (s @ le_bytes n v @ t) (int (length s)) = Inr v"
  by (rule load_at) auto

lemma counted_bytes_at:
  assumes "int (length s + 4 + length b) \<le> sz" "sz \<le> INT_MAX - 64" "z \<or> b \<noteq> []"
  shows "counted_bytes z (s @ le_bytes 4 (length b) @ b @ t) sz (int (length s)) = Inr (b, int (length s + 4 + length b))"
proof -
  have "load 4 (s @ le_bytes 4 (length b) @ b @ t) (int (length s)) = Inr (length b)"
    using assms by (intro load_prefix) (auto simp: INT_MAX_def)
  moreover have "nat (int (length s) + 4) = length s + 4" by simp
  ultimately show ?thesis using assms by (auto simp: counted_bytes_def Let_def load_bytes_def s32_small INT_MAX_def)
qed

lemma key_and_value_at:
  assumes "fst x \<noteq> []" "int (length (enc_key x)) \<le> sz" "sz \<le> INT_MAX - 64"
  shows "key_and_value (enc_key x @ t) sz = Inr (fst x, snd x, int (length (enc_key x)))"
proof -
  let ?b = "enc_key x @ t"
  have 1: "load 4 ?b 0 = Inr 0" using load_prefix [of 0 4 "[]"] by (simp add: enc_key_def)
  have 2: "counted_bytes False ?b sz 4 = Inr (fst x, 8 + int (length (fst x)))"
    using counted_bytes_at [of "le_bytes 4 0" "fst x" sz False] assms by (simp add: enc_key_def)
  have 3: "load 4 ?b (8 + int (length (fst x))) = Inr 0"
    using load_prefix [of 0 4 "le_bytes 4 0 @ le_bytes 4 (length (fst x)) @ fst x" "le_bytes 4 (length (snd x)) @ snd x @ t"]
    by (simp add: enc_key_def)
  have 4: "counted_bytes True ?b sz (12 + int (length (fst x))) = Inr (snd x, int (length (enc_key x)))"
    using counted_bytes_at [of "le_bytes 4 0 @ le_bytes 4 (length (fst x)) @ fst x @ le_bytes 4 0" "snd x" sz True t] assms
    by (simp add: enc_key_def)
  have "s32 (8 + int (length (fst x)) + 8) = 16 + int (length (fst x))"
    using assms by (simp add: s32_small INT_MAX_def)
  then show ?thesis using 1 2 3 4 assms by (simp add: key_and_value_def)
qed

lemma dispatch_key_status: "dispatch_key key val g = (g', Inr res) \<Longrightarrow> res = 0"
  by (auto simp: dispatch_key_def thd_codes dest: run_parsers_status split: option.splits)

lemma gddv_items_at:
  assumes "list_all (\<lambda>x. fst x \<noteq> []) xs" "drop (nat off) buf = concat (map enc_item xs)" "0 \<le> off"
    "off + int (length (concat (map enc_item xs))) = sz" "sz \<le> INT_MAX - 64" "length xs \<le> n"
  shows "gddv_items dec n 2 (int sizeof_header) buf sz off g = dispatch_all sz off xs g"
  using assms
proof (induction xs arbitrary: off n g)
  case Nil
  then show ?case by (cases n) (simp_all add: gddv_items.simps sizeof_header_def thd_codes)
next
  case (Cons x xs)
  then obtain m where n: "n = Suc m" by (cases n) auto
  show ?case
  proof (cases "off + int sizeof_header < sz")
    case False
    then show ?thesis by (simp add: n gddv_items.simps thd_codes)
  next
    case True
    have d: "drop (nat off) buf = le_bytes 2 ESIFDV_ITEM_KEYS_REV0_SIGNATURE @ enc_key x @ concat (map enc_item xs)"
      using Cons.prems(2) by (simp add: enc_item_def [of x])
    have sig: "load 2 buf off = Inr ESIFDV_ITEM_KEYS_REV0_SIGNATURE"
      using d Cons.prems(3) by (intro load_at) (auto simp: ESIFDV_ITEM_KEYS_REV0_SIGNATURE_def)
    have d2: "drop (nat (off + 2)) buf = enc_key x @ concat (map enc_item xs)"
      using arg_cong [OF d, of "drop 2"] Cons.prems(3) by (simp add: nat_add_distrib add.commute)
    have kv: "key_and_value (drop (nat (off + 2)) buf) (sz - (off + 2)) = Inr (fst x, snd x, int (length (enc_key x)))"
      unfolding d2 using Cons.prems by (intro key_and_value_at) auto
    have next_off: "s32 (off + 2 + int (length (enc_key x))) = off + int (length (enc_item x))"
      using Cons.prems by (simp add: s32_small INT_MAX_def)
    have "drop (nat (off + int (length (enc_item x)))) buf = concat (map enc_item xs)"
      using arg_cong [OF Cons.prems(2), of "drop (length (enc_item x))"] Cons.prems(3)
      by (simp add: nat_add_distrib add.commute del: length_enc_item)
    then have "gddv_items dec m 2 (int sizeof_header) buf sz (off + int (length (enc_item x))) g' =
        dispatch_all sz (off + int (length (enc_item x))) xs g'" for g'
      using Cons.prems n by (intro Cons.IH) auto
    then show ?thesis
      using True sig kv next_off
      by (auto simp: n gddv_items.simps parse_gddv_key_def bind_r_def thd_codes simp del: length_enc_item length_enc_key
          dest: dispatch_key_status split: prod.split sum.split)
  qed
qed

text \<open>C19. Parsing a data vault that holds keys and values hands each of them to its table parsers,
  in the order of the vault, and stops at the first exception. The loop ends as soon as no more
  than a header's length is left, so keys that start there are not looked at.\<close>

theorem vault_dispatches_keys:
  assumes "list_all (\<lambda>x. fst x \<noteq> []) xs" "int (length (vault xs)) \<le> INT_MAX - 64" "length xs < n"
  shows "parse_gddv dec n (vault xs) (int (length (vault xs))) g
    = dispatch_all (int (length (vault xs))) (int sizeof_header) xs g"
proof -
  obtain m where n: "n = Suc m" using assms(3) by (cases n) auto
  have "length (header_bytes sizeof_header 0x02000000 0) = sizeof_header" by (simp add: header_bytes_def sizeof_header_def)
  then have l: "length (vault xs) = sizeof_header + length (concat (map enc_item xs))"
    and d: "drop sizeof_header (vault xs) = concat (map enc_item xs)" by (simp_all add: vault_def)
  have h: "load_header (vault xs) = Inr \<lparr>hd_signature = ESIFDV_HEADER_SIGNATURE, hd_headersize = sizeof_header,
      hd_version = 0x02000000, hd_flags = 0\<rparr>"
    unfolding vault_def by (rule load_header_bytes) (simp_all add: sizeof_header_def)
  have "gddv_items dec m 2 (int sizeof_header) (vault xs) (int (length (vault xs))) (int sizeof_header) g
      = dispatch_all (int (length (vault xs))) (int sizeof_header) xs g"
    using assms n d by (intro gddv_items_at) (simp_all add: l)
  then show ?thesis
    using h l by (simp add: n parse_gddv.simps ESIFHDR_GET_MAJOR_def is_compressed_def)
qed

theorem vault_dispatches_keys_witness:
  "parse_gddv (\<lambda>_ _ _. (1, [])) 2 (vault [(''/shared/x'', ''abc'')]) (int (length (vault [(''/shared/x'', ''abc'')]))) cthd_gddv
    = dispatch_all (int (length (vault [(''/shared/x'', ''abc'')]))) (int sizeof_header) [(''/shared/x'', ''abc'')] cthd_gddv"
  by (rule vault_dispatches_keys) (simp_all add: vault_def header_bytes_def INT_MAX_def)

end
