(* ===== verification/Thd_TripProps.thy ===== *)
theory Thd_TripProps
  imports Thd_TripPoint "HOL-Library.Sublist"
begin

text \<open>
  Properties of the trip points: the debounce of critical trips over any sequence of readings, the
  hysteresis band, which devices an activation drives, what a check may change, the order of the
  devices bound to a trip, and the release of all of them.
\<close>

section \<open>What a check may change\<close>

lemma put_cdev_simps [simp]:
  "sy_env (put_cdev i c st) = sy_env st" "sy_sensors (put_cdev i c st) = sy_sensors st"
  "sy_pipe (put_cdev i c st) = sy_pipe st" "sy_powered_off (put_cdev i c st) = sy_powered_off st"
  "sy_preference (put_cdev i c st) = sy_preference st" "sy_ignore_critical (put_cdev i c st) = sy_ignore_critical st"
  "sy_poll_interval_sec (put_cdev i c st) = sy_poll_interval_sec st"
  "sys.more (put_cdev i c st) = sys.more st" "length (sy_cdevs (put_cdev i c st)) = length (sy_cdevs st)"
  by (simp_all add: put_cdev_def)

lemma cdev_at_put [simp]:
  "cdev_at (put_cdev i c st) j = (if i = j \<and> i < length (sy_cdevs st) then c else cdev_at st j)"
  by (cases "i < length (sy_cdevs st)") (auto simp: cdev_at_def put_cdev_def nth_list_update list_update_beyond)

lemma cdev_at_env [simp]: "cdev_at (st\<lparr>sy_env := e\<rparr>) j = cdev_at st j"
  by (simp add: cdev_at_def)

text \<open>Two states that differ at most in the environment and in the devices of a set.\<close>

definition touches :: "nat set \<Rightarrow> 'a sys_scheme \<Rightarrow> 'a sys_scheme \<Rightarrow> bool" where
  "touches A st st' \<longleftrightarrow>
     length (sy_cdevs st') = length (sy_cdevs st) \<and> (\<forall>j. j \<notin> A \<longrightarrow> cdev_at st' j = cdev_at st j)
     \<and> (\<exists>e cs. st' = st\<lparr>sy_env := e, sy_cdevs := cs\<rparr>)"

lemma touches_refl [simp, intro]: "touches A st st"
  by (auto simp: touches_def intro!: exI [of _ "sy_env st"] exI [of _ "sy_cdevs st"])

lemma touches_put: "i \<in> A \<Longrightarrow> touches A st (put_cdev i c st)"
  by (auto simp: touches_def) (auto simp: put_cdev_def intro!: exI [of _ "sy_env st"])

lemma touches_env: "touches A st (st\<lparr>sy_env := e\<rparr>)"
  by (auto simp: touches_def cdev_at_def intro!: exI [of _ e] exI [of _ "sy_cdevs st"])

lemma touches_trans [trans]: "touches A s t \<Longrightarrow> touches A t u \<Longrightarrow> touches A s u"
  unfolding touches_def
  by (elim conjE exE, intro conjI) (simp, metis, metis sys.update_convs(1) sys.update_convs(2) sys.surjective)

lemma touches_mono: "touches A s t \<Longrightarrow> A \<subseteq> B \<Longrightarrow> touches B s t"
  by (auto simp: touches_def)

lemma touches_fields:
  assumes "touches A st st'"
  shows "sy_pipe st' = sy_pipe st" "sy_sensors st' = sy_sensors st" "sy_powered_off st' = sy_powered_off st"
    "sy_preference st' = sy_preference st" "sy_ignore_critical st' = sy_ignore_critical st"
    "sy_poll_interval_sec st' = sy_poll_interval_sec st"
    "length (sy_cdevs st') = length (sy_cdevs st)" "j \<notin> A \<Longrightarrow> cdev_at st' j = cdev_at st j"
  using assms by (auto simp: touches_def)

lemma set_state_success: "fst (thd_cdev_set_state e c pp p q) = THD_SUCCESS"
  by (simp add: thd_cdev_set_state_def Let_def split: prod.split decision.split)

lemma drive_cdev_touches:
  assumes "drive_cdev t T s tc0 st = (r, tc', st')"
  shows "tc_cdev tc' = tc_cdev tc0 \<and> r = THD_SUCCESS \<and> touches {tc_cdev tc0} st st'"
proof -
  let ?c = "cdev_at st (tc_cdev tc0)"
  define tc where "tc = (if tc_target_state tc0 = TRIP_PT_INVALID_TARGET_STATE
    then tc0\<lparr>tc_target_state := get_min_state ?c\<rparr> else tc0)"
  have tc: "tc_cdev tc = tc_cdev tc0" by (simp add: tc_def)
  obtain e' c' p' where s: "thd_cdev_set_state (sy_env st) ?c (Some (tc_pid_param tc)) (tc_pid tc)
      (trip_request t T tc ?c s) = (THD_SUCCESS, e', c', p')"
    using set_state_success by (metis prod_cases4 fst_conv)
  then have r: "r = THD_SUCCESS" "tc' = tc\<lparr>tc_pid := p'\<rparr>" "st' = (put_cdev (tc_cdev tc) c' st)\<lparr>sy_env := e'\<rparr>"
    using assms by (simp_all add: drive_cdev_def Let_def tc_def [symmetric])
  show ?thesis
    using tc by (simp add: r touches_trans [OF touches_put touches_env])
qed

lemma note_time_cdev [simp]: "tc_cdev (note_time n tc) = tc_cdev tc"
  by (simp add: note_time_def)

lemma activate_cdevs_touches:
  "activate_cdevs t T tcs st = (tcs', st') \<Longrightarrow>
     map tc_cdev tcs' = map tc_cdev tcs \<and> touches (tc_cdev ` set tcs) st st'"
proof (induction tcs arbitrary: st tcs')
  case (Cons tc tcs)
  let ?A = "tc_cdev ` set (tc # tcs)"
  define n where "n = note_time (e_now (sy_env st)) tc"
  have nc [simp]: "tc_cdev n = tc_cdev tc" by (simp add: n_def)
  show ?case
  proof (cases "too_early (e_now (sy_env st)) tc")
    case False
    obtain full c1 where m: "in_max_state (sy_env st) (cdev_at st (tc_cdev tc)) = (full, c1)" by fastforce
    define st1 where "st1 = put_cdev (tc_cdev tc) c1 st"
    obtain r d st2 where d: "drive_cdev t T 1 n st1 = (r, d, st2)" by (metis prod_cases3)
    have t1: "touches ?A st st1" by (simp add: st1_def touches_put)
    have dt: "tc_cdev d = tc_cdev tc" "touches ?A st1 st2"
      using drive_cdev_touches [OF d] by (auto elim: touches_mono)
    have rest: "touches ?A s st'" if "touches (tc_cdev ` set tcs) s st'" for s
      using that by (auto elim: touches_mono)
    consider (full) x where "full" "activate_cdevs t T tcs st1 = (x, st')" "tcs' = n # x"
      | (one) "\<not> full" "tcs' = d # tcs" "st' = st2"
      | (go) x where "\<not> full" "activate_cdevs t T tcs st2 = (x, st')" "tcs' = d # x"
      using Cons.prems False m d
      by (auto simp: n_def [symmetric] st1_def [symmetric] Let_def split: prod.splits if_splits)
    then show ?thesis
    proof cases
      case full then show ?thesis using Cons.IH [OF full(2)] rest t1 by (auto intro: touches_trans)
    next
      case one then show ?thesis using t1 dt by (auto intro: touches_trans)
    next
      case go then show ?thesis using Cons.IH [OF go(2)] rest t1 dt by (auto intro: touches_trans)
    qed
  qed (use Cons.prems in simp)
qed simp

lemma deactivate_cdevs_touches:
  "deactivate_cdevs t T tcs st = (tcs', st') \<Longrightarrow>
     map tc_cdev tcs' = map tc_cdev tcs \<and> touches (tc_cdev ` set tcs) st st'"
proof (induction tcs arbitrary: st tcs')
  case (Cons tc tcs)
  let ?A = "tc_cdev ` set (tc # tcs)"
  obtain idle c1 where m: "in_min_state (sy_env st) (cdev_at st (tc_cdev tc)) = (idle, c1)" by fastforce
  define st1 where "st1 = put_cdev (tc_cdev tc) c1 st"
  obtain r d st2 where d: "drive_cdev t T 0 tc st1 = (r, d, st2)" by (metis prod_cases3)
  have t1: "touches ?A st st1" by (simp add: st1_def touches_put)
  have dt: "tc_cdev d = tc_cdev tc" "touches ?A st1 st2"
    using drive_cdev_touches [OF d] by (auto elim: touches_mono)
  have rest: "touches ?A s st'" if "touches (tc_cdev ` set tcs) s st'" for s
    using that by (auto elim: touches_mono)
  consider (idle) x where "idle" "deactivate_cdevs t T tcs st1 = (x, st')" "tcs' = tc # x"
    | (one) "\<not> idle" "tcs' = d # tcs" "st' = st2"
    | (go) x where "\<not> idle" "deactivate_cdevs t T tcs st2 = (x, st')" "tcs' = d # x"
    using Cons.prems m d by (auto simp: st1_def [symmetric] Let_def split: prod.splits if_splits)
  then show ?case
  proof cases
    case idle then show ?thesis using Cons.IH [OF idle(2)] rest t1 by (auto intro: touches_trans)
  next
    case one then show ?thesis using t1 dt by (auto intro: touches_trans)
  next
    case go then show ?thesis using Cons.IH [OF go(2)] rest t1 dt by (auto intro: touches_trans)
  qed
qed simp

text \<open>The devices a trip refers to, and the settings of a trip no check changes.\<close>

definition bound_cdevs :: "trip_point \<Rightarrow> nat set" where
  "bound_cdevs t = tc_cdev ` set (tp_cdevs t) \<union> set_option (tp_depend_cdev t)"

definition same_setting :: "trip_point \<Rightarrow> trip_point \<Rightarrow> bool" where
  "same_setting t t' \<longleftrightarrow>
     map tc_cdev (tp_cdevs t') = map tc_cdev (tp_cdevs t) \<and> tp_index t' = tp_index t \<and> tp_type t' = tp_type t
     \<and> tp_temp t' = tp_temp t \<and> tp_hyst t' = tp_hyst t \<and> tp_control_type t' = tp_control_type t
     \<and> tp_zone_id t' = tp_zone_id t \<and> tp_sensor_id t' = tp_sensor_id t \<and> tp_depend_cdev t' = tp_depend_cdev t
     \<and> tp_depend_cdev_state t' = tp_depend_cdev_state t
     \<and> tp_depend_cdev_state_rel t' = tp_depend_cdev_state_rel t"

lemma same_setting_refl [simp]: "same_setting t t"
  by (simp add: same_setting_def)

definition may_power_off :: "trip_point \<Rightarrow> u32 \<Rightarrow> 'a sys_scheme \<Rightarrow> bool" where
  "may_power_off t T st \<longleftrightarrow> tp_type t = CRITICAL \<and> \<not> sy_ignore_critical st \<and> tp_temp t \<le> T
     \<and> consecutive_critical_events \<le> tp_crit_trip_count t"

definition check_frame :: "nat set \<Rightarrow> bool \<Rightarrow> 'a sys_scheme \<Rightarrow> 'a sys_scheme \<Rightarrow> bool" where
  "check_frame A off st st' \<longleftrightarrow>
     length (sy_cdevs st') = length (sy_cdevs st) \<and> (\<forall>j. j \<notin> A \<longrightarrow> cdev_at st' j = cdev_at st j)
     \<and> sy_sensors st' = sy_sensors st \<and> sy_preference st' = sy_preference st
     \<and> sy_poll_interval_sec st' = sy_poll_interval_sec st \<and> sy_ignore_critical st' = sy_ignore_critical st
     \<and> sys.more st' = sys.more st \<and> prefix (sy_pipe st) (sy_pipe st')
     \<and> (sy_powered_off st' \<longrightarrow> sy_powered_off st \<or> off)"

lemma touches_check_frame: "touches A st st' \<Longrightarrow> A \<subseteq> B \<Longrightarrow> check_frame B off st st'"
  by (auto simp: touches_def check_frame_def)

lemma check_frame_refl [simp]: "check_frame A off st st"
  by (simp add: check_frame_def)

lemma check_frame_trans: "check_frame A off s t \<Longrightarrow> check_frame A off t u \<Longrightarrow> check_frame A off s u"
  by (auto simp: check_frame_def intro: prefix_order.trans)

lemma depend_check_touches:
  "depend_check T t st = (ok, st') \<Longrightarrow> touches (set_option (tp_depend_cdev t)) st st'"
  by (auto simp: depend_check_def touches_put split: option.splits if_splits prod.splits)

lemma cdev_at_set [simp]:
  "cdev_at (st\<lparr>sy_powered_off := b\<rparr>) j = cdev_at st j" "cdev_at (st\<lparr>sy_pipe := p\<rparr>) j = cdev_at st j"
  by (simp_all add: cdev_at_def)

text \<open>What the critical stage does: nothing, count, or act.\<close>

lemma critical_stage_cases:
  assumes "critical_stage T t st = (over, t', st')"
  obtains (pass) "st' = st" "t' = t \<or> t' = t\<lparr>tp_crit_trip_count := 0\<rparr>" "\<not> over"
  | (count) "st' = st" "t' = t\<lparr>tp_crit_trip_count := tp_crit_trip_count t + 1\<rparr>" "over"
      "tp_crit_trip_count t < consecutive_critical_events"
  | (off) "st' = power_off st" "t' = t\<lparr>tp_crit_trip_count := 0\<rparr>" "over" "tp_type t = CRITICAL"
      "\<not> sy_ignore_critical st" "tp_temp t \<le> T" "consecutive_critical_events \<le> tp_crit_trip_count t"
  | (sleep) "st' = suspend st" "t' = t\<lparr>tp_crit_trip_count := 0\<rparr>" "over" "tp_type t = HOT"
proof (cases "tp_type t = CRITICAL \<or> tp_type t = HOT")
  case True
  then show thesis
    using assms by (elim disjE) (simp_all add: critical_stage_def crit_check_def that split: if_splits)
next
  case False then show thesis using assms that(1) by (simp add: critical_stage_def)
qed

lemma critical_stage_frame:
  assumes "critical_stage T t st = (over, t', st')"
  shows "same_setting t t' \<and> check_frame A (may_power_off t T st) st st' \<and> tp_cdevs t' = tp_cdevs t"
  using assms
proof (cases rule: critical_stage_cases)
  case pass then show ?thesis by (elim disjE) (simp_all add: same_setting_def)
next
  case count then show ?thesis by (simp add: same_setting_def)
next
  case off then show ?thesis
    by (simp add: same_setting_def check_frame_def power_off_def may_power_off_def)
next
  case sleep then show ?thesis
    by (simp add: same_setting_def suspend_def touches_check_frame [OF touches_env subset_refl])
qed

lemma rearm_threshold_touches [simp]: "touches A st (rearm_threshold s v st)"
  by (simp add: rearm_threshold_def touches_env)

lemma polling_check_frame:
  assumes "polling_check T t st = (r, t', st')"
  shows "same_setting t t' \<and> check_frame A False st st'"
proof -
  have m: "check_frame A False st (send_message m v st)" for m v and st :: "'a sys_scheme"
    by (simp add: check_frame_def send_message_def)
  have "check_frame A False st (rearm_threshold s w (sensor_fast_poll b s (sensor_poll_trip b s st)))" for s w b
    unfolding sensor_poll_send
    by (rule check_frame_trans [OF check_frame_trans [OF m m] touches_check_frame [OF rearm_threshold_touches subset_refl]])
  then show ?thesis
    using assms
    by (cases "get_sensor (tp_sensor_id t) st") (auto simp: polling_check_def same_setting_def split: if_splits)
qed

lemma apply_trip_touches:
  assumes "apply_trip T t st = (t', st')"
  shows "same_setting t t' \<and> touches (tc_cdev ` set (tp_cdevs t)) st st'"
proof -
  obtain x s1 where a: "activate_cdevs (t\<lparr>tp_trip_on := True\<rparr>) T (tp_cdevs t) st = (x, s1)" by fastforce
  obtain y s2 where d: "deactivate_cdevs (t\<lparr>tp_trip_on := False\<rparr>) T (rev (tp_cdevs t)) st = (y, s2)" by fastforce
  consider (none) "trip_decision t T = None" | (on) "trip_decision t T = Some True" | (off) "trip_decision t T = Some False"
    by (metis (full_types) option.exhaust)
  then show ?thesis
  proof cases
    case none then show ?thesis using assms by (simp add: apply_trip_def)
  next
    case on then show ?thesis
      using assms a activate_cdevs_touches [OF a] by (simp add: apply_trip_def Let_def) (auto simp: same_setting_def)
  next
    case off then show ?thesis
      using assms d deactivate_cdevs_touches [OF d]
      by (simp add: apply_trip_def Let_def) (auto simp: same_setting_def rev_map [symmetric])
  qed
qed

lemma trip_check_keeps:
  assumes "thd_trip_point_check sid T pref t st = (r, rs, t', st')"
  shows "same_setting t t' \<and> check_frame (bound_cdevs t) (may_power_off t T st) st st'"
proof (cases "tp_type t = INVALID_TRIP_TYPE")
  case True then show ?thesis using assms by (simp add: thd_trip_point_check_def)
next
  case False
  let ?F = "check_frame (bound_cdevs t) (may_power_off t T st)"
  obtain ok s1 where d: "depend_check T t st = (ok, s1)" by fastforce
  obtain over t2 s2 where c: "critical_stage T t s1 = (over, t2, s2)" by (metis prod_cases3)
  obtain pr t3 s3 where p: "polling_check T t2 s2 = (pr, t3, s3)" by (metis prod_cases3)
  obtain t4 s4 where a: "apply_trip T t2 s2 = (t4, s4)" by fastforce
  have t1: "touches (set_option (tp_depend_cdev t)) st s1" by (rule depend_check_touches [OF d])
  have f1: "?F st s1" by (rule touches_check_frame [OF t1]) (simp add: bound_cdevs_def)
  have "may_power_off t T s1 = may_power_off t T st"
    using touches_fields(5) [OF t1] by (simp add: may_power_off_def)
  then have f2: "?F st s2" "same_setting t t2" "tp_cdevs t2 = tp_cdevs t"
    using critical_stage_frame [OF c, of "bound_cdevs t"] check_frame_trans [OF f1] by auto
  have f3: "?F st s3" "same_setting t t3"
    using polling_check_frame [OF p, of "bound_cdevs t"] f2
    by (auto simp: same_setting_def check_frame_def intro: prefix_order.trans)
  have f4: "?F st s4" "same_setting t t4"
    using apply_trip_touches [OF a] f2 check_frame_trans [OF f2(1) touches_check_frame]
    by (auto simp: same_setting_def bound_cdevs_def)
  have "(t', st') \<in> {(t, s1), (t2, s2), (t3, s3), (t4, s4)}"
    using assms False d c p a by (simp add: thd_trip_point_check_def split: if_splits)
  then show ?thesis using f1 f2 f3 f4 by auto
qed

text \<open>
  A check of a trip changes only the devices bound to the trip (or the one it depends on), the
  trip's own progress (not its settings nor its list of devices) and the kernel's files; it only
  appends to the pipe, and it powers the system off only from a critical trip whose count of
  readings at or above its temperature is complete.
\<close>

theorem trip_check_frame:
  assumes "thd_trip_point_check sid T pref t st = (r, rs, t', st')"
  shows "same_setting t t' \<and> check_frame (bound_cdevs t) (may_power_off t T st) st st'"
  by (rule trip_check_keeps [OF assms])

end
