(* ===== verification/Thd_TripRuns.thy ===== *)
theory Thd_TripRuns
  imports Thd_TripProps
begin

text \<open>
  Trip points over sequences of readings: when a critical trip powers the system off, when a trip
  inside its hysteresis band acts, which device a sequential trip drives, how the devices of a trip
  are ordered, and that a reset releases them.
\<close>

section \<open>Sequences of readings\<close>

fun check_run :: "int \<Rightarrow> int \<Rightarrow> u32 list \<Rightarrow> trip_point \<Rightarrow> 'a sys_scheme \<Rightarrow> trip_point \<times> 'a sys_scheme" where
  "check_run sid pref [] t st = (t, st)"
| "check_run sid pref (T # Ts) t st =
     (case thd_trip_point_check sid T pref t st of (_, _, t', st') \<Rightarrow> check_run sid pref Ts t' st')"

text \<open>Does a run of readings that follows \<open>k\<close> readings at or above the temperature complete a
  sequence of five?\<close>

fun five_in_row :: "nat \<Rightarrow> bool list \<Rightarrow> bool" where
  "five_in_row k [] = False"
| "five_in_row k (b # bs) = (if b then (if k < 4 then five_in_row (k + 1) bs else True) else five_in_row 0 bs)"

lemma sublist_replicate_False:
  "k < n \<Longrightarrow> sublist (replicate n True) (replicate k True @ False # bs) \<longleftrightarrow> sublist (replicate n True) bs"
proof (induction k)
  case 0 then show ?case by (cases n) (simp_all add: sublist_Cons_right)
next
  case (Suc k)
  have p: "\<not> prefix (replicate n True) (replicate (Suc k) True @ False # bs)"
  proof
    assume "prefix (replicate n True) (replicate (Suc k) True @ False # bs)"
    then have "replicate n True ! Suc k = (replicate (Suc k) True @ False # bs) ! Suc k"
      using Suc.prems by (metis length_replicate nth_take prefixE append_eq_conv_conj)
    then show False using Suc.prems by (simp add: nth_append)
  qed
  show ?case using Suc p by (simp add: sublist_Cons_right)
qed

lemma five_in_row_sublist:
  "k \<le> 4 \<Longrightarrow> five_in_row k bs \<longleftrightarrow> sublist (replicate 5 True) (replicate k True @ bs)"
proof (induction bs arbitrary: k)
  case Nil
  then have "length (replicate k True) < length (replicate 5 True)" by simp
  then show ?case using sublist_length_le [of "replicate 5 True" "replicate k True"] by auto
next
  case (Cons b bs)
  show ?case
  proof (cases b)
    case True
    then have r: "replicate k True @ b # bs = replicate (k + 1) True @ bs"
      by (simp add: replicate_append_same)
    show ?thesis
    proof (cases "k < 4")
      case False
      then have "replicate (k + 1) True = replicate 5 True" using Cons.prems by (simp add: numeral_eq_Suc)
      then show ?thesis unfolding r using True False by (simp only: sublist_append_rightI) simp
    next
      case l: True then show ?thesis unfolding r using True Cons.IH [of "k + 1"] by simp
    qed
  next
    case False then show ?thesis
      using Cons.IH [of 0] Cons.prems sublist_replicate_False [of k 5 bs] by simp
  qed
qed

text \<open>A critical trip that listens to the sensor and depends on no device.\<close>

definition plain_trip :: "int \<Rightarrow> trip_point \<Rightarrow> bool" where
  "plain_trip sid t \<longleftrightarrow> tp_depend_cdev t = None \<and> (tp_sensor_id t = DEFAULT_SENSOR_ID \<or> tp_sensor_id t = sid)"

lemma check_critical:
  assumes "tp_type t = CRITICAL" "plain_trip sid t" "\<not> sy_ignore_critical st"
  shows "thd_trip_point_check sid T pref t st =
    (if tp_temp t \<le> T then
       (if tp_crit_trip_count t < 4 then (True, False, t\<lparr>tp_crit_trip_count := tp_crit_trip_count t + 1\<rparr>, st)
        else (True, False, t\<lparr>tp_crit_trip_count := 0\<rparr>, power_off st))
     else (False, False, t\<lparr>tp_crit_trip_count := 0\<rparr>, st))"
  using assms
  by (auto simp: thd_trip_point_check_def plain_trip_def depend_check_def critical_stage_def crit_check_def
      consecutive_critical_events_def pref_applies_def)

lemma run_critical:
  assumes "tp_type t = CRITICAL" "plain_trip sid t" "\<not> sy_ignore_critical st" "tp_crit_trip_count t \<le> 4"
  shows "sy_powered_off (snd (check_run sid pref Ts t st)) \<longleftrightarrow>
    sy_powered_off st \<or> five_in_row (tp_crit_trip_count t) (map ((\<le>) (tp_temp t)) Ts)"
  using assms
proof (induction Ts arbitrary: t st)
  case (Cons T Ts)
  note c = check_critical [OF Cons.prems(1-3), of T pref]
  have p: "tp_type (t\<lparr>tp_crit_trip_count := k\<rparr>) = CRITICAL" "plain_trip sid (t\<lparr>tp_crit_trip_count := k\<rparr>)"
      "\<not> sy_ignore_critical (power_off st)" "sy_powered_off (power_off st)" for k
    using Cons.prems by (simp_all add: plain_trip_def power_off_def)
  show ?case
    using Cons.prems Cons.IH [OF p(1,2) Cons.prems(3), of "tp_crit_trip_count t + 1"] Cons.IH [OF p(1-3), of 0]
      Cons.IH [OF p(1,2) Cons.prems(3), of 0] p(4)
    by (simp add: c)
qed simp

text \<open>
  C8. Over any sequence of readings of a critical trip whose counter starts at 0, the system is
  powered off exactly when five consecutive readings are at or above the trip temperature: four
  readings are never enough, a reading below starts the count again, and the fifth always acts.
\<close>

theorem critical_power_off:
  assumes "tp_type t = CRITICAL" and "plain_trip sid t" and "\<not> sy_ignore_critical st"
    and "tp_crit_trip_count t = 0" and "\<not> sy_powered_off st"
  shows "sy_powered_off (snd (check_run sid pref Ts t st)) \<longleftrightarrow>
    sublist (replicate 5 True) (map (\<lambda>T. tp_temp t \<le> T) Ts)"
  using run_critical [OF assms(1-3), of pref Ts] assms(4,5)
    five_in_row_sublist [of 0 "map ((\<le>) (tp_temp t)) Ts"] by simp

section \<open>Hysteresis\<close>

definition throttling_trip :: "trip_point \<Rightarrow> bool" where
  "throttling_trip t \<longleftrightarrow> tp_type t \<in> {MAX_TRIP, PASSIVE, ACTIVE}"

definition in_band :: "trip_point \<Rightarrow> u32 \<Rightarrow> bool" where
  "in_band t T \<longleftrightarrow> T < tp_temp t \<and> tp_temp t \<le> T + tp_hyst t"

lemma check_in_band:
  assumes "throttling_trip t" "tp_trip_on t" "in_band t T"
  shows "\<exists>r. thd_trip_point_check sid T pref t st = (r, False, t, st)"
proof -
  have "depend_check T t st = (True, st)"
    using assms(3) by (cases "tp_depend_cdev t") (auto simp: depend_check_def in_band_def)
  moreover have "critical_stage T t st = (False, t, st)" "tp_type t \<noteq> INVALID_TRIP_TYPE" "tp_type t \<noteq> POLLING"
    using assms(1) by (auto simp: critical_stage_def throttling_trip_def)
  moreover have "apply_trip T t st = (t, st)"
    using assms(2,3) by (auto simp: apply_trip_def trip_decision_def in_band_def)
  ultimately show ?thesis by (auto simp: thd_trip_point_check_def)
qed

text \<open>
  C9. While a trip is on and the readings stay below its temperature but within its hysteresis,
  nothing happens at all: no device is driven, nothing is written, and the trip stays on.
\<close>

theorem hysteresis_band_quiet:
  assumes "throttling_trip t" and "tp_trip_on t" and "\<forall>T\<in>set Ts. in_band t T"
  shows "check_run sid pref Ts t st = (t, st)"
  using assms
proof (induction Ts)
  case (Cons T Ts)
  obtain r where "thd_trip_point_check sid T pref t st = (r, False, t, st)"
    using check_in_band [OF Cons.prems(1,2)] Cons.prems(3) by fastforce
  then show ?case using Cons by simp
qed simp

section \<open>Which device is driven\<close>

text \<open>A device whose state is read without changing it (for a cpufreq device the range is its list
  of frequencies), and whether it is at its maximum.\<close>

definition pure_reads :: "cdev \<Rightarrow> bool" where
  "pure_reads c \<longleftrightarrow>
     (case cd_driver c of Drv_sysfs \<Rightarrow> False | Drv_cpufreq f \<Rightarrow> cd_max_state c = int (length (cf_cpufreqs f)) - 1
      | _ \<Rightarrow> True)"

definition at_max :: "cdev \<Rightarrow> bool" where
  "at_max c \<longleftrightarrow> cd_min_state c \<noteq> cd_max_state c \<and> full_depth c \<le> depth c (cd_curr_state c)"

lemma in_max_state_pure: "pure_reads c \<Longrightarrow> in_max_state e c = (at_max c, c)"
  by (cases "cd_driver c")
    (auto simp: pure_reads_def in_max_state_def get_curr_state_simple get_max_state_def at_max_def depth_def full_depth_def)

lemma put_same [simp]: "put_cdev i (cdev_at st i) st = st"
  by (simp add: put_cdev_def cdev_at_def)

definition unsampled :: "trip_pt_cdev \<Rightarrow> bool" where
  "unsampled tc \<longleftrightarrow> tc_sampling_period tc = 0"

lemma unsampled_simps: "unsampled tc \<Longrightarrow> \<not> too_early n tc" "unsampled tc \<Longrightarrow> note_time n tc = tc"
  by (simp_all add: unsampled_def too_early_def note_time_def)

text \<open>Devices at their maximum are skipped.\<close>

lemma activate_skips:
  assumes "\<forall>x\<in>set xs. unsampled x \<and> pure_reads (cdev_at st (tc_cdev x)) \<and> at_max (cdev_at st (tc_cdev x))"
  shows "activate_cdevs t T (xs @ tcs) st = (case activate_cdevs t T tcs st of (tcs', st') \<Rightarrow> (xs @ tcs', st'))"
  using assms
proof (induction xs)
  case (Cons x xs)
  then have "in_max_state (sy_env st) (cdev_at st (tc_cdev x)) = (True, cdev_at st (tc_cdev x))"
    by (simp add: in_max_state_pure)
  with Cons show ?case by (simp add: unsampled_simps Let_def split: prod.splits)
qed simp


section \<open>Binding devices\<close>

text \<open>The devices of a trip: in descending order of influence, and no device type twice.\<close>

definition trip_inv :: "'a sys_scheme \<Rightarrow> trip_point \<Rightarrow> bool" where
  "trip_inv st t \<longleftrightarrow> sorted_wrt (\<lambda>a b. tc_influence b \<le> tc_influence a) (tp_cdevs t)
     \<and> distinct (map (\<lambda>x. cd_type_str (cdev_at st (tc_cdev x))) (tp_cdevs t))"

lemma find_index_None: "find_index P xs = None \<longleftrightarrow> (\<forall>x\<in>set xs. \<not> P x)"
  by (induction xs) auto

lemma find_index_Some: "find_index P xs = Some i \<Longrightarrow> i < length xs \<and> P (xs ! i) \<and> (\<forall>j<i. \<not> P (xs ! j))"
proof (induction xs arbitrary: i)
  case (Cons x xs)
  then show ?case by (cases "P x") (auto simp: less_Suc_eq_0_disj)
qed simp

lemma sorted_influence: "sorted_wrt (\<lambda>a b. tc_influence b \<le> tc_influence a) (sort_key (\<lambda>x. - tc_influence x) xs)"
  using sorted_sort_key [of "\<lambda>x. - tc_influence x" xs] by (simp add: sorted_wrt_map)

lemma distinct_map_sort_key: "distinct (map f (sort_key g xs)) = distinct (map f xs)"
  by (metis mset_map mset_sort mset_eq_imp_distinct_iff)

text \<open>
  Binding a device keeps the devices of a trip in descending order of influence, without two
  of one type: a device of a type already bound only replaces the influence, another is added; the
  types bound afterwards are those before and the new one.
\<close>

theorem trip_cdev_add_inv:
  assumes "trip_inv st t"
  shows "trip_inv st (trip_cdev_add st tc t)
    \<and> (\<lambda>x. cd_type_str (cdev_at st (tc_cdev x))) ` set (tp_cdevs (trip_cdev_add st tc t))
      = insert (cd_type_str (cdev_at st (tc_cdev tc))) ((\<lambda>x. cd_type_str (cdev_at st (tc_cdev x))) ` set (tp_cdevs t))"
proof -
  let ?f = "\<lambda>x. cd_type_str (cdev_at st (tc_cdev x))"
  define tcs where "tcs = (case find_index (same_cdev_type st (tc_cdev tc)) (tp_cdevs t) of
    Some i \<Rightarrow> (tp_cdevs t)[i := (tp_cdevs t ! i)\<lparr>tc_influence := tc_influence tc\<rparr>] | None \<Rightarrow> tp_cdevs t @ [tc])"
  have add: "trip_cdev_add st tc t = t\<lparr>tp_cdevs := sort_key (\<lambda>x. - tc_influence x) tcs\<rparr>"
    by (simp add: trip_cdev_add_def tcs_def)
  have "distinct (map ?f tcs) \<and> ?f ` set tcs = insert (?f tc) (?f ` set (tp_cdevs t))"
  proof (cases "find_index (same_cdev_type st (tc_cdev tc)) (tp_cdevs t)")
    case None
    then show ?thesis using assms by (auto simp: tcs_def trip_inv_def) (auto simp: find_index_None same_cdev_type_def)
  next
    case (Some i)
    have i: "i < length (tp_cdevs t)" "?f (tp_cdevs t ! i) = ?f tc"
      using find_index_Some [OF Some] by (auto simp: same_cdev_type_def)
    then have m: "map ?f tcs = map ?f (tp_cdevs t)"
      by (simp add: tcs_def Some map_update list_update_same_conv)
    have "?f tc \<in> ?f ` set (tp_cdevs t)" using i by (metis image_eqI nth_mem)
    moreover have "?f ` set tcs = ?f ` set (tp_cdevs t)" using m by (metis set_map)
    ultimately show ?thesis using m assms by (simp add: trip_inv_def insert_absorb)
  qed
  then show ?thesis by (simp add: add trip_inv_def sorted_influence distinct_map_sort_key)
qed

section \<open>Polling trips\<close>

definition poll_messages :: "bool \<Rightarrow> sensor \<Rightarrow> message list" where
  "poll_messages on s =
     (if on then [Message POLL_ENABLE (word_of_int (sn_index s)), Message FAST_POLL_ENABLE (word_of_int (sn_index s))]
      else [Message POLL_DISABLE (word_of_int (sn_index s)), Message FAST_POLL_DISABLE (word_of_int (sn_index s))])"

lemma poll_switch_pipe:
  "sy_pipe (rearm_threshold s w (sensor_fast_poll b s (sensor_poll_trip b s st))) = sy_pipe st @ poll_messages b s"
  by (simp add: rearm_threshold_def sensor_poll_send send_message_def poll_messages_def)

text \<open>
  A polling trip is on exactly when the last reading was at or above its temperature. A change
  sends the matching pair of polling messages for its sensor, no change sends none; the reset of
  the zone is asked for exactly when the reading drops below the temperature.
\<close>

theorem polling_follows_temperature:
  assumes "tp_type t = POLLING" and "plain_trip sid t" and "tp_sensor_id t \<noteq> DEFAULT_SENSOR_ID"
    and "get_sensor (tp_sensor_id t) st = Some s"
    and "thd_trip_point_check sid T pref t st = (r, rs, t', st')"
  shows "tp_poll_on t' = (tp_temp t \<le> T) \<and> rs = (tp_poll_on t \<and> T < tp_temp t)
    \<and> sy_pipe st' = sy_pipe st @ (if tp_poll_on t' = tp_poll_on t then [] else poll_messages (tp_poll_on t') s)"
proof -
  have "thd_trip_point_check sid T pref t st =
      (case polling_check T t st of (reset, t2, st2) \<Rightarrow> (True, reset, t2, st2))"
    using assms(1-3) by (simp add: thd_trip_point_check_def plain_trip_def depend_check_def critical_stage_def)
  then have "polling_check T t st = (rs, t', st')" using assms(5) by (simp split: prod.splits)
  then show ?thesis
    using assms(4) by (auto simp: polling_check_def poll_switch_pipe not_le split: if_splits)
qed

section \<open>Releasing the devices of a trip\<close>

lemma reset_cdevs_touches: "touches (tc_cdev ` set tcs) st (reset_cdevs force t tcs st)"
proof (induction tcs arbitrary: st)
  case (Cons tc tcs)
  let ?A = "tc_cdev ` set (tc # tcs)"
  obtain idle c1 where i: "(if force = 0 then in_min_state (sy_env st) (cdev_at st (tc_cdev tc))
      else (False, cdev_at st (tc_cdev tc))) = (idle, c1)" by fastforce
  define s1 where "s1 = put_cdev (tc_cdev tc) c1 st"
  obtain r e' c' where m: "thd_cdev_set_min_state (sy_env s1) c1 (tp_zone_id t) (tp_index t) = (r, e', c')"
    by (metis prod_cases3)
  define s2 where "s2 = (put_cdev (tc_cdev tc) c' s1)\<lparr>sy_env := e'\<rparr>"
  have 1: "touches ?A st s1" "touches ?A st s2"
    by (auto simp: s1_def s2_def intro!: touches_trans [OF touches_trans [OF touches_put touches_put] touches_env]
        touches_put)
  have 2: "reset_cdevs force t (tc # tcs) st = reset_cdevs force t tcs (if idle then s1 else s2)"
    using m by (simp add: i s1_def [symmetric] s2_def [symmetric] Let_def)
  show ?case unfolding 2
    by (rule touches_trans [OF _ touches_mono [OF Cons.IH]]) (use 1 in auto)
qed simp

definition held_by :: "int \<times> int \<Rightarrow> cdev \<Rightarrow> bool" where
  "held_by k c \<longleftrightarrow> cd_driver c \<noteq> Drv_sysfs \<and> (\<exists>l. cd_zone_trip_limits c = [l] \<and> trip_key l = k)"

definition released :: "cdev \<Rightarrow> bool" where
  "released c \<longleftrightarrow> cd_zone_trip_limits c = [] \<and> cd_curr_state c = cd_min_state c"

lemma reset_cdevs_releases:
  assumes "force \<noteq> 0" "distinct (map tc_cdev tcs)" "\<forall>x\<in>set tcs. tc_cdev x < length (sy_cdevs st)"
    and "\<forall>x\<in>set tcs. held_by (tp_zone_id t, tp_index t) (cdev_at st (tc_cdev x))"
  shows "\<forall>x\<in>set tcs. released (cdev_at (reset_cdevs force t tcs st) (tc_cdev x))"
  using assms(2-)
proof (induction tcs arbitrary: st)
  case (Cons tc tcs)
  let ?c = "cdev_at st (tc_cdev tc)"
  obtain r e' c' where m: "thd_cdev_set_min_state (sy_env st) ?c (tp_zone_id t) (tp_index t) = (r, e', c')"
    by (metis prod_cases3)
  define s2 where "s2 = (put_cdev (tc_cdev tc) c' st)\<lparr>sy_env := e'\<rparr>"
  have 2: "reset_cdevs force t (tc # tcs) st = reset_cdevs force t tcs s2"
    using m assms(1) by (simp add: s2_def Let_def)
  have rest: "cdev_at s2 j = cdev_at st j" if "j \<noteq> tc_cdev tc" for j using that by (simp add: s2_def)
  have "tc_cdev x \<noteq> tc_cdev tc" if "x \<in> set tcs" for x using Cons.prems(1) that by (auto intro: rev_image_eqI)
  then have tl: "\<forall>x\<in>set tcs. released (cdev_at (reset_cdevs force t tcs s2) (tc_cdev x))"
    using Cons.prems by (intro Cons.IH) (auto simp: rest s2_def)
  have "released c'"
    using Cons.prems(3) set_min_state_single [OF _ _ _ m]
    by (auto simp: held_by_def released_def)
  moreover have "cdev_at (reset_cdevs force t tcs s2) (tc_cdev tc) = c'"
    using touches_fields(8) [OF reset_cdevs_touches, of "tc_cdev tc" tcs force t s2] Cons.prems(1,2)
    by (simp add: s2_def)
  ultimately show ?case unfolding 2 using tl by simp
qed simp

text \<open>
  C16. A forced reset of a trip releases every device that only this trip holds: its list of
  active trips is empty and it is back in \<^verbatim>\<open>min_state\<close>. No other device changes.
\<close>

theorem forced_reset_releases:
  assumes "force \<noteq> 0" and "distinct (map tc_cdev (tp_cdevs t))"
    and "\<forall>x\<in>set (tp_cdevs t). tc_cdev x < length (sy_cdevs st)"
    and "\<forall>x\<in>set (tp_cdevs t). held_by (tp_zone_id t, tp_index t) (cdev_at st (tc_cdev x))"
  shows "(\<forall>x\<in>set (tp_cdevs t). released (cdev_at (thd_trip_cdev_state_reset force t st) (tc_cdev x)))
    \<and> touches (tc_cdev ` set (tp_cdevs t)) st (thd_trip_cdev_state_reset force t st)"
  using reset_cdevs_releases [OF assms(1), of "rev (tp_cdevs t)" st t] assms(2-)
    reset_cdevs_touches [of "rev (tp_cdevs t)" st force t]
  by (simp add: thd_trip_cdev_state_reset_def rev_map [symmetric])

section \<open>Witnesses\<close>

text \<open>A system with two fans, the second held by trip 2 of zone 0, and a sensor.\<close>

definition fan_sys :: sys where
  "fan_sys = demo_sys\<lparr>sy_cdevs := [demo_fan, held_fan\<lparr>cd_type_str := ''Fan2''\<rparr>],
     sy_sensors := [cthd_sensor 0 ''/s/'' ''cpu'' 0]\<rparr>"

definition demo_trip :: "trip_point_type \<Rightarrow> nat list \<Rightarrow> trip_point" where
  "demo_trip ty refs = (cthd_trip_point 2 ty 90000 2000 0 0 SEQUENTIAL)\<lparr>tp_cdevs := map trip_pt_cdev_init refs\<rparr>"

lemma demo_trip_simps [simp]:
  "tp_type (demo_trip ty rs) = ty" "tp_temp (demo_trip ty rs) = 90000" "tp_hyst (demo_trip ty rs) = 2000"
  "tp_cdevs (demo_trip ty rs) = map trip_pt_cdev_init rs" "tp_control_type (demo_trip ty rs) = SEQUENTIAL"
  "tp_zone_id (demo_trip ty rs) = 0" "tp_sensor_id (demo_trip ty rs) = 0" "tp_index (demo_trip ty rs) = 2"
  "tp_crit_trip_count (demo_trip ty rs) = 0" "tp_poll_on (demo_trip ty rs) = False"
  "tp_depend_cdev (demo_trip ty rs) = None" "plain_trip 0 (demo_trip ty rs)" "tc_cdev (trip_pt_cdev_init r) = r"
  "tc_influence (trip_pt_cdev_init r) = 0" "unsampled (trip_pt_cdev_init r)"
  by (simp_all add: demo_trip_def cthd_trip_point_def trip_pt_cdev_init_def plain_trip_def unsampled_def)

lemma fan_sys_simps [simp]:
  "cdev_at fan_sys 0 = demo_fan" "cdev_at fan_sys (Suc 0) = held_fan\<lparr>cd_type_str := ''Fan2''\<rparr>"
  "length (sy_cdevs fan_sys) = 2" "\<not> sy_powered_off fan_sys" "\<not> sy_ignore_critical fan_sys" "sy_pipe fan_sys = []"
  "get_sensor 0 fan_sys = Some (cthd_sensor 0 ''/s/'' ''cpu'' 0)"
  by (simp_all add: fan_sys_def demo_sys_def cdev_at_def get_sensor_def)

theorem critical_power_off_witness:
  "sy_powered_off (snd (check_run 0 1 [91000, 1000, 91000, 91000, 91000, 91000, 90000] (demo_trip CRITICAL []) fan_sys))
   \<and> \<not> sy_powered_off (snd (check_run 0 1 [91000, 91000, 91000, 91000, 1000, 91000] (demo_trip CRITICAL []) fan_sys))"
proof -
  have "replicate 5 True = [True, True, True, True, True]" by (simp add: numeral_eq_Suc)
  then show ?thesis
    using critical_power_off [of "demo_trip CRITICAL []" 0 fan_sys 1]
    by (simp add: sublist_Cons_right del: check_run.simps)
qed

theorem hysteresis_band_quiet_witness:
  "check_run 0 1 [88000, 89500] (demo_trip ACTIVE [0]\<lparr>tp_trip_on := True\<rparr>) fan_sys
     = (demo_trip ACTIVE [0]\<lparr>tp_trip_on := True\<rparr>, fan_sys)"
  by (rule hysteresis_band_quiet) (simp_all add: throttling_trip_def in_band_def)

theorem trip_check_frame_witness:
  "let (r, rs, t', st') = thd_trip_point_check 0 95000 1 (demo_trip ACTIVE [0]) fan_sys
   in same_setting (demo_trip ACTIVE [0]) t' \<and> check_frame {0} False fan_sys st'"
proof -
  obtain r rs t' st' where 1: "thd_trip_point_check 0 95000 1 (demo_trip ACTIVE [0]) fan_sys = (r, rs, t', st')"
    by (metis prod_cases4)
  from trip_check_frame [OF 1] show ?thesis by (simp add: 1 bound_cdevs_def may_power_off_def)
qed


theorem trip_cdev_add_inv_witness:
  "trip_inv fan_sys (trip_cdev_add fan_sys (trip_pt_cdev_init 1) (demo_trip ACTIVE [0]))"
proof -
  have "trip_inv fan_sys (demo_trip ACTIVE [0])" by (simp add: trip_inv_def)
  from trip_cdev_add_inv [OF this, of "trip_pt_cdev_init 1"] show ?thesis by simp
qed

theorem polling_follows_temperature_witness:
  "let (r, rs, t', st') = thd_trip_point_check 0 95000 1 (demo_trip POLLING []) fan_sys
   in tp_poll_on t' \<and> sy_pipe st' = [Message POLL_ENABLE 0, Message FAST_POLL_ENABLE 0]"
proof -
  obtain r rs t' st' where 1: "thd_trip_point_check 0 95000 1 (demo_trip POLLING []) fan_sys = (r, rs, t', st')"
    by (metis prod_cases4)
  from polling_follows_temperature [OF _ _ _ _ 1] show ?thesis
    by (simp add: 1 DEFAULT_SENSOR_ID_def poll_messages_def cthd_sensor_def)
qed

theorem forced_reset_releases_witness:
  "let st' = thd_trip_cdev_state_reset 1 (demo_trip ACTIVE [1]) fan_sys in released (cdev_at st' 1)"
  using forced_reset_releases [of 1 "demo_trip ACTIVE [1]" fan_sys]
  by (simp add: held_by_def held_fan_simps Let_def)

end
