(* ===== verification/Thd_Zone.thy ===== *)
theory Thd_Zone
  imports Thd_TripRuns
begin

text \<open>
  Thermal zones, \<^verbatim>\<open>thd_zone.cpp\<close> and \<^verbatim>\<open>thd_zone.h\<close>: reading the temperature of the
  sensors of a zone, checking its trips against it, the polling trips kept below the lowest trip,
  binding of devices, and the reset of all devices of the zone. A zone refers to its sensors by
  their position in the engine's vector.
\<close>

section \<open>State\<close>

datatype sensor_relate = SENSOR_INDEPENDENT | SENSORS_CORELATED

text \<open>The configuration of a trip of a zone of \<^verbatim>\<open>thermal-conf.xml\<close>.\<close>

record trip_cdev_conf =
  xc_type :: string
  xc_influence :: int
  xc_sampling_period :: int
  xc_target_state_valid :: int
  xc_target_state :: int
  xc_pid_param :: pid_param
  xc_min_max_valid :: int
  xc_target_min_state :: int
  xc_target_max_state :: int

record trip_conf =
  xt_temperature :: int
  xt_hyst :: int
  xt_trip_pt_type :: trip_point_type
  xt_control_type :: trip_control_type
  xt_sensor_type :: string
  xt_dependency :: "(string \<times> string) option"
  xt_cdev_trips :: "trip_cdev_conf list"

record cpu_zone =
  cz_critical_temp :: int
  cz_max_temp :: int
  cz_psv_temp :: int
  cz_trip_point_cnt :: int
  cz_sensor_mask :: u32

record dynamic_zone =
  dz_trip_temp :: u32
  dz_trip_type :: trip_point_type
  dz_sensor_name :: string
  dz_cdev_name :: string

text \<open>The derived classes with their own members: the trip count and the initial trip values of a
  thermal sysfs zone, the configuration of an XML zone (if the parser has it).\<close>

datatype zone_kind = Zone_sysfs int "int list" | Zone_cpu cpu_zone | Zone_generic "trip_conf list option"
  | Zone_dynamic dynamic_zone | Zone_rapl_power

record zone =
  zn_index :: int
  zn_trip_points :: "trip_point list"
  zn_sysfs :: string
  zn_temp :: u32
  zn_active :: bool
  zn_cdev_binded_status :: bool
  zn_type_str :: string
  zn_sensors :: "nat list"
  zn_sensor_rel :: sensor_relate
  zn_kind :: zone_kind

definition def_async_trip_offset :: u32 where "def_async_trip_offset = 5000"
definition def_async_trip_offset_pct :: u32 where "def_async_trip_offset_pct = 10"

text \<open>\<^verbatim>\<open>$localstatedir/run/thermald\<close>, with the usual \<^verbatim>\<open>/var\<close>.\<close>

definition TDRUNDIR :: string where "TDRUNDIR = ''/var/run/thermald''"

definition cthd_zone :: "int \<Rightarrow> string \<Rightarrow> sensor_relate \<Rightarrow> zone_kind \<Rightarrow> zone" where
  "cthd_zone idx path rel k =
     \<lparr>zn_index = idx, zn_trip_points = [], zn_sysfs = path, zn_temp = 0, zn_active = False,
      zn_cdev_binded_status = False, zn_type_str = [], zn_sensors = [], zn_sensor_rel = rel, zn_kind = k\<rparr>"

section \<open>Reset\<close>

definition zone_reset :: "int \<Rightarrow> zone \<Rightarrow> 'a sys_scheme \<Rightarrow> 'a sys_scheme" where
  "zone_reset force z st =
     (if zn_active z then fold (thd_trip_cdev_state_reset force) (rev (zn_trip_points z)) st else st)"

section \<open>Temperature changes\<close>

text \<open>The loop over the trips; it ends early when a trip asks for a reset.\<close>

fun check_trips ::
    "int \<Rightarrow> u32 \<Rightarrow> int \<Rightarrow> trip_point list \<Rightarrow> 'a sys_scheme \<Rightarrow> bool \<times> trip_point list \<times> 'a sys_scheme" where
  "check_trips sid T pref [] st = (False, [], st)"
| "check_trips sid T pref (t # ts) st =
     (case thd_trip_point_check sid T pref t st of (_, reset, t', st') \<Rightarrow>
        if reset then (True, t' # ts, st')
        else case check_trips sid T pref ts st' of (r, ts', st'') \<Rightarrow> (r, t' # ts', st''))"

definition thermal_zone_temp_change :: "int \<Rightarrow> u32 \<Rightarrow> int \<Rightarrow> zone \<Rightarrow> 'a sys_scheme \<Rightarrow> zone \<times> 'a sys_scheme" where
  "thermal_zone_temp_change sid T pref z st =
     (case check_trips sid T pref (zn_trip_points z) st of (reset, ts, st') \<Rightarrow>
        (let z' = z\<lparr>zn_trip_points := ts\<rparr> in (z', if reset then zone_reset 0 z' st' else st')))"

text \<open>Reading the sensor at a position of the engine's vector; fuel as for \<^const>\<open>sensor_read\<close>.\<close>

definition read_temperature :: "nat \<Rightarrow> nat \<Rightarrow> 'a sys_scheme \<Rightarrow> (u32 \<times> 'a sys_scheme) option" where
  "read_temperature n i st =
     (case sensor_read n i (sy_env st) (sy_sensors st) of None \<Rightarrow> None
      | Some (w, e, ss) \<Rightarrow> Some (w, st\<lparr>sy_env := e, sy_sensors := ss\<rparr>))"

definition sensor_index :: "nat \<Rightarrow> 'a sys_scheme \<Rightarrow> int" where
  "sensor_index i st = sn_index (sy_sensors st ! i)"

text \<open>A change of preference first releases (a temperature of 0), then checks the temperature.\<close>

fun preference_pass :: "nat \<Rightarrow> bool \<Rightarrow> nat list \<Rightarrow> zone \<Rightarrow> 'a sys_scheme \<Rightarrow> (zone \<times> 'a sys_scheme) option" where
  "preference_pass n release [] z st = Some (z, st)"
| "preference_pass n release (i # is) z st =
     (case read_temperature n i st of None \<Rightarrow> None
      | Some (w, st1) \<Rightarrow>
          (case thermal_zone_temp_change (sensor_index i st1) (if release then 0 else w) (sy_preference st1)
                  (z\<lparr>zn_temp := w\<rparr>) st1 of
             (z', st2) \<Rightarrow> preference_pass n release is z' st2))"

definition update_zone_preference :: "nat \<Rightarrow> zone \<Rightarrow> 'a sys_scheme \<Rightarrow> (zone \<times> 'a sys_scheme) option" where
  "update_zone_preference n z st =
     (if \<not> zn_active z then Some (z, st)
      else case preference_pass n True (zn_sensors z) z st of None \<Rightarrow> None
      | Some (z1, st1) \<Rightarrow> preference_pass n False (zn_sensors z) z1 st1)"

text \<open>The periodic check.\<close>

fun read_sensors :: "nat \<Rightarrow> nat list \<Rightarrow> zone \<Rightarrow> 'a sys_scheme \<Rightarrow> (zone \<times> 'a sys_scheme) option" where
  "read_sensors n [] z st = Some (z, st)"
| "read_sensors n (i # is) z st =
     (case read_temperature n i st of None \<Rightarrow> None
      | Some (temp, st1) \<Rightarrow>
          (let z1 = (if zn_temp z < temp then z\<lparr>zn_temp := temp\<rparr> else z)
           in case (if zn_sensor_rel z1 = SENSOR_INDEPENDENT
                    then thermal_zone_temp_change (sensor_index i st1) temp (sy_preference st1) z1 st1
                    else (z1, st1)) of
                (z2, st2) \<Rightarrow> read_sensors n is z2 st2))"

definition read_zone_temp :: "nat \<Rightarrow> zone \<Rightarrow> 'a sys_scheme \<Rightarrow> (zone \<times> 'a sys_scheme) option" where
  "read_zone_temp n z st =
     (if \<not> zn_active z then Some (z, st)
      else case read_sensors n (zn_sensors z) (z\<lparr>zn_temp := 0\<rparr>) st of None \<Rightarrow> None
      | Some (z1, st1) \<Rightarrow>
          Some (if zn_sensor_rel z1 = SENSORS_CORELATED \<and> zn_temp z1 \<noteq> 0
                then thermal_zone_temp_change (sensor_index (hd (zn_sensors z1)) st1) (zn_temp z1)
                       (sy_preference st1) z1 st1
                else (z1, st1)))"

definition zone_temperature_notification :: "nat \<Rightarrow> int \<Rightarrow> int \<Rightarrow> zone \<Rightarrow> 'a sys_scheme \<Rightarrow> (zone \<times> 'a sys_scheme) option" where
  "zone_temperature_notification n ty data z st = read_zone_temp n z st"

section \<open>Polling trips\<close>

text \<open>\<^verbatim>\<open>std::sort\<close> with \<^verbatim>\<open>trip_sort\<close>; the first polling trip is erased before.\<close>

definition trip_sort :: "trip_point list \<Rightarrow> trip_point list" where
  "trip_sort = sort_key tp_temp"

fun erase_polling :: "trip_point list \<Rightarrow> trip_point list" where
  "erase_polling [] = []"
| "erase_polling (t # ts) = (if tp_type t = POLLING then ts else t # erase_polling ts)"

definition poll_temp :: "u32 \<Rightarrow> u32" where
  "poll_temp lowest =
     (let poll_offset = lowest * def_async_trip_offset_pct div 100
      in lowest - (if poll_offset < def_async_trip_offset then def_async_trip_offset else poll_offset))"

fun add_polling :: "int \<Rightarrow> u32 \<Rightarrow> nat list \<Rightarrow> trip_point list \<Rightarrow> 'a sys_scheme \<Rightarrow> trip_point list \<times> 'a sys_scheme" where
  "add_polling idx temp [] ts st = (ts, st)"
| "add_polling idx temp (i # is) ts st =
     (let s = sy_sensors st ! i;
          st' = st\<lparr>sy_env := snd (set_threshold (sy_poll_interval_sec st) (sy_env st) s 0 (sint temp))\<rparr>;
          t = cthd_trip_point (int (length ts)) POLLING temp 0 idx (sn_index s) PARALLEL
      in add_polling idx temp is (ts @ [t]) st')"

definition sort_and_update_poll_trip :: "zone \<Rightarrow> 'a sys_scheme \<Rightarrow> zone \<times> 'a sys_scheme" where
  "sort_and_update_poll_trip z st =
     (let ts0 = erase_polling (zn_trip_points z)
      in if ts0 = [] then (z\<lparr>zn_trip_points := ts0\<rparr>, st)
         else
           (let ts = trip_sort ts0
            in case add_polling (zn_index z) (poll_temp (tp_temp (hd ts))) (zn_sensors z) ts st of (ts', st') \<Rightarrow>
                 (z\<lparr>zn_trip_points := ts'\<rparr>, st')))"

section \<open>Changing the trips of a zone\<close>

definition add_trip :: "trip_point \<Rightarrow> int \<Rightarrow> zone \<Rightarrow> 'a sys_scheme \<Rightarrow> zone \<times> 'a sys_scheme" where
  "add_trip trip force z st =
     (let ts = zn_trip_points z;
          ts' = (if force \<noteq> 0 then ts @ [trip]
                 else case find_index (\<lambda>t. tp_type t = tp_type trip) ts of
                        Some j \<Rightarrow> ts[j := trip] | None \<Rightarrow> ts @ [trip])
      in sort_and_update_poll_trip (z\<lparr>zn_trip_points := ts'\<rparr>) st)"

definition set_temp_hyst :: "trip_point \<Rightarrow> trip_point \<Rightarrow> trip_point" where
  "set_temp_hyst trip t = t\<lparr>tp_temp := tp_temp trip, tp_hyst := tp_hyst trip\<rparr>"

definition update_trip_temp :: "trip_point \<Rightarrow> zone \<Rightarrow> 'a sys_scheme \<Rightarrow> zone \<times> 'a sys_scheme" where
  "update_trip_temp trip z st =
     (let ts = zn_trip_points z;
          ts' = (case find_index (\<lambda>t. tp_type t = tp_type trip) ts of
                   Some j \<Rightarrow> ts[j := set_temp_hyst trip (ts ! j)] | None \<Rightarrow> ts)
      in sort_and_update_poll_trip (z\<lparr>zn_trip_points := ts'\<rparr>) st)"

text \<open>The last trip of the type, which is the highest as the trips are kept sorted.\<close>

definition update_highest_trip_temp :: "trip_point \<Rightarrow> zone \<Rightarrow> 'a sys_scheme \<Rightarrow> zone \<times> 'a sys_scheme" where
  "update_highest_trip_temp trip z st =
     (if zn_trip_points z = [] then (z, st)
      else
        (let ts = rev (zn_trip_points z);
             ts' = (case find_index (\<lambda>t. tp_type t = tp_type trip) ts of
                      Some j \<Rightarrow> ts[j := set_temp_hyst trip (ts ! j)] | None \<Rightarrow> ts)
         in sort_and_update_poll_trip (z\<lparr>zn_trip_points := rev ts'\<rparr>) st))"

text \<open>A temperature of 0 binds to the first trip of the type.\<close>

definition bindable :: "trip_point_type \<Rightarrow> u32 \<Rightarrow> trip_point \<Rightarrow> bool" where
  "bindable ty temp t \<longleftrightarrow> tp_type t = ty \<and> 0 < tp_temp t \<and> (temp = 0 \<or> tp_temp t = temp)"

definition bind_cooling_device ::
    "'a sys_scheme \<Rightarrow> trip_point_type \<Rightarrow> u32 \<Rightarrow> nat \<Rightarrow> int \<Rightarrow> int \<Rightarrow> int \<Rightarrow> int \<Rightarrow> int \<Rightarrow> int \<Rightarrow> int \<Rightarrow> zone \<Rightarrow> int \<times> zone" where
  "bind_cooling_device st ty temp ref influence sampling tsv target mmv mn mx z =
     (case find_index (bindable ty temp) (zn_trip_points z) of None \<Rightarrow> (THD_ERROR, z)
      | Some i \<Rightarrow>
          (THD_SUCCESS,
           z\<lparr>zn_trip_points := (zn_trip_points z)[i := thd_trip_point_add_cdev st ref influence sampling tsv target
                None mmv mn mx (zn_trip_points z ! i)], zn_cdev_binded_status := True\<rparr>))"

definition bind_sensor :: "nat \<Rightarrow> zone \<Rightarrow> zone" where
  "bind_sensor i z = (if i \<in> set (zn_sensors z) then z else z\<lparr>zn_sensors := zn_sensors z @ [i]\<rparr>)"

definition check_sensor_async_status :: "zone \<Rightarrow> 'a sys_scheme \<Rightarrow> bool" where
  "check_sensor_async_status z st \<longleftrightarrow> list_all (\<lambda>i. sn_async_capable (sy_sensors st ! i)) (zn_sensors z)"

definition trip_delete_all :: "zone \<Rightarrow> zone" where
  "trip_delete_all z = z\<lparr>zn_trip_points := []\<rparr>"

text \<open>(De)activating a zone starts or stops the timer of its first virtual sensor.\<close>

definition is_virtual :: "sensor \<Rightarrow> bool" where
  "is_virtual s \<longleftrightarrow> (case sn_kind s of Virtual_sensor _ \<Rightarrow> True | _ \<Rightarrow> False)"

definition on_virtual :: "(virtual_sensor \<Rightarrow> virtual_sensor) \<Rightarrow> nat \<Rightarrow> 'a sys_scheme \<Rightarrow> 'a sys_scheme" where
  "on_virtual f i st =
     (case sn_kind (sy_sensors st ! i) of
        Virtual_sensor v \<Rightarrow> st\<lparr>sy_sensors := (sy_sensors st)[i := (sy_sensors st ! i)\<lparr>sn_kind := Virtual_sensor (f v)\<rparr>]\<rparr>
      | _ \<Rightarrow> st)"

definition first_virtual :: "zone \<Rightarrow> 'a sys_scheme \<Rightarrow> nat option" where
  "first_virtual z st = List.find (\<lambda>i. is_virtual (sy_sensors st ! i)) (zn_sensors z)"

definition set_zone_active :: "zone \<Rightarrow> 'a sys_scheme \<Rightarrow> zone \<times> 'a sys_scheme" where
  "set_zone_active z st =
     (z\<lparr>zn_active := True\<rparr>,
      case first_virtual z st of None \<Rightarrow> st | Some i \<Rightarrow> on_virtual enable_periodic_timer i st)"

definition set_zone_inactive :: "zone \<Rightarrow> 'a sys_scheme \<Rightarrow> zone \<times> 'a sys_scheme" where
  "set_zone_inactive z st =
     (z\<lparr>zn_active := False\<rparr>,
      case first_virtual z st of None \<Rightarrow> st | Some i \<Rightarrow> on_virtual disable_periodic_timer i st)"

section \<open>Temperatures set by the user\<close>

text \<open>The files in the run directory; \<open>ok\<close> is whether the file can be opened for writing.\<close>

definition psv_file :: "zone \<Rightarrow> string" where
  "psv_file z = TDRUNDIR @ ''/'' @ ''thd_user_psv_temp.'' @ zn_type_str z @ ''.'' @ ''conf''"

definition max_file :: "zone \<Rightarrow> string" where
  "max_file z = TDRUNDIR @ ''/'' @ ''thd_user_set_max.'' @ zn_type_str z @ ''.'' @ ''conf''"

definition write_conf :: "bool \<Rightarrow> string \<Rightarrow> int \<Rightarrow> 'a env_scheme \<Rightarrow> int \<times> 'a env_scheme" where
  "write_conf ok p v e =
     (if ok then (THD_SUCCESS, e\<lparr>e_files := (e_files e)(p \<mapsto> Text (show_int v))\<rparr>) else (THD_ERROR, e))"

definition update_max_temperature :: "bool \<Rightarrow> int \<Rightarrow> zone \<Rightarrow> 'a env_scheme \<Rightarrow> int \<times> 'a env_scheme" where
  "update_max_temperature ok max_temp z e = write_conf ok (max_file z) max_temp e"

definition update_psv_temperature :: "bool \<Rightarrow> int \<Rightarrow> zone \<Rightarrow> 'a env_scheme \<Rightarrow> int \<times> 'a env_scheme" where
  "update_psv_temperature ok psv_temp z e = write_conf ok (psv_file z) psv_temp e"

text \<open>\<^verbatim>\<open>ifs >> temp\<close> saturates and gives 0 when there is no number.\<close>

definition extract_int :: "string \<Rightarrow> int" where
  "extract_int s = max (- 2147483648) (min 2147483647 (parse_sign (dropWhile is_space s)))"

definition read_user_set_psv_temp :: "zone \<Rightarrow> 'a env_scheme \<Rightarrow> int" where
  "read_user_set_psv_temp z e =
     (case e_files e (psv_file z) of
        Some (Text s) \<Rightarrow> (if extract_int s < 1000 then -1 else extract_int s)
      | Some NoRead \<Rightarrow> -1
      | None \<Rightarrow> -1)"

end
