(* ===== verification/Thd_ZoneProps.thy ===== *)
theory Thd_ZoneProps
  imports Thd_Zone
begin

text \<open>
  Properties of thermal zones: the polling trips stay below the lowest trip, what a temperature
  change may touch, the reading of correlated sensors, termination of a check, and the round trip
  of the temperature set by the user.
\<close>

section \<open>Polling trips\<close>

lemma add_polling_trips:
  "add_polling idx temp is ts st = (ts', st') \<Longrightarrow>
     (\<exists>ps. ts' = ts @ ps \<and> map tp_sensor_id ps = map (\<lambda>i. sn_index (sy_sensors st ! i)) is
        \<and> (\<forall>p\<in>set ps. tp_type p = POLLING \<and> tp_temp p = temp \<and> tp_cdevs p = [] \<and> \<not> tp_poll_on p
             \<and> tp_zone_id p = idx \<and> tp_depend_cdev p = None))"
proof (induction "is" arbitrary: ts st)
  case (Cons i "is")
  define p where "p = cthd_trip_point (int (length ts)) POLLING temp 0 idx (sn_index (sy_sensors st ! i)) PARALLEL"
  from Cons.prems obtain st1 where
    a: "add_polling idx temp is (ts @ [p]) st1 = (ts', st')" and s: "sy_sensors st1 = sy_sensors st"
    by (simp add: p_def Let_def)
  obtain ps where "ts' = (ts @ [p]) @ ps \<and> map tp_sensor_id ps = map (\<lambda>i. sn_index (sy_sensors st ! i)) is
        \<and> (\<forall>p\<in>set ps. tp_type p = POLLING \<and> tp_temp p = temp \<and> tp_cdevs p = [] \<and> \<not> tp_poll_on p
             \<and> tp_zone_id p = idx \<and> tp_depend_cdev p = None)"
    using Cons.IH [OF a] by (auto simp: s)
  then show ?case by (intro exI [of _ "p # ps"]) (simp add: p_def cthd_trip_point_def)
qed simp

lemma add_polling_touches: "add_polling idx temp is ts st = (ts', st') \<Longrightarrow> touches {} st st'"
proof (induction "is" arbitrary: ts st)
  case (Cons i "is")
  from Cons.prems obtain ts1 e where "add_polling idx temp is ts1 (st\<lparr>sy_env := e\<rparr>) = (ts', st')"
    by (simp add: Let_def)
  then show ?case using Cons.IH touches_trans [OF touches_env] by blast
qed simp

lemma poll_temp_below:
  assumes "5000 \<le> lowest" and "lowest \<le> 429496729"
  shows "poll_temp lowest < lowest \<and> uint (poll_temp lowest) \<le> uint lowest - 5000
    \<and> 10 * uint (poll_temp lowest) \<le> 9 * uint lowest + 10"
proof -
  define n where "n = uint lowest"
  have n: "5000 \<le> n" "n \<le> 429496729" using assms by (simp_all add: n_def word_le_def)
  have m: "uint (lowest * 10) = n * 10"
    using n by (simp add: uint_word_ariths n_def)
  then have d: "uint (lowest * 10 div 100) = n div 10"
    by (simp add: uint_div)
  define off where "off = (if lowest * 10 div 100 < 5000 then 5000 else lowest * 10 div 100)"
  have off: "uint off = max 5000 (n div 10)"
    using d by (simp add: off_def word_less_def max_def)
  moreover have "n div 10 \<le> n" using n by linarith
  ultimately have le: "uint off \<le> n" using n by simp
  then have p: "poll_temp lowest = lowest - off" "uint (lowest - off) = n - uint off"
    by (simp_all add: poll_temp_def off_def def_async_trip_offset_pct_def def_async_trip_offset_def n_def uint_sub_if' word_le_def Let_def)
  show ?thesis
    using off p n by (simp add: word_less_def n_def [symmetric] max_def) linarith
qed

lemma erase_polling_set: "set (erase_polling ts) \<subseteq> set ts" "\<And>t. tp_type t \<noteq> POLLING \<Longrightarrow> t \<in> set ts \<Longrightarrow> t \<in> set (erase_polling ts)"
  by (induction ts) auto

lemma trip_sort_props:
  "sorted (map tp_temp (trip_sort ts))" "set (trip_sort ts) = set ts" "mset (trip_sort ts) = mset ts"
  "trip_sort ts = [] \<longleftrightarrow> ts = []"
  by (simp_all add: trip_sort_def) (metis mset_sort mset_zero_iff)


definition polling_count :: "trip_point list \<Rightarrow> nat" where
  "polling_count ts = length (filter (\<lambda>t. tp_type t = POLLING) ts)"

lemma polling_count_mset: "mset ts = mset ts' \<Longrightarrow> polling_count ts = polling_count ts'"
  unfolding polling_count_def by (metis mset_filter size_mset)

lemma polling_count_erase: "polling_count (erase_polling ts) = polling_count ts - 1"
  by (induction ts) (auto simp: polling_count_def Suc_diff_Suc)

text \<open>
  Only one polling trip is erased but one per sensor is added: with at least one trip, the
  number of polling trips after an update is that before, less one if there was one, plus the
  number of sensors of the zone. A zone with two or more sensors accumulates them with each update.
\<close>

theorem poll_trips_accumulate:
  assumes "sort_and_update_poll_trip z st = (z', st')" and "erase_polling (zn_trip_points z) \<noteq> []"
  shows "polling_count (zn_trip_points z') = polling_count (zn_trip_points z) - 1 + length (zn_sensors z)"
proof -
  define ts where "ts = trip_sort (erase_polling (zn_trip_points z))"
  define pt where "pt = poll_temp (tp_temp (hd ts))"
  obtain ts' s' where a: "add_polling (zn_index z) pt (zn_sensors z) ts st = (ts', s')" by fastforce
  have "sort_and_update_poll_trip z st = (z\<lparr>zn_trip_points := ts'\<rparr>, s')"
    using assms(2) a by (simp add: sort_and_update_poll_trip_def ts_def pt_def Let_def)
  then have z': "zn_trip_points z' = ts'" using assms(1) by auto
  from add_polling_trips [OF a] obtain ps where ps: "ts' = ts @ ps"
      "map tp_sensor_id ps = map (\<lambda>i. sn_index (sy_sensors st ! i)) (zn_sensors z)" "\<forall>p\<in>set ps. tp_type p = POLLING" by blast
  have "polling_count ps = length ps" using ps(3) by (simp add: polling_count_def)
  moreover have "length ps = length (zn_sensors z)" using ps(2) by (metis length_map)
  moreover have "polling_count ts = polling_count (zn_trip_points z) - 1"
    using polling_count_mset [OF trip_sort_props(3)] by (simp add: ts_def polling_count_erase)
  ultimately show ?thesis by (simp add: z' ps(1) polling_count_def)
qed

section \<open>What a temperature change may touch\<close>

definition zone_cdevs :: "trip_point list \<Rightarrow> nat set" where
  "zone_cdevs ts = (\<Union>t\<in>set ts. bound_cdevs t)"

definition critical_reached :: "trip_point list \<Rightarrow> u32 \<Rightarrow> 'a sys_scheme \<Rightarrow> bool" where
  "critical_reached ts T st \<longleftrightarrow>
     \<not> sy_ignore_critical st \<and> (\<exists>t\<in>set ts. tp_type t = CRITICAL \<and> tp_temp t \<le> T)"

lemma check_frame_mono: "check_frame A a st st' \<Longrightarrow> A \<subseteq> B \<Longrightarrow> (a \<Longrightarrow> b) \<Longrightarrow> check_frame B b st st'"
  by (auto simp: check_frame_def)

lemma check_frame_env:
  assumes "check_frame A a st st'"
  shows "sy_sensors st' = sy_sensors st" "sy_ignore_critical st' = sy_ignore_critical st"
    "sy_preference st' = sy_preference st"
  using assms by (simp_all add: check_frame_def)

lemma check_trips_frame:
  "check_trips sid T pref ts st = (r, ts', st') \<Longrightarrow>
     list_all2 same_setting ts ts' \<and> check_frame (zone_cdevs ts) (critical_reached ts T st) st st'"
proof (induction ts arbitrary: st r ts' st')
  case (Cons t ts)
  let ?F = "check_frame (zone_cdevs (t # ts)) (critical_reached (t # ts) T st)"
  obtain b rs t1 s1 where c: "thd_trip_point_check sid T pref t st = (b, rs, t1, s1)" by (metis prod_cases4)
  obtain r2 ts2 s2 where d: "check_trips sid T pref ts s1 = (r2, ts2, s2)" by (metis prod_cases3)
  have f1: "same_setting t t1" "check_frame (bound_cdevs t) (may_power_off t T st) st s1"
    using trip_check_keeps [OF c] by auto
  have F1: "?F st s1"
    by (rule check_frame_mono [OF f1(2)]) (auto simp: zone_cdevs_def critical_reached_def may_power_off_def)
  have "?F s1 s2"
    by (rule check_frame_mono [OF Cons.IH [OF d, THEN conjunct2]])
      (auto simp: zone_cdevs_def critical_reached_def check_frame_env [OF f1(2)])
  then have F2: "?F st s2" by (rule check_frame_trans [OF F1])
  have "list_all2 same_setting ts ts" by (simp add: list_all2_refl)
  then show ?case
    using Cons.prems c d f1(1) F1 F2 Cons.IH [OF d] by (auto split: if_splits)
qed simp

lemma zone_reset_touches: "touches (zone_cdevs (zn_trip_points z)) st (zone_reset force z st)"
proof -
  have "touches (zone_cdevs (zn_trip_points z)) st (fold (thd_trip_cdev_state_reset force) ts st)"
    if "set ts \<subseteq> set (zn_trip_points z)" for ts st
    using that
  proof (induction ts arbitrary: st)
    case (Cons t ts)
    have "touches (zone_cdevs (zn_trip_points z)) st (thd_trip_cdev_state_reset force t st)"
      unfolding thd_trip_cdev_state_reset_def
      by (rule touches_mono [OF reset_cdevs_touches]) (use Cons.prems in \<open>auto simp: zone_cdevs_def bound_cdevs_def\<close>)
    then show ?case using Cons by (auto intro: touches_trans)
  qed simp
  from this [of "rev (zn_trip_points z)" st] show ?thesis by (simp add: zone_reset_def)
qed

lemma same_setting_bound: "same_setting t t' \<Longrightarrow> bound_cdevs t' = bound_cdevs t"
  unfolding same_setting_def bound_cdevs_def by (metis set_map)

lemma zone_cdevs_cong: "list_all2 same_setting ts ts' \<Longrightarrow> zone_cdevs ts' = zone_cdevs ts"
  by (induction rule: list_all2_induct) (auto simp: zone_cdevs_def dest: same_setting_bound)

lemma temp_change_keeps:
  assumes "thermal_zone_temp_change sid T pref z st = (z', st')"
  shows "z' = z\<lparr>zn_trip_points := zn_trip_points z'\<rparr> \<and> list_all2 same_setting (zn_trip_points z) (zn_trip_points z')
    \<and> check_frame (zone_cdevs (zn_trip_points z)) (critical_reached (zn_trip_points z) T st) st st'"
proof -
  obtain r ts s1 where c: "check_trips sid T pref (zn_trip_points z) st = (r, ts, s1)" by (metis prod_cases3)
  define z1 where "z1 = z\<lparr>zn_trip_points := ts\<rparr>"
  have r: "z' = z1" "st' = (if r then zone_reset 0 z1 s1 else s1)"
    using assms c by (auto simp: thermal_zone_temp_change_def z1_def Let_def)
  have f: "list_all2 same_setting (zn_trip_points z) ts"
      "check_frame (zone_cdevs (zn_trip_points z)) (critical_reached (zn_trip_points z) T st) st s1"
    using check_trips_frame [OF c] by auto
  have "touches (zone_cdevs (zn_trip_points z)) s1 (zone_reset 0 z1 s1)"
    using zone_reset_touches [of z1 s1 0] zone_cdevs_cong [OF f(1)] by (simp add: z1_def)
  from check_frame_trans [OF f(2) touches_check_frame [OF this subset_refl]] show ?thesis
    using f r by (simp add: z1_def)
qed

text \<open>
  C11. A temperature change in a zone, the reset it may trigger included, changes no device but
  those bound to its trips (or those the trips depend on), no setting of a trip and nothing else of
  the zone; it powers the system off only when critical trips are not ignored and one of the zone
  is reached by the temperature.
\<close>

theorem zone_temp_change_frame:
  assumes "thermal_zone_temp_change sid T pref z st = (z', st')"
  shows "z' = z\<lparr>zn_trip_points := zn_trip_points z'\<rparr> \<and> list_all2 same_setting (zn_trip_points z) (zn_trip_points z')
    \<and> check_frame (zone_cdevs (zn_trip_points z)) (critical_reached (zn_trip_points z) T st) st st'"
  by (rule temp_change_keeps [OF assms])

section \<open>Correlated sensors\<close>

definition plain_sensors :: "nat list \<Rightarrow> 'a sys_scheme \<Rightarrow> bool" where
  "plain_sensors is st \<longleftrightarrow> (\<forall>i\<in>set is. sn_kind (sy_sensors st ! i) = Plain_sensor)"

definition plain_temps :: "nat list \<Rightarrow> 'a sys_scheme \<Rightarrow> u32 set" where
  "plain_temps is st = (\<lambda>i. plain_read (sy_env st) (sy_sensors st ! i)) ` set is"

lemma read_temperature_plain:
  "sn_kind (sy_sensors st ! i) = Plain_sensor \<Longrightarrow>
     read_temperature (Suc n) i st = Some (plain_read (sy_env st) (sy_sensors st ! i), st)"
  by (simp add: read_temperature_def sensor_read.simps)

lemma read_sensors_max:
  assumes "plain_sensors is st" "zn_sensor_rel z = SENSORS_CORELATED"
  shows "read_sensors (Suc n) is z st = Some (z\<lparr>zn_temp := Max (insert (zn_temp z) (plain_temps is st))\<rparr>, st)"
  using assms
proof (induction "is" arbitrary: z)
  case (Cons i "is")
  let ?w = "plain_read (sy_env st) (sy_sensors st ! i)"
  define z1 where "z1 = (if zn_temp z < ?w then z\<lparr>zn_temp := ?w\<rparr> else z)"
  have z1: "zn_sensor_rel z1 = SENSORS_CORELATED" "zn_temp z1 = max (zn_temp z) ?w"
      "z1\<lparr>zn_temp := x\<rparr> = z\<lparr>zn_temp := x\<rparr>" for x
    using Cons.prems(2) by (auto simp: z1_def max_def)
  have "read_sensors (Suc n) (i # is) z st = read_sensors (Suc n) is z1 st"
    using Cons.prems z1(1) by (simp add: plain_sensors_def read_temperature_plain z1_def [symmetric] Let_def)
  also have "\<dots> = Some (z1\<lparr>zn_temp := Max (insert (zn_temp z1) (plain_temps is st))\<rparr>, st)"
    using Cons.prems(1) z1(1) by (intro Cons.IH) (auto simp: plain_sensors_def)
  also have "Max (insert (zn_temp z1) (plain_temps is st)) = Max (insert (zn_temp z) (plain_temps (i # is) st))"
    by (cases "is") (simp_all add: z1(2) plain_temps_def max.assoc)
  finally show ?case by (simp only: z1(3))
qed (simp add: plain_temps_def)

text \<open>
  For a zone of correlated sensors the trips are checked once, against the highest of the
  sensors' readings, and not at all when every reading is 0.
\<close>

theorem correlated_zone_max:
  assumes "zn_active z" and "zn_sensor_rel z = SENSORS_CORELATED" and "plain_sensors (zn_sensors z) st"
  shows "let T = Max (insert 0 (plain_temps (zn_sensors z) st)) in
    read_zone_temp (Suc n) z st =
      Some (if T = 0 then (z\<lparr>zn_temp := 0\<rparr>, st)
            else thermal_zone_temp_change (sensor_index (hd (zn_sensors z)) st) T (sy_preference st) (z\<lparr>zn_temp := T\<rparr>) st)"
  using read_sensors_max [OF assms(3), of "z\<lparr>zn_temp := 0\<rparr>" n] assms(1,2)
  by (simp add: read_zone_temp_def Let_def)

section \<open>A check returns\<close>

definition sensors_ok :: "nat \<Rightarrow> nat \<Rightarrow> nat list \<Rightarrow> 'a sys_scheme \<Rightarrow> bool" where
  "sensors_ok m n is st \<longleftrightarrow> links_down m (sy_sensors st) \<and> (\<forall>i\<in>set is. i < length (sy_sensors st))
     \<and> read_fuel m (length (sy_sensors st)) \<le> n"

lemma read_temperature_ok:
  assumes "sensors_ok m n is st" "i \<in> set is"
  shows "\<exists>w st'. read_temperature n i st = Some (w, st') \<and> sensors_ok m n is st'"
proof -
  have i: "i < length (sy_sensors st)" "links_down m (sy_sensors st)" using assms by (auto simp: sensors_ok_def)
  have "read_fuel m i \<le> read_fuel m (length (sy_sensors st))"
    unfolding read_fuel_def using i(1) by (intro mult_le_mono1) simp
  then have "read_fuel m i \<le> n" using assms(1) by (simp add: sensors_ok_def)
  from sensor_read_returns [OF i(2,1) this, of "sy_env st"] obtain w e ss where
    "sensor_read n i (sy_env st) (sy_sensors st) = Some (w, e, ss)" "same_links (sy_sensors st) ss"
    by (auto simp: returns_def)
  then show ?thesis
    using assms(1) links_down_cong by (fastforce simp: read_temperature_def sensors_ok_def same_links_def)
qed

lemma temp_change_ok:
  assumes "thermal_zone_temp_change sid T pref z st = (z', st')" "sensors_ok m n is st"
  shows "sensors_ok m n is st' \<and> zn_sensors z' = zn_sensors z"
proof -
  have "z' = z\<lparr>zn_trip_points := zn_trip_points z'\<rparr>" "sy_sensors st' = sy_sensors st"
    using temp_change_keeps [OF assms(1)] by (auto simp: check_frame_def)
  then show ?thesis using assms(2) by (metis sensors_ok_def zone.select_convs(8) zone.surjective zone.update_convs(2))
qed

lemma read_sensors_ok:
  "sensors_ok m n js st \<Longrightarrow> set is \<subseteq> set js \<Longrightarrow>
     \<exists>z' st'. read_sensors n is z st = Some (z', st') \<and> sensors_ok m n js st' \<and> zn_sensors z' = zn_sensors z"
proof (induction "is" arbitrary: z st)
  case (Cons i "is")
  obtain w s1 where r: "read_temperature n i st = Some (w, s1)" "sensors_ok m n js s1"
    using read_temperature_ok [OF Cons.prems(1), of i] Cons.prems(2) by auto
  define z1 where "z1 = (if zn_temp z < w then z\<lparr>zn_temp := w\<rparr> else z)"
  obtain z2 s2 where c: "(if zn_sensor_rel z1 = SENSOR_INDEPENDENT
      then thermal_zone_temp_change (sensor_index i s1) w (sy_preference s1) z1 s1 else (z1, s1)) = (z2, s2)"
    by fastforce
  then have ok: "sensors_ok m n js s2" "zn_sensors z2 = zn_sensors z"
    using temp_change_ok [OF _ r(2), of "sensor_index i s1" w "sy_preference s1" z1 z2 s2] r(2)
    by (auto simp: z1_def split: if_splits)
  have "read_sensors n (i # is) z st = read_sensors n is z2 s2"
    using c by (simp add: r(1) z1_def [symmetric] Let_def split: if_splits)
  then show ?case using Cons.IH [OF ok(1), of z2] Cons.prems(2) ok(2) by auto
qed auto

lemma zone_check_ok:
  assumes "sensors_ok m n (zn_sensors z) st"
  shows "\<exists>z' st'. read_zone_temp n z st = Some (z', st') \<and> sensors_ok m n (zn_sensors z') st'
    \<and> zn_sensors z' = zn_sensors z"
proof (cases "zn_active z")
  case True
  obtain z1 s1 where r: "read_sensors n (zn_sensors z) (z\<lparr>zn_temp := 0\<rparr>) st = Some (z1, s1)"
      "sensors_ok m n (zn_sensors z) s1" "zn_sensors z1 = zn_sensors z"
    using read_sensors_ok [OF assms subset_refl, of "z\<lparr>zn_temp := 0\<rparr>"] by auto
  obtain z2 s2 where c: "(if zn_sensor_rel z1 = SENSORS_CORELATED \<and> zn_temp z1 \<noteq> 0
      then thermal_zone_temp_change (sensor_index (hd (zn_sensors z1)) s1) (zn_temp z1) (sy_preference s1) z1 s1
      else (z1, s1)) = (z2, s2)" by fastforce
  then have "sensors_ok m n (zn_sensors z) s2" "zn_sensors z2 = zn_sensors z"
    using temp_change_ok [OF _ r(2), of "sensor_index (hd (zn_sensors z1)) s1" "zn_temp z1" "sy_preference s1" z1 z2 s2] r(2,3)
    by (auto split: if_splits)
  then show ?thesis using True r c by (simp add: read_zone_temp_def)
qed (use assms in \<open>simp add: read_zone_temp_def\<close>)

text \<open>
  A periodic check of a zone returns, whatever its trips do, when virtual sensors are only
  linked to sensors before them; the sensors of the zone and their links stay as they are.
\<close>

theorem zone_check_returns:
  assumes "sensors_ok m n (zn_sensors z) st"
  shows "\<exists>z' st'. read_zone_temp n z st = Some (z', st') \<and> sensors_ok m n (zn_sensors z') st'
    \<and> zn_sensors z' = zn_sensors z"
  by (rule zone_check_ok [OF assms])

section \<open>The temperature set by the user\<close>

text \<open>
  A passive temperature of at least 1000 written for a zone is read back unchanged; one below
  is ignored.
\<close>

theorem psv_temperature_roundtrip:
  assumes "in_s32 v"
  shows "read_user_set_psv_temp z (snd (update_psv_temperature True v z e)) = (if v < 1000 then -1 else v)"
proof -
  have "extract_int (show_int v) = v"
    using assms by (simp add: extract_int_def parse_sign_show_int in_s32_def)
  then show ?thesis by (simp add: read_user_set_psv_temp_def update_psv_temperature_def write_conf_def)
qed

section \<open>Witnesses\<close>

definition demo_zone :: zone where
  "demo_zone = (cthd_zone 0 [] SENSORS_CORELATED Zone_rapl_power)\<lparr>zn_trip_points := [demo_trip ACTIVE [0], demo_trip CRITICAL []],
     zn_active := True, zn_type_str := ''cpu'', zn_sensors := [0]\<rparr>"

lemma demo_zone_simps [simp]:
  "zn_trip_points demo_zone = [demo_trip ACTIVE [0], demo_trip CRITICAL []]" "zn_active demo_zone"
  "zn_sensors demo_zone = [0]" "zn_sensor_rel demo_zone = SENSORS_CORELATED"
  by (simp_all add: demo_zone_def cthd_zone_def)

lemma fan_sys_sensors [simp]: "sy_sensors fan_sys = [cthd_sensor 0 ''/s/'' ''cpu'' 0]"
  by (simp add: fan_sys_def)


theorem poll_trips_accumulate_witness:
  "polling_count (zn_trip_points (fst (sort_and_update_poll_trip
     (demo_zone\<lparr>zn_trip_points := [demo_trip POLLING [], demo_trip POLLING [], demo_trip ACTIVE []], zn_sensors := [0, 1]\<rparr>) fan_sys))) = 3"
proof -
  let ?z = "demo_zone\<lparr>zn_trip_points := [demo_trip POLLING [], demo_trip POLLING [], demo_trip ACTIVE []], zn_sensors := [0, 1]\<rparr>"
  obtain z' st' where 1: "sort_and_update_poll_trip ?z fan_sys = (z', st')" by fastforce
  show ?thesis unfolding 1 using poll_trips_accumulate [OF 1] by (simp add: polling_count_def)
qed

theorem zone_temp_change_frame_witness:
  "let (z', st') = thermal_zone_temp_change 0 85000 1 demo_zone fan_sys
   in list_all2 same_setting (zn_trip_points demo_zone) (zn_trip_points z') \<and> check_frame {0} False fan_sys st'"
proof -
  obtain z' st' where 1: "thermal_zone_temp_change 0 85000 1 demo_zone fan_sys = (z', st')" by fastforce
  from zone_temp_change_frame [OF 1] show ?thesis
    by (simp add: 1 zone_cdevs_def bound_cdevs_def critical_reached_def)
qed

theorem correlated_zone_max_witness:
  "let T = Max (insert 0 (plain_temps [0] fan_sys)) in
    read_zone_temp 1 demo_zone fan_sys =
      Some (if T = 0 then (demo_zone\<lparr>zn_temp := 0\<rparr>, fan_sys)
            else thermal_zone_temp_change (sensor_index 0 fan_sys) T (sy_preference fan_sys) (demo_zone\<lparr>zn_temp := T\<rparr>) fan_sys)"
  using correlated_zone_max [of demo_zone fan_sys 0] by (simp add: plain_sensors_def cthd_sensor_def Let_def)

theorem zone_check_returns_witness:
  "\<exists>z' st'. read_zone_temp 20 demo_zone fan_sys = Some (z', st') \<and> zn_sensors z' = [0]"
proof -
  have "sensors_ok 0 20 (zn_sensors demo_zone) fan_sys"
    by (simp add: sensors_ok_def links_down_def links_of_def cthd_sensor_def read_fuel_def)
  from zone_check_returns [OF this] show ?thesis by auto
qed

theorem psv_temperature_roundtrip_witness:
  "read_user_set_psv_temp demo_zone (snd (update_psv_temperature True 75000 demo_zone (demo_meter Map.empty))) = 75000"
  using psv_temperature_roundtrip [of 75000 demo_zone "demo_meter Map.empty"] by (simp add: in_s32_def)

end
