(* ===== verification/Thd_ZoneKinds.thy ===== *)
theory Thd_ZoneKinds
  imports Thd_ZoneProps
begin

text \<open>
  The kinds of zones: thermal sysfs zones (\<^verbatim>\<open>thd_zone_therm_sys_fs.cpp\<close>), the CPU zone
  (\<^verbatim>\<open>thd_zone_cpu.cpp\<close>), zones of the XML configuration (\<^verbatim>\<open>thd_zone_generic.cpp\<close>), zones
  made at run time (\<^verbatim>\<open>thd_zone_dynamic.cpp\<close>) and the package power zone
  (\<^verbatim>\<open>thd_zone_rapl_power.cpp\<close>): how each binds its sensors and reads its trips, and
  \<^verbatim>\<open>zone_update\<close>, which puts them together.
\<close>

section \<open>What the file system says beside the attributes\<close>

text \<open>Whether the owner may write a file, the value of a symbolic link, the order of devices of
  \<^verbatim>\<open>thermal-cpu-cdev-order.xml\<close> when it could be parsed, and whether the kernel is a real time
  one.\<close>

record site =
  si_writable :: "string \<Rightarrow> bool"
  si_readlink :: "string \<Rightarrow> string option"
  si_cdev_order :: "string list option"
  si_rt_kernel :: bool

definition INT32_MAX :: u32 where "INT32_MAX = 2147483647"

type_synonym 'a zone_op = "zone \<Rightarrow> 'a sys_scheme \<Rightarrow> int \<times> zone \<times> 'a sys_scheme"

definition add_point :: "trip_point \<Rightarrow> zone \<Rightarrow> zone" where
  "add_point t z = z\<lparr>zn_trip_points := zn_trip_points z @ [t]\<rparr>"

definition bind_found :: "string \<Rightarrow> zone \<Rightarrow> 'a sys_scheme \<Rightarrow> bool \<times> zone" where
  "bind_found name z st = (case search_sensor name st of None \<Rightarrow> (False, z) | Some i \<Rightarrow> (True, bind_sensor i z))"

definition make_async :: "nat \<Rightarrow> 'a sys_scheme \<Rightarrow> 'a sys_scheme" where
  "make_async i st = st\<lparr>sy_sensors := (sy_sensors st)[i := set_async_capable True (sy_sensors st ! i)]\<rparr>"

section \<open>Thermal sysfs zones\<close>

definition cthd_sysfs_zone :: "'a sys_scheme \<Rightarrow> int \<Rightarrow> string \<Rightarrow> zone" where
  "cthd_sysfs_zone st idx path =
     (let p = path @ show_int idx @ ''/type'';
          z = cthd_zone idx path SENSOR_INDEPENDENT (Zone_sysfs 0 [])
      in if sysfs_exists (sy_env st) p
         then z\<lparr>zn_type_str := snd (sysfs_read_str (sy_env st) p [])\<rparr> else z)"

definition sysfs_bind_sensors :: "'a zone_op" where
  "sysfs_bind_sensors z st =
     (case bind_found (zn_type_str z) z st of (found, z') \<Rightarrow> (if found then THD_SUCCESS else THD_ERROR, z', st))"

definition trip_type_of :: "string \<Rightarrow> trip_point_type" where
  "trip_type_of s =
     (if s = ''critical'' then CRITICAL else if s = ''hot'' then MAX_TRIP else if s = ''active'' then ACTIVE
      else if s = ''passive'' then PASSIVE else INVALID_TRIP_TYPE)"

definition sysfs_trip_path :: "zone \<Rightarrow> nat \<Rightarrow> string \<Rightarrow> string" where
  "sysfs_trip_path z i attr = zn_sysfs z @ show_int (zn_index z) @ ''/'' @ ''trip_point_'' @ show_int (int i) @ attr"

text \<open>One round of the loop: the type, temperature and hysteresis of trip \<open>i\<close>. A failed read of an
  existing attribute ends the loop with its error.\<close>

definition sysfs_trip_values :: "'a sys_scheme \<Rightarrow> zone \<Rightarrow> nat \<Rightarrow> int + string \<times> int \<times> int" where
  "sysfs_trip_values st z i =
     (let e = sy_env st;
          ty = (if sysfs_exists e (sysfs_trip_path z i ''_type'')
                then snd (sysfs_read_str e (sysfs_trip_path z i ''_type'') []) else []);
          rt = (if sysfs_exists e (sysfs_trip_path z i ''_temp'')
                then sysfs_read_int e (sysfs_trip_path z i ''_temp'') 0 else (0, 0));
          rh = (if sysfs_exists e (sysfs_trip_path z i ''_hyst'')
                then (case sysfs_read_int e (sysfs_trip_path z i ''_hyst'') 1 of
                        (r, h) \<Rightarrow> (r, if h < 1000 \<or> 5000 < h then 1000 else h)) else (0, 1))
      in if fst rt < 0 then Inl (fst rt) else if fst rh < 0 then Inl (fst rh) else Inr (ty, snd rt, snd rh))"

definition sysfs_writable :: "site \<Rightarrow> 'a sys_scheme \<Rightarrow> zone \<Rightarrow> nat \<Rightarrow> bool" where
  "sysfs_writable si st z i \<longleftrightarrow> sysfs_exists (sy_env st) (sysfs_trip_path z i ''_temp'')
     \<and> si_writable si (sysfs_trip_path z i ''_temp'')"

fun sysfs_members :: "zone \<Rightarrow> int \<times> int list" where
  "sysfs_members z = (case zn_kind z of Zone_sysfs c vs \<Rightarrow> (c, vs) | _ \<Rightarrow> (0, []))"

definition sysfs_add_value :: "int \<Rightarrow> zone \<Rightarrow> zone" where
  "sysfs_add_value v z = (case sysfs_members z of (c, vs) \<Rightarrow> z\<lparr>zn_kind := Zone_sysfs c (vs @ [v])\<rparr>)"

definition sysfs_add_trip :: "trip_point_type \<Rightarrow> u32 \<Rightarrow> u32 \<Rightarrow> int \<Rightarrow> zone \<Rightarrow> zone" where
  "sysfs_add_trip ty temp hyst sensor z =
     (case sysfs_members z of (c, vs) \<Rightarrow>
        (add_point (cthd_trip_point c ty temp hyst (zn_index z) sensor SEQUENTIAL) z)\<lparr>zn_kind := Zone_sysfs (c + 1) vs\<rparr>)"

text \<open>A writable trip is left for the daemon's own threshold: it only makes the sensor
  asynchronous, and its value is kept to be restored.\<close>

definition sysfs_trip_round :: "site \<Rightarrow> string \<Rightarrow> int \<Rightarrow> int \<Rightarrow> nat \<Rightarrow> zone \<Rightarrow> 'a sys_scheme \<Rightarrow> zone \<times> 'a sys_scheme" where
  "sysfs_trip_round si ty temp hyst i z st =
     (case search_sensor (zn_type_str z) st of None \<Rightarrow> (sysfs_add_value (-1) z, st)
      | Some k \<Rightarrow>
          (if sysfs_writable si st z i then (sysfs_add_value temp z, make_async k st)
           else if 0 < temp \<and> trip_type_of ty \<noteq> INVALID_TRIP_TYPE
           then (sysfs_add_trip (trip_type_of ty) (word_of_int temp) (word_of_int hyst) (sensor_index k st)
                   (sysfs_add_value (-1) z), st)
           else (sysfs_add_value (-1) z, st)))"

fun sysfs_trip_loop :: "site \<Rightarrow> nat list \<Rightarrow> zone \<Rightarrow> 'a sys_scheme \<Rightarrow> int \<times> zone \<times> 'a sys_scheme" where
  "sysfs_trip_loop si [] z st = (0, z, st)"
| "sysfs_trip_loop si (i # is) z st =
     (case sysfs_trip_values st z i of Inl r \<Rightarrow> (r, z, st)
      | Inr (ty, temp, hyst) \<Rightarrow>
          (case sysfs_trip_round si ty temp hyst i z st of (z', st') \<Rightarrow> sysfs_trip_loop si is z' st'))"

definition max_trip_points :: nat where "max_trip_points = 50"

definition sysfs_read_trip_points :: "site \<Rightarrow> 'a zone_op" where
  "sysfs_read_trip_points si z st =
     (case sysfs_trip_loop si [0..<max_trip_points] z st of (r, z1, st1) \<Rightarrow>
        if r < 0 then (r, z1, st1)
        else if fst (sysfs_members z1) \<noteq> 0 then (THD_SUCCESS, z1, st1)
        else case search_sensor (zn_type_str z1) st1 of None \<Rightarrow> (THD_ERROR, z1, st1)
        | Some k \<Rightarrow>
            (THD_SUCCESS,
             (case sysfs_members z1 of (c, vs) \<Rightarrow>
                (add_point (cthd_trip_point 0 PASSIVE INT32_MAX 0 (zn_index z1) (sensor_index k st1) SEQUENTIAL) z1)
                  \<lparr>zn_kind := Zone_sysfs (c + 1) vs\<rparr>), st1))"

text \<open>The devices the kernel binds to the trips. The text after \<^verbatim>\<open>cooling_device\<close> in the link
  (cut to 50 characters) is the index of the device.\<close>

definition after_sub :: "string \<Rightarrow> string \<Rightarrow> string option" where
  "after_sub pat s =
     (case List.find (\<lambda>i. take (length pat) (drop i s) = pat) [0..<Suc (length s)] of
        None \<Rightarrow> None | Some i \<Rightarrow> Some (drop (i + length pat) s))"

definition sysfs_cdev_path :: "zone \<Rightarrow> nat \<Rightarrow> string" where
  "sysfs_cdev_path z i = zn_sysfs z @ show_int (zn_index z) @ ''/'' @ ''cdev'' @ show_int (int i)"

definition bind_trip_cdev :: "'a sys_scheme \<Rightarrow> int \<Rightarrow> int \<Rightarrow> zone \<Rightarrow> zone" where
  "bind_trip_cdev st trip_cnt idx z =
     (if 0 \<le> trip_cnt \<and> trip_cnt < fst (sysfs_members z)
      then z\<lparr>zn_trip_points := (zn_trip_points z)[nat trip_cnt :=
               snd (thd_trip_point_add_cdev_index st idx 0 (zn_trip_points z ! nat trip_cnt))],
             zn_cdev_binded_status := True\<rparr>
      else z)"

fun sysfs_cdev_loop :: "site \<Rightarrow> 'a sys_scheme \<Rightarrow> nat list \<Rightarrow> zone \<Rightarrow> int \<times> zone" where
  "sysfs_cdev_loop si st [] z = (THD_SUCCESS, z)"
| "sysfs_cdev_loop si st (i # is) z =
     (let p = sysfs_cdev_path z i; tp = p @ ''_trip_point''
      in if \<not> sysfs_exists (sy_env st) tp then sysfs_cdev_loop si st is z
         else case sysfs_read_int (sy_env st) tp (-1) of (r, trip_cnt) \<Rightarrow>
           if r < 0 then (r, z)
           else if \<not> sysfs_exists (sy_env st) p then sysfs_cdev_loop si st is z
           else case si_readlink si p of None \<Rightarrow> sysfs_cdev_loop si st is z
           | Some s \<Rightarrow>
               (case after_sub ''cooling_device'' (take 50 s) of None \<Rightarrow> sysfs_cdev_loop si st is z
                | Some t \<Rightarrow> sysfs_cdev_loop si st is (bind_trip_cdev st trip_cnt (atoi t) z)))"

definition max_cool_devs :: nat where "max_cool_devs = 50"

definition sysfs_read_cdev_trip_points :: "site \<Rightarrow> 'a zone_op" where
  "sysfs_read_cdev_trip_points si z st =
     (case sysfs_cdev_loop si st [0..<max_cool_devs] z of (r, z') \<Rightarrow> (r, z', st))"

text \<open>The destructor writes the initial values of the writable trips back.\<close>

fun sysfs_restore :: "zone \<Rightarrow> nat \<Rightarrow> int list \<Rightarrow> menv \<Rightarrow> menv" where
  "sysfs_restore z i [] e = e"
| "sysfs_restore z i (v # vs) e =
     sysfs_restore z (Suc i) vs
       (if 0 \<le> v \<and> sysfs_exists e (sysfs_trip_path z i ''_temp'')
        then snd (sysfs_write_uint e (sysfs_trip_path z i ''_temp'') v) else e)"

definition sysfs_zone_destroy :: "zone \<Rightarrow> 'a sys_scheme \<Rightarrow> 'a sys_scheme" where
  "sysfs_zone_destroy z st = st\<lparr>sy_env := sysfs_restore z 0 (snd (sysfs_members z)) (sy_env st)\<rparr>"

section \<open>The CPU zone\<close>

definition def_cooling_devices :: "string list" where
  "def_cooling_devices = [''rapl_controller'', ''intel_pstate'', ''intel_powerclamp'', ''cpufreq'', ''Processor'']"

definition max_dts_sensors :: nat where "max_dts_sensors = 16"
definition def_hystersis :: u32 where "def_hystersis = 0"
definition def_offset_from_critical :: int where "def_offset_from_critical = 10000"
definition def_critical_temp :: int where "def_critical_temp = 100000"

definition cthd_zone_cpu :: "int \<Rightarrow> string \<Rightarrow> zone" where
  "cthd_zone_cpu idx path =
     (cthd_zone idx path SENSORS_CORELATED
        (Zone_cpu \<lparr>cz_critical_temp = 0, cz_max_temp = 0, cz_psv_temp = 0, cz_trip_point_cnt = 0, cz_sensor_mask = 0\<rparr>))
       \<lparr>zn_type_str := ''cpu''\<rparr>"

text \<open>The lowest of the temperatures that \<^verbatim>\<open>coretemp\<close> reports, 0 for none. The local
  \<^verbatim>\<open>temp\<close> keeps its value from one read to the next.\<close>

definition lower_temp :: "int \<Rightarrow> int \<Rightarrow> int" where
  "lower_temp old temp = (if old = 0 \<or> temp < old then temp else old)"

fun dts_loop :: "menv \<Rightarrow> string \<Rightarrow> nat list \<Rightarrow> int \<Rightarrow> bool \<Rightarrow> cpu_zone \<Rightarrow> int \<times> bool \<times> cpu_zone" where
  "dts_loop e base [] temp found c = (0, found, c)"
| "dts_loop e base (i # is) temp found c =
     (let pc = base @ ''temp'' @ show_int (int i) @ ''_crit''; pm = base @ ''temp'' @ show_int (int i) @ ''_max'';
          (r1, t1) = (if sysfs_exists e pc then sysfs_read_int e pc temp else (0, temp));
          c1 = (if sysfs_exists e pc then c\<lparr>cz_critical_temp := lower_temp (cz_critical_temp c) t1\<rparr> else c)
      in if r1 < 0 then (r1, found, c)
         else if \<not> sysfs_exists e pm then dts_loop e base is t1 found c1
         else
           (let c2 = c1\<lparr>cz_sensor_mask := or (cz_sensor_mask c1) (push_bit i 1)\<rparr>
            in case sysfs_read_int e pm t1 of (r2, t2) \<Rightarrow>
                 if r2 < 0 then (r2, found, c2)
                 else dts_loop e base is t2 True (c2\<lparr>cz_max_temp := lower_temp (cz_max_temp c2) t2\<rparr>)))"

text \<open>The temperatures of the trips: at least 10 degrees between the maximum and the critical
  temperature, and the passive one half way.\<close>

definition cpu_temps :: "cpu_zone \<Rightarrow> cpu_zone" where
  "cpu_temps c =
     (let crit = (if cz_critical_temp c = 0 then def_critical_temp else cz_critical_temp c);
          m1 = (if cz_max_temp c = 0 then crit - def_offset_from_critical else cz_max_temp c);
          mx = (if crit - m1 < def_offset_from_critical then crit - def_offset_from_critical else m1)
      in c\<lparr>cz_critical_temp := crit, cz_max_temp := mx, cz_psv_temp := mx + (crit - mx) div 2\<rparr>)"

definition cpu_zone_init :: "menv \<Rightarrow> string \<Rightarrow> cpu_zone \<Rightarrow> int \<times> cpu_zone" where
  "cpu_zone_init e base c =
     (case dts_loop e base [0..<max_dts_sensors] 0 False (c\<lparr>cz_max_temp := 0, cz_critical_temp := 0\<rparr>) of (r, found, c1) \<Rightarrow>
        if r < 0 then (r, c1) else if \<not> found then (THD_ERROR, c1) else (THD_SUCCESS, cpu_temps c1))"

definition load_cdevs :: "'a sys_scheme \<Rightarrow> string list \<Rightarrow> trip_point \<Rightarrow> trip_point" where
  "load_cdevs st names t =
     fold (\<lambda>name t. case search_cdev name st of None \<Rightarrow> t
             | Some ref \<Rightarrow> thd_trip_point_add_cdev st ref 0 0 0 TRIP_PT_INVALID_TARGET_STATE None 0 0 0 t) names t"

definition cpu_members :: "zone \<Rightarrow> cpu_zone" where
  "cpu_members z = (case zn_kind z of Zone_cpu c \<Rightarrow> c
     | _ \<Rightarrow> \<lparr>cz_critical_temp = 0, cz_max_temp = 0, cz_psv_temp = 0, cz_trip_point_cnt = 0, cz_sensor_mask = 0\<rparr>)"

definition cpu_trip :: "zone \<Rightarrow> trip_point_type \<Rightarrow> int \<Rightarrow> trip_point" where
  "cpu_trip z ty temp =
     cthd_trip_point (cz_trip_point_cnt (cpu_members z)) ty (word_of_int temp) def_hystersis (zn_index z)
       DEFAULT_SENSOR_ID SEQUENTIAL"

definition cpu_add :: "trip_point \<Rightarrow> zone \<Rightarrow> zone" where
  "cpu_add t z =
     (add_point t z)\<lparr>zn_kind := Zone_cpu ((cpu_members z)\<lparr>cz_trip_point_cnt := cz_trip_point_cnt (cpu_members z) + 1\<rparr>)\<rparr>"

text \<open>With an order file there is only a passive trip, with the devices of the file; otherwise the
  default devices, and an active trip when there is a fan.\<close>

definition cpu_read_trip_points :: "site \<Rightarrow> 'a zone_op" where
  "cpu_read_trip_points si z st =
     (case si_cdev_order si of
        Some names \<Rightarrow> (THD_SUCCESS, cpu_add (load_cdevs st names (cpu_trip z PASSIVE (cz_psv_temp (cpu_members z)))) z, st)
      | None \<Rightarrow>
          (let z1 = cpu_add (load_cdevs st def_cooling_devices (cpu_trip z PASSIVE (cz_psv_temp (cpu_members z)))) z
           in case search_cdev ''Fan'' st of None \<Rightarrow> (THD_SUCCESS, z1, st)
              | Some _ \<Rightarrow>
                  (THD_SUCCESS, cpu_add (load_cdevs st [''Fan''] (cpu_trip z1 ACTIVE (cz_max_temp (cpu_members z1)))) z1, st)))"

text \<open>The package sensors (not on a real time kernel) and \<^verbatim>\<open>soc_dts0\<close>; failing them the core
  sensors of the mask, and \<^verbatim>\<open>hwmon\<close>.\<close>

definition bind_core_sensors :: "u32 \<Rightarrow> zone \<Rightarrow> 'a sys_scheme \<Rightarrow> bool \<times> zone" where
  "bind_core_sensors present z st =
     fold (\<lambda>i r. if bit present i
               then (case bind_found (''temp'' @ show_int (int i) @ ''_input'') (snd r) st of (f, z') \<Rightarrow> (fst r \<or> f, z'))
               else r) [0..<32] (False, z)"

definition bind_package_sensors :: "site \<Rightarrow> zone \<Rightarrow> 'a sys_scheme \<Rightarrow> bool \<times> zone" where
  "bind_package_sensors si z st =
     (case (if si_rt_kernel si then (False, z) else bind_found ''pkg-temp-0'' z st) of (f1, z1) \<Rightarrow>
        (case (if si_rt_kernel si then (False, z1) else bind_found ''x86_pkg_temp'' z1 st) of (f2, z2) \<Rightarrow>
           (case bind_found ''soc_dts0'' z2 st of (f3, z3) \<Rightarrow> (f1 \<or> f2 \<or> f3, z3))))"

definition cpu_bind_sensors :: "site \<Rightarrow> 'a zone_op" where
  "cpu_bind_sensors si z st =
     (case cpu_zone_init (sy_env st) (zn_sysfs z) (cpu_members z) of (r, c) \<Rightarrow>
        (let z0 = z\<lparr>zn_kind := Zone_cpu c\<rparr>
         in if r \<noteq> THD_SUCCESS then (THD_ERROR, z0, st)
            else case bind_package_sensors si z0 st of (async, z3) \<Rightarrow>
              if async
              then (THD_SUCCESS, z3, case search_sensor ''hwmon'' st of None \<Rightarrow> st | Some k \<Rightarrow> make_async k st)
              else case bind_core_sensors (cz_sensor_mask c) z3 st of (f, z4) \<Rightarrow>
                if f then (THD_SUCCESS, z4, st)
                else case bind_found ''hwmon'' z4 st of (g, z5) \<Rightarrow> (if g then THD_SUCCESS else THD_ERROR, z5, st)))"

section \<open>Zones of the XML configuration\<close>

definition cthd_zone_generic :: "int \<Rightarrow> trip_conf list option \<Rightarrow> string \<Rightarrow> zone" where
  "cthd_zone_generic idx conf ty = (cthd_zone idx [] SENSOR_INDEPENDENT (Zone_generic conf))\<lparr>zn_type_str := ty\<rparr>"

definition generic_conf :: "zone \<Rightarrow> trip_conf list option" where
  "generic_conf z = (case zn_kind z of Zone_generic c \<Rightarrow> c | _ \<Rightarrow> None)"

fun bind_conf_cdevs :: "'a sys_scheme \<Rightarrow> trip_cdev_conf list \<Rightarrow> bool \<Rightarrow> trip_point \<Rightarrow> bool \<times> trip_point" where
  "bind_conf_cdevs st [] b t = (b, t)"
| "bind_conf_cdevs st (x # xs) b t =
     (case search_cdev (xc_type x) st of None \<Rightarrow> bind_conf_cdevs st xs b t
      | Some ref \<Rightarrow> bind_conf_cdevs st xs True
          (thd_trip_point_add_cdev st ref (xc_influence x) (xc_sampling_period x) (xc_target_state_valid x)
             (xc_target_state x) None (xc_min_max_valid x) (xc_target_min_state x) (xc_target_max_state x) t))"

text \<open>The trip of a configuration entry, and whether a device was bound to it; trips without
  temperature or with an unknown sensor are left out.\<close>

definition conf_trip :: "'a sys_scheme \<Rightarrow> int \<Rightarrow> int \<Rightarrow> trip_conf \<Rightarrow> (bool \<times> trip_point) option" where
  "conf_trip st idx cnt x =
     (if xt_temperature x = 0 then None
      else case search_sensor (xt_sensor_type x) st of None \<Rightarrow> None
      | Some k \<Rightarrow>
          (let t0 = cthd_trip_point cnt (xt_trip_pt_type x) (word_of_int (xt_temperature x)) (word_of_int (xt_hyst x))
                      idx (sensor_index k st) (xt_control_type x);
               t1 = (case xt_dependency x of None \<Rightarrow> t0 | Some (c, s) \<Rightarrow> set_dependency st c s t0)
           in Some (bind_conf_cdevs st (xt_cdev_trips x) False t1)))"

fun generic_trips :: "'a sys_scheme \<Rightarrow> trip_conf list \<Rightarrow> int \<Rightarrow> zone \<Rightarrow> zone" where
  "generic_trips st [] cnt z = z"
| "generic_trips st (x # xs) cnt z =
     (case conf_trip st (zn_index z) cnt x of None \<Rightarrow> generic_trips st xs cnt z
      | Some (b, t) \<Rightarrow>
          generic_trips st xs (cnt + 1)
            ((add_point t z)\<lparr>zn_cdev_binded_status := zn_cdev_binded_status z \<or> b\<rparr>))"

definition generic_read_trip_points :: "'a zone_op" where
  "generic_read_trip_points z st =
     (case generic_conf z of None \<Rightarrow> (THD_ERROR, z, st)
      | Some xs \<Rightarrow>
          (let z' = generic_trips st xs 0 z
           in (if zn_trip_points z' = [] then THD_ERROR else 0, z', st)))"

text \<open>The result is that of the last trip: it fails when the sensor of the last one is unknown.\<close>

fun generic_bind :: "'a sys_scheme \<Rightarrow> trip_conf list \<Rightarrow> bool \<Rightarrow> zone \<Rightarrow> bool \<times> zone" where
  "generic_bind st [] found z = (found, z)"
| "generic_bind st (x # xs) found z =
     (case bind_found (xt_sensor_type x) z st of (f, z') \<Rightarrow> generic_bind st xs f z')"

definition generic_bind_sensors :: "'a zone_op" where
  "generic_bind_sensors z st =
     (case generic_conf z of None \<Rightarrow> (THD_ERROR, z, st)
      | Some xs \<Rightarrow>
          (case generic_bind st xs False z of (found, z') \<Rightarrow> (if found then THD_SUCCESS else THD_ERROR, z', st)))"

section \<open>Zones made at run time and the package power zone\<close>

definition cthd_zone_dynamic :: "int \<Rightarrow> string \<Rightarrow> u32 \<Rightarrow> trip_point_type \<Rightarrow> string \<Rightarrow> string \<Rightarrow> zone" where
  "cthd_zone_dynamic idx name temp ty sensor cdev =
     (cthd_zone idx [] SENSOR_INDEPENDENT
        (Zone_dynamic \<lparr>dz_trip_temp = temp, dz_trip_type = ty, dz_sensor_name = sensor, dz_cdev_name = cdev\<rparr>))
       \<lparr>zn_type_str := name\<rparr>"

definition dynamic_read_trip_points :: "dynamic_zone \<Rightarrow> 'a zone_op" where
  "dynamic_read_trip_points d z st =
     (case search_sensor (dz_sensor_name d) st of None \<Rightarrow> (THD_ERROR, z, st)
      | Some k \<Rightarrow>
          (case search_cdev (dz_cdev_name d) st of None \<Rightarrow> (THD_ERROR, z, st)
           | Some ref \<Rightarrow>
               (THD_SUCCESS,
                (add_point (thd_trip_point_add_cdev st ref 0 0 0 TRIP_PT_INVALID_TARGET_STATE None 0 0 0
                   (cthd_trip_point 0 (dz_trip_type d) (dz_trip_temp d) 0 (zn_index z) (sensor_index k st) PARALLEL)) z)
                  \<lparr>zn_cdev_binded_status := True\<rparr>, st)))"

definition dynamic_bind_sensors :: "dynamic_zone \<Rightarrow> 'a zone_op" where
  "dynamic_bind_sensors d z st =
     (case bind_found (dz_sensor_name d) z st of (found, z') \<Rightarrow> (if found then THD_SUCCESS else THD_ERROR, z', st))"

definition cthd_zone_rapl_power :: "int \<Rightarrow> zone" where
  "cthd_zone_rapl_power idx = (cthd_zone idx [] SENSOR_INDEPENDENT Zone_rapl_power)\<lparr>zn_type_str := ''rapl_pkg_power''\<rparr>"

definition rapl_power_bind_sensors :: "'a zone_op" where
  "rapl_power_bind_sensors z st =
     (case bind_found ''rapl_pkg_power'' z st of (found, z') \<Rightarrow> (if found then THD_SUCCESS else THD_ERROR, z', st))"

definition rapl_power_read_trip_points :: "'a zone_op" where
  "rapl_power_read_trip_points z st =
     (case search_cdev ''rapl_controller'' st of None \<Rightarrow> (THD_ERROR, z, st)
      | Some ref \<Rightarrow>
          (THD_SUCCESS,
           add_point (thd_trip_point_add_cdev st ref 0 (sy_poll_interval_sec st) 0 0 None 0 0 0
             (cthd_trip_point 0 PASSIVE 100000 0 (zn_index z) DEFAULT_SENSOR_ID PARALLEL)) z, st))"

section \<open>Updating a zone\<close>

text \<open>The virtual methods of the kinds.\<close>

definition zone_bind_sensors :: "site \<Rightarrow> 'a zone_op" where
  "zone_bind_sensors si z st =
     (case zn_kind z of Zone_sysfs _ _ \<Rightarrow> sysfs_bind_sensors z st | Zone_cpu _ \<Rightarrow> cpu_bind_sensors si z st
      | Zone_generic _ \<Rightarrow> generic_bind_sensors z st | Zone_dynamic d \<Rightarrow> dynamic_bind_sensors d z st
      | Zone_rapl_power \<Rightarrow> rapl_power_bind_sensors z st)"

definition read_trip_points :: "site \<Rightarrow> 'a zone_op" where
  "read_trip_points si z st =
     (case zn_kind z of Zone_sysfs _ _ \<Rightarrow> sysfs_read_trip_points si z st | Zone_cpu _ \<Rightarrow> cpu_read_trip_points si z st
      | Zone_generic _ \<Rightarrow> generic_read_trip_points z st | Zone_dynamic d \<Rightarrow> dynamic_read_trip_points d z st
      | Zone_rapl_power \<Rightarrow> rapl_power_read_trip_points z st)"

definition read_cdev_trip_points :: "site \<Rightarrow> 'a zone_op" where
  "read_cdev_trip_points si z st =
     (case zn_kind z of Zone_sysfs _ _ \<Rightarrow> sysfs_read_cdev_trip_points si z st | _ \<Rightarrow> (THD_SUCCESS, z, st))"

definition apply_user_psv :: "zone \<Rightarrow> 'a sys_scheme \<Rightarrow> zone \<times> 'a sys_scheme" where
  "apply_user_psv z st =
     (let v = read_user_set_psv_temp z (sy_env st)
      in if 0 < v
         then update_highest_trip_temp (cthd_trip_point 0 PASSIVE (word_of_int v) 0 (zn_index z) DEFAULT_SENSOR_ID PARALLEL) z st
         else (z, st))"

definition zone_update :: "site \<Rightarrow> 'a zone_op" where
  "zone_update si z st =
     (case zone_bind_sensors si z st of (r1, z1, st1) \<Rightarrow>
        if r1 \<noteq> THD_SUCCESS then (THD_ERROR, z1, st1)
        else case read_trip_points si z1 st1 of (r2, z2, st2) \<Rightarrow>
          if r2 \<noteq> THD_SUCCESS then (THD_ERROR, z2, st2)
          else case apply_user_psv z2 st2 of (z3, st3) \<Rightarrow>
            (case read_cdev_trip_points si z3 st3 of (_, z4, st4) \<Rightarrow>
               (case sort_and_update_poll_trip z4 st4 of (z5, st5) \<Rightarrow> (THD_SUCCESS, z5, st5))))"

end
