(* ===== verification/Thd_ZoneKindProps.thy ===== *)
theory Thd_ZoneKindProps
  imports Thd_ZoneKinds
begin

text \<open>
  Properties of the kinds of zones: the temperatures of the CPU zone, the sensors a zone is bound to
  after an update, and the failure of an XML zone whose last sensor is unknown.
\<close>

section \<open>The temperatures of the CPU zone\<close>

text \<open>
  When the CPU zone finds its temperatures, the passive trip lies at least 5 degrees above
  the maximum temperature, where the fan is activated, and at least 5 degrees below the critical
  one.
\<close>

theorem cpu_temps_ordered:
  assumes "cpu_zone_init e base c = (THD_SUCCESS, c')"
  shows "cz_max_temp c' + 5000 \<le> cz_psv_temp c' \<and> cz_psv_temp c' + 5000 \<le> cz_critical_temp c'"
proof -
  obtain r f c1 where l: "dts_loop e base [0..<max_dts_sensors] 0 False (c\<lparr>cz_max_temp := 0, cz_critical_temp := 0\<rparr>) = (r, f, c1)"
    by (metis prod_cases3)
  have "c' = cpu_temps c1"
    using assms l by (auto simp: cpu_zone_init_def thd_codes split: if_splits)
  moreover have "a + 5000 \<le> a + (b - a) div 2 \<and> a + (b - a) div 2 + 5000 \<le> b" if "10000 \<le> b - a" for a b :: int
    using that by linarith
  ultimately show ?thesis
    by (simp add: cpu_temps_def def_offset_from_critical_def Let_def)
qed

section \<open>The sensors of a zone\<close>

definition sensors_valid :: "zone \<Rightarrow> 'a sys_scheme \<Rightarrow> bool" where
  "sensors_valid z st \<longleftrightarrow> distinct (zn_sensors z) \<and> (\<forall>i\<in>set (zn_sensors z). i < length (sy_sensors st))"

lemma search_sensor_valid: "search_sensor name st = Some i \<Longrightarrow> i < length (sy_sensors st)"
  unfolding search_sensor_def using find_index_Some by blast

lemma bind_found_valid:
  assumes "bind_found name z st = (f, z')" "sensors_valid z st"
  shows "sensors_valid z' st \<and> zn_kind z' = zn_kind z \<and> set (zn_sensors z) \<subseteq> set (zn_sensors z')
    \<and> (f \<longrightarrow> zn_sensors z' \<noteq> []) \<and> zn_trip_points z' = zn_trip_points z"
  using assms search_sensor_valid [of name st]
  by (auto simp: bind_found_def bind_sensor_def sensors_valid_def split: option.splits if_splits)

text \<open>What binding sensors keeps.\<close>

definition bound_ok :: "bool \<Rightarrow> zone \<Rightarrow> zone \<Rightarrow> 'a sys_scheme \<Rightarrow> bool" where
  "bound_ok f z z' st \<longleftrightarrow> sensors_valid z' st \<and> set (zn_sensors z) \<subseteq> set (zn_sensors z') \<and> (f \<longrightarrow> zn_sensors z' \<noteq> [])"

lemma bind_found_ok: "bind_found name z st = (f, z') \<Longrightarrow> sensors_valid z st \<Longrightarrow> bound_ok f z z' st"
  by (auto simp: bound_ok_def dest: bind_found_valid)

lemma bound_ok_trans: "bound_ok f z z1 st \<Longrightarrow> bound_ok g z1 z2 st \<Longrightarrow> bound_ok (f \<or> g) z z2 st"
  by (auto simp: bound_ok_def)

lemma bound_ok_refl: "sensors_valid z st \<Longrightarrow> bound_ok False z z st"
  by (simp add: bound_ok_def)

lemma bound_okD: "bound_ok f z z' st \<Longrightarrow> sensors_valid z' st"
  by (simp add: bound_ok_def)

lemma generic_bind_ok:
  "generic_bind st xs f0 z = (f, z') \<Longrightarrow> sensors_valid z st \<Longrightarrow> (f0 \<longrightarrow> zn_sensors z \<noteq> []) \<Longrightarrow> bound_ok f z z' st"
proof (induction xs arbitrary: f0 z)
  case (Cons x xs)
  obtain g z1 where b: "bind_found (xt_sensor_type x) z st = (g, z1)" by fastforce
  note ok = bind_found_ok [OF b Cons.prems(2)]
  have "bound_ok f z1 z' st"
    using Cons.IH [of g z1] Cons.prems(1) b ok by (auto simp: bound_ok_def)
  then show ?case using ok by (auto simp: bound_ok_def)
qed (auto simp: bound_ok_def)

lemma bind_core_sensors_ok:
  assumes "bind_core_sensors m z st = (f, z')" "sensors_valid z st"
  shows "bound_ok f z z' st"
proof -
  have "bound_ok (fst (fold (\<lambda>i r. if bit m i
       then (case bind_found (''temp'' @ show_int (int i) @ ''_input'') (snd r) st of (f, z') \<Rightarrow> (fst r \<or> f, z'))
       else r) is r0)) z (snd (fold (\<lambda>i r. if bit m i
       then (case bind_found (''temp'' @ show_int (int i) @ ''_input'') (snd r) st of (f, z') \<Rightarrow> (fst r \<or> f, z'))
       else r) is r0)) st" if "bound_ok (fst r0) z (snd r0) st" for r0 "is"
    using that
  proof (induction "is" arbitrary: r0)
    case (Cons i "is")
    obtain g z1 where b: "bind_found (''temp'' @ show_int (int i) @ ''_input'') (snd r0) st = (g, z1)" by fastforce
    have "bound_ok (fst r0 \<or> g) z z1 st"
      by (rule bound_ok_trans [OF Cons.prems bind_found_ok [OF b bound_okD [OF Cons.prems]]])
    then show ?case using Cons.IH Cons.prems b by simp
  qed simp
  from this [of "(False, z)" "[0..<32]"] show ?thesis
    using assms by (simp add: bind_core_sensors_def bound_ok_refl)
qed

lemma bind_package_sensors_ok:
  assumes "bind_package_sensors si z st = (f, z')" "sensors_valid z st"
  shows "bound_ok f z z' st"
proof -
  obtain f1 z1 where 1: "(if si_rt_kernel si then (False, z) else bind_found ''pkg-temp-0'' z st) = (f1, z1)" by fastforce
  obtain f2 z2 where 2: "(if si_rt_kernel si then (False, z1) else bind_found ''x86_pkg_temp'' z1 st) = (f2, z2)" by fastforce
  obtain f3 z3 where 3: "bind_found ''soc_dts0'' z2 st = (f3, z3)" by fastforce
  have b1: "bound_ok f1 z z1 st" using 1 assms(2) bind_found_ok bound_ok_refl by (fastforce split: if_splits)
  have b2: "bound_ok f2 z1 z2 st"
    using 2 bound_okD [OF b1] bind_found_ok bound_ok_refl by (fastforce split: if_splits)
  note b3 = bind_found_ok [OF 3 bound_okD [OF b2]]
  have "f = (f1 \<or> f2 \<or> f3)" "z' = z3" using assms(1) 1 2 3 by (simp_all add: bind_package_sensors_def split: if_splits)
  then show ?thesis using bound_ok_trans [OF b1 bound_ok_trans [OF b2 b3]] by simp
qed

lemma make_async_sensors [simp]: "length (sy_sensors (make_async k st)) = length (sy_sensors st)"
  by (simp add: make_async_def)

lemma sensors_valid_length:
  "length (sy_sensors st') = length (sy_sensors st) \<Longrightarrow> zn_sensors z' = zn_sensors z \<Longrightarrow>
     sensors_valid z' st' = sensors_valid z st"
  by (simp add: sensors_valid_def)

lemma cpu_bind_sensors_ok:
  assumes "cpu_bind_sensors si z st = (r, z', st')" "sensors_valid z st"
  shows "sensors_valid z' st' \<and> (r = THD_SUCCESS \<longrightarrow> zn_sensors z' \<noteq> [])"
proof -
  obtain q c where i: "cpu_zone_init (sy_env st) (zn_sysfs z) (cpu_members z) = (q, c)" by fastforce
  define z0 where "z0 = z\<lparr>zn_kind := Zone_cpu c\<rparr>"
  obtain a z3 where p: "bind_package_sensors si z0 st = (a, z3)" by fastforce
  obtain f z4 where o: "bind_core_sensors (cz_sensor_mask c) z3 st = (f, z4)" by fastforce
  obtain g z5 where h: "bind_found ''hwmon'' z4 st = (g, z5)" by fastforce
  have v0: "sensors_valid z0 st" using assms(2) by (simp add: z0_def sensors_valid_def)
  note b3 = bind_package_sensors_ok [OF p v0]
  note b4 = bind_core_sensors_ok [OF o bound_okD [OF b3]]
  note b5 = bind_found_ok [OF h bound_okD [OF b4]]
  have "length (sy_sensors st') = length (sy_sensors st) \<and>
     (z' = z0 \<and> r = THD_ERROR \<or> z' = z3 \<and> a \<or> z' = z4 \<and> f \<or> z' = z5 \<and> r = (if g then THD_SUCCESS else THD_ERROR))"
    using assms(1) i p o h by (auto simp: cpu_bind_sensors_def z0_def [symmetric] Let_def split: if_splits option.splits)
  then show ?thesis
    using v0 b3 b4 b5 by (auto simp: bound_ok_def sensors_valid_def thd_codes split: if_splits)
qed

lemma zone_bind_sensors_ok:
  assumes "zone_bind_sensors si z st = (r, z', st')" "sensors_valid z st"
  shows "sensors_valid z' st' \<and> (r = THD_SUCCESS \<longrightarrow> zn_sensors z' \<noteq> [])"
proof -
  have one: "sensors_valid z' st' \<and> (r = THD_SUCCESS \<longrightarrow> zn_sensors z' \<noteq> [])"
    if "(case bind_found name z st of (found, z') \<Rightarrow> (if found then THD_SUCCESS else THD_ERROR, z', st)) = (r, z', st')" for name
    using that bind_found_ok [of name z st] assms(2)
    by (auto simp: bound_ok_def thd_codes split: prod.splits if_splits)
  show ?thesis
  proof (cases "zn_kind z")
    case (Zone_sysfs a b) then show ?thesis using assms(1) one [of "zn_type_str z"] by (simp add: zone_bind_sensors_def sysfs_bind_sensors_def)
  next
    case (Zone_cpu a) then show ?thesis using assms(1) cpu_bind_sensors_ok [OF _ assms(2)] by (simp add: zone_bind_sensors_def)
  next
    case (Zone_generic a)
    show ?thesis
    proof (cases a)
      case None then show ?thesis
        using assms Zone_generic by (auto simp: zone_bind_sensors_def generic_bind_sensors_def generic_conf_def thd_codes)
    next
      case (Some xs)
      obtain f z1 where g: "generic_bind st xs False z = (f, z1)" by fastforce
      have "z' = z1" "st' = st" "r = (if f then THD_SUCCESS else THD_ERROR)"
        using assms(1) Zone_generic Some g by (simp_all add: zone_bind_sensors_def generic_bind_sensors_def generic_conf_def)
      then show ?thesis using generic_bind_ok [OF g assms(2)] by (auto simp: bound_ok_def thd_codes split: if_splits)
    qed
  next
    case (Zone_dynamic a) then show ?thesis using assms(1) one [of "dz_sensor_name a"] by (simp add: zone_bind_sensors_def dynamic_bind_sensors_def)
  next
    case Zone_rapl_power then show ?thesis using assms(1) one [of "''rapl_pkg_power''"] by (simp add: zone_bind_sensors_def rapl_power_bind_sensors_def)
  qed
qed

text \<open>Reading the trips changes neither the sensors of the zone nor their number.\<close>

definition keeps_sensors :: "zone \<Rightarrow> 'a sys_scheme \<Rightarrow> zone \<Rightarrow> 'a sys_scheme \<Rightarrow> bool" where
  "keeps_sensors z st z' st' \<longleftrightarrow> zn_sensors z' = zn_sensors z \<and> length (sy_sensors st') = length (sy_sensors st)"

lemma keeps_sensors_trans:
  "keeps_sensors a s b t \<Longrightarrow> keeps_sensors b t c u \<Longrightarrow> keeps_sensors a s c u"
  by (simp add: keeps_sensors_def)

lemma zone_builders_sensors [simp]:
  "zn_sensors (add_point t z) = zn_sensors z" "zn_sensors (sysfs_add_value v z) = zn_sensors z"
  "zn_sensors (sysfs_add_trip ty a b k z) = zn_sensors z" "zn_sensors (cpu_add t z) = zn_sensors z"
  by (simp_all add: add_point_def sysfs_add_value_def sysfs_add_trip_def cpu_add_def split: prod.splits)

lemma sysfs_trip_loop_sensors: "sysfs_trip_loop si is z st = (r, z', st') \<Longrightarrow> keeps_sensors z st z' st'"
proof (induction "is" arbitrary: z st)
  case (Cons i "is")
  show ?case
  proof (cases "sysfs_trip_values st z i")
    case (Inl e) then show ?thesis using Cons.prems by (simp add: keeps_sensors_def)
  next
    case (Inr v)
    obtain ty a b where v: "v = (ty, a, b)" by (metis prod_cases3)
    obtain z1 s1 where o: "sysfs_trip_round si ty a b i z st = (z1, s1)" by fastforce
    have "keeps_sensors z st z1 s1"
      using o by (auto simp: sysfs_trip_round_def keeps_sensors_def split: option.splits if_splits)
    moreover have "keeps_sensors z1 s1 z' st'" using Cons.IH [of z1 s1] Cons.prems Inr v o by simp
    ultimately show ?thesis by (rule keeps_sensors_trans)
  qed
qed (simp add: keeps_sensors_def)

lemma generic_trips_sensors [simp]: "zn_sensors (generic_trips st xs cnt z) = zn_sensors z"
  by (induction xs arbitrary: cnt z) (auto split: option.splits)

lemma read_trip_points_sensors:
  assumes "read_trip_points si z st = (r, z', st')"
  shows "keeps_sensors z st z' st'"
proof (cases "zn_kind z")
  case (Zone_sysfs a b)
  obtain q z1 s1 where l: "sysfs_trip_loop si [0..<max_trip_points] z st = (q, z1, s1)" by (metis prod_cases3)
  have "zn_sensors z' = zn_sensors z1 \<and> st' = s1"
    using assms Zone_sysfs l
    by (auto simp: read_trip_points_def sysfs_read_trip_points_def simp del: sysfs_members.simps
        split: if_splits option.splits prod.splits)
  then show ?thesis using sysfs_trip_loop_sensors [OF l] by (simp add: keeps_sensors_def)
next
  case (Zone_cpu a) then show ?thesis
    using assms by (auto simp: read_trip_points_def cpu_read_trip_points_def keeps_sensors_def Let_def split: option.splits)
next
  case (Zone_generic a) then show ?thesis
    using assms by (auto simp: read_trip_points_def generic_read_trip_points_def keeps_sensors_def Let_def split: option.splits)
next
  case (Zone_dynamic a) then show ?thesis
    using assms by (auto simp: read_trip_points_def dynamic_read_trip_points_def keeps_sensors_def split: option.splits)
next
  case Zone_rapl_power then show ?thesis
    using assms by (auto simp: read_trip_points_def rapl_power_read_trip_points_def keeps_sensors_def split: option.splits)
qed

lemma sort_and_update_sensors:
  assumes "sort_and_update_poll_trip z st = (z', st')"
  shows "keeps_sensors z st z' st'"
proof (cases "erase_polling (zn_trip_points z) = []")
  case True then show ?thesis using assms by (auto simp: sort_and_update_poll_trip_def keeps_sensors_def)
next
  case False
  define ts where "ts = trip_sort (erase_polling (zn_trip_points z))"
  obtain ts' s' where a: "add_polling (zn_index z) (poll_temp (tp_temp (hd ts))) (zn_sensors z) ts st = (ts', s')" by fastforce
  have "sort_and_update_poll_trip z st = (z\<lparr>zn_trip_points := ts'\<rparr>, s')"
    using False a by (simp add: sort_and_update_poll_trip_def ts_def Let_def)
  then show ?thesis
    using assms touches_fields(2) [OF add_polling_touches [OF a]] by (auto simp: keeps_sensors_def)
qed

lemma apply_user_psv_sensors:
  assumes "apply_user_psv z st = (z', st')"
  shows "keeps_sensors z st z' st'"
proof -
  have "z' = z \<and> st' = st \<or> (\<exists>ts. sort_and_update_poll_trip (z\<lparr>zn_trip_points := ts\<rparr>) st = (z', st'))"
    using assms by (auto simp: apply_user_psv_def update_highest_trip_temp_def Let_def split: if_splits)
  then show ?thesis
    using sort_and_update_sensors by (fastforce simp: keeps_sensors_def)
qed

lemma sysfs_cdev_loop_sensors: "sysfs_cdev_loop si st is z = (r, z') \<Longrightarrow> zn_sensors z' = zn_sensors z"
proof (induction "is" arbitrary: z)
  case (Cons i "is")
  have b: "zn_sensors (bind_trip_cdev st c d z) = zn_sensors z" for c d by (simp add: bind_trip_cdev_def)
  show ?case
    using Cons.prems Cons.IH [of z] Cons.IH [of "bind_trip_cdev st c d z" for c d] b
    by (auto simp: Let_def split: if_splits prod.splits option.splits)
qed simp

lemma read_cdev_trip_points_sensors:
  "read_cdev_trip_points si z st = (r, z', st') \<Longrightarrow> keeps_sensors z st z' st'"
  by (auto simp: read_cdev_trip_points_def sysfs_read_cdev_trip_points_def keeps_sensors_def
      split: zone_kind.splits prod.splits dest: sysfs_cdev_loop_sensors)

lemma zone_update_sensors:
  assumes "zone_update si z st = (THD_SUCCESS, z', st')" and "sensors_valid z st"
  shows "zn_sensors z' \<noteq> [] \<and> sensors_valid z' st'"
proof -
  obtain r1 z1 s1 where 1: "zone_bind_sensors si z st = (r1, z1, s1)" by (metis prod_cases3)
  obtain r2 z2 s2 where 2: "read_trip_points si z1 s1 = (r2, z2, s2)" by (metis prod_cases3)
  obtain z3 s3 where 3: "apply_user_psv z2 s2 = (z3, s3)" by fastforce
  obtain r4 z4 s4 where 4: "read_cdev_trip_points si z3 s3 = (r4, z4, s4)" by (metis prod_cases3)
  obtain z5 s5 where 5: "sort_and_update_poll_trip z4 s4 = (z5, s5)" by fastforce
  have r: "r1 = THD_SUCCESS" "z' = z5" "st' = s5"
    using assms(1) 1 2 3 4 5 by (auto simp: zone_update_def thd_codes split: if_splits)
  have "keeps_sensors z1 s1 z5 s5"
    using read_trip_points_sensors [OF 2] apply_user_psv_sensors [OF 3] read_cdev_trip_points_sensors [OF 4]
      sort_and_update_sensors [OF 5] by (auto intro: keeps_sensors_trans)
  then show ?thesis
    using zone_bind_sensors_ok [OF 1 assms(2)] r by (simp add: keeps_sensors_def sensors_valid_def)
qed

text \<open>
  C13. A zone whose update succeeds is bound to at least one sensor, and all its sensors are
  distinct sensors of the engine, whatever its kind.
\<close>

theorem zone_update_binds_sensors:
  assumes "zone_update si z st = (THD_SUCCESS, z', st')" and "sensors_valid z st"
  shows "zn_sensors z' \<noteq> [] \<and> sensors_valid z' st'"
  by (rule zone_update_sensors [OF assms])

section \<open>An XML zone whose last sensor is unknown\<close>

text \<open>
  Binding the sensors of an XML zone fails when the sensor of its last trip is unknown, even
  if the sensors of all the other trips were found and bound.
\<close>

theorem generic_last_sensor_unknown:
  assumes "zn_kind z = Zone_generic (Some (xs @ [x]))" and "search_sensor (xt_sensor_type x) st = None"
  shows "fst (zone_update si z st) = THD_ERROR"
proof -
  have "fst (generic_bind st (xs @ [x]) f z) = False" for f z
    using assms(2) by (induction xs arbitrary: f z) (auto simp: bind_found_def split: prod.splits option.splits)
  then obtain z1 where "generic_bind st (xs @ [x]) False z = (False, z1)" by (metis prod.collapse)
  then have "zone_bind_sensors si z st = (THD_ERROR, z1, st)"
    using assms(1) by (simp add: zone_bind_sensors_def generic_bind_sensors_def generic_conf_def)
  then show ?thesis by (simp add: zone_update_def thd_codes)
qed

section \<open>Witnesses\<close>

definition demo_coretemp :: menv where
  "demo_coretemp = demo_meter [''/c/temp1_crit'' \<mapsto> Text ''105000'', ''/c/temp1_max'' \<mapsto> Text ''99000'']"

theorem cpu_temps_ordered_witness:
  "\<exists>c'. cpu_zone_init demo_coretemp ''/c/'' (cpu_members (cthd_zone_cpu 0 ''/c/'')) = (THD_SUCCESS, c')
     \<and> cz_psv_temp c' + 5000 \<le> cz_critical_temp c'"
proof -
  have "fst (cpu_zone_init demo_coretemp ''/c/'' (cpu_members (cthd_zone_cpu 0 ''/c/''))) = THD_SUCCESS" by code_simp
  then obtain c' where 1: "cpu_zone_init demo_coretemp ''/c/'' (cpu_members (cthd_zone_cpu 0 ''/c/'')) = (THD_SUCCESS, c')"
    by (metis prod.collapse)
  with cpu_temps_ordered [OF 1] show ?thesis by blast
qed

definition demo_site :: site where
  "demo_site = \<lparr>si_writable = (\<lambda>_. False), si_readlink = (\<lambda>_. None), si_cdev_order = None, si_rt_kernel = False\<rparr>"

theorem zone_update_binds_sensors_witness:
  "\<exists>z' st'. zone_update demo_site (cthd_zone_dynamic 5 ''z'' 70000 PASSIVE ''cpu'' []) fan_sys = (THD_SUCCESS, z', st')
     \<and> zn_sensors z' \<noteq> [] \<and> sensors_valid z' st'"
proof -
  let ?z = "cthd_zone_dynamic 5 ''z'' 70000 PASSIVE ''cpu'' []"
  have q: "search_sensor ''cpu'' fan_sys = Some 0" "search_cdev [] fan_sys = Some 0" "e_files (sy_env fan_sys) = Map.empty"
    by (simp_all add: search_sensor_def search_cdev_def fan_sys_def demo_sys_def demo_meter_def demo_fan_def
        cthd_cdev_def cthd_sensor_def)
  have "fst (zone_update demo_site ?z fan_sys) = THD_SUCCESS"
    by (simp add: zone_update_def zone_bind_sensors_def dynamic_bind_sensors_def bind_found_def bind_sensor_def
        read_trip_points_def dynamic_read_trip_points_def apply_user_psv_def read_user_set_psv_temp_def
        read_cdev_trip_points_def add_point_def cthd_zone_dynamic_def cthd_zone_def q split: prod.splits)
  then obtain z' st' where 1: "zone_update demo_site ?z fan_sys = (THD_SUCCESS, z', st')" by (metis prod.collapse)
  have "sensors_valid ?z fan_sys" by (simp add: sensors_valid_def cthd_zone_dynamic_def cthd_zone_def)
  from zone_update_binds_sensors [OF 1 this] 1 show ?thesis by blast
qed

theorem generic_last_sensor_unknown_witness:
  "let x = \<lparr>xt_temperature = 70000, xt_hyst = 0, xt_trip_pt_type = PASSIVE, xt_control_type = PARALLEL,
        xt_sensor_type = ''cpu'', xt_dependency = None, xt_cdev_trips = []\<rparr>
   in search_sensor (xt_sensor_type x) fan_sys = Some 0
      \<and> fst (zone_update demo_site (cthd_zone_generic 5 (Some [x, x\<lparr>xt_sensor_type := ''none''\<rparr>]) ''z'') fan_sys) = THD_ERROR"
  using generic_last_sensor_unknown [of "cthd_zone_generic 5 (Some ([x] @ [x\<lparr>xt_sensor_type := ''none''\<rparr>])) ''z''"
      "[x]" "x\<lparr>xt_sensor_type := ''none''\<rparr>" fan_sys demo_site for x]
  by (simp add: cthd_zone_generic_def cthd_zone_def search_sensor_def cthd_sensor_def pch_name_def Let_def)

end
