(* ===== verification/Thd_ZoneRefs.thy ===== *)
theory Thd_ZoneRefs
  imports Thd_ZoneKindProps
begin

text \<open>
  The references of zones: the positions of sensors and cooling devices that zones and trips keep
  stay within the engine's vectors, through updates of zones of every kind and through checks.
\<close>

section \<open>Devices of trips\<close>

definition devs_valid :: "trip_point list \<Rightarrow> 'a sys_scheme \<Rightarrow> bool" where
  "devs_valid ts st \<longleftrightarrow> (\<forall>t\<in>set ts. bound_cdevs t \<subseteq> {..<length (sy_cdevs st)})"

definition zone_refs :: "zone \<Rightarrow> 'a sys_scheme \<Rightarrow> bool" where
  "zone_refs z st \<longleftrightarrow> sensors_valid z st \<and> devs_valid (zn_trip_points z) st"

text \<open>What no operation on a zone changes: the number of sensors and devices, and all of the engine
  but the shared system.\<close>

definition sys_keeps :: "'a sys_scheme \<Rightarrow> 'a sys_scheme \<Rightarrow> bool" where
  "sys_keeps st st' \<longleftrightarrow> length (sy_sensors st') = length (sy_sensors st)
     \<and> length (sy_cdevs st') = length (sy_cdevs st) \<and> sys.more st' = sys.more st"

lemma sys_keeps_refl [simp]: "sys_keeps st st"
  by (simp add: sys_keeps_def)

lemma sys_keeps_trans: "sys_keeps a b \<Longrightarrow> sys_keeps b c \<Longrightarrow> sys_keeps a c"
  by (simp add: sys_keeps_def)

lemma touches_keeps: "touches A st st' \<Longrightarrow> sys_keeps st st'"
  by (auto simp: sys_keeps_def touches_def)

lemma check_frame_keeps: "check_frame A b st st' \<Longrightarrow> sys_keeps st st'"
  by (simp add: sys_keeps_def check_frame_def)

lemma make_async_keeps [simp]: "sys_keeps st (make_async k st)"
  by (simp add: sys_keeps_def make_async_def)

lemma sys_keeps_env [simp]: "sys_keeps st (st\<lparr>sy_env := e\<rparr>)"
  by (simp add: sys_keeps_def)

lemma devs_valid_keeps: "sys_keeps st st' \<Longrightarrow> devs_valid ts st' = devs_valid ts st"
  by (simp add: devs_valid_def sys_keeps_def)

lemma zone_refs_keeps: "sys_keeps st st' \<Longrightarrow> zone_refs z st' = zone_refs z st"
  by (simp add: zone_refs_def sensors_valid_def devs_valid_def sys_keeps_def)

lemma devs_valid_simps [simp]:
  "devs_valid [] st" "devs_valid (t # ts) st \<longleftrightarrow> bound_cdevs t \<subseteq> {..<length (sy_cdevs st)} \<and> devs_valid ts st"
  "devs_valid (ts @ us) st \<longleftrightarrow> devs_valid ts st \<and> devs_valid us st"
  "devs_valid (rev ts) st = devs_valid ts st"
  by (auto simp: devs_valid_def)

lemma devs_valid_mono: "devs_valid ts st \<Longrightarrow> set us \<subseteq> set ts \<Longrightarrow> devs_valid us st"
  by (auto simp: devs_valid_def)

lemma devs_valid_update:
  "devs_valid ts st \<Longrightarrow> (i < length ts \<Longrightarrow> devs_valid [t] st) \<Longrightarrow> devs_valid (ts[i := t]) st"
  unfolding devs_valid_def using set_update_subset_insert [of ts i t]
  by (cases "i < length ts") (auto simp: list_update_beyond)

lemma devs_valid_nth: "devs_valid ts st \<Longrightarrow> i < length ts \<Longrightarrow> devs_valid [ts ! i] st"
  by (auto simp: devs_valid_def)

lemma bound_cdevs_new [simp]: "bound_cdevs (cthd_trip_point idx ty temp hyst zone sensor ctl) = {}"
  by (simp add: bound_cdevs_def cthd_trip_point_def)

lemma bound_cdevs_temp [simp]: "bound_cdevs (set_temp_hyst t u) = bound_cdevs u"
  by (simp add: bound_cdevs_def set_temp_hyst_def)

lemma trip_cdev_add_bound: "bound_cdevs (trip_cdev_add st tc t) \<subseteq> insert (tc_cdev tc) (bound_cdevs t)"
proof -
  have "tc_cdev ` set ((tp_cdevs t)[i := (tp_cdevs t ! i)\<lparr>tc_influence := v\<rparr>]) \<subseteq> tc_cdev ` set (tp_cdevs t)" for i v
  proof -
    have "map tc_cdev ((tp_cdevs t)[i := (tp_cdevs t ! i)\<lparr>tc_influence := v\<rparr>]) = map tc_cdev (tp_cdevs t)"
      by (cases "i < length (tp_cdevs t)") (simp_all add: map_update list_update_same_conv list_update_beyond)
    then show ?thesis by (metis list.set_map order_refl)
  qed
  then show ?thesis
    by (auto simp: trip_cdev_add_def bound_cdevs_def Let_def image_iff split: option.splits)
qed

lemma add_cdev_bound:
  "bound_cdevs (thd_trip_point_add_cdev st ref a b c d pp e f g t) \<subseteq> insert ref (bound_cdevs t)"
  using trip_cdev_add_bound
  by (fastforce simp: thd_trip_point_add_cdev_def trip_pt_cdev_init_def Let_def split: option.splits)

lemma search_cdev_valid: "search_cdev name st = Some r \<Longrightarrow> r < length (sy_cdevs st)"
  unfolding search_cdev_def using find_index_Some by blast

lemma get_cdev_valid: "thd_get_cdev_at_index i st = Some r \<Longrightarrow> r < length (sy_cdevs st)"
  unfolding thd_get_cdev_at_index_def using find_index_Some by blast

lemma add_cdev_valid:
  "r < length (sy_cdevs st) \<Longrightarrow> devs_valid [t] st \<Longrightarrow>
     devs_valid [thd_trip_point_add_cdev st' r a b c d pp e f g t] st"
  using add_cdev_bound by (fastforce simp: devs_valid_def)

lemma add_cdev_new_valid [simp]:
  "r < length (sy_cdevs st) \<Longrightarrow>
     bound_cdevs (thd_trip_point_add_cdev st' r a b c d pp e f g (cthd_trip_point idx ty temp hyst zone sensor ctl))
       \<subseteq> {..<length (sy_cdevs st)}"
  using add_cdev_valid [of r st "cthd_trip_point idx ty temp hyst zone sensor ctl"] by simp

lemma add_cdev_index_valid:
  "devs_valid [t] st \<Longrightarrow> devs_valid [snd (thd_trip_point_add_cdev_index st i w t)] st"
  using trip_cdev_add_bound get_cdev_valid
  by (fastforce simp: devs_valid_def thd_trip_point_add_cdev_index_def trip_pt_cdev_init_def split: option.splits)

lemma set_dependency_valid: "devs_valid [t] st \<Longrightarrow> devs_valid [set_dependency st c s t] st"
  by (auto simp: devs_valid_def set_dependency_def bound_cdevs_def search_cdev_valid split: option.splits prod.splits)

lemma load_cdevs_valid: "devs_valid [t] st \<Longrightarrow> devs_valid [load_cdevs st names t] st"
proof (induction names arbitrary: t)
  case (Cons a names)
  show ?case
  proof (cases "search_cdev a st")
    case (Some r)
    then show ?thesis
      using Cons.IH [OF add_cdev_valid [OF search_cdev_valid [OF Some] Cons.prems]]
      by (simp add: load_cdevs_def)
  qed (use Cons in \<open>simp add: load_cdevs_def\<close>)
qed (simp add: load_cdevs_def)

lemma bind_conf_cdevs_valid:
  "devs_valid [t] st \<Longrightarrow> devs_valid [snd (bind_conf_cdevs st xs b t)] st"
proof (induction xs arbitrary: b t)
  case (Cons x xs)
  show ?case
  proof (cases "search_cdev (xc_type x) st")
    case (Some r)
    then show ?thesis
      using Cons.IH [OF add_cdev_valid [OF search_cdev_valid [OF Some] Cons.prems]] by simp
  qed (use Cons in simp)
qed simp

lemma conf_trip_valid: "conf_trip st idx cnt x = Some (b, t) \<Longrightarrow> devs_valid [t] st"
proof -
  assume a: "conf_trip st idx cnt x = Some (b, t)"
  define t0 where "t0 k = cthd_trip_point cnt (xt_trip_pt_type x) (word_of_int (xt_temperature x))
      (word_of_int (xt_hyst x)) idx (sensor_index k st) (xt_control_type x)" for k
  have t0: "devs_valid [t0 k] st" for k by (simp add: t0_def)
  from a obtain k where "bind_conf_cdevs st (xt_cdev_trips x) False
      (case xt_dependency x of None \<Rightarrow> t0 k | Some (c, s) \<Rightarrow> set_dependency st c s (t0 k)) = (b, t)"
    by (auto simp: conf_trip_def t0_def [symmetric] Let_def split: if_splits option.splits)
  moreover have "devs_valid [case xt_dependency x of None \<Rightarrow> t0 k | Some (c, s) \<Rightarrow> set_dependency st c s (t0 k)] st"
    using t0 set_dependency_valid [OF t0] by (simp split: option.split prod.split del: devs_valid_simps)
  ultimately obtain t1 where t1: "bind_conf_cdevs st (xt_cdev_trips x) False t1 = (b, t)" "devs_valid [t1] st"
    by blast
  from bind_conf_cdevs_valid [OF t1(2), of "xt_cdev_trips x" False] t1(1) show ?thesis by simp
qed

section \<open>Updates of zones\<close>

lemma zone_builders_trips [simp]:
  "zn_trip_points (add_point t z) = zn_trip_points z @ [t]"
  "zn_trip_points (sysfs_add_value v z) = zn_trip_points z"
  "zn_trip_points (cpu_add t z) = zn_trip_points z @ [t]"
  by (simp_all add: add_point_def sysfs_add_value_def cpu_add_def split: prod.splits)

lemma sysfs_add_trip_trips [simp]:
  "devs_valid (zn_trip_points (sysfs_add_trip ty a b k z)) st = devs_valid (zn_trip_points z) st"
  by (simp add: sysfs_add_trip_def split: prod.splits)

text \<open>An operation on a zone that keeps the references of its trips.\<close>

definition trips_kept :: "zone \<Rightarrow> 'a sys_scheme \<Rightarrow> zone \<Rightarrow> 'a sys_scheme \<Rightarrow> bool" where
  "trips_kept z st z' st' \<longleftrightarrow> sys_keeps st st' \<and> (devs_valid (zn_trip_points z) st \<longrightarrow> devs_valid (zn_trip_points z') st)"

lemma trips_kept_trans: "trips_kept a s b t \<Longrightarrow> trips_kept b t c u \<Longrightarrow> trips_kept a s c u"
  unfolding trips_kept_def using sys_keeps_trans devs_valid_keeps by blast

lemma trips_kept_same: "zn_trip_points z' = zn_trip_points z \<Longrightarrow> sys_keeps st st' \<Longrightarrow> trips_kept z st z' st'"
  by (simp add: trips_kept_def)

lemma bind_found_trips: "bind_found name z st = (f, z') \<Longrightarrow> zn_trip_points z' = zn_trip_points z"
  by (auto simp: bind_found_def bind_sensor_def split: option.splits if_splits)

lemma generic_bind_trips: "generic_bind st xs f z = (g, z') \<Longrightarrow> zn_trip_points z' = zn_trip_points z"
proof (induction xs arbitrary: f z)
  case (Cons x xs)
  obtain f1 z1 where b: "bind_found (xt_sensor_type x) z st = (f1, z1)" by fastforce
  then have "zn_trip_points z' = zn_trip_points z1" using Cons by simp
  then show ?case using bind_found_trips [OF b] by simp
qed simp

lemma bind_core_sensors_trips:
  assumes "bind_core_sensors m z st = (f, z')"
  shows "zn_trip_points z' = zn_trip_points z"
proof -
  let ?g = "\<lambda>i r. if bit m i
               then (case bind_found (''temp'' @ show_int (int i) @ ''_input'') (snd r) st of (f, z') \<Rightarrow> (fst r \<or> f, z'))
               else r"
  have "zn_trip_points (snd (?g i r)) = zn_trip_points (snd r)" for i r
    using bind_found_trips by (auto split: prod.splits)
  then have "zn_trip_points (snd (fold ?g is r)) = zn_trip_points (snd r)" for r "is"
    by (induction "is" arbitrary: r) (simp_all del: split_paired_All)
  from this [of "[0..<32]" "(False, z)"] show ?thesis using assms by (simp add: bind_core_sensors_def)
qed

lemma bind_package_sensors_trips:
  "bind_package_sensors si z st = (f, z') \<Longrightarrow> zn_trip_points z' = zn_trip_points z"
  by (auto simp: bind_package_sensors_def split: prod.splits if_splits dest!: bind_found_trips)

lemma cpu_bind_sensors_trips:
  assumes "cpu_bind_sensors si z st = (r, z', st')"
  shows "trips_kept z st z' st'"
proof -
  obtain q c where i: "cpu_zone_init (sy_env st) (zn_sysfs z) (cpu_members z) = (q, c)" by fastforce
  define z0 where "z0 = z\<lparr>zn_kind := Zone_cpu c\<rparr>"
  obtain a z3 where p: "bind_package_sensors si z0 st = (a, z3)" by fastforce
  obtain f z4 where o: "bind_core_sensors (cz_sensor_mask c) z3 st = (f, z4)" by fastforce
  obtain g z5 where h: "bind_found ''hwmon'' z4 st = (g, z5)" by fastforce
  have "z' \<in> {z0, z3, z4, z5}" "sys_keeps st st'"
    using assms i p o h by (auto simp: cpu_bind_sensors_def z0_def [symmetric] Let_def split: if_splits option.splits)
  moreover have "zn_trip_points z0 = zn_trip_points z" by (simp add: z0_def)
  ultimately show ?thesis
    using bind_package_sensors_trips [OF p] bind_core_sensors_trips [OF o] bind_found_trips [OF h]
    by (auto intro: trips_kept_same)
qed

lemma zone_bind_sensors_trips:
  assumes "zone_bind_sensors si z st = (r, z', st')"
  shows "trips_kept z st z' st'"
proof -
  have one: "trips_kept z st z' st'"
    if "(case bind_found name z st of (found, z') \<Rightarrow> (if found then THD_SUCCESS else THD_ERROR, z', st)) = (r, z', st')" for name
    using that by (auto intro!: trips_kept_same split: prod.splits dest: bind_found_trips)
  show ?thesis
  proof (cases "zn_kind z")
    case (Zone_cpu c) then show ?thesis using assms by (auto simp: zone_bind_sensors_def intro: cpu_bind_sensors_trips)
  next
    case (Zone_generic c) then show ?thesis
      using assms by (auto simp: zone_bind_sensors_def generic_bind_sensors_def intro!: trips_kept_same
          dest: generic_bind_trips split: option.splits prod.splits)
  qed (use assms one in \<open>auto simp: zone_bind_sensors_def sysfs_bind_sensors_def dynamic_bind_sensors_def
        rapl_power_bind_sensors_def\<close>)
qed

lemma sysfs_trip_loop_trips: "sysfs_trip_loop si is z st = (r, z', st') \<Longrightarrow> trips_kept z st z' st'"
proof (induction "is" arbitrary: z st)
  case (Cons i "is")
  show ?case
  proof (cases "sysfs_trip_values st z i")
    case (Inl e) then show ?thesis using Cons.prems by (simp add: trips_kept_def)
  next
    case (Inr v)
    obtain ty a b where v: "v = (ty, a, b)" by (metis prod_cases3)
    obtain z1 s1 where o: "sysfs_trip_round si ty a b i z st = (z1, s1)" by fastforce
    have "trips_kept z st z1 s1"
      using o by (auto simp: sysfs_trip_round_def trips_kept_def split: option.splits if_splits)
    moreover have "trips_kept z1 s1 z' st'" using Cons.IH [of z1 s1] Cons.prems Inr v o by simp
    ultimately show ?thesis by (rule trips_kept_trans)
  qed
qed (simp add: trips_kept_def)

lemma generic_trips_valid:
  "devs_valid (zn_trip_points z) st \<Longrightarrow> devs_valid (zn_trip_points (generic_trips st xs cnt z)) st"
proof (induction xs arbitrary: cnt z)
  case (Cons x xs)
  show ?case
  proof (cases "conf_trip st (zn_index z) cnt x")
    case (Some bt)
    obtain b t where bt: "bt = (b, t)" by fastforce
    have "devs_valid [t] st" using Some bt conf_trip_valid by blast
    then show ?thesis using Cons Some bt by simp
  qed (use Cons in simp)
qed simp

lemma cpu_read_trip_points_trips:
  "cpu_read_trip_points si z st = (r, z', st') \<Longrightarrow> trips_kept z st z' st'"
  using load_cdevs_valid [of _ st]
  by (auto simp: cpu_read_trip_points_def trips_kept_def cpu_trip_def Let_def split: option.splits)

lemma read_trip_points_trips:
  assumes "read_trip_points si z st = (r, z', st')"
  shows "trips_kept z st z' st'"
proof (cases "zn_kind z")
  case (Zone_sysfs a b)
  obtain q z1 s1 where l: "sysfs_trip_loop si [0..<max_trip_points] z st = (q, z1, s1)" by (metis prod_cases3)
  have "st' = s1 \<and> (devs_valid (zn_trip_points z1) s1 \<longrightarrow> devs_valid (zn_trip_points z') s1)"
    using assms Zone_sysfs l
    by (auto simp: read_trip_points_def sysfs_read_trip_points_def simp del: sysfs_members.simps
        split: if_splits option.splits prod.splits)
  then have "trips_kept z1 s1 z' st'" by (simp add: trips_kept_def)
  with sysfs_trip_loop_trips [OF l] show ?thesis by (rule trips_kept_trans)
next
  case (Zone_cpu a) then show ?thesis using assms by (simp add: read_trip_points_def cpu_read_trip_points_trips)
next
  case (Zone_generic a) then show ?thesis
    using assms generic_trips_valid
    by (auto simp: read_trip_points_def generic_read_trip_points_def trips_kept_def Let_def split: option.splits)
next
  case (Zone_dynamic a) then show ?thesis
    using assms by (auto simp: read_trip_points_def dynamic_read_trip_points_def trips_kept_def split: option.splits
      dest!: search_cdev_valid dest: subsetD [OF add_cdev_new_valid])
next
  case Zone_rapl_power then show ?thesis
    using assms by (auto simp: read_trip_points_def rapl_power_read_trip_points_def trips_kept_def split: option.splits
      dest!: search_cdev_valid dest: subsetD [OF add_cdev_new_valid])
qed

lemma sort_and_update_trips:
  assumes "sort_and_update_poll_trip z st = (z', st')"
  shows "trips_kept z st z' st'"
proof (cases "erase_polling (zn_trip_points z) = []")
  case True then show ?thesis using assms by (auto simp: sort_and_update_poll_trip_def trips_kept_def)
next
  case False
  define ts where "ts = trip_sort (erase_polling (zn_trip_points z))"
  obtain ts' s' where a: "add_polling (zn_index z) (poll_temp (tp_temp (hd ts))) (zn_sensors z) ts st = (ts', s')" by fastforce
  have u: "sort_and_update_poll_trip z st = (z\<lparr>zn_trip_points := ts'\<rparr>, s')"
    using False a by (simp add: sort_and_update_poll_trip_def ts_def Let_def)
  obtain ps where ps: "ts' = ts @ ps" "\<forall>p\<in>set ps. tp_cdevs p = [] \<and> tp_depend_cdev p = None"
    using add_polling_trips [OF a] by blast
  have "set ts \<subseteq> set (zn_trip_points z)"
    using erase_polling_set(1) [of "zn_trip_points z"] by (simp add: ts_def trip_sort_props)
  moreover have "devs_valid ps st" using ps(2) by (simp add: devs_valid_def bound_cdevs_def)
  ultimately show ?thesis
    using assms u touches_keeps [OF add_polling_touches [OF a]] ps(1) by (auto simp: trips_kept_def elim: devs_valid_mono)
qed

lemma apply_user_psv_trips:
  assumes "apply_user_psv z st = (z', st')"
  shows "trips_kept z st z' st'"
proof -
  define tr where "tr = cthd_trip_point 0 PASSIVE (word_of_int (read_user_set_psv_temp z (sy_env st))) 0 (zn_index z) DEFAULT_SENSOR_ID PARALLEL"
  define ts where "ts = (let us = rev (zn_trip_points z) in case find_index (\<lambda>t. tp_type t = tp_type tr) us of
                      Some j \<Rightarrow> us[j := set_temp_hyst tr (us ! j)] | None \<Rightarrow> us)"
  have "devs_valid (zn_trip_points z) st \<Longrightarrow> devs_valid ts st"
  proof -
    assume "devs_valid (zn_trip_points z) st"
    then have v: "devs_valid (rev (zn_trip_points z)) st" by simp
    have "devs_valid ((rev (zn_trip_points z))[j := set_temp_hyst tr (rev (zn_trip_points z) ! j)]) st" for j
      using devs_valid_update [OF v, of j "set_temp_hyst tr (rev (zn_trip_points z) ! j)"] devs_valid_nth [OF v, of j] by simp
    with v show "devs_valid ts st" unfolding ts_def Let_def by (auto split: option.split)
  qed
  moreover have "z' = z \<and> st' = st \<or> sort_and_update_poll_trip (z\<lparr>zn_trip_points := rev ts\<rparr>) st = (z', st')"
    using assms by (auto simp: apply_user_psv_def update_highest_trip_temp_def Let_def ts_def tr_def [symmetric] split: if_splits)
  ultimately show ?thesis
    using sort_and_update_trips [of "z\<lparr>zn_trip_points := rev ts\<rparr>" st z' st'] by (auto simp: trips_kept_def)
qed

lemma sysfs_cdev_loop_trips:
  "sysfs_cdev_loop si st is z = (r, z') \<Longrightarrow> devs_valid (zn_trip_points z) st \<Longrightarrow> devs_valid (zn_trip_points z') st"
proof (induction "is" arbitrary: z)
  case (Cons i "is")
  have b: "devs_valid (zn_trip_points (bind_trip_cdev st c d z)) st" for c d
    using Cons.prems(2)
    by (auto simp: bind_trip_cdev_def intro!: devs_valid_update add_cdev_index_valid devs_valid_nth simp del: devs_valid_simps(2))
  show ?case
    using Cons.prems Cons.IH [of z] Cons.IH [of "bind_trip_cdev st c d z" for c d] b
    by (auto simp: Let_def split: if_splits prod.splits option.splits)
qed simp

lemma read_cdev_trip_points_trips:
  "read_cdev_trip_points si z st = (r, z', st') \<Longrightarrow> trips_kept z st z' st'"
  by (auto simp: read_cdev_trip_points_def sysfs_read_cdev_trip_points_def trips_kept_def
      split: zone_kind.splits prod.splits dest: sysfs_cdev_loop_trips)

lemma zone_update_trips:
  assumes "zone_update si z st = (r, z', st')"
  shows "trips_kept z st z' st'"
proof -
  obtain r1 z1 s1 where 1: "zone_bind_sensors si z st = (r1, z1, s1)" by (metis prod_cases3)
  obtain r2 z2 s2 where 2: "read_trip_points si z1 s1 = (r2, z2, s2)" by (metis prod_cases3)
  obtain z3 s3 where 3: "apply_user_psv z2 s2 = (z3, s3)" by fastforce
  obtain r4 z4 s4 where 4: "read_cdev_trip_points si z3 s3 = (r4, z4, s4)" by (metis prod_cases3)
  obtain z5 s5 where 5: "sort_and_update_poll_trip z4 s4 = (z5, s5)" by fastforce
  have r: "z' = z1 \<and> st' = s1 \<or> z' = z2 \<and> st' = s2 \<or> z' = z5 \<and> st' = s5"
    using assms(1) 1 2 3 4 5 by (auto simp: zone_update_def thd_codes split: if_splits)
  have k1: "trips_kept z st z1 s1" by (rule zone_bind_sensors_trips [OF 1])
  have k2: "trips_kept z st z2 s2" by (rule trips_kept_trans [OF k1 read_trip_points_trips [OF 2]])
  have k3: "trips_kept z st z3 s3" by (rule trips_kept_trans [OF k2 apply_user_psv_trips [OF 3]])
  have k4: "trips_kept z st z4 s4" by (rule trips_kept_trans [OF k3 read_cdev_trip_points_trips [OF 4]])
  have k5: "trips_kept z st z5 s5" by (rule trips_kept_trans [OF k4 sort_and_update_trips [OF 5]])
  show ?thesis using r k1 k2 k5 by blast
qed

end
