(* ===== verification/Thd_Preference.thy ===== *)
theory Thd_Preference
  imports Thd_ZoneKinds
begin

text \<open>
  The user's preference, \<^verbatim>\<open>thd_preference.cpp\<close>: kept in a file of the run directory as a number,
  set and shown by name. What opening a file for writing and writing to it give is an argument:
  \<open>None\<close> when it cannot be opened, else the number of bytes written.
\<close>

record preference =
  pr_preference :: int
  pr_old_preference :: int

type_synonym disk = "string \<Rightarrow> string \<Rightarrow> int option"

definition pref_file :: string where
  "pref_file = TDRUNDIR @ ''/'' @ ''thd_preference.conf''"

definition pref_save_file :: string where
  "pref_save_file = TDRUNDIR @ ''/'' @ ''thd_preference.conf.save''"

text \<open>\<^verbatim>\<open>ifs >> v\<close>: the value is kept when there is nothing to read.\<close>

definition stream_int :: "attr \<Rightarrow> int \<Rightarrow> int" where
  "stream_int a old =
     (case a of NoRead \<Rightarrow> old | Text s \<Rightarrow> (if dropWhile is_space s = [] then old else extract_int s))"

definition read_conf :: "'a env_scheme \<Rightarrow> string \<Rightarrow> int \<Rightarrow> int \<Rightarrow> int" where
  "read_conf e p missing old = (case e_files e p of None \<Rightarrow> missing | Some a \<Rightarrow> stream_int a old)"

definition cthd_preference :: "'a env_scheme \<Rightarrow> preference" where
  "cthd_preference e =
     \<lparr>pr_preference = read_conf e pref_file PREF_ENERGY_CONSERVE PREF_ENERGY_CONSERVE, pr_old_preference = 0\<rparr>"

text \<open>The argument is not used: the member is shown.\<close>

definition int_pref_to_string :: "preference \<Rightarrow> int \<Rightarrow> string" where
  "int_pref_to_string p pref =
     (if pr_preference p = PREF_PERFORMANCE then ''PERFORMANCE''
      else if pr_preference p = PREF_ENERGY_CONSERVE then ''ENERGY_CONSERVE''
      else if pr_preference p = PREF_DISABLED then ''DISABLE'' else ''INVALID'')"

definition string_pref_to_int :: "string \<Rightarrow> int" where
  "string_pref_to_int s =
     (if s = ''PERFORMANCE'' then PREF_PERFORMANCE else if s = ''ENERGY_CONSERVE'' then PREF_ENERGY_CONSERVE
      else if s = ''DISABLE'' then PREF_DISABLED else -1)"

definition get_preference_str :: "preference \<Rightarrow> string" where
  "get_preference_str p = int_pref_to_string p (pr_preference p)"

definition refresh :: "'a env_scheme \<Rightarrow> preference \<Rightarrow> preference" where
  "refresh e p = p\<lparr>pr_preference := read_conf e pref_file PREF_ENERGY_CONSERVE (pr_preference p)\<rparr>"

text \<open>Truncate and write a number; \<^verbatim>\<open>O_NOFOLLOW\<close> refuses a link.\<close>

definition write_number :: "disk \<Rightarrow> string \<Rightarrow> int \<Rightarrow> 'a env_scheme \<Rightarrow> bool \<times> 'a env_scheme" where
  "write_number d p v e =
     (if e_link e p then (False, e)
      else case d p (show_int v) of None \<Rightarrow> (False, e)
      | Some w \<Rightarrow> (w = int (length (show_int v)), e\<lparr>e_files := (e_files e)(p \<mapsto> Text (take (nat w) (show_int v)))\<rparr>))"

definition set_preference :: "disk \<Rightarrow> string \<Rightarrow> preference \<Rightarrow> 'a env_scheme \<Rightarrow> bool \<times> preference \<times> 'a env_scheme" where
  "set_preference d str p e =
     (let pref = string_pref_to_int str
      in if pref < 0 then (False, p, e)
         else case write_number d pref_file pref e of (ok1, e1) \<Rightarrow>
           if \<not> ok1 then (False, p, e1)
           else
             (let p1 = p\<lparr>pr_old_preference := pr_preference p\<rparr>
              in case write_number d pref_save_file (pr_old_preference p1) e1 of (ok2, e2) \<Rightarrow>
                   if \<not> ok2 then (False, p1, e2)
                   else (True, p1\<lparr>pr_preference := read_conf e2 pref_file PREF_PERFORMANCE (pr_preference p1)\<rparr>, e2)))"

definition get_old_preference :: "'a env_scheme \<Rightarrow> preference \<Rightarrow> int \<times> preference" where
  "get_old_preference e p =
     (let v = read_conf e pref_save_file PREF_PERFORMANCE (pr_old_preference p) in (v, p\<lparr>pr_old_preference := v\<rparr>))"

section \<open>Round trip\<close>

lemma show_int_not_space: "dropWhile is_space (show_int v) = show_int v"
proof -
  obtain d cs where "d < 10" "show_nat (nat v) = digit_char d # cs" using show_nat_hd by blast
  then show ?thesis by (auto simp: show_int_def is_space_def)
qed

lemma stream_int_show: "in_s32 v \<Longrightarrow> stream_int (Text (show_int v)) old = v"
  using parse_sign_show_int [of v] by (simp add: stream_int_def extract_int_def in_s32_def show_int_not_space)

lemma write_number_ok:
  assumes "write_number d p v e = (True, e')"
  shows "e_files e' = (e_files e)(p \<mapsto> Text (show_int v))"
  using assms by (auto simp: write_number_def split: if_splits option.splits)

lemma pref_files_differ: "pref_save_file \<noteq> pref_file"
  by (simp add: pref_file_def pref_save_file_def)

text \<open>
  C24. A preference that is set successfully is shown under the name it was set by, is what any
  later start or refresh of the daemon reads, and the one it replaces is what
  \<^verbatim>\<open>get_old_preference\<close> reads; a name other than the three is refused and changes nothing.
\<close>

theorem preference_roundtrip:
  assumes "set_preference d str p e = (ok, p', e')" and "in_s32 (pr_preference p)"
  shows "if ok then get_preference_str p' = str \<and> get_preference_str (cthd_preference e') = str
              \<and> get_preference_str (refresh e' q) = str \<and> fst (get_old_preference e' q) = pr_preference p
         else string_pref_to_int str < 0 \<longrightarrow> p' = p \<and> e' = e"
proof (cases ok)
  case True
  define v where "v = string_pref_to_int str"
  obtain o1 e1 where 1: "write_number d pref_file v e = (o1, e1)" by fastforce
  obtain o2 e2 where 2: "write_number d pref_save_file (pr_preference p) e1 = (o2, e2)" by fastforce
  have s: "0 \<le> v" "o1" "o2" "e' = e2"
      "p' = p\<lparr>pr_old_preference := pr_preference p, pr_preference := read_conf e2 pref_file PREF_PERFORMANCE (pr_preference p)\<rparr>"
    using assms(1) True 1 2 by (auto simp: set_preference_def v_def Let_def split: if_splits)
  have "e_files e' = (e_files e)(pref_file \<mapsto> Text (show_int v), pref_save_file \<mapsto> Text (show_int (pr_preference p)))"
    using write_number_ok 1 2 s by (metis (full_types))
  then have f: "e_files e' pref_file = Some (Text (show_int v))"
      "e_files e' pref_save_file = Some (Text (show_int (pr_preference p)))"
    using pref_files_differ by simp_all
  have n: "str = (if v = PREF_PERFORMANCE then ''PERFORMANCE'' else if v = PREF_ENERGY_CONSERVE then ''ENERGY_CONSERVE''
      else ''DISABLE'')" "v \<in> {0, 1, 2}"
    using s(1) by (auto simp: v_def string_pref_to_int_def thd_codes split: if_splits)
  have r: "read_conf e' pref_file m old = v" for m old
    using f(1) n(2) by (auto simp: read_conf_def stream_int_show in_s32_def)
  have "get_preference_str x = str" if "pr_preference x = v" for x
    using n that by (auto simp: get_preference_str_def int_pref_to_string_def thd_codes)
  moreover have "fst (get_old_preference e' q) = pr_preference p"
    using f(2) assms(2) by (simp add: get_old_preference_def read_conf_def stream_int_show Let_def)
  ultimately show ?thesis
    using True r s(4,5) by (simp add: cthd_preference_def refresh_def)
next
  case False then show ?thesis
    using assms(1) by (auto simp: set_preference_def Let_def split: if_splits)
qed

theorem preference_roundtrip_witness:
  "let (ok, p', e') = set_preference (\<lambda>_ s. Some (int (length s))) ''PERFORMANCE''
       \<lparr>pr_preference = 0, pr_old_preference = 0\<rparr> (demo_meter Map.empty)
   in ok \<and> get_preference_str (cthd_preference e') = ''PERFORMANCE''"
proof -
  let ?p = "\<lparr>pr_preference = 0, pr_old_preference = 0\<rparr>" and ?d = "\<lambda>_ s. Some (int (length s))"
  obtain ok p' e' where 1: "set_preference ?d ''PERFORMANCE'' ?p (demo_meter Map.empty) = (ok, p', e')" by (metis prod_cases3)
  have "ok" using 1
    by (auto simp: set_preference_def string_pref_to_int_def write_number_def demo_meter_def thd_codes Let_def)
  with preference_roundtrip [OF 1] show ?thesis by (simp add: 1 in_s32_def)
qed

end
