(* ===== verification/Thd_Engine.thy ===== *)
theory Thd_Engine
  imports Thd_Preference Thd_ZoneKindProps
begin

text \<open>
  The engine, \<^verbatim>\<open>thd_engine.cpp\<close>: its messages, the polling state, the taking over of thermal
  control from the kernel, the operations offered to users over D-Bus and one round of the engine
  thread. The engine extends the shared system of \<^verbatim>\<open>Thd_Sensor\<close> by its zones and its own state.

  Methods that derived classes override are arguments where the base class calls them. Rounds and
  checks return \<open>None\<close> only when a sensor read runs out of fuel.
\<close>

section \<open>State\<close>

datatype control_mode = COMPLEMENTRY | EXCLUSIVE

record engine = sys +
  en_zones :: "zone list"
  en_current_cdev_index :: int
  en_current_zone_index :: int
  en_current_sensor_index :: int
  en_poll_timeout_msec :: int
  en_control_mode :: control_mode
  en_status :: bool
  en_thz_last_uevent_time :: int
  en_thz_last_temp_ind_time :: int
  en_thz_last_update_event_time :: int
  en_terminate :: bool
  en_poll_sensor_mask :: u32
  en_fast_poll_sensor_mask :: u32
  en_saved_poll_interval :: int
  en_zone_preferences :: "string list"
  en_thd_pref :: preference
  en_workaround_interval :: int
  en_tcc_offset_checked :: int
  en_tcc_offset_low :: int
  en_power_limit_reg :: "u64 option"

definition def_poll_interval :: int where "def_poll_interval = 4000"
definition thz_notify_debounce_interval :: int where "thz_notify_debounce_interval = 3"

text \<open>The constructors of \<^verbatim>\<open>cthd_engine\<close> and of the default engine (its last three members).
  The register that a workaround changes belongs to the processor; \<open>None\<close> when it cannot be
  reached.\<close>

definition cthd_engine :: "menv \<Rightarrow> bool \<Rightarrow> u64 option \<Rightarrow> engine" where
  "cthd_engine e ignore_critical reg =
     \<lparr>sy_env = e, sy_cdevs = [], sy_sensors = [], sy_pipe = [], sy_poll_interval_sec = 0, sy_preference = 0,
      sy_ignore_critical = ignore_critical, sy_powered_off = False, en_zones = [], en_current_cdev_index = 0,
      en_current_zone_index = 0, en_current_sensor_index = 0, en_poll_timeout_msec = -1,
      en_control_mode = COMPLEMENTRY, en_status = True, en_thz_last_uevent_time = 0,
      en_thz_last_temp_ind_time = 0, en_thz_last_update_event_time = 0, en_terminate = False,
      en_poll_sensor_mask = 0, en_fast_poll_sensor_mask = 0, en_saved_poll_interval = 0,
      en_zone_preferences = [], en_thd_pref = cthd_preference e, en_workaround_interval = 0,
      en_tcc_offset_checked = 0, en_tcc_offset_low = 0, en_power_limit_reg = reg\<rparr>"

text \<open>What the engine finds on its host: the entries of \<^verbatim>\<open>/sys/class/thermal\<close> in directory order,
  the directory of the INT3400 device (empty for none) and the UUID to be set there.\<close>

record host = site +
  ho_thermal_dir :: "string list"
  ho_int3400 :: string
  ho_uuid :: string

section \<open>Zones\<close>

text \<open>An operation on the zone at a position.\<close>

definition on_zone :: "(zone \<Rightarrow> engine \<Rightarrow> (zone \<times> engine) option) \<Rightarrow> nat \<Rightarrow> engine \<Rightarrow> engine option" where
  "on_zone f i en =
     (case f (en_zones en ! i) en of None \<Rightarrow> None
      | Some (z, en') \<Rightarrow> Some (en'\<lparr>en_zones := (en_zones en')[i := z]\<rparr>))"

fun for_zones :: "(zone \<Rightarrow> engine \<Rightarrow> (zone \<times> engine) option) \<Rightarrow> nat list \<Rightarrow> engine \<Rightarrow> engine option" where
  "for_zones f [] en = Some en"
| "for_zones f (i # is) en = (case on_zone f i en of None \<Rightarrow> None | Some en' \<Rightarrow> for_zones f is en')"

definition all_zones :: "(zone \<Rightarrow> engine \<Rightarrow> (zone \<times> engine) option) \<Rightarrow> engine \<Rightarrow> engine option" where
  "all_zones f en = for_zones f [0..<length (en_zones en)] en"

definition search_zone :: "string \<Rightarrow> engine \<Rightarrow> nat option" where
  "search_zone name en =
     find_index (\<lambda>z. zn_type_str z = name \<or> pch_name name \<and> pch_name (zn_type_str z)) (en_zones en)"

definition get_zone :: "string \<Rightarrow> engine \<Rightarrow> nat option" where
  "get_zone ty en = find_index (\<lambda>z. zn_type_str z = ty) (en_zones en)"

definition match_cdev :: "string \<Rightarrow> 'a sys_scheme \<Rightarrow> nat option" where
  "match_cdev name st = find_index (\<lambda>c. after_sub name (cd_type_str c) \<noteq> None) (sy_cdevs st)"

section \<open>Polling\<close>

text \<open>\<^verbatim>\<open>1 << sensor_id\<close>; for an id of 32 or more the shift is undefined in C++, and no bit here.\<close>

definition sensor_bit :: "u32 \<Rightarrow> u32" where
  "sensor_bit w = push_bit (unat w) 1"

definition poll_enable_disable :: "bool \<Rightarrow> u32 \<Rightarrow> engine \<Rightarrow> engine" where
  "poll_enable_disable on w en =
     (if on
      then en\<lparr>en_poll_sensor_mask := or (en_poll_sensor_mask en) (sensor_bit w),
              en_poll_timeout_msec := def_poll_interval\<rparr>
      else
        (let m = and (en_poll_sensor_mask en) (not (sensor_bit w)); en1 = en\<lparr>en_poll_sensor_mask := m\<rparr>
         in if m = 0 then en1\<lparr>en_poll_timeout_msec := -1\<rparr> else en1))"

definition fast_poll_enable_disable :: "bool \<Rightarrow> u32 \<Rightarrow> engine \<Rightarrow> engine" where
  "fast_poll_enable_disable on w en =
     (if on
      then
        (let en1 = en\<lparr>en_fast_poll_sensor_mask := or (en_fast_poll_sensor_mask en) (sensor_bit w)\<rparr>;
             en2 = (if en_saved_poll_interval en1 = 0
                    then en1\<lparr>en_saved_poll_interval := en_poll_timeout_msec en1\<rparr> else en1)
         in en2\<lparr>en_poll_timeout_msec := 1000\<rparr>)
      else
        (let m = and (en_fast_poll_sensor_mask en) (not (sensor_bit w)); en1 = en\<lparr>en_fast_poll_sensor_mask := m\<rparr>
         in if m = 0 \<and> en_saved_poll_interval en1 \<noteq> 0
            then en1\<lparr>en_poll_timeout_msec := en_saved_poll_interval en1\<rparr> else en1))"

section \<open>Taking over and giving up thermal control\<close>

text \<open>A stream opened for writing on an attribute: nothing happens when it does not exist.\<close>

definition ofs_write :: "'a env_scheme \<Rightarrow> string \<Rightarrow> string \<Rightarrow> 'a env_scheme" where
  "ofs_write e p s =
     (case e_files e p of None \<Rightarrow> e | Some _ \<Rightarrow> e\<lparr>e_files := snd (e_kwrite e p s (e_files e))\<rparr>)"

definition first_line :: "string \<Rightarrow> string" where
  "first_line s = takeWhile (\<lambda>c. c \<noteq> CHR 0x0A) s"

text \<open>\<^verbatim>\<open>cthd_INT3400\<close>.\<close>

definition set_policy_osc :: "host \<Rightarrow> menv \<Rightarrow> int \<times> menv" where
  "set_policy_osc h e =
     (if ho_int3400 h = [] then (THD_ERROR, e)
      else case e_files e (ho_int3400 h @ ''uuids/'' @ ''available_uuids'') of
        Some (Text s) \<Rightarrow>
          (if s \<noteq> [] \<and> first_line s = ''UNKNOWN''
           then (THD_SUCCESS, ofs_write e (ho_int3400 h @ ''uuids/'' @ ''current_uuid'') ''42A441D6-AE6A-462b-A84B-4A8CE79027D3'')
           else (THD_ERROR, e))
      | _ \<Rightarrow> (THD_ERROR, e))"

definition set_default_uuid :: "host \<Rightarrow> menv \<Rightarrow> menv" where
  "set_default_uuid h e =
     (case set_policy_osc h e of (r, e') \<Rightarrow>
        if r = THD_SUCCESS then e' else if ho_int3400 h = [] then e'
        else ofs_write e' (ho_int3400 h @ ''uuids/'' @ ''current_uuid'') (ho_uuid h))"

definition zone_attr :: "string \<Rightarrow> string \<Rightarrow> string" where
  "zone_attr name attr = ''/sys/class/thermal/'' @ ''thermal_zone'' @ show_int (atoi (drop 12 name)) @ attr"

definition zone_dirs :: "host \<Rightarrow> string list" where
  "zone_dirs h = filter (\<lambda>n. take 12 n = ''thermal_zone'') (ho_thermal_dir h)"

definition set_mode :: "string \<Rightarrow> string \<Rightarrow> menv \<Rightarrow> menv" where
  "set_mode name v e =
     (if sysfs_exists e (zone_attr name ''/type'')
         \<and> snd (sysfs_read_str e (zone_attr name ''/type'') []) = ''INT3400''
      then snd (sysfs_write e (zone_attr name ''/mode'') v) else e)"

definition takeover_zone :: "string \<Rightarrow> string list \<times> menv \<Rightarrow> string list \<times> menv" where
  "takeover_zone name r =
     (case r of (prefs, e) \<Rightarrow>
        (let p = zone_attr name ''/policy'';
             r1 = (if sysfs_exists e p
                   then (case sysfs_read_str e p [] of (ret, s) \<Rightarrow>
                           if 0 \<le> ret then (prefs @ [s], snd (sysfs_write e p ''user_space'')) else (prefs, e))
                   else (prefs, e))
         in (fst r1, set_mode name ''enabled'' (snd r1))))"

definition takeover_thermal_control :: "host \<Rightarrow> engine \<Rightarrow> engine" where
  "takeover_thermal_control h en =
     (case fold takeover_zone (zone_dirs h) (en_zone_preferences en, set_default_uuid h (sy_env en)) of
        (prefs, e) \<Rightarrow> en\<lparr>en_zone_preferences := prefs, sy_env := e\<rparr>)"

text \<open>\<open>None\<close> when the vector of saved policies is read beyond its end.\<close>

fun giveup_zones :: "string list \<Rightarrow> string list \<Rightarrow> nat \<Rightarrow> menv \<Rightarrow> menv option" where
  "giveup_zones [] prefs cnt e = Some e"
| "giveup_zones (name # names) prefs cnt e =
     (let p = zone_attr name ''/policy''
      in if sysfs_exists e p
         then (if cnt < length prefs
               then giveup_zones names prefs (Suc cnt) (set_mode name ''disabled'' (snd (sysfs_write e p (prefs ! cnt))))
               else None)
         else giveup_zones names prefs cnt (set_mode name ''disabled'' e))"

definition giveup_thermal_control :: "host \<Rightarrow> engine \<Rightarrow> engine option" where
  "giveup_thermal_control h en =
     (if en_control_mode en \<noteq> EXCLUSIVE \<or> en_zone_preferences en = [] then Some en
      else case giveup_zones (zone_dirs h) (en_zone_preferences en) 0 (sy_env en) of None \<Rightarrow> None
      | Some e \<Rightarrow> Some (en\<lparr>sy_env := e\<rparr>))"

section \<open>Messages\<close>

definition process_pref_change :: "nat \<Rightarrow> host \<Rightarrow> engine \<Rightarrow> engine option" where
  "process_pref_change n h en0 =
     (let p = refresh (sy_env en0) (en_thd_pref en0); en = en0\<lparr>en_thd_pref := p\<rparr>
      in if pr_preference p = PREF_DISABLED then Some (en\<lparr>en_status := False\<rparr>)
         else case all_zones (update_zone_preference n) (en\<lparr>en_status := True, sy_preference := pr_preference p\<rparr>) of
           None \<Rightarrow> None
         | Some en1 \<Rightarrow> Some (if en_control_mode en1 = EXCLUSIVE then takeover_thermal_control h en1 else en1))"

definition notify_if_active :: "nat \<Rightarrow> zone \<Rightarrow> engine \<Rightarrow> (zone \<times> engine) option" where
  "notify_if_active n z en =
     (if zn_active z then zone_temperature_notification n 0 0 z en else Some (z, en))"

definition thermal_zone_change :: "nat \<Rightarrow> engine \<Rightarrow> engine option" where
  "thermal_zone_change n en = all_zones (notify_if_active n) en"

text \<open>\<open>read_zones\<close> is \<^verbatim>\<open>read_thermal_zones\<close> of the derived class.\<close>

definition thd_engine_reload_zones :: "(engine \<Rightarrow> int \<times> engine) \<Rightarrow> engine \<Rightarrow> engine" where
  "thd_engine_reload_zones read_zones en = snd (read_zones (en\<lparr>en_zones := []\<rparr>))"

definition proc_message ::
    "nat \<Rightarrow> host \<Rightarrow> (engine \<Rightarrow> int \<times> engine) \<Rightarrow> message \<Rightarrow> engine \<Rightarrow> (int \<times> engine) option" where
  "proc_message n h read_zones m en =
     (case msg_id m of
        WAKEUP \<Rightarrow> Some (0, en)
      | TERMINATE \<Rightarrow> Some (-1, en\<lparr>en_terminate := True\<rparr>)
      | PREF_CHANGED \<Rightarrow> map_option (Pair 0) (process_pref_change n h en)
      | THERMAL_ZONE_NOTIFY \<Rightarrow> (if en_status en then map_option (Pair 0) (thermal_zone_change n en) else Some (0, en))
      | RELOAD_ZONES \<Rightarrow> Some (0, thd_engine_reload_zones read_zones en)
      | POLL_ENABLE \<Rightarrow>
          Some (0, if sy_poll_interval_sec en = 0 then poll_enable_disable True (msg_sensor m) en else en)
      | POLL_DISABLE \<Rightarrow>
          Some (0, if sy_poll_interval_sec en = 0 then poll_enable_disable False (msg_sensor m) en else en)
      | FAST_POLL_ENABLE \<Rightarrow> Some (0, fast_poll_enable_disable True (msg_sensor m) en)
      | FAST_POLL_DISABLE \<Rightarrow> Some (0, fast_poll_enable_disable False (msg_sensor m) en))"

section \<open>The engine thread\<close>

text \<open>The virtual methods, and the numbers the thread works with: its poll timeout in seconds as
  computed when it starts, and the interval of the engine state updates.\<close>

record engine_class =
  vm_read_thermal_zones :: "engine \<Rightarrow> int \<times> engine"
  vm_update_engine_state :: "engine \<Rightarrow> engine"
  vm_workarounds :: "engine \<Rightarrow> engine"
  vm_poll_timeout_sec :: int
  vm_thd_poll_interval :: int

text \<open>What a return of \<^verbatim>\<open>poll\<close> brings: its result, whether a thermal uevent arrived, whether the
  pipe is readable and its read succeeds.\<close>

record poll_event =
  pe_n :: int
  pe_uevent :: bool
  pe_readable :: bool
  pe_read_fails :: bool

definition notify_zones :: "nat \<Rightarrow> engine \<Rightarrow> engine option" where
  "notify_zones n en = all_zones (zone_temperature_notification n 0 0) en"

definition now :: "engine \<Rightarrow> int" where
  "now en = e_now (sy_env en)"

definition timed_check :: "nat \<Rightarrow> int \<Rightarrow> engine \<Rightarrow> engine option" where
  "timed_check n tm en =
     (case notify_zones n en of None \<Rightarrow> None | Some en' \<Rightarrow> Some (en'\<lparr>en_thz_last_temp_ind_time := tm\<rparr>))"

definition uevent_check :: "nat \<Rightarrow> poll_event \<Rightarrow> engine \<Rightarrow> engine option" where
  "uevent_check n ev en =
     (if \<not> pe_uevent ev then Some en
      else
        (let tm = now en
         in case (if thz_notify_debounce_interval \<le> tm - en_thz_last_uevent_time en then notify_zones n en else Some en) of
              None \<Rightarrow> None
            | Some en' \<Rightarrow> Some (en'\<lparr>en_thz_last_uevent_time := tm\<rparr>)))"

text \<open>The message at the head of the pipe; \<open>(False, _)\<close> when the round ends here.\<close>

definition wakeup_check :: "nat \<Rightarrow> host \<Rightarrow> engine_class \<Rightarrow> poll_event \<Rightarrow> engine \<Rightarrow> (bool \<times> engine) option" where
  "wakeup_check n h vm ev en =
     (if \<not> pe_readable ev then Some (True, en)
      else if pe_read_fails ev then Some (False, en)
      else case sy_pipe en of [] \<Rightarrow> Some (False, en)
      | m # ms \<Rightarrow>
          (case proc_message n h (vm_read_thermal_zones vm) m (en\<lparr>sy_pipe := ms\<rparr>) of None \<Rightarrow> None
           | Some (_, en') \<Rightarrow> Some (True, en')))"

definition state_check :: "engine_class \<Rightarrow> int \<Rightarrow> engine \<Rightarrow> engine" where
  "state_check vm tm en =
     (if vm_thd_poll_interval vm \<le> tm - en_thz_last_update_event_time en
      then (vm_update_engine_state vm en)\<lparr>en_thz_last_update_event_time := tm\<rparr> else en)"

definition measure :: "engine \<Rightarrow> engine" where
  "measure en = en\<lparr>sy_env := rapl_measure_power (sy_env en)\<rparr>"

definition finish_round :: "nat \<Rightarrow> host \<Rightarrow> engine_class \<Rightarrow> poll_event \<Rightarrow> int \<Rightarrow> engine \<Rightarrow> engine option" where
  "finish_round n h vm ev tm en =
     (case uevent_check n ev en of None \<Rightarrow> None
      | Some en1 \<Rightarrow>
          (case wakeup_check n h vm ev en1 of None \<Rightarrow> None
           | Some (False, en2) \<Rightarrow> Some en2
           | Some (True, en2) \<Rightarrow> Some (vm_workarounds vm (state_check vm tm en2))))"

text \<open>One round of \<^verbatim>\<open>thd_engine_thread\<close>.\<close>

definition engine_round :: "nat \<Rightarrow> host \<Rightarrow> engine_class \<Rightarrow> poll_event \<Rightarrow> engine \<Rightarrow> engine option" where
  "engine_round n h vm ev en0 =
     (if en_terminate en0 \<or> pe_n ev < 0 then Some en0
      else
        (let tm = now en0; en = measure en0
         in if pe_n ev = 0 \<or> vm_poll_timeout_sec vm \<le> tm - en_thz_last_temp_ind_time en
            then (if \<not> en_status en then Some en
                  else case timed_check n tm en of None \<Rightarrow> None | Some en1 \<Rightarrow> finish_round n h vm ev tm en1)
            else finish_round n h vm ev tm en))"

end
