(* ===== verification/Thd_EngineUser.thy ===== *)
theory Thd_EngineUser
  imports Thd_Engine Thd_CdevUpdate
begin

text \<open>
  The operations the engine offers to users over D-Bus, the reading of the default sensors, zones
  and cooling devices of \<^verbatim>\<open>/sys/class/thermal\<close>, and the start of polling
  (\<^verbatim>\<open>thd_engine.cpp\<close>). Each user operation holds the engine's mutex, so it is one step.
\<close>

section \<open>User operations\<close>

definition push_sensor :: "sensor \<Rightarrow> engine \<Rightarrow> engine" where
  "push_sensor s en =
     en\<lparr>sy_sensors := sy_sensors en @ [s], en_current_sensor_index := en_current_sensor_index en + 1\<rparr>"

definition replace_sensor :: "nat \<Rightarrow> sensor \<Rightarrow> engine \<Rightarrow> engine" where
  "replace_sensor i s en = en\<lparr>sy_sensors := (sy_sensors en)[i := s]\<rparr>"

definition sensor_named :: "string \<Rightarrow> engine \<Rightarrow> nat option" where
  "sensor_named name en = find_index (\<lambda>s. sn_type_str s = name) (sy_sensors en)"

definition user_add_sensor :: "string \<Rightarrow> string \<Rightarrow> engine \<Rightarrow> int \<times> engine" where
  "user_add_sensor name path en =
     (if path = [] \<or> \<not> starts_with path ''/sys/'' then (THD_ERROR, en)
      else case sensor_named name en of
        Some i \<Rightarrow> (THD_SUCCESS, replace_sensor i (sensor_update_path path (sy_sensors en ! i)) en)
      | None \<Rightarrow>
          (case sensor_update (sy_env en) (cthd_sensor (en_current_sensor_index en) path name SENSOR_TYPE_RAW) of (r, s) \<Rightarrow>
             if r \<noteq> THD_SUCCESS then (THD_ERROR, en)
             else (THD_SUCCESS, send_message WAKEUP 0 (push_sensor s en))))"

text \<open>\<open>junk\<close> is what the uninitialised \<^verbatim>\<open>power_sensor\<close> of the new link holds.\<close>

definition user_add_virtual_sensor :: "int \<Rightarrow> string \<Rightarrow> string \<Rightarrow> rat \<Rightarrow> rat \<Rightarrow> engine \<Rightarrow> int \<times> engine" where
  "user_add_virtual_sensor junk name dep slope intercept en =
     (case sensor_named name en of
        Some i \<Rightarrow>
          (case sn_kind (sy_sensors en ! i) of
             Virtual_sensor v \<Rightarrow>
               (case sensor_update_param junk dep slope intercept en v of (r, v') \<Rightarrow>
                  (r, replace_sensor i ((sy_sensors en ! i)\<lparr>sn_kind := Virtual_sensor v'\<rparr>) en))
           | _ \<Rightarrow> (THD_ERROR, en))
      | None \<Rightarrow>
          (THD_SUCCESS, send_message WAKEUP 0
             (push_sensor (cthd_sensor_virtual junk (en_current_sensor_index en) name dep slope intercept en) en)))"

definition set_env :: "menv \<Rightarrow> engine \<Rightarrow> engine" where
  "set_env e en = en\<lparr>sy_env := e\<rparr>"

text \<open>\<open>ok\<close> is whether the file in the run directory can be written.\<close>

definition user_set_psv_temp :: "bool \<Rightarrow> string \<Rightarrow> u32 \<Rightarrow> engine \<Rightarrow> int \<times> engine" where
  "user_set_psv_temp ok name temp en =
     (case get_zone name en of None \<Rightarrow> (THD_ERROR, en)
      | Some i \<Rightarrow>
          (case update_psv_temperature ok (sint temp) (en_zones en ! i) (sy_env en) of (r, e) \<Rightarrow> (r, set_env e en)))"

definition user_set_max_temp :: "bool \<Rightarrow> string \<Rightarrow> u32 \<Rightarrow> engine \<Rightarrow> int \<times> engine" where
  "user_set_max_temp ok name temp en =
     (case get_zone name en of None \<Rightarrow> (THD_ERROR, en)
      | Some i \<Rightarrow>
          (case update_max_temperature ok (sint temp) (en_zones en ! i) (sy_env en) of (r, e) \<Rightarrow> (r, set_env e en)))"

text \<open>The same from the command line interface: the set point must start with a digit.\<close>

definition set_point_valid :: "string \<Rightarrow> bool" where
  "set_point_valid s \<longleftrightarrow> (case s of [] \<Rightarrow> False | c # _ \<Rightarrow> is_digit c)"

definition thd_engine_set_user_max_temp :: "bool \<Rightarrow> string \<Rightarrow> string \<Rightarrow> engine \<Rightarrow> int \<times> engine" where
  "thd_engine_set_user_max_temp ok ty s en =
     (if \<not> set_point_valid s then (THD_ERROR, en)
      else case get_zone ty en of None \<Rightarrow> (THD_ERROR, en)
      | Some i \<Rightarrow> (case update_max_temperature ok (atoi s) (en_zones en ! i) (sy_env en) of (r, e) \<Rightarrow> (r, set_env e en)))"

definition thd_engine_set_user_psv_temp :: "bool \<Rightarrow> string \<Rightarrow> string \<Rightarrow> engine \<Rightarrow> int \<times> engine" where
  "thd_engine_set_user_psv_temp ok ty s en =
     (if \<not> set_point_valid s then (THD_ERROR, en)
      else case get_zone ty en of None \<Rightarrow> (THD_ERROR, en)
      | Some i \<Rightarrow> (case update_psv_temperature ok (atoi s) (en_zones en ! i) (sy_env en) of (r, e) \<Rightarrow> (r, set_env e en)))"

definition push_zone :: "zone \<Rightarrow> engine \<Rightarrow> engine" where
  "push_zone z en = en\<lparr>en_zones := en_zones en @ [z], en_current_zone_index := en_current_zone_index en + 1\<rparr>"

definition user_add_zone :: "site \<Rightarrow> string \<Rightarrow> u32 \<Rightarrow> string \<Rightarrow> string \<Rightarrow> engine \<Rightarrow> int \<times> engine" where
  "user_add_zone si name temp sensor cdev en =
     (case zone_update si (cthd_zone_dynamic (en_current_zone_index en) name temp PASSIVE sensor cdev) en of
        (r, z, en1) \<Rightarrow>
          if r = THD_SUCCESS then (case set_zone_active z en1 of (z', en2) \<Rightarrow> (THD_SUCCESS, push_zone z' en2))
          else (THD_ERROR, en1))"

definition user_set_zone_status :: "string \<Rightarrow> int \<Rightarrow> engine \<Rightarrow> int \<times> engine" where
  "user_set_zone_status name status en =
     (case get_zone name en of None \<Rightarrow> (THD_ERROR, en)
      | Some i \<Rightarrow>
          (case (if status \<noteq> 0 then set_zone_active (en_zones en ! i) en else set_zone_inactive (en_zones en ! i) en) of
             (z, en') \<Rightarrow> (THD_SUCCESS, en'\<lparr>en_zones := (en_zones en')[i := z]\<rparr>)))"

definition user_get_zone_status :: "string \<Rightarrow> engine \<Rightarrow> int option" where
  "user_get_zone_status name en =
     (case get_zone name en of None \<Rightarrow> None | Some i \<Rightarrow> Some (if zn_active (en_zones en ! i) then 1 else 0))"

text \<open>Erasing the zone runs its destructor.\<close>

definition zone_destroy :: "zone \<Rightarrow> engine \<Rightarrow> engine" where
  "zone_destroy z en = (case zn_kind z of Zone_sysfs _ _ \<Rightarrow> sysfs_zone_destroy z en | _ \<Rightarrow> en)"

definition user_delete_zone :: "string \<Rightarrow> engine \<Rightarrow> int \<times> engine" where
  "user_delete_zone name en =
     (THD_SUCCESS,
      case get_zone name en of None \<Rightarrow> en
      | Some i \<Rightarrow> (zone_destroy (en_zones en ! i) en)\<lparr>en_zones := take i (en_zones en) @ drop (Suc i) (en_zones en)\<rparr>)"

definition set_range :: "int \<Rightarrow> int \<Rightarrow> int \<Rightarrow> cdev \<Rightarrow> cdev" where
  "set_range mn mx step c = set_inc_dec_value step (c\<lparr>cd_min_state := mn, cd_max_state := mx\<rparr>)"

definition user_add_cdev :: "string \<Rightarrow> string \<Rightarrow> int \<Rightarrow> int \<Rightarrow> int \<Rightarrow> engine \<Rightarrow> int \<times> engine" where
  "user_add_cdev name path mn mx step en =
     (case search_cdev name en of
        Some i \<Rightarrow> (THD_SUCCESS, put_cdev i (set_range mn mx step (cdev_at en i)) en)
      | None \<Rightarrow>
          (case gen_sysfs_update (sy_env en)
                  ((cthd_cdev (en_current_cdev_index en) path Drv_gen_sysfs)\<lparr>cd_type_str := name\<rparr>) of (r, c) \<Rightarrow>
             if r \<noteq> THD_SUCCESS then (THD_ERROR, en)
             else (THD_SUCCESS, en\<lparr>sy_cdevs := sy_cdevs en @ [set_range mn mx step c],
                     en_current_cdev_index := en_current_cdev_index en + 1\<rparr>)))"

section \<open>The defaults of the kernel\<close>

text \<open>The index in a directory name, and the highest of them (0 for none).\<close>

definition dir_index :: "nat \<Rightarrow> string \<Rightarrow> int" where
  "dir_index k name = atoi (drop k name)"

definition max_dir_index :: "nat \<Rightarrow> string list \<Rightarrow> int" where
  "max_dir_index k names = fold (\<lambda>n m. max m (dir_index k n)) names 0"

definition read_default_sensor :: "string \<Rightarrow> engine \<Rightarrow> engine" where
  "read_default_sensor name en =
     (case sensor_update (sy_env en)
             (cthd_sensor (dir_index 12 name) (''/sys/class/thermal/'' @ name @ ''/'') [] SENSOR_TYPE_THERMAL_SYSFS) of
        (r, s) \<Rightarrow> if r \<noteq> THD_SUCCESS then en else en\<lparr>sy_sensors := sy_sensors en @ [s]\<rparr>)"

text \<open>When \<^verbatim>\<open>thermal_zone1\<close> is not there yet the daemon first waits for two seconds.\<close>

definition thd_read_default_thermal_sensors :: "host \<Rightarrow> engine \<Rightarrow> engine" where
  "thd_read_default_thermal_sensors h en0 =
     (let en = (if ''thermal_zone1'' \<in> set (ho_thermal_dir h) then en0 else set_env (env_sleep (sy_env en0) 2) en0);
          en1 = fold read_default_sensor (zone_dirs h) en
      in if sy_sensors en1 = [] then en1 else en1\<lparr>en_current_sensor_index := max_dir_index 12 (zone_dirs h) + 1\<rparr>)"

definition read_default_zone :: "site \<Rightarrow> string \<Rightarrow> engine \<Rightarrow> engine" where
  "read_default_zone si name en =
     (case zone_update si (cthd_sysfs_zone en (dir_index 12 name) ''/sys/class/thermal/thermal_zone'') en of
        (r, z, en1) \<Rightarrow>
          if r \<noteq> THD_SUCCESS then zone_destroy z en1
          else
            (case (if en_control_mode en1 = EXCLUSIVE then set_zone_active z en1 else (z, en1)) of
               (z', en2) \<Rightarrow> en2\<lparr>en_zones := en_zones en2 @ [z']\<rparr>))"

definition thd_read_default_thermal_zones :: "site \<Rightarrow> host \<Rightarrow> engine \<Rightarrow> engine" where
  "thd_read_default_thermal_zones si h en =
     (let en1 = fold (read_default_zone si) (zone_dirs h) en
      in if en_zones en1 = [] then en1 else en1\<lparr>en_current_zone_index := max_dir_index 12 (zone_dirs h) + 1\<rparr>)"

definition cdev_dirs :: "host \<Rightarrow> string list" where
  "cdev_dirs h = filter (\<lambda>n. take 14 n = ''cooling_device'') (ho_thermal_dir h)"

definition read_default_cdev :: "string \<Rightarrow> engine \<Rightarrow> engine" where
  "read_default_cdev name en =
     (case sysfs_update (sy_env en) (cthd_cdev (dir_index 14 name) ''/sys/class/thermal/'' Drv_sysfs) of (r, c) \<Rightarrow>
        if r \<noteq> THD_SUCCESS then en else en\<lparr>sy_cdevs := sy_cdevs en @ [c]\<rparr>)"

definition thd_read_default_cooling_devices :: "host \<Rightarrow> engine \<Rightarrow> engine" where
  "thd_read_default_cooling_devices h en =
     (let en1 = fold read_default_cdev (cdev_dirs h) en
      in if sy_cdevs en1 = [] then en1 else en1\<lparr>en_current_cdev_index := max_dir_index 14 (cdev_dirs h) + 1\<rparr>)"

section \<open>The start\<close>

definition check_acpi_platform_profile :: "'a env_scheme \<Rightarrow> int" where
  "check_acpi_platform_profile e =
     (if sysfs_exists e ''/sys/firmware/acpi/pm_profile''
         \<and> snd (sysfs_read_str e ''/sys/firmware/acpi/pm_profile'' []) \<notin> {''2'', ''8''}
      then THD_FATAL_ERROR else THD_SUCCESS)"

text \<open>The power floor event of the processor, as a sensor, and a zone that drives the power clamp.\<close>

definition power_floor_enable_attribute :: string where
  "power_floor_enable_attribute = ''/sys/bus/pci/devices/0000:00:04.0/power_limits/power_floor_enable''"

definition power_floor_status_attribute :: string where
  "power_floor_status_attribute = ''/sys/bus/pci/devices/0000:00:04.0/power_limits/power_floor_status''"

definition fd_write :: "'a env_scheme \<Rightarrow> string \<Rightarrow> string \<Rightarrow> int \<times> 'a env_scheme" where
  "fd_write e p s =
     (case e_files e p of None \<Rightarrow> (-1, e)
      | Some _ \<Rightarrow> (case e_kwrite e p s (e_files e) of (r, fs) \<Rightarrow> (r, e\<lparr>e_files := fs\<rparr>)))"

definition bind_pcie :: "engine \<Rightarrow> zone \<Rightarrow> zone" where
  "bind_pcie en z =
     (case (match_cdev ''PCIe_Port_Link_Speed'' en, zn_trip_points z) of
        (Some ref, t # ts) \<Rightarrow>
          z\<lparr>zn_trip_points := thd_trip_point_add_cdev en ref 0 0 0 TRIP_PT_INVALID_TARGET_STATE None 0 0 0 t # ts\<rparr>
      | _ \<Rightarrow> z)"

definition power_floor_zone :: "site \<Rightarrow> engine \<Rightarrow> engine" where
  "power_floor_zone si en =
     (let z0 = cthd_zone_dynamic (en_current_zone_index en) ''power_floor'' 1 PASSIVE ''power_floor'' ''intel_powerclamp''
      in case zone_update si z0 en of (r, z, en1) \<Rightarrow>
           if r \<noteq> THD_SUCCESS then en1
           else case set_zone_active (bind_pcie en1 z) en1 of (z', en2) \<Rightarrow> push_zone z' en2)"

definition enable_power_floor_event :: "site \<Rightarrow> engine \<Rightarrow> engine" where
  "enable_power_floor_event si en =
     (case fd_write (sy_env en) power_floor_enable_attribute (''1'' @ [CHR 0x0A]) of (r, e) \<Rightarrow>
        (let en1 = set_env e en
         in if r < 0 \<or> \<not> sysfs_exists e power_floor_status_attribute \<or> search_cdev ''intel_powerclamp'' en1 = None
            then en1
            else case sensor_update e (cthd_sensor (en_current_sensor_index en1) power_floor_status_attribute
                                         ''power_floor'' SENSOR_TYPE_RAW) of (r', s) \<Rightarrow>
              if r' \<noteq> THD_SUCCESS then en1 else power_floor_zone si (push_sensor s en1)))"

text \<open>The start of the engine: the platform must be a mobile one, and its processor known unless
  this check is off or the XML configuration has an entry for the platform; then sensors, devices
  and zones are read by the derived class. \<open>cpu_ok\<close> is the result of \<^verbatim>\<open>check_cpu_id\<close>, \<open>xml_ok\<close>
  whether the configuration was parsed and matches.\<close>

type_synonym reader = "engine \<Rightarrow> int \<times> engine"

fun run_readers :: "reader list \<Rightarrow> engine \<Rightarrow> int \<times> engine" where
  "run_readers [] en = (THD_SUCCESS, en)"
| "run_readers (f # fs) en =
     (case f en of (r, en') \<Rightarrow> if r \<noteq> THD_SUCCESS then (THD_FATAL_ERROR, en') else run_readers fs en')"

definition thd_engine_init ::
    "bool \<Rightarrow> bool \<Rightarrow> bool \<Rightarrow> bool \<Rightarrow> site \<Rightarrow> reader \<Rightarrow> reader \<Rightarrow> reader \<Rightarrow> engine \<Rightarrow> int \<times> engine" where
  "thd_engine_init ignore_cpuid cpu_ok xml_ok power_floor si sensors_of cdevs_of zones_of en =
     (if check_acpi_platform_profile (sy_env en) \<noteq> THD_SUCCESS then (THD_FATAL_ERROR, en)
      else if \<not> ignore_cpuid \<and> \<not> cpu_ok \<and> \<not> xml_ok then (THD_ERROR, en)
      else case run_readers [sensors_of, cdevs_of, zones_of] en of (r, en1) \<Rightarrow>
        if r \<noteq> THD_SUCCESS then (r, en1)
        else (THD_SUCCESS, if power_floor then enable_power_floor_event si en1 else en1))"

text \<open>The poll interval: from the command line, or else from the XML configuration (if it matches
  the platform); without either, the default one when an active zone has a sensor that cannot
  notify. \<open>xml\<close> holds the default preference and the interval of the configuration.\<close>

definition some_zone_needs_poll :: "engine \<Rightarrow> bool" where
  "some_zone_needs_poll en \<longleftrightarrow> list_ex (\<lambda>z. zn_active z \<and> \<not> check_sensor_async_status z en) (en_zones en)"

definition set_default_preference :: "disk \<Rightarrow> int \<Rightarrow> menv \<Rightarrow> bool \<times> menv" where
  "set_default_preference d pref e =
     (case Thd_Preference.set_preference d (if pref = PREF_PERFORMANCE then ''PERFORMANCE'' else ''ENERGY_CONSERVE'')
             (cthd_preference e) e of (ok, _, e') \<Rightarrow> (ok, e'))"

definition start_polling :: "disk \<Rightarrow> (int \<times> int) option \<Rightarrow> engine \<Rightarrow> engine" where
  "start_polling d xml en0 =
     (let en1 = en0\<lparr>en_poll_timeout_msec :=
                 (if sy_poll_interval_sec en0 \<noteq> 0 then sy_poll_interval_sec en0 * 1000 else -1)\<rparr>;
          en2 = (case xml of None \<Rightarrow> en1
                 | Some (pref, p) \<Rightarrow>
                     (let en' = set_env (snd (set_default_preference d pref (sy_env en1))) en1
                      in if p = 0 then en' else en'\<lparr>sy_poll_interval_sec := p, en_poll_timeout_msec := p * 1000\<rparr>))
      in if sy_poll_interval_sec en2 = 0 \<and> some_zone_needs_poll en2
         then en2\<lparr>en_poll_timeout_msec := def_poll_interval\<rparr> else en2)"

definition start_preference :: "host \<Rightarrow> engine \<Rightarrow> engine" where
  "start_preference h en =
     (let p = refresh (sy_env en) (en_thd_pref en);
          en1 = en\<lparr>en_thd_pref := p, sy_preference := pr_preference p\<rparr>
      in if en_control_mode en1 = EXCLUSIVE then takeover_thermal_control h en1 else en1)"

text \<open>\<open>pipe_ret\<close>, \<open>fcntl_ok\<close> and \<open>thread_ret\<close> are what \<^verbatim>\<open>pipe\<close>, the two \<^verbatim>\<open>fcntl\<close> and
  \<^verbatim>\<open>pthread_create\<close> give.\<close>

definition thd_engine_start ::
    "int \<Rightarrow> bool \<Rightarrow> int \<Rightarrow> disk \<Rightarrow> (int \<times> int) option \<Rightarrow> host \<Rightarrow> engine \<Rightarrow> int \<times> engine" where
  "thd_engine_start pipe_ret fcntl_ok thread_ret d xml h en =
     (if pipe_ret \<noteq> 0 \<or> \<not> fcntl_ok then (THD_FATAL_ERROR, en)
      else (thread_ret, start_preference h (start_polling d xml en)))"

end
