(* ===== verification/Thd_Platform.thy ===== *)
theory Thd_Platform
  imports Thd_EngineUser
begin

text \<open>
  The platform classes \<^verbatim>\<open>thd_platform.cpp\<close>, \<^verbatim>\<open>thd_platform_intel.cpp\<close> and
  \<^verbatim>\<open>thd_platform_arm.cpp\<close>: the class chosen from the machine name, the decoding of the processor
  signature and the table of supported processors, the device that makes the daemon refuse to run,
  and the workaround for the power limit register. The answers of the \<^verbatim>\<open>cpuid\<close> instruction and
  the content of the register are arguments.
\<close>

datatype platform_type = PLATFORM_INTEL_X86 | PLATFORM_ARM64 | PLATFORM_ARM32 | PLATFORM_OTHER | PLATFORM_UNKNOWN

datatype platform = Base_platform | Intel_platform | Arm_platform

text \<open>\<open>None\<close> when \<^verbatim>\<open>uname\<close> fails. \<^verbatim>\<open>thd_strcmp_n\<close> compares for equality.\<close>

definition detect_platform :: "string option \<Rightarrow> platform_type" where
  "detect_platform m =
     (case m of None \<Rightarrow> PLATFORM_UNKNOWN
      | Some s \<Rightarrow>
          if s = ''x86_64'' then PLATFORM_INTEL_X86 else if s = ''aarch64'' then PLATFORM_ARM64
          else if s = ''arm'' then PLATFORM_ARM32 else PLATFORM_OTHER)"

definition create_platform :: "string option \<Rightarrow> platform" where
  "create_platform m =
     (case m of None \<Rightarrow> Base_platform
      | Some s \<Rightarrow>
          if s = ''x86_64'' then Intel_platform else if s = ''aarch64'' \<or> s = ''arm'' then Arm_platform
          else Base_platform)"

section \<open>The processor\<close>

text \<open>What \<^verbatim>\<open>cpuid\<close> answers: the vendor registers of leaf 0 and the signature of leaf 1.\<close>

record cpuid =
  cp_ebx :: u32
  cp_ecx :: u32
  cp_edx :: u32
  cp_fms :: u32

definition intel_id_table :: "(u32 \<times> u32) list" where
  "intel_id_table =
     map (Pair 6) [0x2a, 0x3a, 0x3c, 0x45, 0x46, 0x3d, 0x47, 0x37, 0x4c, 0x4e, 0x5e, 0x5c, 0x7a, 0x8e, 0x9e,
       0x66, 0x7e, 0x8c, 0x8d, 0xa5, 0xa6, 0xa7, 0x9c, 0x97, 0x9a, 0xb7, 0xba, 0xbe, 0xbf, 0xaa, 0xbd, 0xc6,
       0xc5, 0xb5, 0xcc] @ [(15, 1)]"

definition blocklist_paths :: "string list" where
  "blocklist_paths = [''/sys/devices/platform/thinkpad_acpi/dytc_lapmode'']"

definition cpu_family :: "u32 \<Rightarrow> u32" where
  "cpu_family fms = and (drop_bit 8 fms) 0xf"

definition cpu_model :: "u32 \<Rightarrow> u32" where
  "cpu_model fms =
     (let model = and (drop_bit 4 fms) 0xf
      in if cpu_family fms = 6 \<or> cpu_family fms = 0xf
         then model + push_bit 4 (and (drop_bit 16 fms) 0xf) else model)"

definition genuine_intel :: "cpuid \<Rightarrow> bool" where
  "genuine_intel c \<longleftrightarrow> cp_ebx c = 0x756e6547 \<and> cp_edx c = 0x49656e69 \<and> cp_ecx c = 0x6c65746e"

definition intel_check_cpu_id :: "cpuid \<Rightarrow> 'a env_scheme \<Rightarrow> bool" where
  "intel_check_cpu_id c e \<longleftrightarrow>
     genuine_intel c \<and> (cpu_family (cp_fms c), cpu_model (cp_fms c)) \<in> set intel_id_table
     \<and> \<not> list_ex (sysfs_exists e) blocklist_paths"

definition check_cpu_id :: "platform \<Rightarrow> cpuid \<Rightarrow> 'a env_scheme \<Rightarrow> bool" where
  "check_cpu_id p c e =
     (case p of Base_platform \<Rightarrow> False | Arm_platform \<Rightarrow> True | Intel_platform \<Rightarrow> intel_check_cpu_id c e)"

section \<open>The power limit register\<close>

definition rapl_mmio_path :: string where
  "rapl_mmio_path = ''/sys/devices/virtual/powercap/intel-rapl-mmio/intel-rapl-mmio:0/''"

text \<open>The register is read and written through a mapping of physical memory, \<open>None\<close> when it cannot
  be mapped.\<close>

definition clear_limit_bit :: "u64 \<Rightarrow> u64" where
  "clear_limit_bit w = and w (not (push_bit 15 1))"

definition workaround_rapl_mmio_power ::
    "bool \<Rightarrow> platform \<Rightarrow> cpuid \<Rightarrow> engine \<Rightarrow> u64 option \<Rightarrow> u64 option \<times> engine" where
  "workaround_rapl_mmio_power enabled p c en reg =
     (if p \<noteq> Intel_platform \<or> \<not> enabled \<or> search_cdev ''rapl_controller_mmio'' en \<noteq> None then (reg, en)
      else case (if sysfs_exists (sy_env en) rapl_mmio_path
                 then sysfs_write_uint (sy_env en) (rapl_mmio_path @ ''enabled'') 0 else (0, sy_env en)) of (r, e) \<Rightarrow>
        (let en1 = set_env e en
         in if 0 < r \<or> cpu_model (cp_fms c) \<notin> {0x8e, 0x9e} then (reg, en1)
            else (map_option clear_limit_bit reg, en1)))"

section \<open>The signature\<close>

text \<open>A processor signature as the hardware documents it: model and extended model of the families 6
  and 15.\<close>

definition signature :: "nat \<Rightarrow> nat \<Rightarrow> nat \<Rightarrow> u32" where
  "signature family model stepping = of_nat (family * 2 ^ 8 + (model div 16) * 2 ^ 16 + (model mod 16) * 2 ^ 4 + stepping)"

lemma of_nat_unat_id: "of_nat (unat w) = (w :: u32)"
  by simp

lemma div_split: "s < (b :: nat) \<Longrightarrow> (b * q + s) div b = q"
  by simp

lemma mod_split: "s < (b :: nat) \<Longrightarrow> (b * q + s) mod b = s"
  by simp

lemma fields:
  fixes f h l s :: nat
  assumes "f < 16" "h < 16" "l < 16" "s < 16"
  shows "(f * 256 + h * 65536 + l * 16 + s) div 16 mod 16 = l"
    and "(f * 256 + h * 65536 + l * 16 + s) div 256 mod 16 = f"
    and "(f * 256 + h * 65536 + l * 16 + s) div 65536 mod 16 = h"
    and "f * 256 + h * 65536 + l * 16 + s < 4294967296"
proof -
  let ?n = "f * 256 + h * 65536 + l * 16 + s"
  have "?n = 16 * (16 * (f + 256 * h) + l) + s" by simp
  then have d1: "?n div 16 = 16 * (f + 256 * h) + l" using div_split [OF assms(4)] by presburger
  then show "?n div 16 mod 16 = l" using mod_split [OF assms(3)] by presburger
  have "?n div 256 = ?n div 16 div 16" by (simp only: div_mult2_eq [symmetric]) simp
  then have d2: "?n div 256 = 16 * (16 * h) + f" unfolding d1 using div_split [OF assms(3)] by simp
  then show "?n div 256 mod 16 = f" using mod_split [OF assms(1)] by presburger
  have "?n div 65536 = ?n div 256 div 256" by (simp only: div_mult2_eq [symmetric]) simp
  then have d3: "?n div 65536 = h" unfolding d2 using div_split [of f 256 h] assms by simp
  then show "?n div 65536 mod 16 = h" using assms by simp
  show "?n < 4294967296" using assms by linarith
qed

lemma unat_signature:
  assumes "family < 16" "model < 256" "stepping < 16"
  shows "unat (signature family model stepping)
         = family * 256 + (model div 16) * 65536 + (model mod 16) * 16 + stepping"
proof -
  have "model div 16 < 16" "model mod 16 < 16" using assms by linarith+
  then show ?thesis
    using fields(4) [of family "model div 16" "model mod 16" stepping] assms
    unfolding signature_def by (simp only: unsigned_of_nat take_bit_eq_mod) simp
qed

lemma unat_field: "unat (and (drop_bit k w) 0xf :: u32) = (unat w div 2 ^ k) mod 16"
proof -
  have "and (drop_bit k w) 0xf = take_bit 4 (drop_bit k w)"
    by (simp add: take_bit_eq_mask mask_eq_exp_minus_1)
  then show ?thesis
    by (simp only: unsigned_take_bit_eq unat_drop_bit_eq) (simp add: take_bit_eq_mod drop_bit_eq_div)
qed

lemma signature_fields:
  assumes "family < 16" "model < 256" "stepping < 16"
  shows "unat (cpu_family (signature family model stepping)) = family"
    and "unat (and (drop_bit 4 (signature family model stepping)) 0xf) = model mod 16"
    and "unat (and (drop_bit 16 (signature family model stepping)) 0xf) = model div 16"
  using assms unat_signature [OF assms] fields [of family "model div 16" "model mod 16" stepping]
  by (simp_all add: cpu_family_def unat_field)

lemma cpu_family_eq:
  assumes "family < 16" "model < 256" "stepping < 16"
  shows "cpu_family (signature family model stepping) = of_nat family"
  using signature_fields(1) [OF assms] by (metis of_nat_unat_id)

lemma cpu_model_eq:
  assumes "family < 16" "model < 256" "stepping < 16"
  shows "cpu_model (signature family model stepping)
         = of_nat (if family = 6 \<or> family = 15 then model else model mod 16)"
proof -
  let ?w = "signature family model stepping"
  have six: "cpu_family ?w = 6 \<longleftrightarrow> family = 6" and fifteen: "cpu_family ?w = 15 \<longleftrightarrow> family = 15"
    using signature_fields(1) [OF assms] by (auto simp: word_unat_eq_iff)
  have lo: "and (drop_bit 4 ?w) 0xf = of_nat (model mod 16)" and hi: "and (drop_bit 16 ?w) 0xf = of_nat (model div 16)"
    using signature_fields(2,3) [OF assms] by (metis of_nat_unat_id)+
  have "(of_nat (model mod 16) + push_bit 4 (of_nat (model div 16)) :: u32) = of_nat (model mod 16 + model div 16 * 16)"
    by (simp only: push_bit_eq_mult of_nat_add of_nat_mult) simp
  also have "model mod 16 + model div 16 * 16 = model" by simp
  finally show ?thesis by (simp add: cpu_model_def Let_def six fifteen lo hi)
qed

text \<open>
  The processor check of the Intel platform accepts a genuine Intel processor exactly when the
  family and model that its signature encodes are in the table of supported processors and no path
  of the block list exists.
\<close>

theorem supported_processor:
  assumes "genuine_intel c" and "cp_fms c = signature family model stepping"
    and "family < 16" "model < 256" "stepping < 16" "family = 6 \<or> family = 15"
  shows "check_cpu_id Intel_platform c e
     \<longleftrightarrow> (of_nat family, of_nat model) \<in> set intel_id_table \<and> (\<forall>p\<in>set blocklist_paths. \<not> sysfs_exists e p)"
  using assms cpu_family_eq [OF assms(3-5)] cpu_model_eq [OF assms(3-5)]
  by (auto simp: check_cpu_id_def intel_check_cpu_id_def list_ex_iff)

theorem supported_processor_witness:
  "check_cpu_id Intel_platform \<lparr>cp_ebx = 0x756e6547, cp_ecx = 0x6c65746e, cp_edx = 0x49656e69, cp_fms = signature 6 0x8e 9\<rparr>
     demo_coretemp
   \<longleftrightarrow> \<not> sysfs_exists demo_coretemp ''/sys/devices/platform/thinkpad_acpi/dytc_lapmode''"
  using supported_processor [where family = 6 and model = "0x8e" and stepping = 9 and e = demo_coretemp and c = "\<lparr>cp_ebx = 0x756e6547, cp_ecx = 0x6c65746e, cp_edx = 0x49656e69,
      cp_fms = signature 6 0x8e 9\<rparr>"]
  by (simp add: genuine_intel_def intel_id_table_def blocklist_paths_def)

end
