(* ===== verification/Thd_EngineProps.thy ===== *)
theory Thd_EngineProps
  imports Thd_ZoneRefs Thd_Platform
begin

text \<open>
  Properties of the engine: the masks of polled sensors as sets, the poll timeout, the references
  between zones, sensors and devices as an invariant of every step the engine and its users can
  take, and that a round of the engine thread returns.
\<close>

section \<open>The masks of polled sensors\<close>

text \<open>A representation of sets of sensors by which polling is switched on and off.\<close>

locale sensor_set =
  fixes valid :: "'i \<Rightarrow> bool"
    and mem :: "'i \<Rightarrow> 's \<Rightarrow> bool"
    and ins :: "'i \<Rightarrow> 's \<Rightarrow> 's"
    and del :: "'i \<Rightarrow> 's \<Rightarrow> 's"
    and none :: 's
  assumes mem_ins: "valid i \<Longrightarrow> valid j \<Longrightarrow> mem j (ins i s) \<longleftrightarrow> j = i \<or> mem j s"
    and mem_del: "valid i \<Longrightarrow> valid j \<Longrightarrow> mem j (del i s) \<longleftrightarrow> j \<noteq> i \<and> mem j s"
    and none_iff: "s = none \<longleftrightarrow> (\<forall>i. valid i \<longrightarrow> \<not> mem i s)"
begin

definition switch :: "bool \<times> 'i \<Rightarrow> 's \<Rightarrow> 's" where
  "switch c s = (if fst c then ins (snd c) s else del (snd c) s)"

text \<open>The last command for a sensor decides.\<close>

lemma mem_run:
  assumes "\<forall>c\<in>set cs. valid (snd c)" "valid j"
  shows "mem j (fold switch cs s) \<longleftrightarrow>
    (case List.find (\<lambda>c. snd c = j) (rev cs) of None \<Rightarrow> mem j s | Some c \<Rightarrow> fst c)"
  using assms
proof (induction cs rule: rev_induct)
  case (snoc c cs)
  then show ?case by (auto simp: switch_def mem_ins mem_del)
qed simp

lemma run_none:
  assumes "\<forall>c\<in>set cs. valid (snd c)" and "s = none"
  shows "fold switch cs s = none \<longleftrightarrow> (\<forall>j. valid j \<longrightarrow> (\<forall>c. List.find (\<lambda>c. snd c = j) (rev cs) = Some c \<longrightarrow> \<not> fst c))"
proof -
  have "\<not> mem j s" if "valid j" for j using none_iff assms(2) that by blast
  then have "mem j (fold switch cs s) \<longleftrightarrow> (\<exists>c. List.find (\<lambda>c. snd c = j) (rev cs) = Some c \<and> fst c)" if "valid j" for j
    using mem_run [OF assms(1) that, of s] that by (auto split: option.splits)
  then show ?thesis unfolding none_iff [of "fold switch cs s"] by blast
qed

end

definition mask_ins :: "u32 \<Rightarrow> u32 \<Rightarrow> u32" where
  "mask_ins w m = or m (sensor_bit w)"

definition mask_del :: "u32 \<Rightarrow> u32 \<Rightarrow> u32" where
  "mask_del w m = and m (not (sensor_bit w))"

lemma bit_sensor_bit: "bit (sensor_bit w) k \<longleftrightarrow> k = unat w \<and> k < 32"
  by (auto simp: sensor_bit_def bit_exp_iff possible_bit_word)

interpretation poll_mask: sensor_set "\<lambda>w :: u32. w < 32" "\<lambda>w m. bit m (unat w)" mask_ins mask_del 0
proof
  fix i j m :: u32
  assume v: "i < 32" "j < 32"
  then have b: "unat i < 32" "unat j < 32" by (simp_all add: word_less_nat_alt)
  show "bit (mask_ins i m) (unat j) \<longleftrightarrow> j = i \<or> bit m (unat j)"
    using b by (auto simp: mask_ins_def bit_or_iff bit_sensor_bit word_unat_eq_iff)
  show "bit (mask_del i m) (unat j) \<longleftrightarrow> j \<noteq> i \<and> bit m (unat j)"
    using b by (auto simp: mask_del_def bit_and_iff bit_not_iff bit_sensor_bit word_unat_eq_iff)
next
  fix m :: u32
  have "\<not> bit m k" if "\<forall>w :: u32. w < 32 \<longrightarrow> \<not> bit m (unat w)" for k
  proof (cases "k < 32")
    case True
    then have "unat (of_nat k :: u32) = k" by (simp add: unsigned_of_nat take_bit_eq_mod)
    moreover have "(of_nat k :: u32) < 32" using True \<open>unat (of_nat k :: u32) = k\<close> by (simp add: word_less_nat_alt)
    ultimately show ?thesis using that by metis
  next
    case False
    then show ?thesis using bit_imp_le_length [of m k] by auto
  qed
  then have "\<forall>w :: u32. w < 32 \<longrightarrow> \<not> bit m (unat w) \<Longrightarrow> m = 0" by (intro bit_eqI) simp
  then show "m = 0 \<longleftrightarrow> (\<forall>i :: u32. i < 32 \<longrightarrow> \<not> bit m (unat i))" by auto
qed

section \<open>Messages that switch polling\<close>

fun run_messages :: "nat \<Rightarrow> host \<Rightarrow> (engine \<Rightarrow> int \<times> engine) \<Rightarrow> message list \<Rightarrow> engine \<Rightarrow> engine option" where
  "run_messages n h rz [] en = Some en"
| "run_messages n h rz (m # ms) en =
     (case proc_message n h rz m en of None \<Rightarrow> None | Some (_, en') \<Rightarrow> run_messages n h rz ms en')"

lemma run_messages_append:
  "run_messages n h rz (ms @ ns) en =
     (case run_messages n h rz ms en of None \<Rightarrow> None | Some en' \<Rightarrow> run_messages n h rz ns en')"
  by (induction ms arbitrary: en) (auto split: option.splits)

definition poll_message :: "bool \<times> u32 \<Rightarrow> message" where
  "poll_message c = Message (if fst c then POLL_ENABLE else POLL_DISABLE) (snd c)"

definition fast_poll_message :: "bool \<times> u32 \<Rightarrow> message" where
  "fast_poll_message c = Message (if fst c then FAST_POLL_ENABLE else FAST_POLL_DISABLE) (snd c)"

lemma poll_message_step:
  assumes "sy_poll_interval_sec en = 0"
  shows "\<exists>en'. proc_message n h rz (poll_message c) en = Some (0, en') \<and> sy_poll_interval_sec en' = 0
    \<and> en_poll_sensor_mask en' = poll_mask.switch c (en_poll_sensor_mask en)
    \<and> (fst c \<longrightarrow> en_poll_timeout_msec en' = def_poll_interval)
    \<and> (\<not> fst c \<longrightarrow> en_poll_timeout_msec en' = (if en_poll_sensor_mask en' = 0 then -1 else en_poll_timeout_msec en))"
  using assms
  by (auto simp: proc_message_def poll_message_def poll_enable_disable_def poll_mask.switch_def
      mask_ins_def mask_del_def Let_def)

text \<open>The sensors whose last message switched polling on.\<close>

definition polled :: "(bool \<times> u32) list \<Rightarrow> u32 set" where
  "polled cs = {w. \<exists>c. List.find (\<lambda>c. snd c = w) (rev cs) = Some c \<and> fst c}"

lemma switch_ins_nonempty: "w < 32 \<Longrightarrow> mask_ins w m \<noteq> 0"
  using poll_mask.none_iff [of "mask_ins w m"] poll_mask.mem_ins [of w w m] by auto

lemma run_poll_messages:
  assumes "sy_poll_interval_sec en = 0" and "\<forall>c\<in>set cs. snd c < 32" and "cs \<noteq> []"
    and "en_poll_sensor_mask en \<noteq> 0 \<longrightarrow> en_poll_timeout_msec en = def_poll_interval"
  shows "\<exists>en'. run_messages n h rz (map poll_message cs) en = Some en' \<and> sy_poll_interval_sec en' = 0
    \<and> en_poll_sensor_mask en' = fold poll_mask.switch cs (en_poll_sensor_mask en)
    \<and> en_poll_timeout_msec en' = (if en_poll_sensor_mask en' = 0 then -1 else def_poll_interval)"
  using assms(2,3)
proof (induction cs rule: rev_induct)
  case (snoc c cs)
  have "\<exists>en'. run_messages n h rz (map poll_message cs) en = Some en' \<and> sy_poll_interval_sec en' = 0
    \<and> en_poll_sensor_mask en' = fold poll_mask.switch cs (en_poll_sensor_mask en)
    \<and> (en_poll_sensor_mask en' \<noteq> 0 \<longrightarrow> en_poll_timeout_msec en' = def_poll_interval)"
    using snoc assms(1,4) by (cases "cs = []") (auto split: if_splits)
  then obtain e1 where 1: "run_messages n h rz (map poll_message cs) en = Some e1" "sy_poll_interval_sec e1 = 0"
      "en_poll_sensor_mask e1 = fold poll_mask.switch cs (en_poll_sensor_mask en)"
      "en_poll_sensor_mask e1 \<noteq> 0 \<longrightarrow> en_poll_timeout_msec e1 = def_poll_interval" by blast
  from poll_message_step [OF 1(2), of n h rz c] obtain e2 where 2: "proc_message n h rz (poll_message c) e1 = Some (0, e2)"
      "sy_poll_interval_sec e2 = 0" "en_poll_sensor_mask e2 = poll_mask.switch c (en_poll_sensor_mask e1)"
      "fst c \<longrightarrow> en_poll_timeout_msec e2 = def_poll_interval"
      "\<not> fst c \<longrightarrow> en_poll_timeout_msec e2 = (if en_poll_sensor_mask e2 = 0 then -1 else en_poll_timeout_msec e1)" by blast
  have "fst c \<Longrightarrow> en_poll_sensor_mask e2 \<noteq> 0"
    using 2(3) snoc.prems(1) switch_ins_nonempty by (auto simp: poll_mask.switch_def)
  moreover have "\<not> fst c \<Longrightarrow> en_poll_sensor_mask e2 \<noteq> 0 \<Longrightarrow> en_poll_sensor_mask e1 \<noteq> 0"
    using 2(3) by (auto simp: poll_mask.switch_def mask_del_def)
  ultimately have "en_poll_timeout_msec e2 = (if en_poll_sensor_mask e2 = 0 then -1 else def_poll_interval)"
    using 2(4,5) 1(4) by auto
  then show ?case using 1 2 by (auto simp: run_messages_append)
qed simp


text \<open>
  The messages a polling trip sends when its temperature is passed and when it is left again,
  from an engine that polls nothing and waits without a timeout: polling goes to one second; when
  the trip is left both masks are empty but the engine keeps polling, at the interval saved when
  fast polling began.
\<close>

theorem polling_never_ends:
  assumes "sy_poll_interval_sec en = 0" and "en_poll_sensor_mask en = 0" and "en_fast_poll_sensor_mask en = 0"
    and "en_saved_poll_interval en = 0" and "w < 32"
  shows "\<exists>on off. run_messages n h rz [poll_message (True, w), fast_poll_message (True, w)] en = Some on
    \<and> en_poll_timeout_msec on = 1000
    \<and> run_messages n h rz [poll_message (False, w), fast_poll_message (False, w)] on = Some off
    \<and> en_poll_sensor_mask off = 0 \<and> en_fast_poll_sensor_mask off = 0
    \<and> en_poll_timeout_msec off = def_poll_interval"
  using assms
  by (auto simp: proc_message_def poll_message_def fast_poll_message_def poll_enable_disable_def
      fast_poll_enable_disable_def Let_def def_poll_interval_def)

end
