(* ===== verification/Thd_EngineInv.thy ===== *)
theory Thd_EngineInv
  imports Thd_EngineProps
begin

text \<open>
  The references between zones, sensors and devices: an invariant of every step that the engine
  thread, its users and its environment can take, and the return of a round of the engine thread.
\<close>

section \<open>Checks of zones keep the references\<close>

lemma set_last_temp_length [simp]: "length (set_last_temp i t ss) = length ss"
  by (simp add: set_last_temp_def split: sensor_kind.split)

lemma set_link_length [simp]: "length (set_link i j l ss) = length ss"
  by (simp add: set_link_def split: sensor_kind.split)

definition keeps_length :: "sensor list \<Rightarrow> ('b \<times> menv \<times> sensor list) option \<Rightarrow> bool" where
  "keeps_length ss r \<longleftrightarrow> (case r of None \<Rightarrow> True | Some (_, _, ss') \<Rightarrow> length ss' = length ss)"

lemma keeps_length_simps [simp]:
  "keeps_length ss None" "keeps_length ss (Some (w, e, ss')) \<longleftrightarrow> length ss' = length ss"
  by (simp_all add: keeps_length_def)

lemma keeps_length_cong: "length ss' = length ss \<Longrightarrow> keeps_length ss' r \<Longrightarrow> keeps_length ss r"
  by (auto simp: keeps_length_def split: option.splits)

lemma keeps_length_bind:
  assumes "keeps_length ss r" and "\<And>w e ss'. length ss' = length ss \<Longrightarrow> keeps_length ss (f w e ss')"
  shows "keeps_length ss (case r of None \<Rightarrow> None | Some (w, e, ss') \<Rightarrow> f w e ss')"
proof (cases r)
  case (Some x)
  obtain w e ss' where "x = (w, e, ss')" by (metis prod_cases3)
  then show ?thesis using assms Some by simp
qed simp

lemma read_length_all:
  "(\<forall>i e ss. keeps_length ss (sensor_read n i e ss)) \<and> (\<forall>i v e ss. keeps_length ss (virtual_read n i v e ss))
   \<and> (\<forall>i j ls acc e ss. keeps_length ss (links_read n i j ls acc e ss))"
proof (induction n)
  case 0
  then show ?case by (simp add: keeps_length_def sensor_read.simps virtual_read.simps links_read.simps)
next
  case (Suc n)
  have s: "keeps_length ss (sensor_read n i e ss)" and v: "keeps_length ss (virtual_read n i v e ss)"
    and l: "keeps_length ss (links_read n i j ls acc e ss)" for i v j ls acc e ss by (simp_all add: Suc.IH)
  have "keeps_length ss (sensor_read (Suc n) i e ss)" for i e ss
    using v by (auto simp: sensor_read.simps rapl_power_read_def Let_def split: sensor_kind.split)
  moreover have "keeps_length ss (virtual_read (Suc n) i v e ss)" for i v e ss
    unfolding virtual_read.simps Let_def
    using keeps_length_bind [OF s, of ss "\<lambda>w e' ss'. Some (scaled_value v w, e', ss')"]
      keeps_length_bind [OF l, of ss "\<lambda>vt e' ss'. Some (word_of_int (round_away vt) :: u32, e', set_last_temp i (round_away vt * 1000) ss')"]
    by (simp only: keeps_length_simps set_last_temp_length if_split) simp
  moreover have "keeps_length ss (links_read (Suc n) i j ls acc e ss)" for i j ls acc e ss
  proof (cases ls)
    case (Cons a as)
    have "keeps_length ss (case lk_sensor a of None \<Rightarrow> Some (1000, e, ss)
            | Some k \<Rightarrow> (case sensor_read n k e ss of None \<Rightarrow> None | Some (w, e', ss') \<Rightarrow> Some (sint w, e', ss')))"
      using keeps_length_bind [OF s, of ss "\<lambda>w e' ss'. Some (sint w, e', ss')"] by (auto split: option.splits)
    then show ?thesis unfolding Cons links_read.simps
    proof (rule keeps_length_bind)
      fix t e' and ss' :: "sensor list"
      assume a: "length ss' = length ss"
      obtain c l' where "link_step t a = (c, l')" by fastforce
      then show "keeps_length ss (case link_step t a of (cvt, l') \<Rightarrow>
          links_read n i (Suc j) as (f64 (acc + cvt)) e' (set_link i j l' ss'))"
        using keeps_length_cong [OF _ l, of "set_link i j l' ss'" ss] a by simp
    qed
  qed (simp add: links_read.simps)
  ultimately show ?case by blast
qed

lemma sensor_read_length: "sensor_read n i e ss = Some (w, e', ss') \<Longrightarrow> length ss' = length ss"
proof -
  assume a: "sensor_read n i e ss = Some (w, e', ss')"
  have "keeps_length ss (sensor_read n i e ss)" by (simp add: read_length_all)
  then show ?thesis by (simp add: a)
qed

lemma read_temperature_keeps: "read_temperature n i st = Some (w, st') \<Longrightarrow> sys_keeps st st'"
  by (auto simp: read_temperature_def sys_keeps_def dest: sensor_read_length split: option.splits)

definition zone_kept :: "zone \<Rightarrow> 'a sys_scheme \<Rightarrow> zone \<Rightarrow> 'a sys_scheme \<Rightarrow> bool" where
  "zone_kept z st z' st' \<longleftrightarrow> sys_keeps st st' \<and> zn_sensors z' = zn_sensors z
     \<and> zone_cdevs (zn_trip_points z') = zone_cdevs (zn_trip_points z)"

lemma zone_kept_trans: "zone_kept a s b t \<Longrightarrow> zone_kept b t c u \<Longrightarrow> zone_kept a s c u"
  unfolding zone_kept_def using sys_keeps_trans by metis

lemma zone_kept_refl [simp]: "zone_kept z st z st"
  by (simp add: zone_kept_def)

lemma devs_valid_cdevs: "devs_valid ts st \<longleftrightarrow> zone_cdevs ts \<subseteq> {..<length (sy_cdevs st)}"
  by (auto simp: devs_valid_def zone_cdevs_def)

lemma zone_kept_refs: "zone_kept z st z' st' \<Longrightarrow> zone_refs z' st' = zone_refs z st"
  by (simp add: zone_kept_def zone_refs_def sensors_valid_def devs_valid_cdevs sys_keeps_def)

lemma temp_change_kept:
  assumes "thermal_zone_temp_change sid T pref z st = (z', st')"
  shows "zone_kept z st z' st'"
proof -
  have f: "z' = z\<lparr>zn_trip_points := zn_trip_points z'\<rparr>" "list_all2 same_setting (zn_trip_points z) (zn_trip_points z')"
      "sys_keeps st st'"
    using temp_change_keeps [OF assms] check_frame_keeps by auto
  have "zn_sensors z' = zn_sensors z" by (subst f(1)) simp
  then show ?thesis using f zone_cdevs_cong by (auto simp: zone_kept_def)
qed

lemma preference_pass_kept:
  "preference_pass n rel is z st = Some (z', st') \<Longrightarrow> zone_kept z st z' st'"
proof (induction "is" arbitrary: z st)
  case (Cons i "is")
  from Cons.prems obtain w s1 where r: "read_temperature n i st = Some (w, s1)" by (auto split: option.splits)
  obtain z2 s2 where c: "thermal_zone_temp_change (sensor_index i s1) (if rel then 0 else w) (sy_preference s1)
      (z\<lparr>zn_temp := w\<rparr>) s1 = (z2, s2)" by fastforce
  have "zone_kept z st (z\<lparr>zn_temp := w\<rparr>) s1" using read_temperature_keeps [OF r] by (simp add: zone_kept_def)
  moreover have "zone_kept z2 s2 z' st'" using Cons.prems Cons.IH r c by simp
  ultimately show ?case using temp_change_kept [OF c] zone_kept_trans by blast
qed simp

lemma update_zone_preference_kept: "update_zone_preference n z st = Some (z', st') \<Longrightarrow> zone_kept z st z' st'"
  by (auto simp: update_zone_preference_def split: if_splits option.splits
      dest!: preference_pass_kept intro: zone_kept_trans)

lemma read_sensors_kept: "read_sensors n is z st = Some (z', st') \<Longrightarrow> zone_kept z st z' st'"
proof (induction "is" arbitrary: z st)
  case (Cons i "is")
  from Cons.prems obtain w s1 where r: "read_temperature n i st = Some (w, s1)" by (auto split: option.splits)
  define z1 where "z1 = (if zn_temp z < w then z\<lparr>zn_temp := w\<rparr> else z)"
  obtain z2 s2 where c: "(if zn_sensor_rel z1 = SENSOR_INDEPENDENT
      then thermal_zone_temp_change (sensor_index i s1) w (sy_preference s1) z1 s1 else (z1, s1)) = (z2, s2)" by fastforce
  have "zone_kept z st z1 s1" using read_temperature_keeps [OF r] by (simp add: zone_kept_def z1_def)
  moreover have "zone_kept z1 s1 z2 s2" using c by (auto split: if_splits dest: temp_change_kept)
  moreover have "zone_kept z2 s2 z' st'" using Cons.prems Cons.IH r c by (simp add: z1_def [symmetric])
  ultimately show ?case using zone_kept_trans by blast
qed simp

lemma read_zone_temp_kept:
  assumes "read_zone_temp n z st = Some (z', st')"
  shows "zone_kept z st z' st'"
proof (cases "zn_active z")
  case True
  then obtain z1 s1 where r: "read_sensors n (zn_sensors z) (z\<lparr>zn_temp := 0\<rparr>) st = Some (z1, s1)"
    using assms by (auto simp: read_zone_temp_def split: option.splits)
  have "zone_kept z st (z\<lparr>zn_temp := 0\<rparr>) st" by (simp add: zone_kept_def)
  moreover note read_sensors_kept [OF r]
  moreover have "zone_kept z1 s1 z' st'"
    using assms r True by (auto simp: read_zone_temp_def split: if_splits dest: temp_change_kept)
  ultimately show ?thesis using zone_kept_trans by blast
qed (use assms in \<open>simp add: read_zone_temp_def\<close>)

section \<open>The engine\<close>

definition engine_ok :: "engine \<Rightarrow> bool" where
  "engine_ok en \<longleftrightarrow> (\<forall>z\<in>set (en_zones en). zone_refs z en)"

lemma keeps_zones: "sys_keeps en en' \<Longrightarrow> en_zones en' = en_zones (en :: engine)"
  by (cases en, cases en') (simp add: sys_keeps_def)

lemma engine_ok_keeps: "sys_keeps en en' \<Longrightarrow> engine_ok en \<Longrightarrow> engine_ok en'"
  by (simp add: engine_ok_def keeps_zones zone_refs_keeps)

lemma zone_refs_zones [simp]: "zone_refs z (en\<lparr>en_zones := zs\<rparr>) = zone_refs z en"
  by (simp add: zone_refs_def sensors_valid_def devs_valid_def)

lemma engine_ok_zones [simp]: "engine_ok (en\<lparr>en_zones := zs\<rparr>) \<longleftrightarrow> (\<forall>z\<in>set zs. zone_refs z en)"
  by (simp add: engine_ok_def)

definition op_kept :: "(zone \<Rightarrow> engine \<Rightarrow> (zone \<times> engine) option) \<Rightarrow> bool" where
  "op_kept f \<longleftrightarrow> (\<forall>z en z' en'. f z en = Some (z', en') \<longrightarrow> zone_kept z en z' en')"

lemma ops_kept [simp]:
  "op_kept (update_zone_preference n)" "op_kept (zone_temperature_notification n a b)" "op_kept (notify_if_active n)"
  by (auto simp: op_kept_def notify_if_active_def zone_temperature_notification_def
      intro: update_zone_preference_kept read_zone_temp_kept split: if_splits)

lemma on_zone_ok:
  assumes "op_kept f" "on_zone f i en = Some en'" "engine_ok en" "i < length (en_zones en)"
  shows "engine_ok en' \<and> length (en_zones en') = length (en_zones en)"
proof -
  obtain z e1 where f: "f (en_zones en ! i) en = Some (z, e1)" and en': "en' = e1\<lparr>en_zones := (en_zones e1)[i := z]\<rparr>"
    using assms(2) by (auto simp: on_zone_def split: option.splits)
  have k: "zone_kept (en_zones en ! i) en z e1" using assms(1) f by (simp add: op_kept_def)
  then have s: "sys_keeps en e1" by (simp add: zone_kept_def)
  have "zone_refs z e1" using zone_kept_refs [OF k] assms(3,4) by (simp add: engine_ok_def)
  moreover have "\<forall>x\<in>set (en_zones e1). zone_refs x e1"
    using assms(3) keeps_zones [OF s] zone_refs_keeps [OF s] by (simp add: engine_ok_def)
  ultimately show ?thesis
    using set_update_subset_insert [of "en_zones e1" i z] keeps_zones [OF s] by (auto simp: en')
qed

lemma for_zones_ok:
  "for_zones f is en = Some en' \<Longrightarrow> op_kept f \<Longrightarrow> engine_ok en \<Longrightarrow> \<forall>i\<in>set is. i < length (en_zones en)
     \<Longrightarrow> engine_ok en'"
proof (induction "is" arbitrary: en)
  case (Cons i "is")
  from Cons.prems(1) obtain e1 where o: "on_zone f i en = Some e1" "for_zones f is e1 = Some en'"
    by (auto split: option.splits)
  have "engine_ok e1" "length (en_zones e1) = length (en_zones en)"
    using on_zone_ok [OF Cons.prems(2) o(1) Cons.prems(3)] Cons.prems(4) by auto
  then show ?case using Cons.IH [OF o(2) Cons.prems(2)] Cons.prems(4) by simp
qed simp

lemma all_zones_ok: "all_zones f en = Some en' \<Longrightarrow> op_kept f \<Longrightarrow> engine_ok en \<Longrightarrow> engine_ok en'"
  unfolding all_zones_def by (erule for_zones_ok) auto

lemma engine_ok_cong:
  "en_zones en' = en_zones en \<Longrightarrow> length (sy_sensors en') = length (sy_sensors en) \<Longrightarrow>
     length (sy_cdevs en') = length (sy_cdevs en) \<Longrightarrow> engine_ok en' = engine_ok en"
  by (simp add: engine_ok_def zone_refs_def sensors_valid_def devs_valid_def)

lemma engine_ok_fields [simp]:
  "engine_ok (en\<lparr>sy_env := e\<rparr>) = engine_ok en" "engine_ok (en\<lparr>sy_pipe := p\<rparr>) = engine_ok en"
  "engine_ok (en\<lparr>sy_preference := i\<rparr>) = engine_ok en" "engine_ok (en\<lparr>en_status := b\<rparr>) = engine_ok en"
  "engine_ok (en\<lparr>en_thd_pref := pr\<rparr>) = engine_ok en" "engine_ok (en\<lparr>en_terminate := b\<rparr>) = engine_ok en"
  "engine_ok (en\<lparr>en_poll_sensor_mask := w\<rparr>) = engine_ok en" "engine_ok (en\<lparr>en_fast_poll_sensor_mask := w\<rparr>) = engine_ok en"
  "engine_ok (en\<lparr>en_poll_timeout_msec := i\<rparr>) = engine_ok en" "engine_ok (en\<lparr>en_saved_poll_interval := i\<rparr>) = engine_ok en"
  "engine_ok (en\<lparr>en_zone_preferences := ps\<rparr>) = engine_ok en"
  "engine_ok (en\<lparr>en_thz_last_temp_ind_time := i\<rparr>) = engine_ok en" "engine_ok (en\<lparr>en_thz_last_uevent_time := i\<rparr>) = engine_ok en"
  "engine_ok (en\<lparr>en_thz_last_update_event_time := i\<rparr>) = engine_ok en"
  "engine_ok (en\<lparr>en_current_sensor_index := i\<rparr>) = engine_ok en" "engine_ok (en\<lparr>en_current_zone_index := i\<rparr>) = engine_ok en"
  "engine_ok (en\<lparr>en_current_cdev_index := i\<rparr>) = engine_ok en"
  by (rule engine_ok_cong; simp)+

lemma takeover_ok [simp]: "engine_ok (takeover_thermal_control h en) = engine_ok en"
  by (simp add: takeover_thermal_control_def split: prod.split)

lemma poll_switch_ok [simp]:
  "engine_ok (poll_enable_disable b w en) = engine_ok en" "engine_ok (fast_poll_enable_disable b w en) = engine_ok en"
  by (simp_all add: poll_enable_disable_def fast_poll_enable_disable_def Let_def)

lemma process_pref_change_ok:
  "process_pref_change n h en = Some en' \<Longrightarrow> engine_ok en \<Longrightarrow> engine_ok en'"
  by (auto simp: process_pref_change_def Let_def split: if_splits option.splits dest!: all_zones_ok)

text \<open>More sensors or devices leave the references valid.\<close>

lemma engine_ok_grow:
  assumes "engine_ok en" "en_zones en' = en_zones en" "length (sy_sensors en) \<le> length (sy_sensors en')"
    "length (sy_cdevs en) \<le> length (sy_cdevs en')"
  shows "engine_ok en'"
proof -
  have "zone_refs z en'" if "zone_refs z en" for z
    using that assms(3,4) by (fastforce simp: zone_refs_def sensors_valid_def devs_valid_def)
  then show ?thesis using assms(1,2) by (simp add: engine_ok_def)
qed

lemma set_active_keeps:
  "set_zone_active z st = (z', st') \<Longrightarrow> zone_kept z st z' st'" "set_zone_inactive z st = (z', st') \<Longrightarrow> zone_kept z st z' st'"
  by (auto simp: set_zone_active_def set_zone_inactive_def zone_kept_def sys_keeps_def on_virtual_def
      split: option.splits sensor_kind.splits)

section \<open>Steps of the engine, its users and its environment\<close>

text \<open>The virtual methods that a derived class of the engine must provide: they keep the references
  valid.\<close>

locale engine_methods =
  fixes vm :: engine_class
  assumes read_zones_ok: "engine_ok en \<Longrightarrow> engine_ok (snd (vm_read_thermal_zones vm en))"
    and update_state_ok: "engine_ok en \<Longrightarrow> engine_ok (vm_update_engine_state vm en)"
    and workarounds_ok: "engine_ok en \<Longrightarrow> engine_ok (vm_workarounds vm en)"
begin

lemma proc_message_ok:
  "proc_message n h (vm_read_thermal_zones vm) m en = Some (r, en') \<Longrightarrow> engine_ok en \<Longrightarrow> engine_ok en'"
  using read_zones_ok [of "en\<lparr>en_zones := []\<rparr>"]
  by (auto simp: proc_message_def thermal_zone_change_def thd_engine_reload_zones_def
      split: message_name.splits if_splits dest: process_pref_change_ok all_zones_ok)

lemma wakeup_check_ok: "wakeup_check n h vm ev en = Some (b, en') \<Longrightarrow> engine_ok en \<Longrightarrow> engine_ok en'"
  by (auto simp: wakeup_check_def split: if_splits list.splits option.splits dest!: proc_message_ok)

lemma uevent_check_ok: "uevent_check n ev en = Some en' \<Longrightarrow> engine_ok en \<Longrightarrow> engine_ok en'"
  by (auto simp: uevent_check_def Let_def notify_zones_def split: if_splits option.splits dest!: all_zones_ok)

lemma state_check_ok: "engine_ok en \<Longrightarrow> engine_ok (state_check vm tm en)"
  by (simp add: state_check_def update_state_ok)

lemma finish_round_ok:
  assumes "finish_round n h vm ev tm en = Some en'" "engine_ok en"
  shows "engine_ok en'"
proof -
  obtain e1 b e2 where u: "uevent_check n ev en = Some e1" and w: "wakeup_check n h vm ev e1 = Some (b, e2)"
    using assms(1) by (auto simp: finish_round_def split: option.splits)
  have "engine_ok e2" by (rule wakeup_check_ok [OF w uevent_check_ok [OF u assms(2)]])
  then show ?thesis
    using assms(1) u w by (cases b) (auto simp: finish_round_def intro: workarounds_ok state_check_ok)
qed

lemma engine_round_ok: "engine_round n h vm ev en = Some en' \<Longrightarrow> engine_ok en \<Longrightarrow> engine_ok en'"
  by (auto simp: engine_round_def Let_def timed_check_def notify_zones_def measure_def
      split: if_splits option.splits dest!: finish_round_ok all_zones_ok)

end

text \<open>A step: a round of the engine thread, an operation of a user or a reading for one, a round of the timer of a virtual
  sensor, a message sent from outside, or a change of the environment.\<close>

inductive engine_step :: "host \<Rightarrow> engine_class \<Rightarrow> engine \<Rightarrow> engine \<Rightarrow> bool" for h vm where
  Round: "engine_round n h vm ev en = Some en' \<Longrightarrow> engine_step h vm en en'"
| Environment: "engine_step h vm en (set_env e en)"
| Message_sent: "engine_step h vm en (send_message m v en)"
| Timer: "periodic_round n i (sy_env en) (sy_sensors en) = Some (s, e, ss) \<Longrightarrow>
    engine_step h vm en (en\<lparr>sy_env := e, sy_sensors := ss\<rparr>)"
| Add_sensor: "engine_step h vm en (snd (user_add_sensor name path en))"
| Add_virtual_sensor: "engine_step h vm en (snd (user_add_virtual_sensor junk name dep slope intercept en))"
| Set_psv: "engine_step h vm en (snd (user_set_psv_temp ok name temp en))"
| Set_max: "engine_step h vm en (snd (user_set_max_temp ok name temp en))"
| Add_zone: "engine_step h vm en (snd (user_add_zone (site.truncate h) name temp sensor cdev en))"
| Set_zone_status: "engine_step h vm en (snd (user_set_zone_status name status en))"
| Delete_zone: "engine_step h vm en (snd (user_delete_zone name en))"
| Add_cdev: "engine_step h vm en (snd (user_add_cdev name path mn mx step en))"
| Read_sensor: "read_temperature n i en = Some (w, en') \<Longrightarrow> engine_step h vm en en'"
| Read_cdev: "engine_step h vm en (put_cdev i (snd (get_curr_state (sy_env en) (snd (get_max_state (sy_env en) (cdev_at en i))))) en)"

inductive engine_reach :: "host \<Rightarrow> engine_class \<Rightarrow> engine \<Rightarrow> engine \<Rightarrow> bool" for h vm where
  Start: "engine_reach h vm en en"
| Step: "engine_reach h vm en en' \<Longrightarrow> engine_step h vm en' en'' \<Longrightarrow> engine_reach h vm en en''"

lemma set_env_ok [simp]: "engine_ok (set_env e en) = engine_ok en"
  by (simp add: set_env_def)

lemma send_message_ok [simp]: "engine_ok (send_message m v en) = engine_ok en"
  by (simp add: send_message_def)

lemma push_sensor_ok: "engine_ok en \<Longrightarrow> engine_ok (push_sensor s en)"
  by (erule engine_ok_grow) (simp_all add: push_sensor_def)

lemma replace_sensor_ok [simp]: "engine_ok (replace_sensor i s en) = engine_ok en"
  by (rule engine_ok_cong) (simp_all add: replace_sensor_def)

lemma put_cdev_ok [simp]: "engine_ok (put_cdev i c en) = engine_ok en"
  by (rule engine_ok_cong) (simp_all add: put_cdev_def)

lemma zone_destroy_zones [simp]: "engine_ok (zone_destroy z en) = engine_ok en" "en_zones (zone_destroy z en) = en_zones en"
  by (simp_all add: zone_destroy_def sysfs_zone_destroy_def split: zone_kind.split)

lemma zone_refs_destroy [simp]: "zone_refs x (zone_destroy z en) = zone_refs x en"
  by (rule zone_refs_keeps) (simp add: zone_destroy_def sysfs_zone_destroy_def split: zone_kind.split)

lemma add_zone_ok:
  assumes "engine_ok en" "zone_refs z en"
  shows "engine_ok (push_zone z en)"
proof -
  have "zone_refs x (push_zone z en) = zone_refs x en" for x
    by (simp add: push_zone_def zone_refs_def sensors_valid_def devs_valid_def)
  then show ?thesis using assms by (auto simp: engine_ok_def push_zone_def)
qed

lemma zone_update_refs:
  assumes "zone_update si z st = (THD_SUCCESS, z', st')" "zone_refs z st"
  shows "zone_refs z' st'"
  using zone_update_trips [OF assms(1)] zone_update_sensors [OF assms(1)] assms(2) devs_valid_keeps
  by (auto simp: zone_refs_def trips_kept_def)

lemma user_add_sensor_ok: "engine_ok en \<Longrightarrow> engine_ok (snd (user_add_sensor name path en))"
  by (auto simp: user_add_sensor_def push_sensor_ok split: option.splits prod.splits)

lemma user_add_virtual_sensor_ok:
  "engine_ok en \<Longrightarrow> engine_ok (snd (user_add_virtual_sensor junk name dep slope intercept en))"
  by (auto simp: user_add_virtual_sensor_def push_sensor_ok split: option.splits prod.splits sensor_kind.splits)

lemma user_set_temp_ok:
  "engine_ok en \<Longrightarrow> engine_ok (snd (user_set_psv_temp ok name temp en))"
  "engine_ok en \<Longrightarrow> engine_ok (snd (user_set_max_temp ok name temp en))"
  by (auto simp: user_set_psv_temp_def user_set_max_temp_def split: option.splits prod.splits)

lemma new_dynamic_refs: "zone_refs (cthd_zone_dynamic i name temp ty sensor cdev) st"
  by (simp add: cthd_zone_dynamic_def cthd_zone_def zone_refs_def sensors_valid_def)

lemma user_add_zone_ok:
  assumes "engine_ok en"
  shows "engine_ok (snd (user_add_zone si name temp sensor cdev en))"
proof -
  define z0 where "z0 = cthd_zone_dynamic (en_current_zone_index en) name temp PASSIVE sensor cdev"
  obtain r z e1 where u: "zone_update si z0 en = (r, z, e1)" by (metis prod_cases3)
  obtain z' e2 where a: "set_zone_active z e1 = (z', e2)" by fastforce
  have e1: "engine_ok e1" using zone_update_trips [OF u] assms engine_ok_keeps by (auto simp: trips_kept_def)
  have k: "zone_kept z e1 z' e2" by (rule set_active_keeps(1) [OF a])
  have e2: "engine_ok e2" using k e1 engine_ok_keeps by (auto simp: zone_kept_def)
  have "zone_refs z' e2" if "r = THD_SUCCESS"
  proof -
    have "zone_refs z e1"
      by (rule zone_update_refs [OF u [unfolded that]]) (simp add: z0_def new_dynamic_refs)
    then show ?thesis using zone_kept_refs [OF k] by simp
  qed
  then show ?thesis using e1 e2 add_zone_ok by (simp add: user_add_zone_def z0_def [symmetric] u a)
qed

lemma user_set_zone_status_ok:
  assumes "engine_ok en"
  shows "engine_ok (snd (user_set_zone_status name status en))"
proof (cases "get_zone name en")
  case (Some i)
  then have i: "i < length (en_zones en)" unfolding get_zone_def using find_index_Some by blast
  obtain z e where a: "(if status \<noteq> 0 then set_zone_active (en_zones en ! i) en else set_zone_inactive (en_zones en ! i) en) = (z, e)"
    by fastforce
  have k: "zone_kept (en_zones en ! i) en z e" using a by (auto split: if_splits dest: set_active_keeps)
  have s: "sys_keeps en e" using k by (simp add: zone_kept_def)
  have "zone_refs z e" using zone_kept_refs [OF k] i assms by (simp add: engine_ok_def)
  moreover have "\<forall>x\<in>set (en_zones e). zone_refs x e"
    using assms keeps_zones [OF s] zone_refs_keeps [OF s] by (simp add: engine_ok_def)
  ultimately show ?thesis
    using set_update_subset_insert [of "en_zones e" i z] by (auto simp: user_set_zone_status_def Some a)
qed (simp add: user_set_zone_status_def assms)

lemma user_delete_zone_ok: "engine_ok en \<Longrightarrow> engine_ok (snd (user_delete_zone name en))"
  by (auto simp: user_delete_zone_def engine_ok_def dest: in_set_takeD in_set_dropD split: option.splits)

lemma user_add_cdev_ok: "engine_ok en \<Longrightarrow> engine_ok (snd (user_add_cdev name path mn mx step en))"
  by (auto simp: user_add_cdev_def split: option.splits prod.splits elim!: engine_ok_grow)

lemma periodic_round_length:
  assumes "periodic_round n i e ss = Some (s, e', ss')"
  shows "length ss' = length ss"
proof -
  have "keeps_length ss (virtual_read n i v e ss)" for v by (simp add: read_length_all)
  then have "length ss1 = length ss" if "virtual_read n i v e ss = Some (w, e1, ss1)" for v w e1 ss1
    using that by (metis keeps_length_simps(2))
  then show ?thesis
    using assms by (auto simp: periodic_round_def Let_def split: sensor_kind.splits option.splits if_splits)
qed

lemma timer_ok:
  "periodic_round n i (sy_env en) (sy_sensors en) = Some (s, e, ss) \<Longrightarrow> engine_ok en \<Longrightarrow>
     engine_ok (en\<lparr>sy_env := e, sy_sensors := ss\<rparr>)"
  by (subst engine_ok_cong [of _ en]) (simp_all add: periodic_round_length)

lemmas user_steps_ok = user_add_sensor_ok user_add_virtual_sensor_ok user_set_temp_ok user_add_zone_ok
  user_set_zone_status_ok user_delete_zone_ok user_add_cdev_ok timer_ok

context engine_methods
begin

lemma engine_step_ok: "engine_step h vm en en' \<Longrightarrow> engine_ok en \<Longrightarrow> engine_ok en'"
  by (induction rule: engine_step.induct) (auto intro: engine_round_ok user_steps_ok dest: read_temperature_keeps engine_ok_keeps)

lemma engine_reach_ok: "engine_reach h vm en en' \<Longrightarrow> engine_ok en \<Longrightarrow> engine_ok en'"
  by (induction rule: engine_reach.induct) (auto intro: engine_step_ok)

end

section \<open>A round returns\<close>

text \<open>Every zone's sensors can be read with the fuel \<open>n\<close>.\<close>

definition readable :: "nat \<Rightarrow> nat \<Rightarrow> engine \<Rightarrow> bool" where
  "readable m n en \<longleftrightarrow> engine_ok en \<and> links_down m (sy_sensors en) \<and> read_fuel m (length (sy_sensors en)) \<le> n"

definition op_returns :: "nat \<Rightarrow> nat \<Rightarrow> (zone \<Rightarrow> engine \<Rightarrow> (zone \<times> engine) option) \<Rightarrow> bool" where
  "op_returns m n f \<longleftrightarrow> op_kept f \<and> (\<forall>z en. sensors_ok m n (zn_sensors z) en \<longrightarrow>
     (\<exists>z' en'. f z en = Some (z', en') \<and> sensors_ok m n (zn_sensors z') en' \<and> zn_sensors z' = zn_sensors z))"

lemma preference_pass_returns:
  "sensors_ok m n js st \<Longrightarrow> set is \<subseteq> set js \<Longrightarrow>
     \<exists>z' st'. preference_pass n rel is z st = Some (z', st') \<and> sensors_ok m n js st' \<and> zn_sensors z' = zn_sensors z"
proof (induction "is" arbitrary: z st)
  case (Cons i "is")
  obtain w s1 where r: "read_temperature n i st = Some (w, s1)" "sensors_ok m n js s1"
    using read_temperature_ok [OF Cons.prems(1), of i] Cons.prems(2) by auto
  obtain z2 s2 where c: "thermal_zone_temp_change (sensor_index i s1) (if rel then 0 else w) (sy_preference s1)
      (z\<lparr>zn_temp := w\<rparr>) s1 = (z2, s2)" by fastforce
  have "sensors_ok m n js s2" "zn_sensors z2 = zn_sensors z" using temp_change_ok [OF c r(2)] by auto
  then show ?case using Cons.IH [of s2 z2] Cons.prems(2) r(1) c by auto
qed simp

lemma update_zone_preference_returns: "op_returns m n (update_zone_preference n)"
proof -
  have "\<exists>z' st'. update_zone_preference n z st = Some (z', st') \<and> sensors_ok m n (zn_sensors z') st' \<and> zn_sensors z' = zn_sensors z"
    if sok: "sensors_ok m n (zn_sensors z) st" for z and st :: engine
  proof (cases "zn_active z")
    case True
    obtain z1 s1 where 1: "preference_pass n True (zn_sensors z) z st = Some (z1, s1)" "sensors_ok m n (zn_sensors z) s1"
        "zn_sensors z1 = zn_sensors z"
      using preference_pass_returns [OF sok, of "zn_sensors z" True z] by auto
    obtain z2 s2 where 2: "preference_pass n False (zn_sensors z) z1 s1 = Some (z2, s2)" "sensors_ok m n (zn_sensors z) s2"
        "zn_sensors z2 = zn_sensors z1"
      using preference_pass_returns [OF 1(2), of "zn_sensors z" False z1] by auto
    show ?thesis using True 1 2 by (simp add: update_zone_preference_def)
  qed (simp add: update_zone_preference_def sok)
  then show ?thesis by (simp add: op_returns_def)
qed

lemma notification_returns:
  "op_returns m n (zone_temperature_notification n a b)" "op_returns m n (notify_if_active n)"
  using zone_check_ok by (auto simp: op_returns_def zone_temperature_notification_def notify_if_active_def)

lemma on_zone_returns:
  assumes "op_returns m n f" "readable m n en" "i < length (en_zones en)"
  shows "\<exists>en'. on_zone f i en = Some en' \<and> readable m n en' \<and> length (en_zones en') = length (en_zones en)"
proof -
  let ?z = "en_zones en ! i"
  have "sensors_ok m n (zn_sensors ?z) en"
    using assms(2) nth_mem [OF assms(3)]
    unfolding readable_def sensors_ok_def engine_ok_def zone_refs_def sensors_valid_def by blast
  then obtain z e1 where f: "f ?z en = Some (z, e1)" "sensors_ok m n (zn_sensors z) e1"
    using assms(1) unfolding op_returns_def by blast
  have o: "on_zone f i en = Some (e1\<lparr>en_zones := (en_zones e1)[i := z]\<rparr>)" by (simp add: on_zone_def f)
  have "op_kept f" "engine_ok en" using assms by (simp_all add: op_returns_def readable_def)
  then show ?thesis using on_zone_ok [OF _ o _ assms(3)] f(2) o by (auto simp: readable_def sensors_ok_def)
qed

lemma for_zones_returns:
  "readable m n en \<Longrightarrow> op_returns m n f \<Longrightarrow> \<forall>i\<in>set is. i < length (en_zones en) \<Longrightarrow>
     \<exists>en'. for_zones f is en = Some en' \<and> readable m n en'"
proof (induction "is" arbitrary: en)
  case (Cons i "is")
  obtain e1 where o: "on_zone f i en = Some e1" "readable m n e1" "length (en_zones e1) = length (en_zones en)"
    using on_zone_returns [OF Cons.prems(2,1)] Cons.prems(3) by auto
  then show ?case using Cons.IH [OF o(2) Cons.prems(2)] Cons.prems(3) by auto
qed simp

lemma all_zones_returns:
  "readable m n en \<Longrightarrow> op_returns m n f \<Longrightarrow> \<exists>en'. all_zones f en = Some en' \<and> readable m n en'"
  unfolding all_zones_def by (erule for_zones_returns) auto

lemma readable_cong:
  "en_zones en' = en_zones en \<Longrightarrow> sy_sensors en' = sy_sensors en \<Longrightarrow>
     length (sy_cdevs en') = length (sy_cdevs en) \<Longrightarrow> readable m n en' = readable m n en"
  using engine_ok_cong [of en' en] by (simp add: readable_def)

lemma process_pref_change_returns:
  assumes "readable m n en"
  shows "\<exists>en'. process_pref_change n h en = Some en'"
proof -
  define p where "p = refresh (sy_env en) (en_thd_pref en)"
  define e0 where "e0 = en\<lparr>en_thd_pref := p, en_status := True, sy_preference := pr_preference p\<rparr>"
  have "readable m n e0" using assms readable_cong [of e0 en] by (simp add: e0_def)
  from all_zones_returns [OF this update_zone_preference_returns] show ?thesis
    by (auto simp: process_pref_change_def e0_def p_def Let_def)
qed

lemma proc_message_returns:
  assumes "readable m n en"
  shows "\<exists>r en'. proc_message n h rz msg en = Some (r, en')"
  using process_pref_change_returns [OF assms, of h] all_zones_returns [OF assms notification_returns(2)]
  by (auto simp: proc_message_def thermal_zone_change_def split: message_name.split)

lemma uevent_check_returns:
  assumes "readable m n en"
  shows "\<exists>en'. uevent_check n ev en = Some en' \<and> readable m n en'"
proof -
  have t: "readable m n (en'\<lparr>en_thz_last_uevent_time := x\<rparr>) = readable m n en'" for en' x
    by (rule readable_cong) simp_all
  show ?thesis
    using assms all_zones_returns [OF assms notification_returns(1), of 0 0]
    by (auto simp: uevent_check_def notify_zones_def Let_def t)
qed

lemma wakeup_check_returns:
  assumes "readable m n en"
  shows "\<exists>b en'. wakeup_check n h vm ev en = Some (b, en')"
proof -
  have "readable m n (en\<lparr>sy_pipe := ms\<rparr>)" for ms
    using readable_cong [of "en\<lparr>sy_pipe := ms\<rparr>" en] assms by simp
  then have "\<exists>r en'. proc_message n h rz msg (en\<lparr>sy_pipe := ms\<rparr>) = Some (r, en')" for rz msg ms
    by (rule proc_message_returns)
  then have p: "\<exists>b en'. (case proc_message n h rz msg (en\<lparr>sy_pipe := ms\<rparr>) of None \<Rightarrow> None
      | Some (_, en') \<Rightarrow> Some (True, en')) = Some (b, en')" for rz msg ms
    by (metis (no_types, lifting) case_prod_conv option.simps(5))
  have ex: "\<exists>b. b" "Ex Not" by blast+
  show ?thesis by (cases "sy_pipe en") (simp_all add: wakeup_check_def p ex)
qed

lemma finish_round_returns:
  assumes "readable m n en"
  shows "\<exists>en'. finish_round n h vm ev tm en = Some en'"
proof -
  obtain e1 where u: "uevent_check n ev en = Some e1" "readable m n e1" using uevent_check_returns [OF assms] by blast
  obtain b e2 where "wakeup_check n h vm ev e1 = Some (b, e2)" using wakeup_check_returns [OF u(2)] by blast
  then show ?thesis using u(1) by (cases b) (simp_all add: finish_round_def)
qed

text \<open>
  C15. A round of the engine thread returns, whatever event woke it up and whatever message it
  reads: when the references of the zones are valid and virtual sensors are linked to earlier
  sensors only, fuel for the sensors and their links is enough.
\<close>

theorem engine_round_returns:
  assumes "engine_ok en" and "links_down m (sy_sensors en)" and "read_fuel m (length (sy_sensors en)) \<le> n"
  shows "\<exists>en'. engine_round n h vm ev en = Some en'"
proof -
  define e1 where "e1 = measure en"
  have r: "readable m n e1"
    using assms readable_cong [of e1 en] by (simp add: e1_def measure_def readable_def)
  obtain e2 where z: "notify_zones n e1 = Some e2" "readable m n e2"
    using all_zones_returns [OF r notification_returns(1)] by (auto simp: notify_zones_def)
  have "readable m n (e2\<lparr>en_thz_last_temp_ind_time := x\<rparr>)" for x
    using readable_cong [of "e2\<lparr>en_thz_last_temp_ind_time := x\<rparr>" e2] z(2) by simp
  from finish_round_returns [OF this] finish_round_returns [OF r] z(1) show ?thesis
    by (auto simp: engine_round_def e1_def [symmetric] Let_def timed_check_def)
qed

end
