(* ===== verification/Thd_EngineDefault.thy ===== *)
theory Thd_EngineDefault
  imports Thd_EngineInv
begin

text \<open>
  The default engine, \<^verbatim>\<open>thd_engine_default.cpp\<close>: how it finds the sensors, cooling devices and
  zones of the system and adds those of the XML configuration, and its workarounds. What
  \<^verbatim>\<open>thd_parse\<close> makes of the XML files is an argument.
\<close>

section \<open>Configuration\<close>

record sensor_target =
  tg_name :: string
  tg_coeff :: rat
  tg_offset :: rat
  tg_power_sensor :: int

record sensor_conf =
  sc_mask :: u32
  sc_name :: string
  sc_path :: string
  sc_async_capable :: bool
  sc_virtual_sensor :: bool
  sc_link_name :: string
  sc_link_multiplier :: rat
  sc_link_offset :: rat
  sc_link_sensors :: "sensor_target list"
  sc_polling_table :: "polling_table_entry list"

record zone_conf =
  zc_type :: string
  zc_trip_pts :: "trip_conf list"

datatype unit_value = ABSOULUTE_VALUE | RELATIVE_PERCENTAGES

record cooling_dev =
  cc_status :: bool
  cc_mask :: u32
  cc_index :: int
  cc_unit_val :: unit_value
  cc_min_state :: int
  cc_max_state :: int
  cc_inc_dec_step :: int
  cc_read_back :: bool
  cc_auto_down_control :: bool
  cc_type_string :: string
  cc_path_str :: string
  cc_debounce_interval :: int
  cc_pid_enable :: bool
  cc_kp :: rat
  cc_ki :: rat
  cc_kd :: rat
  cc_write_prefix :: string

record thermal_info =
  ti_name :: string
  ti_uuid :: string
  ti_product_name :: string
  ti_product_sku :: string
  ti_default_preference :: int
  ti_polling_interval :: int
  ti_ppcc :: ppcc
  ti_sensors :: "sensor_conf list"
  ti_zones :: "zone_conf list"
  ti_cooling_devs :: "cooling_dev list"

text \<open>The machine: its directories, the configuration that matches it (and whether that was made
  automatically), the options of the daemon and the processor. \<open>ma_vault_ppcc\<close> is what the adaptive
  engine puts in the place of \<^verbatim>\<open>get_ppcc_param\<close>, \<open>ma_junk\<close> is what uninitialised locals hold.\<close>

record machine = host +
  ma_dir :: "string \<Rightarrow> string list option"
  ma_conf :: "thermal_info option"
  ma_auto_config :: bool
  ma_debug_mode :: bool
  ma_ignore_default_control :: bool
  ma_disable_active_power :: bool
  ma_force_mmio_rapl :: bool
  ma_adaptive_mode :: bool
  ma_workaround_enabled :: bool
  ma_uname :: "string option"
  ma_cpuid :: cpuid
  ma_vault_ppcc :: "(string \<Rightarrow> ppcc option) option"
  ma_junk :: int

abbreviation machine_host :: "machine \<Rightarrow> host" where "machine_host m \<equiv> host.truncate m"
abbreviation machine_site :: "machine \<Rightarrow> site" where "machine_site m \<equiv> site.truncate m"

definition dir_entries :: "machine \<Rightarrow> string \<Rightarrow> string list" where
  "dir_entries m p = (case ma_dir m p of None \<Rightarrow> [] | Some xs \<Rightarrow> xs)"

section \<open>Sensors\<close>

definition cthd_sensor_rapl_power :: "int \<Rightarrow> sensor" where
  "cthd_sensor_rapl_power idx =
     (sensor_update_path ''/sys/class/powercap/intel-rapl'' (cthd_sensor idx [] ''rapl_pkg_power'' SENSOR_TYPE_RAW))
       \<lparr>sn_kind := Rapl_power_sensor\<rparr>"

definition add_sensor :: "sensor \<Rightarrow> engine \<Rightarrow> engine" where
  "add_sensor s en = en\<lparr>sy_sensors := sy_sensors en @ [s]\<rparr>"

definition force_async :: "string \<Rightarrow> engine \<Rightarrow> engine" where
  "force_async name en = (case search_sensor name en of None \<Rightarrow> en | Some i \<Rightarrow> make_async i en)"

definition base_paths :: "string list" where
  "base_paths = [''/sys/devices/platform/'', ''/sys/class/hwmon/'']"

text \<open>The directories of the \<^verbatim>\<open>coretemp\<close> driver, and the temperature attributes of one.\<close>

definition is_coretemp :: "menv \<Rightarrow> string \<Rightarrow> string \<Rightarrow> bool" where
  "is_coretemp e base name \<longleftrightarrow>
     (take 9 name = ''coretemp.'' \<or> take 5 name = ''hwmon'') \<and> sysfs_exists e (base @ name @ ''/name'')
     \<and> (case sysfs_read_str e (base @ name @ ''/name'') [] of (r, s) \<Rightarrow> 0 \<le> r \<and> s = ''coretemp'')"

definition is_input :: "string \<Rightarrow> bool" where
  "is_input name \<longleftrightarrow> 6 \<le> length name \<and> drop (length name - 6) name = ''_input'' \<and> take 4 name = ''temp''"

text \<open>The next index and the engine; \<open>Inl\<close> when a sensor cannot be read, which ends the function.\<close>

fun add_inputs :: "string \<Rightarrow> string list \<Rightarrow> int \<times> engine \<Rightarrow> engine + int \<times> engine" where
  "add_inputs dir [] (ix, en) = Inr (ix, en)"
| "add_inputs dir (name # names) (ix, en) =
     (if is_input name
      then case sensor_update (sy_env en) (cthd_sensor ix (dir @ name) ''hwmon'' SENSOR_TYPE_RAW) of (r, s) \<Rightarrow>
        if r \<noteq> THD_SUCCESS then Inl en else add_inputs dir names (ix + 1, add_sensor s en)
      else add_inputs dir names (ix, en))"

fun add_core_dirs :: "machine \<Rightarrow> string \<Rightarrow> string list \<Rightarrow> int \<times> engine \<Rightarrow> engine + int \<times> engine" where
  "add_core_dirs m base [] st = Inr st"
| "add_core_dirs m base (name # names) st =
     (if is_coretemp (sy_env (snd st)) base name
      then case add_inputs (base @ name @ ''/'') (dir_entries m (base @ name @ ''/'')) st of
             Inl en \<Rightarrow> Inl en | Inr st' \<Rightarrow> add_core_dirs m base names st'
      else add_core_dirs m base names st)"

fun add_core_sensors :: "machine \<Rightarrow> string list \<Rightarrow> int \<times> engine \<Rightarrow> engine + int \<times> engine" where
  "add_core_sensors m [] st = Inr st"
| "add_core_sensors m (base # bases) st =
     (case add_core_dirs m base (dir_entries m base) st of
        Inl en \<Rightarrow> Inl en
      | Inr (ix, en) \<Rightarrow>
          if ix \<noteq> en_current_sensor_index en then Inr (ix, en) else add_core_sensors m bases (ix, en))"

definition add_rapl_power :: "int \<times> engine \<Rightarrow> int \<times> engine" where
  "add_rapl_power st =
     (case sensor_update (sy_env (snd st)) (cthd_sensor_rapl_power (fst st)) of (r, s) \<Rightarrow>
        if r = THD_SUCCESS then (fst st + 1, add_sensor s (snd st)) else st)"

text \<open>Sensors of the configuration: a known one is changed, a new one is added.\<close>

definition reconfigure_sensor :: "sensor_conf \<Rightarrow> sensor \<Rightarrow> sensor" where
  "reconfigure_sensor c s =
     (let s1 = (if bit (sc_mask c) 0 then sensor_update_path (sc_path c) s else s)
      in if bit (sc_mask c) 1 then set_async_capable (sc_async_capable c) s1 else s1)"

fun add_targets :: "sensor_target list \<Rightarrow> virtual_sensor \<Rightarrow> int \<times> engine \<Rightarrow> virtual_sensor \<times> int \<times> engine" where
  "add_targets [] v st = (v, st)"
| "add_targets (t # ts) v st =
     (let st' = (if tg_power_sensor t \<noteq> 0 \<and> search_sensor ''rapl_pkg_power'' (snd st) = None
                 then add_rapl_power st else st)
      in add_targets ts (virtual_add_target (tg_name t) (tg_coeff t) (tg_offset t) (tg_power_sensor t) (snd st') v) st')"

definition with_virtual :: "(virtual_sensor \<Rightarrow> virtual_sensor) \<Rightarrow> sensor \<Rightarrow> sensor" where
  "with_virtual f s = (case sn_kind s of Virtual_sensor v \<Rightarrow> s\<lparr>sn_kind := Virtual_sensor (f v)\<rparr> | _ \<Rightarrow> s)"

definition new_virtual :: "machine \<Rightarrow> sensor_conf \<Rightarrow> int \<times> engine \<Rightarrow> sensor \<times> int \<times> engine" where
  "new_virtual m c st =
     (if sc_link_sensors c \<noteq> []
      then
        (let s0 = cthd_sensor_virtual (ma_junk m) (fst st) (sc_name c) [] 0 0 (snd st)
         in case sn_kind s0 of
              Virtual_sensor v \<Rightarrow>
                (case add_targets (sc_link_sensors c) v st of (v', st') \<Rightarrow> (s0\<lparr>sn_kind := Virtual_sensor v'\<rparr>, st'))
            | _ \<Rightarrow> (s0, st))
      else (cthd_sensor_virtual (ma_junk m) (fst st) (sc_name c) (sc_link_name c) (sc_link_multiplier c)
              (sc_link_offset c) (snd st), st))"

definition set_polling_table :: "polling_table_entry list \<Rightarrow> virtual_sensor \<Rightarrow> virtual_sensor" where
  "set_polling_table tab v = v\<lparr>vs_polling_table := vs_polling_table v @ tab\<rparr>"

definition add_conf_sensor :: "machine \<Rightarrow> sensor_conf \<Rightarrow> int \<times> engine \<Rightarrow> int \<times> engine" where
  "add_conf_sensor m c st =
     (case search_sensor (sc_name c) (snd st) of
        Some i \<Rightarrow> (fst st, replace_sensor i (reconfigure_sensor c (sy_sensors (snd st) ! i)) (snd st))
      | None \<Rightarrow>
          (if sc_virtual_sensor c
           then case new_virtual m c st of (s, st') \<Rightarrow>
             (fst st' + 1, add_sensor (with_virtual (set_polling_table (sc_polling_table c)) s) (snd st'))
           else if \<not> starts_with (sc_path c) ''/sys/'' then st
           else case sensor_update (sy_env (snd st)) (cthd_sensor (fst st) (sc_path c) (sc_name c) SENSOR_TYPE_RAW) of
             (r, s) \<Rightarrow> if r \<noteq> THD_SUCCESS then st else (fst st + 1, add_sensor s (snd st))))"

definition conf_list :: "machine \<Rightarrow> (thermal_info \<Rightarrow> 'b list) \<Rightarrow> 'b list" where
  "conf_list m f = (case ma_conf m of None \<Rightarrow> [] | Some ti \<Rightarrow> f ti)"

definition read_thermal_sensors :: "machine \<Rightarrow> engine \<Rightarrow> int \<times> engine" where
  "read_thermal_sensors m en0 =
     (let en = fold force_async [''pkg-temp-0'', ''x86_pkg_temp'', ''soc_dts0'']
                 (thd_read_default_thermal_sensors (machine_host m) en0)
      in case add_core_sensors m base_paths (en_current_sensor_index en, en) of
           Inl en1 \<Rightarrow> (THD_ERROR, en1)
         | Inr st1 \<Rightarrow>
             (let st2 = (if ma_debug_mode m then add_rapl_power st1 else st1);
                  en2 = (snd st2)\<lparr>en_current_sensor_index := fst st2\<rparr>;
                  st3 = fold (add_conf_sensor m) (conf_list m ti_sensors) (fst st2, en2)
              in (THD_SUCCESS, (snd st3)\<lparr>en_current_sensor_index := fst st3\<rparr>)))"

section \<open>Cooling devices\<close>

definition push_cdev :: "cdev \<Rightarrow> engine \<Rightarrow> engine" where
  "push_cdev c en = en\<lparr>sy_cdevs := sy_cdevs en @ [c], en_current_cdev_index := en_current_cdev_index en + 1\<rparr>"

definition add_updated :: "int \<times> cdev \<Rightarrow> engine \<Rightarrow> engine" where
  "add_updated rc en = (if fst rc = THD_SUCCESS then push_cdev (snd rc) en else en)"

text \<open>A value of the configuration, in units or as a percentage of the current state.\<close>

definition conf_value :: "menv \<Rightarrow> bool \<Rightarrow> int \<Rightarrow> cdev \<Rightarrow> int \<times> cdev" where
  "conf_value e percent v c =
     (if percent then (case get_curr_state e c of (s, c') \<Rightarrow> ((s * v) sdiv 100, c')) else (v, c))"

definition when_bit :: "cooling_dev \<Rightarrow> nat \<Rightarrow> (cdev \<Rightarrow> cdev) \<Rightarrow> cdev \<Rightarrow> cdev" where
  "when_bit cfg k f c = (if bit (cc_mask cfg) k then f c else c)"

definition set_conf_value :: "menv \<Rightarrow> bool \<Rightarrow> (int \<Rightarrow> cdev \<Rightarrow> cdev) \<Rightarrow> int \<Rightarrow> cdev \<Rightarrow> cdev" where
  "set_conf_value e percent f v c = (case conf_value e percent v c of (x, c') \<Rightarrow> f x c')"

definition configure_cdev :: "menv \<Rightarrow> cooling_dev \<Rightarrow> cdev \<Rightarrow> cdev" where
  "configure_cdev e cfg c0 =
     (let percent = bit (cc_mask cfg) 7 \<and> cc_unit_val cfg = RELATIVE_PERCENTAGES;
          c1 = when_bit cfg 4 (\<lambda>c. c\<lparr>cd_auto_down_adjust := cc_auto_down_control cfg\<rparr>) c0;
          c2 = when_bit cfg 2 (set_conf_value e percent set_inc_dec_value (cc_inc_dec_step cfg)) c1;
          c3 = when_bit cfg 0 (set_conf_value e percent thd_cdev_set_min_state_param (cc_min_state cfg)) c2;
          c4 = when_bit cfg 1 (set_conf_value e percent (\<lambda>v c. c\<lparr>cd_max_state := v\<rparr>) (cc_max_state cfg)) c3;
          c5 = when_bit cfg 3 (\<lambda>c. c\<lparr>cd_read_back := cc_read_back cfg\<rparr>) c4;
          c6 = when_bit cfg 8 (\<lambda>c. c\<lparr>cd_debounce_interval := cc_debounce_interval cfg\<rparr>) c5;
          c7 = when_bit cfg 9 (\<lambda>c. cdev_set_pid_param (cc_kp cfg) (cc_ki cfg) (cc_kd cfg) (c\<lparr>cd_pid_enable := True\<rparr>)) c6
      in when_bit cfg 10 (\<lambda>c. c\<lparr>cd_write_prefix := cc_write_prefix cfg\<rparr>) c7)"

text \<open>A device of the same type with the same path is configured, otherwise a new one is added.\<close>

definition add_replace_cdev :: "cooling_dev \<Rightarrow> engine \<Rightarrow> int \<times> engine" where
  "add_replace_cdev cfg en =
     (case (case search_cdev (cc_type_string cfg) en of None \<Rightarrow> None
            | Some i \<Rightarrow> if cc_path_str cfg \<noteq> [] \<and> cc_path_str cfg \<noteq> cd_base_path (cdev_at en i) then None else Some i) of
        Some i \<Rightarrow> (THD_SUCCESS, put_cdev i (configure_cdev (sy_env en) cfg (cdev_at en i)) en)
      | None \<Rightarrow>
          (case gen_sysfs_update (sy_env en)
                  ((cthd_cdev (en_current_cdev_index en) (cc_path_str cfg) Drv_gen_sysfs)\<lparr>cd_type_str := cc_type_string cfg\<rparr>) of
             (r, c) \<Rightarrow>
               if r \<noteq> THD_SUCCESS then (THD_ERROR, en)
               else (THD_SUCCESS, push_cdev (configure_cdev (sy_env en) cfg c) en)))"

definition static_cdev :: "string \<Rightarrow> int \<Rightarrow> cooling_dev" where
  "static_cdev name mx =
     \<lparr>cc_status = True, cc_mask = 0x8d, cc_index = 0, cc_unit_val = ABSOULUTE_VALUE, cc_min_state = 0, cc_max_state = mx, cc_inc_dec_step = 5,
      cc_read_back = False, cc_auto_down_control = False, cc_type_string = name, cc_path_str = [],
      cc_debounce_interval = 4, cc_pid_enable = False, cc_kp = 0, cc_ki = 0, cc_kd = 0, cc_write_prefix = []\<rparr>"

definition cpu_def_cooling_devices :: "cooling_dev list" where
  "cpu_def_cooling_devices = [static_cdev ''intel_powerclamp'' 0, static_cdev ''LCD'' 100]"

text \<open>\<^verbatim>\<open>get_ppcc_param\<close>.\<close>

definition get_ppcc_param :: "machine \<Rightarrow> string \<Rightarrow> ppcc option" where
  "get_ppcc_param m name =
     (if name \<noteq> ''TCPU.D0'' then None
      else case ma_conf m of None \<Rightarrow> None
      | Some ti \<Rightarrow> if pc_valid (ti_ppcc ti) \<noteq> 0 then Some (ti_ppcc ti) else None)"

text \<open>The virtual method.\<close>

definition engine_ppcc :: "machine \<Rightarrow> string \<Rightarrow> ppcc option" where
  "engine_ppcc m = (case ma_vault_ppcc m of None \<Rightarrow> get_ppcc_param m | Some f \<Rightarrow> f)"

definition update_rapl :: "machine \<Rightarrow> menv \<Rightarrow> cdev \<Rightarrow> int \<times> menv \<times> cdev" where
  "update_rapl m e c =
     (case cd_driver c of Drv_rapl r \<Rightarrow> rapl_update (engine_ppcc m (rp_device_name r)) e r c | _ \<Rightarrow> (THD_ERROR, e, c))"

definition add_rapl :: "machine \<Rightarrow> engine \<Rightarrow> nat option \<times> engine" where
  "add_rapl m en =
     (let c = (cthd_sysfs_cdev_rapl (en_current_cdev_index en) ''/sys/devices/virtual/powercap/intel-rapl/intel-rapl:0/'')
                \<lparr>cd_type_str := ''rapl_controller'', cd_alias_str := ''B0D4''\<rparr>
      in case update_rapl m (sy_env en) c of (r, e, c') \<Rightarrow>
           if r = THD_SUCCESS then (Some (length (sy_cdevs en)), push_cdev c' (set_env e en)) else (None, set_env e en))"

text \<open>The MMIO interface is preferred: it takes the alias, and the MSR interface is opened wide in
  adaptive mode.\<close>

definition release_msr :: "machine \<Rightarrow> nat \<Rightarrow> engine \<Rightarrow> engine" where
  "release_msr m i en =
     (let c = (cdev_at en i)\<lparr>cd_alias_str := []\<rparr>;
          target = \<lparr>at_target_id = 0, at_name = [], at_participant = [], at_domain = 0, at_code = ''PL1MAX'',
                    at_argument = ''200000''\<rparr>
      in if ma_adaptive_mode m
         then (case cdev_set_adaptive_target (sy_env en) c target of None \<Rightarrow> put_cdev i c en
               | Some (e, c') \<Rightarrow> put_cdev i c' (set_env e en))
         else put_cdev i c en)"

definition add_rapl_mmio :: "machine \<Rightarrow> nat option \<Rightarrow> engine \<Rightarrow> engine" where
  "add_rapl_mmio m msr en =
     (if ma_disable_active_power m \<or> ma_conf m = None \<and> \<not> ma_force_mmio_rapl m then en
      else case update_rapl m (sy_env en)
                  ((cthd_sysfs_cdev_rapl (en_current_cdev_index en) rapl_mmio_path)\<lparr>cd_type_str := ''rapl_controller_mmio''\<rparr>) of
        (r, e, c) \<Rightarrow>
          if r \<noteq> THD_SUCCESS then set_env e en
          else push_cdev (c\<lparr>cd_alias_str := ''B0D4''\<rparr>)
                 (case msr of None \<Rightarrow> set_env e en | Some i \<Rightarrow> release_msr m i (set_env e en)))"

definition add_pstate :: "engine \<Rightarrow> engine" where
  "add_pstate en =
     (let c = (cthd_intel_p_state_cdev (en_current_cdev_index en))\<lparr>cd_type_str := ''intel_pstate''\<rparr>
      in case cd_driver c of Drv_pstate s \<Rightarrow> add_updated (pstate_update (sy_env en) s c) en | _ \<Rightarrow> en)"

definition add_cpufreq :: "machine \<Rightarrow> engine \<Rightarrow> engine" where
  "add_cpufreq m en =
     (let c = (cthd_cdev_cpufreq (en_current_cdev_index en) (-1))\<lparr>cd_type_str := ''cpufreq''\<rparr>
      in case cd_driver c of Drv_cpufreq f \<Rightarrow> add_updated (cpufreq_init (ma_junk m) (sy_env en) f c) en | _ \<Rightarrow> en)"

definition add_rapl_dram :: "machine \<Rightarrow> engine \<Rightarrow> engine" where
  "add_rapl_dram m en =
     (let c = (cthd_sysfs_cdev_rapl_dram (en_current_cdev_index en))\<lparr>cd_type_str := ''rapl_controller_dram''\<rparr>
      in case cd_driver c of
           Drv_rapl r \<Rightarrow>
             (case rapl_dram_update (ma_dir m rapl_dram_base) (engine_ppcc m (rp_device_name r)) (sy_env en) r c of
                (ret, e, c') \<Rightarrow> add_updated (ret, c') (set_env e en))
         | _ \<Rightarrow> en)"

definition add_backlight :: "engine \<Rightarrow> engine" where
  "add_backlight en =
     (if search_cdev ''LCD'' en \<noteq> None then en
      else
        (let c = (cthd_cdev_backlight (sy_env en) (en_current_cdev_index en))\<lparr>cd_type_str := ''LCD''\<rparr>
         in case cd_driver c of Drv_backlight b \<Rightarrow> add_updated (backlight_update (sy_env en) b c) en | _ \<Rightarrow> en))"

definition read_cooling_devices :: "machine \<Rightarrow> engine \<Rightarrow> int \<times> engine" where
  "read_cooling_devices m en =
     (case add_rapl m (thd_read_default_cooling_devices (machine_host m) en) of (msr, en1) \<Rightarrow>
        (let en2 = add_pstate (add_rapl_mmio m msr en1);
             en3 = fold (\<lambda>c en. snd (add_replace_cdev c en)) cpu_def_cooling_devices en2;
             en4 = add_backlight (add_rapl_dram m (add_cpufreq m en3))
         in (THD_SUCCESS, fold (\<lambda>c en. snd (add_replace_cdev c en)) (conf_list m ti_cooling_devs) en4)))"

section \<open>Zones\<close>

text \<open>The lines that \<^verbatim>\<open>std::getline\<close> gives.\<close>

fun split_lines :: "string \<Rightarrow> string \<Rightarrow> string list" where
  "split_lines acc [] = (if acc = [] then [] else [rev acc])"
| "split_lines acc (c # cs) = (if c = CHR 0x0A then rev acc # split_lines [] cs else split_lines (c # acc) cs)"

definition text_lines :: "string \<Rightarrow> string list" where
  "text_lines s = split_lines [] s"

definition match_supported_uuid :: "machine \<Rightarrow> menv \<Rightarrow> bool" where
  "match_supported_uuid m e \<longleftrightarrow>
     ho_int3400 m \<noteq> [] \<and>
     (case e_files e (ho_int3400 m @ ''uuids/'' @ ''available_uuids'') of
        Some (Text s) \<Rightarrow> ho_uuid m \<in> set (text_lines s) | _ \<Rightarrow> False)"

definition put_zone :: "nat \<Rightarrow> zone \<Rightarrow> engine \<Rightarrow> engine" where
  "put_zone i z en = en\<lparr>en_zones := (en_zones en)[i := z]\<rparr>"

definition processor_zone :: "machine \<Rightarrow> engine \<Rightarrow> nat option" where
  "processor_zone m en =
     (case (if match_supported_uuid m (sy_env en) then search_zone ''B0D4'' en else None) of
        Some i \<Rightarrow> Some i
      | None \<Rightarrow> (case search_zone ''B0DB'' en of Some i \<Rightarrow> Some i | None \<Rightarrow> search_zone ''TCPU'' en))"

definition acpi_critical :: "engine \<Rightarrow> u32" where
  "acpi_critical en =
     (case search_zone ''acpitz'' en of None \<Rightarrow> 0
      | Some i \<Rightarrow>
          (case List.find (\<lambda>t. tp_type t = CRITICAL) (zn_trip_points (en_zones en ! i)) of
             None \<Rightarrow> 0 | Some t \<Rightarrow> tp_temp t))"

definition bind_processor :: "engine \<Rightarrow> string \<Rightarrow> zone \<Rightarrow> zone" where
  "bind_processor en name z =
     (case search_cdev name en of None \<Rightarrow> z
      | Some ref \<Rightarrow> snd (bind_cooling_device en PASSIVE 0 ref 0 0 0 0 0 0 0 z))"

definition processor_thermal_min_passive :: u32 where "processor_thermal_min_passive = 90000"

text \<open>The processor zone of the INT340x driver stands for the CPU zone when it has a passive trip
  above 90 degrees. That trip is lowered when the critical temperature of ACPI is near.\<close>

definition add_int340x_processor_dev :: "machine \<Rightarrow> engine \<Rightarrow> bool \<times> engine" where
  "add_int340x_processor_dev m en =
     (if ma_ignore_default_control m then (False, en)
      else case processor_zone m en of None \<Rightarrow> (False, en)
      | Some i \<Rightarrow>
          (case find_index (\<lambda>t. tp_type t = PASSIVE \<and> processor_thermal_min_passive < tp_temp t)
                  (zn_trip_points (en_zones en ! i)) of
             None \<Rightarrow> (False, en)
           | Some k \<Rightarrow>
               (let z = en_zones en ! i; t = zn_trip_points z ! k; crit = acpi_critical en;
                    z1 = (if crit \<noteq> 0 \<and> crit \<le> tp_temp t + 5000
                          then z\<lparr>zn_trip_points := (zn_trip_points z)[k := t\<lparr>tp_temp := crit - 15000\<rparr>]\<rparr> else z)
                in case set_zone_active z1 en of (z2, en1) \<Rightarrow>
                     (True, put_zone i (fold (bind_processor en1)
                        [''rapl_controller'', ''intel_pstate'', ''intel_powerclamp'', ''Processor''] z2) en1))))"

text \<open>The CPU zones of the \<^verbatim>\<open>coretemp\<close> directories; the second place is tried when the first
  has none.\<close>

definition new_zone :: "site \<Rightarrow> zone \<Rightarrow> int \<times> engine \<Rightarrow> bool \<times> int \<times> engine" where
  "new_zone si z0 st =
     (case zone_update si z0 (snd st) of (r, z, en1) \<Rightarrow>
        if r = THD_SUCCESS
        then (case set_zone_active z en1 of (z', en2) \<Rightarrow> (True, fst st + 1, en2\<lparr>en_zones := en_zones en2 @ [z']\<rparr>))
        else (False, fst st, zone_destroy z en1))"

fun add_cpu_zones :: "machine \<Rightarrow> string \<Rightarrow> string list \<Rightarrow> bool \<times> int \<times> engine \<Rightarrow> bool \<times> int \<times> engine" where
  "add_cpu_zones m base [] st = st"
| "add_cpu_zones m base (name # names) (f, ix, en) =
     (if is_coretemp (sy_env en) base name
      then case new_zone (machine_site m) (cthd_zone_cpu ix (base @ name @ ''/'')) (ix, en) of (g, st') \<Rightarrow>
        add_cpu_zones m base names (f \<or> g, st')
      else add_cpu_zones m base names (f, ix, en))"

fun create_cpu_zone :: "machine \<Rightarrow> string list \<Rightarrow> int \<times> engine \<Rightarrow> int \<times> engine" where
  "create_cpu_zone m [] st = st"
| "create_cpu_zone m (base # bases) st =
     (case add_cpu_zones m base (dir_entries m base) (False, st) of (f, st') \<Rightarrow>
        if f then st' else create_cpu_zone m bases st')"

text \<open>A trip of the configuration for a zone that exists: with an unknown sensor only its temperature
  is changed; otherwise the trip is added, or, without a temperature, its devices are bound to a
  trip of its type. The flag says whether the zone is to be activated.\<close>

definition conf_point :: "zone \<Rightarrow> int \<Rightarrow> trip_conf \<Rightarrow> trip_point" where
  "conf_point z sensor x =
     cthd_trip_point (int (length (zn_trip_points z))) (xt_trip_pt_type x) (word_of_int (xt_temperature x))
       (word_of_int (xt_hyst x)) (zn_index z) sensor (xt_control_type x)"

fun add_conf_cdevs :: "'a sys_scheme \<Rightarrow> trip_cdev_conf list \<Rightarrow> bool \<times> trip_point \<Rightarrow> bool \<times> trip_point" where
  "add_conf_cdevs st [] bt = bt"
| "add_conf_cdevs st (x # xs) bt =
     (case search_cdev (xc_type x) st of None \<Rightarrow> add_conf_cdevs st xs bt
      | Some ref \<Rightarrow> add_conf_cdevs st xs
          (True, thd_trip_point_add_cdev st ref (xc_influence x) (xc_sampling_period x) (xc_target_state_valid x)
             (xc_target_state x) (Some (xc_pid_param x)) (xc_min_max_valid x) (xc_target_min_state x)
             (xc_target_max_state x) (snd bt)))"

fun bind_conf_zone :: "'a sys_scheme \<Rightarrow> trip_point_type \<Rightarrow> trip_cdev_conf list \<Rightarrow> bool \<times> zone \<Rightarrow> bool \<times> zone" where
  "bind_conf_zone st ty [] bz = bz"
| "bind_conf_zone st ty (x # xs) bz =
     (case search_cdev (xc_type x) st of None \<Rightarrow> bind_conf_zone st ty xs bz
      | Some ref \<Rightarrow>
          (case bind_cooling_device st ty 0 ref (xc_influence x) (xc_sampling_period x) (xc_target_state_valid x)
                  (xc_target_state x) (xc_min_max_valid x) (xc_target_min_state x) (xc_target_max_state x) (snd bz) of
             (r, z) \<Rightarrow> bind_conf_zone st ty xs (fst bz \<or> r = THD_SUCCESS, z)))"

definition conf_existing_trip :: "trip_conf \<Rightarrow> bool \<times> zone \<times> engine \<Rightarrow> bool \<times> zone \<times> engine" where
  "conf_existing_trip x st =
     (case st of (b, z, en) \<Rightarrow>
        (case search_sensor (xt_sensor_type x) en of
           None \<Rightarrow> (if xt_temperature x = 0 then (b, z, en)
                   else case update_trip_temp (conf_point z (-1) x) z en of (z', en') \<Rightarrow> (b, z', en'))
         | Some k \<Rightarrow>
             (let z1 = bind_sensor k z
              in if xt_temperature x \<noteq> 0
                 then
                   (let t0 = conf_point z1 (sensor_index k en) x;
                        t1 = (case xt_dependency x of None \<Rightarrow> t0 | Some (c, s) \<Rightarrow> set_dependency en c s t0);
                        (bound, t2) = add_conf_cdevs en (xt_cdev_trips x) (False, t1);
                        z2 = z1\<lparr>zn_cdev_binded_status := zn_cdev_binded_status z1 \<or> bound\<rparr>
                    in case add_trip t2 0 z2 en of (z', en') \<Rightarrow> (b \<or> bound, z', en'))
                 else
                   (case bind_conf_zone en (xt_trip_pt_type x) (xt_cdev_trips x) (b, z1) of
                      (b', z') \<Rightarrow> (b', z', en)))))"

definition deactivate_named :: "string \<Rightarrow> engine \<Rightarrow> engine" where
  "deactivate_named name en =
     (case search_zone name en of None \<Rightarrow> en
      | Some i \<Rightarrow> (case set_zone_inactive (en_zones en ! i) en of (z, en') \<Rightarrow> put_zone i z en'))"

definition disable_cpu_zone :: "machine \<Rightarrow> zone_conf \<Rightarrow> engine \<Rightarrow> engine" where
  "disable_cpu_zone m zc en =
     (if ma_auto_config m then deactivate_named ''cpu'' en
      else case search_zone (zc_type zc) en of None \<Rightarrow> en
      | Some i \<Rightarrow>
          (if \<not> zn_active (en_zones en ! i) then en
           else fold (\<lambda>x en. case search_sensor (xt_sensor_type x) en of None \<Rightarrow> en
                        | Some k \<Rightarrow> if sn_type_str (sy_sensors en ! k) = ''B0D4'' then deactivate_named ''cpu'' en else en)
                  (zc_trip_pts zc) en))"

definition add_conf_zone :: "machine \<Rightarrow> zone_conf \<Rightarrow> int \<times> engine \<Rightarrow> int \<times> engine" where
  "add_conf_zone m zc st =
     (let st' =
        (case search_zone (zc_type zc) (snd st) of
           Some i \<Rightarrow>
             (case fold conf_existing_trip (zc_trip_pts zc) (False, en_zones (snd st) ! i, snd st) of (b, z, en) \<Rightarrow>
                (case (if b then set_zone_active z en else (z, en)) of (z', en') \<Rightarrow> (fst st, put_zone i z' en')))
         | None \<Rightarrow>
             snd (new_zone (machine_site m) (cthd_zone_generic (fst st) (Some (zc_trip_pts zc)) (zc_type zc)) st))
      in (fst st', disable_cpu_zone m zc (snd st')))"

definition read_thermal_zones :: "machine \<Rightarrow> engine \<Rightarrow> int \<times> engine" where
  "read_thermal_zones m en0 =
     (case add_int340x_processor_dev m (thd_read_default_thermal_zones (machine_site m) (machine_host m) en0) of
        (valid_int340x, en1) \<Rightarrow>
          (let st1 = (en_current_zone_index en1, en1);
               st2 = (if \<not> ma_ignore_default_control m \<and> \<not> valid_int340x \<and> search_zone ''cpu'' en1 = None
                      then create_cpu_zone m base_paths st1 else st1);
               st3 = fold (add_conf_zone m) (conf_list m ti_zones) (fst st2, (snd st2)\<lparr>en_current_zone_index := fst st2\<rparr>);
               st4 = (if ma_debug_mode m
                      then snd (new_zone (machine_site m) (cthd_zone_rapl_power (fst st3)) st3) else st3);
               en4 = (snd st4)\<lparr>en_current_zone_index := fst st4\<rparr>
           in (if en_zones en4 = [] then THD_FATAL_ERROR else THD_SUCCESS, en4)))"

section \<open>Workarounds\<close>

definition tcc_offset_path :: string where
  "tcc_offset_path = ''/sys/bus/pci/devices/0000:00:04.0/tcc_offset_degree_celsius''"

definition workaround_tcc_offset :: "machine \<Rightarrow> engine \<Rightarrow> engine" where
  "workaround_tcc_offset m en =
     (let e = sy_env en; done = en\<lparr>en_tcc_offset_checked := 1, en_tcc_offset_low := 1\<rparr>
      in if en_tcc_offset_checked en \<noteq> 0 \<and> en_tcc_offset_low en \<noteq> 0 then en
         else if ma_conf m = None \<or> \<not> sysfs_exists e tcc_offset_path then done
         else case sysfs_read_int e tcc_offset_path (ma_junk m) of (ret, tcc) \<Rightarrow>
           if ret \<le> 0 then done
           else if 10 < tcc
           then (case sysfs_write_uint e tcc_offset_path 5 of (r, e') \<Rightarrow>
                   (set_env e' en)\<lparr>en_tcc_offset_low := (if r < 0 then 1 else en_tcc_offset_low en),
                                   en_tcc_offset_checked := 1\<rparr>)
           else if en_tcc_offset_checked en = 0 then done else en\<lparr>en_tcc_offset_checked := 1\<rparr>)"

definition workarounds :: "machine \<Rightarrow> engine \<Rightarrow> engine" where
  "workarounds m en =
     (if \<not> ma_workaround_enabled m then en
      else if \<not> ma_disable_active_power m \<and> en_workaround_interval en = 0
      then
        (case workaround_rapl_mmio_power (ma_workaround_enabled m) (create_platform (ma_uname m)) (ma_cpuid m) en
                (en_power_limit_reg en) of
           (reg, en1) \<Rightarrow> (workaround_tcc_offset m (en1\<lparr>en_power_limit_reg := reg\<rparr>))\<lparr>en_workaround_interval := 7\<rparr>)
      else en\<lparr>en_workaround_interval := en_workaround_interval en - 1\<rparr>)"

definition default_engine :: "machine \<Rightarrow> int \<Rightarrow> int \<Rightarrow> engine_class" where
  "default_engine m poll_timeout_sec interval =
     \<lparr>vm_read_thermal_zones = read_thermal_zones m, vm_update_engine_state = (\<lambda>en. en),
      vm_workarounds = workarounds m, vm_poll_timeout_sec = poll_timeout_sec, vm_thd_poll_interval = interval\<rparr>"

text \<open>Creating the engine: \<open>exclusive\<close> and \<open>poll_interval\<close> are options of the command line; \<open>out\<close>
  holds what the calls of \<^verbatim>\<open>thd_engine_start\<close> to the system give.\<close>

definition conf_start :: "machine \<Rightarrow> (int \<times> int) option" where
  "conf_start m = map_option (\<lambda>ti. (ti_default_preference ti, ti_polling_interval ti)) (ma_conf m)"

definition thd_engine_create_default_engine ::
    "bool \<Rightarrow> bool \<Rightarrow> bool \<Rightarrow> int \<Rightarrow> (int \<times> bool \<times> int) \<Rightarrow> disk \<Rightarrow> machine \<Rightarrow> engine \<Rightarrow> int \<times> engine" where
  "thd_engine_create_default_engine ignore_cpuid exclusive power_floor poll_interval out d m en0 =
     (let en = (if exclusive then en0\<lparr>en_control_mode := EXCLUSIVE\<rparr> else en0)\<lparr>sy_poll_interval_sec := poll_interval\<rparr>
      in case thd_engine_init ignore_cpuid (check_cpu_id (create_platform (ma_uname m)) (ma_cpuid m) (sy_env en))
                (ma_conf m \<noteq> None) power_floor (machine_site m) (read_thermal_sensors m) (read_cooling_devices m)
                (read_thermal_zones m) en of
           (r, en1) \<Rightarrow>
             if r \<noteq> THD_SUCCESS then (r, en1)
             else case out of (pipe_ret, fcntl_ok, thread_ret) \<Rightarrow>
               thd_engine_start pipe_ret fcntl_ok thread_ret d (conf_start m) (machine_host m) en1)"

end
