(* ===== verification/Thd_GddvCond.thy ===== *)
theory Thd_GddvCond
  imports Thd_Gddv Thd_Zone
begin

text \<open>
  The adaptive conditions, \<^verbatim>\<open>thd_gddv.cpp\<close>: which conditions are supported, how one is compared
  with what is observed, time conditions, condition sets and the choice of the target; the tables
  a target names. A reading of a sensor needs fuel, and running out of it is the fault
  \<open>Out_of_fuel\<close>. \<^verbatim>\<open>conditions[i][0]\<close> of an empty set is outside of the vector, \<open>Out_of_bounds\<close>.
\<close>

section \<open>Codes\<close>

text \<open>The values of \<^verbatim>\<open>enum adaptive_condition\<close> and \<^verbatim>\<open>enum adaptive_comparison\<close> that are used.\<close>

definition Default_cond :: int where "Default_cond = 1"
definition Motion :: int where "Motion = 4"
definition Workload :: int where "Workload = 6"
definition Power_source :: int where "Power_source = 8"
definition Lid_state :: int where "Lid_state = 10"
definition Platform_type :: int where "Platform_type = 11"
definition Temperature :: int where "Temperature = 17"
definition Oem0 :: int where "Oem0 = 19"
definition Oem5 :: int where "Oem5 = 24"
definition Temperature_without_hysteresis :: int where "Temperature_without_hysteresis = 48"
definition Power_slider :: int where "Power_slider = 56"
definition OS_type :: int where "OS_type = 86"

definition ADAPTIVE_EQUAL :: int where "ADAPTIVE_EQUAL = 1"
definition ADAPTIVE_LESSER_OR_EQUAL :: int where "ADAPTIVE_LESSER_OR_EQUAL = 2"
definition ADAPTIVE_GREATER_OR_EQUAL :: int where "ADAPTIVE_GREATER_OR_EQUAL = 3"
definition ADAPTIVE_NOT_EQUAL :: int where "ADAPTIVE_NOT_EQUAL = 4"

lemmas condition_codes = Default_cond_def Motion_def Workload_def Power_source_def Lid_state_def Platform_type_def
  Temperature_def Oem0_def Oem5_def Temperature_without_hysteresis_def Power_slider_def OS_type_def

lemmas comparison_codes = ADAPTIVE_EQUAL_def ADAPTIVE_LESSER_OR_EQUAL_def ADAPTIVE_GREATER_OR_EQUAL_def
  ADAPTIVE_NOT_EQUAL_def

section \<open>Supported conditions\<close>

definition is_oem :: "int \<Rightarrow> bool" where
  "is_oem k \<longleftrightarrow> Oem0 \<le> k \<and> k \<le> Oem5 \<or> 0x1000 \<le> k \<and> k < 0x10000"

definition is_temperature :: "int \<Rightarrow> bool" where
  "is_temperature k \<longleftrightarrow> k = Temperature \<or> k = Temperature_without_hysteresis \<or> k = 0"

definition verify_condition :: "gddv \<Rightarrow> condition \<Rightarrow> int" where
  "verify_condition g c =
     (let k = cn_condition c
      in if is_oem k then 0
         else if k = Default_cond then 0
         else if is_temperature k then 0
         else if k = Lid_state \<and> gd_lid_dev g then 0
         else if k = Power_source \<and> gd_upower_client g then 0
         else if k = Workload then 0
         else if k = Platform_type then 0
         else if k = Power_slider then 0
         else if k = OS_type then 0
         else THD_ERROR)"

definition verify_conditions :: "gddv \<Rightarrow> int" where
  "verify_conditions g =
     (if list_all (list_all (\<lambda>c. verify_condition g c = 0)) (gd_conditions g) then 0 else THD_ERROR)"

section \<open>Comparisons\<close>

definition compare_values :: "int \<Rightarrow> int \<Rightarrow> int \<Rightarrow> int" where
  "compare_values cmp value arg =
     (if cmp = ADAPTIVE_EQUAL then (if value = arg then THD_SUCCESS else THD_ERROR)
      else if cmp = ADAPTIVE_LESSER_OR_EQUAL then (if value \<le> arg then THD_SUCCESS else THD_ERROR)
      else if cmp = ADAPTIVE_GREATER_OR_EQUAL then (if arg \<le> value then THD_SUCCESS else THD_ERROR)
      else if cmp = ADAPTIVE_NOT_EQUAL then (if value \<noteq> arg then THD_SUCCESS else THD_ERROR)
      else THD_ERROR)"

definition compare_condition :: "condition \<Rightarrow> int \<Rightarrow> int" where
  "compare_condition c value = compare_values (cn_comparison c) value (cn_argument c)"

definition compare_time :: "int \<Rightarrow> condition \<Rightarrow> int" where
  "compare_time now c = compare_values (cn_time_comparison c) (s32 (now - cn_state_entry_time c)) (cn_time c)"

section \<open>One condition\<close>

text \<open>What the machine reports: the lid and tablet switches, whether it runs on battery, and the
  contents of the uninitialised variable an empty OEM attribute leaves.\<close>

record reports =
  ro_lid_closed :: bool
  ro_tablet_mode :: bool
  ro_on_battery :: bool
  ro_junk :: int

definition oem_number :: "int \<Rightarrow> int" where
  "oem_number k = (if Oem0 \<le> k \<and> k \<le> Oem5 then k - Oem0 else if 0x1000 \<le> k \<and> k < 0x10000 then k - 0x1000 + 6 else -1)"

definition evaluate_oem_condition :: "reports \<Rightarrow> 'a env_scheme \<Rightarrow> gddv \<Rightarrow> condition \<Rightarrow> int" where
  "evaluate_oem_condition ro e g c =
     (let oem = oem_number (cn_condition c)
      in if oem \<noteq> -1
         then (case sysfs_read_int e (gd_int3400_base_path g @ ''odvp'' @ show_int oem) (ro_junk ro) of (r, value) \<Rightarrow>
                 if r < 0 then THD_ERROR else compare_condition c value)
         else THD_ERROR)"

text \<open>The part after the last dot, all of a name without one.\<close>

definition after_last_dot :: "string \<Rightarrow> string" where
  "after_last_dot s = rev (takeWhile (\<lambda>c. c \<noteq> CHR ''.'') (rev s))"

text \<open>The condition is passed by value, so that \<^verbatim>\<open>ignore_condition\<close> is never set.\<close>

definition evaluate_temperature_condition ::
    "nat \<Rightarrow> condition \<Rightarrow> 'a sys_scheme \<Rightarrow> (int \<times> 'a sys_scheme) result" where
  "evaluate_temperature_condition n c st =
     (if cn_ignore_condition c \<noteq> 0 then Inr (THD_ERROR, st)
      else case search_sensor (after_last_dot (cn_device c)) st of None \<Rightarrow> Inr (THD_ERROR, st)
      | Some i \<Rightarrow>
          (case read_temperature n i st of None \<Rightarrow> Inl Out_of_fuel
           | Some (w, st') \<Rightarrow> Inr (compare_condition c (sint w sdiv 100 + 2732), st')))"

definition evaluate_lid_condition :: "reports \<Rightarrow> gddv \<Rightarrow> condition \<Rightarrow> int" where
  "evaluate_lid_condition ro g c = compare_condition c (if gd_lid_dev g \<and> \<not> ro_lid_closed ro then 1 else 0)"

definition evaluate_workload_condition :: "condition \<Rightarrow> int" where
  "evaluate_workload_condition c = compare_condition c 3"

definition evaluate_platform_type_condition :: "reports \<Rightarrow> gddv \<Rightarrow> condition \<Rightarrow> int" where
  "evaluate_platform_type_condition ro g c = compare_condition c (if gd_tablet_dev g \<and> ro_tablet_mode ro then 2 else 1)"

definition evaluate_power_slider_condition :: "gddv \<Rightarrow> condition \<Rightarrow> int" where
  "evaluate_power_slider_condition g c = compare_condition c (gd_power_slider g)"

definition evaluate_ac_condition :: "reports \<Rightarrow> condition \<Rightarrow> int" where
  "evaluate_ac_condition ro c = compare_condition c (if ro_on_battery ro then 1 else 0)"

definition evaluate_os_type_condition :: "condition \<Rightarrow> int" where
  "evaluate_os_type_condition c = compare_condition c 3"

text \<open>The tests of the code in their order; the codes are distinct, so at most one applies.\<close>

definition evaluate_code :: "reports \<Rightarrow> nat \<Rightarrow> gddv \<Rightarrow> condition \<Rightarrow> 'a sys_scheme \<Rightarrow> (int \<times> 'a sys_scheme) result" where
  "evaluate_code ro n g c st =
     (let k = cn_condition c
      in if k = OS_type then Inr (evaluate_os_type_condition c, st)
         else if is_oem k then Inr (evaluate_oem_condition ro (sy_env st) g c, st)
         else if is_temperature k then evaluate_temperature_condition n c st
         else if k = Lid_state then Inr (evaluate_lid_condition ro g c, st)
         else if k = Power_source then Inr (evaluate_ac_condition ro c, st)
         else if k = Workload then Inr (evaluate_workload_condition c, st)
         else if k = Platform_type then Inr (evaluate_platform_type_condition ro g c, st)
         else if k = Power_slider then Inr (evaluate_power_slider_condition g c, st)
         else if k = Motion then Inr (if cn_argument c = 0 then THD_SUCCESS else THD_ERROR, st)
         else Inr (THD_ERROR, st))"

text \<open>The time a condition has to hold; \<open>ret\<close> is the result so far.\<close>

definition evaluate_time :: "int \<Rightarrow> int \<Rightarrow> int \<Rightarrow> condition \<Rightarrow> int \<times> condition" where
  "evaluate_time now matched ret c =
     (if ret = 0
      then (if cn_target c = matched then (ret, c)
            else if cn_time c \<noteq> 0
            then (if cn_state_entry_time c = 0 then (THD_ERROR, c\<lparr>cn_state_entry_time := now\<rparr>)
                  else (let ret' = compare_time now c
                        in (ret', if ret' = 0 then c\<lparr>cn_state_entry_time := 0\<rparr> else c)))
            else (ret, c))
      else (ret, c\<lparr>cn_state_entry_time := 0\<rparr>))"

definition evaluate_condition ::
    "reports \<Rightarrow> nat \<Rightarrow> gddv \<Rightarrow> condition \<Rightarrow> 'a sys_scheme \<Rightarrow> (int \<times> condition \<times> 'a sys_scheme) result" where
  "evaluate_condition ro n g c st =
     (if cn_condition c = Default_cond then Inr (THD_SUCCESS, c, st)
      else bind_r (evaluate_code ro n g c st) (\<lambda>(ret, st').
        (case evaluate_time (e_now (sy_env st')) (gd_current_target_matched g) ret c of (ret', c') \<Rightarrow>
           Inr (ret', c', st'))))"

section \<open>Sets and targets\<close>

fun evaluate_condition_set ::
    "reports \<Rightarrow> nat \<Rightarrow> gddv \<Rightarrow> condition list \<Rightarrow> 'a sys_scheme \<Rightarrow> (int \<times> condition list \<times> 'a sys_scheme) result" where
  "evaluate_condition_set ro n g [] st = Inr (THD_SUCCESS, [], st)"
| "evaluate_condition_set ro n g (c # cs) st =
     bind_r (evaluate_condition ro n g c st) (\<lambda>(ret, c', st').
       if ret \<noteq> 0 then Inr (THD_ERROR, c' # cs, st')
       else bind_r (evaluate_condition_set ro n g cs st') (\<lambda>(ret', cs', st''). Inr (ret', c' # cs', st'')))"

text \<open>The loop over the sets: the target of the first one that holds, or -1.\<close>

fun evaluate_sets ::
    "reports \<Rightarrow> nat \<Rightarrow> gddv \<Rightarrow> condition list list \<Rightarrow> 'a sys_scheme
       \<Rightarrow> (int option \<times> condition list list \<times> 'a sys_scheme) result" where
  "evaluate_sets ro n g [] st = Inr (None, [], st)"
| "evaluate_sets ro n g (cs # css) st =
     bind_r (evaluate_condition_set ro n g cs st) (\<lambda>(ret, cs', st').
       if ret = THD_SUCCESS
       then (case cs' of [] \<Rightarrow> Inl Out_of_bounds | c # _ \<Rightarrow> Inr (Some (cn_target c), cs' # css, st'))
       else bind_r (evaluate_sets ro n g css st') (\<lambda>(t, css', st''). Inr (t, cs' # css', st'')))"

definition evaluate_conditions ::
    "reports \<Rightarrow> nat \<Rightarrow> gddv \<Rightarrow> 'a sys_scheme \<Rightarrow> (int \<times> gddv \<times> 'a sys_scheme) result" where
  "evaluate_conditions ro n g st =
     bind_r (evaluate_sets ro n g (gd_conditions g) st) (\<lambda>(t, css, st').
       (let g' = g\<lparr>gd_conditions := css\<rparr>
        in case t of None \<Rightarrow> Inr (-1, g', st')
           | Some target \<Rightarrow> Inr (target, g'\<lparr>gd_current_target_matched := target\<rparr>, st')))"

section \<open>The tables of a target\<close>

definition find_psvt :: "string \<Rightarrow> gddv \<Rightarrow> psvt option" where
  "find_psvt name g = List.find (\<lambda>p. thd_strcasecmp_n (Some (pv_name p)) (Some name) = 0) (gd_psvts g)"

text \<open>\<open>idsp\<close> is \<^verbatim>\<open>search_idsp\<close> of the engine.\<close>

definition itmt_supported :: "(string \<Rightarrow> int) \<Rightarrow> itmt \<Rightarrow> bool" where
  "itmt_supported idsp t \<longleftrightarrow>
     (if im_version t = 3 then idsp ''4215267F-F429-4776-9D84-D6C5992848A4'' = THD_SUCCESS
      else if im_version t < 3 then idsp ''6BD40D2D-98AA-A44B-1A92-D22BDE3117F1'' = THD_SUCCESS else True)"

definition find_itmt :: "(string \<Rightarrow> int) \<Rightarrow> string \<Rightarrow> gddv \<Rightarrow> itmt option" where
  "find_itmt idsp name g =
     List.find (\<lambda>t. itmt_supported idsp t \<and> thd_strcasecmp_n (Some (im_name t)) (Some name) = 0) (gd_itmts g)"

text \<open>The position of the target with the highest power limit, -1 for none.\<close>

definition is_power_target :: "adaptive_target \<Rightarrow> bool" where
  "is_power_target t \<longleftrightarrow> at_code t = ''PL1MAX'' \<or> at_code t = ''PL1PowerLimit''"

definition aggressive_step :: "adaptive_target \<times> nat \<Rightarrow> int \<times> int \<Rightarrow> int \<times> int" where
  "aggressive_step ti best =
     (case ti of (t, i) \<Rightarrow>
        if \<not> is_power_target t then best
        else case stoi (at_argument t) of None \<Rightarrow> best
        | Some a \<Rightarrow> (if fst best < a then (a, int i) else best))"

definition find_agressive_target :: "gddv \<Rightarrow> int" where
  "find_agressive_target g =
     snd (fold aggressive_step (zip (gd_targets g) [0..<length (gd_targets g)]) (0, -1))"

end
