(* ===== verification/Thd_Adaptive.thy ===== *)
theory Thd_Adaptive
  imports Thd_EngineDefault Thd_GddvVault Thd_GddvCond
begin

text \<open>
  The adaptive engine, \<^verbatim>\<open>thd_engine_adaptive.cpp\<close>: it reads the data vault, follows the condition
  sets of the platform and installs the passive tables (PSVT) and power tables (ITMT) of the target
  that matches as trips of the zones. The engine of the base class is one of its members here, and
  the vault (\<^verbatim>\<open>gddv\<close>) another.

  An operation ends with the new state (\<open>Inr\<close>), or the process stops (\<open>Inl\<close>): it calls
  \<^verbatim>\<open>exit\<close>, an exception is not caught, or a fault of the vault's tables occurs.
\<close>

section \<open>State\<close>

record adaptive =
  ad_engine :: engine
  ad_gddv :: gddv
  ad_policy_active :: int
  ad_fallback_id :: int
  ad_int3400_path :: string
  ad_int3400_base_path :: string
  ad_passive_def_only :: int
  ad_passive_def_processed :: int
  ad_power_slider :: int
  ad_int3400_installed :: int
  ad_current_matched_target :: int

definition cthd_engine_adaptive :: "engine \<Rightarrow> adaptive" where
  "cthd_engine_adaptive en =
     \<lparr>ad_engine = en, ad_gddv = cthd_gddv, ad_policy_active = 0, ad_fallback_id = -1, ad_int3400_path = [],
      ad_int3400_base_path = [], ad_passive_def_only = 0, ad_passive_def_processed = 0, ad_power_slider = 75,
      ad_int3400_installed = 0, ad_current_matched_target = -1\<rparr>"

datatype stop = Exit int | Uncaught | Fault fault

type_synonym run = "(stop \<times> adaptive) + adaptive"

definition bind_run :: "run \<Rightarrow> (adaptive \<Rightarrow> run) \<Rightarrow> run" where
  "bind_run r f = (case r of Inl x \<Rightarrow> Inl x | Inr a \<Rightarrow> f a)"

definition on_engine :: "(engine \<Rightarrow> engine) \<Rightarrow> adaptive \<Rightarrow> adaptive" where
  "on_engine f a = a\<lparr>ad_engine := f (ad_engine a)\<rparr>"

text \<open>An operation on the zone at a position.\<close>

definition with_zone :: "(zone \<Rightarrow> engine \<Rightarrow> zone \<times> engine) \<Rightarrow> nat \<Rightarrow> engine \<Rightarrow> engine" where
  "with_zone f i en = (case f (en_zones en ! i) en of (z, en') \<Rightarrow> put_zone i z en')"

definition each_zone :: "(zone \<Rightarrow> engine \<Rightarrow> zone \<times> engine) \<Rightarrow> engine \<Rightarrow> engine" where
  "each_zone f en = fold (with_zone f) [0..<length (en_zones en)] en"

section \<open>Names in the tables\<close>

definition strip_underscores :: "string \<Rightarrow> string" where
  "strip_underscores s = rev (dropWhile (\<lambda>c. c = CHR ''_'') (rev s))"

text \<open>The zone of a table entry with the name it was found under: the processor is called TCPU or
  B0D4.\<close>

definition table_zone :: "string \<Rightarrow> engine \<Rightarrow> (nat \<times> string) option" where
  "table_zone target en =
     (let name = strip_underscores (after_last_dot target)
      in case search_zone name en of Some i \<Rightarrow> Some (i, name)
      | None \<Rightarrow>
          (let name1 = (if take 4 name = ''B0D4'' then ''TCPU'' else name);
               found = (if take 4 name = ''B0D4'' then search_zone name1 en else None)
           in case found of Some i \<Rightarrow> Some (i, name1)
              | None \<Rightarrow> (if take 4 name1 = ''TCPU'' then map_option (\<lambda>i. (i, ''B0D4'')) (search_zone ''B0D4'' en) else None)))"

definition cdev_or_cpu :: "string \<Rightarrow> engine \<Rightarrow> nat option" where
  "cdev_or_cpu name en =
     (case search_cdev name en of Some i \<Rightarrow> Some i
      | None \<Rightarrow> (if take 4 name = ''TCPU'' then search_cdev ''B0D4'' en else None))"

definition table_cdev :: "string \<Rightarrow> engine \<Rightarrow> nat option" where
  "table_cdev source en = cdev_or_cpu (strip_underscores (after_last_dot source)) en"

text \<open>A limit of a table: \<^verbatim>\<open>MAX\<close>, \<^verbatim>\<open>MIN\<close> or a number in milliwatts; nothing is 0.\<close>

definition limit_state :: "string \<Rightarrow> int" where
  "limit_state s =
     (if s = [] then 0
      else if strncasecmp 3 s ''MAX'' = 0 then TRIP_PT_INVALID_TARGET_STATE
      else if strncasecmp 3 s ''MIN'' = 0 then 0
      else s32 (extract_int s * 1000))"

section \<open>Passive tables\<close>

text \<open>A new trip makes its zone active.\<close>

definition install_trip :: "trip_point \<Rightarrow> zone \<Rightarrow> engine \<Rightarrow> zone \<times> engine" where
  "install_trip t z en =
     (case add_trip t 1 z en of (z1, en1) \<Rightarrow> set_zone_active (z1\<lparr>zn_cdev_binded_status := True\<rparr>) en1)"

definition psv_trip :: "psv \<Rightarrow> nat \<Rightarrow> zone \<Rightarrow> sensor \<Rightarrow> engine \<Rightarrow> trip_point" where
  "psv_trip p ref z s en =
     (let target = limit_state (ps_limit p)
      in thd_trip_point_add_cdev en ref 0 (ps_sample_period p sdiv 10) (if target \<noteq> 0 then 1 else 0) target None 0 0 0
           (cthd_trip_point (int (length (zn_trip_points z))) PASSIVE
              (word_of_int (DECI_KELVIN_TO_CELSIUS (ps_temp p) * 1000)) 0 (zn_index z) (sn_index s) SEQUENTIAL))"

definition install_passive :: "psv \<Rightarrow> engine \<Rightarrow> int \<times> engine" where
  "install_passive p en =
     (case table_zone (ps_target p) en of None \<Rightarrow> (THD_ERROR, en)
      | Some (i, name) \<Rightarrow>
          (case table_cdev (ps_source p) en of None \<Rightarrow> (THD_ERROR, en)
           | Some ref \<Rightarrow>
               (case search_sensor name en of None \<Rightarrow> (THD_ERROR, en)
                | Some k \<Rightarrow>
                    (0, with_zone (install_trip (psv_trip p ref (en_zones en ! i) (sy_sensors en ! k) en)) i en))))"

section \<open>Consolidation\<close>

definition get_first_cdev :: "trip_point \<Rightarrow> nat option" where
  "get_first_cdev t = (case tp_cdevs t of [] \<Rightarrow> None | tc # _ \<Rightarrow> Some (tc_cdev tc))"

definition set_temp :: "u32 \<Rightarrow> trip_point \<Rightarrow> trip_point" where
  "set_temp w t = t\<lparr>tp_temp := w\<rparr>"

text \<open>The trip loses its target and moves up by a degree.\<close>

definition release_target :: "trip_point \<Rightarrow> trip_point" where
  "release_target t = set_temp (tp_temp t + 1000) (snd (set_first_target_invalid t))"

definition same_control :: "trip_point \<Rightarrow> trip_point \<Rightarrow> bool" where
  "same_control t next \<longleftrightarrow>
     tp_sensor_id t = tp_sensor_id next \<and> get_first_cdev t = get_first_cdev next \<and> fst (is_target_valid next) = THD_SUCCESS"

definition middle_target :: "int \<Rightarrow> trip_point \<Rightarrow> trip_point \<Rightarrow> trip_point" where
  "middle_target state t next =
     set_temp ((tp_temp next + tp_temp t) div 2)
       (snd (set_first_target (s32 (state + snd (is_target_valid next)) sdiv 2) t))"

definition is_max_target :: "trip_point \<Rightarrow> bool" where
  "is_max_target t \<longleftrightarrow> is_target_valid t = (THD_SUCCESS, TRIP_PT_INVALID_TARGET_STATE)"

text \<open>One round of the loop over the trips of a zone.\<close>

definition consolidate_trip :: "engine \<Rightarrow> nat \<Rightarrow> nat \<Rightarrow> trip_point list \<Rightarrow> trip_point list" where
  "consolidate_trip en cnt j ts =
     (let t = ts ! j
      in if \<not> is_max_target t then ts
         else if j = cnt - 1 then ts[j := release_target t]
         else
           (let next = ts ! (j + 1)
            in case get_first_cdev next of None \<Rightarrow> ts[j := release_target t]
               | Some d \<Rightarrow>
                   (if same_control t next then ts[j := middle_target (get_min_state (cdev_at en d)) t next]
                    else ts[j := release_target t])))"

text \<open>A zone with a single trip (and its polling trip) that has a target gets a second one, a degree
  above and without a target.\<close>

definition second_trip :: "trip_point \<Rightarrow> zone \<Rightarrow> engine \<Rightarrow> trip_point" where
  "second_trip t z en =
     thd_trip_point_add_cdev en (the (get_first_cdev t)) 0 0 0 TRIP_PT_INVALID_TARGET_STATE None 0 0 0
       (cthd_trip_point 1 PASSIVE (tp_temp t + 1000) 0 (zn_index z) (tp_sensor_id t) SEQUENTIAL)"

definition consolidate_zone :: "zone \<Rightarrow> engine \<Rightarrow> zone \<times> engine" where
  "consolidate_zone z en =
     (let ts = zn_trip_points z; cnt = length ts
      in if cnt = 2 \<and> fst (is_target_valid (ts ! 0)) = THD_SUCCESS then add_trip (second_trip (ts ! 0) z en) 1 z en
         else (z\<lparr>zn_trip_points := fold (consolidate_trip en cnt) [0..<cnt] ts\<rparr>, en))"

definition psvt_consolidate :: "engine \<Rightarrow> engine" where
  "psvt_consolidate en = each_zone consolidate_zone en"

section \<open>Power tables\<close>

definition DEFAULT_SAMPLE_TIME_SEC :: int where "DEFAULT_SAMPLE_TIME_SEC = 5"
definition itmt_hyst :: u32 where "itmt_hyst = 2000"

text \<open>The unthrottled state of the trip is the maximum of the table, its throttled state the minimum.\<close>

definition itmt_trip :: "itmt_entry \<Rightarrow> nat \<Rightarrow> zone \<Rightarrow> sensor \<Rightarrow> engine \<Rightarrow> trip_point" where
  "itmt_trip x ref z s en =
     thd_trip_point_add_cdev en ref 0 DEFAULT_SAMPLE_TIME_SEC 0 0 None 1 (limit_state (ie_pl1_max x)) (limit_state (ie_pl1_min x))
       (cthd_trip_point (int (length (zn_trip_points z))) PASSIVE (word_of_int ((ie_trip_point x - 2732) * 100)) itmt_hyst
          (zn_index z) (sn_index s) SEQUENTIAL)"

definition install_itmt :: "itmt_entry \<Rightarrow> engine \<Rightarrow> int \<times> engine" where
  "install_itmt x en =
     (case table_zone (ie_target x) en of None \<Rightarrow> (THD_ERROR, en)
      | Some (i, name) \<Rightarrow>
          (case search_cdev ''rapl_controller_mmio'' en of None \<Rightarrow> (THD_ERROR, en)
           | Some ref \<Rightarrow>
               (case search_sensor name en of None \<Rightarrow> (THD_ERROR, en)
                | Some k \<Rightarrow>
                    (0, with_zone (install_trip (itmt_trip x ref (en_zones en ! i) (sy_sensors en ! k) en)) i en))))"

section \<open>Targets\<close>

text \<open>The zones are emptied before a table is installed; the zones that show the power are kept
  where \<open>keep\<close> holds.\<close>

definition power_zone :: "zone \<Rightarrow> bool" where
  "power_zone z \<longleftrightarrow> zn_type_str z = ''rapl_pkg_power'' \<or> zn_type_str z = ''power_floor''"

definition clear_zone :: "bool \<Rightarrow> zone \<Rightarrow> engine \<Rightarrow> zone \<times> engine" where
  "clear_zone keep z en =
     (if keep \<and> power_zone z then (z, en)
      else
        (let en1 = zone_reset 1 z en; z1 = trip_delete_all z
         in if zn_active z1 then set_zone_inactive z1 en1 else (z1, en1)))"

definition clear_zones :: "bool \<Rightarrow> adaptive \<Rightarrow> adaptive" where
  "clear_zones keep a =
     (if ad_int3400_installed a \<noteq> 0 then a else on_engine (each_zone (clear_zone keep)) a)"

definition set_itmt_target :: "machine \<Rightarrow> adaptive_target \<Rightarrow> adaptive \<Rightarrow> int \<times> adaptive" where
  "set_itmt_target m t a =
     (case find_itmt (\<lambda>name. search_idsp name (ad_gddv a)) (at_argument t) (ad_gddv a) of None \<Rightarrow> (THD_ERROR, a)
      | Some x \<Rightarrow>
          (THD_SUCCESS,
           on_engine (fold (\<lambda>y en. snd (install_itmt y en)) (im_entries x)) (clear_zones (ma_debug_mode m) a)))"

text \<open>\<^verbatim>\<open>std::stof\<close>: white space, sign, digits with a point, an exponent. Both exceptions (no number, a
  magnitude outside of the normal range) are \<open>None\<close>. Hexadecimal numbers, infinities and NaNs are
  not represented.\<close>

definition stof :: "string \<Rightarrow> rat option" where
  "stof s =
     (let r = dropWhile is_space s; neg = (take 1 r = ''-''); r1 = (if take 1 r = ''-'' \<or> take 1 r = ''+'' then tl r else r)
      in case parse_decimal r1 of None \<Rightarrow> None
         | Some x \<Rightarrow> (let v = f32 (if neg then - x else x)
             in if v \<noteq> 0 \<and> (\<bar>v\<bar> < pow2 (- 126) \<or> pow2 128 \<le> \<bar>v\<bar>) then None else Some v))"

text \<open>The first passive trip of the zone gets the temperature; a product outside of \<^verbatim>\<open>int\<close> is
  undefined, here it wraps.\<close>

definition set_passive_temp :: "u32 \<Rightarrow> zone \<Rightarrow> zone" where
  "set_passive_temp w z =
     (case find_index (\<lambda>t. tp_type t = PASSIVE) (zn_trip_points z) of None \<Rightarrow> z
      | Some j \<Rightarrow> z\<lparr>zn_trip_points := (zn_trip_points z)[j := set_temp w (zn_trip_points z ! j)]\<rparr>)"

definition set_trip :: "string \<Rightarrow> string \<Rightarrow> adaptive \<Rightarrow> run" where
  "set_trip target argument a =
     (case stof argument of None \<Rightarrow> Inl (Uncaught, a)
      | Some x \<Rightarrow>
          (let w = word_of_int (rat_trunc (f32 (x * 1000)));
               en = ad_engine a
           in case search_zone (strip_underscores (after_last_dot target)) en of None \<Rightarrow> Inr a
              | Some i \<Rightarrow> Inr (on_engine (with_zone (\<lambda>z en. (set_passive_temp w z, en)) i) a)))"

text \<open>\<^verbatim>\<open>csys_fs::create\<close> of the file that keeps the next start out of adaptive mode; \<open>ok\<close> is whether it
  can be created.\<close>

definition ignore_adaptive :: string where
  "ignore_adaptive = TDRUNDIR @ ''/'' @ ''ignore_adaptive''"

definition create_file :: "bool \<Rightarrow> string \<Rightarrow> engine \<Rightarrow> engine" where
  "create_file ok p en =
     (if ok then set_env ((sy_env en)\<lparr>e_files := (e_files (sy_env en))(p \<mapsto> Text [])\<rparr>) en else en)"

definition install_psvt :: "psvt \<Rightarrow> adaptive \<Rightarrow> adaptive" where
  "install_psvt p a =
     (on_engine (fold (\<lambda>x en. snd (install_passive x en)) (pv_psvs p)) (clear_zones True a))\<lparr>ad_int3400_installed := 1\<rparr>"

definition some_zone_active :: "engine \<Rightarrow> bool" where
  "some_zone_active en \<longleftrightarrow> list_ex zn_active (en_zones en)"

text \<open>The part after the tables: without an active zone the daemon is restarted in the other mode.\<close>

definition finish_target :: "bool \<Rightarrow> adaptive_target \<Rightarrow> adaptive \<Rightarrow> run" where
  "finish_target ok t a0 =
     (let a = on_engine psvt_consolidate a0
      in if \<not> some_zone_active (ad_engine a) then Inl (Exit 1, on_engine (create_file ok ignore_adaptive) a)
         else if at_code t = ''PSV'' then set_trip (at_participant t) (at_argument t) a
         else Inr a)"

definition set_int3400_target :: "machine \<Rightarrow> bool \<Rightarrow> adaptive_target \<Rightarrow> adaptive \<Rightarrow> run" where
  "set_int3400_target m ok t a =
     (let a1 = (if at_code t = ''ITMT'' \<or> at_code t = ''ITMT3''
                then (case set_itmt_target m t a of (r, a') \<Rightarrow> if r = THD_SUCCESS then a'\<lparr>ad_int3400_installed := 1\<rparr> else a')
                else a)
      in if at_code t = ''PSVT''
         then (case find_psvt (at_argument t) (ad_gddv a1) of None \<Rightarrow> Inr a1
               | Some p \<Rightarrow> finish_target ok t (install_psvt p a1))
         else finish_target ok t a1)"

definition install_passive_default :: "adaptive \<Rightarrow> adaptive" where
  "install_passive_default a =
     (let a1 = on_engine (each_zone (clear_zone False)) a
      in case find_def_psvt (ad_gddv a1) of None \<Rightarrow> a1
         | Some p \<Rightarrow> on_engine (\<lambda>en. psvt_consolidate (fold (\<lambda>x en. snd (install_passive x en)) (pv_psvs p) en)) a1)"

text \<open>\<^verbatim>\<open>std::stoi\<close> is called here once before the device does it again, so that its exception there
  cannot occur.\<close>

definition execute_target :: "machine \<Rightarrow> bool \<Rightarrow> adaptive_target \<Rightarrow> adaptive \<Rightarrow> run" where
  "execute_target m ok t a =
     (let en = ad_engine a; cdev = cdev_or_cpu (after_last_dot (at_participant t)) en
      in if cdev = None \<and> at_participant t = ad_int3400_path a then set_int3400_target m ok t a
         else if at_code t = ''PSVT'' then set_int3400_target m ok t a
         else case stoi (at_argument t) of None \<Rightarrow> Inr a
         | Some _ \<Rightarrow>
             (case cdev of None \<Rightarrow> Inr a
              | Some i \<Rightarrow>
                  (case cdev_set_adaptive_target (sy_env en) (cdev_at en i) t of None \<Rightarrow> Inl (Uncaught, a)
                   | Some (e, c) \<Rightarrow> Inr (a\<lparr>ad_engine := put_cdev i c (set_env e en)\<rparr>))))"

fun execute_targets :: "machine \<Rightarrow> bool \<Rightarrow> adaptive_target list \<Rightarrow> adaptive \<Rightarrow> run" where
  "execute_targets m ok [] a = Inr a"
| "execute_targets m ok (t # ts) a = bind_run (execute_target m ok t a) (execute_targets m ok ts)"

text \<open>The targets with an id, compared as 64 bit numbers.\<close>

definition targets_of :: "int \<Rightarrow> gddv \<Rightarrow> adaptive_target list" where
  "targets_of k g = filter (\<lambda>t. at_target_id t = word_of_int k) (gd_targets g)"

definition exec_fallback_target :: "machine \<Rightarrow> bool \<Rightarrow> int \<Rightarrow> adaptive \<Rightarrow> run" where
  "exec_fallback_target m ok k a = execute_targets m ok (targets_of k (ad_gddv a)) (a\<lparr>ad_int3400_installed := 0\<rparr>)"

section \<open>The engine state\<close>

text \<open>The evaluation of the conditions as a step of the engine; \<open>ro\<close> is what the devices report.\<close>

definition evaluate :: "reports \<Rightarrow> nat \<Rightarrow> adaptive \<Rightarrow> (stop \<times> adaptive) + int \<times> adaptive" where
  "evaluate ro n a =
     (case evaluate_conditions ro n (ad_gddv a) (ad_engine a) of Inl f \<Rightarrow> Inl (Fault f, a)
      | Inr (target, g, en) \<Rightarrow> Inr (target, a\<lparr>ad_gddv := g, ad_engine := en\<rparr>))"

text \<open>What is done when the target changed.\<close>

definition install_default_if_none :: "adaptive \<Rightarrow> adaptive" where
  "install_default_if_none a = (if ad_int3400_installed a = 0 then install_passive_default a else a)"

definition switch_target :: "machine \<Rightarrow> bool \<Rightarrow> int \<Rightarrow> adaptive \<Rightarrow> run" where
  "switch_target m ok target a0 =
     (let a = a0\<lparr>ad_current_matched_target := target\<rparr>
      in if target = -1 \<and> 0 \<le> ad_fallback_id a \<and> ad_policy_active a = 0
         then (if nat (ad_fallback_id a) < length (gd_targets (ad_gddv a))
               then bind_run (exec_fallback_target m ok
                                (s32 (uint (at_target_id (gd_targets (ad_gddv a) ! nat (ad_fallback_id a))))) a)
                      (\<lambda>a. Inr (a\<lparr>ad_policy_active := 1\<rparr>))
               else Inl (Fault Out_of_bounds, a))
         else
           (let a1 = a\<lparr>ad_int3400_installed := 0\<rparr>
            in bind_run (if 0 < target
                         then bind_run (execute_targets m ok (targets_of target (ad_gddv a1)) a1)
                                (\<lambda>a. Inr (a\<lparr>ad_policy_active := 1\<rparr>))
                         else Inr a1)
                 (\<lambda>a. Inr (install_default_if_none a))))"

definition update_engine_state :: "machine \<Rightarrow> bool \<Rightarrow> reports \<Rightarrow> nat \<Rightarrow> adaptive \<Rightarrow> run" where
  "update_engine_state m ok ro n a =
     (if ad_passive_def_only a \<noteq> 0 then Inr a
      else case (if ad_fallback_id a < 0 then evaluate ro n a else Inr (-1, a)) of
        Inl x \<Rightarrow> Inl x
      | Inr (target, a1) \<Rightarrow>
          (if ad_current_matched_target a1 = target then Inr a1 else switch_target m ok target a1))"

section \<open>The start\<close>

text \<open>The options that the adaptive engine sets, and its power limits from the vault.\<close>

definition adaptive_machine :: "gddv \<Rightarrow> machine \<Rightarrow> machine" where
  "adaptive_machine g m =
     m\<lparr>ma_conf := None, ma_force_mmio_rapl := True, ma_adaptive_mode := True,
       ma_vault_ppcc := Some (\<lambda>name. Thd_Gddv.get_ppcc_param name g)\<rparr>"

definition int3400_drivers :: string where
  "int3400_drivers = ''/sys/bus/platform/drivers/int3400 thermal''"

definition set_int3400_base_path :: "machine \<Rightarrow> string option" where
  "set_int3400_base_path m =
     map_option (\<lambda>d. ''/sys/bus/platform/devices/'' @ d @ ''/'')
       (List.find (\<lambda>d. strncmp 3 d ''INT'' = 0) (dir_entries m int3400_drivers))"

text \<open>The virtual sensor of the vault. Its terms are added in order; \<open>Inl\<close> when the power sensor
  that a term needs cannot be read, where the code returns at once.\<close>

definition vsct_coeff :: "vsct_entry \<Rightarrow> rat" where
  "vsct_coeff c = f64 (f64 (of_int (vc_coeff c) / 1000) * (if vc_operation c \<noteq> 0 then -1 else 1))"

definition vsct_alpha :: "vsct_entry \<Rightarrow> rat" where
  "vsct_alpha c = f64 (of_int (vc_alpha c) / 1000)"

definition ensure_power_sensor :: "engine \<Rightarrow> engine option" where
  "ensure_power_sensor en =
     (if search_sensor ''rapl_pkg_power'' en \<noteq> None then Some en
      else case sensor_update (sy_env en) (cthd_sensor_rapl_power (en_current_sensor_index en)) of (r, s) \<Rightarrow>
        if r = THD_SUCCESS
        then Some ((add_sensor s en)\<lparr>en_current_sensor_index := en_current_sensor_index en + 1\<rparr>) else None)"

fun add_vscts :: "vsct_entry list \<Rightarrow> virtual_sensor \<Rightarrow> engine \<Rightarrow> engine + virtual_sensor \<times> engine" where
  "add_vscts [] v en = Inr (v, en)"
| "add_vscts (c # cs) v en =
     (if vc_coeff_type c = 1
      then (case ensure_power_sensor en of None \<Rightarrow> Inl en
            | Some en1 \<Rightarrow>
                add_vscts cs (virtual_add_target ''rapl_pkg_power'' (vsct_coeff c) (vsct_alpha c) 1 en1 v) en1)
      else add_vscts cs (virtual_add_target (after_last_dot (vc_target c)) (vsct_coeff c) (vsct_alpha c) 0 en v) en)"

definition vault_polling_table :: "gddv \<Rightarrow> polling_table_entry list" where
  "vault_polling_table g =
     map (\<lambda>p. \<lparr>pt_virtual_temp = vp_virtual_temp p, pt_sample_period = vp_sample_period p\<rparr>) (gd_vspts g)"

definition before_last_dot :: "string \<Rightarrow> string" where
  "before_last_dot s = (if CHR ''.'' \<in> set s then rev (tl (dropWhile (\<lambda>c. c \<noteq> CHR ''.'') (rev s))) else s)"

definition add_virtual_zone :: "machine \<Rightarrow> string \<Rightarrow> engine \<Rightarrow> engine" where
  "add_virtual_zone m name en =
     (case zone_update (machine_site m)
             (cthd_zone_dynamic (en_current_zone_index en) name 0xFFFFFFFF PASSIVE name ''intel_powerclamp'') en of
        (r, z, en1) \<Rightarrow>
          if r \<noteq> THD_SUCCESS then en1
          else case set_zone_active z en1 of (z', en2) \<Rightarrow> push_zone z' en2)"

text \<open>The virtual sensor itself is made with the index at the start, as the power sensor may be.\<close>

definition add_virtual_sensor :: "machine \<Rightarrow> gddv \<Rightarrow> engine \<Rightarrow> engine" where
  "add_virtual_sensor m g en =
     (let name = before_last_dot (gd_vscts_name g)
      in if gd_vscts g = [] \<or> name = [] then en
         else
           (let s0 = cthd_sensor_virtual (ma_junk m) (en_current_sensor_index en) name [] 0 0 en
            in case sn_kind s0 of
                 Virtual_sensor v \<Rightarrow>
                   (case add_vscts (gd_vscts g) (set_polling_table (vault_polling_table g) v) en of
                      Inl en1 \<Rightarrow> en1
                    | Inr (v', en1) \<Rightarrow>
                        add_virtual_zone m name
                          ((add_sensor (s0\<lparr>sn_kind := Virtual_sensor v'\<rparr>) en1)
                             \<lparr>en_current_sensor_index := en_current_sensor_index en1 + 1\<rparr>))
               | _ \<Rightarrow> en))"

text \<open>Reading of the vault by the engine itself, whose buffer is not used further: only that it can be
  read matters.\<close>

definition vault_readable :: "vault_host \<Rightarrow> string \<Rightarrow> menv \<Rightarrow> int" where
  "vault_readable v base e =
     (let sz = sysfs_size v (base @ ''data_vault'')
      in if sz = 0 then THD_ERROR
         else if sysfs_read_buf e (base @ ''data_vault'') sz = None then THD_FATAL_ERROR else THD_SUCCESS)"

text \<open>After the vault was parsed: sensors, devices and zones are read unless there is nothing to
  follow.\<close>

definition init_from_vault :: "bool \<Rightarrow> bool \<Rightarrow> bool \<Rightarrow> machine \<Rightarrow> adaptive \<Rightarrow> int \<times> adaptive" where
  "init_from_vault ignore_cpuid cpu_ok power_floor m0 a =
     (let g = ad_gddv a; m = adaptive_machine g m0
      in if gd_conditions g = [] \<and> find_def_psvt g = None then (THD_SUCCESS, a)
         else
           (let a1 = (if gd_conditions g = [] then a\<lparr>ad_passive_def_only := 1\<rparr> else a)
            in case thd_engine_init ignore_cpuid cpu_ok False power_floor (machine_site m) (read_thermal_sensors m)
                      (read_cooling_devices m) (read_thermal_zones m) (ad_engine a1) of (r, en) \<Rightarrow>
                 if r \<noteq> THD_SUCCESS then (r, a1\<lparr>ad_engine := en\<rparr>)
                 else (THD_SUCCESS, a1\<lparr>ad_engine := add_virtual_sensor m g en\<rparr>)))"

definition init_vault :: "bool \<Rightarrow> bool \<Rightarrow> bool \<Rightarrow> vault_host \<Rightarrow> nat \<Rightarrow> machine \<Rightarrow> string \<Rightarrow> adaptive
    \<Rightarrow> (stop \<times> adaptive) + int \<times> adaptive" where
  "init_vault ignore_cpuid cpu_ok power_floor v n m base a =
     (case gddv_init v n (sy_env (ad_engine a)) base (ad_gddv a) of
        (g, Inl f) \<Rightarrow> Inl (Fault f, a\<lparr>ad_gddv := g\<rparr>)
      | (g, Inr r) \<Rightarrow>
          (if r \<noteq> THD_SUCCESS then Inr (r, a\<lparr>ad_gddv := g\<rparr>)
           else Inr (init_from_vault ignore_cpuid cpu_ok power_floor m (a\<lparr>ad_gddv := g\<rparr>))))"

definition adaptive_init :: "bool \<Rightarrow> bool \<Rightarrow> vault_host \<Rightarrow> nat \<Rightarrow> machine \<Rightarrow> adaptive
    \<Rightarrow> (stop \<times> adaptive) + int \<times> adaptive" where
  "adaptive_init ignore_cpuid power_floor v n m a =
     (let e = sy_env (ad_engine a); cpu_ok = check_cpu_id (create_platform (ma_uname m)) (ma_cpuid m) e
      in if check_acpi_platform_profile e \<noteq> THD_SUCCESS then Inr (THD_FATAL_ERROR, a)
         else if \<not> ignore_cpuid \<and> \<not> cpu_ok then Inl (Exit 0, a)
         else if sysfs_exists e ignore_adaptive then Inr (THD_ERROR, a)
         else case set_int3400_base_path m of None \<Rightarrow> Inr (THD_ERROR, a)
         | Some base \<Rightarrow>
             (case sysfs_read_str e (base @ ''firmware_node/path'') (ad_int3400_path a) of (r, path) \<Rightarrow>
                (let a1 = a\<lparr>ad_int3400_base_path := base, ad_int3400_path := path\<rparr>
                 in if r < 0 then Inr (THD_ERROR, a1)
                    else if vault_readable v base e \<noteq> THD_SUCCESS then Inr (vault_readable v base e, a1)
                    else init_vault ignore_cpuid cpu_ok power_floor v n m base a1)))"

text \<open>The choice made at the start when some conditions are not supported and none holds: the target
  with the highest power, else the default table, else the engine does not start.\<close>

definition choose_fallback :: "adaptive \<Rightarrow> int \<times> adaptive" where
  "choose_fallback a =
     (let i = find_agressive_target (ad_gddv a)
      in if 0 \<le> i then (THD_SUCCESS, a\<lparr>ad_fallback_id := i\<rparr>)
         else if find_def_psvt (ad_gddv a) \<noteq> None then (THD_SUCCESS, install_passive_default a)
         else (THD_ERROR, a\<lparr>ad_gddv := gddv_free (ad_gddv a)\<rparr>))"

definition check_conditions :: "reports \<Rightarrow> nat \<Rightarrow> adaptive \<Rightarrow> (stop \<times> adaptive) + int \<times> adaptive" where
  "check_conditions ro n a =
     (if verify_conditions (ad_gddv a) = 0 then Inr (THD_SUCCESS, a)
      else case evaluate ro n a of Inl x \<Rightarrow> Inl x
      | Inr (target, a1) \<Rightarrow> Inr (if target = -1 then choose_fallback a1 else (THD_SUCCESS, a1)))"

definition base_start :: "int \<times> bool \<times> int \<Rightarrow> disk \<Rightarrow> machine \<Rightarrow> adaptive \<Rightarrow> int \<times> adaptive" where
  "base_start out d m a =
     (case out of (pipe_ret, fcntl_ok, thread_ret) \<Rightarrow>
        case thd_engine_start pipe_ret fcntl_ok thread_ret d None (machine_host m) (ad_engine a) of (r, en) \<Rightarrow>
          (r, a\<lparr>ad_engine := en\<rparr>))"

definition adaptive_start :: "reports \<Rightarrow> nat \<Rightarrow> int \<times> bool \<times> int \<Rightarrow> disk \<Rightarrow> machine \<Rightarrow> adaptive
    \<Rightarrow> (stop \<times> adaptive) + int \<times> adaptive" where
  "adaptive_start ro n out d m a =
     (if ad_passive_def_only a \<noteq> 0 then Inr (base_start out d m (install_passive_default a))
      else case check_conditions ro n a of Inl x \<Rightarrow> Inl x
      | Inr (r, a1) \<Rightarrow>
          (if r \<noteq> THD_SUCCESS then Inr (r, a1)
           else case evaluate ro n (on_engine (\<lambda>en. en\<lparr>en_control_mode := EXCLUSIVE\<rparr>) a1) of Inl x \<Rightarrow> Inl x
           | Inr (target, a2) \<Rightarrow> Inr (base_start out d m (if target = -1 then install_passive_default a2 else a2))))"

definition thd_engine_create_adaptive_engine ::
    "bool \<Rightarrow> bool \<Rightarrow> bool \<Rightarrow> int \<Rightarrow> reports \<Rightarrow> nat \<Rightarrow> int \<times> bool \<times> int \<Rightarrow> disk \<Rightarrow> vault_host \<Rightarrow> machine \<Rightarrow> engine
       \<Rightarrow> (stop \<times> adaptive) + int \<times> adaptive" where
  "thd_engine_create_adaptive_engine ignore_cpuid test_mode power_floor poll_interval ro n out d v m en =
     (case adaptive_init ignore_cpuid power_floor v n m (cthd_engine_adaptive (en\<lparr>sy_poll_interval_sec := poll_interval\<rparr>)) of
        Inl x \<Rightarrow> Inl x
      | Inr (r, a) \<Rightarrow>
          (if r \<noteq> THD_SUCCESS then Inr (THD_ERROR, a)
           else case adaptive_start ro n out d m a of Inl x \<Rightarrow> Inl x
           | Inr (r', a') \<Rightarrow>
               (if r' \<noteq> THD_SUCCESS then (if test_mode then Inl (Exit 0, a') else Inr (THD_ERROR, a'))
                else Inr (THD_SUCCESS, a'))))"

section \<open>The engine thread\<close>

text \<open>The round of the thread, as in \<^verbatim>\<open>Thd_Engine\<close> but with the overriding \<^verbatim>\<open>update_engine_state\<close>, which
  reads and changes the members of the derived class and may stop the process.\<close>

definition adaptive_state_check :: "machine \<Rightarrow> bool \<Rightarrow> reports \<Rightarrow> nat \<Rightarrow> engine_class \<Rightarrow> int \<Rightarrow> adaptive \<Rightarrow> run" where
  "adaptive_state_check m ok ro n vm tm a =
     (if vm_thd_poll_interval vm \<le> tm - en_thz_last_update_event_time (ad_engine a)
      then bind_run (update_engine_state m ok ro n a)
             (\<lambda>a. Inr (on_engine (\<lambda>en. en\<lparr>en_thz_last_update_event_time := tm\<rparr>) a))
      else Inr a)"

definition adaptive_finish_round :: "machine \<Rightarrow> bool \<Rightarrow> reports \<Rightarrow> nat \<Rightarrow> engine_class \<Rightarrow> poll_event \<Rightarrow> int \<Rightarrow> adaptive \<Rightarrow> run" where
  "adaptive_finish_round m ok ro n vm ev tm a =
     (case uevent_check n ev (ad_engine a) of None \<Rightarrow> Inl (Fault Out_of_fuel, a)
      | Some en1 \<Rightarrow>
          (case wakeup_check n (machine_host m) vm ev en1 of None \<Rightarrow> Inl (Fault Out_of_fuel, a)
           | Some (False, en2) \<Rightarrow> Inr (a\<lparr>ad_engine := en2\<rparr>)
           | Some (True, en2) \<Rightarrow>
               bind_run (adaptive_state_check m ok ro n vm tm (a\<lparr>ad_engine := en2\<rparr>))
                 (\<lambda>a. Inr (on_engine (vm_workarounds vm) a))))"

definition adaptive_round :: "machine \<Rightarrow> bool \<Rightarrow> reports \<Rightarrow> nat \<Rightarrow> engine_class \<Rightarrow> poll_event \<Rightarrow> adaptive \<Rightarrow> run" where
  "adaptive_round m ok ro n vm ev a0 =
     (if en_terminate (ad_engine a0) \<or> pe_n ev < 0 then Inr a0
      else
        (let tm = now (ad_engine a0); a = on_engine measure a0
         in if pe_n ev = 0 \<or> vm_poll_timeout_sec vm \<le> tm - en_thz_last_temp_ind_time (ad_engine a)
            then (if \<not> en_status (ad_engine a) then Inr a
                  else case timed_check n tm (ad_engine a) of None \<Rightarrow> Inl (Fault Out_of_fuel, a)
                  | Some en1 \<Rightarrow> adaptive_finish_round m ok ro n vm ev tm (a\<lparr>ad_engine := en1\<rparr>))
            else adaptive_finish_round m ok ro n vm ev tm a))"

end
