(* ===== verification/Thd_DefaultProps.thy ===== *)
theory Thd_DefaultProps
  imports Thd_EngineDefault
begin

text \<open>
  The default engine keeps the references between zones, sensors and devices valid, so that all that
  was proved for the engine's methods holds for it; and further properties of how it sets up the
  system.
\<close>

section \<open>Zones\<close>

lemma engine_ok_add:
  assumes "engine_ok en" "zone_refs z en"
  shows "engine_ok (en\<lparr>en_zones := en_zones en @ [z]\<rparr>)"
  using assms by (auto simp: engine_ok_def)

lemma engine_okD: "engine_ok en \<Longrightarrow> z \<in> set (en_zones en) \<Longrightarrow> zone_refs z en"
  by (simp add: engine_ok_def)

lemma put_zone_ok:
  assumes "engine_ok en" "zone_refs z en"
  shows "engine_ok (put_zone i z en)"
  using assms set_update_subset_insert [of "en_zones en" i z] by (auto simp: put_zone_def engine_ok_def)

lemma search_zone_refs:
  assumes "search_zone name en = Some i" "engine_ok en"
  shows "zone_refs (en_zones en ! i) en"
proof -
  have "i < length (en_zones en)" using assms(1) find_index_Some by (auto simp: search_zone_def)
  then show ?thesis using assms(2) by (simp add: engine_ok_def)
qed

lemma activated_ok:
  assumes "set_zone_active z en = (z', en') \<or> set_zone_inactive z en = (z', en')" "engine_ok en" "zone_refs z en"
  shows "engine_ok en' \<and> zone_refs z' en'"
proof -
  have k: "zone_kept z en z' en'" using assms(1) set_active_keeps by blast
  then show ?thesis using assms(2,3) engine_ok_keeps zone_kept_refs [OF k] by (auto simp: zone_kept_def)
qed

lemma updated_ok:
  assumes "zone_update si z en = (r, z', en')" "engine_ok en" "zone_refs z en"
  shows "engine_ok en' \<and> (r = THD_SUCCESS \<longrightarrow> zone_refs z' en')"
proof -
  have "engine_ok en'" using zone_update_trips [OF assms(1)] assms(2) engine_ok_keeps by (auto simp: trips_kept_def)
  then show ?thesis using zone_update_refs [OF _ assms(3)] assms(1) by blast
qed

lemma fold_ok: "(\<And>x s. P s \<Longrightarrow> P (f x s)) \<Longrightarrow> P s \<Longrightarrow> P (fold f xs s)"
  by (induction xs arbitrary: s) auto

lemma new_sysfs_refs: "zone_refs (cthd_sysfs_zone st' i path) st"
  by (simp add: cthd_sysfs_zone_def cthd_zone_def zone_refs_def sensors_valid_def Let_def)

lemma read_default_zone_ok:
  assumes "engine_ok en"
  shows "engine_ok (read_default_zone si name en)"
proof -
  define z0 where "z0 = cthd_sysfs_zone en (dir_index 12 name) ''/sys/class/thermal/thermal_zone''"
  obtain r z e1 where u: "zone_update si z0 en = (r, z, e1)" by (metis prod_cases3)
  obtain z' e2 where a: "set_zone_active z e1 = (z', e2)" by fastforce
  have "zone_refs z0 en" by (simp add: z0_def new_sysfs_refs)
  note ok = updated_ok [OF u assms this]
  have "engine_ok e2 \<and> zone_refs z' e2" if "r = THD_SUCCESS"
    using activated_ok [OF disjI1 [OF a]] ok that by blast
  then show ?thesis
    using ok by (auto simp: read_default_zone_def z0_def [symmetric] u a dest: engine_okD)
qed

lemma read_default_zones_ok: "engine_ok en \<Longrightarrow> engine_ok (thd_read_default_thermal_zones si h en)"
  by (simp add: thd_read_default_thermal_zones_def Let_def fold_ok [where P = engine_ok] read_default_zone_ok)

lemma new_zone_ok:
  assumes "engine_ok (snd st)" "zone_refs z0 (snd st)"
  shows "engine_ok (snd (snd (new_zone si z0 st)))"
proof -
  obtain r z e1 where u: "zone_update si z0 (snd st) = (r, z, e1)" by (metis prod_cases3)
  obtain z' e2 where a: "set_zone_active z e1 = (z', e2)" by fastforce
  note ok = updated_ok [OF u assms]
  have "engine_ok e2 \<and> zone_refs z' e2" if "r = THD_SUCCESS"
    using activated_ok [OF disjI1 [OF a]] ok that by blast
  then show ?thesis using ok by (auto simp: new_zone_def u a dest: engine_okD)
qed

lemma new_zone_refs [simp]:
  "zone_refs (cthd_zone_cpu ix path) st" "zone_refs (cthd_zone_generic ix conf ty) st" "zone_refs (cthd_zone_rapl_power ix) st"
  by (simp_all add: cthd_zone_cpu_def cthd_zone_generic_def cthd_zone_rapl_power_def cthd_zone_def zone_refs_def sensors_valid_def)

lemma add_cpu_zones_ok: "engine_ok (snd (snd st)) \<Longrightarrow> engine_ok (snd (snd (add_cpu_zones m base names st)))"
proof (induction names arbitrary: st)
  case (Cons name names)
  obtain f ix en where st: "st = (f, ix, en)" by (metis prod_cases3)
  obtain g st' where n: "new_zone (machine_site m) (cthd_zone_cpu ix (base @ name @ ''/'')) (ix, en) = (g, st')" by (metis surj_pair)
  have "engine_ok (snd st')"
    using new_zone_ok [of "(ix, en)" "cthd_zone_cpu ix (base @ name @ ''/'')" "machine_site m"] Cons.prems n st by simp
  then show ?case using Cons.IH [of "(f \<or> g, st')"] Cons.IH [of "(f, ix, en)"] Cons.prems by (simp add: st n)
qed simp

lemma create_cpu_zone_ok: "engine_ok (snd st) \<Longrightarrow> engine_ok (snd (create_cpu_zone m bases st))"
proof (induction bases arbitrary: st)
  case (Cons base bases)
  obtain f st' where a: "add_cpu_zones m base (dir_entries m base) (False, st) = (f, st')" by (metis surj_pair)
  then have "engine_ok (snd st')" using add_cpu_zones_ok [of "(False, st)" m base "dir_entries m base"] Cons.prems by simp
  then show ?case using Cons.IH by (simp add: a)
qed simp

lemma bind_cooling_device_refs:
  assumes "zone_refs z st" "ref < length (sy_cdevs st)"
  shows "zone_refs (snd (bind_cooling_device st ty temp ref a b c d e f g z)) st"
proof (cases "find_index (bindable ty temp) (zn_trip_points z)")
  case (Some i)
  have v: "devs_valid (zn_trip_points z) st" using assms(1) by (simp add: zone_refs_def)
  have "i < length (zn_trip_points z)" using find_index_Some [OF Some] by simp
  then have "devs_valid ((zn_trip_points z)[i := thd_trip_point_add_cdev st ref a b c d None e f g (zn_trip_points z ! i)]) st"
    by (intro devs_valid_update [OF v] add_cdev_valid assms(2) devs_valid_nth [OF v])
  then show ?thesis using assms(1) by (simp add: bind_cooling_device_def Some zone_refs_def sensors_valid_def)
qed (simp add: bind_cooling_device_def assms)

lemma bind_processor_refs: "zone_refs z en \<Longrightarrow> zone_refs (bind_processor en name z) en"
  by (auto simp: bind_processor_def intro: bind_cooling_device_refs search_cdev_valid split: option.split)

lemma add_int340x_ok:
  assumes "engine_ok en"
  shows "engine_ok (snd (add_int340x_processor_dev m en))"
proof (cases "processor_zone m en")
  case (Some i)
  define z where "z = en_zones en ! i"
  have z: "zone_refs z en"
    using Some assms unfolding z_def processor_zone_def by (auto split: if_splits option.splits intro: search_zone_refs)
  have z1: "zone_refs (z\<lparr>zn_trip_points := (zn_trip_points z)[k := (zn_trip_points z ! k)\<lparr>tp_temp := w\<rparr>]\<rparr>) en" for k w
  proof -
    have v: "devs_valid (zn_trip_points z) en" using z by (simp add: zone_refs_def)
    have "devs_valid [(zn_trip_points z ! k)\<lparr>tp_temp := w\<rparr>] en" if "k < length (zn_trip_points z)"
      using devs_valid_nth [OF v that] by (simp add: bound_cdevs_def)
    then show ?thesis using devs_valid_update [OF v] z by (auto simp: zone_refs_def sensors_valid_def)
  qed
  have p: "engine_ok (put_zone i (fold (bind_processor e1) xs z2) e1)"
    if a: "set_zone_active z' en = (z2, e1)" and r: "zone_refs z' en" for z' z2 e1 xs
  proof -
    have "engine_ok e1" "zone_refs z2 e1" using activated_ok [OF disjI1 [OF a] assms r] by auto
    then show ?thesis
      using fold_ok [where P = "\<lambda>z. zone_refs z e1" and f = "bind_processor e1"] bind_processor_refs put_zone_ok by blast
  qed
  show ?thesis
    using assms z z1 p
    by (auto simp: add_int340x_processor_dev_def Some z_def [symmetric] Let_def simp del: fold.simps
        split: option.split prod.split)
qed (simp add: add_int340x_processor_dev_def assms)

lemma sort_update_refs:
  assumes "sort_and_update_poll_trip (z\<lparr>zn_trip_points := ts\<rparr>) en = (z', en')" "zone_refs z en" "devs_valid ts en"
  shows "zone_refs z' en' \<and> sys_keeps en en'"
  using sort_and_update_trips [OF assms(1)] sort_and_update_sensors [OF assms(1)] assms(2,3) devs_valid_keeps
  by (auto simp: zone_refs_def trips_kept_def keeps_sensors_def sensors_valid_def)

lemma add_trip_refs:
  assumes "add_trip t f z en = (z', en')" "zone_refs z en" "devs_valid [t] en"
  shows "zone_refs z' en' \<and> sys_keeps en en'"
proof -
  define ts where "ts = (if f \<noteq> 0 then zn_trip_points z @ [t]
      else case find_index (\<lambda>u. tp_type u = tp_type t) (zn_trip_points z) of
             Some j \<Rightarrow> (zn_trip_points z)[j := t] | None \<Rightarrow> zn_trip_points z @ [t])"
  have "devs_valid ts en"
    using assms(2,3) devs_valid_update by (auto simp: ts_def zone_refs_def split: option.split)
  then show ?thesis
    using sort_update_refs [of ts z en z' en'] assms(1,2) by (simp add: add_trip_def ts_def Let_def)
qed

lemma update_trip_temp_refs:
  assumes "update_trip_temp t z en = (z', en')" "zone_refs z en"
  shows "zone_refs z' en' \<and> sys_keeps en en'"
proof -
  define ts where "ts = (case find_index (\<lambda>u. tp_type u = tp_type t) (zn_trip_points z) of
      Some j \<Rightarrow> (zn_trip_points z)[j := set_temp_hyst t (zn_trip_points z ! j)] | None \<Rightarrow> zn_trip_points z)"
  have v: "devs_valid (zn_trip_points z) en" using assms(2) by (simp add: zone_refs_def)
  have "devs_valid [set_temp_hyst t (zn_trip_points z ! j)] en" if "j < length (zn_trip_points z)" for j
    using devs_valid_nth [OF v that] by simp
  then have "devs_valid ts en" using v devs_valid_update [OF v] by (auto simp: ts_def split: option.split)
  then show ?thesis
    using sort_update_refs [of ts z en z' en'] assms by (simp add: update_trip_temp_def ts_def Let_def)
qed

lemma bind_sensor_refs:
  "zone_refs z st \<Longrightarrow> k < length (sy_sensors st) \<Longrightarrow> zone_refs (bind_sensor k z) st"
  by (auto simp: bind_sensor_def zone_refs_def sensors_valid_def)

lemma add_conf_cdevs_valid: "devs_valid [snd bt] st \<Longrightarrow> devs_valid [snd (add_conf_cdevs st xs bt)] st"
proof (induction xs arbitrary: bt)
  case (Cons x xs)
  show ?case
  proof (cases "search_cdev (xc_type x) st")
    case (Some r)
    show ?thesis
      unfolding add_conf_cdevs.simps Some option.simps
      by (rule Cons.IH) (simp only: snd_conv add_cdev_valid [OF search_cdev_valid [OF Some] Cons.prems])
  qed (use Cons in simp)
qed simp

lemma bind_conf_zone_refs: "zone_refs (snd bz) st \<Longrightarrow> zone_refs (snd (bind_conf_zone st ty xs bz)) st"
proof (induction xs arbitrary: bz)
  case (Cons x xs)
  show ?case
  proof (cases "search_cdev (xc_type x) st")
    case (Some r)
    obtain q z where b: "bind_cooling_device st ty 0 r (xc_influence x) (xc_sampling_period x) (xc_target_state_valid x)
        (xc_target_state x) (xc_min_max_valid x) (xc_target_min_state x) (xc_target_max_state x) (snd bz) = (q, z)"
      by fastforce
    have "zone_refs z st"
      using bind_cooling_device_refs [OF Cons.prems search_cdev_valid [OF Some], of ty 0 "xc_influence x"
          "xc_sampling_period x" "xc_target_state_valid x" "xc_target_state x" "xc_min_max_valid x"
          "xc_target_min_state x" "xc_target_max_state x"] b by simp
    then show ?thesis using Cons.IH [of "(fst bz \<or> q = THD_SUCCESS, z)"] by (simp add: Some b)
  qed (use Cons in simp)
qed simp

lemma conf_existing_trip_refs:
  assumes "conf_existing_trip x (b, z, en) = (b', z', en')" "zone_refs z en"
  shows "zone_refs z' en' \<and> sys_keeps en en'"
proof (cases "search_sensor (xt_sensor_type x) en")
  case None
  then show ?thesis
    using assms update_trip_temp_refs [OF _ assms(2), of "conf_point z (-1) x"]
    by (auto simp: conf_existing_trip_def split: if_splits prod.splits)
next
  case (Some k)
  define z1 where "z1 = bind_sensor k z"
  have z1: "zone_refs z1 en" using bind_sensor_refs [OF assms(2) search_sensor_valid [OF Some]] by (simp add: z1_def)
  define t1 where "t1 = (let t0 = conf_point z1 (sensor_index k en) x
      in case xt_dependency x of None \<Rightarrow> t0 | Some (c, s) \<Rightarrow> set_dependency en c s t0)"
  have t1: "devs_valid [t1] en"
    using set_dependency_valid [of "conf_point z1 (sensor_index k en) x" en]
    by (auto simp: t1_def conf_point_def Let_def split: option.split prod.split)
  obtain bd t2 where t2: "add_conf_cdevs en (xt_cdev_trips x) (False, t1) = (bd, t2)" by fastforce
  have v2: "devs_valid [t2] en" using add_conf_cdevs_valid [of "(False, t1)" en "xt_cdev_trips x"] t1 t2 by simp
  define z2 where "z2 = z1\<lparr>zn_cdev_binded_status := zn_cdev_binded_status z1 \<or> bd\<rparr>"
  have z2: "zone_refs z2 en" using z1 by (simp add: z2_def zone_refs_def sensors_valid_def)
  obtain z3 e3 where a: "add_trip t2 0 z2 en = (z3, e3)" by fastforce
  obtain b4 z4 where c: "bind_conf_zone en (xt_trip_pt_type x) (xt_cdev_trips x) (b, z1) = (b4, z4)" by fastforce
  have "zone_refs z4 en" using bind_conf_zone_refs [of "(b, z1)" en "xt_trip_pt_type x" "xt_cdev_trips x"] z1 c by simp
  moreover have "(z', en') = (if xt_temperature x \<noteq> 0 then (z3, e3) else (z4, en))"
    using assms(1) Some t2 a c by (simp add: conf_existing_trip_def z1_def z2_def t1_def Let_def split: if_splits)
  ultimately show ?thesis using add_trip_refs [OF a z2 v2] by (auto split: if_splits)
qed

lemma conf_existing_trips_refs:
  "fold conf_existing_trip xs (b, z, en) = (b', z', en') \<Longrightarrow> zone_refs z en \<Longrightarrow> zone_refs z' en' \<and> sys_keeps en en'"
proof (induction xs arbitrary: b z en)
  case (Cons x xs)
  obtain b1 z1 e1 where c: "conf_existing_trip x (b, z, en) = (b1, z1, e1)" by (metis prod_cases3)
  note 1 = conf_existing_trip_refs [OF c Cons.prems(2)]
  have "zone_refs z' en' \<and> sys_keeps e1 en'" using Cons.IH [of b1 z1 e1] Cons.prems(1) c 1 by simp
  then show ?case using 1 sys_keeps_trans by blast
qed simp

lemma deactivate_named_ok:
  assumes "engine_ok en"
  shows "engine_ok (deactivate_named name en)"
proof (cases "search_zone name en")
  case (Some i)
  obtain z e where a: "set_zone_inactive (en_zones en ! i) en = (z, e)" by fastforce
  have "engine_ok e \<and> zone_refs z e" by (rule activated_ok [OF disjI2 [OF a] assms search_zone_refs [OF Some assms]])
  then show ?thesis by (simp add: deactivate_named_def Some a put_zone_ok)
qed (simp add: deactivate_named_def assms)

lemma disable_cpu_zone_ok: "engine_ok en \<Longrightarrow> engine_ok (disable_cpu_zone m zc en)"
  by (auto simp: disable_cpu_zone_def deactivate_named_ok split: option.split intro!: fold_ok [where P = engine_ok])

lemma add_conf_zone_ok:
  assumes "engine_ok (snd st)"
  shows "engine_ok (snd (add_conf_zone m zc st))"
proof (cases "search_zone (zc_type zc) (snd st)")
  case None
  then show ?thesis using new_zone_ok [OF assms] by (simp add: add_conf_zone_def disable_cpu_zone_ok Let_def)
next
  case (Some i)
  obtain b z e where f: "fold conf_existing_trip (zc_trip_pts zc) (False, en_zones (snd st) ! i, snd st) = (b, z, e)"
    by (metis prod_cases3)
  have ze: "zone_refs z e" "sys_keeps (snd st) e"
    using conf_existing_trips_refs [OF f search_zone_refs [OF Some assms]] by auto
  then have e: "engine_ok e" using assms engine_ok_keeps by blast
  obtain z' e' where a: "(if b then set_zone_active z e else (z, e)) = (z', e')" by fastforce
  have "engine_ok e' \<and> zone_refs z' e'"
    using a e ze(1) activated_ok [of z e z' e'] by (auto split: if_splits)
  then show ?thesis by (simp add: add_conf_zone_def Some f a disable_cpu_zone_ok put_zone_ok Let_def)
qed

lemma read_thermal_zones_ok:
  assumes "engine_ok en"
  shows "engine_ok (snd (read_thermal_zones m en))"
proof -
  obtain b e1 where 1: "add_int340x_processor_dev m
      (thd_read_default_thermal_zones (machine_site m) (machine_host m) en) = (b, e1)" by fastforce
  have e1: "engine_ok e1" using add_int340x_ok [OF read_default_zones_ok [OF assms]] 1 by (metis snd_conv)
  define st2 where "st2 = (if \<not> ma_ignore_default_control m \<and> \<not> b \<and> search_zone ''cpu'' e1 = None
      then create_cpu_zone m base_paths (en_current_zone_index e1, e1) else (en_current_zone_index e1, e1))"
  have "engine_ok (snd st2)"
    using create_cpu_zone_ok [of "(en_current_zone_index e1, e1)" m base_paths] e1 by (simp add: st2_def del: create_cpu_zone.simps)
  define st3 where "st3 = fold (add_conf_zone m) (conf_list m ti_zones) (fst st2, (snd st2)\<lparr>en_current_zone_index := fst st2\<rparr>)"
  have st3: "engine_ok (snd st3)"
    unfolding st3_def by (rule fold_ok [where P = "\<lambda>st. engine_ok (snd st)"]) (simp_all add: add_conf_zone_ok \<open>engine_ok (snd st2)\<close>)
  have "engine_ok (snd (snd (new_zone (machine_site m) (cthd_zone_rapl_power (fst st3)) st3)))"
    by (rule new_zone_ok) (simp_all add: st3)
  then show ?thesis
    using st3 by (simp add: read_thermal_zones_def 1 st2_def [symmetric] st3_def [symmetric] Let_def)
qed

section \<open>The default engine\<close>

lemma engine_ok_workaround_fields [simp]:
  "engine_ok (en\<lparr>en_workaround_interval := i\<rparr>) = engine_ok en" "engine_ok (en\<lparr>en_tcc_offset_checked := i\<rparr>) = engine_ok en"
  "engine_ok (en\<lparr>en_tcc_offset_low := i\<rparr>) = engine_ok en" "engine_ok (en\<lparr>en_power_limit_reg := r\<rparr>) = engine_ok en"
  by (rule engine_ok_cong; simp)+

lemma workaround_rapl_ok:
  "workaround_rapl_mmio_power b p c en reg = (reg', en') \<Longrightarrow> engine_ok en' = engine_ok en"
  by (auto simp: workaround_rapl_mmio_power_def Let_def split: if_splits prod.splits)

lemma workaround_tcc_ok [simp]: "engine_ok (workaround_tcc_offset m en) = engine_ok en"
  by (simp add: workaround_tcc_offset_def Let_def split: prod.split)

lemma workarounds_ok: "engine_ok (workarounds m en) = engine_ok en"
  using workaround_rapl_ok by (auto simp: workarounds_def split: prod.split)

interpretation default: engine_methods "default_engine m t i" for m t i
  by unfold_locales (simp_all add: default_engine_def read_thermal_zones_ok workarounds_ok)

text \<open>
  References stay valid: from an engine whose zones refer to sensors and devices it has, every
  state that rounds of the thread of the default engine, operations of users, the timers of virtual
  sensors, messages and changes of the environment can lead to has zones that refer to distinct
  sensors of the engine, and trips that refer to devices of the engine.
\<close>

theorem engine_references_valid:
  assumes "engine_reach h (default_engine m t i) en en'" and "engine_ok en"
  shows "\<forall>z\<in>set (en_zones en'). distinct (zn_sensors z) \<and> (\<forall>k\<in>set (zn_sensors z). k < length (sy_sensors en'))
    \<and> (\<forall>p\<in>set (zn_trip_points z). \<forall>r\<in>bound_cdevs p. r < length (sy_cdevs en'))"
  using default.engine_reach_ok [OF assms]
  by (fastforce simp: engine_ok_def zone_refs_def sensors_valid_def devs_valid_def)

section \<open>Witnesses\<close>

definition demo_host :: host where
  "demo_host = \<lparr>si_writable = (\<lambda>_. False), si_readlink = (\<lambda>_. None), si_cdev_order = None, si_rt_kernel = False,
     ho_thermal_dir = [], ho_int3400 = [], ho_uuid = []\<rparr>"

definition demo_machine :: machine where
  "demo_machine = host.extend demo_host
     \<lparr>ma_dir = (\<lambda>_. None), ma_conf = None, ma_auto_config = False, ma_debug_mode = False,
      ma_ignore_default_control = False, ma_disable_active_power = False, ma_force_mmio_rapl = False,
      ma_adaptive_mode = False, ma_workaround_enabled = False, ma_uname = None,
      ma_cpuid = \<lparr>cp_ebx = 0, cp_ecx = 0, cp_edx = 0, cp_fms = 0\<rparr>, ma_vault_ppcc = None, ma_junk = 0\<rparr>"

text \<open>One zone with a fan and one sensor.\<close>

definition demo_engine :: engine where
  "demo_engine = (cthd_engine (demo_meter Map.empty) False None)
     \<lparr>sy_cdevs := sy_cdevs fan_sys, sy_sensors := sy_sensors fan_sys, en_zones := [demo_zone]\<rparr>"

lemma demo_engine_simps [simp]:
  "sy_poll_interval_sec demo_engine = 0" "en_poll_sensor_mask demo_engine = 0" "en_fast_poll_sensor_mask demo_engine = 0"
  "en_saved_poll_interval demo_engine = 0" "en_zones demo_engine = [demo_zone]"
  "sy_sensors demo_engine = sy_sensors fan_sys" "sy_cdevs demo_engine = sy_cdevs fan_sys"
  by (simp_all add: demo_engine_def cthd_engine_def)

lemma demo_engine_ok: "engine_ok demo_engine"
  by (simp add: engine_ok_def zone_refs_def sensors_valid_def devs_valid_def bound_cdevs_def fan_sys_def)


theorem polling_never_ends_witness:
  "\<exists>off. run_messages 1 demo_host (\<lambda>en. (0, en)) [poll_message (True, 3), fast_poll_message (True, 3),
      poll_message (False, 3), fast_poll_message (False, 3)] demo_engine = Some off
    \<and> en_poll_sensor_mask off = 0 \<and> en_fast_poll_sensor_mask off = 0 \<and> en_poll_timeout_msec off = 4000"
proof -
  obtain on off where r: "run_messages 1 demo_host (\<lambda>en. (0, en)) [poll_message (True, 3), fast_poll_message (True, 3)] demo_engine = Some on"
      "run_messages 1 demo_host (\<lambda>en. (0, en)) [poll_message (False, 3), fast_poll_message (False, 3)] on = Some off"
      "en_poll_sensor_mask off = 0" "en_fast_poll_sensor_mask off = 0" "en_poll_timeout_msec off = def_poll_interval"
    using polling_never_ends [of demo_engine 3 1 demo_host "\<lambda>en. (0, en)"] by auto
  have "[poll_message (True, 3), fast_poll_message (True, 3), poll_message (False, 3), fast_poll_message (False, 3)]
      = [poll_message (True, 3), fast_poll_message (True, 3)] @ [poll_message (False, 3), fast_poll_message (False, 3)]" by simp
  then show ?thesis using r by (simp only: run_messages_append def_poll_interval_def) simp
qed

theorem engine_round_returns_witness:
  "\<exists>en'. engine_round 20 demo_host (default_engine demo_machine 4 4)
     \<lparr>pe_n = 0, pe_uevent = False, pe_readable = False, pe_read_fails = False\<rparr> demo_engine = Some en'"
  by (rule engine_round_returns [where m = 0, OF demo_engine_ok])
    (simp_all add: links_down_def links_of_def cthd_sensor_def read_fuel_def)

theorem engine_references_valid_witness:
  "0 < length (sy_sensors (snd (user_delete_zone ''x'' (snd (user_set_psv_temp True ''cpu'' 70000 demo_engine)))))"
proof -
  let ?a = "snd (user_set_psv_temp True ''cpu'' 70000 demo_engine)"
  have "engine_reach demo_host (default_engine demo_machine 4 4) demo_engine (snd (user_delete_zone ''x'' ?a))"
    by (rule engine_reach.Step [OF engine_reach.Step [OF engine_reach.Start engine_step.Set_psv] engine_step.Delete_zone])
  note ok = engine_references_valid [OF this demo_engine_ok]
  have "en_zones ?a = [demo_zone]"
    by (simp add: user_set_psv_temp_def set_env_def split: option.split prod.split)
  then have "en_zones (snd (user_delete_zone ''x'' ?a)) = [demo_zone]"
    by (simp add: user_delete_zone_def get_zone_def demo_zone_def)
  then show ?thesis using ok by auto
qed

end
