(* ===== verification/Thd_GddvCondProps.thy ===== *)
theory Thd_GddvCondProps
  imports Thd_GddvCond Thd_TripRuns
begin

text \<open>
  The choice of the target by the evaluation loops is that of a direct reading of the conditions:
  the first set all of whose conditions hold.
\<close>

section \<open>What a condition says\<close>

definition satisfied :: "int \<Rightarrow> int \<Rightarrow> int \<Rightarrow> bool" where
  "satisfied cmp v a \<longleftrightarrow> cmp = 1 \<and> v = a \<or> cmp = 2 \<and> v \<le> a \<or> cmp = 3 \<and> a \<le> v \<or> cmp = 4 \<and> v \<noteq> a"

text \<open>The value a condition is about, if it is known.\<close>

definition temperature_of :: "string \<Rightarrow> 'a sys_scheme \<Rightarrow> int option" where
  "temperature_of dev st =
     map_option (\<lambda>i. sint (plain_read (sy_env st) (sy_sensors st ! i)) sdiv 100 + 2732) (search_sensor (after_last_dot dev) st)"

definition oem_value :: "reports \<Rightarrow> gddv \<Rightarrow> int \<Rightarrow> 'a sys_scheme \<Rightarrow> int option" where
  "oem_value ro g k st =
     (case sysfs_read_int (sy_env st) (gd_int3400_base_path g @ ''odvp'' @ show_int (oem_number k)) (ro_junk ro) of (r, v) \<Rightarrow>
        if r < 0 then None else Some v)"

definition observed :: "reports \<Rightarrow> gddv \<Rightarrow> condition \<Rightarrow> 'a sys_scheme \<Rightarrow> int option" where
  "observed ro g c st =
     (let k = cn_condition c
      in if k = 86 \<or> k = 6 then Some 3
         else if is_oem k then oem_value ro g k st
         else if is_temperature k then (if cn_ignore_condition c \<noteq> 0 then None else temperature_of (cn_device c) st)
         else if k = 10 then Some (if gd_lid_dev g \<and> \<not> ro_lid_closed ro then 1 else 0)
         else if k = 8 then Some (if ro_on_battery ro then 1 else 0)
         else if k = 11 then Some (if gd_tablet_dev g \<and> ro_tablet_mode ro then 2 else 1)
         else if k = 56 then Some (gd_power_slider g)
         else None)"

definition met :: "reports \<Rightarrow> gddv \<Rightarrow> condition \<Rightarrow> 'a sys_scheme \<Rightarrow> bool" where
  "met ro g c st \<longleftrightarrow>
     (if cn_condition c = 4 then cn_argument c = 0
      else case observed ro g c st of None \<Rightarrow> False | Some v \<Rightarrow> satisfied (cn_comparison c) v (cn_argument c))"

text \<open>The time a condition must have been met for; it does not count for the current target.\<close>

definition due :: "int \<Rightarrow> int \<Rightarrow> condition \<Rightarrow> bool" where
  "due now matched c \<longleftrightarrow>
     cn_target c = matched \<or> cn_time c = 0
     \<or> cn_state_entry_time c \<noteq> 0 \<and> satisfied (cn_time_comparison c) (s32 (now - cn_state_entry_time c)) (cn_time c)"

definition holds :: "reports \<Rightarrow> gddv \<Rightarrow> 'a sys_scheme \<Rightarrow> condition \<Rightarrow> bool" where
  "holds ro g st c \<longleftrightarrow>
     cn_condition c = 1 \<or> met ro g c st \<and> due (e_now (sy_env st)) (gd_current_target_matched g) c"

definition chosen_set :: "reports \<Rightarrow> gddv \<Rightarrow> 'a sys_scheme \<Rightarrow> condition list option" where
  "chosen_set ro g st = List.find (list_all (holds ro g st)) (gd_conditions g)"

section \<open>The loops\<close>

lemma compare_values_satisfied: "compare_values cmp v a = 0 \<longleftrightarrow> satisfied cmp v a"
  by (auto simp: compare_values_def satisfied_def comparison_codes thd_codes)

definition all_plain :: "'a sys_scheme \<Rightarrow> bool" where
  "all_plain st \<longleftrightarrow> list_all (\<lambda>s. sn_kind s = Plain_sensor) (sy_sensors st)"

lemma read_plain:
  assumes "all_plain st" "i < length (sy_sensors st)"
  shows "read_temperature (Suc n) i st = Some (plain_read (sy_env st) (sy_sensors st ! i), st)"
proof -
  have "sn_kind (sy_sensors st ! i) = Plain_sensor" using assms by (auto simp: all_plain_def list_all_length)
  then show ?thesis by (simp add: read_temperature_def sensor_read.simps(2))
qed

lemma temperature_codes: "is_temperature k \<Longrightarrow> k \<noteq> 86 \<and> k \<noteq> 6 \<and> \<not> is_oem k \<and> k \<noteq> 4"
  by (auto simp: is_temperature_def is_oem_def condition_codes)

lemma met_temperature:
  assumes "is_temperature (cn_condition c)"
  shows "met ro g c st \<longleftrightarrow> cn_ignore_condition c = 0 \<and>
    (case temperature_of (cn_device c) st of None \<Rightarrow> False | Some v \<Rightarrow> satisfied (cn_comparison c) v (cn_argument c))"
  using assms temperature_codes [OF assms] by (simp add: met_def observed_def Let_def)

lemma evaluate_temperature_met:
  assumes "all_plain st" "is_temperature (cn_condition c)"
  shows "\<exists>ret. evaluate_temperature_condition (Suc n) c st = Inr (ret, st) \<and> (ret = 0 \<longleftrightarrow> met ro g c st)"
proof (cases "search_sensor (after_last_dot (cn_device c)) st")
  case None
  then show ?thesis
    by (simp add: evaluate_temperature_condition_def met_temperature [OF assms(2)] temperature_of_def thd_codes)
next
  case (Some i)
  then have "i < length (sy_sensors st)" using find_index_Some by (auto simp: search_sensor_def)
  note r = read_plain [OF assms(1) this, of n]
  show ?thesis
    by (simp add: evaluate_temperature_condition_def met_temperature [OF assms(2)] temperature_of_def Some r
        compare_condition_def compare_values_satisfied thd_codes)
qed

lemma evaluate_oem_met:
  assumes "is_oem (cn_condition c)"
  shows "evaluate_oem_condition ro (sy_env st) g c = 0 \<longleftrightarrow> met ro g c st"
proof -
  have "cn_condition c \<noteq> 86" "cn_condition c \<noteq> 6" "cn_condition c \<noteq> 4" "oem_number (cn_condition c) \<noteq> -1"
    using assms by (auto simp: is_oem_def oem_number_def condition_codes)
  then show ?thesis using assms
    by (simp add: evaluate_oem_condition_def met_def observed_def oem_value_def compare_condition_def
        compare_values_satisfied Let_def case_prod_beta thd_codes)
qed

lemmas evaluate_defs = evaluate_os_type_condition_def evaluate_lid_condition_def evaluate_ac_condition_def
  evaluate_workload_condition_def evaluate_platform_type_condition_def evaluate_power_slider_condition_def
  compare_condition_def compare_values_satisfied

lemma evaluate_other_met:
  assumes "\<not> is_temperature (cn_condition c)" "\<not> is_oem (cn_condition c)"
  shows "\<exists>ret. evaluate_code ro n g c st = Inr (ret, st) \<and> (ret = 0 \<longleftrightarrow> met ro g c st)"
proof (cases "cn_condition c \<in> {86, 6, 10, 8, 11, 56, 4}")
  case True
  then have "cn_condition c = 86 \<or> cn_condition c = 6 \<or> cn_condition c = 10 \<or> cn_condition c = 8 \<or> cn_condition c = 11
      \<or> cn_condition c = 56 \<or> cn_condition c = 4" by simp
  then show ?thesis
    by (elim disjE) (simp_all add: evaluate_code_def met_def observed_def evaluate_defs is_temperature_def is_oem_def
        condition_codes thd_codes)
next
  case False
  then show ?thesis using assms by (simp add: evaluate_code_def met_def observed_def condition_codes thd_codes Let_def)
qed

lemma evaluate_code_met:
  assumes "all_plain st"
  shows "\<exists>ret. evaluate_code ro (Suc n) g c st = Inr (ret, st) \<and> (ret = 0 \<longleftrightarrow> met ro g c st)"
proof -
  consider "is_temperature (cn_condition c)" | "is_oem (cn_condition c)"
    | "\<not> is_temperature (cn_condition c)" "\<not> is_oem (cn_condition c)" by blast
  then show ?thesis
  proof cases
    case 1
    then show ?thesis using evaluate_temperature_met [OF assms, of c n ro g] temperature_codes [OF 1]
      by (simp add: evaluate_code_def condition_codes)
  next
    case 2
    then have "cn_condition c \<noteq> 86" by (auto simp: is_oem_def condition_codes)
    then show ?thesis using evaluate_oem_met [OF 2] 2 by (simp add: evaluate_code_def condition_codes)
  next
    case 3
    then show ?thesis by (rule evaluate_other_met)
  qed
qed

lemma evaluate_time_due:
  "evaluate_time now matched ret c = (ret', c') \<Longrightarrow>
    (ret' = 0 \<longleftrightarrow> ret = 0 \<and> due now matched c) \<and> cn_target c' = cn_target c"
  by (auto simp: evaluate_time_def due_def compare_time_def compare_values_satisfied Let_def thd_codes split: if_splits)

lemma evaluate_condition_holds:
  assumes "all_plain st"
  shows "\<exists>ret c'. evaluate_condition ro (Suc n) g c st = Inr (ret, c', st) \<and> (ret = 0 \<longleftrightarrow> holds ro g st c)
    \<and> cn_target c' = cn_target c"
proof (cases "cn_condition c = 1")
  case True
  then show ?thesis by (simp add: evaluate_condition_def holds_def condition_codes thd_codes)
next
  case False
  obtain ret where r: "evaluate_code ro (Suc n) g c st = Inr (ret, st)" "ret = 0 \<longleftrightarrow> met ro g c st"
    using evaluate_code_met [OF assms] by blast
  obtain ret' c' where t: "evaluate_time (e_now (sy_env st)) (gd_current_target_matched g) ret c = (ret', c')" by fastforce
  then show ?thesis using False r evaluate_time_due [OF t]
    by (simp add: evaluate_condition_def holds_def condition_codes)
qed

lemma evaluate_condition_set_holds:
  assumes "all_plain st"
  shows "\<exists>ret cs'. evaluate_condition_set ro (Suc n) g cs st = Inr (ret, cs', st) \<and> (ret = 0 \<longleftrightarrow> list_all (holds ro g st) cs)
    \<and> map cn_target cs' = map cn_target cs"
proof (induction cs)
  case Nil
  then show ?case by (simp add: thd_codes)
next
  case (Cons c cs)
  obtain ret c' where c: "evaluate_condition ro (Suc n) g c st = Inr (ret, c', st)" "ret = 0 \<longleftrightarrow> holds ro g st c"
    "cn_target c' = cn_target c" using evaluate_condition_holds [OF assms] by blast
  then show ?case using Cons.IH by (cases "ret = 0") (auto simp: thd_codes)
qed

lemma evaluate_sets_first:
  assumes "all_plain st" "list_all (\<lambda>cs. cs \<noteq> []) css"
  shows "\<exists>css'. evaluate_sets ro (Suc n) g css st =
    Inr (map_option (\<lambda>cs. cn_target (hd cs)) (List.find (list_all (holds ro g st)) css), css', st)"
  using assms(2)
proof (induction css)
  case Nil
  then show ?case by simp
next
  case (Cons cs css)
  obtain ret cs' where s: "evaluate_condition_set ro (Suc n) g cs st = Inr (ret, cs', st)"
    "ret = 0 \<longleftrightarrow> list_all (holds ro g st) cs" "map cn_target cs' = map cn_target cs"
    using evaluate_condition_set_holds [OF assms(1)] by blast
  show ?case
  proof (cases "ret = 0")
    case True
    obtain c ds c' ds' where "cs = c # ds" "cs' = c' # ds'" "cn_target c' = cn_target c"
      using Cons.prems s(3) by (cases cs; cases cs') auto
    then show ?thesis using True s by (simp add: thd_codes)
  next
    case False
    then show ?thesis using s Cons by (auto simp: thd_codes)
  qed
qed

text \<open>C17. The evaluation of the conditions returns the target of the first condition set all of
  whose conditions hold, and -1 when there is none: the loops with their early exits, entry times
  and error codes choose what a direct reading of the conditions does. A match is remembered as
  the current target. This is for sets that are not empty, read with plain sensors.\<close>

theorem evaluate_conditions_first_match:
  assumes "list_all (\<lambda>s. sn_kind s = Plain_sensor) (sy_sensors st)" "list_all (\<lambda>cs. cs \<noteq> []) (gd_conditions g)" "0 < n"
  shows "\<exists>g'. evaluate_conditions ro n g st =
      Inr (case chosen_set ro g st of None \<Rightarrow> -1 | Some cs \<Rightarrow> cn_target (hd cs), g', st)
    \<and> gd_current_target_matched g' =
      (case chosen_set ro g st of None \<Rightarrow> gd_current_target_matched g | Some cs \<Rightarrow> cn_target (hd cs))"
proof -
  obtain m where n: "n = Suc m" using assms(3) by (cases n) auto
  obtain css' where "evaluate_sets ro (Suc m) g (gd_conditions g) st =
      Inr (map_option (\<lambda>cs. cn_target (hd cs)) (chosen_set ro g st), css', st)"
    using evaluate_sets_first [of st "gd_conditions g" ro m g] assms(1,2) by (auto simp: all_plain_def chosen_set_def)
  then show ?thesis by (cases "chosen_set ro g st") (simp_all add: n evaluate_conditions_def Let_def)
qed

text \<open>A condition set without conditions, which a table with a count of zero yields, holds
  vacuously, and taking its target then reads outside of the vector: here when it is the first.\<close>

theorem empty_set_out_of_bounds:
  assumes "gd_conditions g = [] # css"
  shows "evaluate_conditions ro n g st = Inl Out_of_bounds"
  using assms by (simp add: evaluate_conditions_def thd_codes)

section \<open>Witnesses\<close>

text \<open>Two sets: the first wants a closed lid, the second Linux and a machine on battery.\<close>

definition demo_conditions :: gddv where
  "demo_conditions = cthd_gddv\<lparr>gd_lid_dev := True, gd_conditions :=
     [[(new_condition 1)\<lparr>cn_condition := 10, cn_comparison := 1\<rparr>],
      [(new_condition 2)\<lparr>cn_condition := 86, cn_comparison := 1, cn_argument := 3\<rparr>,
       (new_condition 2)\<lparr>cn_condition := 8, cn_comparison := 1, cn_argument := 1\<rparr>]]\<rparr>"

definition demo_reports :: reports where
  "demo_reports = \<lparr>ro_lid_closed = False, ro_tablet_mode = False, ro_on_battery = True, ro_junk = 0\<rparr>"

theorem evaluate_conditions_first_match_witness:
  "\<exists>g'. evaluate_conditions demo_reports 1 demo_conditions demo_sys = Inr (2, g', demo_sys) \<and> gd_current_target_matched g' = 2"
proof -
  have "chosen_set demo_reports demo_conditions demo_sys = Some (gd_conditions demo_conditions ! 1)"
    by (simp add: chosen_set_def demo_conditions_def cthd_gddv_def demo_reports_def new_condition_def holds_def met_def
        observed_def due_def satisfied_def is_oem_def is_temperature_def condition_codes)
  moreover have "cn_target (hd (gd_conditions demo_conditions ! 1)) = 2"
    by (simp add: demo_conditions_def cthd_gddv_def new_condition_def)
  ultimately show ?thesis
    using evaluate_conditions_first_match [of demo_sys demo_conditions 1 demo_reports]
    by (simp add: demo_sys_def demo_conditions_def cthd_gddv_def)
qed

theorem empty_set_out_of_bounds_witness:
  "evaluate_conditions demo_reports 1 (cthd_gddv\<lparr>gd_conditions := [[]]\<rparr>) demo_sys = Inl Out_of_bounds"
  by (rule empty_set_out_of_bounds) simp

end
