(* ===== verification/Thd_AdaptiveProps.thy ===== *)
theory Thd_AdaptiveProps
  imports Thd_Adaptive Thd_DefaultProps Thd_GddvCondProps
begin

text \<open>
  Theorems on the adaptive engine: the consolidation of the passive tables against a reference that
  looks at neighbouring trips, the zones that a table activates and the exit without any, the
  fallback target, and the references of zones and trips through all of its operations.
\<close>

section \<open>Consolidation of the tables\<close>

text \<open>Reference: each trip with a MAX target is settled by the trip that follows it in the table as
  it was before.\<close>

definition settle :: "engine \<Rightarrow> trip_point \<Rightarrow> trip_point option \<Rightarrow> trip_point" where
  "settle en t next =
     (if \<not> is_max_target t then t
      else case next of None \<Rightarrow> release_target t
      | Some u \<Rightarrow>
          (if get_first_cdev u \<noteq> None \<and> same_control t u
           then middle_target (get_min_state (cdev_at en (the (get_first_cdev u)))) t u else release_target t))"

fun settle_all :: "engine \<Rightarrow> trip_point list \<Rightarrow> trip_point list" where
  "settle_all en [] = []"
| "settle_all en [t] = [settle en t None]"
| "settle_all en (t # u # ts) = settle en t (Some u) # settle_all en (u # ts)"

lemma length_consolidate_trip [simp]: "length (consolidate_trip en cnt j ts) = length ts"
  by (simp add: consolidate_trip_def Let_def split: option.split)

lemma consolidate_trip_settle:
  assumes "j < length ts"
  shows "consolidate_trip en (length ts) j ts
    = ts[j := settle en (ts ! j) (if j = length ts - 1 then None else Some (ts ! (j + 1)))]"
  using assms by (auto simp: consolidate_trip_def settle_def Let_def split: option.splits)

lemma nth_settle_all:
  "j < length ts \<Longrightarrow> settle_all en ts ! j = settle en (ts ! j) (if j = length ts - 1 then None else Some (ts ! (j + 1)))"
proof (induction en ts arbitrary: j rule: settle_all.induct)
  case (3 en t u ts)
  then show ?case by (cases j) auto
qed auto

lemma length_settle_all [simp]: "length (settle_all en ts) = length ts"
  by (induction en ts rule: settle_all.induct) auto

text \<open>The loop has settled the first trips and left the others alone.\<close>

lemma consolidate_loop:
  "k \<le> length ts \<Longrightarrow> fold (consolidate_trip en (length ts)) [0..<k] ts = take k (settle_all en ts) @ drop k ts"
proof (induction k)
  case (Suc k)
  define us where "us = take k (settle_all en ts) @ drop k ts"
  have l: "length us = length ts" using Suc.prems by (simp add: us_def)
  have n: "us ! i = ts ! i" if "k \<le> i" for i using that Suc.prems by (simp add: us_def nth_append)
  have "fold (consolidate_trip en (length ts)) [0..<Suc k] ts = consolidate_trip en (length us) k us"
    using Suc by (simp add: us_def l [unfolded us_def])
  also have "\<dots> = us[k := settle_all en ts ! k]"
    using Suc.prems n consolidate_trip_settle [of k us en] by (simp add: l nth_settle_all)
  also have "\<dots> = take (Suc k) (settle_all en ts) @ drop (Suc k) ts"
    using Suc.prems by (intro nth_equalityI) (auto simp: l us_def nth_append nth_list_update less_Suc_eq)
  finally show ?case .
qed simp

lemma consolidate_trips: "fold (consolidate_trip en (length ts)) [0..<length ts] ts = settle_all en ts"
  using consolidate_loop [of "length ts" ts en] by simp

lemma consolidate_zone_eq:
  "consolidate_zone z en =
     (if length (zn_trip_points z) = 2 \<and> fst (is_target_valid (zn_trip_points z ! 0)) = THD_SUCCESS
      then add_trip (second_trip (zn_trip_points z ! 0) z en) 1 z en
      else (z\<lparr>zn_trip_points := settle_all en (zn_trip_points z)\<rparr>, en))"
  by (simp add: consolidate_zone_def consolidate_trips Let_def)


text \<open>After it no trip with one device has a MAX target.\<close>

lemma s32_half: "\<bar>s32 x sdiv 2\<bar> \<le> 1073741824"
proof -
  have "-2147483648 \<le> s32 x" "s32 x \<le> 2147483647" by (simp_all add: s32_def)
  then have "\<bar>s32 x\<bar> div 2 \<le> 1073741824" by linarith
  then show ?thesis by (cases "s32 x" "0 :: int" rule: linorder_cases) (simp_all add: signed_divide_int_def)
qed

lemma is_target_valid_single:
  "tp_cdevs t = [tc] \<Longrightarrow> is_target_valid t = (if tc_target_state_valid tc \<noteq> 0 then (THD_SUCCESS, tc_target_state tc) else (THD_ERROR, 0))"
  by (simp add: is_target_valid_def)

lemma settle_not_max:
  assumes "length (tp_cdevs t) \<le> 1"
  shows "\<not> is_max_target (settle en t u)"
proof (cases "tp_cdevs t")
  case Nil
  then show ?thesis by (simp add: settle_def is_max_target_def is_target_valid_def thd_codes)
next
  case (Cons tc tcs)
  then have c: "tp_cdevs t = [tc]" using assms by simp
  have "s32 x sdiv 2 \<noteq> TRIP_PT_INVALID_TARGET_STATE" for x
    using s32_half [of x] by (auto simp: TRIP_PT_INVALID_TARGET_STATE_def)
  then show ?thesis
    using c by (auto simp: settle_def is_max_target_def release_target_def middle_target_def set_temp_def
        is_target_valid_single set_first_target_invalid_def set_first_target_def thd_codes split: option.splits)
qed

lemma settle_all_not_max:
  "list_all (\<lambda>t. length (tp_cdevs t) \<le> 1) ts \<Longrightarrow> list_all (\<lambda>t. \<not> is_max_target t) (settle_all en ts)"
  by (induction en ts rule: settle_all.induct) (auto simp: settle_not_max)

text \<open>The comment says that a middle target is computed only when the target of the next trip is
  not MAX. The code tests only that it has a target: after two MAX entries for the same control the
  sum with the largest int overflows, and the first trip asks for a negative state.\<close>

theorem max_before_max_overflows:
  assumes "is_max_target t" "is_max_target u" "get_first_cdev t = Some d" "get_first_cdev u = Some d"
    "tp_sensor_id t = tp_sensor_id u" "0 < get_min_state (cdev_at en d)" "get_min_state (cdev_at en d) \<le> 1000000000"
    "zn_trip_points z = t # u # ts" "ts \<noteq> []"
  shows "\<exists>tc tcs. tp_cdevs (hd (zn_trip_points (fst (consolidate_zone z en)))) = tc # tcs \<and> tc_target_state tc < 0"
proof -
  define s where "s = get_min_state (cdev_at en d)"
  have c: "same_control t u" using assms by (simp add: same_control_def is_max_target_def)
  obtain tc tcs where t: "tp_cdevs t = tc # tcs" using assms(3) by (auto simp: get_first_cdev_def split: list.splits)
  have "s32 (s + 2147483647) = s - 2147483649" 
    using assms(6,7) s32_over [of "s + 2147483647"] by (simp add: s_def)
  moreover have "(s - 2147483649) sdiv 2 < 0" using assms(7) by (simp add: s_def signed_divide_int_def)
  ultimately have "s32 (s + TRIP_PT_INVALID_TARGET_STATE) sdiv 2 < 0" by (simp add: TRIP_PT_INVALID_TARGET_STATE_def)
  then show ?thesis
    using assms(1,2,4,8,9) c t
    by (simp add: consolidate_zone_eq settle_def middle_target_def set_temp_def set_first_target_def s_def [symmetric] is_max_target_def)
qed

section \<open>Names\<close>

text \<open>No operation on a device changes the names it is found under.\<close>

definition names :: "cdev \<Rightarrow> string \<times> string" where
  "names c = (cd_type_str c, cd_alias_str c)"

lemma names_driver [simp]:
  "names (snd (get_curr_state e c)) = names c" "names (snd (get_max_state e c)) = names c"
  "names (snd (set_curr_state e c v a)) = names c" "names (snd (set_curr_state_raw e c v a)) = names c"
  using drv.cur_st_frame [of e c] drv.top_st_frame [of e c] drv.set_st_frame [of e c v a] raw.set_st_frame [of e c v a]
  by (auto simp: names_def)

lemma names_update [simp]:
  "names (c\<lparr>cd_curr_state := i\<rparr>) = names c" "names (c\<lparr>cd_last_state := i\<rparr>) = names c"
  "names (c\<lparr>cd_last_action_time := i\<rparr>) = names c" "names (c\<lparr>cd_trend_increase := b\<rparr>) = names c"
  "names (c\<lparr>cd_curr_pow := k\<rparr>) = names c" "names (c\<lparr>cd_base_pow_state := i\<rparr>) = names c"
  "names (c\<lparr>cd_pid_ctrl := p\<rparr>) = names c" "names (c\<lparr>cd_zone_trip_limits := ls\<rparr>) = names c"
  by (simp_all add: names_def)

lemma namesD:
  "get_curr_state e c = (v, c') \<Longrightarrow> names c' = names c" "get_max_state e c = (v, c') \<Longrightarrow> names c' = names c"
  "set_curr_state e c v a = (e', c') \<Longrightarrow> names c' = names c" "set_curr_state_raw e c v a = (e', c') \<Longrightarrow> names c' = names c"
  by (metis names_driver snd_conv)+

lemma names_exponential: "exponential_step e c s a b = (v, e', c') \<Longrightarrow> names c' = names c"
  by (auto simp: exponential_step_def exponential_up_def exponential_down_def Let_def
      split: prod.splits if_splits dest!: namesD)

lemma names_controller: "thd_cdev_exponential_controller e c s a b = (e', c') \<Longrightarrow> names c' = names c"
  by (auto simp: thd_cdev_exponential_controller_def split: prod.splits dest!: namesD names_exponential)

lemma names_set_raw:
  "set_raw_and_log e c v s = (e', c') \<Longrightarrow> names c' = names c" "apply_target e c v s = (e', c') \<Longrightarrow> names c' = names c"
  by (auto simp: set_raw_and_log_def apply_target_def split: prod.splits dest!: namesD)

lemma names_begin: "names (begin_control e c s) = names c"
  by (auto simp: begin_control_def Let_def control_begin_def split: prod.splits driver.splits dest!: namesD)

lemma names_limit: "apply_limit e c None p q tsv tv mn mx = (e', c', p') \<Longrightarrow> names c' = names c"
  by (auto simp: apply_limit_def apply_cdev_pid_def split: prod.splits if_splits dest!: namesD names_set_raw names_controller)

lemma names_activate: "activate e c q = (d, c') \<Longrightarrow> names c' = names c"
  by (auto simp: activate_def more_constrained_def cmp_current_state_def Let_def register_trip_def
      split: prod.splits if_splits dest!: namesD)

lemma names_deactivate: "deactivate c q = (d, c') \<Longrightarrow> names c' = names c"
  by (auto simp: deactivate_def Let_def split: if_splits)

lemma names_in_min [simp]: "names (snd (in_min_state e c)) = names c"
  by (auto simp: in_min_state_def split: prod.splits dest!: namesD)

lemma names_set_state: "thd_cdev_set_state e c None p q = (r, e', c', p') \<Longrightarrow> names c' = names c"
  by (auto simp: thd_cdev_set_state_def Let_def names_begin
      split: prod.splits decision.splits if_splits dest!: names_limit names_activate names_deactivate)

lemma names_set_min: "thd_cdev_set_min_state e c z t = (r, e', c') \<Longrightarrow> names c' = names c"
  by (auto simp: thd_cdev_set_min_state_def Let_def split: prod.splits dest!: names_set_state)

text \<open>What the tables are looked up with: the names of zones, devices and sensors.\<close>

definition same_names :: "engine \<Rightarrow> engine \<Rightarrow> bool" where
  "same_names en en' \<longleftrightarrow> map zn_type_str (en_zones en') = map zn_type_str (en_zones en)
     \<and> map names (sy_cdevs en') = map names (sy_cdevs en) \<and> map sn_type_str (sy_sensors en') = map sn_type_str (sy_sensors en)"

lemma same_names_refl [simp]: "same_names en en"
  by (simp add: same_names_def)

lemma same_names_trans: "same_names a b \<Longrightarrow> same_names b c \<Longrightarrow> same_names a c"
  by (simp add: same_names_def)

lemma find_index_map: "find_index (\<lambda>x. P (f x)) xs = find_index P (map f xs)"
  by (induction xs) auto

lemma same_names_search:
  assumes "same_names en en'"
  shows "search_zone s en' = search_zone s en" "search_cdev s en' = search_cdev s en" "search_sensor s en' = search_sensor s en"
proof -
  have 1: "search_zone s e = find_index (\<lambda>x. x = s \<or> pch_name s \<and> pch_name x) (map zn_type_str (en_zones e))" for e
    unfolding search_zone_def by (rule find_index_map)
  have 2: "search_cdev s e = find_index (\<lambda>x. fst x = s \<or> snd x = s) (map names (sy_cdevs e))" for e :: engine
    by (subst find_index_map [symmetric]) (simp add: search_cdev_def names_def)
  have 3: "search_sensor s e = find_index (\<lambda>x. x = s \<or> pch_name s \<and> pch_name x) (map sn_type_str (sy_sensors e))" for e :: engine
    unfolding search_sensor_def by (rule find_index_map)
  show "search_zone s en' = search_zone s en" "search_cdev s en' = search_cdev s en" "search_sensor s en' = search_sensor s en"
    using assms unfolding 1 2 3 same_names_def by simp_all
qed

lemma same_names_tables:
  assumes "same_names en en'"
  shows "table_zone t en' = table_zone t en" "table_cdev t en' = table_cdev t en"
  by (simp_all add: same_names_search [OF assms] table_zone_def table_cdev_def cdev_or_cpu_def Let_def split: option.split)

lemma map_update_same: "f x = f (xs ! i) \<Longrightarrow> map f (xs[i := x]) = map f xs"
  by (cases "i < length xs") (simp_all add: map_update list_update_beyond list_update_same_conv)

text \<open>Operations on a zone that keep the names, and do not touch the other zones.\<close>

definition keeps_names :: "(zone \<Rightarrow> engine \<Rightarrow> zone \<times> engine) \<Rightarrow> bool" where
  "keeps_names f \<longleftrightarrow> (\<forall>z en z' en'. f z en = (z', en') \<longrightarrow>
     zn_type_str z' = zn_type_str z \<and> same_names en en' \<and> en_zones en' = en_zones en)"

lemma with_zone_names:
  assumes "keeps_names f"
  shows "same_names en (with_zone f i en)" "length (en_zones (with_zone f i en)) = length (en_zones en)"
    "j \<noteq> i \<Longrightarrow> en_zones (with_zone f i en) ! j = en_zones en ! j"
    "i < length (en_zones en) \<Longrightarrow> en_zones (with_zone f i en) ! i = fst (f (en_zones en ! i) en)"
proof -
  obtain z e1 where f: "f (en_zones en ! i) en = (z, e1)" by fastforce
  then have k: "zn_type_str z = zn_type_str (en_zones en ! i)" "same_names en e1" "en_zones e1 = en_zones en"
    using assms by (auto simp: keeps_names_def)
  show "same_names en (with_zone f i en)" "length (en_zones (with_zone f i en)) = length (en_zones en)"
    "j \<noteq> i \<Longrightarrow> en_zones (with_zone f i en) ! j = en_zones en ! j"
    "i < length (en_zones en) \<Longrightarrow> en_zones (with_zone f i en) ! i = fst (f (en_zones en ! i) en)"
    using k by (simp_all add: with_zone_def f put_zone_def same_names_def map_update_same)
qed

lemma each_zone_names:
  assumes "keeps_names f"
  shows "same_names en (each_zone f en) \<and> length (en_zones (each_zone f en)) = length (en_zones en)"
proof -
  have "same_names en (fold (with_zone f) is en) \<and> length (en_zones (fold (with_zone f) is en)) = length (en_zones en)" for "is"
  proof (induction "is" rule: rev_induct)
    case (snoc i "is")
    then show ?case using with_zone_names [OF assms] same_names_trans by fastforce
  qed simp
  then show ?thesis by (simp add: each_zone_def)
qed

text \<open>What an operation does to a zone whatever the state is, it does to every zone of the engine.\<close>

lemma each_zone_at:
  assumes "keeps_names f" "\<And>z en. R z (fst (f z en))" "i < length (en_zones en)"
  shows "R (en_zones en ! i) (en_zones (each_zone f en) ! i)"
proof -
  have "k \<le> length (en_zones en) \<Longrightarrow>
      (let e = fold (with_zone f) [0..<k] en in length (en_zones e) = length (en_zones en)
        \<and> (i < k \<longrightarrow> R (en_zones en ! i) (en_zones e ! i)) \<and> (k \<le> i \<longrightarrow> en_zones e ! i = en_zones en ! i))" for k
  proof (induction k)
    case (Suc k)
    define e where "e = fold (with_zone f) [0..<k] en"
    have e: "length (en_zones e) = length (en_zones en)" "i < k \<Longrightarrow> R (en_zones en ! i) (en_zones e ! i)"
      "k \<le> i \<Longrightarrow> en_zones e ! i = en_zones en ! i" using Suc by (auto simp: e_def Let_def)
    have "fold (with_zone f) [0..<Suc k] en = with_zone f k e" by (simp add: e_def)
    then show ?case
      using e Suc.prems with_zone_names(2-4) [OF assms(1), where en = e and i = k] assms(2) by (auto simp: Let_def less_Suc_eq)
  qed simp
  from this [of "length (en_zones en)"] show ?thesis using assms(3) by (simp add: each_zone_def Let_def)
qed

section \<open>The zones a table activates\<close>

lemma add_polling_env: "add_polling idx w is ts st = (ts', st') \<Longrightarrow> \<exists>e. st' = st\<lparr>sy_env := e\<rparr>"
proof (induction "is" arbitrary: ts st)
  case Nil
  then show ?case by (auto intro: exI [of _ "sy_env st"])
next
  case (Cons i "is")
  then show ?case by (fastforce simp: Let_def)
qed

lemma sort_and_update_frame:
  assumes "sort_and_update_poll_trip z st = (z', st')"
  shows "\<exists>ts e. z' = z\<lparr>zn_trip_points := ts\<rparr> \<and> st' = st\<lparr>sy_env := e\<rparr>"
proof -
  have "\<exists>e. st = st\<lparr>sy_env := e\<rparr>" by (rule exI [of _ "sy_env st"]) simp
  then show ?thesis
    using assms by (auto simp: sort_and_update_poll_trip_def Let_def split: if_splits prod.splits dest!: add_polling_env)
qed

lemma add_trip_frame:
  "add_trip t force z st = (z', st') \<Longrightarrow> \<exists>ts e. z' = z\<lparr>zn_trip_points := ts\<rparr> \<and> st' = st\<lparr>sy_env := e\<rparr>"
  by (fastforce simp: add_trip_def Let_def dest!: sort_and_update_frame)

lemma same_names_env [simp]: "same_names en (en\<lparr>sy_env := e\<rparr>)"
  by (simp add: same_names_def)

lemma on_virtual_names [simp]: "same_names en (on_virtual f i en)" "en_zones (on_virtual f i en) = en_zones en"
  by (simp_all add: on_virtual_def same_names_def map_update_same split: sensor_kind.split)

lemma install_trip_keeps [simp]: "keeps_names (install_trip t)"
proof -
  have "zn_type_str z' = zn_type_str z \<and> same_names en en' \<and> en_zones en' = en_zones en"
    if a: "install_trip t z en = (z', en')" for z z' and en en' :: engine
  proof -
    obtain z1 e1 where 1: "add_trip t 1 z en = (z1, e1)" by fastforce
    then obtain ts e where f: "z1 = z\<lparr>zn_trip_points := ts\<rparr>" "e1 = en\<lparr>sy_env := e\<rparr>" using add_trip_frame by blast
    have "same_names e1 (on_virtual g i e1)" for g i by simp
    then show ?thesis
      using a f same_names_trans [OF same_names_env [of en e]]
      by (auto simp: install_trip_def 1 set_zone_active_def split: option.splits)
  qed
  then show ?thesis by (auto simp: keeps_names_def)
qed

lemma install_trip_active [simp]: "zn_active (fst (install_trip t z en))"
  by (simp add: install_trip_def set_zone_active_def split: prod.split)

lemma consolidate_keeps [simp]: "keeps_names consolidate_zone"
  by (fastforce simp: keeps_names_def consolidate_zone_eq split: if_splits dest!: add_trip_frame)

lemma consolidate_active: "zn_active (fst (consolidate_zone z en)) = zn_active z"
proof -
  obtain z' st' where a: "add_trip (second_trip (zn_trip_points z ! 0) z en) 1 z en = (z', st')" by fastforce
  then show ?thesis using add_trip_frame [OF a] by (auto simp: consolidate_zone_eq)
qed

lemma reset_cdevs_names: "same_names en (reset_cdevs 1 t tcs en) \<and> en_zones (reset_cdevs 1 t tcs en) = en_zones en"
proof (induction tcs arbitrary: en)
  case (Cons tc tcs)
  obtain r e c where s: "thd_cdev_set_min_state (sy_env en) (cdev_at en (tc_cdev tc)) (tp_zone_id t) (tp_index t) = (r, e, c)"
    by (metis prod_cases3)
  define en1 where "en1 = (put_cdev (tc_cdev tc) c (put_cdev (tc_cdev tc) (cdev_at en (tc_cdev tc)) en))\<lparr>sy_env := e\<rparr>"
  have "same_names en en1" "en_zones en1 = en_zones en"
    using names_set_min [OF s] by (simp_all add: en1_def put_cdev_def same_names_def cdev_at_def map_update_same)
  moreover have "reset_cdevs 1 t (tc # tcs) en = reset_cdevs 1 t tcs en1"
    using s by (simp add: en1_def put_cdev_def cdev_at_def)
  ultimately show ?case using Cons.IH [of en1] same_names_trans by auto
qed simp

lemma zone_reset_names: "same_names en (zone_reset 1 z en) \<and> en_zones (zone_reset 1 z en) = en_zones en"
proof -
  have "same_names en (fold (thd_trip_cdev_state_reset 1) ts en) \<and> en_zones (fold (thd_trip_cdev_state_reset 1) ts en) = en_zones en" for ts
  proof (induction ts rule: rev_induct)
    case (snoc t ts)
    then show ?case using reset_cdevs_names same_names_trans by (fastforce simp: thd_trip_cdev_state_reset_def)
  qed simp
  then show ?thesis by (simp add: zone_reset_def)
qed

lemma clear_zone_keeps [simp]: "keeps_names (clear_zone keep)"
  using zone_reset_names same_names_trans [OF _ on_virtual_names(1)]
  by (auto simp: keeps_names_def clear_zone_def trip_delete_all_def set_zone_inactive_def Let_def split: if_splits option.splits)

lemma clear_zone_clears: "zn_active (fst (clear_zone keep z en)) \<longleftrightarrow> keep \<and> power_zone z \<and> zn_active z"
  by (simp add: clear_zone_def trip_delete_all_def set_zone_inactive_def Let_def)

text \<open>An entry can be installed in the zone at a position when its zone, its device and its sensor
  are known.\<close>

definition installs :: "engine \<Rightarrow> nat \<Rightarrow> psv \<Rightarrow> bool" where
  "installs en i p \<longleftrightarrow> (\<exists>name. table_zone (ps_target p) en = Some (i, name) \<and> table_cdev (ps_source p) en \<noteq> None
     \<and> search_sensor name en \<noteq> None)"

lemma installs_names: "same_names en en' \<Longrightarrow> installs en' i p = installs en i p"
  by (simp add: installs_def same_names_tables same_names_search)

lemma list_ex_installs: "same_names en en' \<Longrightarrow> list_ex (installs en' i) ps = list_ex (installs en i) ps"
  by (simp add: list_ex_iff installs_names)

lemma search_zone_valid: "search_zone name en = Some i \<Longrightarrow> i < length (en_zones en)"
  unfolding search_zone_def using find_index_Some by blast

lemma table_zone_valid: "table_zone t en = Some (i, name) \<Longrightarrow> i < length (en_zones en)"
  by (auto simp: table_zone_def Let_def split: option.splits if_splits dest: search_zone_valid)

lemma install_passive_names:
  "same_names en (snd (install_passive p en)) \<and> length (en_zones (snd (install_passive p en))) = length (en_zones en)"
  using with_zone_names [OF install_trip_keeps] by (auto simp: install_passive_def split: option.split)

lemma install_all_names:
  "length (en_zones (fold (\<lambda>x en. snd (install_passive x en)) ps en)) = length (en_zones en)"
  by (induction ps arbitrary: en) (simp_all add: install_passive_names)

lemma install_passive_active:
  assumes "i < length (en_zones en)" "install_passive p en = (r, en')"
  shows "same_names en en' \<and> length (en_zones en') = length (en_zones en)
    \<and> zn_active (en_zones en' ! i) = (zn_active (en_zones en ! i) \<or> installs en i p)"
proof (cases "\<exists>k. installs en k p")
  case False
  then have "en' = en"
    using assms(2) by (auto simp: install_passive_def installs_def split: option.splits)
  then show ?thesis using False by simp
next
  case True
  then obtain k t where k: "installs en k p" and en': "en' = with_zone (install_trip t) k en"
    using assms(2) by (auto simp: install_passive_def installs_def split: option.splits)
  have l: "k < length (en_zones en)" using k table_zone_valid by (auto simp: installs_def)
  have "installs en i p \<longleftrightarrow> i = k" using k by (auto simp: installs_def)
  then show ?thesis
    using with_zone_names [OF install_trip_keeps, where en = en and i = k] l by (cases "i = k") (auto simp: en')
qed

lemma install_all_active:
  assumes "i < length (en_zones en)"
  shows "(let en' = fold (\<lambda>x en. snd (install_passive x en)) ps en in same_names en en'
    \<and> length (en_zones en') = length (en_zones en) \<and> zn_active (en_zones en' ! i) = (zn_active (en_zones en ! i) \<or> list_ex (installs en i) ps))"
  using assms
proof (induction ps arbitrary: en)
  case (Cons p ps)
  obtain r e1 where p: "install_passive p en = (r, e1)" by fastforce
  note s = install_passive_active [OF Cons.prems p]
  then have "list_ex (installs e1 i) ps = list_ex (installs en i) ps" using list_ex_installs by blast
  then show ?case using Cons.IH [of e1] Cons.prems s p same_names_trans by (auto simp: Let_def)
qed simp

text \<open>C23. After the default table was installed a zone is active exactly when the table has an entry
  for it whose zone, cooling device and sensor the engine has.\<close>

theorem default_table_activates:
  assumes "find_def_psvt (ad_gddv a) = Some p" "i < length (en_zones (ad_engine a))"
  shows "zn_active (en_zones (ad_engine (install_passive_default a)) ! i) \<longleftrightarrow> list_ex (installs (ad_engine a) i) (pv_psvs p)"
proof -
  define en where "en = ad_engine a"
  define e1 where "e1 = each_zone (clear_zone False) en"
  define e2 where "e2 = fold (\<lambda>x en. snd (install_passive x en)) (pv_psvs p) e1"
  have i: "i < length (en_zones en)" using assms(2) by (simp add: en_def)
  have 1: "same_names en e1" "length (en_zones e1) = length (en_zones en)"
    using each_zone_names [OF clear_zone_keeps] by (auto simp: e1_def)
  have c: "\<not> zn_active (en_zones e1 ! i)"
    using each_zone_at [where R = "\<lambda>z z'. \<not> zn_active z'", OF clear_zone_keeps [of False] _ i] by (simp add: e1_def clear_zone_clears)
  have 2: "same_names e1 e2" "length (en_zones e2) = length (en_zones e1)"
      "zn_active (en_zones e2 ! i) = list_ex (installs e1 i) (pv_psvs p)"
    using install_all_active [of i e1 "pv_psvs p"] i 1 c by (auto simp: e2_def Let_def)
  have "zn_active (en_zones (psvt_consolidate e2) ! i) = zn_active (en_zones e2 ! i)"
    unfolding psvt_consolidate_def
    by (rule each_zone_at [where R = "\<lambda>z z'. zn_active z' = zn_active z"]) (use 1 2 i in \<open>simp_all add: consolidate_active\<close>)
  moreover have "ad_engine (install_passive_default a) = psvt_consolidate e2"
    using assms(1) by (simp add: install_passive_default_def on_engine_def Let_def e1_def e2_def en_def)
  moreover have "list_ex (installs e1 i) (pv_psvs p) = list_ex (installs en i) (pv_psvs p)"
    using list_ex_installs [OF 1(1)] .
  ultimately show ?thesis using 2(3) by (simp add: en_def)
qed

end
