(* ===== verification/Thd_AdaptiveInv.thy ===== *)
theory Thd_AdaptiveInv
  imports Thd_AdaptiveProps
begin

text \<open>
  Runs of the adaptive engine: the exit of the daemon when a table activates no zone, the fallback
  target, and the references of zones and trips, which stay valid through all operations.
\<close>

section \<open>The exit\<close>

lemma create_file_simps [simp]: "en_zones (create_file ok p en) = en_zones en"
  by (simp add: create_file_def set_env_def)

lemma psvt_zone_active:
  assumes "ad_int3400_installed a = 0" "i < length (en_zones (ad_engine a))"
  shows "zn_active (en_zones (psvt_consolidate (ad_engine (install_psvt p a))) ! i)
    = (power_zone (en_zones (ad_engine a) ! i) \<and> zn_active (en_zones (ad_engine a) ! i) \<or> list_ex (installs (ad_engine a) i) (pv_psvs p))"
proof -
  define en where "en = ad_engine a"
  define e1 where "e1 = each_zone (clear_zone True) en"
  define e2 where "e2 = fold (\<lambda>x en. snd (install_passive x en)) (pv_psvs p) e1"
  have i: "i < length (en_zones en)" using assms(2) by (simp add: en_def)
  have 1: "same_names en e1" "length (en_zones e1) = length (en_zones en)"
    using each_zone_names [OF clear_zone_keeps] by (auto simp: e1_def)
  have c: "zn_active (en_zones e1 ! i) = (power_zone (en_zones en ! i) \<and> zn_active (en_zones en ! i))"
    using each_zone_at [where R = "\<lambda>z z'. zn_active z' = (power_zone z \<and> zn_active z)", OF clear_zone_keeps [of True] _ i]
    by (simp add: e1_def clear_zone_clears)
  have 2: "same_names e1 e2" "length (en_zones e2) = length (en_zones e1)"
      "zn_active (en_zones e2 ! i) = (zn_active (en_zones e1 ! i) \<or> list_ex (installs en i) (pv_psvs p))"
    using install_all_active [of i e1 "pv_psvs p"] i 1 list_ex_installs [OF 1(1)] by (auto simp: e2_def Let_def)
  have "zn_active (en_zones (psvt_consolidate e2) ! i) = zn_active (en_zones e2 ! i)"
    unfolding psvt_consolidate_def
    by (rule each_zone_at [where R = "\<lambda>z z'. zn_active z' = zn_active z"]) (use 1 2 i in \<open>simp_all add: consolidate_active\<close>)
  moreover have "ad_engine (install_psvt p a) = e2"
    using assms(1) by (simp add: install_psvt_def clear_zones_def on_engine_def e1_def e2_def en_def)
  ultimately show ?thesis using c 1 2 by (simp add: en_def [symmetric])
qed


section \<open>The fallback target\<close>

lemma install_default_members [simp]:
  "ad_current_matched_target (install_passive_default a) = ad_current_matched_target a"
  "ad_fallback_id (install_passive_default a) = ad_fallback_id a"
  "ad_gddv (install_passive_default a) = ad_gddv a" "ad_passive_def_only (install_passive_default a) = ad_passive_def_only a"
  by (simp_all add: install_passive_default_def on_engine_def Let_def split: option.split)

lemma evaluate_members:
  assumes "evaluate ro n a = Inr (t, a')"
  shows "ad_current_matched_target a' = ad_current_matched_target a" "ad_fallback_id a' = ad_fallback_id a"
  using assms by (auto simp: evaluate_def split: sum.splits)

lemma check_conditions_members:
  assumes "check_conditions ro n a = Inr (r, a')"
  shows "ad_current_matched_target a' = ad_current_matched_target a"
  using assms by (auto simp: check_conditions_def choose_fallback_def Let_def split: if_splits sum.splits dest!: evaluate_members(1))

lemma start_members:
  assumes "adaptive_start ro n out d m a = Inr (r, a')"
  shows "ad_current_matched_target a' = ad_current_matched_target a"
  using assms
  by (auto simp: adaptive_start_def base_start_def on_engine_def split: if_splits sum.splits prod.splits
      dest!: evaluate_members(1) check_conditions_members)


section \<open>References\<close>

lemma with_zone_ok:
  assumes "engine_ok en" "i < length (en_zones en)" "f (en_zones en ! i) en = (z, en')" "sys_keeps en en'" "zone_refs z en"
  shows "engine_ok (with_zone f i en)"
proof -
  have "engine_ok en'" using assms(1,4) engine_ok_keeps by blast
  moreover have "zone_refs z en'" using assms(4,5) zone_refs_keeps by blast
  ultimately show ?thesis using assms(3) by (simp add: with_zone_def put_zone_ok)
qed

text \<open>An operation on a zone that keeps the references of the zone valid.\<close>

definition refs_op :: "(zone \<Rightarrow> engine \<Rightarrow> zone \<times> engine) \<Rightarrow> bool" where
  "refs_op f \<longleftrightarrow> (\<forall>z en z' en'. f z en = (z', en') \<longrightarrow> sys_keeps en en' \<and> (zone_refs z en \<longrightarrow> zone_refs z' en))"

lemma each_zone_ok:
  assumes "refs_op f" "engine_ok en"
  shows "engine_ok (each_zone f en)"
proof -
  have "engine_ok (fold (with_zone f) is e) \<and> length (en_zones (fold (with_zone f) is e)) = length (en_zones e)"
    if "engine_ok e" "\<forall>i\<in>set is. i < length (en_zones e)" for "is" e
    using that
  proof (induction "is" arbitrary: e)
    case (Cons i "is")
    obtain z e1 where f: "f (en_zones e ! i) e = (z, e1)" by fastforce
    have r: "zone_refs (en_zones e ! i) e" using Cons.prems by (simp add: engine_ok_def)
    have k: "sys_keeps e e1" "zone_refs z e" using assms(1) f r by (auto simp: refs_op_def)
    have "engine_ok (with_zone f i e)" using with_zone_ok [where f = f and i = i, OF Cons.prems(1) _ f k] Cons.prems(2) by simp
    moreover have "length (en_zones (with_zone f i e)) = length (en_zones e)"
      using f keeps_zones [OF k(1)] by (simp add: with_zone_def put_zone_def)
    ultimately show ?case using Cons.IH [of "with_zone f i e"] Cons.prems(2) by simp
  qed simp
  from this [of en "[0..<length (en_zones en)]"] show ?thesis using assms(2) by (simp add: each_zone_def)
qed

lemma forced_trip_refs:
  assumes "add_trip t 1 z en = (z', en')" "zone_refs z en" "devs_valid [t] en"
  shows "sys_keeps en en' \<and> zone_refs z' en"
proof -
  have "trips_kept (z\<lparr>zn_trip_points := zn_trip_points z @ [t]\<rparr>) en z' en'"
    using sort_and_update_trips [of "z\<lparr>zn_trip_points := zn_trip_points z @ [t]\<rparr>" en z' en'] assms(1) by (simp add: add_trip_def)
  moreover obtain ts e where "z' = z\<lparr>zn_trip_points := ts\<rparr>" using add_trip_frame [OF assms(1)] by blast
  ultimately show ?thesis using assms(2,3) by (auto simp: trips_kept_def zone_refs_def sensors_valid_def)
qed

lemma install_trip_refs:
  assumes "install_trip t z en = (z', en')" "zone_refs z en" "devs_valid [t] en"
  shows "sys_keeps en en' \<and> zone_refs z' en"
proof -
  obtain z1 e1 where 1: "add_trip t 1 z en = (z1, e1)" by fastforce
  note r = forced_trip_refs [OF 1 assms(2,3)]
  then have "zone_refs (z1\<lparr>zn_cdev_binded_status := True\<rparr>) en" by (simp add: zone_refs_def sensors_valid_def)
  then have "zone_refs (z1\<lparr>zn_cdev_binded_status := True\<rparr>) e1" using r zone_refs_keeps by blast
  moreover have k: "zone_kept (z1\<lparr>zn_cdev_binded_status := True\<rparr>) e1 z' en'"
    using set_active_keeps(1) assms(1) 1 by (simp add: install_trip_def)
  ultimately have "zone_refs z' en'" "sys_keeps e1 en'" using zone_kept_refs [OF k] by (auto simp: zone_kept_def)
  then show ?thesis using r sys_keeps_trans zone_refs_keeps by blast
qed

lemma bound_set_temp [simp]: "bound_cdevs (set_temp w t) = bound_cdevs t"
  by (simp add: set_temp_def bound_cdevs_def)

lemma bound_first_target [simp]:
  "bound_cdevs (snd (set_first_target_invalid t)) = bound_cdevs t" "bound_cdevs (snd (set_first_target s t)) = bound_cdevs t"
  by (auto simp: set_first_target_invalid_def set_first_target_def bound_cdevs_def split: list.splits)

lemma bound_settle [simp]: "bound_cdevs (settle en t u) = bound_cdevs t"
  by (simp add: settle_def release_target_def middle_target_def split: option.split)

lemma devs_valid_settle: "devs_valid (settle_all en ts) st = devs_valid ts st"
  by (induction en ts rule: settle_all.induct) simp_all

lemma second_trip_valid:
  assumes "fst (is_target_valid t) = THD_SUCCESS" "devs_valid [t] st"
  shows "devs_valid [second_trip t z en] st"
proof -
  obtain tc tcs where "tp_cdevs t = tc # tcs" using assms(1) by (cases "tp_cdevs t") (auto simp: is_target_valid_def thd_codes)
  then have "the (get_first_cdev t) < length (sy_cdevs st)"
    using assms(2) by (auto simp: devs_valid_def bound_cdevs_def get_first_cdev_def)
  then show ?thesis by (simp add: second_trip_def)
qed

lemma consolidate_refs: "refs_op consolidate_zone"
proof -
  have "sys_keeps en en' \<and> (zone_refs z en \<longrightarrow> zone_refs z' en)" if c: "consolidate_zone z en = (z', en')" for z z' en en'
  proof (cases "length (zn_trip_points z) = 2 \<and> fst (is_target_valid (zn_trip_points z ! 0)) = THD_SUCCESS")
    case True
    then have a: "add_trip (second_trip (zn_trip_points z ! 0) z en) 1 z en = (z', en')" using c by (simp add: consolidate_zone_eq)
    then have "sys_keeps en en'" using add_trip_frame [OF a] by auto
    moreover have "zone_refs z' en" if "zone_refs z en"
    proof -
      have "devs_valid [zn_trip_points z ! 0] en" using True that by (intro devs_valid_nth) (simp_all add: zone_refs_def)
      then show ?thesis using forced_trip_refs [OF a that second_trip_valid] True by simp
    qed
    ultimately show ?thesis by simp
  qed (use c in \<open>auto simp: consolidate_zone_eq zone_refs_def sensors_valid_def devs_valid_settle\<close>)
  then show ?thesis by (simp add: refs_op_def)
qed

lemma zone_reset_keeps: "sys_keeps en (zone_reset f z en)"
proof -
  have "sys_keeps en (fold (thd_trip_cdev_state_reset f) ts en)" for ts
  proof (induction ts rule: rev_induct)
    case (snoc t ts)
    then show ?case
      using sys_keeps_trans touches_keeps [OF reset_cdevs_touches] by (fastforce simp: thd_trip_cdev_state_reset_def)
  qed simp
  then show ?thesis by (simp add: zone_reset_def)
qed

lemma clear_refs: "refs_op (clear_zone keep)"
proof -
  have "sys_keeps en en' \<and> (zone_refs z en \<longrightarrow> zone_refs z' en)" if c: "clear_zone keep z en = (z', en')" for z z' en en'
  proof (cases "keep \<and> power_zone z")
    case False
    then have z: "zone_kept (trip_delete_all z) (zone_reset 1 z en) z' en'"
      using c set_active_keeps(2) by (auto simp: clear_zone_def Let_def split: if_splits)
    then have "sys_keeps en en'" "zone_refs z' en' = zone_refs (trip_delete_all z) (zone_reset 1 z en)"
      using sys_keeps_trans [OF zone_reset_keeps] zone_kept_refs [OF z] by (auto simp: zone_kept_def)
    moreover have "zone_refs (trip_delete_all z) en" if "zone_refs z en"
      using that by (simp add: zone_refs_def trip_delete_all_def sensors_valid_def)
    ultimately show ?thesis using zone_refs_keeps [OF zone_reset_keeps] zone_refs_keeps by blast
  qed (use c in \<open>auto simp: clear_zone_def\<close>)
  then show ?thesis by (simp add: refs_op_def)
qed

lemma install_ok:
  assumes "engine_ok en" "i < length (en_zones en)" "devs_valid [t] en"
  shows "engine_ok (with_zone (install_trip t) i en)"
proof -
  obtain z e1 where f: "install_trip t (en_zones en ! i) en = (z, e1)" by fastforce
  have r: "zone_refs (en_zones en ! i) en" using assms by (simp add: engine_ok_def)
  show ?thesis using with_zone_ok [where f = "install_trip t" and i = i, OF assms(1,2) f] install_trip_refs [OF f r assms(3)] by blast
qed

lemma table_cdev_valid: "table_cdev s en = Some r \<Longrightarrow> r < length (sy_cdevs en)" "cdev_or_cpu s en = Some r \<Longrightarrow> r < length (sy_cdevs en)"
  by (auto simp: table_cdev_def cdev_or_cpu_def split: option.splits if_splits dest: search_cdev_valid)

lemma install_passive_ok: "engine_ok en \<Longrightarrow> engine_ok (snd (install_passive p en))"
  by (auto simp: install_passive_def psv_trip_def Let_def split: option.splits
      intro!: install_ok dest: table_zone_valid table_cdev_valid)

lemma install_itmt_ok: "engine_ok en \<Longrightarrow> engine_ok (snd (install_itmt p en))"
  by (auto simp: install_itmt_def itmt_trip_def split: option.splits
      intro!: install_ok dest: table_zone_valid search_cdev_valid)

lemma psvt_consolidate_ok: "engine_ok en \<Longrightarrow> engine_ok (psvt_consolidate en)"
  by (simp add: psvt_consolidate_def each_zone_ok consolidate_refs)

lemma passive_temp_refs: "refs_op (\<lambda>z en. (set_passive_temp w z, en))"
proof -
  have "zone_refs (set_passive_temp w z) en" if "zone_refs z en" for z and en :: engine
    using that devs_valid_nth find_index_Some
    by (fastforce simp: set_passive_temp_def zone_refs_def sensors_valid_def split: option.split intro!: devs_valid_update)
  then show ?thesis by (simp add: refs_op_def)
qed

section \<open>References through targets and rounds\<close>

text \<open>A run that goes on keeps the references valid; one that stops is over.\<close>

definition run_ok :: "run \<Rightarrow> bool" where
  "run_ok r \<longleftrightarrow> (case r of Inl _ \<Rightarrow> True | Inr a \<Rightarrow> engine_ok (ad_engine a))"

lemma run_ok_simps [simp]: "run_ok (Inl x)" "run_ok (Inr a) = engine_ok (ad_engine a)"
  by (simp_all add: run_ok_def)

lemma bind_run_ok: "run_ok r \<Longrightarrow> (\<And>a. engine_ok (ad_engine a) \<Longrightarrow> run_ok (f a)) \<Longrightarrow> run_ok (bind_run r f)"
  by (cases r) (simp_all add: bind_run_def)

lemma ad_engine_on_engine [simp]: "ad_engine (on_engine f a) = f (ad_engine a)"
  by (simp add: on_engine_def)

lemma clear_zones_ok: "engine_ok (ad_engine a) \<Longrightarrow> engine_ok (ad_engine (clear_zones keep a))"
  by (simp add: clear_zones_def each_zone_ok clear_refs)

lemma install_all_ok:
  "engine_ok en \<Longrightarrow> engine_ok (fold (\<lambda>x en. snd (install_passive x en)) ps en)"
  "engine_ok en \<Longrightarrow> engine_ok (fold (\<lambda>x en. snd (install_itmt x en)) xs en)"
  by (auto intro: fold_ok [where P = engine_ok] install_passive_ok install_itmt_ok)

lemma set_itmt_target_ok: "set_itmt_target m t a = (r, a') \<Longrightarrow> engine_ok (ad_engine a) \<Longrightarrow> engine_ok (ad_engine a')"
  by (auto simp: set_itmt_target_def install_all_ok clear_zones_ok split: option.splits)

lemma set_trip_ok: "engine_ok (ad_engine a) \<Longrightarrow> run_ok (set_trip target arg a)"
proof -
  assume a: "engine_ok (ad_engine a)"
  have "engine_ok (with_zone (\<lambda>z en. (set_passive_temp w z, en)) i (ad_engine a))" if "i < length (en_zones (ad_engine a))" for w i
    using passive_temp_refs a that
    by (intro with_zone_ok [where f = "\<lambda>z en. (set_passive_temp w z, en)" and i = i]) (auto simp: refs_op_def engine_ok_def)
  then show ?thesis using a by (auto simp: set_trip_def Let_def split: option.split dest: search_zone_valid)
qed

lemma finish_target_ok: "engine_ok (ad_engine a) \<Longrightarrow> run_ok (finish_target ok t a)"
  by (simp add: finish_target_def Let_def psvt_consolidate_ok set_trip_ok)

lemma install_psvt_ok: "engine_ok (ad_engine a) \<Longrightarrow> engine_ok (ad_engine (install_psvt p a))"
  by (simp add: install_psvt_def install_all_ok clear_zones_ok)

lemma set_int3400_target_ok: "engine_ok (ad_engine a) \<Longrightarrow> run_ok (set_int3400_target m ok t a)"
  using set_itmt_target_ok [of m t a]
  by (auto simp: set_int3400_target_def Let_def finish_target_ok install_psvt_ok split: prod.splits option.splits)

lemma install_passive_default_ok: "engine_ok (ad_engine a) \<Longrightarrow> engine_ok (ad_engine (install_passive_default a))"
  by (simp add: install_passive_default_def Let_def each_zone_ok clear_refs psvt_consolidate_ok install_all_ok split: option.split)

lemma execute_target_ok: "engine_ok (ad_engine a) \<Longrightarrow> run_ok (execute_target m ok t a)"
  by (auto simp: execute_target_def Let_def set_int3400_target_ok split: option.split)

lemma execute_targets_ok: "engine_ok (ad_engine a) \<Longrightarrow> run_ok (execute_targets m ok ts a)"
  by (induction ts arbitrary: a) (simp_all add: bind_run_ok execute_target_ok)

lemma evaluate_code_keeps: "evaluate_code ro n g c st = Inr (r, st') \<Longrightarrow> sys_keeps st st'"
  by (auto simp: evaluate_code_def Let_def evaluate_temperature_condition_def split: if_splits option.splits
      dest: read_temperature_keeps)

lemma evaluate_condition_keeps: "evaluate_condition ro n g c st = Inr (r, c', st') \<Longrightarrow> sys_keeps st st'"
  by (auto simp: evaluate_condition_def bind_r_Inr case_prod_beta split: if_splits dest: evaluate_code_keeps)

lemma evaluate_condition_set_keeps: "evaluate_condition_set ro n g cs st = Inr (r, cs', st') \<Longrightarrow> sys_keeps st st'"
proof (induction cs arbitrary: st r cs')
  case (Cons c cs)
  then show ?case
    by (auto simp: bind_r_Inr split: if_splits dest!: evaluate_condition_keeps intro: sys_keeps_trans)
qed simp

lemma evaluate_sets_keeps: "evaluate_sets ro n g css st = Inr (t, css', st') \<Longrightarrow> sys_keeps st st'"
proof (induction css arbitrary: st t css')
  case (Cons cs css)
  then show ?case
    by (auto simp: bind_r_Inr split: if_splits list.splits dest!: evaluate_condition_set_keeps intro: sys_keeps_trans)
qed simp

lemma evaluate_ok:
  assumes "evaluate ro n a = Inr (t, a')" "engine_ok (ad_engine a)"
  shows "engine_ok (ad_engine a')"
proof -
  obtain g en where "evaluate_conditions ro n (ad_gddv a) (ad_engine a) = Inr (t, g, en)" and a': "a' = a\<lparr>ad_gddv := g, ad_engine := en\<rparr>"
    using assms(1) by (auto simp: evaluate_def split: sum.splits)
  then have "sys_keeps (ad_engine a) en"
    by (auto simp: evaluate_conditions_def bind_r_Inr Let_def split: option.splits dest: evaluate_sets_keeps)
  then show ?thesis using assms(2) engine_ok_keeps a' by simp
qed

lemma switch_target_ok: "engine_ok (ad_engine a) \<Longrightarrow> run_ok (switch_target m ok t a)"
  by (auto simp: switch_target_def Let_def exec_fallback_target_def install_default_if_none_def install_passive_default_ok
      intro!: bind_run_ok execute_targets_ok)

lemma update_engine_state_ok: "engine_ok (ad_engine a) \<Longrightarrow> run_ok (update_engine_state m ok ro n a)"
  by (auto simp: update_engine_state_def switch_target_ok split: sum.splits if_splits dest: evaluate_ok)

text \<open>A step of the adaptive engine: a round of its thread that goes on, or what users, timers,
  messages and the environment do to the engine.\<close>

inductive adaptive_step :: "machine \<Rightarrow> engine_class \<Rightarrow> adaptive \<Rightarrow> adaptive \<Rightarrow> bool" for m vm where
  Adaptive_round: "adaptive_round m ok ro n vm ev a = Inr a' \<Longrightarrow> adaptive_step m vm a a'"
| Engine_step: "engine_step (machine_host m) vm (ad_engine a) en \<Longrightarrow> adaptive_step m vm a (a\<lparr>ad_engine := en\<rparr>)"

inductive adaptive_reach :: "machine \<Rightarrow> engine_class \<Rightarrow> adaptive \<Rightarrow> adaptive \<Rightarrow> bool" for m vm where
  Adaptive_start: "adaptive_reach m vm a a"
| Adaptive_step: "adaptive_reach m vm a a' \<Longrightarrow> adaptive_step m vm a' a'' \<Longrightarrow> adaptive_reach m vm a a''"

context engine_methods
begin

lemma adaptive_finish_ok:
  assumes "engine_ok (ad_engine a)"
  shows "run_ok (adaptive_finish_round m ok ro n vm ev tm a)"
proof -
  have "run_ok (adaptive_state_check m ok ro n vm tm a1)" if "engine_ok (ad_engine a1)" for a1
    using that by (auto simp: adaptive_state_check_def intro!: bind_run_ok update_engine_state_ok)
  then show ?thesis
    using assms by (auto simp: adaptive_finish_round_def workarounds_ok split: option.splits bool.splits
        intro!: bind_run_ok dest: uevent_check_ok wakeup_check_ok)
qed

lemma adaptive_round_ok: "engine_ok (ad_engine a) \<Longrightarrow> run_ok (adaptive_round m ok ro n vm ev a)"
  by (auto simp: adaptive_round_def Let_def timed_check_def notify_zones_def measure_def split: option.splits
      intro!: adaptive_finish_ok dest!: all_zones_ok)

lemma adaptive_reach_ok: "adaptive_reach m vm a a' \<Longrightarrow> engine_ok (ad_engine a) \<Longrightarrow> engine_ok (ad_engine a')"
proof (induction rule: adaptive_reach.induct)
  case (Adaptive_step a a' a'')
  from Adaptive_step(2) show ?case
  proof cases
    case (Adaptive_round ok ro n ev)
    then show ?thesis using adaptive_round_ok [of a' m ok ro n ev] Adaptive_step by simp
  qed (use Adaptive_step engine_step_ok in auto)
qed

end


section \<open>Witnesses\<close>

definition demo_adaptive :: "psv list \<Rightarrow> adaptive" where
  "demo_adaptive ps = (cthd_engine_adaptive demo_engine)\<lparr>ad_gddv := cthd_gddv\<lparr>gd_psvts := [\<lparr>pv_name = ''IETM.D0'', pv_psvs = ps\<rparr>]\<rparr>\<rparr>"

lemma demo_adaptive_simps [simp]:
  "ad_engine (demo_adaptive ps) = demo_engine" "gd_psvts (ad_gddv (demo_adaptive ps)) = [\<lparr>pv_name = ''IETM.D0'', pv_psvs = ps\<rparr>]"
  "ad_int3400_installed (demo_adaptive ps) = 0"
  by (simp_all add: demo_adaptive_def cthd_engine_adaptive_def)

text \<open>An entry for the zone of the demo engine and its second fan.\<close>

definition fan_psv :: psv where
  "fan_psv = \<lparr>ps_name = [], ps_source = ''X.Fan2'', ps_target = ''SB.cpu__'', ps_priority = 1, ps_sample_period = 50, ps_temp = 3232,
     ps_domain = 9, ps_control_knob = 65536, ps_limit = ''MAX'', ps_step_size = 0, ps_limit_coeff = 0, ps_unlimit_coeff = 0\<rparr>"

lemma fan_psv_installs: "installs demo_engine 0 fan_psv"
  by (simp add: installs_def fan_psv_def table_zone_def table_cdev_def cdev_or_cpu_def strip_underscores_def after_last_dot_def
      search_zone_def search_cdev_def search_sensor_def demo_zone_def fan_sys_def cthd_sensor_def demo_fan_def cthd_cdev_def)

theorem default_table_activates_witness:
  "zn_active (en_zones (ad_engine (install_passive_default (demo_adaptive [fan_psv]))) ! 0)"
  using default_table_activates [of "demo_adaptive [fan_psv]" "\<lparr>pv_name = ''IETM.D0'', pv_psvs = [fan_psv]\<rparr>" 0] fan_psv_installs
  by (simp add: find_def_psvt_def)

lemma strncmp_same: "strncmp k s s = 0"
proof (induction k arbitrary: s)
  case (Suc k)
  then show ?case by (cases s) auto
qed simp

definition demo_psvt_target :: adaptive_target where
  "demo_psvt_target = \<lparr>at_target_id = 1, at_name = [], at_participant = [], at_domain = 0, at_code = ''PSVT'', at_argument = ''IETM.D0''\<rparr>"


text \<open>A vault with a condition that is not supported and one power target.\<close>

definition odd_gddv :: gddv where
  "odd_gddv = cthd_gddv\<lparr>gd_conditions := [[(new_condition 5)\<lparr>cn_condition := 2\<rparr>]],
     gd_targets := [\<lparr>at_target_id = 5, at_name = [], at_participant = ''TCPU'', at_domain = 9, at_code = ''PL1MAX'', at_argument = ''15000''\<rparr>]\<rparr>"

lemma odd_evaluate: "evaluate ro n (a\<lparr>ad_gddv := odd_gddv\<rparr>) = Inr (-1, a\<lparr>ad_gddv := odd_gddv\<rparr>)"
  by (simp add: evaluate_def odd_gddv_def evaluate_conditions_def evaluate_condition_def evaluate_code_def new_condition_def
      condition_codes is_oem_def is_temperature_def evaluate_time_def thd_codes cthd_gddv_def)

lemma odd_check: "check_conditions ro n (a\<lparr>ad_gddv := odd_gddv\<rparr>) = Inr (THD_SUCCESS, a\<lparr>ad_gddv := odd_gddv, ad_fallback_id := 0\<rparr>)"
proof -
  have "verify_conditions odd_gddv \<noteq> 0"
    by (simp add: odd_gddv_def verify_conditions_def verify_condition_def new_condition_def condition_codes is_oem_def
        is_temperature_def thd_codes cthd_gddv_def)
  moreover have "find_agressive_target odd_gddv = 0"
    by (simp add: find_agressive_target_def odd_gddv_def aggressive_step_def is_power_target_def stoi_def strtol_def parse_sign_def
        is_space_def is_digit_def digit_val_def in_s32_def)
  ultimately show ?thesis by (simp add: check_conditions_def odd_evaluate choose_fallback_def)
qed



text \<open>Two MAX entries for the second fan.\<close>

definition max_trip :: "nat \<Rightarrow> trip_point" where
  "max_trip d = (cthd_trip_point 0 PASSIVE 50000 0 0 0 SEQUENTIAL)
     \<lparr>tp_cdevs := [(trip_pt_cdev_init d)\<lparr>tc_target_state_valid := 1, tc_target_state := TRIP_PT_INVALID_TARGET_STATE\<rparr>]\<rparr>"

theorem max_before_max_overflows_witness:
  "\<exists>tc tcs. tp_cdevs (hd (zn_trip_points (fst (consolidate_zone
      (demo_zone\<lparr>zn_trip_points := [max_trip 0, max_trip 0, cthd_trip_point 2 POLLING 45000 0 0 0 PARALLEL]\<rparr>)
      (demo_engine\<lparr>sy_cdevs := [demo_fan\<lparr>cd_min_state := 15000000, cd_max_state := 5000000\<rparr>]\<rparr>))))) = tc # tcs \<and> tc_target_state tc < 0"
  by (rule max_before_max_overflows [where t = "max_trip 0" and u = "max_trip 0" and d = 0
        and ts = "[cthd_trip_point 2 POLLING 45000 0 0 0 PARALLEL]"])
    (simp_all add: max_trip_def is_max_target_def is_target_valid_def get_first_cdev_def trip_pt_cdev_init_def cdev_at_def get_min_state_def)

end
