(* ===== verification/Thd_Parse.thy ===== *)
theory Thd_Parse
  imports Thd_EngineDefault Thd_GddvBuf
begin

unbundle bit_operations_syntax

text \<open>
  The configuration file, \<^verbatim>\<open>thd_parse.cpp\<close>: choosing and checking the file, turning its XML tree into
  the records of \<^verbatim>\<open>thd_parse.h\<close>, choosing the platform that matches this machine, and the accessors
  of the engine. libxml2 is not part of the sources: the tree that \<^verbatim>\<open>xmlReadFile\<close> makes of a file
  and \<^verbatim>\<open>xmlNodeListGetString\<close> are arguments. A null pointer that is followed and a \<^verbatim>\<open>char *\<close> that
  leaves its allocation are the fault \<open>Out_of_bounds\<close>.
\<close>

section \<open>The tree\<close>

datatype xml_node = Element string "xml_node list" | XText string | XOther

text \<open>\<^verbatim>\<open>xmlNodeListGetString(doc, list, 1)\<close>; \<open>None\<close> is \<^verbatim>\<open>nullptr\<close>.\<close>

type_synonym node_text = "xml_node list \<Rightarrow> string option"

definition is_name :: "string \<Rightarrow> string \<Rightarrow> bool" where
  "is_name a b \<longleftrightarrow> thd_strcasecmp_n (Some a) (Some b) = 0"

text \<open>The loop over a node and its siblings, which looks at the elements only.\<close>

fun for_elements :: "(string \<Rightarrow> xml_node list \<Rightarrow> 'a \<Rightarrow> 'a result) \<Rightarrow> xml_node list \<Rightarrow> 'a \<Rightarrow> 'a result" where
  "for_elements f [] acc = Inr acc"
| "for_elements f (Element nm kids # ns) acc = bind_r (f nm kids acc) (for_elements f ns)"
| "for_elements f (XText s # ns) acc = for_elements f ns acc"
| "for_elements f (XOther # ns) acc = for_elements f ns acc"

text \<open>An element whose content is \<^verbatim>\<open>nullptr\<close> is passed over.\<close>

definition with_text ::
    "node_text \<Rightarrow> (string \<Rightarrow> xml_node list \<Rightarrow> string \<Rightarrow> 'a \<Rightarrow> 'a result) \<Rightarrow> string \<Rightarrow> xml_node list \<Rightarrow> 'a \<Rightarrow> 'a result" where
  "with_text g f nm kids acc = (case g kids of None \<Rightarrow> Inr acc | Some v \<Rightarrow> f nm kids v acc)"

section \<open>Values\<close>

definition string_trim :: "string \<Rightarrow> string" where
  "string_trim s = fold removeAll [CHR 0x0A, CHR '' '', CHR 0x09, CHR 0x0D] s"

text \<open>Only blanks: the loop from the end does not stop within the text and reads, and then writes,
  before its first byte.\<close>

definition char_trim :: "string \<Rightarrow> string result" where
  "char_trim s =
     (if s = [] then Inr []
      else if list_all is_space s then Inl Out_of_bounds
      else Inr (rev (dropWhile is_space (rev (dropWhile is_space s)))))"

text \<open>\<^verbatim>\<open>atof\<close>: 0 when the text does not start with a number.\<close>

definition atof :: "string \<Rightarrow> rat" where
  "atof s =
     (let r = dropWhile is_space s; neg = (take 1 r = ''-''); r1 = (if take 1 r = ''-'' \<or> take 1 r = ''+'' then tl r else r)
      in case parse_decimal r1 of None \<Rightarrow> 0 | Some x \<Rightarrow> f64 (if neg then - x else x))"

text \<open>A \<^verbatim>\<open>double\<close> stored in an \<^verbatim>\<open>int\<close>; outside of the range of \<^verbatim>\<open>int\<close> that is undefined, here it wraps.\<close>

definition atof_int :: "string \<Rightarrow> int" where
  "atof_int s = s32 (rat_trunc (atof s))"

section \<open>Trip points\<close>

record pid_control =
  kc_kp :: rat
  kc_ki :: rat
  kc_kd :: rat

definition pid_field :: "string \<Rightarrow> xml_node list \<Rightarrow> string \<Rightarrow> pid_control \<Rightarrow> pid_control result" where
  "pid_field nm kids v p =
     Inr (if is_name nm ''Kp'' then p\<lparr>kc_kp := atof v\<rparr>
          else if is_name nm ''Kd'' then p\<lparr>kc_kd := atof v\<rparr>
          else if is_name nm ''Ki'' then p\<lparr>kc_ki := atof v\<rparr> else p)"

definition default_pid :: pid_control where
  "default_pid = \<lparr>kc_kp = f64 (5 / 10000), kc_ki = f64 (1 / 10000), kc_kd = f64 (1 / 10000)\<rparr>"

definition parse_pid_values :: "node_text \<Rightarrow> xml_node list \<Rightarrow> pid_control result" where
  "parse_pid_values g ns = for_elements (with_text g pid_field) ns default_pid"

text \<open>\<^verbatim>\<open>trip_cdev_depend_t\<close> is \<open>None\<close> while its flag is 0; both strings are empty then.\<close>

definition dependency_field ::
    "string \<Rightarrow> xml_node list \<Rightarrow> string \<Rightarrow> (string \<times> string) option \<Rightarrow> (string \<times> string) option result" where
  "dependency_field nm kids v d =
     (case (case d of None \<Rightarrow> ([], []) | Some p \<Rightarrow> p) of (cdev, state) \<Rightarrow>
        if is_name nm ''CoolingDeviceType'' then bind_r (char_trim v) (\<lambda>t. Inr (Some (t, state)))
        else if is_name nm ''CoolingDeviceState'' then bind_r (char_trim v) (\<lambda>t. Inr (Some (cdev, t)))
        else Inr (Some (cdev, state)))"

definition parse_dependency_values ::
    "node_text \<Rightarrow> xml_node list \<Rightarrow> (string \<times> string) option \<Rightarrow> (string \<times> string) option result" where
  "parse_dependency_values g = for_elements (with_text g dependency_field)"

definition trip_cdev_field ::
    "node_text \<Rightarrow> string \<Rightarrow> xml_node list \<Rightarrow> string \<Rightarrow> trip_cdev_conf \<Rightarrow> trip_cdev_conf result" where
  "trip_cdev_field g nm kids v c =
     (if is_name nm ''type'' then Inr (c\<lparr>xc_type := string_trim v\<rparr>)
      else if is_name nm ''influence'' then Inr (c\<lparr>xc_influence := atoi v\<rparr>)
      else if is_name nm ''SamplingPeriod'' then Inr (c\<lparr>xc_sampling_period := atoi v\<rparr>)
      else if is_name nm ''TargetState'' then Inr (c\<lparr>xc_target_state := atoi v, xc_target_state_valid := 1\<rparr>)
      else if is_name nm ''TargetMinState'' then Inr (c\<lparr>xc_target_min_state := atoi v, xc_min_max_valid := 1\<rparr>)
      else if is_name nm ''TargetMaxState'' then Inr (c\<lparr>xc_target_max_state := atoi v, xc_min_max_valid := 1\<rparr>)
      else if is_name nm ''PidControl''
      then bind_r (parse_pid_values g kids)
             (\<lambda>p. Inr (c\<lparr>xc_pid_param := \<lparr>pp_valid = 1, pp_kp = kc_kp p, pp_ki = kc_ki p, pp_kd = kc_kd p\<rparr>\<rparr>))
      else Inr c)"

definition parse_new_trip_cdev :: "node_text \<Rightarrow> xml_node list \<Rightarrow> trip_cdev_conf \<Rightarrow> trip_cdev_conf result" where
  "parse_new_trip_cdev g = for_elements (with_text g (trip_cdev_field g))"

definition no_trip_cdev :: trip_cdev_conf where
  "no_trip_cdev =
     \<lparr>xc_type = [], xc_influence = 0, xc_sampling_period = 0, xc_target_state_valid = 0, xc_target_state = 0,
      xc_pid_param = \<lparr>pp_valid = 0, pp_kp = 0, pp_ki = 0, pp_kd = 0\<rparr>, xc_min_max_valid = 0,
      xc_target_min_state = 0, xc_target_max_state = 0\<rparr>"

definition trip_type_named :: "string \<Rightarrow> trip_point_type \<Rightarrow> trip_point_type" where
  "trip_type_named t old =
     (if is_name t ''active'' then ACTIVE else if is_name t ''passive'' then PASSIVE
      else if is_name t ''critical'' then CRITICAL else if is_name t ''hot'' then HOT
      else if is_name t ''max'' then MAX_TRIP else old)"

definition control_type_of :: "string \<Rightarrow> trip_control_type" where
  "control_type_of t = (if is_name t ''SEQUENTIAL'' then SEQUENTIAL else PARALLEL)"

definition trip_field :: "node_text \<Rightarrow> string \<Rightarrow> xml_node list \<Rightarrow> string \<Rightarrow> trip_conf \<Rightarrow> trip_conf result" where
  "trip_field g nm kids v t =
     (if is_name nm ''Temperature'' then Inr (t\<lparr>xt_temperature := atoi v\<rparr>)
      else if is_name nm ''Power'' then Inr (t\<lparr>xt_temperature := atoi v\<rparr>)
      else if is_name nm ''Hyst'' then Inr (t\<lparr>xt_hyst := atoi v\<rparr>)
      else if is_name nm ''CoolingDevice''
      then bind_r (parse_new_trip_cdev g kids no_trip_cdev) (\<lambda>c. Inr (t\<lparr>xt_cdev_trips := xt_cdev_trips t @ [c]\<rparr>))
      else if is_name nm ''SensorType'' then Inr (t\<lparr>xt_sensor_type := string_trim v\<rparr>)
      else if is_name nm ''type''
      then bind_r (char_trim v) (\<lambda>s. Inr (t\<lparr>xt_trip_pt_type := trip_type_named s (xt_trip_pt_type t)\<rparr>))
      else if is_name nm ''ControlType'' then bind_r (char_trim v) (\<lambda>s. Inr (t\<lparr>xt_control_type := control_type_of s\<rparr>))
      else if is_name nm ''DependsOn''
      then bind_r (parse_dependency_values g kids (xt_dependency t)) (\<lambda>d. Inr (t\<lparr>xt_dependency := d\<rparr>))
      else Inr t)"

definition parse_new_trip_point :: "node_text \<Rightarrow> xml_node list \<Rightarrow> trip_conf \<Rightarrow> trip_conf result" where
  "parse_new_trip_point g ns t =
     for_elements (with_text g (trip_field g)) ns (t\<lparr>xt_temperature := 0, xt_trip_pt_type := ACTIVE\<rparr>)"

definition no_trip :: trip_conf where
  "no_trip =
     \<lparr>xt_temperature = 0, xt_hyst = 0, xt_trip_pt_type = PASSIVE, xt_control_type = PARALLEL, xt_sensor_type = [],
      xt_dependency = None, xt_cdev_trips = []\<rparr>"

definition parse_trip_points :: "node_text \<Rightarrow> xml_node list \<Rightarrow> zone_conf \<Rightarrow> zone_conf result" where
  "parse_trip_points g =
     for_elements (\<lambda>nm kids z.
       if is_name nm ''TripPoint''
       then bind_r (parse_new_trip_point g kids no_trip) (\<lambda>t. Inr (z\<lparr>zc_trip_pts := zc_trip_pts z @ [t]\<rparr>))
       else Inr z)"

section \<open>Zones\<close>

text \<open>The type is taken from the content without a test for \<^verbatim>\<open>nullptr\<close>.\<close>

definition zone_field :: "node_text \<Rightarrow> string \<Rightarrow> xml_node list \<Rightarrow> zone_conf \<Rightarrow> zone_conf result" where
  "zone_field g nm kids z =
     (if is_name nm ''TripPoints'' then parse_trip_points g kids z
      else if is_name nm ''Type''
      then (case g kids of None \<Rightarrow> Inl Out_of_bounds | Some v \<Rightarrow> Inr (z\<lparr>zc_type := string_trim v\<rparr>))
      else Inr z)"

definition parse_new_zone :: "node_text \<Rightarrow> xml_node list \<Rightarrow> zone_conf \<Rightarrow> zone_conf result" where
  "parse_new_zone g = for_elements (zone_field g)"

text \<open>One variable holds every zone in turn; only its trips are cleared.\<close>

definition zone_element ::
    "node_text \<Rightarrow> string \<Rightarrow> xml_node list \<Rightarrow> zone_conf \<times> thermal_info \<Rightarrow> (zone_conf \<times> thermal_info) result" where
  "zone_element g nm kids st =
     (if is_name nm ''ThermalZone''
      then bind_r (parse_new_zone g kids ((fst st)\<lparr>zc_trip_pts := []\<rparr>))
             (\<lambda>z. Inr (z, (snd st)\<lparr>ti_zones := ti_zones (snd st) @ [z]\<rparr>))
      else Inr st)"

definition parse_thermal_zones :: "node_text \<Rightarrow> xml_node list \<Rightarrow> thermal_info \<Rightarrow> thermal_info result" where
  "parse_thermal_zones g ns ti =
     bind_r (for_elements (zone_element g) ns (\<lparr>zc_type = [], zc_trip_pts = []\<rparr>, ti)) (\<lambda>st. Inr (snd st))"

section \<open>Cooling devices\<close>

definition set_mask :: "nat \<Rightarrow> cooling_dev \<Rightarrow> cooling_dev" where
  "set_mask k c = c\<lparr>cc_mask := cc_mask c OR push_bit k 1\<rparr>"

definition cdev_field :: "node_text \<Rightarrow> string \<Rightarrow> xml_node list \<Rightarrow> string \<Rightarrow> cooling_dev \<Rightarrow> cooling_dev result" where
  "cdev_field g nm kids v c =
     (if is_name nm ''Index'' then Inr (c\<lparr>cc_index := atoi v\<rparr>)
      else if is_name nm ''Type'' then Inr (c\<lparr>cc_type_string := string_trim v\<rparr>)
      else if is_name nm ''Path'' then Inr ((set_mask 5 c)\<lparr>cc_path_str := string_trim v\<rparr>)
      else if is_name nm ''MinState'' then Inr ((set_mask 0 c)\<lparr>cc_min_state := atoi v\<rparr>)
      else if is_name nm ''MaxState'' then Inr ((set_mask 1 c)\<lparr>cc_max_state := atoi v\<rparr>)
      else if is_name nm ''IncDecStep'' then Inr ((set_mask 2 c)\<lparr>cc_inc_dec_step := atoi v\<rparr>)
      else if is_name nm ''ReadBack'' then Inr ((set_mask 3 c)\<lparr>cc_read_back := (atoi v \<noteq> 0)\<rparr>)
      else if is_name nm ''DebouncePeriod'' then Inr ((set_mask 8 c)\<lparr>cc_debounce_interval := atoi v\<rparr>)
      else if is_name nm ''PidControl''
      then bind_r (parse_pid_values g kids)
             (\<lambda>p. Inr ((set_mask 9 c)\<lparr>cc_pid_enable := True, cc_kp := kc_kp p, cc_ki := kc_ki p, cc_kd := kc_kd p\<rparr>))
      else if is_name nm ''AutoOffMode'' then Inr ((set_mask 4 c)\<lparr>cc_auto_down_control := (atoi v \<noteq> 0)\<rparr>)
      else if is_name nm ''WritePrefix'' then Inr ((set_mask 10 c)\<lparr>cc_write_prefix := v\<rparr>)
      else Inr c)"

definition parse_new_cooling_dev :: "node_text \<Rightarrow> xml_node list \<Rightarrow> cooling_dev \<Rightarrow> cooling_dev result" where
  "parse_new_cooling_dev g ns c =
     for_elements (with_text g (cdev_field g)) ns
       (c\<lparr>cc_max_state := 0, cc_min_state := 0, cc_mask := 0, cc_inc_dec_step := 1, cc_read_back := True,
          cc_auto_down_control := False, cc_status := False, cc_pid_enable := False,
          cc_unit_val := ABSOULUTE_VALUE, cc_debounce_interval := 0\<rparr>)"

text \<open>One variable holds every device in turn; \<open>junk\<close> is what its gains hold before the first.\<close>

definition first_cdev :: "pid_control \<Rightarrow> cooling_dev" where
  "first_cdev junk =
     \<lparr>cc_status = False, cc_mask = 0, cc_index = 0, cc_unit_val = ABSOULUTE_VALUE, cc_min_state = 0, cc_max_state = 0,
      cc_inc_dec_step = 0, cc_read_back = False, cc_auto_down_control = False, cc_type_string = [], cc_path_str = [],
      cc_debounce_interval = 0, cc_pid_enable = False, cc_kp = kc_kp junk, cc_ki = kc_ki junk, cc_kd = kc_kd junk,
      cc_write_prefix = []\<rparr>"

definition cdev_element ::
    "node_text \<Rightarrow> string \<Rightarrow> xml_node list \<Rightarrow> cooling_dev \<times> thermal_info \<Rightarrow> (cooling_dev \<times> thermal_info) result" where
  "cdev_element g nm kids st =
     (if is_name nm ''CoolingDevice''
      then bind_r (parse_new_cooling_dev g kids
             ((fst st)\<lparr>cc_index := 0, cc_max_state := 0, cc_min_state := 0, cc_inc_dec_step := 1,
                        cc_auto_down_control := False, cc_path_str := [], cc_type_string := []\<rparr>))
             (\<lambda>c. Inr (c, (snd st)\<lparr>ti_cooling_devs := ti_cooling_devs (snd st) @ [c]\<rparr>))
      else Inr st)"

definition parse_cooling_devs :: "node_text \<Rightarrow> pid_control \<Rightarrow> xml_node list \<Rightarrow> thermal_info \<Rightarrow> thermal_info result" where
  "parse_cooling_devs g junk ns ti =
     bind_r (for_elements (cdev_element g) ns (first_cdev junk, ti)) (\<lambda>st. Inr (snd st))"

section \<open>Sensors\<close>

definition link_field :: "string \<Rightarrow> xml_node list \<Rightarrow> string \<Rightarrow> sensor_conf \<Rightarrow> sensor_conf result" where
  "link_field nm kids v s =
     Inr (if is_name nm ''SensorType'' then s\<lparr>sc_link_name := string_trim v\<rparr>
          else if is_name nm ''Multiplier'' then s\<lparr>sc_link_multiplier := atof v\<rparr>
          else if is_name nm ''Offset'' then s\<lparr>sc_link_offset := atof v\<rparr> else s)"

definition parse_new_sensor_link :: "node_text \<Rightarrow> xml_node list \<Rightarrow> sensor_conf \<Rightarrow> sensor_conf result" where
  "parse_new_sensor_link g = for_elements (with_text g link_field)"

definition target_field :: "string \<Rightarrow> xml_node list \<Rightarrow> string \<Rightarrow> sensor_target \<Rightarrow> sensor_target result" where
  "target_field nm kids v t =
     Inr (if is_name nm ''SensorType'' then t\<lparr>tg_name := string_trim v\<rparr>
          else if is_name nm ''Coeff'' then t\<lparr>tg_coeff := atof v\<rparr>
          else if is_name nm ''Offset'' then t\<lparr>tg_offset := atof v\<rparr>
          else if is_name nm ''PowerSensor'' then t\<lparr>tg_power_sensor := atoi v\<rparr> else t)"

definition parse_new_virtual_sensor_target :: "node_text \<Rightarrow> xml_node list \<Rightarrow> sensor_target \<Rightarrow> sensor_target result" where
  "parse_new_virtual_sensor_target g = for_elements (with_text g target_field)"

definition polling_field ::
    "string \<Rightarrow> xml_node list \<Rightarrow> string \<Rightarrow> polling_table_entry \<Rightarrow> polling_table_entry result" where
  "polling_field nm kids v p =
     Inr (if is_name nm ''VirtualTemp'' then p\<lparr>pt_virtual_temp := atoi v\<rparr>
          else if is_name nm ''SamplePeriod'' then p\<lparr>pt_sample_period := atoi v\<rparr> else p)"

definition parse_new_virtual_sensor_polling ::
    "node_text \<Rightarrow> xml_node list \<Rightarrow> polling_table_entry \<Rightarrow> polling_table_entry result" where
  "parse_new_virtual_sensor_polling g = for_elements (with_text g polling_field)"

definition no_target :: sensor_target where
  "no_target = \<lparr>tg_name = [], tg_coeff = 0, tg_offset = 0, tg_power_sensor = 0\<rparr>"

definition sensor_field :: "node_text \<Rightarrow> string \<Rightarrow> xml_node list \<Rightarrow> string \<Rightarrow> sensor_conf \<Rightarrow> sensor_conf result" where
  "sensor_field g nm kids v s =
     (if is_name nm ''Type'' then Inr (s\<lparr>sc_name := string_trim v\<rparr>)
      else if is_name nm ''Path'' then Inr (s\<lparr>sc_mask := sc_mask s OR 1, sc_path := string_trim v\<rparr>)
      else if is_name nm ''AsyncCapable'' then Inr (s\<lparr>sc_async_capable := (atoi v \<noteq> 0), sc_mask := sc_mask s OR 2\<rparr>)
      else if is_name nm ''Virtual'' then Inr (s\<lparr>sc_virtual_sensor := (atoi v \<noteq> 0)\<rparr>)
      else if is_name nm ''SensorLink'' then parse_new_sensor_link g kids s
      else if is_name nm ''LinkSensor''
      then bind_r (parse_new_virtual_sensor_target g kids no_target)
             (\<lambda>t. Inr (s\<lparr>sc_link_sensors := sc_link_sensors s @ [t]\<rparr>))
      else if is_name nm ''PollingTableEntry''
      then bind_r (parse_new_virtual_sensor_polling g kids \<lparr>pt_virtual_temp = 0, pt_sample_period = 0\<rparr>)
             (\<lambda>p. Inr (s\<lparr>sc_polling_table := sc_polling_table s @ [p]\<rparr>))
      else Inr s)"

definition parse_new_sensor :: "node_text \<Rightarrow> xml_node list \<Rightarrow> sensor_conf \<Rightarrow> sensor_conf result" where
  "parse_new_sensor g = for_elements (with_text g (sensor_field g))"

definition no_sensor :: sensor_conf where
  "no_sensor =
     \<lparr>sc_mask = 0, sc_name = [], sc_path = [], sc_async_capable = False, sc_virtual_sensor = False, sc_link_name = [],
      sc_link_multiplier = 0, sc_link_offset = 0, sc_link_sensors = [], sc_polling_table = []\<rparr>"

definition parse_thermal_sensors :: "node_text \<Rightarrow> xml_node list \<Rightarrow> thermal_info \<Rightarrow> thermal_info result" where
  "parse_thermal_sensors g =
     for_elements (\<lambda>nm kids ti.
       if is_name nm ''ThermalSensor''
       then bind_r (parse_new_sensor g kids no_sensor) (\<lambda>s. Inr (ti\<lparr>ti_sensors := ti_sensors ti @ [s]\<rparr>))
       else Inr ti)"

section \<open>Platforms\<close>

definition ppcc_field :: "string \<Rightarrow> xml_node list \<Rightarrow> string \<Rightarrow> ppcc \<Rightarrow> ppcc result" where
  "ppcc_field nm kids v p =
     Inr (if is_name nm ''PowerLimitMinimum'' then p\<lparr>pc_power_limit_min := atof_int v\<rparr>
          else if is_name nm ''PowerLimitMaximum'' then p\<lparr>pc_power_limit_max := atof_int v\<rparr>
          else if is_name nm ''TimeWindowMinimum'' then p\<lparr>pc_time_wind_min := atof_int v\<rparr>
          else if is_name nm ''TimeWindowMaximum'' then p\<lparr>pc_time_wind_max := atof_int v\<rparr>
          else if is_name nm ''StepSize'' then p\<lparr>pc_step_size := atof_int v\<rparr> else p)"

definition parse_ppcc :: "node_text \<Rightarrow> xml_node list \<Rightarrow> ppcc \<Rightarrow> ppcc result" where
  "parse_ppcc g = for_elements (with_text g ppcc_field)"

definition preference_of :: "string \<Rightarrow> int" where
  "preference_of s = (if is_name s ''PERFORMANCE'' then PREF_PERFORMANCE else PREF_ENERGY_CONSERVE)"

definition platform_field ::
    "node_text \<Rightarrow> pid_control \<Rightarrow> string \<Rightarrow> xml_node list \<Rightarrow> string \<Rightarrow> thermal_info \<Rightarrow> thermal_info result" where
  "platform_field g junk nm kids v ti =
     (if is_name nm ''uuid'' then Inr (ti\<lparr>ti_uuid := string_trim v\<rparr>)
      else if is_name nm ''ProductName'' then Inr (ti\<lparr>ti_product_name := string_trim v\<rparr>)
      else if is_name nm ''ProductSku'' then Inr (ti\<lparr>ti_product_sku := string_trim v\<rparr>)
      else if is_name nm ''Name'' then Inr (ti\<lparr>ti_name := string_trim v\<rparr>)
      else if is_name nm ''Preference''
      then bind_r (char_trim v) (\<lambda>s. Inr (ti\<lparr>ti_default_preference := preference_of s\<rparr>))
      else if is_name nm ''ThermalZones'' then parse_thermal_zones g kids ti
      else if is_name nm ''ThermalSensors'' then parse_thermal_sensors g kids ti
      else if is_name nm ''CoolingDevices'' then parse_cooling_devs g junk kids ti
      else if is_name nm ''PollingInterval'' then Inr (ti\<lparr>ti_polling_interval := atoi v\<rparr>)
      else if is_name nm ''PPCC''
      then bind_r (parse_ppcc g kids (ti_ppcc ti)) (\<lambda>p. Inr (ti\<lparr>ti_ppcc := p\<lparr>pc_valid := 1\<rparr>\<rparr>))
      else Inr ti)"

definition parse_new_platform_info ::
    "node_text \<Rightarrow> pid_control \<Rightarrow> xml_node list \<Rightarrow> thermal_info \<Rightarrow> thermal_info result" where
  "parse_new_platform_info g junk ns ti =
     for_elements (with_text g (platform_field g junk)) ns
       (ti\<lparr>ti_default_preference := PREF_ENERGY_CONSERVE, ti_polling_interval := 0\<rparr>)"

text \<open>One variable, empty at first, holds every platform in turn; its devices, zones, polling interval
  and the flags of its power limits are cleared.\<close>

definition no_ppcc :: ppcc where
  "no_ppcc =
     \<lparr>pc_name = [], pc_valid = 0, pc_power_limit_min = 0, pc_power_limit_max = 0, pc_time_wind_min = 0,
      pc_time_wind_max = 0, pc_step_size = 0, pc_limit_1_valid = 0, pc_power_limit_1_min = 0,
      pc_power_limit_1_max = 0, pc_time_wind_1_min = 0, pc_time_wind_1_max = 0, pc_step_1_size = 0\<rparr>"

definition no_info :: thermal_info where
  "no_info =
     \<lparr>ti_name = [], ti_uuid = [], ti_product_name = [], ti_product_sku = [], ti_default_preference = 0,
      ti_polling_interval = 0, ti_ppcc = no_ppcc, ti_sensors = [], ti_zones = [], ti_cooling_devs = []\<rparr>"

definition next_platform :: "thermal_info \<Rightarrow> thermal_info" where
  "next_platform ti =
     ti\<lparr>ti_cooling_devs := [], ti_zones := [], ti_polling_interval := 0,
        ti_ppcc := (ti_ppcc ti)\<lparr>pc_valid := 0, pc_limit_1_valid := 0\<rparr>\<rparr>"

definition platform_element ::
    "node_text \<Rightarrow> pid_control \<Rightarrow> string \<Rightarrow> xml_node list \<Rightarrow> thermal_info \<times> thermal_info list
     \<Rightarrow> (thermal_info \<times> thermal_info list) result" where
  "platform_element g junk nm kids st =
     (if is_name nm ''Platform''
      then bind_r (parse_new_platform_info g junk kids (next_platform (fst st))) (\<lambda>ti. Inr (ti, snd st @ [ti]))
      else Inr st)"

definition parse_new_platform ::
    "node_text \<Rightarrow> pid_control \<Rightarrow> xml_node list \<Rightarrow> thermal_info list \<Rightarrow> thermal_info list result" where
  "parse_new_platform g junk ns tis =
     bind_r (for_elements (platform_element g junk) ns (no_info, tis)) (\<lambda>st. Inr (snd st))"

definition parse :: "node_text \<Rightarrow> pid_control \<Rightarrow> xml_node list \<Rightarrow> thermal_info list \<Rightarrow> thermal_info list result" where
  "parse g junk =
     for_elements (\<lambda>nm kids tis.
       if is_name nm ''ThermalConfiguration'' then parse_new_platform g junk kids tis else Inr tis)"

section \<open>The parser\<close>

text \<open>\<open>ps_root\<close> is the root element with the nodes after it.\<close>

record parser =
  ps_thermal_info_list :: "thermal_info list"
  ps_matched_thermal_info_index :: int
  ps_root :: "xml_node list"
  ps_auto_config :: int

definition cthd_parse :: parser where
  "cthd_parse = \<lparr>ps_thermal_info_list = [], ps_matched_thermal_info_index = -1, ps_root = [], ps_auto_config = 0\<rparr>"

text \<open>What the system answers about configuration files: whether a file opens, owner and mode from
  \<^verbatim>\<open>stat\<close>, mode from \<^verbatim>\<open>lstat\<close>, and the top nodes of the document that libxml2 reads.\<close>

record conf_disk =
  cf_open :: "string \<Rightarrow> bool"
  cf_stat :: "string \<Rightarrow> (u32 \<times> u32) option"
  cf_lstat :: "string \<Rightarrow> u32 option"
  cf_xml :: "string \<Rightarrow> xml_node list option"

definition S_IWGRP_OTH :: u32 where "S_IWGRP_OTH = 0x12"

definition S_ISLNK :: "u32 \<Rightarrow> bool" where
  "S_ISLNK md \<longleftrightarrow> md AND 0xF000 = 0xA000"

definition file_trusted :: "conf_disk \<Rightarrow> string \<Rightarrow> bool" where
  "file_trusted d p \<longleftrightarrow>
     (case cf_stat d p of None \<Rightarrow> False
      | Some (uid, md) \<Rightarrow>
          uid = 0 \<and> md AND S_IWGRP_OTH = 0
          \<and> (case cf_lstat d p of None \<Rightarrow> False | Some lmd \<Rightarrow> \<not> S_ISLNK lmd))"

fun is_element :: "xml_node \<Rightarrow> bool" where
  "is_element (Element _ _) = True"
| "is_element _ = False"

text \<open>\<^verbatim>\<open>xmlReadFile\<close> and \<^verbatim>\<open>xmlDocGetRootElement\<close>.\<close>

definition read_root :: "conf_disk \<Rightarrow> string \<Rightarrow> xml_node list option" where
  "read_root d p =
     (case cf_xml d p of None \<Rightarrow> None
      | Some ns \<Rightarrow> (let r = dropWhile (\<lambda>n. \<not> is_element n) ns in if r = [] then None else Some r))"

text \<open>\<^verbatim>\<open>$sysconfdir/thermald\<close>, with the usual \<^verbatim>\<open>/etc\<close>.\<close>

definition TDCONFDIR :: string where "TDCONFDIR = ''/etc/thermald''"

definition conf_name :: string where "conf_name = TDCONFDIR @ ''/'' @ ''thermal-conf.xml''"
definition conf_name_auto :: string where "conf_name_auto = TDRUNDIR @ ''/'' @ ''thermal-conf.xml.auto''"
definition conf_name_auto_conf :: string where "conf_name_auto_conf = TDCONFDIR @ ''/'' @ ''thermal-conf.xml.auto''"

text \<open>The file to read, and whether it is a generated one; \<open>gen\<close> is \<^verbatim>\<open>cthd_acpi_rel::generate_conf\<close>.\<close>

definition choose_conf ::
    "(string \<Rightarrow> conf_disk \<Rightarrow> int \<times> conf_disk) \<Rightarrow> string \<Rightarrow> conf_disk \<Rightarrow> string \<times> bool \<times> conf_disk" where
  "choose_conf gen config_file d =
     (if config_file \<noteq> [] then (config_file, False, d)
      else if cf_open d conf_name_auto_conf then (conf_name_auto_conf, True, d)
      else case gen conf_name_auto d of (ret, d1) \<Rightarrow>
        if ret = 0 then (conf_name_auto, True, d1) else (conf_name, False, d1))"

definition parser_init ::
    "(string \<Rightarrow> conf_disk \<Rightarrow> int \<times> conf_disk) \<Rightarrow> string \<Rightarrow> conf_disk \<Rightarrow> parser \<Rightarrow> int \<times> conf_disk \<times> parser" where
  "parser_init gen config_file d ps =
     (case choose_conf gen config_file d of (file, auto, d1) \<Rightarrow>
        (let ps1 = (if auto then ps\<lparr>ps_auto_config := 1\<rparr> else ps)
         in if ps_auto_config ps1 = 0 \<and> \<not> cf_open d1 file then (THD_ERROR, d1, ps1)
            else if \<not> file_trusted d1 file then (THD_ERROR, d1, ps1)
            else case read_root d1 file of None \<Rightarrow> (THD_ERROR, d1, ps1)
                 | Some r \<Rightarrow> (THD_SUCCESS, d1, ps1\<lparr>ps_root := r\<rparr>)))"

definition start_parse :: "node_text \<Rightarrow> pid_control \<Rightarrow> parser \<Rightarrow> (int \<times> parser) result" where
  "start_parse g junk ps =
     bind_r (parse g junk (ps_root ps) (ps_thermal_info_list ps))
       (\<lambda>tis. Inr (THD_SUCCESS, ps\<lparr>ps_thermal_info_list := tis\<rparr>))"

text \<open>The entries stay, without their content.\<close>

definition parser_deinit :: "parser \<Rightarrow> parser" where
  "parser_deinit ps =
     ps\<lparr>ps_thermal_info_list := map (\<lambda>ti. ti\<lparr>ti_sensors := [], ti_zones := [], ti_cooling_devs := []\<rparr>) (ps_thermal_info_list ps),
        ps_root := []\<rparr>"

section \<open>The matching platform\<close>

text \<open>\<^verbatim>\<open>getline\<close> on a freshly opened attribute.\<close>

definition dmi_line :: "'a env_scheme \<Rightarrow> string \<Rightarrow> string option" where
  "dmi_line e p =
     (case e_files e p of Some (Text t) \<Rightarrow> (if t = [] then None else Some (takeWhile (\<lambda>c. c \<noteq> CHR 0x0A) t)) | _ \<Rightarrow> None)"

definition product_file :: "string \<Rightarrow> string" where
  "product_file s = ''/sys/class/dmi/id/product_'' @ s"

definition match_product_sku :: "'a env_scheme \<Rightarrow> thermal_info \<Rightarrow> bool" where
  "match_product_sku e ti \<longleftrightarrow>
     (case dmi_line e (product_file ''sku'') of None \<Rightarrow> True
      | Some line \<Rightarrow> ti_product_sku ti = [] \<or> ti_product_sku ti = ''*'' \<or> string_trim line = ti_product_sku ti)"

definition match_uuid :: "string \<Rightarrow> thermal_info \<Rightarrow> bool" where
  "match_uuid line ti \<longleftrightarrow> ti_uuid ti \<noteq> [] \<and> (ti_uuid ti = ''*'' \<or> string_trim line = ti_uuid ti)"

definition match_product_name :: "'a env_scheme \<Rightarrow> string \<Rightarrow> thermal_info \<Rightarrow> bool" where
  "match_product_name e line ti \<longleftrightarrow>
     ti_product_name ti \<noteq> []
     \<and> (ti_product_name ti = ''*'' \<or> string_trim line = ti_product_name ti \<and> match_product_sku e ti)"

definition match_any :: "thermal_info \<Rightarrow> bool" where
  "match_any ti \<longleftrightarrow> ti_uuid ti \<noteq> [] \<and> take 1 (ti_product_name ti) = ''*''"

definition matching_index :: "'a env_scheme \<Rightarrow> thermal_info list \<Rightarrow> nat option" where
  "matching_index e tis =
     (let by_uuid = (case dmi_line e (product_file ''uuid'') of None \<Rightarrow> None
                     | Some line \<Rightarrow> find_index (match_uuid line) tis);
          by_name = (case dmi_line e (product_file ''name'') of None \<Rightarrow> None
                     | Some line \<Rightarrow> find_index (match_product_name e line) tis)
      in if by_uuid \<noteq> None then by_uuid else if by_name \<noteq> None then by_name else find_index match_any tis)"

definition platform_matched :: "'a env_scheme \<Rightarrow> parser \<Rightarrow> bool \<times> parser" where
  "platform_matched e ps =
     (case matching_index e (ps_thermal_info_list ps) of None \<Rightarrow> (False, ps)
      | Some i \<Rightarrow> (True, ps\<lparr>ps_matched_thermal_info_index := int i\<rparr>))"

section \<open>Accessors\<close>

text \<open>\<^verbatim>\<open>thermal_info_list[matched_thermal_info_index]\<close>; before a match the index is -1.\<close>

definition matched_info :: "parser \<Rightarrow> thermal_info result" where
  "matched_info ps =
     (let i = ps_matched_thermal_info_index ps
      in if i < 0 \<or> int (length (ps_thermal_info_list ps)) \<le> i then Inl Out_of_bounds
         else Inr (ps_thermal_info_list ps ! nat i))"

definition nth_opt :: "'b list \<Rightarrow> nat \<Rightarrow> 'b option" where
  "nth_opt xs i = (if i < length xs then Some (xs ! i) else None)"

definition get_polling_interval :: "parser \<Rightarrow> int result" where
  "get_polling_interval ps = map_sum (\<lambda>x. x) ti_polling_interval (matched_info ps)"

definition trip_count :: "nat \<Rightarrow> parser \<Rightarrow> int result" where
  "trip_count z ps =
     map_sum (\<lambda>x. x)
       (\<lambda>ti. case nth_opt (ti_zones ti) z of None \<Rightarrow> -1 | Some zc \<Rightarrow> int (length (zc_trip_pts zc))) (matched_info ps)"

definition get_trip_point :: "nat \<Rightarrow> nat \<Rightarrow> parser \<Rightarrow> trip_conf option result" where
  "get_trip_point z k ps =
     map_sum (\<lambda>x. x)
       (\<lambda>ti. case nth_opt (ti_zones ti) z of None \<Rightarrow> None | Some zc \<Rightarrow> nth_opt (zc_trip_pts zc) k) (matched_info ps)"

definition get_cool_dev_index :: "nat \<Rightarrow> parser \<Rightarrow> cooling_dev option result" where
  "get_cool_dev_index k ps = map_sum (\<lambda>x. x) (\<lambda>ti. nth_opt (ti_cooling_devs ti) k) (matched_info ps)"

definition get_sensor_dev_index :: "nat \<Rightarrow> parser \<Rightarrow> sensor_conf option result" where
  "get_sensor_dev_index k ps = map_sum (\<lambda>x. x) (\<lambda>ti. nth_opt (ti_sensors ti) k) (matched_info ps)"

definition get_zone_dev_index :: "nat \<Rightarrow> parser \<Rightarrow> zone_conf option result" where
  "get_zone_dev_index k ps = map_sum (\<lambda>x. x) (\<lambda>ti. nth_opt (ti_zones ti) k) (matched_info ps)"

definition matched_cdev :: "nat \<Rightarrow> parser \<Rightarrow> cooling_dev result" where
  "matched_cdev k ps =
     bind_r (get_cool_dev_index k ps) (\<lambda>c. case c of None \<Rightarrow> Inl Out_of_bounds | Some x \<Rightarrow> Inr x)"

definition pid_status :: "nat \<Rightarrow> parser \<Rightarrow> bool result" where
  "pid_status k ps = map_sum (\<lambda>x. x) cc_pid_enable (matched_cdev k ps)"

text \<open>The gains are stored in \<^verbatim>\<open>int\<close> variables: Kp, Ki, Kd.\<close>

definition get_pid_values :: "nat \<Rightarrow> parser \<Rightarrow> (int \<times> int \<times> int) option result" where
  "get_pid_values k ps =
     map_sum (\<lambda>x. x)
       (\<lambda>c. if cc_pid_enable c then Some (s32 (rat_trunc (cc_kp c)), s32 (rat_trunc (cc_ki c)), s32 (rat_trunc (cc_kd c)))
            else None) (matched_cdev k ps)"

end
