(* ===== verification/Thd_ConfText.thy ===== *)
theory Thd_ConfText
  imports Thd_Parse
begin

text \<open>
  What a configuration file can say: the names of elements compared without case, numbers written
  and read back, and the form of a document that holds given records. \<open>reads_text\<close> is what the
  parser relies on of \<^verbatim>\<open>xmlNodeListGetString\<close>: the texts of a node list in sequence, and
  \<^verbatim>\<open>nullptr\<close> for no nodes. For nodes without any text nothing is assumed.
\<close>

section \<open>Names\<close>

lemma tolower_letters:
  "tolower CHR ''A'' = CHR ''a''" "tolower CHR ''B'' = CHR ''b''" "tolower CHR ''C'' = CHR ''c''" "tolower CHR ''D'' = CHR ''d''"
  "tolower CHR ''E'' = CHR ''e''" "tolower CHR ''F'' = CHR ''f''" "tolower CHR ''G'' = CHR ''g''" "tolower CHR ''H'' = CHR ''h''"
  "tolower CHR ''I'' = CHR ''i''" "tolower CHR ''J'' = CHR ''j''" "tolower CHR ''K'' = CHR ''k''" "tolower CHR ''L'' = CHR ''l''"
  "tolower CHR ''M'' = CHR ''m''" "tolower CHR ''N'' = CHR ''n''" "tolower CHR ''O'' = CHR ''o''" "tolower CHR ''P'' = CHR ''p''"
  "tolower CHR ''Q'' = CHR ''q''" "tolower CHR ''R'' = CHR ''r''" "tolower CHR ''S'' = CHR ''s''" "tolower CHR ''T'' = CHR ''t''"
  "tolower CHR ''U'' = CHR ''u''" "tolower CHR ''V'' = CHR ''v''" "tolower CHR ''W'' = CHR ''w''" "tolower CHR ''X'' = CHR ''x''"
  "tolower CHR ''Y'' = CHR ''y''" "tolower CHR ''Z'' = CHR ''z''"
  "tolower CHR ''a'' = CHR ''a''" "tolower CHR ''b'' = CHR ''b''" "tolower CHR ''c'' = CHR ''c''" "tolower CHR ''d'' = CHR ''d''"
  "tolower CHR ''e'' = CHR ''e''" "tolower CHR ''f'' = CHR ''f''" "tolower CHR ''g'' = CHR ''g''" "tolower CHR ''h'' = CHR ''h''"
  "tolower CHR ''i'' = CHR ''i''" "tolower CHR ''j'' = CHR ''j''" "tolower CHR ''k'' = CHR ''k''" "tolower CHR ''l'' = CHR ''l''"
  "tolower CHR ''m'' = CHR ''m''" "tolower CHR ''n'' = CHR ''n''" "tolower CHR ''o'' = CHR ''o''" "tolower CHR ''p'' = CHR ''p''"
  "tolower CHR ''q'' = CHR ''q''" "tolower CHR ''r'' = CHR ''r''" "tolower CHR ''s'' = CHR ''s''" "tolower CHR ''t'' = CHR ''t''"
  "tolower CHR ''u'' = CHR ''u''" "tolower CHR ''v'' = CHR ''v''" "tolower CHR ''w'' = CHR ''w''" "tolower CHR ''x'' = CHR ''x''"
  "tolower CHR ''y'' = CHR ''y''" "tolower CHR ''z'' = CHR ''z''"
  by (code_simp)+

lemma tolower_nul: "nul_free s \<Longrightarrow> nul_free (map tolower s)"
  by (auto simp: nul_free_def tolower_def Let_def dest: arg_cong [where f = "of_char :: char \<Rightarrow> nat"])

lemma is_name_iff:
  assumes "nul_free a" "nul_free b" "length b < THD_MAX_STR_CMP_LEN"
  shows "is_name a b \<longleftrightarrow> map tolower a = map tolower b"
proof -
  have "thd_strcasecmp_n (Some a) (Some b) = thd_strcmp_n (Some (map tolower a)) (Some (map tolower b))"
    by (simp add: thd_strcasecmp_n_def thd_strcmp_n_def strncasecmp_def thd_cmp_len_def or_empty_def)
  then show ?thesis
    unfolding is_name_def using assms by (simp add: thd_strcmp_n_eq tolower_nul)
qed

text \<open>Deciding names that are given as literals.\<close>

lemmas name_eval = is_name_iff nul_free_def THD_MAX_STR_CMP_LEN_def tolower_letters

section \<open>Numbers\<close>

definition show_double :: "rat \<Rightarrow> string" where
  "show_double r =
     (case quotient_of r of (n, d) \<Rightarrow>
        let b = floorlog 2 (nat d) - 1 in show_int (n * 5 ^ b) @ ''e-'' @ show_nat b)"

text \<open>The values of a \<^verbatim>\<open>double\<close>.\<close>

definition is_double :: "rat \<Rightarrow> bool" where
  "is_double r \<longleftrightarrow> f64 r = r \<and> (case quotient_of r of (n, d) \<Rightarrow> d = 2 ^ (floorlog 2 (nat d) - 1))"

lemma show_nat_digits: "list_all is_digit (show_nat n)"
proof (induction n rule: show_nat.induct)
  case (1 n)
  then show ?case by (cases "n < 10") (simp_all add: show_nat.simps [of n])
qed

lemma digits_of_show_nat: "\<not> is_digit c \<Longrightarrow> digits_of (show_nat n @ c # cs) = show_nat n"
  using show_nat_digits [of n] by (simp add: digits_of_def list_all_iff takeWhile_append2)

lemma digits_val_nat [simp]: "digits_val 0 (show_nat n) = int n"
  using digits_val_show_nat [of n "[]"] by simp

lemma letter_e [simp]: "\<not> is_digit CHR ''e''" by (simp add: is_digit_def)

lemma exponent_of_show: "exponent_of (''e-'' @ show_nat b) = - int b"
proof -
  obtain d cs where "d < 10" "show_nat b = digit_char d # cs" using show_nat_hd by blast
  then show ?thesis using digits_val_nat [of b] by (simp add: exponent_of_def parse_sign_def)
qed

lemma parse_decimal_show:
  "parse_decimal (show_nat n @ ''e-'' @ show_nat b) = Some (of_nat n / 10 ^ b)"
proof -
  have "show_nat n \<noteq> []" using show_nat_hd [of n] by auto
  then show ?thesis
    using exponent_of_show [of b] by (auto simp: parse_decimal_def digits_of_show_nat power10_def Let_def)
qed

lemma atof_show: "atof (show_int i @ ''e-'' @ show_nat b) = f64 (of_int i / 10 ^ b)"
proof -
  obtain d cs where d: "d < 10" "show_nat (nat i) = digit_char d # cs" using show_nat_hd by blast
  show ?thesis
  proof (cases "i < 0")
    case True
    then show ?thesis
      using parse_decimal_show [of "nat (- i)" b] by (simp add: atof_def show_int_def is_space_def)
  next
    case False
    then show ?thesis
      using parse_decimal_show [of "nat i" b] d by (simp add: atof_def show_int_def Let_def)
  qed
qed

lemma atof_show_double:
  assumes "is_double r" shows "atof (show_double r) = r"
proof -
  obtain n d where q: "quotient_of r = (n, d)" by fastforce
  define b where "b = floorlog 2 (nat d) - 1"
  have d: "d = 2 ^ b" using assms q by (simp add: is_double_def b_def)
  have "atof (show_double r) = f64 (of_int (n * 5 ^ b) / 10 ^ b)"
    using atof_show [of "n * 5 ^ b" b] by (simp add: show_double_def q Let_def b_def)
  also have "of_int (n * 5 ^ b) / 10 ^ b = (of_int n / of_int d :: rat)"
    by (simp add: d field_simps power_mult_distrib [of "2 :: rat" 5, simplified])
  also have "of_int n / of_int d = r" using quotient_of_div [OF q] by simp
  finally show ?thesis using assms by (simp add: is_double_def)
qed

lemma parse_decimal_nat: "parse_decimal (show_nat n) = Some (of_nat n)"
proof -
  have "digits_of (show_nat n) = show_nat n"
    using show_nat_digits [of n] by (simp add: digits_of_def list_all_iff)
  moreover have "show_nat n \<noteq> []" using show_nat_hd [of n] by auto
  ultimately show ?thesis by (simp add: parse_decimal_def Let_def exponent_of_def power10_def)
qed

lemma atof_show_int: "atof (show_int i) = f64 (of_int i)"
proof -
  obtain d cs where d: "d < 10" "show_nat (nat i) = digit_char d # cs" using show_nat_hd by blast
  show ?thesis
  proof (cases "i < 0")
    case True
    then show ?thesis using parse_decimal_nat [of "nat (- i)"] by (simp add: atof_def show_int_def is_space_def)
  next
    case False
    then show ?thesis using parse_decimal_nat [of "nat i"] d by (simp add: atof_def show_int_def Let_def)
  qed
qed

lemma atof_int_show:
  assumes "in_s32 i" shows "atof_int (show_int i) = i"
proof -
  have "\<bar>i\<bar> < 2 ^ 53" using assms by (simp add: in_s32_def abs_less_iff)
  then show ?thesis using assms by (simp add: atof_int_def atof_show_int f64_def fround_of_int)
qed

section \<open>Words\<close>

text \<open>A word: no blanks.\<close>

definition is_word :: "string \<Rightarrow> bool" where
  "is_word s \<longleftrightarrow> list_all (\<lambda>c. \<not> is_space c) s"

lemma string_trim_word [simp]: "is_word s \<Longrightarrow> string_trim s = s"
proof -
  assume "is_word s"
  then have "c \<notin> set s" if "is_space c" for c using that by (auto simp: is_word_def list_all_iff)
  then show ?thesis by (simp add: string_trim_def is_space_def removeAll_id)
qed

lemma char_trim_word [simp]: "is_word s \<Longrightarrow> char_trim s = Inr s"
proof -
  assume w: "is_word s"
  then have "dropWhile is_space s = s" "dropWhile is_space (rev s) = rev s"
    by (auto simp: is_word_def list_all_iff dropWhile_eq_self_iff hd_rev)
  then show ?thesis using w by (auto simp: char_trim_def is_word_def list_all_iff)
qed

lemma digit_not_space: "is_digit c \<Longrightarrow> \<not> is_space c"
  by (auto simp: is_digit_def is_space_def)

lemma is_word_show_int: "is_word (show_int v)"
  using show_nat_digits [of "nat v"] show_nat_digits [of "nat (- v)"]
  by (auto simp: is_word_def show_int_def list_all_iff is_space_def is_digit_def)

section \<open>Texts of nodes\<close>

fun texts :: "xml_node list \<Rightarrow> string list" where
  "texts [] = []"
| "texts (XText s # ns) = s # texts ns"
| "texts (_ # ns) = texts ns"

definition reads_text :: "node_text \<Rightarrow> bool" where
  "reads_text g \<longleftrightarrow> g [] = None \<and> (\<forall>ns. texts ns \<noteq> [] \<longrightarrow> g ns = Some (concat (texts ns)))"

definition inline_text :: node_text where
  "inline_text ns = (if texts ns = [] then None else Some (concat (texts ns)))"

lemma inline_text_reads: "reads_text inline_text"
  by (auto simp: reads_text_def inline_text_def)

lemma for_elements_append:
  "for_elements f (xs @ ys) acc = bind_r (for_elements f xs acc) (for_elements f ys)"
proof (induction f xs acc rule: for_elements.induct)
  case (2 f nm kids ns acc)
  then show ?case by (cases "f nm kids acc") simp_all
qed simp_all

text \<open>Texts and comments between the elements have no effect.\<close>

lemma for_elements_filter: "for_elements f (filter is_element ns) acc = for_elements f ns acc"
proof (induction f ns acc rule: for_elements.induct)
  case (2 f nm kids ns acc)
  then show ?case by (cases "f nm kids acc") simp_all
qed simp_all

section \<open>Writing a document\<close>

text \<open>An element with a text (none when the text is empty), with a number, and one that holds elements
  after some white space \<open>ws\<close>.\<close>

definition leaf :: "string \<Rightarrow> string \<Rightarrow> xml_node list" where
  "leaf nm s = (if s = [] then [] else [Element nm [XText s]])"

definition number :: "string \<Rightarrow> int \<Rightarrow> xml_node list" where
  "number nm i = [Element nm [XText (show_int i)]]"

definition decimal :: "string \<Rightarrow> rat \<Rightarrow> xml_node list" where
  "decimal nm r = [Element nm [XText (show_double r)]]"

definition section_of :: "string \<Rightarrow> string \<Rightarrow> xml_node list \<Rightarrow> xml_node list" where
  "section_of ws nm ns = [Element nm (XText ws # ns)]"

definition opt :: "bool \<Rightarrow> xml_node list \<Rightarrow> xml_node list" where
  "opt b ns = (if b then ns else [])"

lemma for_leaf:
  "reads_text g \<Longrightarrow> for_elements (with_text g f) (leaf nm s) acc = (if s = [] then Inr acc else f nm [XText s] s acc)"
  by (cases "f nm [XText s] s acc") (auto simp: leaf_def with_text_def reads_text_def)

lemma for_number:
  "reads_text g \<Longrightarrow> for_elements (with_text g f) (number nm i) acc = f nm [XText (show_int i)] (show_int i) acc"
  by (cases "f nm [XText (show_int i)] (show_int i) acc") (auto simp: number_def with_text_def reads_text_def)

lemma for_decimal:
  "reads_text g \<Longrightarrow> for_elements (with_text g f) (decimal nm r) acc = f nm [XText (show_double r)] (show_double r) acc"
  by (cases "f nm [XText (show_double r)] (show_double r) acc") (auto simp: decimal_def with_text_def reads_text_def)

lemma for_group:
  "reads_text g \<Longrightarrow> for_elements (with_text g f) (section_of ws nm ns) acc
     = f nm (XText ws # ns) (ws @ concat (texts ns)) acc"
  by (cases "f nm (XText ws # ns) (ws @ concat (texts ns)) acc") (auto simp: section_of_def with_text_def reads_text_def)

lemma for_group_plain: "for_elements f (section_of ws nm ns) acc = f nm (XText ws # ns) acc"
  by (cases "f nm (XText ws # ns) acc") (auto simp: section_of_def)

lemma for_opt: "for_elements f (opt b ns) acc = (if b then for_elements f ns acc else Inr acc)"
  by (simp add: opt_def)

lemmas for_nodes = for_elements_append for_leaf for_number for_decimal for_group for_opt

end
