(* ===== verification/Thd_ParseProps.thy ===== *)
theory Thd_ParseProps
  imports Thd_ConfText
begin

text \<open>
  Properties of the configuration parser: what the file must be to be read, which platform is chosen,
  the content that makes the parser fault, and that it gives back the records a document was
  written from.
\<close>

section \<open>Documents\<close>

definition pid_nodes :: "rat \<Rightarrow> rat \<Rightarrow> rat \<Rightarrow> xml_node list" where
  "pid_nodes kp ki kd = decimal ''Kp'' kp @ decimal ''Ki'' ki @ decimal ''Kd'' kd"

definition trip_cdev_nodes :: "string \<Rightarrow> trip_cdev_conf \<Rightarrow> xml_node list" where
  "trip_cdev_nodes ws c =
     leaf ''type'' (xc_type c) @ number ''influence'' (xc_influence c) @ number ''SamplingPeriod'' (xc_sampling_period c)
     @ opt (xc_target_state_valid c = 1) (number ''TargetState'' (xc_target_state c))
     @ opt (xc_min_max_valid c = 1)
         (number ''TargetMinState'' (xc_target_min_state c) @ number ''TargetMaxState'' (xc_target_max_state c))
     @ opt (pp_valid (xc_pid_param c) = 1)
         (section_of ws ''PidControl''
            (pid_nodes (pp_kp (xc_pid_param c)) (pp_ki (xc_pid_param c)) (pp_kd (xc_pid_param c))))"

definition pid_conf_ok :: "pid_param \<Rightarrow> bool" where
  "pid_conf_ok p \<longleftrightarrow>
     pp_valid p = 1 \<and> is_double (pp_kp p) \<and> is_double (pp_ki p) \<and> is_double (pp_kd p)
     \<or> p = \<lparr>pp_valid = 0, pp_kp = 0, pp_ki = 0, pp_kd = 0\<rparr>"

definition trip_cdev_ok :: "trip_cdev_conf \<Rightarrow> bool" where
  "trip_cdev_ok c \<longleftrightarrow>
     is_word (xc_type c) \<and> list_all in_s32 [xc_influence c, xc_sampling_period c, xc_target_state c,
       xc_target_min_state c, xc_target_max_state c] \<and> pid_conf_ok (xc_pid_param c)
     \<and> (xc_target_state_valid c = 1 \<or> xc_target_state_valid c = 0 \<and> xc_target_state c = 0)
     \<and> (xc_min_max_valid c = 1 \<or> xc_min_max_valid c = 0 \<and> xc_target_min_state c = 0 \<and> xc_target_max_state c = 0)"

lemma parse_pid_nodes:
  assumes "reads_text g" "is_double kp" "is_double ki" "is_double kd"
  shows "parse_pid_values g (XText ws # pid_nodes kp ki kd) = Inr \<lparr>kc_kp = kp, kc_ki = ki, kc_kd = kd\<rparr>"
  using assms
  by (simp add: parse_pid_values_def pid_nodes_def for_nodes pid_field_def name_eval atof_show_double default_pid_def)

lemma parse_trip_cdev_nodes:
  assumes "reads_text g" "trip_cdev_ok c"
  shows "parse_new_trip_cdev g (XText ws # trip_cdev_nodes ws c) no_trip_cdev = Inr c"
  using assms
  by (cases c; cases "xc_pid_param c")
    (auto simp: parse_new_trip_cdev_def trip_cdev_nodes_def for_nodes trip_cdev_field_def name_eval
      parse_pid_nodes atoi_show_int trip_cdev_ok_def pid_conf_ok_def no_trip_cdev_def)

section \<open>Trips and zones\<close>

definition show_trip_type :: "trip_point_type \<Rightarrow> string" where
  "show_trip_type t =
     (case t of CRITICAL \<Rightarrow> ''critical'' | HOT \<Rightarrow> ''hot'' | MAX_TRIP \<Rightarrow> ''max'' | PASSIVE \<Rightarrow> ''passive'' | _ \<Rightarrow> ''active'')"

definition show_control_type :: "trip_control_type \<Rightarrow> string" where
  "show_control_type t = (case t of SEQUENTIAL \<Rightarrow> ''SEQUENTIAL'' | PARALLEL \<Rightarrow> ''PARALLEL'')"

definition trip_nodes :: "string \<Rightarrow> trip_conf \<Rightarrow> xml_node list" where
  "trip_nodes ws t =
     leaf ''SensorType'' (xt_sensor_type t) @ number ''Temperature'' (xt_temperature t) @ number ''Hyst'' (xt_hyst t)
     @ leaf ''type'' (show_trip_type (xt_trip_pt_type t)) @ leaf ''ControlType'' (show_control_type (xt_control_type t))
     @ (case xt_dependency t of None \<Rightarrow> []
        | Some (c, s) \<Rightarrow> section_of ws ''DependsOn'' (leaf ''CoolingDeviceType'' c @ leaf ''CoolingDeviceState'' s))
     @ concat (map (\<lambda>c. section_of ws ''CoolingDevice'' (trip_cdev_nodes ws c)) (xt_cdev_trips t))"

definition trip_conf_ok :: "trip_conf \<Rightarrow> bool" where
  "trip_conf_ok t \<longleftrightarrow>
     in_s32 (xt_temperature t) \<and> in_s32 (xt_hyst t) \<and> is_word (xt_sensor_type t)
     \<and> xt_trip_pt_type t \<noteq> POLLING \<and> xt_trip_pt_type t \<noteq> INVALID_TRIP_TYPE
     \<and> (case xt_dependency t of None \<Rightarrow> True | Some (c, s) \<Rightarrow> is_word c \<and> is_word s \<and> c \<noteq> [] \<and> s \<noteq> [])
     \<and> list_all trip_cdev_ok (xt_cdev_trips t)"

lemma trip_type_shown:
  "is_word (show_trip_type t)" "show_trip_type t \<noteq> []"
  "t \<noteq> POLLING \<Longrightarrow> t \<noteq> INVALID_TRIP_TYPE \<Longrightarrow> trip_type_named (show_trip_type t) old = t"
  by (cases t; simp add: show_trip_type_def is_word_def is_space_def trip_type_named_def name_eval)+

lemma control_type_shown:
  "is_word (show_control_type t)" "show_control_type t \<noteq> []" "control_type_of (show_control_type t) = t"
  by (cases t; simp add: show_control_type_def is_word_def is_space_def control_type_of_def name_eval)+

lemma for_concat:
  assumes "\<And>x acc. x \<in> set xs \<Longrightarrow> for_elements f (h x) acc = Inr (upd x acc)"
  shows "for_elements f (concat (map h xs)) acc = Inr (fold upd xs acc)"
  using assms by (induction xs arbitrary: acc) (simp_all add: for_elements_append)

lemma parse_dependency_nodes:
  assumes "reads_text g" "is_word c" "is_word s" "c \<noteq> []" "s \<noteq> []"
  shows "parse_dependency_values g (XText ws # leaf ''CoolingDeviceType'' c @ leaf ''CoolingDeviceState'' s) None = Inr (Some (c, s))"
  using assms by (simp add: parse_dependency_values_def for_nodes dependency_field_def name_eval)

lemma fold_cdev_trips:
  "fold (\<lambda>c t. t\<lparr>xt_cdev_trips := xt_cdev_trips t @ [c]\<rparr>) cs t = t\<lparr>xt_cdev_trips := xt_cdev_trips t @ cs\<rparr>"
  by (induction cs arbitrary: t) simp_all

lemma parse_trip_cdevs:
  assumes "reads_text g" "list_all trip_cdev_ok cs"
  shows "for_elements (with_text g (trip_field g)) (concat (map (\<lambda>c. section_of ws ''CoolingDevice'' (trip_cdev_nodes ws c)) cs)) t
    = Inr (t\<lparr>xt_cdev_trips := xt_cdev_trips t @ cs\<rparr>)"
proof -
  have "for_elements (with_text g (trip_field g)) (section_of ws ''CoolingDevice'' (trip_cdev_nodes ws c)) t
      = Inr (t\<lparr>xt_cdev_trips := xt_cdev_trips t @ [c]\<rparr>)" if "c \<in> set cs" for c t
    using assms that by (simp add: for_nodes trip_field_def name_eval parse_trip_cdev_nodes list_all_iff)
  then show ?thesis
    by (intro for_concat [where upd = "\<lambda>c t. t\<lparr>xt_cdev_trips := xt_cdev_trips t @ [c]\<rparr>", THEN trans])
      (simp_all add: fold_cdev_trips)
qed

lemma parse_trip_nodes:
  assumes g: "reads_text g" and t: "trip_conf_ok t"
  shows "parse_new_trip_point g (XText ws # trip_nodes ws t) no_trip = Inr t"
  using g t
  by (cases t; cases "xt_dependency t")
    (auto simp: parse_new_trip_point_def trip_nodes_def for_nodes parse_trip_cdevs [OF g] trip_field_def name_eval
      parse_dependency_nodes atoi_show_int trip_type_shown control_type_shown trip_conf_ok_def no_trip_def)

definition zone_nodes :: "string \<Rightarrow> zone_conf \<Rightarrow> xml_node list" where
  "zone_nodes ws z =
     leaf ''Type'' (zc_type z)
     @ section_of ws ''TripPoints'' (concat (map (\<lambda>t. section_of ws ''TripPoint'' (trip_nodes ws t)) (zc_trip_pts z)))"

definition zone_conf_ok :: "zone_conf \<Rightarrow> bool" where
  "zone_conf_ok z \<longleftrightarrow> is_word (zc_type z) \<and> list_all trip_conf_ok (zc_trip_pts z)"

lemma fold_trip_pts:
  "fold (\<lambda>t z. z\<lparr>zc_trip_pts := zc_trip_pts z @ [t]\<rparr>) ts z = z\<lparr>zc_trip_pts := zc_trip_pts z @ ts\<rparr>"
  by (induction ts arbitrary: z) simp_all

lemma parse_trips:
  assumes "reads_text g" "list_all trip_conf_ok ts"
  shows "parse_trip_points g (XText ws # concat (map (\<lambda>t. section_of ws ''TripPoint'' (trip_nodes ws t)) ts)) z
    = Inr (z\<lparr>zc_trip_pts := zc_trip_pts z @ ts\<rparr>)"
proof -
  have "parse_trip_points g (section_of ws ''TripPoint'' (trip_nodes ws t)) z = Inr (z\<lparr>zc_trip_pts := zc_trip_pts z @ [t]\<rparr>)"
    if "t \<in> set ts" for t z
    using assms that
    by (simp add: parse_trip_points_def for_group_plain name_eval parse_trip_nodes list_all_iff)
  then show ?thesis
    unfolding parse_trip_points_def for_elements.simps
    by (intro for_concat [where upd = "\<lambda>t z. z\<lparr>zc_trip_pts := zc_trip_pts z @ [t]\<rparr>", THEN trans])
      (simp_all add: fold_trip_pts)
qed

text \<open>What the parser makes of the zones: an empty type is that of the zone before.\<close>

definition carry_zone :: "zone_conf \<Rightarrow> zone_conf \<Rightarrow> zone_conf" where
  "carry_zone prev z = (if zc_type z = [] then z\<lparr>zc_type := zc_type prev\<rparr> else z)"

lemma parse_zone_nodes:
  assumes g: "reads_text g" and z: "zone_conf_ok z"
  shows "parse_new_zone g (XText ws # zone_nodes ws z) (prev\<lparr>zc_trip_pts := []\<rparr>) = Inr (carry_zone prev z)"
proof -
  have l: "is_word s \<Longrightarrow> for_elements (zone_field g) (leaf ''Type'' s) p = Inr (if s = [] then p else p\<lparr>zc_type := s\<rparr>)"
    for p s using g by (simp add: leaf_def zone_field_def name_eval reads_text_def)
  show ?thesis
    using z by (cases z)
      (simp add: parse_new_zone_def zone_nodes_def for_elements_append l for_group_plain zone_field_def name_eval
        parse_trips [OF g] zone_conf_ok_def carry_zone_def)
qed

text \<open>Variables that hold one record after the other.\<close>

fun carried :: "('a \<Rightarrow> 'a \<Rightarrow> 'a) \<Rightarrow> 'a \<Rightarrow> 'a list \<Rightarrow> 'a list" where
  "carried f p [] = []"
| "carried f p (x # xs) = f p x # carried f (f p x) xs"

lemma for_carried:
  assumes "\<And>x p a. x \<in> set xs \<Longrightarrow> for_elements F (h x) (p, a) = Inr (f p x, app (f p x) a)"
  shows "for_elements F (concat (map h xs)) (p, a) = Inr (last (p # carried f p xs), fold app (carried f p xs) a)"
  using assms by (induction xs arbitrary: p a) (simp_all add: for_elements_append)

lemma fold_zones: "fold (\<lambda>z ti. ti\<lparr>ti_zones := ti_zones ti @ [z]\<rparr>) zs ti = ti\<lparr>ti_zones := ti_zones ti @ zs\<rparr>"
  by (induction zs arbitrary: ti) simp_all

lemma parse_zones:
  assumes "reads_text g" "list_all zone_conf_ok zs"
  shows "parse_thermal_zones g (XText ws # concat (map (\<lambda>z. section_of ws ''ThermalZone'' (zone_nodes ws z)) zs)) ti
    = Inr (ti\<lparr>ti_zones := ti_zones ti @ carried carry_zone \<lparr>zc_type = [], zc_trip_pts = []\<rparr> zs\<rparr>)"
proof -
  have "for_elements (zone_element g) (section_of ws ''ThermalZone'' (zone_nodes ws z)) (p, ti)
      = Inr (carry_zone p z, ti\<lparr>ti_zones := ti_zones ti @ [carry_zone p z]\<rparr>)" if "z \<in> set zs" for z p ti
    using assms that by (simp add: zone_element_def for_group_plain name_eval parse_zone_nodes list_all_iff)
  then show ?thesis
    using for_carried [where f = carry_zone and app = "\<lambda>z ti. ti\<lparr>ti_zones := ti_zones ti @ [z]\<rparr>" and xs = zs
        and F = "zone_element g" and h = "\<lambda>z. section_of ws ''ThermalZone'' (zone_nodes ws z)"]
    by (simp add: parse_thermal_zones_def fold_zones)
qed

section \<open>Cooling devices\<close>

definition cdev_nodes :: "string \<Rightarrow> cooling_dev \<Rightarrow> xml_node list" where
  "cdev_nodes ws c =
     (let m = cc_mask c
      in number ''Index'' (cc_index c) @ leaf ''Type'' (cc_type_string c) @ leaf ''Path'' (cc_path_str c)
         @ opt (bit m 0) (number ''MinState'' (cc_min_state c)) @ opt (bit m 1) (number ''MaxState'' (cc_max_state c))
         @ opt (bit m 2) (number ''IncDecStep'' (cc_inc_dec_step c))
         @ opt (bit m 3) (number ''ReadBack'' (of_bool (cc_read_back c)))
         @ opt (bit m 8) (number ''DebouncePeriod'' (cc_debounce_interval c))
         @ opt (bit m 9) (section_of ws ''PidControl'' (pid_nodes (cc_kp c) (cc_ki c) (cc_kd c)))
         @ opt (bit m 4) (number ''AutoOffMode'' (of_bool (cc_auto_down_control c)))
         @ opt (bit m 10) (leaf ''WritePrefix'' (cc_write_prefix c)))"

definition conf_mask :: "u32 \<Rightarrow> bool" where
  "conf_mask m \<longleftrightarrow> list_all (\<lambda>k. bit m k \<longrightarrow> k \<in> {0, 1, 2, 3, 4, 5, 8, 9, 10}) [0..<32]"

definition cdev_conf_ok :: "cooling_dev \<Rightarrow> bool" where
  "cdev_conf_ok c \<longleftrightarrow>
     (let m = cc_mask c
      in is_word (cc_type_string c) \<and> is_word (cc_path_str c) \<and> \<not> cc_status c \<and> cc_unit_val c = ABSOULUTE_VALUE
         \<and> list_all in_s32 [cc_index c, cc_min_state c, cc_max_state c, cc_inc_dec_step c, cc_debounce_interval c]
         \<and> conf_mask m \<and> (bit m 5 \<longleftrightarrow> cc_path_str c \<noteq> []) \<and> (bit m 9 \<longleftrightarrow> cc_pid_enable c)
         \<and> (bit m 0 \<or> cc_min_state c = 0) \<and> (bit m 1 \<or> cc_max_state c = 0) \<and> (bit m 2 \<or> cc_inc_dec_step c = 1)
         \<and> (bit m 3 \<or> cc_read_back c) \<and> (bit m 8 \<or> cc_debounce_interval c = 0) \<and> (bit m 4 \<or> \<not> cc_auto_down_control c)
         \<and> (cc_pid_enable c \<longrightarrow> is_double (cc_kp c) \<and> is_double (cc_ki c) \<and> is_double (cc_kd c))
         \<and> (bit m 10 \<longrightarrow> cc_write_prefix c \<noteq> []))"

text \<open>Gains and prefix that the file does not give are those of the device before.\<close>

definition carry_cdev :: "cooling_dev \<Rightarrow> cooling_dev \<Rightarrow> cooling_dev" where
  "carry_cdev prev c =
     c\<lparr>cc_kp := (if cc_pid_enable c then cc_kp c else cc_kp prev),
       cc_ki := (if cc_pid_enable c then cc_ki c else cc_ki prev),
       cc_kd := (if cc_pid_enable c then cc_kd c else cc_kd prev),
       cc_write_prefix := (if bit (cc_mask c) 10 then cc_write_prefix c else cc_write_prefix prev)\<rparr>"

definition flag :: "bool \<Rightarrow> nat \<Rightarrow> u32" where
  "flag b k = (if b then push_bit k 1 else 0)"

lemma bit_flag: "k < 32 \<Longrightarrow> bit (flag b k) n \<longleftrightarrow> b \<and> n = k"
  by (auto simp: flag_def bit_simps)

lemma in_s32_bool: "in_s32 (of_bool b)" by (simp add: in_s32_def)

text \<open>An optional element as one update.\<close>

lemma opt_fields:
  "(if b then Inr ((set_mask k x)\<lparr>cc_min_state := v\<rparr>) else Inr x)
     = Inr (x\<lparr>cc_mask := cc_mask x OR flag b k, cc_min_state := if b then v else cc_min_state x\<rparr>)"
  "(if b then Inr ((set_mask k x)\<lparr>cc_max_state := v\<rparr>) else Inr x)
     = Inr (x\<lparr>cc_mask := cc_mask x OR flag b k, cc_max_state := if b then v else cc_max_state x\<rparr>)"
  "(if b then Inr ((set_mask k x)\<lparr>cc_inc_dec_step := v\<rparr>) else Inr x)
     = Inr (x\<lparr>cc_mask := cc_mask x OR flag b k, cc_inc_dec_step := if b then v else cc_inc_dec_step x\<rparr>)"
  "(if b then Inr ((set_mask k x)\<lparr>cc_read_back := w\<rparr>) else Inr x)
     = Inr (x\<lparr>cc_mask := cc_mask x OR flag b k, cc_read_back := if b then w else cc_read_back x\<rparr>)"
  "(if b then Inr ((set_mask k x)\<lparr>cc_debounce_interval := v\<rparr>) else Inr x)
     = Inr (x\<lparr>cc_mask := cc_mask x OR flag b k, cc_debounce_interval := if b then v else cc_debounce_interval x\<rparr>)"
  "(if b then Inr ((set_mask k x)\<lparr>cc_auto_down_control := w\<rparr>) else Inr x)
     = Inr (x\<lparr>cc_mask := cc_mask x OR flag b k, cc_auto_down_control := if b then w else cc_auto_down_control x\<rparr>)"
  "(if b then Inr ((set_mask k x)\<lparr>cc_write_prefix := s\<rparr>) else Inr x)
     = Inr (x\<lparr>cc_mask := cc_mask x OR flag b k, cc_write_prefix := if b then s else cc_write_prefix x\<rparr>)"
  "(if b then Inr ((set_mask k x)\<lparr>cc_pid_enable := True, cc_kp := kp, cc_ki := ki, cc_kd := kd\<rparr>) else Inr x)
     = Inr (x\<lparr>cc_mask := cc_mask x OR flag b k, cc_pid_enable := b \<or> cc_pid_enable x, cc_kp := if b then kp else cc_kp x,
              cc_ki := if b then ki else cc_ki x, cc_kd := if b then kd else cc_kd x\<rparr>)"
  "(if s = [] then Inr x else Inr ((set_mask k x)\<lparr>cc_path_str := s\<rparr>))
     = Inr (x\<lparr>cc_mask := cc_mask x OR flag (s \<noteq> []) k, cc_path_str := if s = [] then cc_path_str x else s\<rparr>)"
  "(if s = [] then Inr x else Inr (x\<lparr>cc_type_string := s\<rparr>))
     = Inr (x\<lparr>cc_type_string := if s = [] then cc_type_string x else s\<rparr>)"
  by (simp_all add: set_mask_def flag_def)

lemma mask_flags:
  fixes m :: u32
  assumes "conf_mask m"
  shows "flag (bit m 5) 5 OR flag (bit m 0) 0 OR flag (bit m 1) 1 OR flag (bit m 2) 2 OR flag (bit m 3) 3
    OR flag (bit m 8) 8 OR flag (bit m 9) 9 OR flag (bit m 4) 4 OR flag (bit m 10) 10 = m"
proof (rule bit_eqI)
  fix n
  have "n < 32" if "bit m n" using that bit_imp_le_length by fastforce
  then have "n \<in> {0, 1, 2, 3, 4, 5, 8, 9, 10}" if "bit m n"
    using assms that by (auto simp: conf_mask_def list_all_iff)
  then show "bit (flag (bit m 5) 5 OR flag (bit m 0) 0 OR flag (bit m 1) 1 OR flag (bit m 2) 2 OR flag (bit m 3) 3
    OR flag (bit m 8) 8 OR flag (bit m 9) 9 OR flag (bit m 4) 4 OR flag (bit m 10) 10) n \<longleftrightarrow> bit m n"
    by (auto simp: bit_or_iff bit_flag)
qed

lemma parse_cdev_nodes:
  assumes g: "reads_text g" and c: "cdev_conf_ok c" and p: "cc_index prev = 0" "cc_type_string prev = []" "cc_path_str prev = []"
  shows "parse_new_cooling_dev g (XText ws # cdev_nodes ws c) prev = Inr (carry_cdev prev c)"
proof -
  have ok: "conf_mask (cc_mask c)" "bit (cc_mask c) 5 \<longleftrightarrow> cc_path_str c \<noteq> []" "bit (cc_mask c) 9 \<longleftrightarrow> cc_pid_enable c"
      "is_word (cc_type_string c)" "is_word (cc_path_str c)" "in_s32 (cc_index c)" "in_s32 (cc_min_state c)"
      "in_s32 (cc_max_state c)" "in_s32 (cc_inc_dec_step c)" "in_s32 (cc_debounce_interval c)"
      "bit (cc_mask c) 10 \<Longrightarrow> cc_write_prefix c \<noteq> []"
      "bit (cc_mask c) 9 \<Longrightarrow> is_double (cc_kp c)" "bit (cc_mask c) 9 \<Longrightarrow> is_double (cc_ki c)" "bit (cc_mask c) 9 \<Longrightarrow> is_double (cc_kd c)"
    using c by (auto simp: cdev_conf_ok_def Let_def)
  have defaults:
      "(if bit (cc_mask c) 0 then cc_min_state c else 0) = cc_min_state c"
      "(if bit (cc_mask c) (Suc 0) then cc_max_state c else 0) = cc_max_state c"
      "(if bit (cc_mask c) 2 then cc_inc_dec_step c else 1) = cc_inc_dec_step c"
      "(if bit (cc_mask c) 3 then cc_read_back c else True) = cc_read_back c"
      "(if bit (cc_mask c) 8 then cc_debounce_interval c else 0) = cc_debounce_interval c"
      "(if bit (cc_mask c) 4 then cc_auto_down_control c else False) = cc_auto_down_control c"
      "(if cc_type_string c = [] then [] else cc_type_string c) = cc_type_string c"
      "(if cc_path_str c = [] then [] else cc_path_str c) = cc_path_str c"
      "\<not> cc_status c" "cc_unit_val c = ABSOULUTE_VALUE"
    using c by (auto simp: cdev_conf_ok_def Let_def)
  have mask: "flag (cc_path_str c \<noteq> []) 5 OR (flag (bit (cc_mask c) 0) 0 OR (flag (bit (cc_mask c) (Suc 0)) (Suc 0)
      OR (flag (bit (cc_mask c) 2) 2 OR (flag (bit (cc_mask c) 3) 3 OR (flag (bit (cc_mask c) 8) 8
      OR (flag (cc_pid_enable c) 9 OR (flag (bit (cc_mask c) 4) 4 OR flag (bit (cc_mask c) 10) 10))))))) = cc_mask c"
    using mask_flags [OF ok(1)] ok(2,3) by simp
  show ?thesis
    by (simp add: parse_new_cooling_dev_def cdev_nodes_def Let_def for_nodes g cdev_field_def name_eval atoi_show_int
        in_s32_bool ok p parse_pid_nodes [OF g] opt_fields cong: if_cong split del: if_split)
      (rule cooling_dev.equality;
       simp add: carry_cdev_def p defaults or.assoc mask del: if_split_asm split del: if_split)
qed

lemma fold_cdevs:
  "fold (\<lambda>c ti. ti\<lparr>ti_cooling_devs := ti_cooling_devs ti @ [c]\<rparr>) cs ti = ti\<lparr>ti_cooling_devs := ti_cooling_devs ti @ cs\<rparr>"
  by (induction cs arbitrary: ti) simp_all

lemma carry_cdev_cong:
  "carry_cdev (p\<lparr>cc_index := a, cc_max_state := b, cc_min_state := d, cc_inc_dec_step := e,
     cc_auto_down_control := f, cc_path_str := h, cc_type_string := i\<rparr>) c = carry_cdev p c"
  by (simp add: carry_cdev_def)

lemma parse_cdevs:
  assumes "reads_text g" "list_all cdev_conf_ok cs"
  shows "parse_cooling_devs g junk (XText ws # concat (map (\<lambda>c. section_of ws ''CoolingDevice'' (cdev_nodes ws c)) cs)) ti
    = Inr (ti\<lparr>ti_cooling_devs := ti_cooling_devs ti @ carried carry_cdev (first_cdev junk) cs\<rparr>)"
proof -
  have "for_elements (cdev_element g) (section_of ws ''CoolingDevice'' (cdev_nodes ws c)) (p, ti)
      = Inr (carry_cdev p c, ti\<lparr>ti_cooling_devs := ti_cooling_devs ti @ [carry_cdev p c]\<rparr>)" if "c \<in> set cs" for c p ti
    using assms that
    by (simp add: cdev_element_def for_group_plain name_eval parse_cdev_nodes list_all_iff carry_cdev_cong)
  then show ?thesis
    using for_carried [where f = carry_cdev and app = "\<lambda>c ti. ti\<lparr>ti_cooling_devs := ti_cooling_devs ti @ [c]\<rparr>" and xs = cs
        and F = "cdev_element g" and h = "\<lambda>c. section_of ws ''CoolingDevice'' (cdev_nodes ws c)"]
    by (simp add: parse_cooling_devs_def fold_cdevs)
qed

section \<open>Sensors\<close>

definition target_nodes :: "sensor_target \<Rightarrow> xml_node list" where
  "target_nodes t =
     leaf ''SensorType'' (tg_name t) @ decimal ''Coeff'' (tg_coeff t) @ decimal ''Offset'' (tg_offset t)
     @ number ''PowerSensor'' (tg_power_sensor t)"

definition target_ok :: "sensor_target \<Rightarrow> bool" where
  "target_ok t \<longleftrightarrow> is_word (tg_name t) \<and> is_double (tg_coeff t) \<and> is_double (tg_offset t) \<and> in_s32 (tg_power_sensor t)"

definition polling_nodes :: "polling_table_entry \<Rightarrow> xml_node list" where
  "polling_nodes p = number ''VirtualTemp'' (pt_virtual_temp p) @ number ''SamplePeriod'' (pt_sample_period p)"

definition polling_ok :: "polling_table_entry \<Rightarrow> bool" where
  "polling_ok p \<longleftrightarrow> in_s32 (pt_virtual_temp p) \<and> in_s32 (pt_sample_period p)"

definition sensor_nodes :: "string \<Rightarrow> sensor_conf \<Rightarrow> xml_node list" where
  "sensor_nodes ws s =
     leaf ''Type'' (sc_name s) @ leaf ''Path'' (sc_path s)
     @ opt (bit (sc_mask s) 1) (number ''AsyncCapable'' (of_bool (sc_async_capable s)))
     @ number ''Virtual'' (of_bool (sc_virtual_sensor s))
     @ section_of ws ''SensorLink''
         (leaf ''SensorType'' (sc_link_name s) @ decimal ''Multiplier'' (sc_link_multiplier s)
          @ decimal ''Offset'' (sc_link_offset s))
     @ concat (map (\<lambda>t. section_of ws ''LinkSensor'' (target_nodes t)) (sc_link_sensors s))
     @ concat (map (\<lambda>p. section_of ws ''PollingTableEntry'' (polling_nodes p)) (sc_polling_table s))"

definition sensor_ok :: "sensor_conf \<Rightarrow> bool" where
  "sensor_ok s \<longleftrightarrow>
     is_word (sc_name s) \<and> is_word (sc_path s) \<and> is_word (sc_link_name s)
     \<and> is_double (sc_link_multiplier s) \<and> is_double (sc_link_offset s)
     \<and> list_all target_ok (sc_link_sensors s) \<and> list_all polling_ok (sc_polling_table s)
     \<and> sc_mask s = flag (sc_path s \<noteq> []) 0 OR flag (bit (sc_mask s) 1) 1
     \<and> (bit (sc_mask s) 1 \<or> \<not> sc_async_capable s)"

lemma parse_target_nodes:
  "reads_text g \<Longrightarrow> target_ok t \<Longrightarrow> parse_new_virtual_sensor_target g (XText ws # target_nodes t) no_target = Inr t"
  by (cases t) (auto simp: parse_new_virtual_sensor_target_def target_nodes_def for_nodes target_field_def name_eval
      no_target_def target_ok_def atof_show_double atoi_show_int)

lemma parse_polling_nodes:
  "reads_text g \<Longrightarrow> polling_ok p
     \<Longrightarrow> parse_new_virtual_sensor_polling g (XText ws # polling_nodes p) \<lparr>pt_virtual_temp = 0, pt_sample_period = 0\<rparr> = Inr p"
  by (cases p) (auto simp: parse_new_virtual_sensor_polling_def polling_nodes_def for_nodes polling_field_def name_eval
      polling_ok_def atoi_show_int)

lemma fold_link_sensors:
  "fold (\<lambda>t s. s\<lparr>sc_link_sensors := sc_link_sensors s @ [t]\<rparr>) ts s = s\<lparr>sc_link_sensors := sc_link_sensors s @ ts\<rparr>"
  by (induction ts arbitrary: s) simp_all

lemma fold_polling:
  "fold (\<lambda>p s. s\<lparr>sc_polling_table := sc_polling_table s @ [p]\<rparr>) ps s = s\<lparr>sc_polling_table := sc_polling_table s @ ps\<rparr>"
  by (induction ps arbitrary: s) simp_all

lemma parse_link_sensors:
  assumes "reads_text g" "list_all target_ok ts"
  shows "for_elements (with_text g (sensor_field g)) (concat (map (\<lambda>t. section_of ws ''LinkSensor'' (target_nodes t)) ts)) s
    = Inr (s\<lparr>sc_link_sensors := sc_link_sensors s @ ts\<rparr>)"
  using assms
  by (intro for_concat [where upd = "\<lambda>t s. s\<lparr>sc_link_sensors := sc_link_sensors s @ [t]\<rparr>", THEN trans])
    (simp_all add: fold_link_sensors for_nodes sensor_field_def name_eval parse_target_nodes list_all_iff)

lemma parse_polling_table:
  assumes "reads_text g" "list_all polling_ok ps"
  shows "for_elements (with_text g (sensor_field g)) (concat (map (\<lambda>p. section_of ws ''PollingTableEntry'' (polling_nodes p)) ps)) s
    = Inr (s\<lparr>sc_polling_table := sc_polling_table s @ ps\<rparr>)"
  using assms
  by (intro for_concat [where upd = "\<lambda>p s. s\<lparr>sc_polling_table := sc_polling_table s @ [p]\<rparr>", THEN trans])
    (simp_all add: fold_polling for_nodes sensor_field_def name_eval parse_polling_nodes list_all_iff)

lemma parse_sensor_nodes:
  assumes g: "reads_text g" and s: "sensor_ok s"
  shows "parse_new_sensor g (XText ws # sensor_nodes ws s) no_sensor = Inr s"
proof -
  have m: "sc_mask s = flag (sc_path s \<noteq> []) 0 OR flag (bit (sc_mask s) 1) 1"
    using s by (simp add: sensor_ok_def)
  show ?thesis
    using s m [symmetric]
    by (cases s)
      (auto simp: parse_new_sensor_def sensor_nodes_def for_nodes g parse_link_sensors [OF g] parse_polling_table [OF g]
        sensor_field_def parse_new_sensor_link_def link_field_def name_eval sensor_ok_def no_sensor_def atof_show_double
        atoi_show_int in_s32_bool flag_def)
qed

lemma fold_sensors: "fold (\<lambda>s ti. ti\<lparr>ti_sensors := ti_sensors ti @ [s]\<rparr>) ss ti = ti\<lparr>ti_sensors := ti_sensors ti @ ss\<rparr>"
  by (induction ss arbitrary: ti) simp_all

lemma parse_sensors:
  assumes "reads_text g" "list_all sensor_ok ss"
  shows "parse_thermal_sensors g (XText ws # concat (map (\<lambda>s. section_of ws ''ThermalSensor'' (sensor_nodes ws s)) ss)) ti
    = Inr (ti\<lparr>ti_sensors := ti_sensors ti @ ss\<rparr>)"
  unfolding parse_thermal_sensors_def for_elements.simps using assms
  by (intro for_concat [where upd = "\<lambda>s ti. ti\<lparr>ti_sensors := ti_sensors ti @ [s]\<rparr>", THEN trans])
    (simp_all add: fold_sensors for_group_plain name_eval parse_sensor_nodes list_all_iff)

section \<open>Platforms\<close>

definition ppcc_nodes :: "ppcc \<Rightarrow> xml_node list" where
  "ppcc_nodes p =
     number ''PowerLimitMinimum'' (pc_power_limit_min p) @ number ''PowerLimitMaximum'' (pc_power_limit_max p)
     @ number ''TimeWindowMinimum'' (pc_time_wind_min p) @ number ''TimeWindowMaximum'' (pc_time_wind_max p)
     @ number ''StepSize'' (pc_step_size p)"

definition ppcc_ok :: "ppcc \<Rightarrow> bool" where
  "ppcc_ok p \<longleftrightarrow>
     list_all in_s32 [pc_power_limit_min p, pc_power_limit_max p, pc_time_wind_min p, pc_time_wind_max p, pc_step_size p]"

text \<open>The limits of a platform over those of the platform before.\<close>

definition carry_ppcc :: "ppcc \<Rightarrow> ppcc \<Rightarrow> ppcc" where
  "carry_ppcc prev p =
     (if pc_valid p = 1
      then prev\<lparr>pc_valid := 1, pc_limit_1_valid := 0, pc_power_limit_min := pc_power_limit_min p,
                pc_power_limit_max := pc_power_limit_max p, pc_time_wind_min := pc_time_wind_min p,
                pc_time_wind_max := pc_time_wind_max p, pc_step_size := pc_step_size p\<rparr>
      else prev\<lparr>pc_valid := 0, pc_limit_1_valid := 0\<rparr>)"

lemma parse_ppcc_nodes:
  assumes "reads_text g" "ppcc_ok p"
  shows "parse_ppcc g (XText ws # ppcc_nodes p) q
    = Inr (q\<lparr>pc_power_limit_min := pc_power_limit_min p, pc_power_limit_max := pc_power_limit_max p,
              pc_time_wind_min := pc_time_wind_min p, pc_time_wind_max := pc_time_wind_max p, pc_step_size := pc_step_size p\<rparr>)"
  using assms by (simp add: parse_ppcc_def ppcc_nodes_def for_nodes ppcc_field_def name_eval ppcc_ok_def atof_int_show)

definition show_pref :: "int \<Rightarrow> string" where
  "show_pref p = (if p = PREF_PERFORMANCE then ''PERFORMANCE'' else ''ENERGY_CONSERVE'')"

definition platform_nodes :: "string \<Rightarrow> thermal_info \<Rightarrow> xml_node list" where
  "platform_nodes ws ti =
     leaf ''Name'' (ti_name ti) @ leaf ''UUID'' (ti_uuid ti) @ leaf ''ProductName'' (ti_product_name ti)
     @ leaf ''ProductSku'' (ti_product_sku ti) @ leaf ''Preference'' (show_pref (ti_default_preference ti))
     @ number ''PollingInterval'' (ti_polling_interval ti)
     @ opt (pc_valid (ti_ppcc ti) = 1) (section_of ws ''PPCC'' (ppcc_nodes (ti_ppcc ti)))
     @ section_of ws ''ThermalSensors''
         (concat (map (\<lambda>s. section_of ws ''ThermalSensor'' (sensor_nodes ws s)) (ti_sensors ti)))
     @ section_of ws ''ThermalZones''
         (concat (map (\<lambda>z. section_of ws ''ThermalZone'' (zone_nodes ws z)) (ti_zones ti)))
     @ section_of ws ''CoolingDevices''
         (concat (map (\<lambda>c. section_of ws ''CoolingDevice'' (cdev_nodes ws c)) (ti_cooling_devs ti)))"

definition platform_ok :: "thermal_info \<Rightarrow> bool" where
  "platform_ok ti \<longleftrightarrow>
     is_word (ti_name ti) \<and> is_word (ti_uuid ti) \<and> is_word (ti_product_name ti) \<and> is_word (ti_product_sku ti)
     \<and> (ti_default_preference ti = PREF_PERFORMANCE \<or> ti_default_preference ti = PREF_ENERGY_CONSERVE)
     \<and> in_s32 (ti_polling_interval ti) \<and> ppcc_ok (ti_ppcc ti)
     \<and> list_all sensor_ok (ti_sensors ti) \<and> list_all zone_conf_ok (ti_zones ti) \<and> list_all cdev_conf_ok (ti_cooling_devs ti)"

definition or_prev :: "string \<Rightarrow> string \<Rightarrow> string" where
  "or_prev s prev = (if s = [] then prev else s)"

text \<open>What is read of a platform that follows another: the strings and limits it does not give and the
  sensors are those of the platform before.\<close>

definition carry_platform :: "pid_control \<Rightarrow> thermal_info \<Rightarrow> thermal_info \<Rightarrow> thermal_info" where
  "carry_platform junk prev ti =
     ti\<lparr>ti_name := or_prev (ti_name ti) (ti_name prev), ti_uuid := or_prev (ti_uuid ti) (ti_uuid prev),
        ti_product_name := or_prev (ti_product_name ti) (ti_product_name prev),
        ti_product_sku := or_prev (ti_product_sku ti) (ti_product_sku prev),
        ti_ppcc := carry_ppcc (ti_ppcc prev) (ti_ppcc ti),
        ti_sensors := ti_sensors prev @ ti_sensors ti,
        ti_zones := carried carry_zone \<lparr>zc_type = [], zc_trip_pts = []\<rparr> (ti_zones ti),
        ti_cooling_devs := carried carry_cdev (first_cdev junk) (ti_cooling_devs ti)\<rparr>"

lemma pref_shown:
  "is_word (show_pref p)" "show_pref p \<noteq> []"
  "p = PREF_PERFORMANCE \<or> p = PREF_ENERGY_CONSERVE \<Longrightarrow> preference_of (show_pref p) = p"
  by (auto simp: show_pref_def is_word_def is_space_def preference_of_def name_eval)

text \<open>An optional string as one update.\<close>

lemma opt_strings:
  "(if s = [] then Inr x else Inr (x\<lparr>ti_name := s\<rparr>)) = Inr (x\<lparr>ti_name := or_prev s (ti_name x)\<rparr>)"
  "(if s = [] then Inr x else Inr (x\<lparr>ti_uuid := s\<rparr>)) = Inr (x\<lparr>ti_uuid := or_prev s (ti_uuid x)\<rparr>)"
  "(if s = [] then Inr x else Inr (x\<lparr>ti_product_name := s\<rparr>)) = Inr (x\<lparr>ti_product_name := or_prev s (ti_product_name x)\<rparr>)"
  "(if s = [] then Inr x else Inr (x\<lparr>ti_product_sku := s\<rparr>)) = Inr (x\<lparr>ti_product_sku := or_prev s (ti_product_sku x)\<rparr>)"
  by (simp_all add: or_prev_def)

lemma parse_platform_nodes:
  assumes g: "reads_text g" and ti: "platform_ok ti"
  shows "parse_new_platform_info g junk (XText ws # platform_nodes ws ti) (next_platform prev) = Inr (carry_platform junk prev ti)"
proof -
  have ok: "is_word (ti_name ti)" "is_word (ti_uuid ti)" "is_word (ti_product_name ti)" "is_word (ti_product_sku ti)"
      "preference_of (show_pref (ti_default_preference ti)) = ti_default_preference ti" "in_s32 (ti_polling_interval ti)"
      "ppcc_ok (ti_ppcc ti)" "list_all sensor_ok (ti_sensors ti)" "list_all zone_conf_ok (ti_zones ti)"
      "list_all cdev_conf_ok (ti_cooling_devs ti)"
    using ti by (simp_all add: platform_ok_def pref_shown)
  have p: "for_elements (with_text g (platform_field g junk)) (opt (pc_valid (ti_ppcc ti) = 1) (section_of ws ''PPCC'' (ppcc_nodes (ti_ppcc ti)))) x
      = Inr (x\<lparr>ti_ppcc := carry_ppcc (ti_ppcc x) (ti_ppcc ti)\<rparr>)"
    if "pc_valid (ti_ppcc x) = 0" "pc_limit_1_valid (ti_ppcc x) = 0" for x
    using that g ok(7)
    by (cases "ti_ppcc x") (simp add: for_opt for_group platform_field_def name_eval parse_ppcc_nodes carry_ppcc_def)
  have "carry_ppcc ((ti_ppcc prev)\<lparr>pc_valid := 0, pc_limit_1_valid := 0\<rparr>) (ti_ppcc ti) = carry_ppcc (ti_ppcc prev) (ti_ppcc ti)"
    by (simp add: carry_ppcc_def)
  then show ?thesis
    by (simp add: parse_new_platform_info_def platform_nodes_def for_elements_append p for_leaf for_number for_group g
        platform_field_def name_eval ok pref_shown atoi_show_int parse_sensors [OF g] parse_zones [OF g] parse_cdevs [OF g]
        opt_strings next_platform_def cong: if_cong split del: if_split)
      (rule thermal_info.equality; simp add: carry_platform_def)
qed

definition conf_document :: "string \<Rightarrow> thermal_info list \<Rightarrow> xml_node list" where
  "conf_document ws tis =
     section_of ws ''ThermalConfiguration'' (concat (map (\<lambda>ti. section_of ws ''Platform'' (platform_nodes ws ti)) tis))"

lemma fold_append_elem: "fold (\<lambda>x xs. xs @ [x]) ys xs = xs @ ys"
  by (induction ys arbitrary: xs) simp_all

text \<open>A platform that gives all that would otherwise come from elsewhere.\<close>

definition self_contained :: "thermal_info \<Rightarrow> bool" where
  "self_contained ti \<longleftrightarrow>
     list_all (\<lambda>z. zc_type z \<noteq> []) (ti_zones ti)
     \<and> list_all (\<lambda>c. cc_pid_enable c \<and> bit (cc_mask c) 10) (ti_cooling_devs ti)
     \<and> ti_ppcc ti = carry_ppcc no_ppcc (ti_ppcc ti)"

lemma carried_same: "(\<And>p x. x \<in> set xs \<Longrightarrow> f p x = x) \<Longrightarrow> carried f p xs = xs"
  by (induction xs arbitrary: p) simp_all

lemma carry_self_contained: "self_contained ti \<Longrightarrow> carry_platform junk no_info ti = ti"
  by (simp add: self_contained_def carry_platform_def no_info_def or_prev_def list_all_iff carried_same carry_zone_def
      carry_cdev_def)

text \<open>
  C27. A document written from platforms is read as these platforms, in order, after those read
  before. Each platform is read over the one before it: strings, power limits and zone types it does
  not give are taken over, and all sensors of the earlier platforms come first in its own list. A
  single platform that gives all of these is read exactly as it was written.
\<close>

theorem conf_roundtrip:
  assumes g: "reads_text g" and tis: "list_all platform_ok tis"
  shows "parse g junk (conf_document ws tis) read = Inr (read @ carried (carry_platform junk) no_info tis)
    \<and> (\<forall>ti. tis = [ti] \<and> self_contained ti \<longrightarrow> parse g junk (conf_document ws tis) [] = Inr [ti])"
proof -
  have "for_elements (platform_element g junk) (section_of ws ''Platform'' (platform_nodes ws ti)) (p, a)
      = Inr (carry_platform junk p ti, a @ [carry_platform junk p ti])" if "ti \<in> set tis" for ti p a
    using assms that
    by (simp add: platform_element_def for_group_plain name_eval parse_platform_nodes list_all_iff)
  then have "parse g junk (conf_document ws tis) read = Inr (read @ carried (carry_platform junk) no_info tis)" for read
    using for_carried [where f = "carry_platform junk" and app = "\<lambda>x xs. xs @ [x]" and xs = tis
        and F = "platform_element g junk" and h = "\<lambda>ti. section_of ws ''Platform'' (platform_nodes ws ti)"]
    by (simp add: parse_def conf_document_def for_group_plain name_eval parse_new_platform_def fold_append_elem)
  then show ?thesis by (auto simp: carry_self_contained)
qed

section \<open>Faults\<close>

lemma for_elements_fault:
  "for_elements f pre acc = Inr x \<Longrightarrow> f nm kids x = Inl e \<Longrightarrow> for_elements f (pre @ Element nm kids # post) acc = Inl e"
  by (simp add: for_elements_append)

text \<open>
  C40. Content the parser does not guard against: a zone whose \<^verbatim>\<open>Type\<close> element is empty makes it follow
  a null pointer, and a \<^verbatim>\<open>Preference\<close> that holds only blanks makes the trimming loop run out of the
  front of the text, whatever stands before and after.
\<close>

theorem unguarded_content_faults:
  assumes g: "reads_text g"
    and z: "parse_new_zone g pre z = Inr z'"
    and p: "for_elements (with_text g (platform_field g junk)) pre'
              (ti\<lparr>ti_default_preference := PREF_ENERGY_CONSERVE, ti_polling_interval := 0\<rparr>) = Inr ti'"
    and s: "s \<noteq> []" "list_all is_space s"
  shows "parse_new_zone g (pre @ Element ''Type'' [] # post) z = Inl Out_of_bounds
    \<and> parse_new_platform_info g junk (pre' @ Element ''Preference'' [XText s] # post) ti = Inl Out_of_bounds"
proof
  have "zone_field g ''Type'' [] z' = Inl Out_of_bounds"
    using g by (simp add: zone_field_def name_eval reads_text_def)
  then show "parse_new_zone g (pre @ Element ''Type'' [] # post) z = Inl Out_of_bounds"
    using z by (simp add: parse_new_zone_def for_elements_fault)
  have "with_text g (platform_field g junk) ''Preference'' [XText s] ti' = Inl Out_of_bounds"
    using g s by (simp add: with_text_def reads_text_def platform_field_def name_eval char_trim_def)
  then show "parse_new_platform_info g junk (pre' @ Element ''Preference'' [XText s] # post) ti = Inl Out_of_bounds"
    using p by (simp add: parse_new_platform_info_def for_elements_fault)
qed

section \<open>The file\<close>

text \<open>
  C29. A file is parsed only when it is owned by root, neither its group nor others may write it and
  it is not a symbolic link; it is the file named by the caller when there is one, else one of the
  three standard ones, and a generated one is recorded as such. Without success nothing is parsed.
\<close>

theorem only_trusted_files_parsed:
  assumes "parser_init gen config_file d ps = (ret, d', ps')"
  shows "if ret = THD_SUCCESS then
      (\<exists>file md lmd. (if config_file = [] then file \<in> {conf_name, conf_name_auto, conf_name_auto_conf} else file = config_file)
         \<and> cf_stat d' file = Some (0, md) \<and> \<not> bit md 4 \<and> \<not> bit md 1 \<and> cf_lstat d' file = Some lmd \<and> \<not> S_ISLNK lmd
         \<and> read_root d' file = Some (ps_root ps')
         \<and> (ps_auto_config ps = 0 \<and> ps_auto_config ps' \<noteq> 0 \<longrightarrow> file \<noteq> conf_name))
    else ret = THD_ERROR \<and> ps_root ps' = ps_root ps \<and> ps_thermal_info_list ps' = ps_thermal_info_list ps"
proof -
  have bits: "\<not> bit md 4 \<and> \<not> bit md 1" if "md AND S_IWGRP_OTH = 0" for md :: u32
  proof -
    have "bit S_IWGRP_OTH 4" "bit S_IWGRP_OTH 1" unfolding S_IWGRP_OTH_def by code_simp+
    then show ?thesis using that by (metis bit_and_iff bit_0_eq bot_apply bot_bool_def)
  qed
  obtain p auto d1 where c: "choose_conf gen config_file d = (p, auto, d1)" by (metis prod_cases3)
  have f: "if config_file = [] then p \<in> {conf_name, conf_name_auto, conf_name_auto_conf} else p = config_file"
    and a: "auto \<Longrightarrow> p \<noteq> conf_name"
    using c by (auto simp: choose_conf_def conf_name_def conf_name_auto_def conf_name_auto_conf_def
        TDCONFDIR_def TDRUNDIR_def split: if_splits prod.splits)
  have ret: "THD_ERROR \<noteq> THD_SUCCESS" by (simp add: thd_codes)
  show ?thesis
  proof (cases "ret = THD_SUCCESS")
    case True
    have t: "file_trusted d1 p" and "d' = d1"
      using assms c ret True by (simp_all add: parser_init_def Let_def split: if_splits option.splits)
    moreover have "read_root d1 p = Some (ps_root ps')" "auto \<or> ps_auto_config ps' = ps_auto_config ps"
      using assms c ret True by (auto simp: parser_init_def Let_def split: if_splits option.splits)
    moreover obtain md lmd where "cf_stat d1 p = Some (0, md)" "md AND S_IWGRP_OTH = 0" "cf_lstat d1 p = Some lmd" "\<not> S_ISLNK lmd"
      using t by (auto simp: file_trusted_def split: option.splits)
    ultimately show ?thesis using True f a bits by (intro iffD2 [OF if_P]) (auto intro!: exI [where x = p])
  next
    case False
    then show ?thesis using assms c by (auto simp: parser_init_def Let_def split: if_splits option.splits)
  qed
qed

section \<open>The choice of the platform\<close>

text \<open>How well a platform matches: 0 by UUID, 1 by product name, 2 for any machine, 3 not.\<close>

definition match_rank :: "'a env_scheme \<Rightarrow> thermal_info \<Rightarrow> nat" where
  "match_rank e ti =
     (if (\<exists>l. dmi_line e (product_file ''uuid'') = Some l \<and> match_uuid l ti) then 0
      else if (\<exists>l. dmi_line e (product_file ''name'') = Some l \<and> match_product_name e l ti) then 1
      else if match_any ti then 2 else 3)"

lemma matching_index_ranks:
  "matching_index e tis =
     (case find_index (\<lambda>ti. match_rank e ti = 0) tis of Some i \<Rightarrow> Some i
      | None \<Rightarrow> (case find_index (\<lambda>ti. match_rank e ti = 1) tis of Some i \<Rightarrow> Some i
                | None \<Rightarrow> find_index (\<lambda>ti. match_rank e ti = 2) tis))"
proof -
  define u n where "u = (\<lambda>ti. \<exists>l. dmi_line e (product_file ''uuid'') = Some l \<and> match_uuid l ti)"
    and "n = (\<lambda>ti. \<exists>l. dmi_line e (product_file ''name'') = Some l \<and> match_product_name e l ti)"
  have false: "find_index (\<lambda>_. False) tis = None" for tis :: "thermal_info list" by (induction tis) auto
  have m: "matching_index e tis =
      (if find_index u tis \<noteq> None then find_index u tis
       else if find_index n tis \<noteq> None then find_index n tis else find_index match_any tis)"
    by (simp add: matching_index_def u_def n_def false split: option.splits)
  have r: "match_rank e ti = 0 \<longleftrightarrow> u ti" "\<not> u ti \<Longrightarrow> match_rank e ti = 1 \<longleftrightarrow> n ti"
      "\<not> u ti \<Longrightarrow> \<not> n ti \<Longrightarrow> match_rank e ti = 2 \<longleftrightarrow> match_any ti" for ti
    by (auto simp: match_rank_def u_def n_def)
  have c: "find_index P tis = find_index Q tis" if "\<forall>ti \<in> set tis. P ti = Q ti" for P Q
    using that by (induction tis) auto
  show ?thesis
  proof (cases "find_index u tis")
    case None
    then have u: "\<forall>ti \<in> set tis. \<not> u ti" by (simp add: find_index_None)
    then have 1: "find_index (\<lambda>ti. match_rank e ti = 1) tis = find_index n tis" by (intro c) (use r(2) in blast)
    show ?thesis
    proof (cases "find_index n tis")
      case None
      then have "find_index (\<lambda>ti. match_rank e ti = 2) tis = find_index match_any tis"
        using u by (intro c) (simp add: r find_index_None)
      then show ?thesis using None \<open>find_index u tis = None\<close> 1 by (simp add: m r(1))
    qed (use None 1 in \<open>simp add: m r(1)\<close>)
  qed (simp add: m r(1))
qed

lemma match_rank_le: "match_rank e ti \<le> 3" by (simp add: match_rank_def)

text \<open>
  C30. The platform chosen is the best match, and the first of equally good ones; there is one
  exactly when some platform matches, and without one the choice stays as it was.
\<close>

theorem best_platform_chosen:
  assumes "platform_matched e ps = (ok, ps')"
  shows "let tis = ps_thermal_info_list ps; i = nat (ps_matched_thermal_info_index ps')
    in (ok \<longleftrightarrow> (\<exists>ti \<in> set tis. match_rank e ti < 3))
       \<and> (if ok then i < length tis \<and> matched_info ps' = Inr (tis ! i)
            \<and> (\<forall>j < length tis. match_rank e (tis ! i) < match_rank e (tis ! j)
                 \<or> match_rank e (tis ! i) = match_rank e (tis ! j) \<and> i \<le> j)
          else ps' = ps)"
proof -
  define tis where "tis = ps_thermal_info_list ps"
  have best: "i < length tis \<and> match_rank e (tis ! i) < 3 \<and> (\<forall>j < length tis. match_rank e (tis ! i) < match_rank e (tis ! j)
      \<or> match_rank e (tis ! i) = match_rank e (tis ! j) \<and> i \<le> j)" if "matching_index e tis = Some i" for i
  proof -
    obtain r where r: "r < 3" "find_index (\<lambda>ti. match_rank e ti = r) tis = Some i" "\<forall>ti \<in> set tis. \<not> match_rank e ti < r"
    proof -
      have *: "thesis" if "r < 3" "find_index (\<lambda>ti. match_rank e ti = r) tis = Some i"
        "\<forall>q < r. find_index (\<lambda>ti. match_rank e ti = q) tis = None" for r
        using that by (intro \<open>\<And>r. r < 3 \<Longrightarrow> _ \<Longrightarrow> _ \<Longrightarrow> thesis\<close>) (auto simp: find_index_None)
      show thesis
        using \<open>matching_index e tis = Some i\<close> unfolding matching_index_ranks
        by (auto split: option.splits intro: * [of 0] * [of 1] * [of 2] simp: less_Suc_eq numeral_2_eq_2)
    qed
    then show ?thesis
      using find_index_Some [OF r(2)] by (metis linorder_neqE_nat nat_neq_iff not_le_imp_less nth_mem)
  qed
  have none: "\<forall>ti \<in> set tis. \<not> match_rank e ti < 3" if "matching_index e tis = None"
    using that by (auto simp: matching_index_ranks find_index_None less_Suc_eq numeral_3_eq_3 numeral_2_eq_2 split: option.splits)
  show ?thesis
  proof (cases "matching_index e tis")
    case None
    then show ?thesis using assms none by (auto simp: platform_matched_def tis_def Let_def)
  next
    case (Some i)
    then have "ok" "ps' = ps\<lparr>ps_matched_thermal_info_index := int i\<rparr>"
      using assms by (auto simp: platform_matched_def tis_def)
    then show ?thesis
      using best [OF Some] nth_mem unfolding tis_def by (auto simp: matched_info_def Let_def)
  qed
qed

section \<open>Examples\<close>

definition demo_platform :: "string \<Rightarrow> sensor_conf list \<Rightarrow> thermal_info" where
  "demo_platform u ss = no_info\<lparr>ti_uuid := u, ti_default_preference := PREF_ENERGY_CONSERVE, ti_sensors := ss\<rparr>"

definition demo_sensor :: sensor_conf where
  "demo_sensor = no_sensor\<lparr>sc_name := ''skin''\<rparr>"

lemma is_double_0: "is_double 0"
  by (simp add: is_double_def f64_0 floorlog_def)

lemma demo_platform_ok: "platform_ok (demo_platform ''a'' [demo_sensor])" "platform_ok (demo_platform ''b'' [])"
  by (simp_all add: platform_ok_def demo_platform_def demo_sensor_def no_info_def no_ppcc_def is_word_def is_space_def ppcc_ok_def
      in_s32_def sensor_ok_def no_sensor_def is_double_0 flag_def)

lemma demo_carried:
  "carried (carry_platform default_pid) no_info [demo_platform ''a'' [demo_sensor], demo_platform ''b'' []]
     = [demo_platform ''a'' [demo_sensor], demo_platform ''b'' [demo_sensor]]"
  by (simp add: carry_platform_def or_prev_def demo_platform_def no_info_def no_ppcc_def carry_ppcc_def)

text \<open>The second platform has no sensors, and is read with the sensor of the first.\<close>

theorem conf_roundtrip_witness:
  "parse inline_text default_pid (conf_document '' '' [demo_platform ''a'' [demo_sensor], demo_platform ''b'' []]) []
     = Inr [demo_platform ''a'' [demo_sensor], demo_platform ''b'' [demo_sensor]]"
  using conf_roundtrip [of inline_text "[demo_platform ''a'' [demo_sensor], demo_platform ''b'' []]" default_pid "'' ''" "[]"]
    inline_text_reads demo_platform_ok demo_carried by auto

theorem unguarded_content_faults_witness:
  "parse_new_zone inline_text [Element ''Type'' []] \<lparr>zc_type = [], zc_trip_pts = []\<rparr> = Inl Out_of_bounds
   \<and> parse_new_platform_info inline_text default_pid [Element ''Preference'' [XText '' '']] no_info = Inl Out_of_bounds"
  using unguarded_content_faults [of inline_text "[]" "\<lparr>zc_type = [], zc_trip_pts = []\<rparr>" "\<lparr>zc_type = [], zc_trip_pts = []\<rparr>"
      default_pid "[]" no_info "no_info\<lparr>ti_default_preference := PREF_ENERGY_CONSERVE, ti_polling_interval := 0\<rparr>" "'' ''" "[]"]
  by (simp add: inline_text_reads parse_new_zone_def is_space_def)

definition demo_disk :: conf_disk where
  "demo_disk =
     \<lparr>cf_open = (\<lambda>_. True), cf_stat = (\<lambda>_. Some (0, 0x81A4)), cf_lstat = (\<lambda>_. Some 0x81A4),
      cf_xml = (\<lambda>_. Some [XOther, Element ''ThermalConfiguration'' []])\<rparr>"

theorem only_trusted_files_parsed_witness:
  "parser_init (\<lambda>_ d. (0, d)) ''/tmp/conf.xml'' demo_disk cthd_parse
     = (THD_SUCCESS, demo_disk, cthd_parse\<lparr>ps_root := [Element ''ThermalConfiguration'' []]\<rparr>)
   \<and> (\<exists>md. cf_stat demo_disk ''/tmp/conf.xml'' = Some (0, md) \<and> \<not> bit md 4 \<and> \<not> bit md 1)"
proof -
  have "(0x81A4 :: u32) AND S_IWGRP_OTH = 0" "\<not> S_ISLNK 0x81A4"
    unfolding S_IWGRP_OTH_def S_ISLNK_def by code_simp+
  then have "parser_init (\<lambda>_ d. (0, d)) ''/tmp/conf.xml'' demo_disk cthd_parse
     = (THD_SUCCESS, demo_disk, cthd_parse\<lparr>ps_root := [Element ''ThermalConfiguration'' []]\<rparr>)"
    by (simp add: parser_init_def choose_conf_def demo_disk_def cthd_parse_def file_trusted_def read_root_def)
  with only_trusted_files_parsed [OF this] show ?thesis by auto
qed

definition demo_dmi :: env where
  "demo_dmi =
     \<lparr>e_now = 0, e_files = [product_file ''uuid'' \<mapsto> Text ''b''], e_link = (\<lambda>_. False), e_kwrite = (\<lambda>_ _ fs. (0, fs)),
      e_ksleep = (\<lambda>_ fs. fs)\<rparr>"

theorem best_platform_chosen_witness:
  "platform_matched demo_dmi (cthd_parse\<lparr>ps_thermal_info_list := [demo_platform ''a'' [], demo_platform ''b'' []]\<rparr>)
     = (True, cthd_parse\<lparr>ps_thermal_info_list := [demo_platform ''a'' [], demo_platform ''b'' []],
                         ps_matched_thermal_info_index := 1\<rparr>)
   \<and> match_rank demo_dmi (demo_platform ''b'' []) \<le> match_rank demo_dmi (demo_platform ''a'' [])"
proof -
  have "platform_matched demo_dmi (cthd_parse\<lparr>ps_thermal_info_list := [demo_platform ''a'' [], demo_platform ''b'' []]\<rparr>)
     = (True, cthd_parse\<lparr>ps_thermal_info_list := [demo_platform ''a'' [], demo_platform ''b'' []],
                         ps_matched_thermal_info_index := 1\<rparr>)"
    by (simp add: platform_matched_def matching_index_def dmi_line_def demo_dmi_def product_file_def match_uuid_def demo_platform_def
        no_info_def string_trim_def)
  with best_platform_chosen [OF this] show ?thesis by (auto simp: Let_def less_Suc_eq)
qed

end
