(* ===== verification/Thd_Features.thy ===== *)
theory Thd_Features
  imports Thd_ConfText
begin

text \<open>
  The other configuration files: \<^verbatim>\<open>thd_features_parse.cpp\<close> (the features switched off by
  \<^verbatim>\<open>thermald-features.xml\<close>), \<^verbatim>\<open>thd_cdev_order_parser.cpp\<close> (the order of cooling devices of the
  processor zone), and how the engine reads features and configuration. What the system answers
  about files and what libxml2 makes of them are arguments, as for the configuration.
\<close>

section \<open>Features\<close>

datatype feature = DBUS_CONTROL | XML_THERMAL_CONFIG | DATA_VAULT_FS | KOBJECT_UEVENT_SUPPORT

definition MAX_FEATURE :: nat where "MAX_FEATURE = 4"

definition feature_index :: "feature \<Rightarrow> nat" where
  "feature_index f = (case f of DBUS_CONTROL \<Rightarrow> 0 | XML_THERMAL_CONFIG \<Rightarrow> 1 | DATA_VAULT_FS \<Rightarrow> 2 | KOBJECT_UEVENT_SUPPORT \<Rightarrow> 3)"

text \<open>\<open>ft_root\<close> is empty while there is no document.\<close>

record features =
  ft_root :: "xml_node list"
  ft_list :: "int list"

definition cthd_features_parse :: features where
  "cthd_features_parse = \<lparr>ft_root = [], ft_list = []\<rparr>"

definition features_name :: string where
  "features_name = TDCONFDIR @ ''/'' @ ''thermald-features.xml''"

definition features_init :: "conf_disk \<Rightarrow> features \<Rightarrow> int \<times> features" where
  "features_init d f =
     (if \<not> file_trusted d features_name then (THD_ERROR, f)
      else
        (let f1 = f\<lparr>ft_list := replicate MAX_FEATURE 1\<rparr>
         in case read_root d features_name of None \<Rightarrow> (THD_ERROR, f1)
            | Some r \<Rightarrow> (THD_SUCCESS, f1\<lparr>ft_root := r\<rparr>)))"

text \<open>\<^verbatim>\<open>strtol\<close> of a text that was trimmed, accepted when it takes all of it and is in range.\<close>

definition whole_number :: "string \<Rightarrow> int option" where
  "whole_number s =
     (let r = (if take 1 s = ''-'' \<or> take 1 s = ''+'' then tl s else s); v = parse_sign s
      in if r \<noteq> [] \<and> list_all is_digit r \<and> - (2 ^ 63) \<le> v \<and> v < 2 ^ 63 then Some v else None)"

text \<open>The value is converted from \<^verbatim>\<open>long\<close> to \<^verbatim>\<open>int\<close>.\<close>

definition store_feature :: "nat \<Rightarrow> int \<Rightarrow> features \<Rightarrow> features result" where
  "store_feature k v f =
     (if k < length (ft_list f) then Inr (f\<lparr>ft_list := (ft_list f)[k := s32 v]\<rparr>) else Inl Out_of_bounds)"

definition set_feature_value :: "node_text \<Rightarrow> feature \<Rightarrow> xml_node list \<Rightarrow> features \<Rightarrow> features result" where
  "set_feature_value g k kids f =
     (case g kids of None \<Rightarrow> Inr f
      | Some v \<Rightarrow>
          bind_r (char_trim v) (\<lambda>s. case whole_number s of None \<Rightarrow> Inr f | Some x \<Rightarrow> store_feature (feature_index k) x f))"

definition feature_name :: "feature \<Rightarrow> string" where
  "feature_name f =
     (case f of DBUS_CONTROL \<Rightarrow> ''DbusControl'' | XML_THERMAL_CONFIG \<Rightarrow> ''XMLThermalConfig''
      | DATA_VAULT_FS \<Rightarrow> ''DataVaultFromFileSystem'' | KOBJECT_UEVENT_SUPPORT \<Rightarrow> ''KobjectUeventSupport'')"

definition feature_named :: "string \<Rightarrow> feature option" where
  "feature_named nm =
     List.find (\<lambda>f. is_name nm (feature_name f)) [DBUS_CONTROL, XML_THERMAL_CONFIG, DATA_VAULT_FS, KOBJECT_UEVENT_SUPPORT]"

text \<open>Whether any element was a feature, and the new values.\<close>

definition parse_features :: "node_text \<Rightarrow> xml_node list \<Rightarrow> bool \<times> features \<Rightarrow> (bool \<times> features) result" where
  "parse_features g =
     for_elements (\<lambda>nm kids st.
       case feature_named nm of None \<Rightarrow> Inr st
       | Some k \<Rightarrow> bind_r (set_feature_value g k kids (snd st)) (\<lambda>f. Inr (True, f)))"

definition features_parse :: "node_text \<Rightarrow> xml_node list \<Rightarrow> features \<Rightarrow> (int \<times> features) result" where
  "features_parse g ns f =
     bind_r
       (for_elements (\<lambda>nm kids st.
          if is_name nm ''ThermaldFeatures''
          then bind_r (parse_features g kids (False, snd st)) (\<lambda>r. Inr (fst st \<or> fst r, snd r))
          else Inr st) ns (False, f))
       (\<lambda>st. Inr (if fst st then THD_SUCCESS else THD_ERROR, snd st))"

definition features_start_parse :: "node_text \<Rightarrow> features \<Rightarrow> (int \<times> features) result" where
  "features_start_parse g f = features_parse g (ft_root f) f"

definition features_deinit :: "features \<Rightarrow> features" where
  "features_deinit f = f\<lparr>ft_root := []\<rparr>"

text \<open>\<^verbatim>\<open>cthd_engine::thd_parse_features\<close>: the result of the initialisation is not tested, and the file is
  parsed twice.\<close>

definition thd_parse_features :: "node_text \<Rightarrow> conf_disk \<Rightarrow> features \<Rightarrow> features result" where
  "thd_parse_features g d f =
     bind_r (features_start_parse g (snd (features_init d f)))
       (\<lambda>r. if fst r = THD_SUCCESS
            then bind_r (features_start_parse g (snd r)) (\<lambda>r2. Inr (features_deinit (snd r2)))
            else Inr (snd r))"

definition check_feature :: "nat \<Rightarrow> features \<Rightarrow> int result" where
  "check_feature k f =
     (if MAX_FEATURE \<le> k then Inr THD_ERROR
      else if k < length (ft_list f) then Inr (ft_list f ! k) else Inl Out_of_bounds)"

section \<open>The configuration of the engine\<close>

text \<open>\<^verbatim>\<open>cthd_engine::parser_init\<close> and \<^verbatim>\<open>parser_deinit\<close>.\<close>

record conf_reader =
  cr_parser :: parser
  cr_features :: features
  cr_parser_disabled :: bool
  cr_parser_init_done :: bool

definition engine_parser_init ::
    "node_text \<Rightarrow> pid_control \<Rightarrow> (string \<Rightarrow> conf_disk \<Rightarrow> int \<times> conf_disk) \<Rightarrow> string \<Rightarrow> conf_disk \<Rightarrow> conf_reader
     \<Rightarrow> (int \<times> conf_disk \<times> conf_reader) result" where
  "engine_parser_init g junk gen config_file d cr =
     bind_r (check_feature (feature_index XML_THERMAL_CONFIG) (cr_features cr)) (\<lambda>x.
       let cr1 = (if x = 0 then cr\<lparr>cr_parser_disabled := True\<rparr> else cr)
       in if cr_parser_disabled cr1 then Inr (THD_ERROR, d, cr1)
          else if cr_parser_init_done cr1 then Inr (THD_SUCCESS, d, cr1)
          else case parser_init gen config_file d (cr_parser cr1) of (ret, d1, ps) \<Rightarrow>
            if ret \<noteq> THD_SUCCESS then Inr (THD_ERROR, d1, cr1\<lparr>cr_parser := ps\<rparr>)
            else bind_r (start_parse g junk ps)
              (\<lambda>(ret2, ps2). Inr (THD_SUCCESS, d1, cr1\<lparr>cr_parser := ps2, cr_parser_init_done := True\<rparr>)))"

definition engine_parser_deinit :: "conf_reader \<Rightarrow> conf_reader" where
  "engine_parser_deinit cr =
     (if cr_parser_init_done cr then cr\<lparr>cr_parser := parser_deinit (cr_parser cr), cr_parser_init_done := False\<rparr> else cr)"

text \<open>\<^verbatim>\<open>!parser_init() && parser.platform_matched()\<close>, with the configuration the engine then works on.\<close>

definition engine_conf ::
    "node_text \<Rightarrow> pid_control \<Rightarrow> (string \<Rightarrow> conf_disk \<Rightarrow> int \<times> conf_disk) \<Rightarrow> string \<Rightarrow> conf_disk \<Rightarrow> 'a env_scheme
     \<Rightarrow> conf_reader \<Rightarrow> (thermal_info option \<times> conf_disk \<times> conf_reader) result" where
  "engine_conf g junk gen config_file d e cr =
     bind_r (engine_parser_init g junk gen config_file d cr) (\<lambda>(ret, d1, cr1).
       if ret \<noteq> THD_SUCCESS then Inr (None, d1, cr1)
       else case platform_matched e (cr_parser cr1) of (ok, ps) \<Rightarrow>
         if \<not> ok then Inr (None, d1, cr1)
         else bind_r (matched_info ps) (\<lambda>ti. Inr (Some ti, d1, cr1\<lparr>cr_parser := ps\<rparr>)))"

section \<open>The order of cooling devices\<close>

definition order_name :: string where
  "order_name = TDCONFDIR @ ''/'' @ ''thermal-cpu-cdev-order.xml''"

definition order_init :: "conf_disk \<Rightarrow> xml_node list option" where
  "order_init d = (if cf_stat d order_name = None then None else read_root d order_name)"

definition parse_new_cdev :: "node_text \<Rightarrow> xml_node list \<Rightarrow> string list \<Rightarrow> string list result" where
  "parse_new_cdev g = for_elements (with_text g (\<lambda>nm kids v l. Inr (l @ [v])))"

definition order_parse :: "node_text \<Rightarrow> xml_node list \<Rightarrow> string list \<Rightarrow> string list result" where
  "order_parse g =
     for_elements (\<lambda>nm kids l. if is_name nm ''CoolingDeviceOrder'' then parse_new_cdev g kids l else Inr l)"

text \<open>The list that \<^verbatim>\<open>cthd_zone_cpu::parse_cdev_order\<close> gets; \<open>None\<close> when the file cannot be read.\<close>

definition get_order_list :: "node_text \<Rightarrow> conf_disk \<Rightarrow> string list option result" where
  "get_order_list g d =
     (case order_init d of None \<Rightarrow> Inr None | Some r \<Rightarrow> bind_r (order_parse g r []) (\<lambda>l. Inr (Some l)))"

section \<open>Reading features\<close>

definition features_document :: "string \<Rightarrow> (feature \<times> int) list \<Rightarrow> xml_node list" where
  "features_document ws kvs =
     section_of ws ''ThermaldFeatures'' (concat (map (\<lambda>kv. number (feature_name (fst kv)) (snd kv)) kvs))"

lemma whole_number_show: "in_s32 v \<Longrightarrow> whole_number (show_int v) = Some v"
proof -
  assume v: "in_s32 v"
  obtain d cs where d: "d < 10" "show_nat (nat v) = digit_char d # cs" using show_nat_hd by blast
  obtain d' cs' where d': "d' < 10" "show_nat (nat (- v)) = digit_char d' # cs'" using show_nat_hd by blast
  have "parse_sign (show_int v) = v" using parse_sign_show_int [of v] show_int_not_space [of v] by simp
  then show ?thesis
    using v d d' show_nat_digits [of "nat v"] show_nat_digits [of "nat (- v)"]
    by (auto simp: whole_number_def Let_def in_s32_def show_int_def)
qed

lemma feature_named_name: "feature_named (feature_name k) = Some k"
  by (cases k) (simp_all add: feature_named_def feature_name_def name_eval)

lemma feature_index_lt: "feature_index k < MAX_FEATURE"
  by (cases k) (simp_all add: feature_index_def MAX_FEATURE_def)

lemma feature_index_inj: "feature_index k = feature_index k' \<longleftrightarrow> k = k'"
  by (cases k; cases k') (simp_all add: feature_index_def)

definition put_feature :: "feature \<times> int \<Rightarrow> features \<Rightarrow> features" where
  "put_feature kv f = f\<lparr>ft_list := (ft_list f)[feature_index (fst kv) := snd kv]\<rparr>"

lemma put_feature_all:
  "length (ft_list (fold put_feature kvs f)) = length (ft_list f)" "ft_root (fold put_feature kvs f) = ft_root f"
  "length (ft_list f) = MAX_FEATURE \<Longrightarrow> ft_list (fold put_feature kvs f) ! feature_index k
     = (case map_of (rev kvs) k of None \<Rightarrow> ft_list f ! feature_index k | Some v \<Rightarrow> v)"
proof -
  show l: "length (ft_list (fold put_feature kvs f)) = length (ft_list f)"
    by (induction kvs arbitrary: f) (simp_all add: put_feature_def)
  show "ft_root (fold put_feature kvs f) = ft_root f"
    by (induction kvs arbitrary: f) (simp_all add: put_feature_def)
  show "length (ft_list f) = MAX_FEATURE \<Longrightarrow> ft_list (fold put_feature kvs f) ! feature_index k
     = (case map_of (rev kvs) k of None \<Rightarrow> ft_list f ! feature_index k | Some v \<Rightarrow> v)"
    by (induction kvs arbitrary: f)
      (auto simp: put_feature_def map_add_def feature_index_lt nth_list_update feature_index_inj split: option.splits)
qed

lemma parse_feature_nodes:
  assumes g: "reads_text g" and v: "list_all (\<lambda>kv. in_s32 (snd kv)) kvs" and f: "length (ft_list f) = MAX_FEATURE"
  shows "parse_features g (concat (map (\<lambda>kv. number (feature_name (fst kv)) (snd kv)) kvs)) (b, f)
    = Inr (b \<or> kvs \<noteq> [], fold put_feature kvs f)"
  using v f
proof (induction kvs arbitrary: b f)
  case (Cons kv kvs)
  have "set_feature_value g (fst kv) [XText (show_int (snd kv))] f = Inr (put_feature kv f)"
    using g Cons.prems by (simp add: set_feature_value_def reads_text_def is_word_show_int whole_number_show store_feature_def
        feature_index_lt put_feature_def)
  then show ?case
    using Cons.IH [of "put_feature kv f" True] Cons.prems
    by (simp add: parse_features_def number_def for_elements_append feature_named_name put_feature_def)
qed (simp add: parse_features_def)

lemma parse_features_document:
  assumes "reads_text g" "list_all (\<lambda>kv. in_s32 (snd kv)) kvs" "length (ft_list f) = MAX_FEATURE" "ft_root f = features_document ws kvs"
  shows "features_start_parse g f = Inr (if kvs = [] then THD_ERROR else THD_SUCCESS, fold put_feature kvs f)"
  using parse_feature_nodes [OF assms(1-3), of False] assms(4)
  by (simp add: features_start_parse_def features_parse_def features_document_def for_group_plain name_eval parse_features_def)

text \<open>
  When the features file is trusted and can be read, every feature has the last value the file
  gives it, and 1 when the file does not name it.
\<close>

theorem features_read:
  assumes g: "reads_text g" and d: "file_trusted d features_name" "read_root d features_name = Some (features_document ws kvs)"
    and v: "list_all (\<lambda>kv. in_s32 (snd kv)) kvs"
  shows "\<exists>f. thd_parse_features g d f0 = Inr f
    \<and> (\<forall>k. check_feature (feature_index k) f = Inr (case map_of (rev kvs) k of None \<Rightarrow> 1 | Some v \<Rightarrow> v))"
proof -
  define f1 where "f1 = f0\<lparr>ft_list := replicate MAX_FEATURE 1, ft_root := features_document ws kvs\<rparr>"
  define f2 where "f2 = fold put_feature kvs f1"
  define f3 where "f3 = (if kvs = [] then f2 else features_deinit (fold put_feature kvs f2))"
  have i: "snd (features_init d f0) = f1" using d by (simp add: features_init_def f1_def)
  have l: "length (ft_list f1) = MAX_FEATURE" "ft_root f1 = features_document ws kvs" by (simp_all add: f1_def)
  then have l2: "length (ft_list f2) = MAX_FEATURE" "ft_root f2 = features_document ws kvs"
    by (simp_all add: f2_def put_feature_all)
  have "THD_ERROR \<noteq> THD_SUCCESS" by (simp add: thd_codes)
  then have "thd_parse_features g d f0 = Inr f3"
    using parse_features_document [OF g v l] parse_features_document [OF g v l2]
    by (simp add: thd_parse_features_def i f2_def f3_def)
  moreover have "check_feature (feature_index k) f3 = Inr (case map_of (rev kvs) k of None \<Rightarrow> 1 | Some v \<Rightarrow> v)" for k
    using l l2 feature_index_lt [of k] put_feature_all(3) [OF l(1), of kvs k] put_feature_all(3) [OF l2(1), of kvs k]
    by (auto simp: check_feature_def f3_def features_deinit_def put_feature_all(1) f2_def f1_def split: option.splits)
  ultimately show ?thesis by blast
qed

text \<open>
  C32. Without a trusted features file (it is missing, not owned by root, writable by others or a
  link) the list of features stays empty, and the first look at a feature, before the configuration
  is read, is outside of it.
\<close>

theorem missing_features_fault:
  assumes "\<not> file_trusted d features_name"
  shows "\<exists>f. thd_parse_features g d cthd_features_parse = Inr f
    \<and> engine_parser_init g junk gen config_file d' (cr\<lparr>cr_features := f\<rparr>) = Inl Out_of_bounds"
  using assms
  by (simp add: thd_parse_features_def features_init_def cthd_features_parse_def features_start_parse_def features_parse_def
      engine_parser_init_def check_feature_def feature_index_def MAX_FEATURE_def thd_codes)

definition no_files :: conf_disk where
  "no_files = \<lparr>cf_open = (\<lambda>_. False), cf_stat = (\<lambda>_. None), cf_lstat = (\<lambda>_. None), cf_xml = (\<lambda>_. None)\<rparr>"

definition some_reader :: conf_reader where
  "some_reader = \<lparr>cr_parser = cthd_parse, cr_features = cthd_features_parse, cr_parser_disabled = False, cr_parser_init_done = False\<rparr>"

theorem missing_features_fault_witness:
  "\<not> file_trusted no_files features_name
   \<and> (\<exists>f. thd_parse_features inline_text no_files cthd_features_parse = Inr f
        \<and> engine_parser_init inline_text default_pid (\<lambda>_ d. (0, d)) [] no_files (some_reader\<lparr>cr_features := f\<rparr>) = Inl Out_of_bounds)"
proof -
  have "\<not> file_trusted no_files features_name" by (simp add: file_trusted_def no_files_def)
  with missing_features_fault [OF this] show ?thesis by blast
qed

definition features_disk :: conf_disk where
  "features_disk =
     \<lparr>cf_open = (\<lambda>_. True), cf_stat = (\<lambda>_. Some (0, 0x81A4)), cf_lstat = (\<lambda>_. Some 0x81A4),
      cf_xml = (\<lambda>_. Some (features_document '' '' [(DBUS_CONTROL, 0)]))\<rparr>"

theorem features_read_witness:
  "\<exists>f. thd_parse_features inline_text features_disk cthd_features_parse = Inr f
     \<and> check_feature 0 f = Inr 0 \<and> check_feature 1 f = Inr 1"
proof -
  have "(0x81A4 :: u32) AND S_IWGRP_OTH = 0" "\<not> S_ISLNK 0x81A4"
    unfolding S_IWGRP_OTH_def S_ISLNK_def by code_simp+
  then have "file_trusted features_disk features_name"
      "read_root features_disk features_name = Some (features_document '' '' [(DBUS_CONTROL, 0)])"
    by (simp_all add: features_disk_def file_trusted_def read_root_def features_document_def section_of_def)
  from features_read [OF inline_text_reads this, of cthd_features_parse]
  obtain f where f: "thd_parse_features inline_text features_disk cthd_features_parse = Inr f"
    "\<And>k. check_feature (feature_index k) f = Inr (case map_of (rev [(DBUS_CONTROL, 0)]) k of None \<Rightarrow> 1 | Some v \<Rightarrow> v)"
    by (auto simp: in_s32_def)
  then show ?thesis using f(2) [of DBUS_CONTROL] f(2) [of XML_THERMAL_CONFIG] by (auto simp: feature_index_def)
qed

end
