(* ===== verification/Thd_Relations.thy ===== *)
theory Thd_Relations
  imports Thd_Features
begin

text \<open>
  The ACPI relationship tables, \<^verbatim>\<open>thd_trt_art_reader.cpp\<close>: reading _TRT, _ART and PSVT from the
  character device, grouping their entries by target and writing a configuration file from them.
  What the \<^verbatim>\<open>ioctl\<close> calls give and the directories are arguments. The text that is written is a
  string; the file it goes to is the business of the caller.

  Device names are the C strings in their fields of eight bytes, taken as terminated within them.
\<close>

section \<open>Tables\<close>

record trt_entry =
  te_source :: string
  te_target :: string
  te_influence :: u64
  te_sample_period :: u64

record art_entry =
  ae_source :: string
  ae_target :: string
  ae_weight :: u64

text \<open>The limit is a union: its string is used when the knob type says so, else its integer.\<close>

record psvt_object =
  po_source :: string
  po_target :: string
  po_sample_period :: u64
  po_passive_temp :: u64
  po_limit_integer :: u64
  po_limit_string :: string
  po_step_size :: u64
  po_control_knob_type :: u64

text \<open>What the device answers for a table: the number of entries, the size of the data and the
  entries that fit in a buffer of that size; \<open>None\<close> is a failing call.\<close>

record 'e rel_table =
  tb_count :: "u64 option"
  tb_size :: "u64 option"
  tb_data :: "'e list option"

record rel_dev =
  rd_open :: bool
  rd_trt :: "trt_entry rel_table"
  rd_art :: "art_entry rel_table"
  rd_psvt :: "psvt_object rel_table"

definition read_table :: "bool \<Rightarrow> 'e rel_table \<Rightarrow> (u64 \<times> 'e list) option" where
  "read_table opens t =
     (if \<not> opens then None
      else case tb_count t of None \<Rightarrow> None
      | Some n \<Rightarrow>
          (case tb_size t of None \<Rightarrow> None
           | Some l \<Rightarrow> if l = 0 then None else case tb_data t of None \<Rightarrow> None | Some d \<Rightarrow> Some (n, d)))"

record rel_object =
  ro_target_device :: string
  ro_target_sensor :: string
  ro_trt_objects :: "trt_entry list"
  ro_art_objects :: "art_entry list"
  ro_psvt_objects :: "psvt_object list"
  ro_temperature :: int
  ro_step :: int

definition rel_object_t :: "string \<Rightarrow> int \<Rightarrow> int \<Rightarrow> rel_object" where
  "rel_object_t name temperature step =
     \<lparr>ro_target_device = name, ro_target_sensor = name, ro_trt_objects = [], ro_art_objects = [], ro_psvt_objects = [],
      ro_temperature = temperature, ro_step = step\<rparr>"

record acpi_rel =
  ar_trt :: "trt_entry list"
  ar_trt_count :: u32
  ar_art :: "art_entry list"
  ar_art_count :: u32
  ar_psvt :: "psvt_object list"
  ar_psvt_count :: u32
  ar_rel_list :: "rel_object list"
  ar_indentation :: string
  ar_conf_file :: string

definition cthd_acpi_rel :: acpi_rel where
  "cthd_acpi_rel =
     \<lparr>ar_trt = [], ar_trt_count = 0, ar_art = [], ar_art_count = 0, ar_psvt = [], ar_psvt_count = 0, ar_rel_list = [],
      ar_indentation = [], ar_conf_file = []\<rparr>"

text \<open>The count is stored in an \<^verbatim>\<open>unsigned int\<close>.\<close>

definition read_trt :: "rel_dev \<Rightarrow> acpi_rel \<Rightarrow> int \<times> acpi_rel" where
  "read_trt dev ar =
     (case read_table (rd_open dev) (rd_trt dev) of None \<Rightarrow> (-1, ar)
      | Some (n, es) \<Rightarrow> (0, ar\<lparr>ar_trt := es, ar_trt_count := ucast n\<rparr>))"

definition read_art :: "rel_dev \<Rightarrow> acpi_rel \<Rightarrow> int \<times> acpi_rel" where
  "read_art dev ar =
     (case read_table (rd_open dev) (rd_art dev) of None \<Rightarrow> (-1, ar)
      | Some (n, es) \<Rightarrow> (0, ar\<lparr>ar_art := es, ar_art_count := ucast n\<rparr>))"

definition read_psvt :: "rel_dev \<Rightarrow> acpi_rel \<Rightarrow> int \<times> acpi_rel" where
  "read_psvt dev ar =
     (case read_table (rd_open dev) (rd_psvt dev) of None \<Rightarrow> (-1, ar)
      | Some (n, es) \<Rightarrow> (0, ar\<lparr>ar_psvt := es, ar_psvt_count := ucast n\<rparr>))"

section \<open>Grouping by target\<close>

text \<open>An entry goes to the first object with its target, else to a new one at the end.\<close>

definition relate :: "string \<Rightarrow> rel_object \<Rightarrow> (rel_object \<Rightarrow> rel_object) \<Rightarrow> rel_object list \<Rightarrow> rel_object list" where
  "relate target new_obj add os =
     (case find_index (\<lambda>o'. ro_target_device o' = target) os of None \<Rightarrow> os @ [add new_obj]
      | Some i \<Rightarrow> os[i := add (os ! i)])"

definition relate_trt :: "trt_entry \<Rightarrow> rel_object list \<Rightarrow> rel_object list" where
  "relate_trt x = relate (te_target x) (rel_object_t (te_target x) 0 0) (\<lambda>r. r\<lparr>ro_trt_objects := ro_trt_objects r @ [x]\<rparr>)"

definition relate_art :: "art_entry \<Rightarrow> rel_object list \<Rightarrow> rel_object list" where
  "relate_art x = relate (ae_target x) (rel_object_t (ae_target x) 0 0) (\<lambda>r. r\<lparr>ro_art_objects := ro_art_objects r @ [x]\<rparr>)"

definition relate_psvt :: "psvt_object \<Rightarrow> rel_object list \<Rightarrow> rel_object list" where
  "relate_psvt x =
     relate (po_target x) (rel_object_t (po_target x) (s32 (uint (po_passive_temp x))) (s32 (uint (po_step_size x))))
       (\<lambda>r. r\<lparr>ro_psvt_objects := ro_psvt_objects r @ [x]\<rparr>)"

text \<open>Reading the entries by number; beyond the buffer is undefined.\<close>

definition entries :: "u32 \<Rightarrow> 'e list \<Rightarrow> 'e list result" where
  "entries n es = (if unat n \<le> length es then Inr (take (unat n) es) else Inl Out_of_bounds)"

definition parse_target_devices :: "acpi_rel \<Rightarrow> acpi_rel result" where
  "parse_target_devices ar =
     bind_r (entries (ar_trt_count ar) (ar_trt ar)) (\<lambda>ts.
       bind_r (entries (ar_art_count ar) (ar_art ar)) (\<lambda>as.
         bind_r (entries (ar_psvt_count ar) (ar_psvt ar)) (\<lambda>ps.
           Inr (ar\<lparr>ar_rel_list := fold relate_psvt ps (fold relate_art as (fold relate_trt ts (ar_rel_list ar)))\<rparr>))))"

section \<open>Names\<close>

text \<open>What finding a device needs of the system: the platform devices and the target of a link.\<close>

record rel_sys =
  rs_env :: menv
  rs_devices :: "string list option"
  rs_readlink :: "string \<Rightarrow> string option"
  rs_int3400_base :: string

definition has_substring :: "string \<Rightarrow> string \<Rightarrow> bool" where
  "has_substring p s \<longleftrightarrow> list_ex (\<lambda>i. take (length p) (drop i s) = p) [0..<Suc (length s)]"

definition platform_devices :: string where "platform_devices = ''/sys/bus/platform/devices/''"

text \<open>The directory of the ACPI node of a device and the name it has there; \<open>None\<close> to go on with the
  next device.\<close>

definition firmware_dir :: "rel_sys \<Rightarrow> string \<Rightarrow> string option" where
  "firmware_dir rs dn =
     (case rs_readlink rs (platform_devices @ dn @ ''/firmware_node'') of None \<Rightarrow> None
      | Some l \<Rightarrow> if l = [] then None else Some (platform_devices @ dn @ ''/'' @ take 255 l @ ''/''))"

definition acpi_name :: "menv \<Rightarrow> string \<Rightarrow> string option" where
  "acpi_name e p =
     (if sysfs_exists e (p @ ''uid'')
      then (case sysfs_read_str e (p @ ''uid'') [] of (r, s) \<Rightarrow> if r < 0 then None else Some s)
      else if sysfs_exists e (p @ ''path'')
      then (case sysfs_read_str e (p @ ''path'') [] of (r, s) \<Rightarrow>
              if r < 0 then None else Some (rev (takeWhile (\<lambda>c. c \<noteq> CHR ''.'') (rev s))))
      else None)"

definition device_class :: "string \<Rightarrow> string \<Rightarrow> string" where
  "device_class p name =
     (if has_substring ''INT3406'' p then ''DISP'' else if has_substring ''INT3402'' p then ''TMEM''
      else if has_substring ''INT3401'' p then ''TCPU'' else name)"

fun associate_loop :: "rel_sys \<Rightarrow> string list \<Rightarrow> string \<Rightarrow> string" where
  "associate_loop rs [] name = name"
| "associate_loop rs (dn # ds) name =
     (if take 6 dn \<noteq> ''INT340'' then associate_loop rs ds name
      else case firmware_dir rs dn of None \<Rightarrow> associate_loop rs ds name
      | Some p \<Rightarrow>
          (if acpi_name (rs_env rs) p = Some name then device_class p name else associate_loop rs ds name))"

definition associate_device :: "rel_sys \<Rightarrow> string \<Rightarrow> string" where
  "associate_device rs name = (case rs_devices rs of None \<Rightarrow> name | Some ds \<Rightarrow> associate_loop rs ds name)"

definition source_substitue_strings :: "(string \<times> string) list" where
  "source_substitue_strings = [(''TPCH'', ''pch_wildcat_point'')]"

definition target_substitue_strings :: "(string \<times> string) list" where
  "target_substitue_strings =
     [(''B0D4'', ''rapl_controller''), (''DPLY'', ''LCD''), (''DISP'', ''LCD''), (''TMEM'', ''rapl_controller_dram''),
      (''TCPU'', ''rapl_controller''), (''B0DB'', ''rapl_controller'')]"

definition sensor_substitue_strings :: "(string \<times> string) list" where
  "sensor_substitue_strings = [(''TPCH'', ''pch_wildcat_point'')]"

definition substitute :: "(string \<times> string) list \<Rightarrow> string \<Rightarrow> string" where
  "substitute tab name = (case map_of tab name of None \<Rightarrow> name | Some s \<Rightarrow> s)"

datatype sub_type = TARGET_DEV | SOURCE_DEV | SENSOR_DEV

definition subtitute_string :: "rel_sys \<Rightarrow> sub_type \<Rightarrow> string \<Rightarrow> string" where
  "subtitute_string rs ty name =
     (case ty of TARGET_DEV \<Rightarrow> substitute target_substitue_strings (associate_device rs name)
      | SOURCE_DEV \<Rightarrow> substitute source_substitue_strings name
      | SENSOR_DEV \<Rightarrow> substitute sensor_substitue_strings name)"

section \<open>Writing\<close>

definition emit :: "string \<Rightarrow> acpi_rel \<Rightarrow> acpi_rel" where
  "emit s ar = ar\<lparr>ar_conf_file := ar_conf_file ar @ s\<rparr>"

definition indent :: "acpi_rel \<Rightarrow> acpi_rel" where
  "indent ar = ar\<lparr>ar_indentation := ar_indentation ar @ [CHR 0x09]\<rparr>"

definition nl :: string where "nl = [CHR 0x0A]"
definition tabs :: "nat \<Rightarrow> string" where "tabs n = replicate n (CHR 0x09)"

text \<open>An element with a text on a line of its own, and an opening or closing tag on one.\<close>

definition tag_line :: "string \<Rightarrow> string \<Rightarrow> string \<Rightarrow> string" where
  "tag_line p nm s = p @ ''<'' @ nm @ ''>'' @ s @ ''</'' @ nm @ ''>'' @ nl"

definition open_line :: "string \<Rightarrow> string \<Rightarrow> string" where
  "open_line p nm = p @ ''<'' @ nm @ ''>'' @ nl"

definition close_line :: "string \<Rightarrow> string \<Rightarrow> string" where
  "close_line p nm = p @ ''</'' @ nm @ ''>'' @ nl"

definition deci_kelvin_to_celsius :: "u64 \<Rightarrow> int" where
  "deci_kelvin_to_celsius t =
     (let x = s32 (s32 (uint t) - 2732) in if 0 \<le> x then s32 (x + 5) sdiv 10 else s32 (x - 5) sdiv 10)"

definition ACPI_TYPE_STRING :: u64 where "ACPI_TYPE_STRING = 2"

text \<open>The temperature lines of a PSVT entry: a string limit that is neither gives none.\<close>

definition psvt_temperature :: "string \<Rightarrow> psvt_object \<Rightarrow> string" where
  "psvt_temperature p x =
     (let c = deci_kelvin_to_celsius (po_passive_temp x); temp = (\<lambda>v. tag_line p ''Temperature'' (show_int (s32 v)))
      in if po_control_knob_type x = ACPI_TYPE_STRING
         then (if strncasecmp 3 (po_limit_string x) ''MAX'' = 0 then temp ((c + 1) * 1000) else [])
              @ (if strncasecmp 3 (po_limit_string x) ''MIN'' = 0 then temp (c * 1000) else [])
         else temp (c * 1000))"

definition psvt_limit :: "psvt_object \<Rightarrow> int" where
  "psvt_limit x = (if po_control_knob_type x = ACPI_TYPE_STRING then -1 else s32 (uint (po_limit_integer x)))"

definition psvt_trip_text :: "rel_sys \<Rightarrow> string \<Rightarrow> psvt_object \<Rightarrow> string" where
  "psvt_trip_text rs p x =
     open_line p ''TripPoint'' @ tag_line (p @ tabs 1) ''SensorType'' (po_target x) @ psvt_temperature (p @ tabs 1) x
     @ tag_line (p @ tabs 1) ''Type'' ''Passive'' @ open_line (p @ tabs 1) ''CoolingDevice''
     @ tag_line (p @ tabs 2) ''type'' (subtitute_string rs TARGET_DEV (po_source x))
     @ (if po_sample_period x \<noteq> 0
        then tag_line (p @ tabs 2) ''SamplingPeriod'' (show_nat (unat (po_sample_period x div 10))) else [])
     @ (if 0 < psvt_limit x then tag_line (p @ tabs 2) ''TargetState'' (show_int (s32 (psvt_limit x * 1000))) else [])
     @ close_line (p @ tabs 1) ''CoolingDevice'' @ close_line p ''TripPoint''"

definition add_psvt_trip_point :: "rel_sys \<Rightarrow> rel_object \<Rightarrow> acpi_rel \<Rightarrow> acpi_rel" where
  "add_psvt_trip_point rs r ar =
     emit (concat (map (psvt_trip_text rs (ar_indentation ar @ tabs 1)) (ro_psvt_objects r))) ar"

definition trt_cdev_text :: "rel_sys \<Rightarrow> string \<Rightarrow> trt_entry \<Rightarrow> string" where
  "trt_cdev_text rs p x =
     open_line (p @ tabs 1) ''CoolingDevice''
     @ tag_line (p @ tabs 2) ''type'' (subtitute_string rs TARGET_DEV (te_source x))
     @ tag_line (p @ tabs 2) ''influence'' (show_nat (unat (te_influence x)))
     @ tag_line (p @ tabs 2) ''SamplingPeriod'' (show_nat (unat (te_sample_period x * 100 div 1000)))
     @ close_line (p @ tabs 1) ''CoolingDevice''"

definition art_cdev_text :: "rel_sys \<Rightarrow> string \<Rightarrow> art_entry \<Rightarrow> string" where
  "art_cdev_text rs p x =
     open_line (p @ tabs 1) ''CoolingDevice''
     @ tag_line (p @ tabs 2) ''type'' (subtitute_string rs TARGET_DEV (ae_source x))
     @ tag_line (p @ tabs 2) ''influence'' (show_nat (unat (ae_weight x)))
     @ close_line (p @ tabs 1) ''CoolingDevice''"

text \<open>The trip of a relation: the sensor, a temperature to be found out, the type and the devices.\<close>

definition rel_trip_text :: "string \<Rightarrow> string \<Rightarrow> string \<Rightarrow> string \<Rightarrow> string" where
  "rel_trip_text p sensor ty cdevs =
     open_line p ''TripPoint'' @ tag_line (p @ tabs 1) ''SensorType'' sensor @ tag_line (p @ tabs 1) ''Temperature'' ''*''
     @ tag_line (p @ tabs 1) ''type'' ty @ tag_line (p @ tabs 1) ''ControlType'' ''SEQUENTIAL'' @ cdevs
     @ close_line p ''TripPoint''"

definition rename_sensor :: "rel_sys \<Rightarrow> rel_object \<Rightarrow> rel_object" where
  "rename_sensor rs r = r\<lparr>ro_target_sensor := subtitute_string rs SENSOR_DEV (ro_target_sensor r)\<rparr>"

definition add_passive_trip_point :: "rel_sys \<Rightarrow> rel_object \<Rightarrow> acpi_rel \<Rightarrow> rel_object \<times> acpi_rel" where
  "add_passive_trip_point rs r ar =
     (if ro_trt_objects r = [] then (r, ar)
      else
        (let p = ar_indentation ar @ tabs 1; r1 = rename_sensor rs r
         in (r1, emit (rel_trip_text p (ro_target_sensor r1) ''passive''
                        (concat (map (trt_cdev_text rs p) (ro_trt_objects r)))) ar)))"

definition add_active_trip_point :: "rel_sys \<Rightarrow> rel_object \<Rightarrow> acpi_rel \<Rightarrow> rel_object \<times> acpi_rel" where
  "add_active_trip_point rs r ar =
     (if ro_art_objects r = [] then (r, ar)
      else
        (let p = ar_indentation ar @ tabs 1; r1 = rename_sensor rs r
         in (r1, emit (rel_trip_text p (ro_target_sensor r1) ''active''
                        (concat (map (art_cdev_text rs p) (ro_art_objects r)))) ar)))"

text \<open>One zone of the loop of \<^verbatim>\<open>create_thermal_zone\<close>; \<open>p\<close> is the indentation of the zones. The
  indentation of the trips grows with every zone.\<close>

definition rename_device :: "rel_sys \<Rightarrow> rel_object \<Rightarrow> rel_object" where
  "rename_device rs r = r\<lparr>ro_target_device := subtitute_string rs SOURCE_DEV (ro_target_device r)\<rparr>"

definition zone_text :: "rel_sys \<Rightarrow> string \<Rightarrow> rel_object \<Rightarrow> acpi_rel \<Rightarrow> acpi_rel" where
  "zone_text rs p r ar =
     (if ro_target_device r = [] then ar
      else
        (let r1 = rename_device rs r;
             ar1 = indent (emit (open_line p ''ThermalZone'' @ tag_line (p @ tabs 1) ''Type'' (ro_target_device r1)
                                 @ open_line (p @ tabs 1) ''TripPoints'') ar);
             (r2, ar2) = add_passive_trip_point rs r1 ar1;
             (r3, ar3) = add_active_trip_point rs r2 ar2
         in emit (close_line (p @ tabs 1) ''TripPoints'' @ close_line p ''ThermalZone'') ar3))"

definition create_thermal_zone :: "rel_sys \<Rightarrow> acpi_rel \<Rightarrow> acpi_rel result" where
  "create_thermal_zone rs ar =
     (let p = ar_indentation ar @ tabs 1
      in bind_r (parse_target_devices (indent (indent ar))) (\<lambda>ar1. Inr (fold (zone_text rs p) (ar_rel_list ar1) ar1)))"

definition create_thermal_zones :: "rel_sys \<Rightarrow> acpi_rel \<Rightarrow> acpi_rel result" where
  "create_thermal_zones rs ar =
     (let p = ar_indentation ar
      in bind_r (create_thermal_zone rs (emit (open_line p ''ThermalZones'') ar)) (\<lambda>ar1.
           Inr (emit (close_line p ''ThermalZones'') ar1)))"

text \<open>\<^verbatim>\<open>istream::getline\<close> with a buffer of 256: a line of more than 255 characters fails.\<close>

definition product_line :: "'a env_scheme \<Rightarrow> string option" where
  "product_line e =
     (case dmi_line e (product_file ''name'') of None \<Rightarrow> None | Some l \<Rightarrow> if 255 < length l then None else Some l)"

definition create_platform_conf :: "rel_sys \<Rightarrow> acpi_rel \<Rightarrow> acpi_rel" where
  "create_platform_conf rs ar0 =
     (let ar = indent ar0; p = ar_indentation ar
      in emit (tag_line p ''Name'' ''_TRT export'' @ p @ ''<ProductName>''
               @ (case product_line (rs_env rs) of None \<Rightarrow> ''*'' @ nl | Some l \<Rightarrow> l) @ p @ ''</ProductName>'' @ nl) ar)"

definition create_platform_pref :: "int \<Rightarrow> acpi_rel \<Rightarrow> acpi_rel" where
  "create_platform_pref perf ar =
     emit (tag_line (ar_indentation ar) ''Preference'' (if perf \<noteq> 0 then ''PERFORMANCE'' else ''QUIET'')) ar"

definition xml_hdr :: string where "xml_hdr = ''<?xml version=\"1.0\"?>'' @ nl"
definition conf_begin :: string where "conf_begin = ''<ThermalConfiguration>'' @ nl"
definition conf_end :: string where "conf_end = ''</ThermalConfiguration>'' @ nl"

text \<open>The head of the file that both kinds of tables share.\<close>

definition start_conf :: "rel_sys \<Rightarrow> acpi_rel \<Rightarrow> acpi_rel" where
  "start_conf rs ar =
     create_platform_pref 0
       (create_platform_conf rs
         (emit (xml_hdr @ conf_begin @ open_line (tabs 1) ''Platform'') (ar\<lparr>ar_indentation := tabs 1\<rparr>)))"

definition uuid_passive1 :: string where "uuid_passive1 = ''42A441D6-AE6A-462b-A84B-4A8CE79027D3''"
definition uuid_passive2 :: string where "uuid_passive2 = ''9E04115A-AE87-4D1C-9500-0F3E340BFE75''"

text \<open>The constructor of \<^verbatim>\<open>cthd_INT3400\<close>: the base path, from the entries of the driver's directory.\<close>

definition cthd_INT3400 :: "string list option \<Rightarrow> string" where
  "cthd_INT3400 ds =
     (case ds of None \<Rightarrow> []
      | Some xs \<Rightarrow>
          (case List.find (\<lambda>d. take 3 d = ''INT'') xs of None \<Rightarrow> [] | Some d \<Rightarrow> platform_devices @ d @ ''/''))"

definition int3400_supports :: "rel_sys \<Rightarrow> string \<Rightarrow> bool" where
  "int3400_supports rs u \<longleftrightarrow>
     rs_int3400_base rs \<noteq> []
     \<and> (case e_files (rs_env rs) (rs_int3400_base rs @ ''uuids/'' @ ''available_uuids'') of
          Some (Text t) \<Rightarrow> u \<in> set (text_lines t) | _ \<Rightarrow> False)"

definition psvt_zone_text :: "rel_sys \<Rightarrow> string \<Rightarrow> rel_object \<Rightarrow> acpi_rel \<Rightarrow> acpi_rel" where
  "psvt_zone_text rs p r ar =
     (if ro_target_device r = [] then ar
      else
        emit (close_line (p @ tabs 2) ''TripPoints'' @ close_line (p @ tabs 1) ''ThermalZone'')
          (add_psvt_trip_point rs r
            (emit (open_line (p @ tabs 1) ''ThermalZone''
                   @ tag_line (p @ tabs 2) ''Type'' (ro_target_device (rename_device rs r))
                   @ open_line (p @ tabs 2) ''TripPoints'') ar)))"

text \<open>The result: the return value, and what was written when the output file (\<open>can_open\<close>) opened.\<close>

definition process_psvt :: "rel_sys \<Rightarrow> rel_dev \<Rightarrow> bool \<Rightarrow> acpi_rel \<Rightarrow> (int \<times> string option) result" where
  "process_psvt rs dev can_open ar =
     (if \<not> int3400_supports rs uuid_passive2 then Inr (THD_ERROR, None)
      else case read_psvt dev ar of (ret, ar1) \<Rightarrow>
        if ret \<noteq> 0 then Inr (ret, None)
        else if \<not> can_open then Inr (THD_ERROR, None)
        else
          (let ar2 = start_conf rs ar1; p = ar_indentation ar2
           in bind_r (parse_target_devices (emit (open_line p ''ThermalZones'') ar2)) (\<lambda>ar3.
                let ar4 = fold (psvt_zone_text rs p) (ar_rel_list ar3) (indent ar3)
                in Inr (THD_SUCCESS,
                        Some (ar_conf_file (emit (close_line p ''ThermalZones'' @ close_line p ''Platform'' @ conf_end) ar4))))))"

definition generate_conf :: "rel_sys \<Rightarrow> rel_dev \<Rightarrow> bool \<Rightarrow> bool \<Rightarrow> (int \<times> string option) result" where
  "generate_conf rs dev exists can_open =
     (if exists then Inr (0, None)
      else case read_art dev cthd_acpi_rel of (art_status, ar1) \<Rightarrow>
        case read_trt dev ar1 of (trt_status, ar2) \<Rightarrow>
          if trt_status < 0 \<and> art_status < 0 then process_psvt rs dev can_open ar2
          else if \<not> int3400_supports rs uuid_passive1 then process_psvt rs dev can_open ar2
          else if \<not> can_open then Inr (-1, None)
          else bind_r (create_thermal_zones rs (start_conf rs ar2)) (\<lambda>ar3.
                 Inr (0, Some (ar_conf_file (emit (close_line (tabs 1) ''Platform'' @ conf_end) ar3)))))"

end
