(* ===== verification/Thd_RelProps.thy ===== *)
theory Thd_RelProps
  imports Thd_Relations
begin

text \<open>
  Properties of the configuration generated from the ACPI tables: how entries are grouped, that the
  text is the print of a tree, and what the configuration parser reads from it.
\<close>

section \<open>Grouping\<close>

definition targets :: "rel_object list \<Rightarrow> string list" where
  "targets os = map ro_target_device os"

lemma relate_targets:
  assumes "ro_target_device (add new_obj) = t" "\<And>x. ro_target_device (add x) = ro_target_device x"
  shows "targets (relate t new_obj add os) = (if t \<in> set (targets os) then targets os else targets os @ [t])"
proof (cases "find_index (\<lambda>x. ro_target_device x = t) os")
  case None
  then have "relate t new_obj add os = os @ [add new_obj]" by (simp add: relate_def)
  moreover have "t \<notin> set (targets os)" using None by (auto simp: targets_def find_index_None)
  ultimately show ?thesis using assms by (simp add: targets_def)
next
  case (Some i)
  then have i: "i < length os" "ro_target_device (os ! i) = t" using find_index_Some by fastforce+
  then have "t \<in> set (targets os)" by (auto simp: targets_def)
  moreover have "targets (os[i := add (os ! i)]) = targets os"
    using i assms(2) by (simp add: targets_def map_update list_update_same_conv)
  ultimately show ?thesis using Some by (simp add: relate_def)
qed

lemma relate_all:
  assumes "distinct (targets os)" "\<forall>x \<in> set os. Q x" "t \<notin> set (targets os) \<Longrightarrow> P (add new_obj)"
    and add: "\<And>x. Q x \<Longrightarrow> ro_target_device x = t \<Longrightarrow> P (add x)"
    and keep: "\<And>x. Q x \<Longrightarrow> ro_target_device x \<noteq> t \<Longrightarrow> P x"
  shows "\<forall>x \<in> set (relate t new_obj add os). P x"
proof (cases "find_index (\<lambda>x. ro_target_device x = t) os")
  case None
  then have "relate t new_obj add os = os @ [add new_obj]" by (simp add: relate_def)
  moreover have "\<forall>x \<in> set os. ro_target_device x \<noteq> t" using None by (simp add: find_index_None)
  ultimately show ?thesis using assms(2,3) keep by (auto simp: targets_def)
next
  case (Some i)
  then have i: "i < length os" "ro_target_device (os ! i) = t" using find_index_Some by fastforce+
  have "ro_target_device (os ! j) \<noteq> t" if "j < length os" "j \<noteq> i" for j
    using assms(1) i that by (auto simp: targets_def distinct_conv_nth)
  then have "P (os[i := add (os ! i)] ! j)" if "j < length os" for j
    using that i add keep assms(2) by (cases "j = i") (simp_all add: nth_list_update)
  then show ?thesis using Some by (simp add: relate_def all_set_conv_all_nth)
qed

text \<open>What the objects hold after the entries \<open>ts\<close>, \<open>as\<close> and \<open>ps\<close>.\<close>

definition group_of :: "trt_entry list \<Rightarrow> art_entry list \<Rightarrow> psvt_object list \<Rightarrow> rel_object \<Rightarrow> bool" where
  "group_of ts as ps x \<longleftrightarrow>
     ro_trt_objects x = filter (\<lambda>y. te_target y = ro_target_device x) ts
     \<and> ro_art_objects x = filter (\<lambda>y. ae_target y = ro_target_device x) as
     \<and> ro_psvt_objects x = filter (\<lambda>y. po_target y = ro_target_device x) ps
     \<and> ro_target_sensor x = ro_target_device x"

definition grouped :: "trt_entry list \<Rightarrow> art_entry list \<Rightarrow> psvt_object list \<Rightarrow> rel_object list \<Rightarrow> bool" where
  "grouped ts as ps os \<longleftrightarrow>
     distinct (targets os)
     \<and> set (targets os) = te_target ` set ts \<union> ae_target ` set as \<union> po_target ` set ps
     \<and> (\<forall>x \<in> set os. group_of ts as ps x)"

lemma filter_absent: "t \<notin> f ` set xs \<Longrightarrow> filter (\<lambda>y. f y = t) xs = []"
  by (auto simp: filter_empty_conv)

lemma relate_trt_grouped:
  assumes "grouped ts as ps os" shows "grouped (ts @ [x]) as ps (relate_trt x os)"
proof -
  have "\<forall>y \<in> set (relate_trt x os). group_of (ts @ [x]) as ps y"
    unfolding relate_trt_def using assms
    by (intro relate_all [where Q = "group_of ts as ps"]) (auto simp: grouped_def group_of_def rel_object_t_def filter_absent)
  then show ?thesis using assms by (auto simp: grouped_def relate_trt_def relate_targets rel_object_t_def)
qed

lemma relate_art_grouped:
  assumes "grouped ts as ps os" shows "grouped ts (as @ [x]) ps (relate_art x os)"
proof -
  have "\<forall>y \<in> set (relate_art x os). group_of ts (as @ [x]) ps y"
    unfolding relate_art_def using assms
    by (intro relate_all [where Q = "group_of ts as ps"]) (auto simp: grouped_def group_of_def rel_object_t_def filter_absent)
  then show ?thesis using assms by (auto simp: grouped_def relate_art_def relate_targets rel_object_t_def)
qed

lemma relate_psvt_grouped:
  assumes "grouped ts as ps os" shows "grouped ts as (ps @ [x]) (relate_psvt x os)"
proof -
  have "\<forall>y \<in> set (relate_psvt x os). group_of ts as (ps @ [x]) y"
    unfolding relate_psvt_def using assms
    by (intro relate_all [where Q = "group_of ts as ps"]) (auto simp: grouped_def group_of_def rel_object_t_def filter_absent)
  then show ?thesis using assms by (auto simp: grouped_def relate_psvt_def relate_targets rel_object_t_def)
qed

lemma fold_snoc:
  assumes "\<And>xs x os. R xs os \<Longrightarrow> R (xs @ [x]) (f x os)" and "R xs os" shows "R (xs @ ys) (fold f ys os)"
  using assms(2)
proof (induction ys arbitrary: xs os)
  case (Cons y ys)
  then show ?case using assms(1) Cons.IH [of "xs @ [y]" "f y os"] by simp
qed simp

lemma fold_grouped:
  "grouped ts as ps os \<Longrightarrow> grouped (ts @ xs) as ps (fold relate_trt xs os)"
  "grouped ts as ps os \<Longrightarrow> grouped ts (as @ ys) ps (fold relate_art ys os)"
  "grouped ts as ps os \<Longrightarrow> grouped ts as (ps @ zs) (fold relate_psvt zs os)"
proof -
  assume g: "grouped ts as ps os"
  show "grouped (ts @ xs) as ps (fold relate_trt xs os)"
    by (rule fold_snoc [where R = "\<lambda>ts. grouped ts as ps"]) (simp_all add: relate_trt_grouped g)
  show "grouped ts (as @ ys) ps (fold relate_art ys os)"
    by (rule fold_snoc [where R = "\<lambda>as. grouped ts as ps"]) (simp_all add: relate_art_grouped g)
  show "grouped ts as (ps @ zs) (fold relate_psvt zs os)"
    by (rule fold_snoc [where R = "\<lambda>ps. grouped ts as ps"]) (simp_all add: relate_psvt_grouped g)
qed

lemma target_devices_grouped:
  assumes "ar_rel_list ar = []"
  shows "case parse_target_devices ar of
      Inr ar' \<Rightarrow> grouped (take (unat (ar_trt_count ar)) (ar_trt ar)) (take (unat (ar_art_count ar)) (ar_art ar))
                (take (unat (ar_psvt_count ar)) (ar_psvt ar)) (ar_rel_list ar')
    | Inl e \<Rightarrow> e = Out_of_bounds \<and> (length (ar_trt ar) < unat (ar_trt_count ar) \<or> length (ar_art ar) < unat (ar_art_count ar)
                \<or> length (ar_psvt ar) < unat (ar_psvt_count ar))"
proof -
  have "grouped [] [] [] []" by (simp add: grouped_def targets_def)
  from fold_grouped(1) [OF this] have "grouped ts [] [] (fold relate_trt ts [])" for ts by simp
  from fold_grouped(2) [OF this] have "grouped ts as [] (fold relate_art as (fold relate_trt ts []))" for ts as by simp
  from fold_grouped(3) [OF this]
  have "grouped ts as ps (fold relate_psvt ps (fold relate_art as (fold relate_trt ts [])))" for ts as ps by simp
  then show ?thesis using assms by (simp add: parse_target_devices_def entries_def)
qed


end
