(* ===== verification/Thd_RelConf.thy ===== *)
theory Thd_RelConf
  imports Thd_RelProps
begin

text \<open>
  The generated configuration read back: the text that the table reader writes is the print of an
  XML tree, and the configuration parser makes of that tree one platform with a zone per target.
  \<open>reads_xml\<close> is what this relies on of \<^verbatim>\<open>xmlReadFile\<close>: a document of plain names and texts is
  read as its tree, neighbouring texts joined and empty ones left out.
\<close>

section \<open>Printing\<close>

fun print_node :: "xml_node \<Rightarrow> string" where
  "print_node (Element nm kids) = ''<'' @ nm @ ''>'' @ concat (map print_node kids) @ ''</'' @ nm @ ''>''"
| "print_node (XText s) = s"
| "print_node XOther = []"

definition print_nodes :: "xml_node list \<Rightarrow> string" where
  "print_nodes ns = concat (map print_node ns)"

definition tag_nodes :: "string \<Rightarrow> string \<Rightarrow> string \<Rightarrow> xml_node list" where
  "tag_nodes p nm s = [XText p, Element nm [XText s], XText nl]"

definition inner :: "xml_node list \<Rightarrow> string \<Rightarrow> xml_node list" where
  "inner ns q = XText nl # ns @ [XText q]"

definition block :: "string \<Rightarrow> string \<Rightarrow> xml_node list \<Rightarrow> string \<Rightarrow> xml_node list" where
  "block p nm ns q = [XText p, Element nm (inner ns q), XText nl]"

lemma print_simps [simp]:
  "print_nodes [] = []" "print_nodes (xs @ ys) = print_nodes xs @ print_nodes ys"
  "print_nodes (tag_nodes p nm s) = tag_line p nm s"
  "print_nodes (block p nm ns q) = open_line p nm @ print_nodes ns @ close_line q nm"
  by (simp_all add: print_nodes_def tag_nodes_def tag_line_def block_def inner_def open_line_def close_line_def)

lemma print_concat: "print_nodes (concat (map f xs)) = concat (map (\<lambda>x. print_nodes (f x)) xs)"
  by (induction xs) simp_all

section \<open>The tree of the generated file\<close>

definition trt_cdev_tree :: "rel_sys \<Rightarrow> string \<Rightarrow> trt_entry \<Rightarrow> xml_node list" where
  "trt_cdev_tree rs p x =
     block (p @ tabs 1) ''CoolingDevice''
       (tag_nodes (p @ tabs 2) ''type'' (subtitute_string rs TARGET_DEV (te_source x))
        @ tag_nodes (p @ tabs 2) ''influence'' (show_nat (unat (te_influence x)))
        @ tag_nodes (p @ tabs 2) ''SamplingPeriod'' (show_nat (unat (te_sample_period x * 100 div 1000)))) (p @ tabs 1)"

definition art_cdev_tree :: "rel_sys \<Rightarrow> string \<Rightarrow> art_entry \<Rightarrow> xml_node list" where
  "art_cdev_tree rs p x =
     block (p @ tabs 1) ''CoolingDevice''
       (tag_nodes (p @ tabs 2) ''type'' (subtitute_string rs TARGET_DEV (ae_source x))
        @ tag_nodes (p @ tabs 2) ''influence'' (show_nat (unat (ae_weight x)))) (p @ tabs 1)"

definition rel_trip_tree :: "string \<Rightarrow> string \<Rightarrow> string \<Rightarrow> xml_node list \<Rightarrow> xml_node list" where
  "rel_trip_tree p sensor ty cdevs =
     block p ''TripPoint''
       (tag_nodes (p @ tabs 1) ''SensorType'' sensor @ tag_nodes (p @ tabs 1) ''Temperature'' ''*''
        @ tag_nodes (p @ tabs 1) ''type'' ty @ tag_nodes (p @ tabs 1) ''ControlType'' ''SEQUENTIAL'' @ cdevs) p"

definition trips_tree :: "rel_sys \<Rightarrow> string \<Rightarrow> rel_object \<Rightarrow> xml_node list" where
  "trips_tree rs p r =
     (let sensor = subtitute_string rs SENSOR_DEV (ro_target_sensor r)
      in (if ro_trt_objects r = [] then []
          else rel_trip_tree p sensor ''passive'' (concat (map (trt_cdev_tree rs p) (ro_trt_objects r))))
         @ (if ro_art_objects r = [] then []
            else rel_trip_tree p sensor ''active'' (concat (map (art_cdev_tree rs p) (ro_art_objects r)))))"

definition zone_tree :: "rel_sys \<Rightarrow> string \<Rightarrow> string \<Rightarrow> rel_object \<Rightarrow> xml_node list" where
  "zone_tree rs p q r =
     block p ''ThermalZone''
       (tag_nodes (p @ tabs 1) ''Type'' (subtitute_string rs SOURCE_DEV (ro_target_device r))
        @ block (p @ tabs 1) ''TripPoints'' (trips_tree rs q r) (p @ tabs 1)) p"

fun zones_tree :: "rel_sys \<Rightarrow> string \<Rightarrow> string \<Rightarrow> rel_object list \<Rightarrow> xml_node list" where
  "zones_tree rs p ind [] = []"
| "zones_tree rs p ind (r # os) =
     (if ro_target_device r = [] then zones_tree rs p ind os
      else zone_tree rs p (ind @ tabs 2) r @ zones_tree rs p (ind @ tabs 1) os)"

definition platform_tree :: "rel_sys \<Rightarrow> rel_object list \<Rightarrow> xml_node list" where
  "platform_tree rs os =
     tag_nodes (tabs 2) ''Name'' ''_TRT export''
     @ [XText (tabs 2),
        Element ''ProductName'' [XText (case product_line (rs_env rs) of None \<Rightarrow> ''*'' @ nl | Some l \<Rightarrow> l), XText (tabs 2)],
        XText nl]
     @ tag_nodes (tabs 2) ''Preference'' ''QUIET''
     @ block (tabs 2) ''ThermalZones'' (zones_tree rs (tabs 3) (tabs 4) os) (tabs 2)"

definition conf_tree :: "rel_sys \<Rightarrow> rel_object list \<Rightarrow> xml_node" where
  "conf_tree rs os = Element ''ThermalConfiguration'' (inner (block (tabs 1) ''Platform'' (platform_tree rs os) (tabs 1)) [])"

lemma tabs_add: "tabs m @ tabs n = tabs (m + n)" "tabs n @ [CHR 0x09] = tabs (Suc n)" "[CHR 0x09] = tabs 1"
  by (simp_all add: tabs_def replicate_add replicate_append_same)

lemma sensor_substituted_once: "subtitute_string rs SENSOR_DEV (subtitute_string rs SENSOR_DEV s) = subtitute_string rs SENSOR_DEV s"
  by (simp add: subtitute_string_def substitute_def sensor_substitue_strings_def)

lemma print_cdevs [simp]:
  "print_nodes (trt_cdev_tree rs p x) = trt_cdev_text rs p x" "print_nodes (art_cdev_tree rs p y) = art_cdev_text rs p y"
  by (simp_all add: trt_cdev_tree_def trt_cdev_text_def art_cdev_tree_def art_cdev_text_def)

lemma print_trip [simp]: "print_nodes (rel_trip_tree p sensor ty cdevs) = rel_trip_text p sensor ty (print_nodes cdevs)"
  by (simp add: rel_trip_tree_def rel_trip_text_def)

lemma zone_text_eq:
  "ro_target_device r \<noteq> [] \<Longrightarrow> zone_text rs p r ar
     = (indent ar)\<lparr>ar_conf_file := ar_conf_file ar @ print_nodes (zone_tree rs p (ar_indentation ar @ tabs 2) r)\<rparr>"
  by (simp add: zone_text_def Let_def add_passive_trip_point_def add_active_trip_point_def zone_tree_def trips_tree_def
      rename_device_def rename_sensor_def emit_def indent_def print_concat sensor_substituted_once tabs_def numeral_2_eq_2)

lemma zones_text_eq:
  "ar_conf_file (fold (zone_text rs p) os ar) = ar_conf_file ar @ print_nodes (zones_tree rs p (ar_indentation ar) os)"
proof (induction os arbitrary: ar)
  case (Cons r os)
  then show ?case
    by (cases "ro_target_device r = []") (simp_all add: zone_text_eq indent_def tabs_def, simp add: zone_text_def)
qed simp

text \<open>What the tables of a device are read to.\<close>

definition table_state :: "rel_dev \<Rightarrow> acpi_rel" where
  "table_state dev = snd (read_trt dev (snd (read_art dev cthd_acpi_rel)))"

definition has_relations :: "rel_dev \<Rightarrow> bool" where
  "has_relations dev \<longleftrightarrow> read_table (rd_open dev) (rd_trt dev) \<noteq> None \<or> read_table (rd_open dev) (rd_art dev) \<noteq> None"

lemma target_devices_frame:
  "parse_target_devices (ar\<lparr>ar_conf_file := f, ar_indentation := i\<rparr>)
     = map_sum id (\<lambda>a. a\<lparr>ar_conf_file := f, ar_indentation := i\<rparr>) (parse_target_devices ar)"
  by (simp add: parse_target_devices_def entries_def)

definition product_text :: "rel_sys \<Rightarrow> string" where
  "product_text rs =
     tabs 2 @ ''<ProductName>'' @ (case product_line (rs_env rs) of None \<Rightarrow> ''*'' @ nl | Some l \<Rightarrow> l)
     @ tabs 2 @ ''</ProductName>'' @ nl"

definition head_text :: "rel_sys \<Rightarrow> string" where
  "head_text rs =
     open_line (tabs 1) ''Platform'' @ tag_line (tabs 2) ''Name'' ''_TRT export'' @ product_text rs
     @ tag_line (tabs 2) ''Preference'' ''QUIET''"

lemma tabs_simps: "tabs 1 @ [CHR 0x09] = tabs 2" "tabs 2 @ [CHR 0x09] = tabs 3" "tabs 3 @ [CHR 0x09] = tabs 4" "tabs 2 @ tabs 1 = tabs 3"
  by (simp_all add: tabs_def numeral_eq_Suc)

lemma start_conf_eq:
  "start_conf rs ar = ar\<lparr>ar_conf_file := ar_conf_file ar @ xml_hdr @ conf_begin @ head_text rs, ar_indentation := tabs 2\<rparr>"
  by (simp add: start_conf_def create_platform_pref_def create_platform_conf_def Let_def emit_def indent_def tabs_def
      numeral_2_eq_2 head_text_def product_text_def)

lemma print_platform: "print_nodes (platform_tree rs os)
    = tag_line (tabs 2) ''Name'' ''_TRT export'' @ product_text rs @ tag_line (tabs 2) ''Preference'' ''QUIET''
      @ open_line (tabs 2) ''ThermalZones'' @ print_nodes (zones_tree rs (tabs 3) (tabs 4) os) @ close_line (tabs 2) ''ThermalZones''"
  unfolding platform_tree_def print_simps(2,3,4) by (simp add: print_nodes_def product_text_def)

lemma print_conf: "print_node (conf_tree rs os) @ nl
    = conf_begin @ open_line (tabs 1) ''Platform'' @ print_nodes (platform_tree rs os) @ close_line (tabs 1) ''Platform'' @ conf_end"
  using print_simps(4) [of "tabs 1" "''Platform''" "platform_tree rs os" "tabs 1"]
  by (simp add: conf_tree_def inner_def conf_begin_def conf_end_def print_nodes_def)

lemma generated_text:
  assumes "int3400_supports rs uuid_passive1" "has_relations dev" "parse_target_devices (table_state dev) = Inr ar"
  shows "generate_conf rs dev False True = Inr (0, Some (xml_hdr @ print_node (conf_tree rs (ar_rel_list ar)) @ nl))"
proof -
  obtain a s1 t s2 where r: "read_art dev cthd_acpi_rel = (a, s1)" "read_trt dev s1 = (t, s2)" by fastforce
  have st: "\<not> (t < 0 \<and> a < 0)" and s2: "table_state dev = s2" "ar_conf_file s2 = []"
    using assms(2) r by (auto simp: has_relations_def read_art_def read_trt_def table_state_def cthd_acpi_rel_def split: option.splits)
  define f where "f = xml_hdr @ conf_begin @ head_text rs @ open_line (tabs 2) ''ThermalZones''"
  have i: "indent (indent (emit (open_line (tabs 2) ''ThermalZones'') (start_conf rs s2)))
      = s2\<lparr>ar_conf_file := f, ar_indentation := tabs 4\<rparr>"
    by (simp add: f_def start_conf_eq s2 emit_def indent_def tabs_simps)
  have z: "create_thermal_zones rs (start_conf rs s2)
      = Inr (emit (close_line (tabs 2) ''ThermalZones'')
          (fold (zone_text rs (tabs 3)) (ar_rel_list ar) (ar\<lparr>ar_conf_file := f, ar_indentation := tabs 4\<rparr>)))"
    using assms(3) s2(1) i
    by (simp add: create_thermal_zones_def create_thermal_zone_def Let_def target_devices_frame start_conf_eq emit_def
        tabs_simps [unfolded One_nat_def])
  have "ar_conf_file (fold (zone_text rs (tabs 3)) (ar_rel_list ar) (ar\<lparr>ar_conf_file := f, ar_indentation := tabs 4\<rparr>))
      = f @ print_nodes (zones_tree rs (tabs 3) (tabs 4) (ar_rel_list ar))"
    by (simp add: zones_text_eq)
  then show ?thesis
    using assms(1) st z r unfolding print_conf print_platform
    by (auto simp: generate_conf_def emit_def f_def head_text_def)
qed

section \<open>Reading a document\<close>

fun cons_node :: "xml_node \<Rightarrow> xml_node list \<Rightarrow> xml_node list" where
  "cons_node (XText s) (XText t # ns) = XText (s @ t) # ns"
| "cons_node (XText s) ns = (if s = [] then ns else XText s # ns)"
| "cons_node n ns = n # ns"

fun norm_node :: "xml_node \<Rightarrow> xml_node" where
  "norm_node (Element nm kids) = Element nm (foldr cons_node (map norm_node kids) [])"
| "norm_node n = n"

definition merge_nodes :: "xml_node list \<Rightarrow> xml_node list" where
  "merge_nodes ns = foldr cons_node (map norm_node ns) []"

definition plain_char :: "char \<Rightarrow> bool" where
  "plain_char c \<longleftrightarrow>
     of_char c = (9 :: nat) \<or> of_char c = (10 :: nat)
     \<or> (32 :: nat) \<le> of_char c \<and> of_char c < (127 :: nat) \<and> c \<noteq> CHR ''<'' \<and> c \<noteq> CHR ''>'' \<and> c \<noteq> CHR ''&''"

definition xml_name :: "string \<Rightarrow> bool" where
  "xml_name nm \<longleftrightarrow> nm \<noteq> [] \<and> list_all (\<lambda>c. tolower c \<in> set ''abcdefghijklmnopqrstuvwxyz'') nm"

fun plain_node :: "xml_node \<Rightarrow> bool" where
  "plain_node (Element nm kids) \<longleftrightarrow> xml_name nm \<and> list_all plain_node kids"
| "plain_node (XText s) \<longleftrightarrow> list_all plain_char s"
| "plain_node XOther \<longleftrightarrow> False"

definition reads_xml :: "(string \<Rightarrow> xml_node list option) \<Rightarrow> bool" where
  "reads_xml rd \<longleftrightarrow>
     (\<forall>nm kids. plain_node (Element nm kids) \<longrightarrow>
        rd (xml_hdr @ print_node (Element nm kids) @ nl) = Some [Element nm (merge_nodes kids)])"

lemma for_cons_node: "for_elements f (cons_node n ns) acc = for_elements f (n # ns) acc"
  by (cases "(n, ns)" rule: cons_node.cases) auto

lemma for_merge:
  "for_elements f (merge_nodes ns) acc = for_elements (\<lambda>nm kids. f nm (merge_nodes kids)) ns acc"
proof (induction ns arbitrary: acc)
  case (Cons n ns)
  have "for_elements f (merge_nodes (n # ns)) acc = for_elements f (norm_node n # merge_nodes ns) acc"
    by (simp add: merge_nodes_def for_cons_node)
  also have "\<dots> = for_elements (\<lambda>nm kids. f nm (merge_nodes kids)) (n # ns) acc"
    using Cons.IH by (cases n) (simp_all add: merge_nodes_def bind_r_def split: sum.splits)
  finally show ?case .
qed (simp add: merge_nodes_def)

lemma texts_cons_node:
  "concat (texts (cons_node n ns)) = concat (texts (n # ns))"
  "[] \<notin> set (texts ns) \<Longrightarrow> [] \<notin> set (texts (cons_node n ns))"
  by (cases "(n, ns)" rule: cons_node.cases; auto)+

lemma texts_merge:
  "concat (texts (merge_nodes ns)) = concat (texts ns)" "[] \<notin> set (texts (merge_nodes ns))"
proof (induction ns)
  case (Cons n ns)
  have "concat (texts (merge_nodes (n # ns))) = concat (texts (norm_node n # merge_nodes ns))"
    by (simp add: merge_nodes_def texts_cons_node)
  then show "concat (texts (merge_nodes (n # ns))) = concat (texts (n # ns))"
    using Cons.IH(1) by (cases n) (simp_all add: merge_nodes_def)
  show "[] \<notin> set (texts (merge_nodes (n # ns)))"
    using Cons.IH(2) by (simp add: merge_nodes_def texts_cons_node)
qed (simp_all add: merge_nodes_def)

lemma text_merge:
  "reads_text g \<Longrightarrow> concat (texts ns) \<noteq> [] \<Longrightarrow> g (merge_nodes ns) = Some (concat (texts ns))"
  using texts_merge [of ns] unfolding reads_text_def by (metis concat.simps(1))

lemma merge_one: "merge_nodes [XText s] = (if s = [] then [] else [XText s])"
  by (simp add: merge_nodes_def)

text \<open>The loops of the parser on the parts of a document.\<close>

definition merged :: "node_text \<Rightarrow> (string \<Rightarrow> xml_node list \<Rightarrow> string \<Rightarrow> 'a \<Rightarrow> 'a result) \<Rightarrow> string \<Rightarrow> xml_node list \<Rightarrow> 'a \<Rightarrow> 'a result" where
  "merged g f nm kids = with_text g f nm (merge_nodes kids)"

lemma for_tag:
  "reads_text g \<Longrightarrow> for_elements (merged g f) (tag_nodes p nm s) acc = (if s = [] then Inr acc else f nm [XText s] s acc)"
  by (cases "f nm [XText s] s acc")
    (auto simp: tag_nodes_def merged_def with_text_def merge_one reads_text_def)

lemma for_block:
  "reads_text g \<Longrightarrow> for_elements (merged g f) (block p nm ns q) acc
     = f nm (merge_nodes (inner ns q)) (nl @ concat (texts (ns @ [XText q]))) acc"
  by (cases "f nm (merge_nodes (inner ns q)) (nl @ concat (texts (ns @ [XText q]))) acc")
    (simp_all add: block_def merged_def with_text_def text_merge inner_def nl_def)

lemma for_block_plain:
  "for_elements (\<lambda>nm kids. f nm (merge_nodes kids)) (block p nm ns q) acc = f nm (merge_nodes (inner ns q)) acc"
  by (cases "f nm (merge_nodes (inner ns q)) acc") (simp_all add: block_def)

lemma for_inner:
  "for_elements f (merge_nodes (inner ns q)) acc = for_elements (\<lambda>nm kids. f nm (merge_nodes kids)) ns acc"
  "for_elements (with_text g h) (merge_nodes (inner ns q)) acc' = for_elements (merged g h) ns acc'"
proof -
  show *: "for_elements f (merge_nodes (inner ns q)) acc = for_elements (\<lambda>nm kids. f nm (merge_nodes kids)) ns acc"
    for f :: "string \<Rightarrow> xml_node list \<Rightarrow> 'c \<Rightarrow> 'c result" and acc
    by (simp add: for_merge inner_def for_elements_append bind_r_def split: sum.splits)
  show "for_elements (with_text g h) (merge_nodes (inner ns q)) acc' = for_elements (merged g h) ns acc'"
    by (simp add: * merged_def [abs_def])
qed

lemmas for_doc = for_elements_append for_tag for_block for_inner(2)

section \<open>What is read\<close>

text \<open>Names as ACPI gives them: visible characters without markup.\<close>

definition acpi_word :: "string \<Rightarrow> bool" where
  "acpi_word s \<longleftrightarrow> list_all (\<lambda>c. plain_char c \<and> \<not> is_space c) s"

lemma acpi_word_word: "acpi_word s \<Longrightarrow> is_word s" "acpi_word s \<Longrightarrow> list_all plain_char s"
  by (auto simp: acpi_word_def is_word_def list_all_iff)

lemma acpi_word_literals:
  "acpi_word ''pch_wildcat_point''" "acpi_word ''rapl_controller''" "acpi_word ''LCD''" "acpi_word ''rapl_controller_dram''"
  "acpi_word ''DISP''" "acpi_word ''TMEM''" "acpi_word ''TCPU''"
  by (simp_all add: acpi_word_def plain_char_def is_space_def)

lemma acpi_word_associate: "acpi_word s \<Longrightarrow> acpi_word (associate_device rs s)"
proof -
  have "acpi_word s \<Longrightarrow> acpi_word (associate_loop rs ds s)" for ds
    by (induction ds) (auto simp: device_class_def acpi_word_literals split: option.splits)
  then show "acpi_word s \<Longrightarrow> acpi_word (associate_device rs s)"
    by (auto simp: associate_device_def split: option.splits)
qed

lemma acpi_word_substituted: "acpi_word s \<Longrightarrow> acpi_word (subtitute_string rs ty s)"
  using acpi_word_associate [of s rs]
  by (auto simp: subtitute_string_def substitute_def source_substitue_strings_def target_substitue_strings_def
      sensor_substitue_strings_def acpi_word_literals split: sub_type.splits)

lemma source_not_empty: "s \<noteq> [] \<Longrightarrow> subtitute_string rs SOURCE_DEV s \<noteq> []"
  by (auto simp: subtitute_string_def substitute_def source_substitue_strings_def)

definition trt_ok :: "trt_entry \<Rightarrow> bool" where
  "trt_ok x \<longleftrightarrow> acpi_word (te_source x) \<and> acpi_word (te_target x) \<and> unat (te_influence x) < 2 ^ 31
     \<and> unat (te_sample_period x * 100 div 1000) < 2 ^ 31"

definition art_ok :: "art_entry \<Rightarrow> bool" where
  "art_ok x \<longleftrightarrow> acpi_word (ae_source x) \<and> acpi_word (ae_target x) \<and> unat (ae_weight x) < 2 ^ 31"

definition trt_cdev_conf :: "rel_sys \<Rightarrow> trt_entry \<Rightarrow> trip_cdev_conf" where
  "trt_cdev_conf rs x =
     no_trip_cdev\<lparr>xc_type := subtitute_string rs TARGET_DEV (te_source x), xc_influence := int (unat (te_influence x)),
                  xc_sampling_period := int (unat (te_sample_period x * 100 div 1000))\<rparr>"

definition art_cdev_conf :: "rel_sys \<Rightarrow> art_entry \<Rightarrow> trip_cdev_conf" where
  "art_cdev_conf rs x =
     no_trip_cdev\<lparr>xc_type := subtitute_string rs TARGET_DEV (ae_source x), xc_influence := int (unat (ae_weight x))\<rparr>"

definition rel_trip_conf :: "string \<Rightarrow> trip_point_type \<Rightarrow> trip_cdev_conf list \<Rightarrow> trip_conf" where
  "rel_trip_conf sensor ty cdevs =
     \<lparr>xt_temperature = 0, xt_hyst = 0, xt_trip_pt_type = ty, xt_control_type = SEQUENTIAL, xt_sensor_type = sensor,
      xt_dependency = None, xt_cdev_trips = cdevs\<rparr>"

definition rel_zone_conf :: "rel_sys \<Rightarrow> rel_object \<Rightarrow> zone_conf" where
  "rel_zone_conf rs r =
     (let sensor = subtitute_string rs SENSOR_DEV (ro_target_sensor r)
      in \<lparr>zc_type = subtitute_string rs SOURCE_DEV (ro_target_device r),
          zc_trip_pts =
            (if ro_trt_objects r = [] then [] else [rel_trip_conf sensor PASSIVE (map (trt_cdev_conf rs) (ro_trt_objects r))])
            @ (if ro_art_objects r = [] then [] else [rel_trip_conf sensor ACTIVE (map (art_cdev_conf rs) (ro_art_objects r))])\<rparr>)"

definition object_ok :: "rel_object \<Rightarrow> bool" where
  "object_ok r \<longleftrightarrow> acpi_word (ro_target_device r) \<and> acpi_word (ro_target_sensor r)
     \<and> list_all trt_ok (ro_trt_objects r) \<and> list_all art_ok (ro_art_objects r)"

lemma atoi_show_nat: "n < 2 ^ 31 \<Longrightarrow> atoi (show_nat n) = int n"
  using atoi_show_int [of "int n"] by (simp add: show_int_def in_s32_def)

lemma show_nat_not_empty: "show_nat n \<noteq> []" using show_nat_hd [of n] by auto

lemma substituted_trim: "acpi_word s \<Longrightarrow> string_trim (subtitute_string rs ty s) = subtitute_string rs ty s"
  by (simp add: acpi_word_substituted acpi_word_word)

lemma parse_trt_cdev:
  assumes "reads_text g" "trt_ok x"
  shows "for_elements (merged g (trip_field g)) (trt_cdev_tree rs p x) t
    = Inr (t\<lparr>xt_cdev_trips := xt_cdev_trips t @ [trt_cdev_conf rs x]\<rparr>)"
  using assms
  by (simp add: trt_cdev_tree_def for_doc trip_field_def name_eval parse_new_trip_cdev_def trip_cdev_field_def atoi_show_nat
      show_nat_not_empty substituted_trim trt_ok_def trt_cdev_conf_def no_trip_cdev_def)

lemma parse_art_cdev:
  assumes "reads_text g" "art_ok x"
  shows "for_elements (merged g (trip_field g)) (art_cdev_tree rs p x) t
    = Inr (t\<lparr>xt_cdev_trips := xt_cdev_trips t @ [art_cdev_conf rs x]\<rparr>)"
  using assms
  by (simp add: art_cdev_tree_def for_doc trip_field_def name_eval parse_new_trip_cdev_def trip_cdev_field_def atoi_show_nat
      show_nat_not_empty substituted_trim art_ok_def art_cdev_conf_def no_trip_cdev_def)

lemma parse_trt_cdevs:
  assumes "reads_text g" "list_all trt_ok xs"
  shows "for_elements (merged g (trip_field g)) (concat (map (trt_cdev_tree rs p) xs)) t
    = Inr (t\<lparr>xt_cdev_trips := xt_cdev_trips t @ map (trt_cdev_conf rs) xs\<rparr>)"
  using assms by (induction xs arbitrary: t) (simp_all add: for_elements_append parse_trt_cdev)

lemma parse_art_cdevs:
  assumes "reads_text g" "list_all art_ok xs"
  shows "for_elements (merged g (trip_field g)) (concat (map (art_cdev_tree rs p) xs)) t
    = Inr (t\<lparr>xt_cdev_trips := xt_cdev_trips t @ map (art_cdev_conf rs) xs\<rparr>)"
  using assms by (induction xs arbitrary: t) (simp_all add: for_elements_append parse_art_cdev)

lemma trip_words: "char_trim ''passive'' = Inr ''passive''" "char_trim ''active'' = Inr ''active''"
    "char_trim ''SEQUENTIAL'' = Inr ''SEQUENTIAL''" "char_trim ''QUIET'' = Inr ''QUIET''" "atoi ''*'' = 0"
  by code_simp+

lemma parse_rel_trip:
  assumes g: "reads_text g" and s: "is_word sensor" and ty: "char_trim ty = Inr ty" "ty \<noteq> []"
    and c: "\<And>t. for_elements (merged g (trip_field g)) cdevs t = Inr (t\<lparr>xt_cdev_trips := xt_cdev_trips t @ cs\<rparr>)"
  shows "parse_trip_points g (merge_nodes (inner (rel_trip_tree p sensor ty cdevs @ ns) q)) z
    = parse_trip_points g (merge_nodes (inner ns q))
        (z\<lparr>zc_trip_pts := zc_trip_pts z @ [rel_trip_conf sensor (trip_type_named ty ACTIVE) cs]\<rparr>)"
proof -
  have "parse_new_trip_point g (merge_nodes (inner (tag_nodes (p @ tabs 1) ''SensorType'' sensor @ tag_nodes (p @ tabs 1) ''Temperature'' ''*''
        @ tag_nodes (p @ tabs 1) ''type'' ty @ tag_nodes (p @ tabs 1) ''ControlType'' ''SEQUENTIAL'' @ cdevs) p)) no_trip
      = Inr (rel_trip_conf sensor (trip_type_named ty ACTIVE) cs)"
    using s by (simp add: parse_new_trip_point_def for_doc g c trip_field_def name_eval trip_words ty control_type_of_def
        no_trip_def rel_trip_conf_def)
  then show ?thesis
    by (simp add: parse_trip_points_def for_inner(1) for_elements_append rel_trip_tree_def block_def name_eval)
qed

lemma parse_trips_done: "parse_trip_points g (merge_nodes (inner [] q)) z = Inr z"
  by (simp add: parse_trip_points_def for_inner(1))

lemma trip_types: "trip_type_named ''passive'' ACTIVE = PASSIVE" "trip_type_named ''active'' ACTIVE = ACTIVE"
  by (simp_all add: trip_type_named_def name_eval)

lemma parse_trips_tree:
  assumes g: "reads_text g" and r: "object_ok r"
  shows "parse_trip_points g (merge_nodes (inner (trips_tree rs p r) q)) z
    = Inr (z\<lparr>zc_trip_pts := zc_trip_pts z @ zc_trip_pts (rel_zone_conf rs r)\<rparr>)"
proof -
  define sensor where "sensor = subtitute_string rs SENSOR_DEV (ro_target_sensor r)"
  have s: "is_word sensor" using r by (simp add: sensor_def object_ok_def acpi_word_substituted acpi_word_word)
  have 1: "parse_trip_points g (merge_nodes (inner (rel_trip_tree p sensor ''passive'' (concat (map (trt_cdev_tree rs p) (ro_trt_objects r))) @ ns) q)) z
      = parse_trip_points g (merge_nodes (inner ns q))
          (z\<lparr>zc_trip_pts := zc_trip_pts z @ [rel_trip_conf sensor PASSIVE (map (trt_cdev_conf rs) (ro_trt_objects r))]\<rparr>)" for ns z
    using parse_rel_trip [OF g s trip_words(1) _ parse_trt_cdevs [OF g]] r by (simp add: object_ok_def trip_types)
  have 2: "parse_trip_points g (merge_nodes (inner (rel_trip_tree p sensor ''active'' (concat (map (art_cdev_tree rs p) (ro_art_objects r))) @ ns) q)) z
      = parse_trip_points g (merge_nodes (inner ns q))
          (z\<lparr>zc_trip_pts := zc_trip_pts z @ [rel_trip_conf sensor ACTIVE (map (art_cdev_conf rs) (ro_art_objects r))]\<rparr>)" for ns z
    using parse_rel_trip [OF g s trip_words(2) _ parse_art_cdevs [OF g]] r by (simp add: object_ok_def trip_types)
  show ?thesis
    using 1 1 [of "[]"] 2 [of "[]"] by (simp add: trips_tree_def rel_zone_conf_def Let_def sensor_def [symmetric] parse_trips_done)
qed

lemma parse_zone_tree:
  assumes g: "reads_text g" and r: "object_ok r" "ro_target_device r \<noteq> []"
  shows "for_elements (\<lambda>nm kids. zone_element g nm (merge_nodes kids)) (zone_tree rs p q r) (z, ti)
    = Inr (rel_zone_conf rs r, ti\<lparr>ti_zones := ti_zones ti @ [rel_zone_conf rs r]\<rparr>)"
proof -
  define d where "d = subtitute_string rs SOURCE_DEV (ro_target_device r)"
  have d: "d \<noteq> []" "is_word d"
    using r by (simp_all add: d_def source_not_empty object_ok_def acpi_word_substituted acpi_word_word)
  have t: "for_elements (\<lambda>nm kids. zone_field g nm (merge_nodes kids)) (tag_nodes p' ''Type'' d) x = Inr (x\<lparr>zc_type := d\<rparr>)" for p' x
    using g d by (simp add: tag_nodes_def zone_field_def name_eval merge_one reads_text_def)
  have "parse_new_zone g (merge_nodes (inner (tag_nodes (p @ tabs 1) ''Type'' d
      @ block (p @ tabs 1) ''TripPoints'' (trips_tree rs q r) (p @ tabs 1)) p)) (z\<lparr>zc_trip_pts := []\<rparr>) = Inr (rel_zone_conf rs r)"
    by (simp add: parse_new_zone_def for_inner(1) for_elements_append t for_block_plain zone_field_def name_eval
        parse_trips_tree [OF g r(1)]) (simp add: rel_zone_conf_def Let_def d_def)
  then show ?thesis
    by (simp add: zone_tree_def for_block_plain zone_element_def name_eval d_def)
qed

lemma parse_zones_tree:
  assumes "reads_text g" "list_all object_ok os"
  shows "\<exists>z'. for_elements (\<lambda>nm kids. zone_element g nm (merge_nodes kids)) (zones_tree rs p ind os) (z, ti)
    = Inr (z', ti\<lparr>ti_zones := ti_zones ti @ map (rel_zone_conf rs) (filter (\<lambda>r. ro_target_device r \<noteq> []) os)\<rparr>)"
  using assms
proof (induction os arbitrary: ind z ti)
  case (Cons r os)
  then show ?case
    using Cons.IH [of "ind @ tabs 1" "rel_zone_conf rs r" "ti\<lparr>ti_zones := ti_zones ti @ [rel_zone_conf rs r]\<rparr>"]
    by (cases "ro_target_device r = []") (simp_all add: for_elements_append parse_zone_tree)
qed simp

text \<open>The platform that is read; the white space in its name and around the product name is dropped.\<close>

definition rel_platform :: "rel_sys \<Rightarrow> rel_object list \<Rightarrow> thermal_info" where
  "rel_platform rs os =
     no_info\<lparr>ti_name := ''_TRTexport'',
             ti_product_name := (case product_line (rs_env rs) of None \<Rightarrow> ''*'' | Some l \<Rightarrow> string_trim l),
             ti_default_preference := PREF_ENERGY_CONSERVE,
             ti_zones := map (rel_zone_conf rs) (filter (\<lambda>r. ro_target_device r \<noteq> []) os)\<rparr>"

lemma string_trim_filter: "string_trim s = filter (\<lambda>c. c \<notin> {CHR 0x0A, CHR '' '', CHR 0x09, CHR 0x0D}) s"
  by (simp add: string_trim_def removeAll_filter_not_eq) (rule filter_cong; auto)

lemma parse_product:
  assumes "reads_text g"
  shows "for_elements (merged g (platform_field g junk)) [XText p, Element ''ProductName'' [XText s, XText (tabs 2)], XText q] ti
    = Inr (ti\<lparr>ti_product_name := string_trim s\<rparr>)"
proof -
  have "g (merge_nodes [XText s, XText (tabs 2)]) = Some (s @ tabs 2)"
    using text_merge [OF assms, of "[XText s, XText (tabs 2)]"] by (simp add: tabs_def numeral_2_eq_2)
  moreover have "string_trim (s @ tabs 2) = string_trim s" by (simp add: string_trim_filter tabs_def numeral_2_eq_2)
  ultimately show ?thesis by (simp add: merged_def with_text_def platform_field_def name_eval)
qed

lemma parse_platform_tree:
  assumes g: "reads_text g" and os: "list_all object_ok os"
  shows "parse_new_platform_info g junk (merge_nodes (inner (platform_tree rs os) q)) (next_platform no_info) = Inr (rel_platform rs os)"
proof -
  have z: "parse_thermal_zones g (merge_nodes (inner (zones_tree rs p ind os) q)) ti
      = Inr (ti\<lparr>ti_zones := ti_zones ti @ map (rel_zone_conf rs) (filter (\<lambda>r. ro_target_device r \<noteq> []) os)\<rparr>)" for p ind q ti
  proof -
    obtain z' where "for_elements (\<lambda>nm kids. zone_element g nm (merge_nodes kids)) (zones_tree rs p ind os)
        (\<lparr>zc_type = [], zc_trip_pts = []\<rparr>, ti)
      = Inr (z', ti\<lparr>ti_zones := ti_zones ti @ map (rel_zone_conf rs) (filter (\<lambda>r. ro_target_device r \<noteq> []) os)\<rparr>)"
      using parse_zones_tree [OF g os] by blast
    then show ?thesis by (simp add: parse_thermal_zones_def for_inner(1))
  qed
  have t: "string_trim (case product_line (rs_env rs) of None \<Rightarrow> ''*'' @ nl | Some l \<Rightarrow> l)
      = (case product_line (rs_env rs) of None \<Rightarrow> ''*'' | Some l \<Rightarrow> string_trim l)"
    by (simp add: string_trim_filter nl_def split: option.splits)
  show ?thesis
    unfolding platform_tree_def parse_new_platform_info_def for_inner(2) for_elements_append parse_product [OF g] t
    by (simp add: for_tag for_block g parse_product platform_field_def name_eval z trip_words preference_of_def string_trim_filter
        next_platform_def no_info_def no_ppcc_def rel_platform_def)
qed

lemma parse_conf_tree:
  assumes "reads_text g" "list_all object_ok os"
  shows "parse g junk [Element ''ThermalConfiguration'' (merge_nodes (inner (block (tabs 1) ''Platform'' (platform_tree rs os) (tabs 1)) []))] []
    = Inr [rel_platform rs os]"
  by (simp add: parse_def name_eval parse_new_platform_def for_inner(1) for_block_plain platform_element_def
      parse_platform_tree [OF assms])

section \<open>The generated configuration\<close>

lemma plain_tabs: "list_all plain_char (tabs n)" "list_all plain_char nl"
  by (simp_all add: tabs_def nl_def list_all_iff plain_char_def)

lemma plain_parts:
  "list_all plain_node (tag_nodes p nm s) \<longleftrightarrow> list_all plain_char p \<and> xml_name nm \<and> list_all plain_char s"
  "list_all plain_node (block p nm ns q) \<longleftrightarrow> list_all plain_char p \<and> xml_name nm \<and> list_all plain_node ns \<and> list_all plain_char q"
  "list_all plain_node (inner ns q) \<longleftrightarrow> list_all plain_node ns \<and> list_all plain_char q"
  by (auto simp: tag_nodes_def block_def inner_def plain_tabs)

lemma plain_show_nat: "list_all plain_char (show_nat n)"
  using show_nat_digits [of n] by (auto simp: list_all_iff is_digit_def plain_char_def)

lemma plain_names:
  "xml_name ''CoolingDevice''" "xml_name ''type''" "xml_name ''influence''" "xml_name ''SamplingPeriod''" "xml_name ''TripPoint''"
  "xml_name ''SensorType''" "xml_name ''Temperature''" "xml_name ''ControlType''" "xml_name ''TripPoints''" "xml_name ''Type''"
  "xml_name ''ThermalZone''" "xml_name ''ThermalZones''" "xml_name ''Name''" "xml_name ''ProductName''" "xml_name ''Preference''"
  "xml_name ''Platform''" "xml_name ''ThermalConfiguration''"
  by (simp_all add: xml_name_def tolower_letters)

lemmas plain_rules = plain_parts plain_tabs plain_names plain_char_def plain_show_nat list_all_append acpi_word_substituted acpi_word_word

lemma plain_concat: "(\<And>x. x \<in> set xs \<Longrightarrow> list_all plain_node (f x)) \<Longrightarrow> list_all plain_node (concat (map f xs))"
  by (auto simp: list_all_iff)

lemma plain_cdevs:
  "trt_ok x \<Longrightarrow> list_all plain_char p \<Longrightarrow> list_all plain_node (trt_cdev_tree rs p x)"
  "art_ok y \<Longrightarrow> list_all plain_char p \<Longrightarrow> list_all plain_node (art_cdev_tree rs p y)"
  by (simp_all add: trt_cdev_tree_def art_cdev_tree_def trt_ok_def art_ok_def plain_rules)

lemma plain_trips:
  assumes "object_ok r" "list_all plain_char p" shows "list_all plain_node (trips_tree rs p r)"
proof -
  have "list_all plain_node (concat (map (trt_cdev_tree rs p) (ro_trt_objects r)))"
    "list_all plain_node (concat (map (art_cdev_tree rs p) (ro_art_objects r)))"
    using assms by (auto intro!: plain_concat plain_cdevs simp: object_ok_def list_all_iff [of trt_ok] list_all_iff [of art_ok])
  then show ?thesis using assms by (simp add: trips_tree_def Let_def rel_trip_tree_def plain_rules object_ok_def)
qed

lemma plain_zones:
  "list_all object_ok os \<Longrightarrow> list_all plain_char p \<Longrightarrow> list_all plain_char ind \<Longrightarrow> list_all plain_node (zones_tree rs p ind os)"
  by (induction os arbitrary: ind) (simp_all add: zone_tree_def plain_rules plain_trips object_ok_def [of "_ :: rel_object"])

lemma plain_conf:
  assumes "list_all object_ok os" "\<And>l. product_line (rs_env rs) = Some l \<Longrightarrow> list_all plain_char l"
  shows "plain_node (conf_tree rs os)"
  using assms by (simp add: conf_tree_def platform_tree_def plain_rules plain_zones split: option.splits)

lemma objects_ok:
  assumes "parse_target_devices (table_state dev) = Inr ar" "list_all trt_ok (ar_trt (table_state dev))" "list_all art_ok (ar_art (table_state dev))"
  shows "list_all object_ok (ar_rel_list ar)"
proof -
  define s where "s = table_state dev"
  have s: "ar_rel_list s = []" "ar_psvt s = []"
    by (auto simp: s_def table_state_def read_trt_def read_art_def cthd_acpi_rel_def split: option.splits)
  have g: "grouped (take (unat (ar_trt_count s)) (ar_trt s)) (take (unat (ar_art_count s)) (ar_art s)) [] (ar_rel_list ar)"
    using target_devices_grouped [OF s(1)] assms(1) s(2) by (simp add: s_def)
  have ok: "x \<in> set (take n (ar_trt s)) \<Longrightarrow> trt_ok x" "y \<in> set (take n (ar_art s)) \<Longrightarrow> art_ok y" for x y n
    using assms(2,3) by (auto simp: s_def list_all_iff dest: in_set_takeD)
  have "object_ok r" if "r \<in> set (ar_rel_list ar)" for r
  proof -
    have "ro_target_device r \<in> set (targets (ar_rel_list ar))" using that by (simp add: targets_def)
    then have "acpi_word (ro_target_device r)" using g ok by (auto simp: grouped_def trt_ok_def art_ok_def)
    then show ?thesis using g that ok by (auto simp: grouped_def group_of_def object_ok_def list_all_iff)
  qed
  then show ?thesis by (simp add: list_all_iff)
qed


text \<open>
  C39. The generated platform names no UUID, so it is chosen exactly when the product name of the
  machine can be read and is not blank. When it cannot be read the file says \<^verbatim>\<open>*\<close>, meant to
  match any machine, and matches none.
\<close>

theorem generated_platform_matches:
  "fst (platform_matched (rs_env rs) (cthd_parse\<lparr>ps_thermal_info_list := [rel_platform rs os]\<rparr>))
     \<longleftrightarrow> (case dmi_line (rs_env rs) (product_file ''name'') of None \<Rightarrow> False
         | Some l \<Rightarrow> 255 < length l \<or> string_trim l \<noteq> [])"
proof -
  have "ti_uuid (rel_platform rs os) = []" "ti_product_sku (rel_platform rs os) = []"
    by (simp_all add: rel_platform_def no_info_def)
  then show ?thesis
    by (auto simp: platform_matched_def matching_index_def match_uuid_def match_any_def match_product_name_def match_product_sku_def
        rel_platform_def product_line_def split: option.splits)
qed

end
