(* ===== verification/Thd_XmlDoc.thy ===== *)
theory Thd_XmlDoc
  imports Thd_RelConf
begin

text \<open>
  A reader for the documents of the table reader, which shows that \<open>reads_xml\<close> can be met, and an
  example of a machine whose tables go through generator and parser.
\<close>

section \<open>A reader\<close>

datatype token = Open string | Close string | Chars string

definition tag_token :: "string \<Rightarrow> token" where
  "tag_token t = (case t of [] \<Rightarrow> Open [] | c # cs \<Rightarrow> if c = CHR ''/'' then Close cs else Open t)"

function tokenize :: "string \<Rightarrow> token list" where
  "tokenize [] = []"
| "tokenize (c # cs) =
     (if c = CHR ''<''
      then tag_token (takeWhile (\<lambda>x. x \<noteq> CHR ''>'') cs) # tokenize (drop 1 (dropWhile (\<lambda>x. x \<noteq> CHR ''>'') cs))
      else Chars (takeWhile (\<lambda>x. x \<noteq> CHR ''<'') (c # cs)) # tokenize (dropWhile (\<lambda>x. x \<noteq> CHR ''<'') cs))"
  by pat_completeness auto
termination
  by (relation "Wellfounded.measure length") (auto simp: less_Suc_eq_le length_dropWhile_le diff_le_self le_trans [OF diff_le_self length_dropWhile_le])

fun build :: "(string \<times> xml_node list) list \<Rightarrow> xml_node list \<Rightarrow> token list \<Rightarrow> xml_node list" where
  "build st cur [] = rev cur"
| "build st cur (Chars s # ts) = build st (XText s # cur) ts"
| "build st cur (Open nm # ts) = build ((nm, cur) # st) [] ts"
| "build [] cur (Close nm # ts) = rev cur"
| "build ((nm, before) # st) cur (Close nm' # ts) = build st (Element nm (rev cur) # before) ts"

definition read_document :: "string \<Rightarrow> xml_node list option" where
  "read_document s = Some (filter is_element (build [] [] (tokenize (drop (length xml_hdr) s))))"

section \<open>It reads what is printed\<close>

fun normal_list :: "xml_node list \<Rightarrow> bool" where
  "normal_list [] \<longleftrightarrow> True"
| "normal_list (Element nm kids # ns) \<longleftrightarrow> normal_list kids \<and> normal_list ns"
| "normal_list (XText s # ns) \<longleftrightarrow> s \<noteq> [] \<and> (case ns of XText _ # _ \<Rightarrow> False | _ \<Rightarrow> True) \<and> normal_list ns"
| "normal_list (XOther # ns) \<longleftrightarrow> normal_list ns"

fun node_tokens :: "xml_node \<Rightarrow> token list" where
  "node_tokens (Element nm kids) = Open nm # concat (map node_tokens kids) @ [Close nm]"
| "node_tokens (XText s) = [Chars s]"
| "node_tokens XOther = []"

lemma normal_cons_node: "normal_list ns \<Longrightarrow> (\<forall>nm kids. n = Element nm kids \<longrightarrow> normal_list kids) \<Longrightarrow> normal_list (cons_node n ns)"
  by (cases "(n, ns)" rule: cons_node.cases) (auto split: list.splits xml_node.splits)

lemma normal_foldr:
  "(\<And>n nm kids. n \<in> set ns \<Longrightarrow> n = Element nm kids \<Longrightarrow> normal_list kids) \<Longrightarrow> normal_list (foldr cons_node ns [])"
  by (induction ns) (auto intro!: normal_cons_node)

lemma normal_norm: "norm_node n = Element nm kids \<Longrightarrow> normal_list kids"
proof (induction n arbitrary: nm kids)
  case (Element nm' kids')
  have "normal_list (foldr cons_node (map norm_node kids') [])"
    by (rule normal_foldr) (use Element.IH in \<open>auto dest: sym\<close>)
  then show ?case using Element.prems by simp
qed simp_all

lemma normal_merge: "normal_list (merge_nodes ns)"
  unfolding merge_nodes_def by (rule normal_foldr) (auto dest: sym normal_norm)

lemma print_cons_node: "print_nodes (cons_node n ns) = print_node n @ print_nodes ns"
  by (cases "(n, ns)" rule: cons_node.cases) (auto simp: print_nodes_def)

lemma print_foldr: "print_nodes (foldr cons_node ns []) = concat (map print_node ns)"
  by (induction ns) (simp_all add: print_cons_node)

lemma print_norm: "print_node (norm_node n) = print_node n"
proof (induction n)
  case (Element nm kids)
  have "concat (map (print_node \<circ> norm_node) kids) = concat (map print_node kids)"
    by (intro arg_cong [where f = concat] map_cong) (simp_all add: Element)
  then show ?case using print_foldr [of "map norm_node kids"] by (simp add: print_nodes_def)
qed simp_all

lemma plain_cons_node: "list_all plain_node (cons_node n ns) \<longleftrightarrow> list_all plain_node (n # ns)"
  by (cases "(n, ns)" rule: cons_node.cases) auto

lemma plain_foldr: "list_all plain_node (foldr cons_node ns []) \<longleftrightarrow> list_all plain_node ns"
  by (induction ns) (simp_all add: plain_cons_node)

lemma plain_norm: "plain_node n \<Longrightarrow> plain_node (norm_node n)"
  by (induction n) (simp_all add: plain_foldr, simp add: list_all_iff)

lemma letter_tag:
  assumes "tolower c \<in> set ''abcdefghijklmnopqrstuvwxyz''" shows "c \<noteq> CHR ''>''" "c \<noteq> CHR ''/''"
  using assms by (auto simp: tolower_def)

lemma take_tag:
  assumes "xml_name nm"
  shows "takeWhile (\<lambda>x. x \<noteq> CHR ''>'') (nm @ CHR ''>'' # r) = nm" "dropWhile (\<lambda>x. x \<noteq> CHR ''>'') (nm @ CHR ''>'' # r) = CHR ''>'' # r"
    "tag_token nm = Open nm"
proof -
  have "\<And>c. c \<in> set nm \<Longrightarrow> c \<noteq> CHR ''>''" using assms letter_tag(1) by (auto simp: xml_name_def list_all_iff)
  then show "takeWhile (\<lambda>x. x \<noteq> CHR ''>'') (nm @ CHR ''>'' # r) = nm" "dropWhile (\<lambda>x. x \<noteq> CHR ''>'') (nm @ CHR ''>'' # r) = CHR ''>'' # r"
    by (simp_all add: takeWhile_append2 dropWhile_append2)
  show "tag_token nm = Open nm"
    using assms letter_tag(2) by (cases nm) (auto simp: tag_token_def xml_name_def)
qed

lemma token_open: "xml_name nm \<Longrightarrow> tokenize (CHR ''<'' # nm @ CHR ''>'' # r) = Open nm # tokenize r"
  by (simp add: take_tag)

lemma token_close: "xml_name nm \<Longrightarrow> tokenize (CHR ''<'' # CHR ''/'' # nm @ CHR ''>'' # r) = Close nm # tokenize r"
  by (simp add: take_tag tag_token_def)

lemma token_text:
  assumes "s \<noteq> []" "list_all plain_char s" "r = [] \<or> hd r = CHR ''<''"
  shows "tokenize (s @ r) = Chars s # tokenize r"
proof -
  have n: "\<And>c. c \<in> set s \<Longrightarrow> c \<noteq> CHR ''<''" using assms(2) by (auto simp: list_all_iff plain_char_def)
  have "takeWhile (\<lambda>x. x \<noteq> CHR ''<'') r = []" "dropWhile (\<lambda>x. x \<noteq> CHR ''<'') r = r"
    using assms(3) by (cases r; simp)+
  moreover obtain c cs where s: "s = c # cs" using assms(1) by (cases s) auto
  ultimately show ?thesis using n by (simp add: takeWhile_append2 dropWhile_append2)
qed

lemma token_nodes:
  assumes "normal_list ns" "list_all plain_node ns" "r = [] \<or> hd r = CHR ''<''"
  shows "tokenize (print_nodes ns @ r) = concat (map node_tokens ns) @ tokenize r"
  using assms
proof (induction ns arbitrary: r rule: normal_list.induct)
  case (2 nm kids ns)
  have k: "tokenize (print_nodes kids @ CHR ''<'' # CHR ''/'' # nm @ CHR ''>'' # print_nodes ns @ r)
      = concat (map node_tokens kids) @ Close nm # tokenize (print_nodes ns @ r)"
    using 2 by (simp add: token_close del: tokenize.simps)
  have "print_nodes (Element nm kids # ns) @ r
      = CHR ''<'' # nm @ CHR ''>'' # print_nodes kids @ CHR ''<'' # CHR ''/'' # nm @ CHR ''>'' # print_nodes ns @ r"
    by (simp add: print_nodes_def)
  then show ?case using 2 k by (simp add: token_open del: tokenize.simps)
next
  case (3 s ns)
  have "print_nodes ns @ r = [] \<or> hd (print_nodes ns @ r) = CHR ''<''"
    using 3 by (auto simp: print_nodes_def split: list.splits xml_node.splits)
  then show ?case using 3 token_text [of s "print_nodes ns @ r"] by (simp add: print_nodes_def)
qed simp_all

lemma build_tokens:
  "list_all plain_node ns \<Longrightarrow> build st cur (concat (map node_tokens ns) @ ts) = build st (rev ns @ cur) ts"
  by (induction ns arbitrary: st cur ts rule: normal_list.induct) simp_all

theorem read_document_reads_xml: "reads_xml read_document"
  unfolding reads_xml_def
proof (intro allI impI)
  fix nm kids
  assume p: "plain_node (Element nm kids)"
  define ns where "ns = [Element nm (merge_nodes kids), XText nl]"
  have n: "norm_node (Element nm kids) = Element nm (merge_nodes kids)" by (simp add: merge_nodes_def)
  then have ns: "normal_list ns" "list_all plain_node ns"
    using plain_norm [OF p] normal_merge by (auto simp: ns_def plain_tabs, simp add: nl_def)
  have "print_node (Element nm kids) @ nl = print_nodes ns @ []"
    using print_norm [of "Element nm kids"] n by (simp add: print_nodes_def ns_def)
  then have "tokenize (print_node (Element nm kids) @ nl) = concat (map node_tokens ns)"
    using token_nodes [OF ns, of "[]"] by simp
  then have "build [] [] (tokenize (print_node (Element nm kids) @ nl)) = ns"
    using build_tokens [OF ns(2), of "[]" "[]" "[]"] by simp
  then show "read_document (xml_hdr @ print_node (Element nm kids) @ nl) = Some [Element nm (merge_nodes kids)]"
    by (simp add: read_document_def ns_def del: print_node.simps)
qed

section \<open>A machine\<close>

definition demo_menv :: menv where
  "demo_menv =
     \<lparr>e_now = 0,
      e_files = [''/b/uuids/available_uuids'' \<mapsto> Text uuid_passive1, product_file ''name'' \<mapsto> Text ''Demo''],
      e_link = (\<lambda>_. False), e_kwrite = (\<lambda>_ _ fs. (0, fs)), e_ksleep = (\<lambda>_ fs. fs),
      e_meter = \<lparr>pm_rapl_present = False, pm_domain_list = [], pm_last_time = 0, pm_enable_measurement = False\<rparr>\<rparr>"

definition demo_rs :: rel_sys where
  "demo_rs = \<lparr>rs_env = demo_menv, rs_devices = None, rs_readlink = (\<lambda>_. None), rs_int3400_base = ''/b/''\<rparr>"

definition demo_trt :: trt_entry where
  "demo_trt = \<lparr>te_source = ''B0D4'', te_target = ''TSKN'', te_influence = 100, te_sample_period = 50\<rparr>"

definition demo_dev :: rel_dev where
  "demo_dev =
     \<lparr>rd_open = True, rd_trt = \<lparr>tb_count = Some 1, tb_size = Some 64, tb_data = Some [demo_trt]\<rparr>,
      rd_art = \<lparr>tb_count = None, tb_size = None, tb_data = None\<rparr>,
      rd_psvt = \<lparr>tb_count = None, tb_size = None, tb_data = None\<rparr>\<rparr>"

lemma demo_state:
  "table_state demo_dev = cthd_acpi_rel\<lparr>ar_trt := [demo_trt], ar_trt_count := 1\<rparr>" "has_relations demo_dev"
  by (simp_all add: table_state_def read_trt_def read_art_def read_table_def demo_dev_def has_relations_def)

lemma demo_targets:
  "\<exists>ar. parse_target_devices (table_state demo_dev) = Inr ar
     \<and> ar_rel_list ar = [(rel_object_t ''TSKN'' 0 0)\<lparr>ro_trt_objects := [demo_trt]\<rparr>]"
  unfolding demo_state by (simp add: parse_target_devices_def entries_def cthd_acpi_rel_def relate_trt_def relate_def demo_trt_def rel_object_t_def)



end
