(* ===== verification/Thd_Uevent.thy ===== *)
theory Thd_Uevent
  imports Thd_Engine Thd_GddvBuf
begin

text \<open>
  Kernel events, \<^verbatim>\<open>thd_kobj_uevent.cpp\<close>: a netlink message is a sequence of NUL-terminated records,
  and the daemon looks for the one with the path of a device it registered. What the socket calls
  give is an argument.
\<close>

section \<open>The socket and the registered path\<close>

definition max_buffer_size :: nat where "max_buffer_size = 512"

record kobj_uevent =
  ku_fd :: int
  ku_device_path :: string

definition cthd_kobj_uevent :: kobj_uevent where
  "cthd_kobj_uevent = \<lparr>ku_fd = 0, ku_device_path = []\<rparr>"

definition kobj_uevent_open :: "int \<Rightarrow> int \<Rightarrow> kobj_uevent \<Rightarrow> int \<times> kobj_uevent" where
  "kobj_uevent_open socket_ret bind_ret k =
     (let k1 = k\<lparr>ku_fd := socket_ret\<rparr>
      in (if socket_ret < 0 then socket_ret else if bind_ret \<noteq> 0 then -1 else socket_ret, k1))"

definition register_dev_path :: "string \<Rightarrow> kobj_uevent \<Rightarrow> kobj_uevent" where
  "register_dev_path path k = k\<lparr>ku_device_path := take (max_buffer_size - 1) path\<rparr>"

text \<open>The start of the engine, when it does not poll: \<open>None\<close> when no events are to be expected.\<close>

definition open_uevents :: "int \<Rightarrow> int \<Rightarrow> int \<Rightarrow> kobj_uevent \<Rightarrow> kobj_uevent option" where
  "open_uevents feature socket_ret bind_ret k =
     (if feature = 0 then None
      else case kobj_uevent_open socket_ret bind_ret k of (fd, k1) \<Rightarrow>
        if fd < 0 then None else Some (register_dev_path ''/devices/virtual/thermal/thermal_zone'' k1))"

section \<open>Looking for the device\<close>

definition DEVPATH :: string where "DEVPATH = ''DEVPATH=''"

text \<open>The C string at the start of the rest of the buffer, and whether it names the device.\<close>

definition c_record :: "string \<Rightarrow> string" where
  "c_record s = takeWhile (\<lambda>c. c \<noteq> CHR 0x00) s"

definition names_device :: "string \<Rightarrow> string \<Rightarrow> bool" where
  "names_device path r \<longleftrightarrow>
     length DEVPATH < length r \<and> strncmp (length DEVPATH) r DEVPATH = 0
     \<and> strncmp (length path) (drop (length DEVPATH) r) path = 0"

function event_loop :: "string \<Rightarrow> string \<Rightarrow> bool" where
  "event_loop path s =
     (if s = [] then False
      else if names_device path (c_record s) then True
      else event_loop path (drop (Suc (length (c_record s))) s))"
  by pat_completeness auto
termination by (relation "Wellfounded.measure (\<lambda>(_, s). length s)") auto

declare event_loop.simps [simp del]

text \<open>\<open>data\<close> is the message that waits, if any; \<^verbatim>\<open>recv\<close> cuts it at the size of the buffer.\<close>

definition check_for_event :: "string option \<Rightarrow> kobj_uevent \<Rightarrow> bool" where
  "check_for_event data k =
     (case data of None \<Rightarrow> False | Some s \<Rightarrow> event_loop (ku_device_path k) (take (max_buffer_size - 1) s))"

section \<open>The records of a message\<close>

definition records :: "string \<Rightarrow> string list" where
  "records s = foldr (\<lambda>c rs. if c = CHR 0x00 then [] # rs else (c # hd rs) # tl rs) s [[]]"

lemma records_cons [simp]:
  "records [] = [[]]"
  "records (c # s) = (if c = CHR 0x00 then [] # records s else (c # hd (records s)) # tl (records s))"
  by (simp_all add: records_def)

lemma records_step:
  "records s = c_record s # (if length (c_record s) < length s then records (drop (Suc (length (c_record s))) s) else [])"
  by (induction s) (auto simp: c_record_def)

lemma records_nul_free: "r \<in> set (records s) \<Longrightarrow> nul_free r"
proof (induction s arbitrary: r rule: length_induct)
  case (1 s)
  define t where "t = drop (Suc (length (c_record s))) s"
  have "nul_free (c_record s)" using set_takeWhileD by (fastforce simp: nul_free_def c_record_def)
  moreover have "nul_free r" if "r \<in> set (records t)" "length (c_record s) < length s"
    using 1(1) [rule_format, of t r] that by (simp add: t_def)
  ultimately show ?case using 1(2) by (subst (asm) records_step) (auto simp flip: t_def split: if_splits)
qed

lemma event_loop_records: "event_loop path s \<longleftrightarrow> (\<exists>r\<in>set (records s). names_device path r)"
proof (induction s rule: length_induct)
  case (1 s)
  define t where "t = drop (Suc (length (c_record s))) s"
  have e: "event_loop path s \<longleftrightarrow> s \<noteq> [] \<and> (names_device path (c_record s) \<or> event_loop path t)"
    by (subst event_loop.simps) (simp add: t_def)
  have nil: "\<not> names_device path []" "\<not> event_loop path []" by (simp_all add: names_device_def event_loop.simps)
  show ?case
  proof (cases "length (c_record s) < length s")
    case True
    then have "event_loop path t \<longleftrightarrow> (\<exists>r\<in>set (records t). names_device path r)"
      by (intro 1 [rule_format]) (simp add: t_def)
    moreover have "records s = c_record s # records t" using True by (subst records_step) (simp add: t_def)
    moreover have "s \<noteq> []" using True by auto
    ultimately show ?thesis by (simp add: e)
  next
    case False
    have "records s = [c_record s]" by (subst records_step) (simp add: False)
    moreover have "t = []" using False by (simp add: t_def)
    ultimately show ?thesis using nil by (cases "s = []") (simp_all add: e c_record_def)
  qed
qed

lemma take_append_eq:
  "length p < length r \<Longrightarrow> take (length (p @ q)) r = p @ q \<longleftrightarrow> take (length p) r = p \<and> take (length q) (drop (length p) r) = q"
  unfolding length_append take_add by (intro append_eq_append_conv) simp

lemma names_device_eq:
  assumes "nul_free path" "nul_free r"
  shows "names_device path r \<longleftrightarrow> length DEVPATH < length r \<and> take (length (DEVPATH @ path)) r = DEVPATH @ path"
proof -
  have n: "nul_free (drop (length DEVPATH) r)" "nul_free DEVPATH"
    using assms(2) by (auto simp: nul_free_def DEVPATH_def dest: in_set_dropD)
  have "names_device path r \<longleftrightarrow> length DEVPATH < length r \<and> take (length DEVPATH) r = DEVPATH
      \<and> take (length path) (drop (length DEVPATH) r) = path"
    by (simp add: names_device_def strncmp_zero n assms)
  then show ?thesis using take_append_eq [of DEVPATH r path] by blast
qed

text \<open>
  C37. A kernel event is recognised exactly when one of the NUL-separated records in the first 511
  bytes of the message is \<^verbatim>\<open>DEVPATH=\<close> followed by a path that starts with the registered one. The
  scan ends on every message.
\<close>

theorem uevent_recognised:
  assumes "nul_free (ku_device_path k)"
  shows "check_for_event (Some msg) k \<longleftrightarrow>
    (\<exists>r\<in>set (records (take 511 msg)). length DEVPATH < length r
       \<and> take (length (DEVPATH @ ku_device_path k)) r = DEVPATH @ ku_device_path k)"
proof -
  have "names_device (ku_device_path k) r \<longleftrightarrow> length DEVPATH < length r
      \<and> take (length (DEVPATH @ ku_device_path k)) r = DEVPATH @ ku_device_path k"
    if "r \<in> set (records (take 511 msg))" for r
    using that by (intro names_device_eq assms records_nul_free)
  then show ?thesis by (simp add: check_for_event_def max_buffer_size_def event_loop_records)
qed

definition thermal_event :: string where
  "thermal_event = ''change@/x'' @ [CHR 0x00] @ ''DEVPATH=/devices/virtual/thermal/thermal_zone3'' @ [CHR 0x00]"

theorem uevent_recognised_witness:
  "\<exists>k. open_uevents 1 5 0 cthd_kobj_uevent = Some k \<and> check_for_event (Some thermal_event) k"
proof -
  define k where "k = register_dev_path ''/devices/virtual/thermal/thermal_zone'' (cthd_kobj_uevent\<lparr>ku_fd := 5\<rparr>)"
  have p: "ku_device_path k = ''/devices/virtual/thermal/thermal_zone''"
    by (simp add: k_def register_dev_path_def max_buffer_size_def)
  have r: "records (take 511 thermal_event) = [''change@/x'', ''DEVPATH=/devices/virtual/thermal/thermal_zone3'', []]"
    by code_simp
  have "check_for_event (Some thermal_event) k"
    by (subst uevent_recognised) (simp_all add: r p nul_free_def DEVPATH_def)
  then show ?thesis by (auto simp: open_uevents_def kobj_uevent_open_def k_def)
qed

end
