(* ===== verification/Thd_MeterScan.thy ===== *)
theory Thd_MeterScan
  imports Thd_PowerMeter Thd_GddvBuf
begin

text \<open>
  The start of the power meter (\<^verbatim>\<open>thd_rapl_power_meter.cpp\<close>): its constructor, the scan of the
  powercap directories for energy domains, and the rounds of its timer thread. The listing of a
  directory is an argument, \<open>None\<close> when it cannot be opened.
\<close>

section \<open>The scan\<close>

type_synonym listing = "string \<Rightarrow> string list option"

definition domain_code :: "domain_type \<Rightarrow> u32" where
  "domain_code t = (case t of INVALID \<Rightarrow> 0 | PACKAGE \<Rightarrow> 1 | DRAM \<Rightarrow> 2 | CORE \<Rightarrow> 4 | UNCORE \<Rightarrow> 8)"

definition new_domain :: "domain_type \<Rightarrow> string \<Rightarrow> string \<Rightarrow> rapl_domain" where
  "new_domain ty name path =
     \<lparr>rd_type = ty, rd_name = name, rd_path = path, rd_max_energy_range = 0, rd_max_energy_range_threshold = 0,
      rd_half_way = False, rd_energy_cumulative_counter = 0, rd_energy_counter = 0, rd_power = 0, rd_max_power = 0,
      rd_min_power = 0\<rparr>"

text \<open>\<^verbatim>\<open>fnmatch("package-*", s, 0)\<close>, and the type that a name gives.\<close>

definition is_package :: "string \<Rightarrow> bool" where
  "is_package s \<longleftrightarrow> take 8 s = ''package-''"

definition domain_of_name :: "string \<Rightarrow> domain_type" where
  "domain_of_name s =
     (if is_package s then PACKAGE else if s = ''core'' then CORE else if s = ''uncore'' then UNCORE
      else if s = ''dram'' then DRAM else INVALID)"

text \<open>The name of the domain in a directory entry; \<open>None\<close> for an entry that is passed over.\<close>

definition entry_name :: "'a env_scheme \<Rightarrow> string \<Rightarrow> string \<Rightarrow> string option" where
  "entry_name e dir x =
     (if thd_strcmp_n (Some x) (Some ''.'') = 0 \<or> thd_strcmp_n (Some x) (Some ''..'') = 0 then None
      else
        (let p = dir @ x @ ''/'' @ ''name''
         in if \<not> sysfs_exists e p then None
            else case sysfs_read_str e p [] of (status, s) \<Rightarrow> if status < 0 then None else Some s))"

definition measured :: "u32 \<Rightarrow> string \<Rightarrow> string \<Rightarrow> string \<Rightarrow> rapl_domain list \<Rightarrow> rapl_domain list" where
  "measured msk dir x s ds =
     (if and msk (domain_code (domain_of_name s)) \<noteq> 0 then ds @ [new_domain (domain_of_name s) s (dir @ x)] else ds)"

text \<open>Directories of packages are scanned in turn, before the package itself is listed. The depth is
  bounded by fuel; \<open>None\<close> when it runs out.\<close>

fun rapl_read_domains ::
    "nat \<Rightarrow> listing \<Rightarrow> 'a env_scheme \<Rightarrow> u32 \<Rightarrow> string \<Rightarrow> rapl_domain list \<Rightarrow> rapl_domain list option"
  and read_entries ::
    "nat \<Rightarrow> listing \<Rightarrow> 'a env_scheme \<Rightarrow> u32 \<Rightarrow> string \<Rightarrow> string list \<Rightarrow> rapl_domain list \<Rightarrow> rapl_domain list option" where
  "rapl_read_domains 0 ls e msk dir ds = None"
| "rapl_read_domains (Suc n) ls e msk dir ds =
     (case ls dir of None \<Rightarrow> Some ds | Some xs \<Rightarrow> read_entries n ls e msk dir xs ds)"
| "read_entries n ls e msk dir [] ds = Some ds"
| "read_entries n ls e msk dir (x # xs) ds =
     (case entry_name e dir x of None \<Rightarrow> read_entries n ls e msk dir xs ds
      | Some s \<Rightarrow>
          (case (if is_package s then rapl_read_domains n ls e msk (dir @ x @ ''/'') ds else Some ds) of
             None \<Rightarrow> None
           | Some ds1 \<Rightarrow> read_entries n ls e msk dir xs (measured msk dir x s ds1)))"

definition powercap_base :: string where "powercap_base = ''/sys/class/powercap/intel-rapl/''"

text \<open>The constructor; \<open>msk\<close> is \<^verbatim>\<open>PACKAGE | DRAM\<close> by default.\<close>

definition default_measure_mask :: u32 where "default_measure_mask = or (domain_code PACKAGE) (domain_code DRAM)"

definition cthd_rapl_power_meter :: "nat \<Rightarrow> listing \<Rightarrow> 'a env_scheme \<Rightarrow> u32 \<Rightarrow> power_meter option" where
  "cthd_rapl_power_meter n ls e msk =
     (if sysfs_exists e powercap_base
      then (case rapl_read_domains n ls e msk powercap_base [] of None \<Rightarrow> None
            | Some ds \<Rightarrow> Some \<lparr>pm_rapl_present = True, pm_domain_list = ds, pm_last_time = e_now e, pm_enable_measurement = False\<rparr>)
      else Some \<lparr>pm_rapl_present = False, pm_domain_list = [], pm_last_time = 0, pm_enable_measurement = False\<rparr>)"

section \<open>The timer thread\<close>

definition rapl_callback_timeout :: int where "rapl_callback_timeout = 10"

text \<open>A turn of \<^verbatim>\<open>rapl_periodic_callback\<close>: \<open>Inl\<close> when the thread ends.\<close>

definition rapl_periodic_turn :: "menv \<Rightarrow> menv + menv" where
  "rapl_periodic_turn e =
     (case rapl_energy_loop e of (go, e') \<Rightarrow> if go then Inr (env_sleep e' rapl_callback_timeout) else Inl e')"

section \<open>The scan returns\<close>

text \<open>Paths of \<open>k\<close> characters and more cannot be opened: then \<open>k\<close> bounds the depth of the scan.\<close>

lemma read_domains_returns:
  assumes k: "\<And>p. k \<le> length p \<Longrightarrow> ls p = None"
  shows "0 < n \<Longrightarrow> k < length dir + n \<Longrightarrow> rapl_read_domains n ls e msk dir ds \<noteq> None"
    and "0 < n \<Longrightarrow> k \<le> length dir + n \<Longrightarrow> read_entries n ls e msk dir xs ds \<noteq> None"
  using k
proof (induction n ls e msk dir ds and n ls e msk dir xs ds rule: rapl_read_domains_read_entries.induct)
  case (2 n ls e msk dir ds)
  show ?case
  proof (cases "ls dir")
    case (Some xs)
    then have "length dir < k" using "2.prems"(3) [of dir] by (cases "length dir < k") auto
    then show ?thesis using 2 Some by simp
  qed simp
next
  case (4 n ls e msk dir x xs ds)
  have sub: "rapl_read_domains n ls e msk (dir @ x @ ''/'') ds \<noteq> None"
    if "entry_name e dir x = Some s" "is_package s" for s
    using "4.IH"(2) [OF that] "4.prems" by simp
  show ?case
  proof (cases "entry_name e dir x")
    case (Some s)
    obtain ds1 where "(if is_package s then rapl_read_domains n ls e msk (dir @ x @ ''/'') ds else Some ds) = Some ds1"
      using sub [OF Some] by (cases "is_package s") auto
    then show ?thesis using "4.IH"(3) [OF Some] "4.prems" Some by simp
  qed (use 4 in simp)
qed simp_all

section \<open>What the scan finds\<close>

definition domain_ok :: "u32 \<Rightarrow> rapl_domain \<Rightarrow> bool" where
  "domain_ok msk d \<longleftrightarrow> rd_type d = domain_of_name (rd_name d) \<and> and msk (domain_code (rd_type d)) \<noteq> 0
     \<and> rd_type d \<noteq> INVALID \<and> power_in_range d"

lemma measured_ok: "list_all (domain_ok msk) ds \<Longrightarrow> list_all (domain_ok msk) (measured msk dir x s ds)"
  by (auto simp: measured_def domain_ok_def new_domain_def domain_code_def power_in_range_def)

lemma read_domains_ok:
  shows "rapl_read_domains n ls e msk dir ds = Some ds' \<Longrightarrow> list_all (domain_ok msk) ds \<Longrightarrow> list_all (domain_ok msk) ds'"
    and "read_entries n ls e msk dir xs ds = Some ds' \<Longrightarrow> list_all (domain_ok msk) ds \<Longrightarrow> list_all (domain_ok msk) ds'"
proof (induction n ls e msk dir ds and n ls e msk dir xs ds arbitrary: ds' and ds' rule: rapl_read_domains_read_entries.induct)
  case (4 n ls e msk dir x xs ds)
  show ?case
  proof (cases "entry_name e dir x")
    case (Some s)
    obtain ds1 where 1: "(if is_package s then rapl_read_domains n ls e msk (dir @ x @ ''/'') ds else Some ds) = Some ds1"
        "read_entries n ls e msk dir xs (measured msk dir x s ds1) = Some ds'"
      using "4.prems"(1) Some by (auto split: option.splits)
    have "list_all (domain_ok msk) ds1"
      using 1(1) "4.IH"(2) [OF Some] "4.prems"(2) by (auto split: if_splits)
    then show ?thesis using "4.IH"(3) [OF Some 1(1)] 1(2) measured_ok by blast
  qed (use 4 in simp)
qed (auto split: option.splits)

definition PATH_MAX :: nat where "PATH_MAX = 4096"

text \<open>
  C36. The constructor of the power meter returns: as no path of \<^verbatim>\<open>PATH_MAX\<close> characters can be opened,
  the scan of nested packages ends, whatever the directories hold. Every domain it then has is of
  one of the types asked for, as its name says, and the meter satisfies the invariant of its
  operations.
\<close>

theorem power_meter_starts:
  assumes "\<And>p. PATH_MAX \<le> length p \<Longrightarrow> ls p = None" and "PATH_MAX \<le> n"
  shows "\<exists>pm. cthd_rapl_power_meter n ls e msk = Some pm
    \<and> (\<forall>d\<in>set (pm_domain_list pm). rd_type d = domain_of_name (rd_name d) \<and> and msk (domain_code (rd_type d)) \<noteq> 0)
    \<and> meter_inv (e\<lparr>e_meter := pm\<rparr>)"
proof -
  have "rapl_read_domains n ls e msk powercap_base [] \<noteq> None"
  proof (rule read_domains_returns(1) [OF assms(1)])
    have "0 < length powercap_base" by (simp add: powercap_base_def)
    then show "0 < n" "PATH_MAX < length powercap_base + n" using assms(2) unfolding PATH_MAX_def by linarith+
  qed
  then obtain ds where ds: "rapl_read_domains n ls e msk powercap_base [] = Some ds" by auto
  then have "list_all (domain_ok msk) ds" using read_domains_ok(1) by fastforce
  then show ?thesis
    by (auto simp: cthd_rapl_power_meter_def ds meter_inv_def domain_ok_def list_all_iff)
qed

definition demo_powercap :: listing where
  "demo_powercap p = (if p = powercap_base then Some [''.'', ''..'', ''intel-rapl:0''] else None)"

theorem power_meter_starts_witness:
  "\<exists>pm. cthd_rapl_power_meter 4096 demo_powercap
      (demo_meter [powercap_base \<mapsto> NoRead, powercap_base @ ''intel-rapl:0/name'' \<mapsto> Text ''package-0'']) default_measure_mask = Some pm
     \<and> (\<forall>d\<in>set (pm_domain_list pm). rd_type d = domain_of_name (rd_name d))"
proof -
  have "PATH_MAX \<le> length p \<Longrightarrow> demo_powercap p = None" for p
    by (auto simp: demo_powercap_def powercap_base_def PATH_MAX_def)
  from power_meter_starts [where ls = demo_powercap, OF this] show ?thesis by (fastforce simp: PATH_MAX_def)
qed

end
