(* ===== verification/Thd_Dbus.thy ===== *)
theory Thd_Dbus
  imports Thd_EngineDefault Thd_Features Thd_MeterScan
begin

text \<open>
  The D-Bus interface, \<^verbatim>\<open>thd_dbus_interface.cpp\<close> with \<^verbatim>\<open>thd_dbus_interface.xml\<close>: what each method does to
  the engine, how the dispatcher decodes its arguments and what it answers. Each call is one step;
  what the engine thread does while a handler sleeps is an argument.
\<close>

section \<open>Values, replies and the state of the process\<close>

datatype bus_value = VS string | VI int | VU u32 | VD rat | VAI "int list"

text \<open>What a handler hands to GDBus: a value, an error, a null pointer in place of an error (GDBus
  requires an error there), or nothing.\<close>

datatype bus_error = G_DBUS_ERROR_FAILED | G_DBUS_ERROR_UNKNOWN_METHOD

datatype reply = Return_value "bus_value list" | Return_gerror bus_error string | Return_null_gerror | No_reply

text \<open>\<open>Wrong_format\<close>: the arguments do not have the format the handler reads.\<close>

datatype bus_fault = Wrong_format | Engine_fault fault

record daemon =
  dm_engine :: engine
  dm_features :: features
  dm_config_file :: string
  dm_exit_called :: bool

type_synonym handler = "bus_value list \<Rightarrow> daemon \<Rightarrow> bus_fault + reply \<times> daemon"

text \<open>What a handler finds: fuel for reading sensors, writing to the run directory, the machine, the
  settings of the command line, what starting a thread gives, the configuration files and libxml2,
  and what the engine thread does to the engine while the handler sleeps.\<close>

record world =
  wo_fuel :: nat
  wo_disk :: disk
  wo_run_ok :: bool
  wo_machine :: machine
  wo_power_floor :: bool
  wo_ignore_critical :: bool
  wo_poll_interval :: int
  wo_out :: "int \<times> bool \<times> int"
  wo_conf_disk :: conf_disk
  wo_text :: node_text
  wo_pid :: pid_control
  wo_generate :: "string \<Rightarrow> conf_disk \<Rightarrow> int \<times> conf_disk"
  wo_reg :: "u64 option"
  wo_thread :: "engine \<Rightarrow> engine"

definition MAX_DBUS_REPLY_STR_LEN :: nat where "MAX_DBUS_REPLY_STR_LEN = 100"

text \<open>\<^verbatim>\<open>strncpy\<close> of at most \<open>n\<close> characters into a buffer that is then terminated.\<close>

definition copied :: "nat \<Rightarrow> string \<Rightarrow> string" where
  "copied n s = take n (takeWhile (\<lambda>c. c \<noteq> CHR 0x00) s)"

section \<open>The methods\<close>

text \<open>Three methods are stubs that fail.\<close>

definition thd_dbus_interface_add_trip_point :: "string \<Rightarrow> bool" where
  "thd_dbus_interface_add_trip_point name = False"

definition thd_dbus_interface_delete_trip_point :: "string \<Rightarrow> bool" where
  "thd_dbus_interface_delete_trip_point name = False"

definition thd_dbus_interface_disable_cooling_device :: "string \<Rightarrow> bool" where
  "thd_dbus_interface_disable_cooling_device name = False"

definition succeeded :: "int \<times> engine \<Rightarrow> bool \<times> engine" where
  "succeeded r = (fst r = THD_SUCCESS, snd r)"

text \<open>The engine is told even when the preference was refused.\<close>

definition thd_dbus_interface_set_current_preference :: "world \<Rightarrow> string \<Rightarrow> engine \<Rightarrow> bool \<times> engine" where
  "thd_dbus_interface_set_current_preference w pref en =
     (case Thd_Preference.set_preference (wo_disk w) pref (cthd_preference (sy_env en)) (sy_env en) of (ok, _, e) \<Rightarrow>
        (ok, send_message PREF_CHANGED 0 (set_env e en)))"

definition thd_dbus_interface_get_current_preference :: "engine \<Rightarrow> string" where
  "thd_dbus_interface_get_current_preference en =
     copied (MAX_DBUS_REPLY_STR_LEN - 1) (get_preference_str (cthd_preference (sy_env en)))"

definition announced :: "int \<times> engine \<Rightarrow> bool \<times> engine" where
  "announced r =
     (if fst r = THD_SUCCESS then (True, send_message PREF_CHANGED 0 (snd r)) else (False, snd r))"

definition thd_dbus_interface_set_user_max_temperature :: "world \<Rightarrow> string \<Rightarrow> u32 \<Rightarrow> engine \<Rightarrow> bool \<times> engine" where
  "thd_dbus_interface_set_user_max_temperature w name temp en = announced (user_set_max_temp (wo_run_ok w) name temp en)"

definition thd_dbus_interface_set_user_passive_temperature :: "world \<Rightarrow> string \<Rightarrow> u32 \<Rightarrow> engine \<Rightarrow> bool \<times> engine" where
  "thd_dbus_interface_set_user_passive_temperature w name temp en = announced (user_set_psv_temp (wo_run_ok w) name temp en)"

definition thd_dbus_interface_add_sensor :: "string \<Rightarrow> string \<Rightarrow> engine \<Rightarrow> bool \<times> engine" where
  "thd_dbus_interface_add_sensor name path en = succeeded (user_add_sensor name path en)"

definition thd_dbus_interface_add_virtual_sensor ::
    "world \<Rightarrow> string \<Rightarrow> string \<Rightarrow> rat \<Rightarrow> rat \<Rightarrow> engine \<Rightarrow> bool \<times> engine" where
  "thd_dbus_interface_add_virtual_sensor w name dep slope intercept en =
     succeeded (user_add_virtual_sensor (ma_junk (wo_machine w)) name dep slope intercept en)"

text \<open>\<^verbatim>\<open>user_get_sensor\<close>, \<^verbatim>\<open>user_get_zone\<close> and \<^verbatim>\<open>user_get_cdev\<close>, by position.\<close>

definition user_get_sensor :: "u32 \<Rightarrow> engine \<Rightarrow> sensor option" where
  "user_get_sensor i en = (if unat i < length (sy_sensors en) then Some (sy_sensors en ! unat i) else None)"

definition user_get_zone :: "u32 \<Rightarrow> engine \<Rightarrow> zone option" where
  "user_get_zone i en = (if unat i < length (en_zones en) then Some (en_zones en ! unat i) else None)"

definition user_get_cdev :: "u32 \<Rightarrow> engine \<Rightarrow> cdev option" where
  "user_get_cdev i en = (if unat i < length (sy_cdevs en) then Some (sy_cdevs en ! unat i) else None)"

text \<open>A method that reads may fail (\<open>None\<close>) or run out of fuel.\<close>

type_synonym 'a reads_engine = "fault + ('a option \<times> engine)"

definition thd_dbus_interface_get_sensor_information :: "world \<Rightarrow> u32 \<Rightarrow> engine \<Rightarrow> (string \<times> string \<times> int) reads_engine" where
  "thd_dbus_interface_get_sensor_information w i en =
     (case user_get_sensor i en of None \<Rightarrow> Inr (None, en)
      | Some s \<Rightarrow>
          (case read_temperature (wo_fuel w) (unat i) en of None \<Rightarrow> Inl Out_of_fuel
           | Some (t, en') \<Rightarrow>
               Inr (Some (copied MAX_DBUS_REPLY_STR_LEN (sn_type_str s), copied MAX_DBUS_REPLY_STR_LEN (sn_base_path s), sint t), en')))"

text \<open>The counts: a \<^verbatim>\<open>size_t\<close> narrowed to \<^verbatim>\<open>unsigned int\<close>.\<close>

definition get_sensor_count :: "engine \<Rightarrow> u32" where "get_sensor_count en = word_of_nat (length (sy_sensors en))"
definition get_zone_count :: "engine \<Rightarrow> u32" where "get_zone_count en = word_of_nat (length (en_zones en))"
definition get_cdev_count :: "engine \<Rightarrow> u32" where "get_cdev_count en = word_of_nat (length (sy_cdevs en))"

definition thd_dbus_interface_get_zone_information :: "u32 \<Rightarrow> engine \<Rightarrow> (string \<times> int \<times> int \<times> int) option" where
  "thd_dbus_interface_get_zone_information i en =
     map_option (\<lambda>z. (copied MAX_DBUS_REPLY_STR_LEN (zn_type_str z), int (length (zn_sensors z)),
                      int (length (zn_trip_points z)), if zn_active z then 1 else 0)) (user_get_zone i en)"

text \<open>The sensors of a zone are positions in the vector of the engine.\<close>

definition get_sensor_at_index :: "u32 \<Rightarrow> zone \<Rightarrow> engine \<Rightarrow> sensor option" where
  "get_sensor_at_index i z en =
     (if unat i < length (zn_sensors z) then Some (sy_sensors en ! (zn_sensors z ! unat i)) else None)"

definition thd_dbus_interface_get_zone_sensor_at_index :: "u32 \<Rightarrow> u32 \<Rightarrow> engine \<Rightarrow> string option" where
  "thd_dbus_interface_get_zone_sensor_at_index zi si en =
     (case user_get_zone zi en of None \<Rightarrow> None
      | Some z \<Rightarrow> map_option (\<lambda>s. copied MAX_DBUS_REPLY_STR_LEN (sn_type_str s)) (get_sensor_at_index si z en))"

definition get_trip_at_index :: "u32 \<Rightarrow> zone \<Rightarrow> trip_point option" where
  "get_trip_at_index i z = (if unat i < length (zn_trip_points z) then Some (zn_trip_points z ! unat i) else None)"

definition trip_type_code :: "trip_point_type \<Rightarrow> int" where
  "trip_type_code t =
     (case t of CRITICAL \<Rightarrow> 0 | HOT \<Rightarrow> 1 | MAX_TRIP \<Rightarrow> 2 | PASSIVE \<Rightarrow> 3 | ACTIVE \<Rightarrow> 4 | POLLING \<Rightarrow> 5 | INVALID_TRIP_TYPE \<Rightarrow> 6)"

text \<open>The ids of the devices are prepended one by one.\<close>

definition thd_dbus_interface_get_zone_trip_at_index ::
    "u32 \<Rightarrow> u32 \<Rightarrow> engine \<Rightarrow> (int \<times> int \<times> int \<times> int \<times> int list) option" where
  "thd_dbus_interface_get_zone_trip_at_index zi ti en =
     (case user_get_zone zi en of None \<Rightarrow> None
      | Some z \<Rightarrow>
          map_option (\<lambda>t. (sint (tp_temp t), trip_type_code (tp_type t), tp_sensor_id t, int (length (tp_cdevs t)),
              fold (\<lambda>c ids. cd_index (cdev_at en (tc_cdev c)) # ids) (tp_cdevs t) [])) (get_trip_at_index ti z))"

definition thd_dbus_interface_get_cdev_information :: "u32 \<Rightarrow> engine \<Rightarrow> (string \<times> int \<times> int \<times> int) option \<times> engine" where
  "thd_dbus_interface_get_cdev_information i en =
     (case user_get_cdev i en of None \<Rightarrow> (None, en)
      | Some c \<Rightarrow>
          (case get_max_state (sy_env en) c of (mx, c1) \<Rightarrow>
             (case get_curr_state (sy_env en) c1 of (cur, c2) \<Rightarrow>
                (Some (copied MAX_DBUS_REPLY_STR_LEN (cd_type_str c), cd_min_state c, mx, cur), put_cdev (unat i) c2 en))))"

definition thd_dbus_interface_add_zone_passive :: "world \<Rightarrow> string \<Rightarrow> u32 \<Rightarrow> string \<Rightarrow> string \<Rightarrow> engine \<Rightarrow> bool \<times> engine" where
  "thd_dbus_interface_add_zone_passive w name temp sensor cdev en =
     succeeded (user_add_zone (machine_site (wo_machine w)) name temp sensor cdev en)"

definition thd_dbus_interface_set_zone_status :: "string \<Rightarrow> int \<Rightarrow> engine \<Rightarrow> bool \<times> engine" where
  "thd_dbus_interface_set_zone_status name status en = succeeded (user_set_zone_status name status en)"

definition thd_dbus_interface_get_zone_status :: "string \<Rightarrow> engine \<Rightarrow> int option" where
  "thd_dbus_interface_get_zone_status name en = user_get_zone_status name en"

definition thd_dbus_interface_delete_zone :: "string \<Rightarrow> engine \<Rightarrow> bool \<times> engine" where
  "thd_dbus_interface_delete_zone name en = succeeded (user_delete_zone name en)"

definition in_etc :: "string \<Rightarrow> bool" where
  "in_etc path \<longleftrightarrow> length ''/etc'' \<le> length path \<and> strncmp (length ''/etc'') path ''/etc'' = 0"

definition thd_dbus_interface_add_cooling_device ::
    "string \<Rightarrow> string \<Rightarrow> int \<Rightarrow> int \<Rightarrow> int \<Rightarrow> engine \<Rightarrow> bool \<times> engine" where
  "thd_dbus_interface_add_cooling_device name path mn mx step en =
     (if in_etc path then (False, en) else succeeded (user_add_cdev name path mn mx step en))"

definition thd_dbus_interface_update_cooling_device ::
    "string \<Rightarrow> string \<Rightarrow> int \<Rightarrow> int \<Rightarrow> int \<Rightarrow> engine \<Rightarrow> bool \<times> engine" where
  "thd_dbus_interface_update_cooling_device name path mn mx step en =
     (if in_etc path then (False, en) else thd_dbus_interface_add_cooling_device name path mn mx step en)"

definition get_sensor_temperature :: "nat \<Rightarrow> int \<Rightarrow> engine \<Rightarrow> u32 reads_engine" where
  "get_sensor_temperature n i en =
     (if 0 \<le> i \<and> i < int (length (sy_sensors en))
      then (case read_temperature n (nat i) en of None \<Rightarrow> Inl Out_of_fuel | Some (t, en') \<Rightarrow> Inr (Some t, en'))
      else Inr (None, en))"

definition thd_dbus_interface_get_sensor_temperature :: "world \<Rightarrow> u32 \<Rightarrow> engine \<Rightarrow> u32 reads_engine" where
  "thd_dbus_interface_get_sensor_temperature w i en = get_sensor_temperature (wo_fuel w) (sint i) en"

section \<open>Terminating and starting again\<close>

text \<open>The thread goes on while the handler sleeps.\<close>

definition sleeps :: "world \<Rightarrow> int \<Rightarrow> engine \<Rightarrow> engine" where
  "sleeps w s en = wo_thread w (set_env (env_sleep (sy_env en) s) en)"

definition thd_engine_terminate :: "world \<Rightarrow> engine \<Rightarrow> fault + engine" where
  "thd_engine_terminate w en =
     (case giveup_thermal_control (machine_host (wo_machine w)) (sleeps w 1 (send_message TERMINATE 0 en)) of
        None \<Rightarrow> Inl Out_of_bounds | Some en' \<Rightarrow> Inr en')"

text \<open>\<^verbatim>\<open>thd_engine.reset()\<close> destroys the zones, which restore what they changed.\<close>

definition engine_reset :: "engine \<Rightarrow> engine" where
  "engine_reset en = fold zone_destroy (en_zones en) (en\<lparr>en_zones := []\<rparr>)"

text \<open>A new engine: its power meter scans the domains, the features are parsed, and the
  configuration is read for a platform that passes the first check (the reading of sensors asks
  for it at the latest).\<close>

definition new_engine :: "world \<Rightarrow> menv \<Rightarrow> fault + engine" where
  "new_engine w e =
     (case cthd_rapl_power_meter (wo_fuel w) (ma_dir (wo_machine w)) e default_measure_mask of None \<Rightarrow> Inl Out_of_fuel
      | Some pm \<Rightarrow> Inr (cthd_engine (e\<lparr>e_meter := pm\<rparr>) (wo_ignore_critical w) (wo_reg w)))"

definition engine_configuration :: "world \<Rightarrow> string \<Rightarrow> menv \<Rightarrow> features \<Rightarrow> fault + thermal_info option" where
  "engine_configuration w conf e f =
     (if check_acpi_platform_profile e \<noteq> THD_SUCCESS then Inr None
      else bind_r (engine_conf (wo_text w) (wo_pid w) (wo_generate w) conf (wo_conf_disk w) e
               \<lparr>cr_parser = cthd_parse, cr_features = f, cr_parser_disabled = False, cr_parser_init_done = False\<rparr>)
             (\<lambda>(ti, _, _). Inr ti))"

definition create_daemon :: "world \<Rightarrow> bool \<Rightarrow> bool \<Rightarrow> string \<Rightarrow> menv \<Rightarrow> fault + int \<times> daemon" where
  "create_daemon w ignore_cpuid exclusive conf e =
     bind_r (new_engine w e) (\<lambda>en.
     bind_r (thd_parse_features (wo_text w) (wo_conf_disk w) cthd_features_parse) (\<lambda>f.
     bind_r (engine_configuration w conf (sy_env en) f) (\<lambda>ti.
       case thd_engine_create_default_engine ignore_cpuid exclusive (wo_power_floor w) (wo_poll_interval w) (wo_out w)
              (wo_disk w) ((wo_machine w)\<lparr>ma_conf := ti\<rparr>) en of
         (r, en') \<Rightarrow> Inr (r, \<lparr>dm_engine = en', dm_features = f, dm_config_file = conf, dm_exit_called = False\<rparr>))))"

definition thd_dbus_interface_terminate :: "world \<Rightarrow> daemon \<Rightarrow> fault + daemon" where
  "thd_dbus_interface_terminate w dm =
     bind_r (thd_engine_terminate w (dm_engine dm)) (\<lambda>en. Inr (dm\<lparr>dm_engine := en, dm_exit_called := True\<rparr>))"

text \<open>Always the default engine, without the check of the processor.\<close>

definition thd_dbus_interface_reinit :: "world \<Rightarrow> daemon \<Rightarrow> fault + bool \<times> daemon" where
  "thd_dbus_interface_reinit w dm =
     bind_r (thd_engine_terminate w (dm_engine dm)) (\<lambda>en.
     bind_r (create_daemon w True (en_control_mode (dm_engine dm) = EXCLUSIVE) (dm_config_file dm)
               (env_sleep (sy_env (engine_reset (sleeps w 1 en))) 2)) (\<lambda>(r, dm').
       Inr (r = THD_SUCCESS, dm')))"

section \<open>Serving on the bus\<close>

text \<open>With GDBus: the object must be created; the name is then asked for without a check, and the rest
  happens when the bus is acquired. What the calls of GLib give is an argument.\<close>

definition thd_dbus_server_init :: "bool \<Rightarrow> int" where
  "thd_dbus_server_init object_ok = (if object_ok then THD_SUCCESS else THD_FATAL_ERROR)"

datatype bus_state = Not_registered | Registered | Aborted

definition thd_dbus_on_bus_acquired :: "bool \<Rightarrow> bool \<Rightarrow> u32 \<Rightarrow> bool \<Rightarrow> bus_state" where
  "thd_dbus_on_bus_acquired has_data introspection_ok registration_id proxy_ok =
     (if \<not> has_data \<or> \<not> introspection_ok then Not_registered
      else if registration_id = 0 \<or> \<not> proxy_ok then Aborted else Registered)"

text \<open>Losing the name ends the process.\<close>

definition thd_dbus_on_name_lost :: int where
  "thd_dbus_on_name_lost = 1"

text \<open>The interface has no properties: reading one gives nothing, setting one reports success.\<close>

definition thd_dbus_handle_get_property :: "string \<Rightarrow> bus_value option" where
  "thd_dbus_handle_get_property name = None"

definition thd_dbus_handle_set_property :: "string \<Rightarrow> bus_value \<Rightarrow> bool" where
  "thd_dbus_handle_set_property name v = True"

text \<open>With dbus-glib: the results of connecting, of the proxy, of the request for the name (its
  answer when it succeeds) and of creating the object.\<close>

definition DBUS_REQUEST_NAME_REPLY_PRIMARY_OWNER :: u32 where "DBUS_REQUEST_NAME_REPLY_PRIMARY_OWNER = 1"

definition thd_dbus_server_init_glib :: "bool \<Rightarrow> bool \<Rightarrow> u32 option \<Rightarrow> bool \<Rightarrow> int" where
  "thd_dbus_server_init_glib bus_ok proxy_ok request object_ok =
     (if \<not> bus_ok then THD_FATAL_ERROR
      else if \<not> proxy_ok then THD_FATAL_ERROR
      else if request \<noteq> Some DBUS_REQUEST_NAME_REPLY_PRIMARY_OWNER then THD_FATAL_ERROR
      else if \<not> object_ok then THD_FATAL_ERROR
      else THD_SUCCESS)"

end
