(* ===== verification/Thd_DbusCalls.thy ===== *)
theory Thd_DbusCalls
  imports Thd_Dbus Thd_DefaultProps
begin

text \<open>
  The dispatcher of D-Bus calls, \<^verbatim>\<open>thd_dbus_handle_method_call\<close>, and the interface that GDBus checks
  calls against (\<^verbatim>\<open>thd_dbus_interface.xml\<close>).
\<close>

section \<open>Answers\<close>

text \<open>Handlers that only look at the error, which no method ever sets; handlers that look at the
  result; handlers that return values.\<close>

definition ignoring :: "bool \<times> engine \<Rightarrow> daemon \<Rightarrow> bus_fault + reply \<times> daemon" where
  "ignoring r dm = Inr (Return_value [], dm\<lparr>dm_engine := snd r\<rparr>)"

definition checked :: "bool \<times> engine \<Rightarrow> daemon \<Rightarrow> bus_fault + reply \<times> daemon" where
  "checked r dm = Inr (if fst r then Return_value [] else Return_null_gerror, dm\<lparr>dm_engine := snd r\<rparr>)"

definition returned :: "('a \<Rightarrow> bus_value list) \<Rightarrow> 'a option \<Rightarrow> reply" where
  "returned f r = (case r of None \<Rightarrow> Return_null_gerror | Some x \<Rightarrow> Return_value (f x))"

definition reading_returned :: "('a \<Rightarrow> bus_value list) \<Rightarrow> 'a reads_engine \<Rightarrow> daemon \<Rightarrow> bus_fault + reply \<times> daemon" where
  "reading_returned f r dm =
     (case r of Inl x \<Rightarrow> Inl (Engine_fault x) | Inr (v, en) \<Rightarrow> Inr (returned f v, dm\<lparr>dm_engine := en\<rparr>))"

text \<open>Decoding the arguments: \<^verbatim>\<open>g_variant_get\<close> with the formats that the handlers use.\<close>

definition get_s :: "bus_value list \<Rightarrow> (string \<Rightarrow> bus_fault + 'r) \<Rightarrow> bus_fault + 'r" where
  "get_s args f = (case args of [VS a] \<Rightarrow> f a | _ \<Rightarrow> Inl Wrong_format)"

definition get_si :: "bus_value list \<Rightarrow> (string \<Rightarrow> int \<Rightarrow> bus_fault + 'r) \<Rightarrow> bus_fault + 'r" where
  "get_si args f = (case args of [VS a, VI b] \<Rightarrow> f a b | _ \<Rightarrow> Inl Wrong_format)"

definition get_ss :: "bus_value list \<Rightarrow> (string \<Rightarrow> string \<Rightarrow> bus_fault + 'r) \<Rightarrow> bus_fault + 'r" where
  "get_ss args f = (case args of [VS a, VS b] \<Rightarrow> f a b | _ \<Rightarrow> Inl Wrong_format)"

definition get_ssdd :: "bus_value list \<Rightarrow> (string \<Rightarrow> string \<Rightarrow> rat \<Rightarrow> rat \<Rightarrow> bus_fault + 'r) \<Rightarrow> bus_fault + 'r" where
  "get_ssdd args f = (case args of [VS a, VS b, VD c, VD d] \<Rightarrow> f a b c d | _ \<Rightarrow> Inl Wrong_format)"

definition get_ssiii :: "bus_value list \<Rightarrow> (string \<Rightarrow> string \<Rightarrow> int \<Rightarrow> int \<Rightarrow> int \<Rightarrow> bus_fault + 'r) \<Rightarrow> bus_fault + 'r" where
  "get_ssiii args f = (case args of [VS a, VS b, VI c, VI d, VI e] \<Rightarrow> f a b c d e | _ \<Rightarrow> Inl Wrong_format)"

definition get_su :: "bus_value list \<Rightarrow> (string \<Rightarrow> u32 \<Rightarrow> bus_fault + 'r) \<Rightarrow> bus_fault + 'r" where
  "get_su args f = (case args of [VS a, VU b] \<Rightarrow> f a b | _ \<Rightarrow> Inl Wrong_format)"

definition get_suss :: "bus_value list \<Rightarrow> (string \<Rightarrow> u32 \<Rightarrow> string \<Rightarrow> string \<Rightarrow> bus_fault + 'r) \<Rightarrow> bus_fault + 'r" where
  "get_suss args f = (case args of [VS a, VU b, VS c, VS d] \<Rightarrow> f a b c d | _ \<Rightarrow> Inl Wrong_format)"

definition get_u :: "bus_value list \<Rightarrow> (u32 \<Rightarrow> bus_fault + 'r) \<Rightarrow> bus_fault + 'r" where
  "get_u args f = (case args of [VU a] \<Rightarrow> f a | _ \<Rightarrow> Inl Wrong_format)"

definition get_uu :: "bus_value list \<Rightarrow> (u32 \<Rightarrow> u32 \<Rightarrow> bus_fault + 'r) \<Rightarrow> bus_fault + 'r" where
  "get_uu args f = (case args of [VU a, VU b] \<Rightarrow> f a b | _ \<Rightarrow> Inl Wrong_format)"

section \<open>The handlers\<close>

definition handle_AddCoolingDevice :: handler where
  "handle_AddCoolingDevice args dm =
     get_ssiii args (\<lambda>name path mn mx step.
        ignoring (thd_dbus_interface_add_cooling_device name path mn mx step (dm_engine dm)) dm)"

definition handle_AddSensor :: handler where
  "handle_AddSensor args dm =
     get_ss args (\<lambda>name path. ignoring (thd_dbus_interface_add_sensor name path (dm_engine dm)) dm)"

definition handle_AddTripPoint :: handler where
  "handle_AddTripPoint args dm =
     get_suss args (\<lambda>zone temp sensor cdev.
        ignoring (thd_dbus_interface_add_trip_point zone, dm_engine dm) dm)"

definition handle_AddVirtualSensor :: "world \<Rightarrow> handler" where
  "handle_AddVirtualSensor w args dm =
     get_ssdd args (\<lambda>name dep slope intercept.
        ignoring (thd_dbus_interface_add_virtual_sensor w name dep slope intercept (dm_engine dm)) dm)"

definition handle_AddZonePassive :: "world \<Rightarrow> handler" where
  "handle_AddZonePassive w args dm =
     get_suss args (\<lambda>zone temp sensor cdev.
        ignoring (thd_dbus_interface_add_zone_passive w zone temp sensor cdev (dm_engine dm)) dm)"

definition handle_DeleteTripPoint :: handler where
  "handle_DeleteTripPoint args dm =
     get_su args (\<lambda>zone temp. ignoring (thd_dbus_interface_delete_trip_point zone, dm_engine dm) dm)"

definition handle_DeleteZone :: handler where
  "handle_DeleteZone args dm =
     get_s args (\<lambda>zone. ignoring (thd_dbus_interface_delete_zone zone (dm_engine dm)) dm)"

definition handle_DisableCoolingDevice :: handler where
  "handle_DisableCoolingDevice args dm =
     get_s args (\<lambda>cdev. ignoring (thd_dbus_interface_disable_cooling_device cdev, dm_engine dm) dm)"

definition handle_GetCdevCount :: handler where
  "handle_GetCdevCount args dm = Inr (Return_value [VU (get_cdev_count (dm_engine dm))], dm)"

definition handle_GetCdevInformation :: handler where
  "handle_GetCdevInformation args dm =
     get_u args (\<lambda>i.
        reading_returned (\<lambda>(s, mn, mx, cur). [VS s, VI mn, VI mx, VI cur])
          (Inr (thd_dbus_interface_get_cdev_information i (dm_engine dm))) dm)"

definition handle_GetCurrentPreference :: handler where
  "handle_GetCurrentPreference args dm =
     Inr (Return_value [VS (thd_dbus_interface_get_current_preference (dm_engine dm))], dm)"

definition handle_GetSensorCount :: handler where
  "handle_GetSensorCount args dm = Inr (Return_value [VU (get_sensor_count (dm_engine dm))], dm)"

definition handle_GetSensorInformation :: "world \<Rightarrow> handler" where
  "handle_GetSensorInformation w args dm =
     get_u args (\<lambda>i.
        reading_returned (\<lambda>(s, p, t). [VS s, VS p, VI t]) (thd_dbus_interface_get_sensor_information w i (dm_engine dm)) dm)"

definition handle_GetSensorTemperature :: "world \<Rightarrow> handler" where
  "handle_GetSensorTemperature w args dm =
     get_u args (\<lambda>i.
        reading_returned (\<lambda>t. [VU t]) (thd_dbus_interface_get_sensor_temperature w i (dm_engine dm)) dm)"

definition handle_GetZoneCount :: handler where
  "handle_GetZoneCount args dm = Inr (Return_value [VU (get_zone_count (dm_engine dm))], dm)"

definition handle_GetZoneInformation :: handler where
  "handle_GetZoneInformation args dm =
     get_u args (\<lambda>i.
        Inr (returned (\<lambda>(s, sensors, trips, bound). [VS s, VI sensors, VI trips, VI bound])
               (thd_dbus_interface_get_zone_information i (dm_engine dm)), dm))"

definition handle_GetZoneSensorAtIndex :: handler where
  "handle_GetZoneSensorAtIndex args dm =
     get_uu args (\<lambda>zi si.
        Inr (returned (\<lambda>s. [VS s]) (thd_dbus_interface_get_zone_sensor_at_index zi si (dm_engine dm)), dm))"

definition handle_GetZoneStatus :: handler where
  "handle_GetZoneStatus args dm =
     get_s args (\<lambda>zone. Inr (returned (\<lambda>v. [VI v]) (thd_dbus_interface_get_zone_status zone (dm_engine dm)), dm))"

definition handle_GetZoneTripAtIndex :: handler where
  "handle_GetZoneTripAtIndex args dm =
     get_uu args (\<lambda>zi ti.
        Inr (returned (\<lambda>(temp, ty, sensor, n, ids). [VI temp, VI ty, VI sensor, VI n, VAI ids])
               (thd_dbus_interface_get_zone_trip_at_index zi ti (dm_engine dm)), dm))"

definition handle_Reinit :: "world \<Rightarrow> handler" where
  "handle_Reinit w args dm =
     (case thd_dbus_interface_reinit w dm of Inl x \<Rightarrow> Inl (Engine_fault x)
      | Inr (ok, dm') \<Rightarrow> Inr (Return_value [], dm'))"

definition handle_SetCurrentPreference :: "world \<Rightarrow> handler" where
  "handle_SetCurrentPreference w args dm =
     get_s args (\<lambda>pref. checked (thd_dbus_interface_set_current_preference w pref (dm_engine dm)) dm)"

text \<open>On success nothing is returned.\<close>

definition handle_SetUserMaxTemperature :: "world \<Rightarrow> handler" where
  "handle_SetUserMaxTemperature w args dm =
     get_su args (\<lambda>zone temp.
        (case thd_dbus_interface_set_user_max_temperature w zone temp (dm_engine dm) of (ok, en) \<Rightarrow>
           Inr (if ok then No_reply else Return_null_gerror, dm\<lparr>dm_engine := en\<rparr>)))"

definition handle_SetUserPassiveTemperature :: "world \<Rightarrow> handler" where
  "handle_SetUserPassiveTemperature w args dm =
     get_su args (\<lambda>zone temp.
        checked (thd_dbus_interface_set_user_passive_temperature w zone temp (dm_engine dm)) dm)"

definition handle_SetZoneStatus :: handler where
  "handle_SetZoneStatus args dm =
     get_si args (\<lambda>zone status. checked (thd_dbus_interface_set_zone_status zone status (dm_engine dm)) dm)"

text \<open>The reply is sent first; then the exit callback ends the process.\<close>

definition handle_Terminate :: "world \<Rightarrow> handler" where
  "handle_Terminate w args dm =
     (case thd_dbus_interface_terminate w dm of Inl x \<Rightarrow> Inl (Engine_fault x) | Inr dm' \<Rightarrow> Inr (Return_value [], dm'))"

definition handle_UpdateCoolingDevice :: handler where
  "handle_UpdateCoolingDevice args dm =
     get_ssiii args (\<lambda>name path mn mx step.
        checked (thd_dbus_interface_update_cooling_device name path mn mx step (dm_engine dm)) dm)"

section \<open>The dispatcher\<close>

definition handlers :: "world \<Rightarrow> (string \<times> handler) list" where
  "handlers w =
     [(''AddCoolingDevice'', handle_AddCoolingDevice),
      (''AddSensor'', handle_AddSensor),
      (''AddTripPoint'', handle_AddTripPoint),
      (''AddVirtualSensor'', handle_AddVirtualSensor w),
      (''AddZonePassive'', handle_AddZonePassive w),
      (''DeleteTripPoint'', handle_DeleteTripPoint),
      (''DeleteZone'', handle_DeleteZone),
      (''DisableCoolingDevice'', handle_DisableCoolingDevice),
      (''GetCdevCount'', handle_GetCdevCount),
      (''GetCdevInformation'', handle_GetCdevInformation),
      (''GetCurrentPreference'', handle_GetCurrentPreference),
      (''GetSensorCount'', handle_GetSensorCount),
      (''GetSensorInformation'', handle_GetSensorInformation w),
      (''GetSensorTemperature'', handle_GetSensorTemperature w),
      (''GetZoneCount'', handle_GetZoneCount),
      (''GetZoneInformation'', handle_GetZoneInformation),
      (''GetZoneSensorAtIndex'', handle_GetZoneSensorAtIndex),
      (''GetZoneStatus'', handle_GetZoneStatus),
      (''GetZoneTripAtIndex'', handle_GetZoneTripAtIndex),
      (''Reinit'', handle_Reinit w),
      (''SetCurrentPreference'', handle_SetCurrentPreference w),
      (''SetUserMaxTemperature'', handle_SetUserMaxTemperature w),
      (''SetUserPassiveTemperature'', handle_SetUserPassiveTemperature w),
      (''SetZoneStatus'', handle_SetZoneStatus),
      (''Terminate'', handle_Terminate w),
      (''UpdateCoolingDevice'', handle_UpdateCoolingDevice)]"

definition thd_dbus_handle_method_call :: "world \<Rightarrow> string \<Rightarrow> handler" where
  "thd_dbus_handle_method_call w name args dm =
     (case check_feature (feature_index DBUS_CONTROL) (dm_features dm) of Inl x \<Rightarrow> Inl (Engine_fault x)
      | Inr v \<Rightarrow>
          (if v = 0 then Inr (Return_gerror G_DBUS_ERROR_FAILED ''DBUS control support is disabled by config file'', dm)
           else case map_of (handlers w) name of
             None \<Rightarrow> Inr (Return_gerror G_DBUS_ERROR_UNKNOWN_METHOD (''no such method '' @ name), dm)
           | Some f \<Rightarrow> f args dm))"

section \<open>The interface\<close>

text \<open>The methods of \<^verbatim>\<open>thd_dbus_interface.xml\<close> with the types of what goes in and out. GDBus refuses a
  call of another method or with arguments of other types before the handler sees it.\<close>

definition thd_dbus_interface_xml :: "(string \<times> string list \<times> string list) list" where
  "thd_dbus_interface_xml =
     [(''SetCurrentPreference'', [''s''], []),
      (''SetUserMaxTemperature'', [''s'', ''u''], []),
      (''SetUserPassiveTemperature'', [''s'', ''u''], []),
      (''GetCurrentPreference'', [], [''s'']),
      (''AddSensor'', [''s'', ''s''], []),
      (''AddVirtualSensor'', [''s'', ''s'', ''d'', ''d''], []),
      (''GetSensorCount'', [], [''u'']),
      (''GetSensorInformation'', [''u''], [''s'', ''s'', ''i'']),
      (''GetSensorTemperature'', [''u''], [''u'']),
      (''GetZoneCount'', [], [''u'']),
      (''GetZoneInformation'', [''u''], [''s'', ''i'', ''i'', ''i'']),
      (''GetZoneSensorAtIndex'', [''u'', ''u''], [''s'']),
      (''GetZoneTripAtIndex'', [''u'', ''u''], [''i'', ''i'', ''i'', ''i'', ''ai'']),
      (''GetCdevCount'', [], [''u'']),
      (''GetCdevInformation'', [''u''], [''s'', ''i'', ''i'', ''i'']),
      (''AddZonePassive'', [''s'', ''u'', ''s'', ''s''], []),
      (''DeleteZone'', [''s''], []),
      (''SetZoneStatus'', [''s'', ''i''], []),
      (''GetZoneStatus'', [''s''], [''i'']),
      (''AddTripPoint'', [''s'', ''u'', ''s'', ''s''], []),
      (''DeleteTripPoint'', [''s'', ''u''], []),
      (''AddCoolingDevice'', [''s'', ''s'', ''i'', ''i'', ''i''], []),
      (''UpdateCoolingDevice'', [''s'', ''s'', ''i'', ''i'', ''i''], []),
      (''DisableCoolingDevice'', [''s''], []),
      (''Reinit'', [], []),
      (''Terminate'', [], [])]"

fun value_type :: "bus_value \<Rightarrow> string" where
  "value_type (VS _) = ''s''"
| "value_type (VI _) = ''i''"
| "value_type (VU _) = ''u''"
| "value_type (VD _) = ''d''"
| "value_type (VAI _) = ''ai''"

end
