(* ===== verification/Thd_StartProps.thy ===== *)
theory Thd_StartProps
  imports Thd_DefaultProps
begin

text \<open>
  The start of the default engine establishes the references: sensors and devices are read while
  there are no zones, and zones only refer to what there is.
\<close>

section \<open>Reading sensors and devices adds no zone\<close>

lemma add_inputs_zones: "add_inputs dir names st = Inl en \<Longrightarrow> en_zones en = en_zones (snd st)"
    "add_inputs dir names st = Inr st' \<Longrightarrow> en_zones (snd st') = en_zones (snd st)"
  by (induction dir names st rule: add_inputs.induct) (auto simp: add_sensor_def split: if_splits prod.splits)

lemma add_core_dirs_zones: "add_core_dirs m base names st = Inl en \<Longrightarrow> en_zones en = en_zones (snd st)"
    "add_core_dirs m base names st = Inr st' \<Longrightarrow> en_zones (snd st') = en_zones (snd st)"
  by (induction m base names st rule: add_core_dirs.induct)
    (auto split: if_splits sum.splits dest: add_inputs_zones)

lemma add_core_sensors_zones: "add_core_sensors m bases st = Inl en \<Longrightarrow> en_zones en = en_zones (snd st)"
    "add_core_sensors m bases st = Inr st' \<Longrightarrow> en_zones (snd st') = en_zones (snd st)"
proof (induction m bases st rule: add_core_sensors.induct)
  case (2 m base bases st)
  {
    case 1 then show ?case using 2
      by (auto split: if_splits sum.splits prod.splits dest: add_core_dirs_zones)
  next
    case 2 then show ?case using "2.IH"
      by (auto split: if_splits sum.splits prod.splits dest: add_core_dirs_zones)
  }
qed auto

lemma add_rapl_power_zones [simp]: "en_zones (snd (add_rapl_power st)) = en_zones (snd st)"
  by (simp add: add_rapl_power_def add_sensor_def split: prod.split)

lemma add_targets_zones: "add_targets ts v st = (v', st') \<Longrightarrow> en_zones (snd st') = en_zones (snd st)"
  by (induction ts v st rule: add_targets.induct) (auto simp: Let_def split: if_splits)

lemma add_conf_sensor_zones [simp]: "en_zones (snd (add_conf_sensor m c st)) = en_zones (snd st)"
proof -
  have "en_zones (snd (snd (new_virtual m c st))) = en_zones (snd st)"
    by (auto simp: new_virtual_def Let_def split: sensor_kind.split prod.split dest: add_targets_zones)
  then show ?thesis
    by (auto simp: add_conf_sensor_def replace_sensor_def add_sensor_def split: option.split prod.split)
qed

lemma fold_keeps_zones: "(\<And>x en. en_zones (f x en) = en_zones en) \<Longrightarrow> en_zones (fold f xs en) = en_zones en"
  by (induction xs arbitrary: en) auto

lemma fold_snd_zones:
  "(\<And>x st. en_zones (snd (f x st)) = en_zones (snd st)) \<Longrightarrow> en_zones (snd (fold f xs st)) = en_zones (snd (st :: int \<times> engine))"
  by (induction xs arbitrary: st) auto

lemma read_default_sensors_zones [simp]: "en_zones (thd_read_default_thermal_sensors h en) = en_zones en"
  by (simp add: thd_read_default_thermal_sensors_def Let_def fold_keeps_zones read_default_sensor_def set_env_def split: prod.split)

lemma force_async_zones [simp]: "en_zones (force_async name en) = en_zones en"
  by (simp add: force_async_def make_async_def split: option.split)

lemma read_thermal_sensors_zones: "en_zones (snd (read_thermal_sensors m en)) = en_zones en"
  by (auto simp: read_thermal_sensors_def Let_def fold_snd_zones split: sum.split dest: add_core_sensors_zones)

lemma push_cdev_zones [simp]: "en_zones (push_cdev c en) = en_zones en" "en_zones (add_updated rc en) = en_zones en"
    "en_zones (set_env e en) = en_zones en" "en_zones (put_cdev i c en) = en_zones en"
  by (simp_all add: push_cdev_def add_updated_def set_env_def put_cdev_def)

lemma add_replace_zones [simp]: "en_zones (snd (add_replace_cdev c en)) = en_zones en"
  by (simp add: add_replace_cdev_def split: option.split prod.split)

lemma release_msr_zones [simp]: "en_zones (release_msr m i en) = en_zones en"
  by (simp add: release_msr_def Let_def split: option.split prod.split)

lemma add_devices_zones [simp]:
  "en_zones (snd (add_rapl m en)) = en_zones en" "en_zones (add_rapl_mmio m msr en) = en_zones en"
  "en_zones (add_pstate en) = en_zones en" "en_zones (add_cpufreq m en) = en_zones en"
  "en_zones (add_rapl_dram m en) = en_zones en" "en_zones (add_backlight en) = en_zones en"
  by (simp_all add: add_rapl_def add_rapl_mmio_def add_pstate_def add_cpufreq_def add_rapl_dram_def add_backlight_def Let_def
      split: prod.split option.split driver.split)

lemma read_default_cdevs_zones [simp]: "en_zones (thd_read_default_cooling_devices h en) = en_zones en"
  by (simp add: thd_read_default_cooling_devices_def Let_def fold_keeps_zones read_default_cdev_def split: prod.split)

lemma read_cooling_devices_zones: "en_zones (snd (read_cooling_devices m en)) = en_zones en"
proof -
  obtain msr en1 where 1: "add_rapl m (thd_read_default_cooling_devices (machine_host m) en) = (msr, en1)" by fastforce
  have "en_zones en1 = en_zones en"
    using add_devices_zones(1) [of m "thd_read_default_cooling_devices (machine_host m) en"] 1 by simp
  then show ?thesis by (simp add: read_cooling_devices_def 1 Let_def fold_keeps_zones)
qed

section \<open>The start\<close>

lemma no_zones_ok [simp]: "en_zones en = [] \<Longrightarrow> engine_ok en"
  by (simp add: engine_ok_def)

lemma match_cdev_valid: "match_cdev name st = Some r \<Longrightarrow> r < length (sy_cdevs st)"
  unfolding match_cdev_def using find_index_Some by blast

lemma bind_pcie_refs: "zone_refs z en \<Longrightarrow> zone_refs (bind_pcie en z) en"
proof (cases "zn_trip_points z")
  case (Cons t ts)
  assume z: "zone_refs z en"
  show ?thesis
  proof (cases "match_cdev ''PCIe_Port_Link_Speed'' en")
    case (Some r)
    have "devs_valid [t] en" using z Cons by (simp add: zone_refs_def devs_valid_def)
    from add_cdev_valid [OF match_cdev_valid [OF Some] this] show ?thesis
      using z Some Cons by (simp add: bind_pcie_def zone_refs_def sensors_valid_def devs_valid_def)
  qed (use z in \<open>simp add: bind_pcie_def\<close>)
qed (simp add: bind_pcie_def split: option.split)

lemma power_floor_zone_ok:
  assumes "engine_ok en"
  shows "engine_ok (power_floor_zone si en)"
proof -
  define z0 where "z0 = cthd_zone_dynamic (en_current_zone_index en) ''power_floor'' 1 PASSIVE ''power_floor'' ''intel_powerclamp''"
  obtain r z e1 where u: "zone_update si z0 en = (r, z, e1)" by (metis prod_cases3)
  obtain z' e2 where a: "set_zone_active (bind_pcie e1 z) e1 = (z', e2)" by fastforce
  have "zone_refs z0 en" by (simp add: z0_def new_dynamic_refs)
  note ok = updated_ok [OF u assms this]
  have "engine_ok e2 \<and> zone_refs z' e2" if "r = THD_SUCCESS"
    using activated_ok [OF disjI1 [OF a]] ok bind_pcie_refs that by blast
  then show ?thesis using ok add_zone_ok by (simp add: power_floor_zone_def z0_def [symmetric] u a)
qed

lemma enable_power_floor_ok: "engine_ok en \<Longrightarrow> engine_ok (enable_power_floor_event si en)"
  by (simp add: enable_power_floor_event_def Let_def power_floor_zone_ok push_sensor_ok split: prod.split)

lemma thd_engine_init_ok:
  assumes "en_zones en = []"
  shows "engine_ok (snd (thd_engine_init ignore cpu xml pfloor si (read_thermal_sensors m) (read_cooling_devices m)
           (read_thermal_zones m) en))"
proof -
  obtain r1 e1 where 1: "read_thermal_sensors m en = (r1, e1)" by fastforce
  obtain r2 e2 where 2: "read_cooling_devices m e1 = (r2, e2)" by fastforce
  obtain r3 e3 where 3: "read_thermal_zones m e2 = (r3, e3)" by fastforce
  have "en_zones e1 = []" "en_zones e2 = []"
    using assms read_thermal_sensors_zones [of m en] read_cooling_devices_zones [of m e1] by (simp_all add: 1 2)
  moreover have "engine_ok e3" using read_thermal_zones_ok [of e2 m] \<open>en_zones e2 = []\<close> by (simp add: 3)
  ultimately show ?thesis
    using assms by (simp add: thd_engine_init_def 1 2 3 enable_power_floor_ok)
qed

lemma poll_interval_ok [simp]: "engine_ok (en\<lparr>sy_poll_interval_sec := p\<rparr>) = engine_ok en"
  by (simp add: engine_ok_def zone_refs_def sensors_valid_def devs_valid_def)

lemma thd_engine_start_ok:
  assumes "engine_ok en"
  shows "engine_ok (snd (thd_engine_start pipe_ret fcntl_ok thread_ret d xml h en))"
proof -
  have "engine_ok (start_polling d xml en)"
    using assms by (simp add: start_polling_def Let_def split: option.split prod.split)
  then show ?thesis
    using assms by (simp add: thd_engine_start_def start_preference_def Let_def)
qed

lemma create_default_engine_ok:
  assumes "en_zones en = []"
  shows "engine_ok (snd (thd_engine_create_default_engine ignore exclusive pfloor poll out d m en))"
proof -
  define en0 where "en0 = (if exclusive then en\<lparr>en_control_mode := EXCLUSIVE\<rparr> else en)\<lparr>sy_poll_interval_sec := poll\<rparr>"
  obtain r e1 where i: "thd_engine_init ignore (check_cpu_id (create_platform (ma_uname m)) (ma_cpuid m) (sy_env en0))
      (ma_conf m \<noteq> None) pfloor (machine_site m) (read_thermal_sensors m) (read_cooling_devices m) (read_thermal_zones m) en0 = (r, e1)"
    by fastforce
  have "en_zones en0 = []" using assms by (simp add: en0_def)
  from thd_engine_init_ok [OF this, of ignore "check_cpu_id (create_platform (ma_uname m)) (ma_cpuid m) (sy_env en0)"
      "ma_conf m \<noteq> None" pfloor "machine_site m" m]
  have "engine_ok e1" unfolding i by simp
  then show ?thesis
    using thd_engine_start_ok
    by (simp only: thd_engine_create_default_engine_def Let_def en0_def [symmetric] i prod.case) (simp split: prod.split)
qed

end
