(* ===== verification/Thd_DbusProps.thy ===== *)
theory Thd_DbusProps
  imports Thd_DbusCalls Thd_StartProps
begin

text \<open>
  What D-Bus calls promise: the handlers agree with the published interface, every call is a
  sequence of steps of the engine, and how failures are reported.
\<close>

section \<open>Types\<close>

lemma value_type_eq [simp]:
  "value_type v = ''s'' \<longleftrightarrow> (\<exists>x. v = VS x)" "value_type v = ''i'' \<longleftrightarrow> (\<exists>x. v = VI x)"
  "value_type v = ''u'' \<longleftrightarrow> (\<exists>x. v = VU x)" "value_type v = ''d'' \<longleftrightarrow> (\<exists>x. v = VD x)"
  "value_type v = ''ai'' \<longleftrightarrow> (\<exists>x. v = VAI x)"
  by (cases v; simp)+

text \<open>A handler reads arguments of the types \<open>ins\<close> and returns, if anything, values of the types \<open>outs\<close>.\<close>

definition typed :: "string list \<Rightarrow> string list \<Rightarrow> handler \<Rightarrow> bool" where
  "typed ins outs f \<longleftrightarrow> (\<forall>args dm. map value_type args = ins \<longrightarrow>
     f args dm \<noteq> Inl Wrong_format \<and> (\<forall>vs dm'. f args dm = Inr (Return_value vs, dm') \<longrightarrow> map value_type vs = outs))"

lemma typedI:
  assumes "\<And>args dm. map value_type args = ins \<Longrightarrow> f args dm \<noteq> Inl Wrong_format"
    and "\<And>args dm vs dm'. map value_type args = ins \<Longrightarrow> f args dm = Inr (Return_value vs, dm') \<Longrightarrow> map value_type vs = outs"
  shows "typed ins outs f"
  using assms by (auto simp: typed_def)

lemma answer_simps [simp]:
  "ignoring r dm \<noteq> Inl x" "checked r dm \<noteq> Inl x"
  "ignoring r dm = Inr (Return_value vs, dm') \<longleftrightarrow> vs = [] \<and> dm' = dm\<lparr>dm_engine := snd r\<rparr>"
  "checked r dm = Inr (Return_value vs, dm') \<longleftrightarrow> fst r \<and> vs = [] \<and> dm' = dm\<lparr>dm_engine := snd r\<rparr>"
  "returned f v = Return_value vs \<longleftrightarrow> (\<exists>x. v = Some x \<and> vs = f x)"
  "Return_value vs = returned f v \<longleftrightarrow> (\<exists>x. v = Some x \<and> vs = f x)"
  "reading_returned f q dm \<noteq> Inl Wrong_format"
  "reading_returned f q dm = Inr (y, dm') \<longleftrightarrow> (\<exists>v en. q = Inr (v, en) \<and> y = returned f v \<and> dm' = dm\<lparr>dm_engine := en\<rparr>)"
  by (auto simp: ignoring_def checked_def returned_def reading_returned_def split: option.splits sum.splits)

lemmas handler_defs = handle_AddCoolingDevice_def handle_AddSensor_def handle_AddTripPoint_def
  handle_AddVirtualSensor_def handle_AddZonePassive_def handle_DeleteTripPoint_def handle_DeleteZone_def
  handle_DisableCoolingDevice_def handle_GetCdevCount_def handle_GetCdevInformation_def
  handle_GetCurrentPreference_def handle_GetSensorCount_def handle_GetSensorInformation_def
  handle_GetSensorTemperature_def handle_GetZoneCount_def handle_GetZoneInformation_def
  handle_GetZoneSensorAtIndex_def handle_GetZoneStatus_def handle_GetZoneTripAtIndex_def
  handle_SetCurrentPreference_def handle_SetUserMaxTemperature_def handle_SetUserPassiveTemperature_def
  handle_SetZoneStatus_def handle_UpdateCoolingDevice_def

lemmas get_defs = get_s_def get_u_def get_si_def get_ss_def get_su_def get_uu_def get_ssdd_def get_suss_def get_ssiii_def

lemma cons_types: "map value_type args = t # ts \<longleftrightarrow> (\<exists>v vs. args = v # vs \<and> value_type v = t \<and> map value_type vs = ts)"
  by (rule map_eq_Cons_conv)

lemma handlers_typed:
  "typed [''s'', ''s'', ''i'', ''i'', ''i''] [] handle_AddCoolingDevice"
  "typed [''s'', ''s''] [] handle_AddSensor"
  "typed [''s'', ''u'', ''s'', ''s''] [] handle_AddTripPoint"
  "typed [''s'', ''s'', ''d'', ''d''] [] (handle_AddVirtualSensor w)"
  "typed [''s'', ''u'', ''s'', ''s''] [] (handle_AddZonePassive w)"
  "typed [''s'', ''u''] [] handle_DeleteTripPoint"
  "typed [''s''] [] handle_DeleteZone"
  "typed [''s''] [] handle_DisableCoolingDevice"
  "typed [] [''u''] handle_GetCdevCount"
  "typed [''u''] [''s'', ''i'', ''i'', ''i''] handle_GetCdevInformation"
  "typed [] [''s''] handle_GetCurrentPreference"
  "typed [] [''u''] handle_GetSensorCount"
  "typed [''u''] [''s'', ''s'', ''i''] (handle_GetSensorInformation w)"
  "typed [''u''] [''u''] (handle_GetSensorTemperature w)"
  "typed [] [''u''] handle_GetZoneCount"
  "typed [''u''] [''s'', ''i'', ''i'', ''i''] handle_GetZoneInformation"
  "typed [''u'', ''u''] [''s''] handle_GetZoneSensorAtIndex"
  "typed [''s''] [''i''] handle_GetZoneStatus"
  "typed [''u'', ''u''] [''i'', ''i'', ''i'', ''i'', ''ai''] handle_GetZoneTripAtIndex"
  "typed [] [] (handle_Reinit w)"
  "typed [''s''] [] (handle_SetCurrentPreference w)"
  "typed [''s'', ''u''] [] (handle_SetUserMaxTemperature w)"
  "typed [''s'', ''u''] [] (handle_SetUserPassiveTemperature w)"
  "typed [''s'', ''i''] [] handle_SetZoneStatus"
  "typed [] [] (handle_Terminate w)"
  "typed [''s'', ''s'', ''i'', ''i'', ''i''] [] handle_UpdateCoolingDevice"
  by (rule typedI; auto simp: cons_types handler_defs get_defs handle_Reinit_def handle_Terminate_def
      split: sum.splits prod.splits if_splits)+

lemma interface_handlers:
  assumes "(name, ins, outs) \<in> set thd_dbus_interface_xml"
  shows "\<exists>f. map_of (handlers w) name = Some f \<and> typed ins outs f"
  using assms unfolding thd_dbus_interface_xml_def
  by (simp, elim disjE) (simp_all add: handlers_def handlers_typed)

lemma handler_in_interface:
  assumes "map_of (handlers w) name = Some f"
  shows "\<exists>ins outs. (name, ins, outs) \<in> set thd_dbus_interface_xml"
proof -
  have "name \<in> fst ` set (handlers w)" using assms by (metis map_of_SomeD fst_conv image_eqI)
  then show ?thesis unfolding handlers_def thd_dbus_interface_xml_def by (simp, elim disjE) simp_all
qed

section \<open>Replies and states\<close>

text \<open>\<open>P\<close> holds for what a handler replies and the state it leaves, if it returns.\<close>

definition gives :: "(reply \<Rightarrow> daemon \<Rightarrow> bool) \<Rightarrow> bus_fault + reply \<times> daemon \<Rightarrow> bool" where
  "gives P r \<longleftrightarrow> (\<forall>y dm'. r = Inr (y, dm') \<longrightarrow> P y dm')"

lemma gives_simps [simp]:
  "gives P (Inl x)" "gives P (Inr (y, dm')) \<longleftrightarrow> P y dm'"
  "gives P (ignoring r dm) \<longleftrightarrow> P (Return_value []) (dm\<lparr>dm_engine := snd r\<rparr>)"
  "gives P (checked r dm) \<longleftrightarrow> P (if fst r then Return_value [] else Return_null_gerror) (dm\<lparr>dm_engine := snd r\<rparr>)"
  "gives P (reading_returned f (Inr (v, en)) dm) \<longleftrightarrow> P (returned f v) (dm\<lparr>dm_engine := en\<rparr>)"
  by (simp_all add: gives_def ignoring_def checked_def reading_returned_def)

lemma gives_reading: "(\<And>v en. q = Inr (v, en) \<Longrightarrow> P (returned f v) (dm\<lparr>dm_engine := en\<rparr>)) \<Longrightarrow> gives P (reading_returned f q dm)"
  by (auto simp: gives_def)

lemma returned_no_gerror [simp]: "returned f v \<noteq> Return_gerror c m"
  by (simp add: returned_def split: option.split)

lemma returned_reply [simp]: "returned f v \<noteq> No_reply"
  by (simp add: returned_def split: option.split)

lemma gives_get [intro!]:
  "(\<And>a. gives P (f1 a)) \<Longrightarrow> gives P (get_s args f1)" "(\<And>a. gives P (f2 a)) \<Longrightarrow> gives P (get_u args f2)"
  "(\<And>a b. gives P (f3 a b)) \<Longrightarrow> gives P (get_si args f3)" "(\<And>a b. gives P (f4 a b)) \<Longrightarrow> gives P (get_ss args f4)"
  "(\<And>a b. gives P (f5 a b)) \<Longrightarrow> gives P (get_su args f5)" "(\<And>a b. gives P (f6 a b)) \<Longrightarrow> gives P (get_uu args f6)"
  "(\<And>a b c d. gives P (f7 a b c d)) \<Longrightarrow> gives P (get_ssdd args f7)"
  "(\<And>a b c d. gives P (f8 a b c d)) \<Longrightarrow> gives P (get_suss args f8)"
  "(\<And>a b c d e. gives P (f9 a b c d e)) \<Longrightarrow> gives P (get_ssiii args f9)"
  by (simp_all add: get_defs split: list.split bus_value.split)

lemma gives_max [simp]:
  "gives P (case r of (ok, en) \<Rightarrow> Inr (if ok then x else y, f en)) \<longleftrightarrow> P (if fst r then x else y) (f (snd r))"
  by (cases r) simp

lemma handlers_no_gerror: "(name, f) \<in> set (handlers w) \<Longrightarrow> gives (\<lambda>y _. \<forall>c m. y \<noteq> Return_gerror c m) (f args dm)"
  unfolding handlers_def
  by (simp, elim disjE conjE)
    (auto simp: handler_defs handle_Reinit_def handle_Terminate_def intro!: gives_reading split: sum.split prod.split)

text \<open>What a call does: a fault of the feature list, a refusal, or the handler of a known method.\<close>

lemma method_call_cases:
  obtains (Fault) x where "thd_dbus_handle_method_call w name args dm = Inl (Engine_fault x)"
  | (Off) m where "thd_dbus_handle_method_call w name args dm = Inr (Return_gerror G_DBUS_ERROR_FAILED m, dm)"
  | (Unknown) m where "map_of (handlers w) name = None"
      "thd_dbus_handle_method_call w name args dm = Inr (Return_gerror G_DBUS_ERROR_UNKNOWN_METHOD m, dm)"
  | (Handled) f where "map_of (handlers w) name = Some f" "thd_dbus_handle_method_call w name args dm = f args dm"
proof (cases "check_feature (feature_index DBUS_CONTROL) (dm_features dm)")
  case (Inl x) then show thesis by (intro Fault) (simp add: thd_dbus_handle_method_call_def)
next
  case (Inr v)
  show thesis
  proof (cases "v = 0")
    case True then show thesis using Inr by (intro Off) (simp add: thd_dbus_handle_method_call_def)
  next
    case False
    show thesis
    proof (cases "map_of (handlers w) name")
      case None then show thesis using Inr False by (intro Unknown) (simp_all add: thd_dbus_handle_method_call_def)
    next
      case (Some f) then show thesis using Inr False by (intro Handled) (simp_all add: thd_dbus_handle_method_call_def)
    qed
  qed
qed

text \<open>
  C33. The handlers agree with the published interface: a call of a method of
  \<^verbatim>\<open>thd_dbus_interface.xml\<close> with arguments of the declared types is never unknown to the dispatcher and
  never decoded with a wrong format, and any values it returns have the declared types.
\<close>

theorem dbus_interface_typed:
  assumes "(name, ins, outs) \<in> set thd_dbus_interface_xml" "map value_type args = ins"
    and "thd_dbus_handle_method_call w name args dm = r"
  shows "r \<noteq> Inl Wrong_format \<and> (\<forall>vs dm'. r = Inr (Return_value vs, dm') \<longrightarrow> map value_type vs = outs)
    \<and> (\<forall>m dm'. r \<noteq> Inr (Return_gerror G_DBUS_ERROR_UNKNOWN_METHOD m, dm'))"
proof (cases w name args dm rule: method_call_cases)
  case (Handled f)
  have "typed ins outs f" using interface_handlers [OF assms(1), of w] Handled(1) by auto
  moreover have "f args dm \<noteq> Inr (Return_gerror c m, dm')" for c m dm'
    using handlers_no_gerror [OF map_of_SomeD [OF Handled(1)], of args dm] by (simp only: gives_def) blast
  moreover have "r = f args dm" using assms(3) Handled(2) by simp
  ultimately show ?thesis using assms(2) by (simp add: typed_def)
qed (use interface_handlers [OF assms(1), of w] assms(3) in auto)


section \<open>Calls are steps of the engine\<close>

lemma one_step: "engine_step h vm en en' \<Longrightarrow> engine_reach h vm en en'"
  using engine_reach.Step [OF engine_reach.Start] by blast

text \<open>What a call other than \<^verbatim>\<open>Reinit\<close> and \<^verbatim>\<open>Terminate\<close> does to the daemon.\<close>

definition steps_only :: "world \<Rightarrow> engine_class \<Rightarrow> daemon \<Rightarrow> daemon \<Rightarrow> bool" where
  "steps_only w vm dm dm' \<longleftrightarrow> engine_reach (machine_host (wo_machine w)) vm (dm_engine dm) (dm_engine dm')
     \<and> dm' = dm\<lparr>dm_engine := dm_engine dm'\<rparr>"

lemma steps_only_refl [simp]: "steps_only w vm dm dm"
  by (simp add: steps_only_def engine_reach.Start)

lemma steps_only_engine [simp]:
  "steps_only w vm dm (dm\<lparr>dm_engine := en\<rparr>) \<longleftrightarrow> engine_reach (machine_host (wo_machine w)) vm (dm_engine dm) en"
  by (simp add: steps_only_def)

lemma site_of_host: "site.truncate (host.truncate m) = site.truncate (m :: machine)"
  by (simp add: site.truncate_def host.truncate_def)

lemma snd_succeeded [simp]: "snd (succeeded r) = snd r"
  by (simp add: succeeded_def)

lemma announced_steps: "engine_step h vm en (snd r) \<Longrightarrow> engine_reach h vm en (snd (announced r))"
  using engine_step.Message_sent engine_reach.Step one_step by (fastforce simp: announced_def)

lemma set_preference_steps: "engine_reach h vm en (snd (thd_dbus_interface_set_current_preference w pref en))"
  using engine_reach.Step [OF one_step [OF engine_step.Environment] engine_step.Message_sent]
  by (auto simp: thd_dbus_interface_set_current_preference_def split: prod.split)

lemma method_steps:
  "engine_reach h vm en (snd (thd_dbus_interface_add_sensor name path en))"
  "engine_reach h vm en (snd (thd_dbus_interface_add_virtual_sensor w name dep slope intercept en))"
  "engine_reach (machine_host (wo_machine w)) vm en (snd (thd_dbus_interface_add_zone_passive w name temp sensor cdev en))"
  "engine_reach h vm en (snd (thd_dbus_interface_set_zone_status name status en))"
  "engine_reach h vm en (snd (thd_dbus_interface_delete_zone name en))"
  "engine_reach h vm en (snd (thd_dbus_interface_set_user_max_temperature w name temp en))"
  "engine_reach h vm en (snd (thd_dbus_interface_set_user_passive_temperature w name temp en))"
  unfolding thd_dbus_interface_add_sensor_def thd_dbus_interface_add_virtual_sensor_def
    thd_dbus_interface_add_zone_passive_def thd_dbus_interface_set_zone_status_def thd_dbus_interface_delete_zone_def
    thd_dbus_interface_set_user_max_temperature_def thd_dbus_interface_set_user_passive_temperature_def
    snd_succeeded site_of_host [symmetric]
  by (intro one_step announced_steps engine_step.intros)+

lemma add_cdev_steps:
  "engine_reach h vm en (snd (thd_dbus_interface_add_cooling_device name path mn mx step en))"
  "engine_reach h vm en (snd (thd_dbus_interface_update_cooling_device name path mn mx step en))"
  by (auto simp: thd_dbus_interface_add_cooling_device_def thd_dbus_interface_update_cooling_device_def
      intro: one_step engine_step.Add_cdev engine_reach.Start)

lemma reading_steps:
  "thd_dbus_interface_get_sensor_information w i en = Inr (v, en') \<Longrightarrow> engine_reach h vm en en'"
  "thd_dbus_interface_get_sensor_temperature w i en = Inr (v', en') \<Longrightarrow> engine_reach h vm en en'"
  by (auto simp: thd_dbus_interface_get_sensor_information_def thd_dbus_interface_get_sensor_temperature_def
      get_sensor_temperature_def intro: one_step engine_step.Read_sensor engine_reach.Start split: option.splits if_splits)

lemma cdev_information_steps:
  assumes "thd_dbus_interface_get_cdev_information i en = (v, en')"
  shows "engine_reach h vm en en'"
proof (cases "user_get_cdev i en")
  case (Some c)
  then have "c = cdev_at en (unat i)" by (simp add: user_get_cdev_def cdev_at_def split: if_splits)
  then have "en' = put_cdev (unat i) (snd (get_curr_state (sy_env en) (snd (get_max_state (sy_env en) (cdev_at en (unat i)))))) en"
    using assms Some by (auto simp: thd_dbus_interface_get_cdev_information_def split: prod.splits)
  then show ?thesis using one_step [OF engine_step.Read_cdev] by simp
qed (use assms in \<open>simp add: thd_dbus_interface_get_cdev_information_def engine_reach.Start\<close>)

lemma handlers_step:
  assumes "(name, f) \<in> set (handlers w)" "name \<notin> {''Reinit'', ''Terminate''}"
  shows "gives (\<lambda>_. steps_only w vm dm) (f args dm)"
  using assms unfolding handlers_def
  by (simp, elim disjE conjE)
    (auto simp: handler_defs method_steps add_cdev_steps set_preference_steps engine_reach.Start
      intro!: gives_reading dest: reading_steps cdev_information_steps)

end
