(* ===== verification/Thd_DaemonProps.thy ===== *)
theory Thd_DaemonProps
  imports Thd_DbusProps
begin

text \<open>
  The daemon over its life: it is created, serves D-Bus calls and is created anew by \<^verbatim>\<open>Reinit\<close>,
  while its engine thread runs. The references of the engine stay valid throughout.
\<close>

section \<open>Creating and ending an engine\<close>

lemma create_daemon_ok:
  assumes "create_daemon w ignore_cpuid exclusive conf e = Inr (r, dm)"
  shows "engine_ok (dm_engine dm)"
proof -
  obtain pm f ti where 1: "new_engine w e = Inr (cthd_engine (e\<lparr>e_meter := pm\<rparr>) (wo_ignore_critical w) (wo_reg w))"
      "thd_parse_features (wo_text w) (wo_conf_disk w) cthd_features_parse = Inr f"
      "engine_configuration w conf (e\<lparr>e_meter := pm\<rparr>) f = Inr ti"
    using assms by (auto simp: create_daemon_def new_engine_def bind_r_Inr cthd_engine_def split: option.splits)
  have "dm_engine dm = snd (thd_engine_create_default_engine ignore_cpuid exclusive (wo_power_floor w) (wo_poll_interval w)
      (wo_out w) (wo_disk w) ((wo_machine w)\<lparr>ma_conf := ti\<rparr>) (cthd_engine (e\<lparr>e_meter := pm\<rparr>) (wo_ignore_critical w) (wo_reg w)))"
    using assms 1 by (auto simp: create_daemon_def cthd_engine_def split: prod.splits)
  then show ?thesis by (simp add: create_default_engine_ok cthd_engine_def)
qed

text \<open>While a handler sleeps, the engine thread takes steps of the engine.\<close>

definition thread_steps :: "world \<Rightarrow> bool" where
  "thread_steps w \<longleftrightarrow>
     (\<forall>en. \<exists>m t i. engine_reach (machine_host (wo_machine w)) (default_engine m t i) en (wo_thread w en))"

lemma sleeps_ok: "thread_steps w \<Longrightarrow> engine_ok en \<Longrightarrow> engine_ok (sleeps w s en)"
  unfolding sleeps_def thread_steps_def using default.engine_reach_ok set_env_ok by blast

lemma terminate_ok:
  assumes "thd_engine_terminate w en = Inr en'" "thread_steps w" "engine_ok en"
  shows "engine_ok en'"
proof -
  have "engine_ok (sleeps w 1 (send_message TERMINATE 0 en))" using sleeps_ok assms(2,3) by simp
  then show ?thesis
    using assms(1) by (auto simp: thd_engine_terminate_def giveup_thermal_control_def split: option.splits if_splits)
qed

lemma handled_ok:
  assumes "(name, f) \<in> set (handlers w)" "f args dm = Inr (r, dm')" "thread_steps w" "engine_ok (dm_engine dm)"
  shows "engine_ok (dm_engine dm')"
proof -
  consider "name = ''Reinit''" | "name = ''Terminate''" | "name \<notin> {''Reinit'', ''Terminate''}" by blast
  then show ?thesis
  proof cases
    case 1
    then have "f = handle_Reinit w" using assms(1) by (simp add: handlers_def)
    then show ?thesis
      using assms(2) create_daemon_ok
      by (auto simp: handle_Reinit_def thd_dbus_interface_reinit_def bind_r_Inr split: sum.splits)
  next
    case 2
    then have "f = handle_Terminate w" using assms(1) by (simp add: handlers_def)
    then show ?thesis
      using assms(2-4) terminate_ok
      by (auto simp: handle_Terminate_def thd_dbus_interface_terminate_def bind_r_Inr split: sum.splits)
  next
    case 3
    have "steps_only w (default_engine demo_machine 0 0) dm dm'"
      using handlers_step [OF assms(1) 3] assms(2) by (auto simp: gives_def)
    then show ?thesis using default.engine_reach_ok assms(4) by (auto simp: steps_only_def)
  qed
qed

lemma method_call_ok:
  assumes "thd_dbus_handle_method_call w name args dm = Inr (r, dm')" "thread_steps w" "engine_ok (dm_engine dm)"
  shows "engine_ok (dm_engine dm')"
  using assms by (cases w name args dm rule: method_call_cases) (auto dest: map_of_SomeD intro: handled_ok)

section \<open>The life of the daemon\<close>

inductive daemon_step :: "daemon \<Rightarrow> daemon \<Rightarrow> bool" where
  Call: "thd_dbus_handle_method_call w name args dm = Inr (r, dm') \<Longrightarrow> thread_steps w \<Longrightarrow> daemon_step dm dm'"
| Engine: "engine_step h (default_engine m t i) (dm_engine dm) en \<Longrightarrow> daemon_step dm (dm\<lparr>dm_engine := en\<rparr>)"

inductive daemon_reach :: "daemon \<Rightarrow> daemon \<Rightarrow> bool" where
  Created: "daemon_reach dm dm"
| Served: "daemon_reach dm dm' \<Longrightarrow> daemon_step dm' dm'' \<Longrightarrow> daemon_reach dm dm''"

inductive_cases daemon_stepE: "daemon_step dm dm'"

lemma daemon_step_ok: "daemon_step dm dm' \<Longrightarrow> engine_ok (dm_engine dm) \<Longrightarrow> engine_ok (dm_engine dm')"
  by (erule daemon_stepE) (auto intro: method_call_ok default.engine_step_ok)

lemma daemon_reach_ok: "daemon_reach dm dm' \<Longrightarrow> engine_ok (dm_engine dm) \<Longrightarrow> engine_ok (dm_engine dm')"
  by (induction rule: daemon_reach.induct) (auto intro: daemon_step_ok)

text \<open>
  C14. From its creation on, through any sequence of D-Bus calls (\<^verbatim>\<open>Reinit\<close> included), rounds of the
  engine thread, timers, messages and changes of the environment, the zones of the daemon refer to
  distinct sensors it has, and their trips to devices it has.
\<close>

theorem daemon_references_valid:
  assumes "create_daemon w ignore_cpuid exclusive conf e = Inr (r, dm)" and "daemon_reach dm dm'"
  shows "\<forall>z\<in>set (en_zones (dm_engine dm')). distinct (zn_sensors z)
    \<and> (\<forall>k\<in>set (zn_sensors z). k < length (sy_sensors (dm_engine dm')))
    \<and> (\<forall>p\<in>set (zn_trip_points z). \<forall>c\<in>bound_cdevs p. c < length (sy_cdevs (dm_engine dm')))"
  using daemon_reach_ok [OF assms(2) create_daemon_ok [OF assms(1)]]
  by (fastforce simp: engine_ok_def zone_refs_def sensors_valid_def devs_valid_def)

section \<open>Failures and their reports\<close>

definition unchecked_methods :: "string list" where
  "unchecked_methods = [''AddCoolingDevice'', ''AddSensor'', ''AddTripPoint'', ''AddVirtualSensor'', ''AddZonePassive'',
     ''DeleteTripPoint'', ''DeleteZone'', ''DisableCoolingDevice'', ''Reinit'']"

lemma unchecked_succeed:
  "(name, f) \<in> set (handlers w) \<Longrightarrow> name \<in> set unchecked_methods \<Longrightarrow> gives (\<lambda>y _. y = Return_value []) (f args dm)"
  unfolding handlers_def unchecked_methods_def
  by (simp, elim disjE conjE) (auto simp: handler_defs handle_Reinit_def split: sum.split)


section \<open>A device that was added\<close>

lemma sys_not_in_etc:
  assumes "starts_with path ''/sys''"
  shows "\<not> in_etc path"
proof -
  obtain rest where "path = ''/sys'' @ rest" using assms unfolding starts_with_def by (metis append_take_drop_id)
  then show ?thesis by (simp add: in_etc_def numeral_eq_Suc)
qed

text \<open>
  C34. A cooling device added over D-Bus, with a new name and a readable attribute below \<^verbatim>\<open>/sys\<close>, is
  reported under the next index with the first 100 characters of its name, the range that was
  given and the value of its attribute, and counted.
\<close>

theorem added_cdev_reported:
  assumes on: "check_feature (feature_index DBUS_CONTROL) (dm_features dm) = Inr v" "v \<noteq> 0"
    and new: "search_cdev name (dm_engine dm) = None" "nul_free name" "length (sy_cdevs (dm_engine dm)) < 2 ^ 32 - 1"
    and path: "starts_with path ''/sys''" "sysfs_exists (sy_env (dm_engine dm)) path"
      "sysfs_read_int (sy_env (dm_engine dm)) path 0 = (ret, cur)" "0 \<le> ret"
  shows "\<exists>dm1 dm2. thd_dbus_handle_method_call w ''AddCoolingDevice'' [VS name, VS path, VI mn, VI mx, VI step] dm
        = Inr (Return_value [], dm1)
      \<and> thd_dbus_handle_method_call w ''GetCdevInformation'' [VU (get_cdev_count (dm_engine dm))] dm1
        = Inr (Return_value [VS (take 100 name), VI mn, VI mx, VI cur], dm2)
      \<and> get_cdev_count (dm_engine dm2) = get_cdev_count (dm_engine dm) + 1"
proof -
  define en where "en = dm_engine dm"
  define c where "c = set_range mn mx step ((cthd_cdev (en_current_cdev_index en) path Drv_gen_sysfs)
     \<lparr>cd_type_str := name, cd_curr_state := cur, cd_max_state := cur, cd_min_state := cur\<rparr>)"
  define en1 where "en1 = en\<lparr>sy_cdevs := sy_cdevs en @ [c], en_current_cdev_index := en_current_cdev_index en + 1\<rparr>"
  have "\<not> in_etc path" by (rule sys_not_in_etc [OF path(1)])
  moreover have "user_add_cdev name path mn mx step en = (THD_SUCCESS, en1)"
    using new(1) path by (simp add: user_add_cdev_def en_def gen_sysfs_update_def cthd_cdev_def cd_attr_def en1_def c_def)
  ultimately have 1: "thd_dbus_handle_method_call w ''AddCoolingDevice'' [VS name, VS path, VI mn, VI mx, VI step] dm
      = Inr (Return_value [], dm\<lparr>dm_engine := en1\<rparr>)"
    using on by (simp add: thd_dbus_handle_method_call_def handlers_def handle_AddCoolingDevice_def get_ssiii_def ignoring_def
        thd_dbus_interface_add_cooling_device_def succeeded_def en_def)
  have n: "unat (get_cdev_count en) = length (sy_cdevs en)"
    using new(3) by (simp add: get_cdev_count_def en_def unsigned_of_nat take_bit_nat_eq_self)
  define dm2 where "dm2 = dm\<lparr>dm_engine := put_cdev (length (sy_cdevs en)) c en1\<rparr>"
  have "takeWhile (\<lambda>c. c \<noteq> CHR 0x00) name = name" using new(2) by (auto simp: nul_free_def)
  then have "copied 100 name = take 100 name" by (simp only: copied_def)
  then have "thd_dbus_interface_get_cdev_information (get_cdev_count en) en1
      = (Some (take 100 name, mn, mx, cur), put_cdev (length (sy_cdevs en)) c en1)"
    by (simp add: thd_dbus_interface_get_cdev_information_def user_get_cdev_def n en1_def c_def set_range_def set_inc_dec_value_def
        cthd_cdev_def get_max_state_def get_curr_state_def MAX_DBUS_REPLY_STR_LEN_def)
  then have "thd_dbus_handle_method_call w ''GetCdevInformation'' [VU (get_cdev_count (dm_engine dm))] (dm\<lparr>dm_engine := en1\<rparr>)
      = Inr (Return_value [VS (take 100 name), VI mn, VI mx, VI cur], dm2)"
    using on by (simp add: thd_dbus_handle_method_call_def handlers_def handle_GetCdevInformation_def get_u_def
        reading_returned_def returned_def dm2_def en_def)
  moreover have "get_cdev_count (dm_engine dm2) = get_cdev_count (dm_engine dm) + 1"
    by (simp add: dm2_def get_cdev_count_def put_cdev_def en1_def en_def)
  ultimately show ?thesis using 1 by blast
qed

section \<open>Witnesses\<close>

text \<open>A machine with nothing to manage and the XML configuration switched off.\<close>

definition quiet_disk :: conf_disk where
  "quiet_disk =
     \<lparr>cf_open = (\<lambda>_. True), cf_stat = (\<lambda>_. Some (0, 0x81A4)), cf_lstat = (\<lambda>_. Some 0x81A4),
      cf_xml = (\<lambda>_. Some (features_document '' '' [(XML_THERMAL_CONFIG, 0)]))\<rparr>"

definition quiet_world :: world where
  "quiet_world =
     \<lparr>wo_fuel = 4096, wo_disk = (\<lambda>_ s. Some (int (length s))), wo_run_ok = True, wo_machine = demo_machine,
      wo_power_floor = False, wo_ignore_critical = False, wo_poll_interval = 4, wo_out = (0, True, 0),
      wo_conf_disk = quiet_disk, wo_text = inline_text, wo_pid = default_pid, wo_generate = (\<lambda>_ d. (THD_ERROR, d)),
      wo_reg = None, wo_thread = (\<lambda>en. en)\<rparr>"

lemma quiet_thread: "thread_steps quiet_world"
  by (simp add: thread_steps_def quiet_world_def engine_reach.Start)

lemma quiet_features:
  "\<exists>f. thd_parse_features inline_text quiet_disk cthd_features_parse = Inr f \<and> check_feature 0 f = Inr 1 \<and> check_feature 1 f = Inr 0"
proof -
  have "(0x81A4 :: u32) AND S_IWGRP_OTH = 0" "\<not> S_ISLNK 0x81A4"
    unfolding S_IWGRP_OTH_def S_ISLNK_def by code_simp+
  then have "file_trusted quiet_disk features_name"
      "read_root quiet_disk features_name = Some (features_document '' '' [(XML_THERMAL_CONFIG, 0)])"
    by (simp_all add: quiet_disk_def file_trusted_def read_root_def features_document_def section_of_def)
  from features_read [OF inline_text_reads this, of cthd_features_parse]
  obtain f where f: "thd_parse_features inline_text quiet_disk cthd_features_parse = Inr f"
    "\<And>k. check_feature (feature_index k) f = Inr (case map_of (rev [(XML_THERMAL_CONFIG, 0)]) k of None \<Rightarrow> 1 | Some v \<Rightarrow> v)"
    by (auto simp: in_s32_def)
  then show ?thesis using f(2) [of DBUS_CONTROL] f(2) [of XML_THERMAL_CONFIG] by (auto simp: feature_index_def)
qed

lemma quiet_created:
  "\<exists>r dm. create_daemon quiet_world True False [] (demo_meter Map.empty) = Inr (r, dm)
     \<and> check_feature (feature_index DBUS_CONTROL) (dm_features dm) = Inr 1"
proof -
  obtain f where f: "thd_parse_features inline_text quiet_disk cthd_features_parse = Inr f" "check_feature 0 f = Inr 1"
      "check_feature 1 f = Inr 0" using quiet_features by blast
  have "\<not> sysfs_exists (demo_meter Map.empty) p" for p by (simp add: demo_meter_def sysfs_exists_def)
  then show ?thesis
    using f by (auto simp: create_daemon_def new_engine_def cthd_rapl_power_meter_def engine_configuration_def
        engine_conf_def engine_parser_init_def quiet_world_def feature_index_def thd_codes split: prod.split)
qed

theorem daemon_references_valid_witness:
  "\<exists>r dm dm'. create_daemon quiet_world True False [] (demo_meter Map.empty) = Inr (r, dm) \<and> daemon_reach dm dm'
     \<and> (\<forall>z\<in>set (en_zones (dm_engine dm')). distinct (zn_sensors z))"
proof -
  obtain r dm where 1: "create_daemon quiet_world True False [] (demo_meter Map.empty) = Inr (r, dm)"
      "check_feature (feature_index DBUS_CONTROL) (dm_features dm) = Inr 1" using quiet_created by blast
  define dm' where "dm' = dm\<lparr>dm_engine := snd (thd_dbus_interface_add_sensor ''s'' ''/sys/x'' (dm_engine dm))\<rparr>"
  have "thd_dbus_handle_method_call quiet_world ''AddSensor'' [VS ''s'', VS ''/sys/x''] dm = Inr (Return_value [], dm')"
    using 1(2) by (simp add: thd_dbus_handle_method_call_def handlers_def handle_AddSensor_def get_ss_def ignoring_def dm'_def)
  then have "daemon_reach dm dm'"
    by (rule Served [OF Created Call [OF _ quiet_thread]])
  with daemon_references_valid [OF 1(1) this] 1(1) show ?thesis by blast
qed

definition bare_daemon :: daemon where
  "bare_daemon = \<lparr>dm_engine = cthd_engine (demo_meter [''/sys/f'' \<mapsto> Text ''3'']) False None,
     dm_features = \<lparr>ft_root = [], ft_list = [1, 1, 1, 1]\<rparr>, dm_config_file = [], dm_exit_called = False\<rparr>"

lemma bare_control: "check_feature (feature_index DBUS_CONTROL) (dm_features bare_daemon) = Inr 1"
  by (simp add: bare_daemon_def check_feature_def feature_index_def MAX_FEATURE_def)

theorem dbus_interface_typed_witness:
  "\<exists>vs dm'. thd_dbus_handle_method_call quiet_world ''GetCdevCount'' [] bare_daemon = Inr (Return_value vs, dm')
     \<and> map value_type vs = [''u'']"
proof -
  have "(''GetCdevCount'', [], [''u'']) \<in> set thd_dbus_interface_xml" by (simp add: thd_dbus_interface_xml_def)
  from dbus_interface_typed [OF this, of "[]"] show ?thesis
    using bare_control by (simp add: thd_dbus_handle_method_call_def handlers_def handle_GetCdevCount_def)
qed


theorem added_cdev_reported_witness:
  "\<exists>dm1 dm2. thd_dbus_handle_method_call quiet_world ''AddCoolingDevice'' [VS ''f'', VS ''/sys/f'', VI 0, VI 9, VI 1] bare_daemon
       = Inr (Return_value [], dm1)
     \<and> thd_dbus_handle_method_call quiet_world ''GetCdevInformation'' [VU 0] dm1
       = Inr (Return_value [VS ''f'', VI 0, VI 9, VI 3], dm2)"
proof -
  have e: "sy_env (dm_engine bare_daemon) = demo_meter [''/sys/f'' \<mapsto> Text ''3'']" "sy_cdevs (dm_engine bare_daemon) = []"
    by (simp_all add: bare_daemon_def cthd_engine_def)
  have read: "sysfs_exists (demo_meter [''/sys/f'' \<mapsto> Text ''3'']) ''/sys/f''"
      "sysfs_read_int (demo_meter [''/sys/f'' \<mapsto> Text ''3'']) ''/sys/f'' 0 = (1, 3)"
    by code_simp+
  have "search_cdev ''f'' (dm_engine bare_daemon) = None" "starts_with ''/sys/f'' ''/sys''" "nul_free ''f''"
    by (simp_all add: search_cdev_def e starts_with_def nul_free_def)
  from added_cdev_reported [OF bare_control _ this(1,3) _ this(2), of 1 3 quiet_world 0 9 1]
  show ?thesis by (auto simp: e read get_cdev_count_def)
qed

end
