(* ===== verification/Thd_Main.thy ===== *)
theory Thd_Main
  imports Thd_Dbus Thd_Adaptive Thd_Relations
begin

text \<open>
  The main program, \<^verbatim>\<open>main.cpp\<close>: from the command line to the running daemon. The parsed options (GLib
  parses them) and what the system calls give are arguments; the locale and the texts printed are
  not represented.
\<close>

section \<open>Log messages\<close>

datatype log_level = G_LOG_LEVEL_ERROR | G_LOG_LEVEL_CRITICAL | G_LOG_LEVEL_WARNING | G_LOG_LEVEL_MESSAGE
  | G_LOG_LEVEL_INFO | G_LOG_LEVEL_DEBUG

definition log_prefix :: "log_level \<Rightarrow> string" where
  "log_prefix l =
     (case l of G_LOG_LEVEL_ERROR \<Rightarrow> ''[CRIT]'' | G_LOG_LEVEL_CRITICAL \<Rightarrow> ''[ERR]'' | G_LOG_LEVEL_WARNING \<Rightarrow> ''[WARN]''
      | G_LOG_LEVEL_MESSAGE \<Rightarrow> ''[MSG]'' | G_LOG_LEVEL_DEBUG \<Rightarrow> ''[DEBUG]'' | G_LOG_LEVEL_INFO \<Rightarrow> ''[INFO]'')"

definition syslog_priority :: "log_level \<Rightarrow> nat" where
  "syslog_priority l =
     (case l of G_LOG_LEVEL_ERROR \<Rightarrow> 2 | G_LOG_LEVEL_CRITICAL \<Rightarrow> 3 | G_LOG_LEVEL_WARNING \<Rightarrow> 4
      | G_LOG_LEVEL_MESSAGE \<Rightarrow> 5 | G_LOG_LEVEL_DEBUG \<Rightarrow> 7 | G_LOG_LEVEL_INFO \<Rightarrow> 6)"

datatype logged = To_syslog nat string | Printed string

definition thd_logger :: "log_level set \<Rightarrow> bool \<Rightarrow> int \<Rightarrow> log_level \<Rightarrow> string \<Rightarrow> logged option" where
  "thd_logger shown use_syslog seconds l msg =
     (if l \<notin> shown then None
      else Some (if use_syslog then To_syslog (syslog_priority l) msg
                 else Printed (''['' @ show_int seconds @ '']'' @ log_prefix l @ msg)))"

section \<open>Options and settings\<close>

record options =
  op_version :: bool
  op_no_daemon :: bool
  op_systemd :: bool
  op_info :: bool
  op_debug :: bool
  op_adaptive :: bool
  op_poll_interval :: int
  op_dbus_enable :: bool
  op_exclusive_control :: bool
  op_ignore_cpuid :: bool
  op_config_file :: "string option"
  op_ignore_default_control :: bool
  op_workaround_enabled :: bool
  op_disable_active_power :: bool
  op_ignore_critical :: bool
  op_power_floor :: bool

definition thd_log_level :: "options \<Rightarrow> log_level set" where
  "thd_log_level o' =
     {G_LOG_LEVEL_ERROR, G_LOG_LEVEL_CRITICAL, G_LOG_LEVEL_WARNING, G_LOG_LEVEL_MESSAGE}
     \<union> (if op_info o' then {G_LOG_LEVEL_INFO} else {}) \<union> (if op_debug o' then {G_LOG_LEVEL_INFO, G_LOG_LEVEL_DEBUG} else {})"

definition thd_daemonize :: "options \<Rightarrow> bool" where
  "thd_daemonize o' \<longleftrightarrow> \<not> op_no_daemon o' \<and> \<not> op_systemd o'"

definition use_syslog :: "options \<Rightarrow> bool" where
  "use_syslog o' \<longleftrightarrow> \<not> op_no_daemon o' \<or> op_systemd o'"

definition thd_poll_interval :: "options \<Rightarrow> int" where
  "thd_poll_interval o' = (if 0 \<le> op_poll_interval o' then op_poll_interval o' else 4)"

text \<open>The global variables that the engines read.\<close>

definition with_options :: "options \<Rightarrow> world \<Rightarrow> world" where
  "with_options o' w =
     w\<lparr>wo_poll_interval := thd_poll_interval o', wo_power_floor := op_power_floor o', wo_ignore_critical := op_ignore_critical o',
       wo_machine := (wo_machine w)\<lparr>ma_ignore_default_control := op_ignore_default_control o',
         ma_disable_active_power := op_disable_active_power o', ma_workaround_enabled := op_workaround_enabled o'\<rparr>\<rparr>"

text \<open>Two things that the engine finds out about the host when it starts: whether the kernel is built for
  real time, from \<^verbatim>\<open>uname\<close> and a flag, and whether the debug mode is on. \<open>scan_d\<close> is \<^verbatim>\<open>fscanf\<close> with \<^verbatim>\<open>%d\<close>.\<close>

definition strcasestr :: "string \<Rightarrow> string \<Rightarrow> bool" where
  "strcasestr s p \<longleftrightarrow> has_substring (map tolower p) (map tolower s)"

definition scan_d :: "string \<Rightarrow> int option" where
  "scan_d t =
     (let s = dropWhile is_space t;
          d = (case s of [] \<Rightarrow> [] | c # cs \<Rightarrow> if c = CHR ''-'' \<or> c = CHR ''+'' then cs else s)
      in case d of [] \<Rightarrow> None | c # _ \<Rightarrow> if is_digit c then Some (s32 (parse_sign s)) else None)"

definition check_for_rt_kernel :: "string \<Rightarrow> 'a env_scheme \<Rightarrow> bool" where
  "check_for_rt_kernel version e \<longleftrightarrow>
     strcasestr version ''PREEMPT RT''
     \<and> (case e_files e ''/sys/kernel/realtime'' of Some (Text t) \<Rightarrow> scan_d t = Some 1 | _ \<Rightarrow> False)"

definition debug_mode_on :: "'a env_scheme \<Rightarrow> bool" where
  "debug_mode_on e \<longleftrightarrow> e_files e (TDRUNDIR @ ''/debug_mode'') \<noteq> None"

definition with_host :: "string \<Rightarrow> menv \<Rightarrow> world \<Rightarrow> world" where
  "with_host version e w =
     w\<lparr>wo_machine := (wo_machine w)\<lparr>si_rt_kernel := check_for_rt_kernel version e, ma_debug_mode := debug_mode_on e\<rparr>\<rparr>"

section \<open>The lock file\<close>

text \<open>The state of the handle: never opened; the lock is held; open without the lock; closed.\<close>

datatype lock = No_handle | Lock_held | Lock_lost | Handle_closed

record system_calls =
  os_module_supported :: bool
  os_uid :: int
  os_rundir_ok :: bool
  os_lock_open :: bool
  os_lock_free :: bool
  os_main_loop_ok :: bool
  os_daemon_ok :: bool
  os_version :: string

definition check_thermald_running :: "system_calls \<Rightarrow> bool \<times> lock" where
  "check_thermald_running os =
     (if \<not> os_lock_open os then (False, No_handle)
      else if \<not> os_lock_free os then (True, Handle_closed) else (False, Lock_held))"

text \<open>Whether the lock file is removed.\<close>

definition clean_up_lockfile :: "lock \<Rightarrow> bool" where
  "clean_up_lockfile lk \<longleftrightarrow> lk \<noteq> No_handle"

text \<open>\<^verbatim>\<open>daemon\<close> forks and lets the parent exit: record locks belong to the parent.\<close>

definition after_fork :: "lock \<Rightarrow> lock" where
  "after_fork lk = (if lk = Lock_held then Lock_lost else lk)"

section \<open>The program\<close>

definition EXIT_SUCCESS :: int where "EXIT_SUCCESS = 0"
definition EXIT_FAILURE :: int where "EXIT_FAILURE = 1"
definition EXIT_UNSUPPORTED :: int where "EXIT_UNSUPPORTED = 2"

text \<open>Up to the creation of the engine: \<open>Inl\<close> an exit, with its code and whether the lock file was
  removed.\<close>

definition main_prepare :: "system_calls \<Rightarrow> options option \<Rightarrow> int \<times> bool + options \<times> lock" where
  "main_prepare os parsed =
     (if \<not> os_module_supported os then Inl (EXIT_FAILURE, False)
      else case parsed of None \<Rightarrow> Inl (EXIT_FAILURE, False)
      | Some o' \<Rightarrow>
          (if op_version o' then Inl (EXIT_SUCCESS, False)
           else if os_uid os \<noteq> 0 then Inl (EXIT_FAILURE, False)
           else if \<not> os_rundir_ok os then Inl (EXIT_FAILURE, False)
           else case check_thermald_running os of (running, lk) \<Rightarrow>
             if running then Inl (EXIT_FAILURE, False)
             else if \<not> os_main_loop_ok os then Inl (THD_FATAL_ERROR, clean_up_lockfile lk)
             else if \<not> thd_daemonize o' then Inr (o', lk)
             else if \<not> os_daemon_ok os then Inl (THD_FATAL_ERROR, clean_up_lockfile lk)
             else Inr (o', after_fork lk)))"

text \<open>The engine in charge.\<close>

datatype started = Started_default daemon | Started_adaptive adaptive features

definition create_adaptive :: "world \<Rightarrow> reports \<Rightarrow> vault_host \<Rightarrow> bool \<Rightarrow> bool \<Rightarrow> menv \<Rightarrow> stop + int \<times> adaptive \<times> features" where
  "create_adaptive w ro v ignore_cpuid test_mode e =
     (case new_engine w e of Inl x \<Rightarrow> Inl (Fault x)
      | Inr en \<Rightarrow>
          (case (if check_acpi_platform_profile (sy_env en) \<noteq> THD_SUCCESS then Inr cthd_features_parse
                 else thd_parse_features (wo_text w) (wo_conf_disk w) cthd_features_parse) of Inl x \<Rightarrow> Inl (Fault x)
           | Inr f \<Rightarrow>
               (case thd_engine_create_adaptive_engine ignore_cpuid test_mode (wo_power_floor w) (wo_poll_interval w) ro (wo_fuel w)
                       (wo_out w) (wo_disk w) v (wo_machine w) en of
                  Inl (s, a) \<Rightarrow> Inl s | Inr (r, a) \<Rightarrow> Inr (r, a, f))))"

definition conf_name :: "options \<Rightarrow> string" where
  "conf_name o' = (case op_config_file o' of None \<Rightarrow> [] | Some s \<Rightarrow> s)"

definition start_default :: "options \<Rightarrow> world \<Rightarrow> menv \<Rightarrow> stop + int \<times> started" where
  "start_default o' w e =
     (case create_daemon w (op_ignore_cpuid o') (op_exclusive_control o') (conf_name o') e of
        Inl x \<Rightarrow> Inl (Fault x) | Inr (r, dm) \<Rightarrow> Inr (r, Started_default dm))"

text \<open>Without the tables of the adaptive mode the default engine takes its place, in the environment
  that the attempt left.\<close>

definition start_engine :: "options \<Rightarrow> bool \<Rightarrow> world \<Rightarrow> reports \<Rightarrow> vault_host \<Rightarrow> menv \<Rightarrow> stop + int \<times> started" where
  "start_engine o' test_mode w ro v e =
     (if op_adaptive o'
      then (case create_adaptive w ro v (op_ignore_cpuid o') test_mode e of Inl s \<Rightarrow> Inl s
            | Inr (r, a, f) \<Rightarrow>
                (if r = THD_SUCCESS then Inr (r, Started_adaptive a f)
                 else start_default o' w (sy_env (engine_reset (ad_engine a)))))
      else start_default o' w e)"

datatype outcome = Exits int bool | Stopped stop | Serves started lock

definition thermald_main ::
    "system_calls \<Rightarrow> options option \<Rightarrow> world \<Rightarrow> reports \<Rightarrow> vault_host \<Rightarrow> menv \<Rightarrow> outcome" where
  "thermald_main os parsed w ro v e =
     (case main_prepare os parsed of Inl (code, removed) \<Rightarrow> Exits code removed
      | Inr (o', lk) \<Rightarrow>
          (case start_engine o' False (with_host (os_version os) e (with_options o' w)) ro v e of Inl s \<Rightarrow> Stopped s
           | Inr (r, st) \<Rightarrow>
               (if r = THD_SUCCESS then Serves st lk
                else Exits (if r = THD_ERROR then EXIT_UNSUPPORTED else EXIT_FAILURE) (clean_up_lockfile lk))))"

text \<open>The handler of \<^verbatim>\<open>SIGINT\<close> and \<^verbatim>\<open>SIGTERM\<close>, installed unless the process became a daemon, and the exit callback of
  the D-Bus method \<^verbatim>\<open>Terminate\<close>: the engine it leaves and whether the lock file is removed.\<close>

definition sig_int_handler :: "world \<Rightarrow> lock \<Rightarrow> engine \<Rightarrow> fault + engine \<times> int \<times> bool" where
  "sig_int_handler w lk en =
     bind_r (thd_engine_terminate w en) (\<lambda>en'. Inr (engine_reset (sleeps w 1 en'), EXIT_SUCCESS, clean_up_lockfile lk))"

text \<open>The end of \<^verbatim>\<open>main\<close>, when the main loop was left: the exit code and whether the lock file is removed.\<close>

definition after_main_loop :: "lock \<Rightarrow> int \<times> bool" where
  "after_main_loop lk = (EXIT_SUCCESS, clean_up_lockfile lk)"

section \<open>One instance\<close>


definition root_calls :: system_calls where
  "root_calls = \<lparr>os_module_supported = True, os_uid = 0, os_rundir_ok = True, os_lock_open = True, os_lock_free = True,
     os_main_loop_ok = True, os_daemon_ok = True, os_version = []\<rparr>"

definition no_options :: options where
  "no_options = \<lparr>op_version = False, op_no_daemon = False, op_systemd = False, op_info = False, op_debug = False,
     op_adaptive = False, op_poll_interval = -1, op_dbus_enable = False, op_exclusive_control = False, op_ignore_cpuid = False,
     op_config_file = None, op_ignore_default_control = False, op_workaround_enabled = False, op_disable_active_power = False,
     op_ignore_critical = False, op_power_floor = False\<rparr>"


end
