(* ===== verification/Thd_Android.thy ===== *)
theory Thd_Android
  imports Thd_Main
begin

text \<open>
  The main program on Android, \<^verbatim>\<open>android_main.cpp\<close>. What \<^verbatim>\<open>getopt_long\<close> finds on the command line and the
  results of the system calls are arguments; the texts printed are not represented.
\<close>

section \<open>The command line\<close>

record settings =
  as_no_daemon :: bool
  as_exclusive_control :: bool
  as_test_mode :: bool
  as_conf_file :: "string option"
  as_ignore_cpuid_check :: bool
  as_adaptive :: bool
  as_poll_interval :: int
  as_ignore_default_control :: bool

definition default_settings :: settings where
  "default_settings = \<lparr>as_no_daemon = False, as_exclusive_control = False, as_test_mode = False, as_conf_file = None,
     as_ignore_cpuid_check = False, as_adaptive = False, as_poll_interval = 4, as_ignore_default_control = False\<rparr>"

text \<open>An option with its argument. Help and version exit; what is not known is ignored.\<close>

definition read_option :: "char \<Rightarrow> string \<Rightarrow> settings \<Rightarrow> int + settings" where
  "read_option c optarg s =
     (if c = CHR ''h'' then Inl 0
      else if c = CHR ''v'' then Inl EXIT_SUCCESS
      else if c = CHR ''n'' then Inr (s\<lparr>as_no_daemon := True\<rparr>)
      else if c = CHR ''p'' then Inr (s\<lparr>as_poll_interval := atoi optarg\<rparr>)
      else if c = CHR ''e'' then Inr (s\<lparr>as_exclusive_control := True\<rparr>)
      else if c = CHR ''t'' then Inr (s\<lparr>as_test_mode := True\<rparr>)
      else if c = CHR ''c'' then Inr (s\<lparr>as_conf_file := Some optarg\<rparr>)
      else if c = CHR ''i'' then Inr (s\<lparr>as_ignore_cpuid_check := True\<rparr>)
      else if c = CHR ''d'' then Inr (s\<lparr>as_ignore_default_control := True\<rparr>)
      else if c = CHR ''a'' then Inr (s\<lparr>as_adaptive := True\<rparr>)
      else Inr s)"

fun read_options :: "(char \<times> string) list \<Rightarrow> settings \<Rightarrow> int + settings" where
  "read_options [] s = Inr s"
| "read_options ((c, a) # os) s = (case read_option c a s of Inl code \<Rightarrow> Inl code | Inr s' \<Rightarrow> read_options os s')"

section \<open>The process\<close>

definition AID_SYSTEM :: int where "AID_SYSTEM = 1000"
definition EEXIST :: int where "EEXIST = 17"

text \<open>The results of the system calls: \<open>an_mkdir\<close> is the error number of a failing \<^verbatim>\<open>mkdir\<close>, \<open>an_fork\<close> and \<open>an_sid\<close>
  what \<^verbatim>\<open>fork\<close> and \<^verbatim>\<open>setsid\<close> return, \<open>an_create\<close> what \<^verbatim>\<open>csys_fs::create\<close> returns for the lock file.\<close>

record android_calls =
  an_uid :: int
  an_ppid :: int
  an_mkdir :: "int option"
  an_fork :: int
  an_sid :: int
  an_create :: int
  an_lock_open :: bool
  an_lock_free :: bool
  an_version :: string

text \<open>A child of \<^verbatim>\<open>init\<close> is a daemon already; it takes no lock. The lock is taken by the child that goes on.\<close>

definition daemonize :: "android_calls \<Rightarrow> int + lock" where
  "daemonize an =
     (if an_ppid an = 1 then Inr No_handle
      else if an_fork an < 0 then Inl EXIT_FAILURE
      else if 0 < an_fork an then Inl EXIT_SUCCESS
      else if an_sid an < 0 then Inl EXIT_FAILURE
      else if an_create an = -1 then Inl EXIT_FAILURE
      else if \<not> an_lock_open an then Inl EXIT_FAILURE
      else if \<not> an_lock_free an then Inl EXIT_FAILURE
      else Inr Lock_held)"

definition android_prepare :: "android_calls \<Rightarrow> (char \<times> string) list \<Rightarrow> int + settings \<times> lock" where
  "android_prepare an os =
     (case read_options os default_settings of Inl code \<Rightarrow> Inl code
      | Inr s \<Rightarrow>
          (if \<not> (an_uid an = 0 \<or> an_uid an = AID_SYSTEM) \<and> \<not> as_test_mode s then Inl 1
           else if an_mkdir an \<noteq> None \<and> an_mkdir an \<noteq> Some EEXIST then Inl EXIT_FAILURE
           else if as_no_daemon s then Inr (s, No_handle)
           else case daemonize an of Inl code \<Rightarrow> Inl code | Inr lk \<Rightarrow> Inr (s, lk)))"

text \<open>The settings as the options of the other main program. The adaptive engine is tried without the
  check of the processor, and so is the default engine that takes its place.\<close>

definition engine_options :: "settings \<Rightarrow> options" where
  "engine_options s =
     \<lparr>op_version = False, op_no_daemon = as_no_daemon s, op_systemd = False, op_info = False, op_debug = False,
      op_adaptive = as_adaptive s, op_poll_interval = as_poll_interval s, op_dbus_enable = False,
      op_exclusive_control = as_exclusive_control s, op_ignore_cpuid = as_adaptive s \<or> as_ignore_cpuid_check s,
      op_config_file = as_conf_file s, op_ignore_default_control = as_ignore_default_control s,
      op_workaround_enabled = False, op_disable_active_power = False, op_ignore_critical = False, op_power_floor = False\<rparr>"

text \<open>The global variables; a negative poll interval is used as it is.\<close>

definition with_settings :: "settings \<Rightarrow> world \<Rightarrow> world" where
  "with_settings s w = (with_options (engine_options s) w)\<lparr>wo_poll_interval := as_poll_interval s\<rparr>"

definition android_main ::
    "android_calls \<Rightarrow> (char \<times> string) list \<Rightarrow> world \<Rightarrow> reports \<Rightarrow> vault_host \<Rightarrow> menv \<Rightarrow> outcome" where
  "android_main an os w ro v e =
     (case android_prepare an os of Inl code \<Rightarrow> Exits code False
      | Inr (s, lk) \<Rightarrow>
          (case start_engine (engine_options s) (as_test_mode s) (with_host (an_version an) e (with_settings s w)) ro v e of
             Inl x \<Rightarrow> Stopped x
           | Inr (r, st) \<Rightarrow>
               (if r = THD_SUCCESS then Serves st lk
                else Exits (if r = THD_ERROR then EXIT_UNSUPPORTED else EXIT_FAILURE) False)))"

text \<open>Shutting down closes the lock file and leaves it there. A signal other than \<^verbatim>\<open>SIGINT\<close> and
  \<^verbatim>\<open>SIGTERM\<close> is only logged.\<close>

definition daemonShutdown :: "world \<Rightarrow> lock \<Rightarrow> engine \<Rightarrow> fault + engine \<times> lock" where
  "daemonShutdown w lk en =
     bind_r (thd_engine_terminate w en)
       (\<lambda>en'. Inr (engine_reset (sleeps w 1 en'), if lk = No_handle then No_handle else Handle_closed))"

datatype signal = SIGHUP | SIGINT | SIGTERM | Other_signal

definition signal_handler :: "world \<Rightarrow> signal \<Rightarrow> lock \<Rightarrow> engine \<Rightarrow> fault + engine \<times> lock \<times> int option" where
  "signal_handler w sig lk en =
     (if sig = SIGINT \<or> sig = SIGTERM
      then bind_r (daemonShutdown w lk en) (\<lambda>(en', lk'). Inr (en', lk', Some EXIT_SUCCESS))
      else Inr (en, lk, None))"

section \<open>Conditions\<close>

text \<open>The conditions on the lid, the kind of machine and the power supply (\<^verbatim>\<open>thd_gddv.cpp\<close>) as they are built
  for Android: the lid is open, the machine is a tablet, and the supply is an attribute.\<close>

definition android_evaluate_lid_condition :: "condition \<Rightarrow> int" where
  "android_evaluate_lid_condition c = compare_condition c 1"

definition android_evaluate_platform_type_condition :: "condition \<Rightarrow> int" where
  "android_evaluate_platform_type_condition c = compare_condition c 2"

definition ac_online :: string where "ac_online = ''/sys/class/power_supply/AC/online''"

definition android_evaluate_ac_condition :: "'a env_scheme \<Rightarrow> condition \<Rightarrow> int" where
  "android_evaluate_ac_condition e c =
     (if sysfs_exists e ac_online
      then (case sysfs_read_int e ac_online 0 of (ret, status) \<Rightarrow>
              if ret < 0 then ret else compare_condition c (if status \<noteq> 1 then 1 else 0))
      else compare_condition c 1)"

text \<open>With a readable attribute the conditions mean what they mean elsewhere, on a machine that reports
  an open lid, tablet mode and the supply of the attribute.\<close>

theorem android_conditions_agree:
  assumes "sysfs_read_int e ac_online 0 = (n, status)" "0 \<le> n" "sysfs_exists e ac_online"
    and "gd_lid_dev g" "gd_tablet_dev g"
    and "\<not> ro_lid_closed ro" "ro_tablet_mode ro" "ro_on_battery ro \<longleftrightarrow> status \<noteq> 1"
  shows "android_evaluate_lid_condition c = evaluate_lid_condition ro g c"
    and "android_evaluate_platform_type_condition c = evaluate_platform_type_condition ro g c"
    and "android_evaluate_ac_condition e c = evaluate_ac_condition ro c"
  using assms
  by (simp_all add: android_evaluate_lid_condition_def evaluate_lid_condition_def android_evaluate_platform_type_condition_def
      evaluate_platform_type_condition_def android_evaluate_ac_condition_def evaluate_ac_condition_def)

section \<open>One instance\<close>

text \<open>
  Unlike the daemon of \<^verbatim>\<open>main.cpp\<close>, this one takes its lock after the fork: a process that goes on to
  create its engine in the background holds the lock unless it is a child of \<^verbatim>\<open>init\<close>, and then no
  other start of this kind goes on. In the foreground and under \<^verbatim>\<open>init\<close> there is no lock at all.
\<close>

theorem android_instance_lock:
  assumes "android_prepare an os = Inr (s, lk)"
  shows "(an_uid an = 0 \<or> an_uid an = AID_SYSTEM \<or> as_test_mode s)
    \<and> (lk = Lock_held \<longleftrightarrow> \<not> as_no_daemon s \<and> an_ppid an \<noteq> 1)
    \<and> (lk = Lock_held \<longrightarrow> (\<exists>code. android_prepare (an\<lparr>an_lock_free := False\<rparr>) os = Inl code))"
  using assms
  by (auto simp: android_prepare_def daemonize_def split: if_splits sum.splits)

text \<open>Options are read from left to right: the later argument of two counts, and nothing behind a
  request for help or the version has an effect.\<close>

lemma read_options_append:
  "read_options (xs @ ys) s = (case read_options xs s of Inl code \<Rightarrow> Inl code | Inr s' \<Rightarrow> read_options ys s')"
  by (induction xs s rule: read_options.induct) (auto split: sum.split)

lemma read_options_exit:
  assumes "\<forall>x\<in>set os. fst x \<noteq> CHR ''h'' \<and> fst x \<noteq> CHR ''v''"
  shows "\<exists>s'. read_options os s = Inr s'"
  using assms by (induction os s rule: read_options.induct) (auto simp: read_option_def)

theorem adaptive_skips_cpuid_check:
  assumes "read_options (os @ [(CHR ''a'', a)]) s = Inr s'"
  shows "op_ignore_cpuid (engine_options s')"
  using assms by (auto simp: read_options_append read_option_def engine_options_def split: sum.splits)

end
