(* ===== verification/Thd_SysCache.thy ===== *)
theory Thd_SysCache
  imports Thd_SysFs
begin

text \<open>
  The objects of \<^verbatim>\<open>csys_fs\<close> (\<^verbatim>\<open>thd_sys_fs.cpp\<close>) with their cache of file descriptors. The kernel's
  files are seen one level lower here: a path leads to a file, a descriptor keeps a file, and a
  file has contents. The other theories read by path; the cache gives the same results as long as
  no path is bound to another file.
\<close>

record kernel_files =
  kf_file :: "string \<rightharpoonup> nat"
  kf_link :: "string \<Rightarrow> bool"
  kf_data :: "nat \<Rightarrow> attr"

record csys_fs =
  cs_base_path :: string
  cs_fd_cache :: "string \<rightharpoonup> nat"

text \<open>The view of the other theories.\<close>

definition view :: "kernel_files \<Rightarrow> 'a env_scheme \<Rightarrow> 'a env_scheme" where
  "view k e = e\<lparr>e_files := (\<lambda>p. map_option (kf_data k) (kf_file k p)), e_link := kf_link k\<rparr>"

definition csys_fs :: "string \<Rightarrow> csys_fs" where
  "csys_fs path = \<lparr>cs_base_path = path, cs_fd_cache = Map.empty\<rparr>"

text \<open>\<^verbatim>\<open>update_path\<close> keeps the cache, which is indexed by whole paths.\<close>

definition update_path :: "string \<Rightarrow> csys_fs \<Rightarrow> csys_fs" where
  "update_path path cs = cs\<lparr>cs_base_path := path\<rparr>"

text \<open>An open that fails gives its error number.\<close>

definition get_cached_fd :: "kernel_files \<Rightarrow> string \<Rightarrow> csys_fs \<Rightarrow> (int + nat) \<times> csys_fs" where
  "get_cached_fd k p cs =
     (case cs_fd_cache cs p of Some fd \<Rightarrow> (Inr fd, cs)
      | None \<Rightarrow>
          (if kf_link k p then (Inl (- ELOOP), cs)
           else case kf_file k p of None \<Rightarrow> (Inl (- ENOENT), cs)
           | Some fd \<Rightarrow> (Inr fd, cs\<lparr>cs_fd_cache := (cs_fd_cache cs)(p \<mapsto> fd)\<rparr>)))"

definition cached_read :: "(attr \<Rightarrow> int \<times> 'v) \<Rightarrow> 'v \<Rightarrow> kernel_files \<Rightarrow> string \<Rightarrow> csys_fs \<Rightarrow> (int \<times> 'v) \<times> csys_fs" where
  "cached_read f old k path cs =
     (case get_cached_fd k (cs_base_path cs @ path) cs of
        (Inl err, cs') \<Rightarrow> ((err, old), cs') | (Inr fd, cs') \<Rightarrow> (f (kf_data k fd), cs'))"

text \<open>\<^verbatim>\<open>pread\<close> of the start of the file, and the value that is made of it.\<close>

definition pread_int :: "int \<Rightarrow> attr \<Rightarrow> int \<times> int" where
  "pread_int old a =
     (case a of NoRead \<Rightarrow> (-1, old)
      | Text t \<Rightarrow> (if take 15 t = [] then (0, old) else (int (length (take 15 t)), atoi (take 15 t))))"

definition pread_ulong :: "u64 \<Rightarrow> attr \<Rightarrow> int \<times> u64" where
  "pread_ulong old a =
     (case a of NoRead \<Rightarrow> (-1, old)
      | Text t \<Rightarrow> (if take 31 t = [] then (0, old) else (int (length (take 31 t)), word_of_int (strtol (take 31 t)))))"

definition cs_read_int :: "kernel_files \<Rightarrow> string \<Rightarrow> int \<Rightarrow> csys_fs \<Rightarrow> (int \<times> int) \<times> csys_fs" where
  "cs_read_int k path old cs = cached_read (pread_int old) old k path cs"

definition cs_read_ulong :: "kernel_files \<Rightarrow> string \<Rightarrow> u64 \<Rightarrow> csys_fs \<Rightarrow> (int \<times> u64) \<times> csys_fs" where
  "cs_read_ulong k path old cs = cached_read (pread_ulong old) old k path cs"

text \<open>Reading \<open>len\<close> bytes at a position: the bytes that \<^verbatim>\<open>pread\<close> puts into the buffer.\<close>

definition pread_at :: "nat \<Rightarrow> nat \<Rightarrow> attr \<Rightarrow> int \<times> string" where
  "pread_at pos len a =
     (case a of NoRead \<Rightarrow> (-1, []) | Text t \<Rightarrow> (int (length (take len (drop pos t))), take len (drop pos t)))"

definition cs_read_at :: "kernel_files \<Rightarrow> string \<Rightarrow> nat \<Rightarrow> nat \<Rightarrow> csys_fs \<Rightarrow> (int \<times> string) \<times> csys_fs" where
  "cs_read_at k path pos len cs = cached_read (pread_at pos len) [] k path cs"

text \<open>Writing a 64-bit number at a position; the cache is not used for writing. The result of \<^verbatim>\<open>lseek\<close>
  and of \<^verbatim>\<open>write\<close> is an argument; an \<^verbatim>\<open>errno\<close> goes with a failing \<^verbatim>\<open>lseek\<close>.\<close>

definition cs_write_at :: "(nat \<Rightarrow> int + int) \<Rightarrow> kernel_files \<Rightarrow> string \<Rightarrow> csys_fs \<Rightarrow> int" where
  "cs_write_at knl k path cs =
     (let p = cs_base_path cs @ path
      in if kf_link k p then - ELOOP
         else case kf_file k p of None \<Rightarrow> - ENOENT
         | Some fd \<Rightarrow> (case knl fd of Inl errno \<Rightarrow> - errno | Inr ret \<Rightarrow> ret))"

definition check_non_symbolic_path :: "kernel_files \<Rightarrow> string \<Rightarrow> int" where
  "check_non_symbolic_path k p =
     (if kf_link k p then THD_ERROR else if kf_file k p = None then - ENOENT else THD_SUCCESS)"

text \<open>\<^verbatim>\<open>create\<close>: every directory on the way and the file itself must not be a symbolic link. \<open>opn\<close> is the error
  number of the \<^verbatim>\<open>open\<close> with \<^verbatim>\<open>O_CREAT\<close>, if it fails. The words between slashes, empty ones left out:\<close>

fun slash_words :: "string \<Rightarrow> string \<Rightarrow> string list" where
  "slash_words w [] = (if w = [] then [] else [w])"
| "slash_words w (c # cs) =
     (if c \<noteq> CHR ''/'' then slash_words (w @ [c]) cs
      else if w = [] then slash_words [] cs else w # slash_words [] cs)"

fun path_prefixes :: "string \<Rightarrow> string list \<Rightarrow> string list" where
  "path_prefixes p [] = []"
| "path_prefixes p (w # ws) = (p @ ''/'' @ w) # path_prefixes (p @ ''/'' @ w) ws"

definition cs_create :: "(string \<Rightarrow> int option) \<Rightarrow> kernel_files \<Rightarrow> csys_fs \<Rightarrow> int" where
  "cs_create opn k cs =
     (if cs_base_path cs = [] \<or> hd (cs_base_path cs) \<noteq> CHR ''/'' then -1
      else if list_ex (\<lambda>p. check_non_symbolic_path k p = THD_ERROR) (path_prefixes [] (slash_words [] (cs_base_path cs)))
      then -1
      else case opn (cs_base_path cs) of Some errno \<Rightarrow> - errno | None \<Rightarrow> 0)"

text \<open>\<^verbatim>\<open>get_mode\<close> and \<^verbatim>\<open>read_symbolic_link_value\<close> with what \<^verbatim>\<open>stat\<close> and \<^verbatim>\<open>readlink\<close> give; the value of a link
  is cut at \<open>len\<close> characters, and its end is then written behind them.\<close>

definition get_mode :: "(string \<Rightarrow> u32 option) \<Rightarrow> string \<Rightarrow> csys_fs \<Rightarrow> u32" where
  "get_mode st path cs = (case st (cs_base_path cs @ path) of None \<Rightarrow> 0 | Some md \<Rightarrow> md)"

definition read_symbolic_link_value :: "(string \<Rightarrow> int + string) \<Rightarrow> string \<Rightarrow> nat \<Rightarrow> csys_fs \<Rightarrow> int \<times> string" where
  "read_symbolic_link_value rl path len cs =
     (case rl (cs_base_path cs @ path) of Inl errno \<Rightarrow> (- errno, []) | Inr s \<Rightarrow> (0, take len s))"

section \<open>The cache is faithful\<close>

text \<open>Every cached descriptor keeps the file that its path still leads to.\<close>

definition coherent :: "kernel_files \<Rightarrow> csys_fs \<Rightarrow> bool" where
  "coherent k cs \<longleftrightarrow> (\<forall>p fd. cs_fd_cache cs p = Some fd \<longrightarrow> kf_file k p = Some fd \<and> \<not> kf_link k p)"

lemma coherent_new [simp]: "coherent k (csys_fs path)"
  by (simp add: coherent_def csys_fs_def)

lemma coherent_contents: "coherent (k\<lparr>kf_data := d\<rparr>) cs = coherent k cs"
  by (simp add: coherent_def)

lemma get_cached_fd_coherent:
  assumes "coherent k cs"
  shows "fst (get_cached_fd k p cs) =
      (if kf_link k p then Inl (- ELOOP) else case kf_file k p of None \<Rightarrow> Inl (- ENOENT) | Some fd \<Rightarrow> Inr fd)"
    and "coherent k (snd (get_cached_fd k p cs))"
  using assms by (auto simp: get_cached_fd_def coherent_def split: option.splits)

lemma cached_read_coherent:
  assumes "coherent k cs"
  shows "fst (cached_read f old k path cs) =
      (let p = cs_base_path cs @ path
       in if kf_link k p then (- ELOOP, old)
          else case kf_file k p of None \<Rightarrow> (- ENOENT, old) | Some fd \<Rightarrow> f (kf_data k fd))"
    and "coherent k (snd (cached_read f old k path cs))"
  using get_cached_fd_coherent [OF assms, of "cs_base_path cs @ path"]
  by (auto simp: cached_read_def Let_def split: prod.splits sum.splits option.splits if_splits)

text \<open>What happens around an object: its own operations, new contents of files, and files that appear
  under paths that led to none.\<close>

inductive cache_step :: "kernel_files \<times> csys_fs \<Rightarrow> kernel_files \<times> csys_fs \<Rightarrow> bool" where
  Read_int: "cache_step (k, cs) (k, snd (cs_read_int k path old cs))"
| Read_ulong: "cache_step (k, cs) (k, snd (cs_read_ulong k path old' cs))"
| Read_at: "cache_step (k, cs) (k, snd (cs_read_at k path pos len cs))"
| Update_path: "cache_step (k, cs) (k, update_path path cs)"
| Contents: "cache_step (k, cs) (k\<lparr>kf_data := d\<rparr>, cs)"
| Appears: "kf_file k p = None \<Longrightarrow>
    cache_step (k, cs) (k\<lparr>kf_file := (kf_file k)(p \<mapsto> fd), kf_link := (kf_link k)(p := l)\<rparr>, cs)"

lemma coherent_kernel:
  "coherent k cs \<Longrightarrow> coherent k (update_path path cs)"
  "kf_file k p = None \<Longrightarrow> coherent k cs
     \<Longrightarrow> coherent (k\<lparr>kf_file := (kf_file k)(p \<mapsto> fd), kf_link := (kf_link k)(p := l)\<rparr>) cs"
  by (auto simp: coherent_def update_path_def)

lemma cache_step_coherent: "cache_step s s' \<Longrightarrow> coherent (fst s) (snd s) \<Longrightarrow> coherent (fst s') (snd s')"
  by (induction rule: cache_step.induct)
    (auto simp: cs_read_int_def cs_read_ulong_def cs_read_at_def cached_read_coherent(2) coherent_contents coherent_kernel)

lemma cache_steps_coherent: "cache_step\<^sup>*\<^sup>* s s' \<Longrightarrow> coherent (fst s) (snd s) \<Longrightarrow> coherent (fst s') (snd s')"
  by (induction rule: rtranclp_induct) (blast intro: cache_step_coherent)+

text \<open>
  C39. Reading numbers through the cache of descriptors gives what reading by path gives: after any
  sequence of reads and changes of the path of an object, of new contents of the files and of files that
  appear, both the return value and the number read are those of the file that the path leads to.
\<close>

theorem cached_reads_current:
  assumes "cache_step\<^sup>*\<^sup>* (k0, csys_fs path0) (k, cs)"
  shows "fst (cs_read_int k path old cs) = sysfs_read_int (view k e) (cs_base_path cs @ path) old
    \<and> fst (cs_read_ulong k path old' cs) = sysfs_read_ulong (view k e) (cs_base_path cs @ path) old'"
proof -
  have "coherent k cs" using cache_steps_coherent [OF assms] by simp
  then show ?thesis
    by (simp add: cs_read_int_def cs_read_ulong_def cached_read_coherent view_def
        sysfs_read_int_def sysfs_read_ulong_def pread_int_def pread_ulong_def Let_def split: option.split attr.split)
qed

definition demo_files :: kernel_files where
  "demo_files = \<lparr>kf_file = [''/d/temp'' \<mapsto> 3], kf_link = (\<lambda>_. False), kf_data = (\<lambda>_. Text ''41000'')\<rparr>"

definition demo_object :: csys_fs where
  "demo_object = snd (cs_read_int demo_files ''temp'' 0 (csys_fs ''/d/''))"

definition demo_env0 :: env where
  "demo_env0 = \<lparr>e_now = 0, e_files = Map.empty, e_link = (\<lambda>_. False), e_kwrite = (\<lambda>_ _ f. (0, f)), e_ksleep = (\<lambda>_ f. f)\<rparr>"

theorem cached_reads_current_witness:
  "cs_fd_cache demo_object ''/d/temp'' = Some 3
   \<and> fst (cs_read_int (demo_files\<lparr>kf_data := (\<lambda>_. Text ''52000'')\<rparr>) ''temp'' 0 demo_object) = (5, 52000)"
proof
  show "cs_fd_cache demo_object ''/d/temp'' = Some 3" by code_simp
  have "cache_step\<^sup>*\<^sup>* (demo_files, csys_fs ''/d/'') (demo_files, demo_object)"
    unfolding demo_object_def by (rule r_into_rtranclp) (rule Read_int)
  then have "cache_step\<^sup>*\<^sup>* (demo_files, csys_fs ''/d/'') (demo_files\<lparr>kf_data := (\<lambda>_. Text ''52000'')\<rparr>, demo_object)"
    by (rule rtranclp.rtrancl_into_rtrancl) (rule Contents)
  note cached_reads_current [OF this, of "''temp''" 0 demo_env0, THEN conjunct1]
  moreover have "sysfs_read_int (view (demo_files\<lparr>kf_data := (\<lambda>_. Text ''52000'')\<rparr>) demo_env0) (cs_base_path demo_object @ ''temp'') 0
      = (5, 52000)" by code_simp
  ultimately show "fst (cs_read_int (demo_files\<lparr>kf_data := (\<lambda>_. Text ''52000'')\<rparr>) ''temp'' 0 demo_object) = (5, 52000)" by simp
qed

section \<open>Files are not created through links\<close>

text \<open>The leading parts of a path are all checked.\<close>

lemma path_prefixes_append: "path_prefixes p (us @ ws) = path_prefixes p us @ path_prefixes (p @ concat (map ((#) (CHR ''/'')) us)) ws"
  by (induction us arbitrary: p) auto

lemma slash_words_split:
  "CHR ''/'' \<notin> set w \<Longrightarrow> slash_words u (w @ r) = slash_words (u @ w) r"
  by (induction w arbitrary: u) auto

lemma slash_words_path:
  assumes "\<forall>w\<in>set ws. w \<noteq> [] \<and> CHR ''/'' \<notin> set w"
  shows "slash_words [] (concat (map ((#) (CHR ''/'')) ws)) = ws"
  using assms
proof (induction ws)
  case (Cons w ws)
  then have "slash_words [] (concat (map ((#) (CHR ''/'')) (w # ws))) = slash_words w (concat (map ((#) (CHR ''/'')) ws))"
    using slash_words_split [of w "[]"] by simp
  also have "\<dots> = w # ws" using Cons by (cases ws) auto
  finally show ?case .
qed simp

theorem create_follows_no_link:
  assumes "cs_create opn k cs = 0" "cs_base_path cs = concat (map ((#) (CHR ''/'')) (us @ ws))"
    and "\<forall>w\<in>set (us @ ws). w \<noteq> [] \<and> CHR ''/'' \<notin> set w" "us \<noteq> []"
  shows "\<not> kf_link k (concat (map ((#) (CHR ''/'')) us))"
proof -
  have p: "concat (map ((#) (CHR ''/'')) us) \<in> set (path_prefixes [] us)"
    using assms(4) by (induction us rule: rev_induct) (simp_all add: path_prefixes_append)
  have "slash_words [] (cs_base_path cs) = us @ ws" unfolding assms(2) by (rule slash_words_path) (rule assms(3))
  then have "\<not> list_ex (\<lambda>p. check_non_symbolic_path k p = THD_ERROR) (path_prefixes [] (us @ ws))"
    using assms(1) by (auto simp: cs_create_def split: if_splits)
  moreover have "concat (map ((#) (CHR ''/'')) us) \<in> set (path_prefixes [] (us @ ws))"
    using p by (simp add: path_prefixes_append)
  ultimately show ?thesis by (auto simp: list_ex_iff check_non_symbolic_path_def split: if_splits)
qed

section \<open>Paths bound anew\<close>

text \<open>A path that is bound to another file later is read from the old one.\<close>

theorem cached_read_stale:
  assumes "cs_fd_cache cs (cs_base_path cs @ path) = Some fd"
  shows "cs_read_int k path old cs = (pread_int old (kf_data k fd), cs)"
  using assms by (simp add: cs_read_int_def cached_read_def get_cached_fd_def)

end
