(* ===== verification/Thd_CpuBinding.thy ===== *)
theory Thd_CpuBinding
  imports Thd_Zone Thd_GddvProps "HOL-Library.AList"
begin

text \<open>
  The default binding of processor devices to zones without any, \<^verbatim>\<open>thd_cpu_default_binding.cpp\<close>: the
  file in the run directory that counts how often the binding failed for a zone, the list of zones
  that are left out, and the test of the processor load. The binding itself owns devices outside
  of the engine and is compiled in only with a macro that the build does not define; it is not
  modelled.
\<close>

section \<open>The file of failures\<close>

text \<open>A record is the structure as it lies in memory: 51 bytes for the name, one byte of padding and
  the number of failures.\<close>

definition stat_size :: nat where "stat_size = 56"

definition stat_file :: string where
  "stat_file = TDRUNDIR @ ''/'' @ ''cpu_def_zone_bind.out''"

definition stat_name :: "string \<Rightarrow> string" where
  "stat_name b = takeWhile (\<lambda>c. c \<noteq> CHR 0x00) b"

definition stat_failures :: "string \<Rightarrow> int" where
  "stat_failures b = s32 (int (le_nat (take 4 (drop 52 b))))"

text \<open>The offset of the first whole record with a name.\<close>

function find_stat :: "string \<Rightarrow> string \<Rightarrow> nat option" where
  "find_stat name bs =
     (if length bs < stat_size then None
      else if stat_name (take stat_size bs) = name then Some 0
      else map_option (\<lambda>k. k + stat_size) (find_stat name (drop stat_size bs)))"
  by pat_completeness auto
termination by (relation "Wellfounded.measure (\<lambda>(_, bs). length bs)") (auto simp: stat_size_def)

declare find_stat.simps [simp del]

definition read_zone_stat :: "string \<Rightarrow> 'a env_scheme \<Rightarrow> int option" where
  "read_zone_stat name e =
     (case e_files e stat_file of
        Some (Text bs) \<Rightarrow> map_option (\<lambda>off. stat_failures (take stat_size (drop off bs))) (find_stat name bs)
      | _ \<Rightarrow> None)"

text \<open>\<open>pad\<close> is what the byte of padding holds.\<close>

definition stat_record :: "char \<Rightarrow> string \<Rightarrow> int \<Rightarrow> string" where
  "stat_record pad name cnt =
     take 50 (name @ replicate 50 (CHR 0x00)) @ [CHR 0x00] @ [pad] @ le_bytes 4 (nat (u32_of cnt))"

text \<open>A record is written over the one with its name, or at the end.\<close>

definition put_stat :: "string \<Rightarrow> string \<Rightarrow> string \<Rightarrow> string" where
  "put_stat name r bs =
     (case find_stat name bs of None \<Rightarrow> bs @ r | Some off \<Rightarrow> take off bs @ r @ drop (off + stat_size) bs)"

text \<open>\<open>can_create\<close> is whether the file can be created. The search goes on until the end of the file is
  seen: a file that cannot be read is searched for ever (\<open>None\<close>).\<close>

definition update_zone_stat :: "bool \<Rightarrow> char \<Rightarrow> string \<Rightarrow> int \<Rightarrow> 'a env_scheme \<Rightarrow> 'a env_scheme option" where
  "update_zone_stat can_create pad name cnt e =
     (case e_files e stat_file of
        None \<Rightarrow>
          Some (if can_create then e\<lparr>e_files := (e_files e)(stat_file \<mapsto> Text (stat_record pad name cnt))\<rparr> else e)
      | Some NoRead \<Rightarrow> None
      | Some (Text bs) \<Rightarrow>
          Some (e\<lparr>e_files := (e_files e)(stat_file \<mapsto> Text (put_stat name (stat_record pad name cnt) bs))\<rparr>))"

section \<open>Zones that are left out\<close>

definition blacklist_zones :: "string list" where
  "blacklist_zones = [''cpu'', ''acpitz'', ''Surface'', ''pkg-temp-0'', ''x86_pkg_temp'', ''soc_dts0'', ''soc_dts1'', ''B0D4'', ''B0DB'']"

definition blacklist_match :: "string \<Rightarrow> 'a env_scheme \<Rightarrow> bool" where
  "blacklist_match name e \<longleftrightarrow>
     name \<in> set blacklist_zones \<or> (case read_zone_stat name e of None \<Rightarrow> False | Some f \<Rightarrow> 3 < f)"

section \<open>The load of the processor\<close>

definition def_starting_power_differential :: u32 where "def_starting_power_differential = 4000000"

text \<open>Powers are 32-bit numbers of micro-watts, also the product with 60.\<close>

definition check_cpu_load :: "u32 \<Rightarrow> menv \<Rightarrow> bool \<times> menv" where
  "check_cpu_load cpu_package_max_power e =
     (case rapl_action_get_power_range PACKAGE 0 0 e of ((pw, mx0, mn), e') \<Rightarrow>
        (let mx = (if cpu_package_max_power \<noteq> 0 then cpu_package_max_power else mx0)
         in (\<not> mx - mn < def_starting_power_differential \<and> mx * 60 div 100 < pw, e')))"

section \<open>The gates\<close>

text \<open>
  A gate is a device with the states 0 and 1 in front of the devices of a zone (\<^verbatim>\<open>start\<close>) or behind
  them. Opening the first needs a processor load; reaching the second is a failure of the binding.
  \<open>zone\<close> is the zone of the binding, \<open>pm\<close> the largest power of the package; \<open>None\<close> is the endless search of
  the file.
\<close>

record gating_cdev =
  gc_start :: bool
  gc_curr_state :: int

definition gate_max_state :: int where "gate_max_state = 1"

text \<open>The number of failures after one more, \<^verbatim>\<open>int\<close> as everywhere.\<close>

definition exit_count :: "int option \<Rightarrow> int" where
  "exit_count f = (case f of None \<Rightarrow> 0 | Some n \<Rightarrow> s32 (n + 1))"

definition gate_exit :: "bool \<Rightarrow> char \<Rightarrow> zone \<Rightarrow> 'a sys_scheme \<Rightarrow> (zone \<times> 'a sys_scheme) option" where
  "gate_exit can_create pad z st =
     (let st1 = zone_reset 0 z st;
          f = read_zone_stat (zn_type_str z) (sy_env st1)
      in case update_zone_stat can_create pad (zn_type_str z) (exit_count f) (sy_env st1) of
           None \<Rightarrow> None
         | Some e \<Rightarrow>
             (let st2 = st1\<lparr>sy_env := e\<rparr>
              in Some (if f \<noteq> None \<and> 3 < exit_count f then set_zone_inactive z st2 else (z, st2))))"

definition gate_set_curr_state ::
    "bool \<Rightarrow> char \<Rightarrow> u32 \<Rightarrow> int \<Rightarrow> gating_cdev \<Rightarrow> zone option \<Rightarrow> 'a sys_scheme
     \<Rightarrow> (gating_cdev \<times> zone option \<times> 'a sys_scheme) option" where
  "gate_set_curr_state can_create pad pm state g zone st =
     (if \<not> gc_start g \<and> state \<noteq> 0 then
        (case zone of None \<Rightarrow> Some (g, zone, st)
         | Some z \<Rightarrow> map_option (\<lambda>(z', st'). (g, Some z', st')) (gate_exit can_create pad z st))
      else if gc_start g \<and> state \<noteq> 0 then
        (case check_cpu_load pm (sy_env st) of (busy, e) \<Rightarrow>
           Some (g\<lparr>gc_curr_state := (if busy then gate_max_state else 0)\<rparr>, zone, st\<lparr>sy_env := e\<rparr>))
      else Some (g\<lparr>gc_curr_state := 0\<rparr>, zone, st))"

section \<open>The file keeps what was stored\<close>

definition whole_records :: "string \<Rightarrow> bool" where
  "whole_records bs \<longleftrightarrow> length bs mod stat_size = 0"

lemma length_stat_record [simp]: "length (stat_record pad name cnt) = stat_size"
  by (simp add: stat_record_def stat_size_def)

lemma stat_record_name:
  assumes "nul_free name"
  shows "stat_name (stat_record pad name cnt @ r) = take 50 name"
proof -
  have "takeWhile (\<lambda>c. c \<noteq> CHR 0x00) (take 50 name @ CHR 0x00 # s) = take 50 name" for s
    using assms by (subst takeWhile_append2) (auto simp: nul_free_def dest: in_set_takeD)
  moreover have "\<exists>s. stat_record pad name cnt @ r = take 50 name @ CHR 0x00 # s"
  proof (cases "length name < 50")
    case True
    then obtain k where "50 - length name = Suc k" by (metis Suc_pred zero_less_diff)
    then show ?thesis using True by (simp add: stat_record_def)
  qed (simp add: stat_record_def)
  ultimately show ?thesis by (metis stat_name_def)
qed

lemma stat_record_failures:
  assumes "in_s32 cnt"
  shows "stat_failures (stat_record pad name cnt) = cnt"
proof -
  have "length (take 50 (name @ replicate 50 (CHR 0x00)) @ [CHR 0x00] @ [pad]) = 52" by simp
  then have "drop 52 (stat_record pad name cnt) = le_bytes 4 (nat (u32_of cnt))"
    unfolding stat_record_def by (metis append.assoc append_eq_conv_conj)
  moreover have "nat (u32_of cnt) < 256 ^ 4" using u32_of_range [of cnt] by simp
  ultimately show ?thesis
    using assms u32_of_range [of cnt] by (simp add: stat_failures_def le_nat_le_bytes s32_u32_of s32_id)
qed

text \<open>The records of a file, and the association list they stand for.\<close>

function blocks :: "string \<Rightarrow> string list" where
  "blocks bs = (if length bs < stat_size then [] else take stat_size bs # blocks (drop stat_size bs))"
  by pat_completeness auto
termination by (relation "Wellfounded.measure length") (auto simp: stat_size_def)

declare blocks.simps [simp del]

definition failures_of :: "string \<Rightarrow> (string \<times> int) list" where
  "failures_of bs = map (\<lambda>b. (stat_name b, stat_failures b)) (blocks bs)"

lemma failures_of_short [simp]: "length bs < stat_size \<Longrightarrow> failures_of bs = []"
  by (simp add: failures_of_def blocks.simps)

lemma failures_of_record [simp]:
  "length b = stat_size \<Longrightarrow> failures_of (b @ bs) = (stat_name b, stat_failures b) # failures_of bs"
  by (simp add: failures_of_def blocks.simps [of "b @ bs"])

lemma split_record:
  assumes "\<not> length bs < stat_size"
  obtains b r where "bs = b @ r" "length b = stat_size"
  using assms that [of "take stat_size bs" "drop stat_size bs"] by simp

lemma find_stat_append:
  "length b = stat_size \<Longrightarrow> find_stat name (b @ r) =
     (if stat_name b = name then Some 0 else map_option (\<lambda>k. k + stat_size) (find_stat name r))"
  by (simp add: find_stat.simps [of name "b @ r"])

lemma find_stat_short: "length bs < stat_size \<Longrightarrow> find_stat name bs = None"
  by (simp add: find_stat.simps)

text \<open>Reading and changing the file are looking up and updating the list.\<close>

lemma find_stat_map_of:
  "map_option (\<lambda>off. stat_failures (take stat_size (drop off bs))) (find_stat name bs) = map_of (failures_of bs) name"
proof (induction bs rule: length_induct)
  case (1 bs)
  show ?case
  proof (cases "length bs < stat_size")
    case False
    then obtain b r where b: "bs = b @ r" "length b = stat_size" by (rule split_record)
    then have "length r < length bs" by (simp add: stat_size_def)
    with 1 have "map_option (\<lambda>off. stat_failures (take stat_size (drop off r))) (find_stat name r) = map_of (failures_of r) name"
      by blast
    then show ?thesis using b by (simp add: find_stat_append option.map_comp comp_def)
  qed (simp add: find_stat_short)
qed

lemma put_stat_append:
  "length b = stat_size \<Longrightarrow> put_stat name r (b @ s) = (if stat_name b = name then r @ s else b @ put_stat name r s)"
  by (auto simp: put_stat_def find_stat_append split: option.split)

lemma put_stat_update:
  assumes "whole_records bs" "length r = stat_size" "stat_name r = name"
  shows "failures_of (put_stat name r bs) = AList.update name (stat_failures r) (failures_of bs) \<and> whole_records (put_stat name r bs)"
  using assms(1)
proof (induction bs rule: length_induct)
  case (1 bs)
  show ?case
  proof (cases "length bs < stat_size")
    case True
    then have "bs = []" using 1 by (simp add: whole_records_def)
    then show ?thesis
      using assms failures_of_record [of r "[]"] by (simp add: put_stat_def find_stat_short stat_size_def whole_records_def)
  next
    case False
    then obtain b s where b: "bs = b @ s" "length b = stat_size" by (rule split_record)
    have s: "whole_records s" using 1(2) b by (simp add: whole_records_def mod_add_self1)
    have "length s < length bs" using b by (simp add: stat_size_def)
    with 1(1) s have "failures_of (put_stat name r s) = AList.update name (stat_failures r) (failures_of s)"
        "whole_records (put_stat name r s)" by blast+
    then show ?thesis using b s assms(2,3) by (simp add: put_stat_append whole_records_def)
  qed
qed

lemma stat_name_record:
  assumes "nul_free name" "length name \<le> 50"
  shows "stat_name (stat_record pad name cnt) = name"
  using stat_record_name [OF assms(1), of pad cnt "[]"] assms(2) by simp

lemma read_zone_stat_lookup: "e_files e stat_file = Some (Text bs) \<Longrightarrow> read_zone_stat name e = map_of (failures_of bs) name"
  by (simp add: read_zone_stat_def find_stat_map_of)

text \<open>
  The file of failures is a map: after an update the new count is read for its zone, the counts of
  all other zones are unchanged, and the file still consists of whole records.
\<close>

theorem failures_file_map:
  assumes "update_zone_stat c pad name cnt e = Some e'"
    and "e_files e stat_file = Some (Text bs)" "whole_records bs" "nul_free name" "length name \<le> 50" "in_s32 cnt"
  shows "read_zone_stat n e' = (if n = name then Some cnt else read_zone_stat n e)
    \<and> (\<exists>bs'. e_files e' stat_file = Some (Text bs') \<and> whole_records bs')"
proof -
  define bs' where "bs' = put_stat name (stat_record pad name cnt) bs"
  have e': "e_files e' stat_file = Some (Text bs')"
    using assms(1,2) by (auto simp: update_zone_stat_def bs'_def)
  have "failures_of bs' = AList.update name cnt (failures_of bs)" "whole_records bs'"
    using put_stat_update [OF assms(3) length_stat_record stat_name_record [OF assms(4,5)], of pad cnt]
      stat_record_failures [OF assms(6), of pad name] by (simp_all add: bs'_def)
  then show ?thesis
    using read_zone_stat_lookup [OF e', of n] read_zone_stat_lookup [OF assms(2), of n] e' by (simp add: update_conv')
qed

section \<open>Counting failures\<close>

text \<open>The interface between the gates and the file: \<open>store\<close> sets the count of a zone, \<open>lookup\<close> reads it. Counting
  rests on these laws only.\<close>

locale failure_counts =
  fixes lookup :: "'s \<Rightarrow> string \<Rightarrow> int option"
    and store :: "string \<Rightarrow> int \<Rightarrow> 's \<Rightarrow> 's"
    and ok :: "'s \<Rightarrow> bool"
    and storable :: "string \<Rightarrow> bool"
  assumes lookup_store: "ok s \<Longrightarrow> storable n \<Longrightarrow> in_s32 c \<Longrightarrow> lookup (store n c s) m = (if m = n then Some c else lookup s m)"
    and store_ok: "ok s \<Longrightarrow> storable n \<Longrightarrow> ok (store n c s)"
begin

lemma failures_counted:
  assumes "ok s" "storable n" "lookup s n = None" "int k < 2 ^ 31"
  shows "ok (((\<lambda>s. store n (exit_count (lookup s n)) s) ^^ k) s)
    \<and> lookup (((\<lambda>s. store n (exit_count (lookup s n)) s) ^^ k) s) n = (if k = 0 then None else Some (int k - 1))"
  using assms(4)
proof (induction k)
  case (Suc k)
  let ?s = "((\<lambda>s. store n (exit_count (lookup s n)) s) ^^ k) s"
  have "ok ?s" "lookup ?s n = (if k = 0 then None else Some (int k - 1))" using Suc by simp_all
  moreover have "in_s32 (int k)" using Suc.prems by (simp add: in_s32_def)
  moreover from calculation have "exit_count (lookup ?s n) = int k" by (simp add: exit_count_def s32_id)
  ultimately show ?case using assms(2) by (simp add: lookup_store store_ok)
qed (use assms in simp)

end

text \<open>The bytes of the file are such a store, for names that fit a record.\<close>

interpretation stat_bytes:
  failure_counts "\<lambda>bs. map_of (failures_of bs)" "\<lambda>n c. put_stat n (stat_record pad n c)" whole_records
    "\<lambda>n. nul_free n \<and> length n \<le> 50" for pad
  by unfold_locales
    (simp_all add: put_stat_update stat_name_record stat_record_failures update_conv')

definition record_failure :: "char \<Rightarrow> string \<Rightarrow> string \<Rightarrow> string" where
  "record_failure pad n bs = put_stat n (stat_record pad n (exit_count (map_of (failures_of bs) n))) bs"

text \<open>
  Starting from an empty file, a zone is black listed from its fifth failure on and not before.
\<close>

theorem blacklisted_at_fifth_failure:
  assumes "e_files e stat_file = Some (Text ((record_failure pad n ^^ k) []))"
    and "nul_free n" "length n \<le> 50" "n \<notin> set blacklist_zones" "int k < 2 ^ 31"
  shows "blacklist_match n e \<longleftrightarrow> 5 \<le> k"
proof -
  have f: "record_failure pad n = (\<lambda>bs. put_stat n (stat_record pad n (exit_count (map_of (failures_of bs) n))) bs)"
    by (simp add: record_failure_def fun_eq_iff)
  have "whole_records []" "map_of (failures_of []) n = None" by (simp_all add: whole_records_def stat_size_def)
  with stat_bytes.failures_counted [of "[]" n k pad] assms(2,3,5)
  have "map_of (failures_of ((record_failure pad n ^^ k) [])) n = (if k = 0 then None else Some (int k - 1))"
    unfolding f by blast
  then have "read_zone_stat n e = (if k = 0 then None else Some (int k - 1))"
    using read_zone_stat_lookup [OF assms(1), of n] by simp
  then show ?thesis using assms(4) by (auto simp: blacklist_match_def)
qed

text \<open>
  The exit gate counts: every failure after the first adds one, and the zone is shut off as soon as
  the black list has it, which is at the fifth failure and not at the third.
\<close>

theorem gate_exit_counts:
  assumes "gate_exit c pad z st = Some (z', st')"
    and "e_files (sy_env (zone_reset 0 z st)) stat_file = Some (Text bs)" "whole_records bs"
    and "nul_free (zn_type_str z)" "length (zn_type_str z) \<le> 50"
    and "zn_type_str z \<notin> set blacklist_zones" "zn_active z"
    and "read_zone_stat (zn_type_str z) (sy_env (zone_reset 0 z st)) = Some f" "in_s32 (f + 1)"
  shows "read_zone_stat (zn_type_str z) (sy_env st') = Some (f + 1)
    \<and> (zn_active z' \<longleftrightarrow> \<not> blacklist_match (zn_type_str z) (sy_env st'))"
proof -
  let ?e = "sy_env (zone_reset 0 z st)"
  obtain e where e: "update_zone_stat c pad (zn_type_str z) (f + 1) ?e = Some e"
      and z': "(z', st') = (if 3 < f + 1 then set_zone_inactive z ((zone_reset 0 z st)\<lparr>sy_env := e\<rparr>)
         else (z, (zone_reset 0 z st)\<lparr>sy_env := e\<rparr>))"
    using assms(1,8,9) by (auto simp: gate_exit_def exit_count_def s32_id Let_def split: option.splits)
  have "read_zone_stat (zn_type_str z) e = Some (f + 1)"
    using failures_file_map [OF e assms(2-5,9), of "zn_type_str z"] by simp
  moreover have "sy_env st' = e"
    using z' by (auto simp: set_zone_inactive_def on_virtual_def split: if_splits option.splits sensor_kind.splits)
  ultimately show ?thesis
    using z' assms(6,7) by (auto simp: blacklist_match_def set_zone_inactive_def split: if_splits)
qed

text \<open>
  A zone with a name of more than 50 characters is never found again: its record is stored under
  the first 50, so every update adds one more record and the zone never gets on the black list.
\<close>

lemma find_stat_append_other:
  assumes "whole_records bs" "find_stat name bs = None" "length r = stat_size" "stat_name r \<noteq> name"
  shows "find_stat name (bs @ r) = None"
  using assms(1,2)
proof (induction bs rule: length_induct)
  case (1 bs)
  show ?case
  proof (cases "length bs < stat_size")
    case True
    then have "bs = []" using 1 by (simp add: whole_records_def)
    then show ?thesis using assms(3,4) find_stat_append [of r name "[]"] by (simp add: find_stat_short stat_size_def)
  next
    case False
    then obtain b s where b: "bs = b @ s" "length b = stat_size" by (rule split_record)
    then have "whole_records s" "length s < length bs" "find_stat name s = None" "stat_name b \<noteq> name"
      using 1(2,3) by (auto simp: whole_records_def mod_add_self1 stat_size_def find_stat_append split: if_splits)
    then show ?thesis using 1(1) b by (simp add: find_stat_append)
  qed
qed

theorem long_zone_names_lost:
  assumes "update_zone_stat c pad name cnt e = Some e'" "e_files e stat_file = Some (Text bs)" "whole_records bs"
    and "nul_free name" "50 < length name" "find_stat name bs = None"
  shows "read_zone_stat name e' = None \<and> (\<exists>bs'. e_files e' stat_file = Some (Text bs') \<and> length bs' = length bs + stat_size)"
proof -
  let ?r = "stat_record pad name cnt"
  have "stat_name ?r = take 50 name" using stat_record_name [OF assms(4), of pad cnt "[]"] by simp
  then have "stat_name ?r \<noteq> name" using assms(5) by (metis length_take less_irrefl min.absorb4)
  then have "find_stat name (bs @ ?r) = None" by (intro find_stat_append_other assms length_stat_record)
  then show ?thesis using assms(1,2,6) by (auto simp: update_zone_stat_def read_zone_stat_def put_stat_def)
qed

text \<open>The threshold of 60 percent wraps around: on a package of 100 W a load of 20 W is significant.\<close>

lemma load_threshold_wraps:
  assumes "rapl_action_get_power_range PACKAGE 0 0 e = ((20000000, mx, 0), e')"
  shows "check_cpu_load 100000000 e = (True, e')"
proof -
  have "(100000000 :: u32) * 60 div 100 = 17050327" "\<not> (100000000 :: u32) - 0 < 4000000" by code_simp+
  then show ?thesis using assms by (simp add: check_cpu_load_def def_starting_power_differential_def)
qed

end
