(* ===== verification/Thd_VaultFile.thy ===== *)
theory Thd_VaultFile
  imports Thd_GddvVault Thd_Parse
begin

text \<open>
  Files that hold a data vault: the tool \<^verbatim>\<open>tools/format_dv_name.c\<close>, which tells the name under which the
  daemon looks for one, and the loading of a hexadecimal dump, the part of \<^verbatim>\<open>cthd_gddv::gddv_load\<close> that is
  compiled for tests.
\<close>

section \<open>The name of the file\<close>

definition DMI_ID_PATH :: string where "DMI_ID_PATH = ''/sys/class/dmi/id''"

text \<open>\<^verbatim>\<open>fgets\<close> reads the first line or what fits; the text ends at its newline or at a zero byte.\<close>

definition read_dmi_attribute :: "'a env_scheme \<Rightarrow> string \<Rightarrow> nat \<Rightarrow> string option" where
  "read_dmi_attribute e attr out_size =
     (let path = DMI_ID_PATH @ ''/'' @ attr
      in if out_size = 0 \<or> 4096 \<le> length path then None
         else case e_files e path of
           Some (Text t) \<Rightarrow>
             (if t = [] then None
              else Some (takeWhile (\<lambda>c. c \<noteq> CHR 0x0A \<and> c \<noteq> CHR 0x00) (take (out_size - 1) t)))
         | _ \<Rightarrow> None)"

text \<open>The checksum of the tool reads unsigned bytes.\<close>

definition tool_crc32 :: "string \<Rightarrow> u32" where
  "tool_crc32 p = fold (\<lambda>c crc. (crc_step ^^ 8) (xor crc (ucast (of_char c :: u8)))) p 0"

text \<open>An attribute that cannot be read leaves the buffer as it was, with the text \<open>old\<close>.\<close>

definition attribute_text :: "'a env_scheme \<Rightarrow> string \<Rightarrow> string \<Rightarrow> string" where
  "attribute_text e old attr = (case read_dmi_attribute e attr 256 of None \<Rightarrow> old | Some s \<Rightarrow> s)"

definition show_u32 :: "u32 \<Rightarrow> string" where
  "show_u32 w = show_nat (unat w)"

definition tool_file_name :: "string \<Rightarrow> 'a env_scheme \<Rightarrow> string" where
  "tool_file_name old e =
     take 255 (''dtt_data_vault_'' @ show_u32 (tool_crc32 (attribute_text e old ''sys_vendor'')) @ ''_''
       @ show_u32 (tool_crc32 (attribute_text e old ''product_family'')) @ ''_''
       @ show_u32 (tool_crc32 (attribute_text e old ''product_name'')) @ ''_''
       @ show_u32 (tool_crc32 (attribute_text e old ''product_sku'')) @ ''.bin'')"

section \<open>Loading a dump\<close>

text \<open>Dropping the blanks and then the word makes a text shorter.\<close>

lemma dropWhile_dropWhile_shorter:
  assumes "dropWhile P s = r" "r \<noteq> []"
  shows "length (dropWhile (\<lambda>c. \<not> P c) r) < length s"
proof -
  obtain c cs where r: "r = c # cs" using assms(2) by (cases r) auto
  then have "\<not> P c" using assms(1) by (metis dropWhile_eq_Cons_conv)
  then have "length (dropWhile (\<lambda>c. \<not> P c) r) < length r" using r by (simp add: le_imp_less_Suc length_dropWhile_le)
  then show ?thesis using assms(1) length_dropWhile_le [of P s] by simp
qed

text \<open>\<^verbatim>\<open>strtok\<close> with a blank as the only separator.\<close>

function strtok :: "string \<Rightarrow> string list" where
  "strtok s =
     (let r = dropWhile (\<lambda>c. c = CHR '' '') s
      in if r = [] then [] else takeWhile (\<lambda>c. c \<noteq> CHR '' '') r # strtok (dropWhile (\<lambda>c. c \<noteq> CHR '' '') r))"
  by pat_completeness auto
termination
  by (relation "Wellfounded.measure length") (auto intro: dropWhile_dropWhile_shorter)

declare strtok.simps [simp del]

text \<open>\<^verbatim>\<open>sscanf\<close> with \<^verbatim>\<open>%x\<close>: white space, a sign, \<^verbatim>\<open>0x\<close>, digits; \<open>None\<close> when there is no digit.\<close>

definition hex_val :: "char \<Rightarrow> nat option" where
  "hex_val c =
     (let n = (of_char c :: nat)
      in if 48 \<le> n \<and> n \<le> 57 then Some (n - 48) else if 97 \<le> n \<and> n \<le> 102 then Some (n - 87)
         else if 65 \<le> n \<and> n \<le> 70 then Some (n - 55) else None)"

fun hex_digits :: "nat \<Rightarrow> string \<Rightarrow> nat" where
  "hex_digits acc [] = acc"
| "hex_digits acc (c # cs) = (case hex_val c of None \<Rightarrow> acc | Some d \<Rightarrow> hex_digits (16 * acc + d) cs)"

definition hex_number :: "string \<Rightarrow> nat option" where
  "hex_number s =
     (case s of [] \<Rightarrow> None | c # _ \<Rightarrow> if hex_val c = None then None else Some (min (hex_digits 0 s) (2 ^ 64 - 1)))"

definition skip_0x :: "string \<Rightarrow> string" where
  "skip_0x s = (case s of a # b # cs \<Rightarrow> if a = CHR ''0'' \<and> (b = CHR ''x'' \<or> b = CHR ''X'') then cs else s | _ \<Rightarrow> s)"

definition scan_x :: "string \<Rightarrow> int option" where
  "scan_x t =
     (case dropWhile is_space t of [] \<Rightarrow> None
      | c # cs \<Rightarrow>
          (if c = CHR ''-'' then map_option (\<lambda>n. - int n) (hex_number (skip_0x cs))
           else if c = CHR ''+'' then map_option int (hex_number (skip_0x cs))
           else map_option int (hex_number (skip_0x (c # cs)))))"

text \<open>The two bytes of a token; \<open>junk\<close> is what the variable holds when nothing is scanned.\<close>

definition token_bytes :: "int \<Rightarrow> string \<Rightarrow> string" where
  "token_bytes junk t =
     (let byte = (case scan_x t of None \<Rightarrow> junk | Some v \<Rightarrow> v)
      in [char_of (nat (byte mod 256)), char_of (nat (byte div 256 mod 256))])"

fun add_tokens :: "int \<Rightarrow> string list \<Rightarrow> string \<Rightarrow> string" where
  "add_tokens junk [] buf = buf"
| "add_tokens junk (t # ts) buf =
     (if MAX_GDDV_FILE_SIZE \<le> length buf then buf else add_tokens junk ts (buf @ token_bytes junk t))"

text \<open>The lines of a file with their newlines, as \<^verbatim>\<open>getline\<close> gives them; a line ends for \<^verbatim>\<open>strtok\<close> at a zero byte.\<close>

fun file_lines :: "string \<Rightarrow> string list" where
  "file_lines [] = []"
| "file_lines (c # cs) =
     (if c = CHR 0x0A then [c] # file_lines cs
      else case file_lines cs of [] \<Rightarrow> [[c]] | l # ls \<Rightarrow> (c # l) # ls)"

text \<open>The first token of a line is the offset; a line without a token ends the loop.\<close>

fun add_lines :: "int \<Rightarrow> string list \<Rightarrow> string \<Rightarrow> string" where
  "add_lines junk [] buf = buf"
| "add_lines junk (l # ls) buf =
     (case strtok (takeWhile (\<lambda>c. c \<noteq> CHR 0x00) l) of [] \<Rightarrow> buf | _ # ts \<Rightarrow> add_lines junk ls (add_tokens junk ts buf))"

definition gddv_load_hex :: "int \<Rightarrow> vault_host \<Rightarrow> 'a env_scheme \<Rightarrow> string option" where
  "gddv_load_hex junk v e =
     (if \<not> vh_data_vault_fs v then None
      else case e_files e (TDCONFDIR @ ''/data_vault.hex'') of
        None \<Rightarrow> None
      | Some NoRead \<Rightarrow> Some []
      | Some (Text t) \<Rightarrow> Some (add_lines junk (file_lines t) []))"

section \<open>The names agree\<close>

lemma signed_char_ascii:
  assumes "(of_char c :: nat) < 128"
  shows "signed_char c = ucast (of_char c :: u8)"
proof -
  have "(of_char c :: u8) = of_nat (of_char c)" by (rule of_nat_of_char [symmetric])
  then have u: "uint (of_char c :: u8) = int (of_char c)"
    using assms by (simp add: unsigned_of_nat take_bit_nat_eq_self)
  then have "sint (of_char c :: u8) = uint (of_char c :: u8)"
    using assms by (simp add: sint_uint signed_take_bit_int_eq_self)
  then show ?thesis by (simp add: signed_char_def scast_eq unsigned_ucast_eq)
qed

lemma crc32_ascii:
  assumes "\<forall>c\<in>set p. (of_char c :: nat) < 128"
  shows "tool_crc32 p = crc32 p"
  unfolding tool_crc32_def crc32_def
  using assms by (intro fold_cong refl) (simp add: signed_char_ascii)

lemma length_show_u32: "length (show_u32 w) \<le> 10"
proof -
  have "unat w < 2 ^ 32" using unsigned_less [of w] by simp
  then show ?thesis unfolding show_u32_def by (intro length_show_nat) simp_all
qed

text \<open>A readable attribute whose first line is plain text that fits the buffer of the tool.\<close>

definition plain_attribute :: "'a env_scheme \<Rightarrow> string \<Rightarrow> bool" where
  "plain_attribute e attr \<longleftrightarrow>
     (case getline e (DMI_ID_PATH @ ''/'' @ attr) of None \<Rightarrow> False
      | Some s \<Rightarrow> length s \<le> 255 \<and> list_all (\<lambda>c. 0 < (of_char c :: nat) \<and> (of_char c :: nat) < 128) s)"

lemma takeWhile_plain_line:
  assumes "length (takeWhile (\<lambda>c. c \<noteq> CHR 0x0A) t) \<le> n"
    and "\<forall>c\<in>set (takeWhile (\<lambda>c. c \<noteq> CHR 0x0A) t). 0 < (of_char c :: nat) \<and> (of_char c :: nat) < 128"
  shows "takeWhile (\<lambda>c. c \<noteq> CHR 0x0A \<and> c \<noteq> CHR 0x00) (take n t) = takeWhile (\<lambda>c. c \<noteq> CHR 0x0A) t"
  using assms
proof (induction t arbitrary: n)
  case (Cons c t)
  show ?case
  proof (cases "c = CHR 0x0A")
    case False
    then obtain m where "n = Suc m" using Cons.prems(1) by (cases n) auto
    then show ?thesis using False Cons.prems Cons.IH [of m] by auto
  qed (cases n; simp)
qed simp

lemma plain_attribute_read:
  assumes "plain_attribute e attr" "length attr < 100"
  shows "getline e (DMI_ID_PATH @ ''/'' @ attr) = Some (attribute_text e old attr)
    \<and> (\<forall>c\<in>set (attribute_text e old attr). (of_char c :: nat) < 128)"
proof -
  let ?line = "\<lambda>t. takeWhile (\<lambda>c. c \<noteq> CHR 0x0A) t"
  obtain t where t: "e_files e (DMI_ID_PATH @ ''/'' @ attr) = Some (Text t)" "t \<noteq> []"
      and l: "length (?line t) \<le> 255" and a: "\<forall>c\<in>set (?line t). 0 < (of_char c :: nat) \<and> (of_char c :: nat) < 128"
    using assms(1)
    by (auto simp: plain_attribute_def getline_def list_all_iff split: option.splits attr.splits list.splits)
  have "takeWhile (\<lambda>c. c \<noteq> CHR 0x0A \<and> c \<noteq> CHR 0x00) (take 255 t) = ?line t"
    using l a by (rule takeWhile_plain_line)
  moreover have "length (DMI_ID_PATH @ ''/'' @ attr) < 4096" using assms(2) by (simp add: DMI_ID_PATH_def)
  ultimately have "attribute_text e old attr = ?line t"
    using t by (simp add: attribute_text_def read_dmi_attribute_def Let_def)
  moreover have "getline e (DMI_ID_PATH @ ''/'' @ attr) = Some (?line t)"
    using t by (cases t) (simp_all add: getline_def)
  ultimately show ?thesis using a by simp
qed

text \<open>
  C40. The tool prints the name of the file the daemon looks for, when the four attributes are plain
  text: the daemon's checksum reads signed characters, the tool's unsigned ones.
\<close>

theorem tool_names_vault:
  assumes "plain_attribute e ''sys_vendor''" "plain_attribute e ''product_name''"
    and "plain_attribute e ''product_family''" "plain_attribute e ''product_sku''"
  shows "format_dv_filename e = Some (''/lib/firmware/intel/dtt/'' @ tool_file_name old e)"
proof -
  note r = plain_attribute_read [OF assms(1), of old] plain_attribute_read [OF assms(2), of old]
    plain_attribute_read [OF assms(3), of old] plain_attribute_read [OF assms(4), of old]
  let ?n = "''dtt_data_vault_'' @ show_u32 (tool_crc32 (attribute_text e old ''sys_vendor'')) @ ''_''
       @ show_u32 (tool_crc32 (attribute_text e old ''product_family'')) @ ''_''
       @ show_u32 (tool_crc32 (attribute_text e old ''product_name'')) @ ''_''
       @ show_u32 (tool_crc32 (attribute_text e old ''product_sku'')) @ ''.bin''"
  have "length ?n \<le> 255"
    using length_show_u32 [of "tool_crc32 (attribute_text e old ''sys_vendor'')"]
      length_show_u32 [of "tool_crc32 (attribute_text e old ''product_family'')"]
      length_show_u32 [of "tool_crc32 (attribute_text e old ''product_name'')"]
      length_show_u32 [of "tool_crc32 (attribute_text e old ''product_sku'')"] by simp
  then have "tool_file_name old e = ?n" by (simp add: tool_file_name_def)
  then show ?thesis
    using r by (simp add: format_dv_filename_def DMI_ID_PATH_def crc32_ascii show_u32_def)
qed

definition dmi_files :: files where
  "dmi_files =
     [''/sys/class/dmi/id/sys_vendor'' \<mapsto> Text (''LENOVO'' @ [CHR 0x0A]), ''/sys/class/dmi/id/product_name'' \<mapsto> Text (''20Y1'' @ [CHR 0x0A]),
      ''/sys/class/dmi/id/product_family'' \<mapsto> Text (''ThinkPad'' @ [CHR 0x0A]), ''/sys/class/dmi/id/product_sku'' \<mapsto> Text (''MT_20Y1'' @ [CHR 0x0A])]"

definition dmi_env :: env where
  "dmi_env = \<lparr>e_now = 0, e_files = dmi_files, e_link = (\<lambda>_. False), e_kwrite = (\<lambda>_ _ f. (0, f)), e_ksleep = (\<lambda>_ f. f)\<rparr>"

theorem tool_names_vault_witness:
  "format_dv_filename dmi_env = Some (''/lib/firmware/intel/dtt/'' @ tool_file_name [] dmi_env)"
proof -
  have "plain_attribute dmi_env ''sys_vendor''" "plain_attribute dmi_env ''product_name''"
    "plain_attribute dmi_env ''product_family''" "plain_attribute dmi_env ''product_sku''" by code_simp+
  then show "format_dv_filename dmi_env = Some (''/lib/firmware/intel/dtt/'' @ tool_file_name [] dmi_env)"
    by (rule tool_names_vault)
qed

text \<open>Beyond ASCII the two checksums differ, so that the file with the printed name is not found.\<close>

lemma tool_crc32_differs: "tool_crc32 [CHR 0xC9] \<noteq> crc32 [CHR 0xC9]"
  by code_simp

section \<open>A dump is read back\<close>

text \<open>The buffer is never left: two bytes are stored at a time and its size is even.\<close>

definition fits :: "string \<Rightarrow> bool" where
  "fits buf \<longleftrightarrow> even (length buf) \<and> length buf \<le> MAX_GDDV_FILE_SIZE"

lemma length_token_bytes [simp]: "length (token_bytes junk t) = 2"
  by (simp add: token_bytes_def Let_def)

lemma add_tokens_fits: "fits buf \<Longrightarrow> fits (add_tokens junk ts buf)"
proof (induction junk ts buf rule: add_tokens.induct)
  case (2 junk t ts buf)
  show ?case
  proof (cases "MAX_GDDV_FILE_SIZE \<le> length buf")
    case False
    moreover have "even MAX_GDDV_FILE_SIZE" by (simp add: MAX_GDDV_FILE_SIZE_def)
    ultimately have "Suc (length buf) < MAX_GDDV_FILE_SIZE"
      using 2(2) by (metis Suc_lessI even_Suc fits_def not_le)
    then show ?thesis using False 2 by (simp add: fits_def)
  qed (use 2 in simp)
qed simp

theorem dump_in_buffer: "fits buf \<Longrightarrow> fits (add_lines junk ls buf)"
  by (induction junk ls buf rule: add_lines.induct) (auto simp: add_tokens_fits split: list.split)

text \<open>The format of \<^verbatim>\<open>od -x\<close>: a line has an offset and words of two bytes in hexadecimal digits, the second
  byte first.\<close>

definition hex_char :: "nat \<Rightarrow> char" where
  "hex_char d = (if d < 10 then char_of (48 + d) else char_of (87 + d))"

definition od_word :: "char \<times> char \<Rightarrow> string" where
  "od_word w =
     map hex_char [of_char (snd w) div 16, of_char (snd w) mod 16, of_char (fst w) div 16, of_char (fst w) mod 16]"

definition od_line :: "string \<times> (char \<times> char) list \<Rightarrow> string" where
  "od_line l = fst l @ concat (map (\<lambda>w. CHR '' '' # od_word w) (snd l)) @ [CHR 0x0A]"

definition word_bytes :: "char \<times> char \<Rightarrow> string" where
  "word_bytes w = [fst w, snd w]"

definition offset_text :: "string \<Rightarrow> bool" where
  "offset_text s \<longleftrightarrow> s \<noteq> [] \<and> list_all (\<lambda>c. c \<noteq> CHR '' '' \<and> c \<noteq> CHR 0x0A \<and> c \<noteq> CHR 0x00) s"

lemma hex_val_char [simp]: "d < 16 \<Longrightarrow> hex_val (hex_char d) = Some d"
  by (auto simp: hex_val_def hex_char_def Let_def)

lemma hex_char_plain:
  assumes "d < 16"
  shows "hex_char d \<noteq> CHR '' ''" "hex_char d \<noteq> CHR 0x0A" "hex_char d \<noteq> CHR 0x00" "hex_char d \<noteq> CHR ''-''"
    "hex_char d \<noteq> CHR ''+''" "hex_char d \<noteq> CHR ''x''" "hex_char d \<noteq> CHR ''X''" "\<not> is_space (hex_char d)"
proof -
  have n: "(of_char (hex_char d) :: nat) = (if d < 10 then 48 + d else 87 + d)" using assms by (simp add: hex_char_def)
  have "hex_char d \<noteq> c" if "(of_char c :: nat) \<notin> {48..57} \<union> {97..102}" for c
    using that n assms by (auto split: if_splits)
  then show "hex_char d \<noteq> CHR '' ''" "hex_char d \<noteq> CHR 0x0A" "hex_char d \<noteq> CHR 0x00" "hex_char d \<noteq> CHR ''-''"
    "hex_char d \<noteq> CHR ''+''" "hex_char d \<noteq> CHR ''x''" "hex_char d \<noteq> CHR ''X''" by simp_all
  show "\<not> is_space (hex_char d)" using n assms by (simp add: is_space_def)
qed

lemma of_char_less [simp]: "(of_char c :: nat) div 16 < 16"
proof -
  have "(of_char c :: nat) < 16 * 16" by simp
  then show ?thesis by (rule less_mult_imp_div_less)
qed

lemma od_word_bytes:
  assumes "r = [] \<or> r = [CHR 0x0A]"
  shows "token_bytes junk (od_word w @ r) = word_bytes w"
proof -
  let ?a = "(of_char (snd w) :: nat)" and ?b = "(of_char (fst w) :: nat)"
  have "hex_val (CHR 0x0A) = None" by (simp add: hex_val_def)
  then have "hex_digits 0 (od_word w @ r) = 16 * (16 * (16 * (?a div 16) + ?a mod 16) + ?b div 16) + ?b mod 16"
    using assms by (auto simp: od_word_def)
  also have "\<dots> = 256 * ?a + ?b" by presburger
  finally have h: "hex_digits 0 (od_word w @ r) = 256 * ?a + ?b" .
  have "?a < 256" "?b < 256" by simp_all
  then have "256 * ?a + ?b \<le> 18446744073709551615" by linarith
  then have "min (256 * ?a + ?b) 18446744073709551615 = 256 * ?a + ?b" by (rule min_absorb1)
  then have "scan_x (od_word w @ r) = Some (int (256 * ?a + ?b))"
    using h hex_char_plain
    by (simp add: scan_x_def od_word_def skip_0x_def hex_number_def)
  then show ?thesis by (simp add: token_bytes_def word_bytes_def)
qed

text \<open>The tokens of a line, and the lines of a dump.\<close>

lemma strtok_append:
  assumes "a \<noteq> []" "CHR '' '' \<notin> set a"
  shows "strtok (a @ CHR '' '' # r) = a # strtok r" "strtok a = [a]"
proof -
  have d: "dropWhile (\<lambda>c. c = CHR '' '') (a @ s) = a @ s" for s using assms by (cases a) auto
  have t: "takeWhile (\<lambda>c. c \<noteq> CHR '' '') (a @ CHR '' '' # s) = a" "dropWhile (\<lambda>c. c \<noteq> CHR '' '') (a @ CHR '' '' # s) = CHR '' '' # s"
      "takeWhile (\<lambda>c. c \<noteq> CHR '' '') a = a" "dropWhile (\<lambda>c. c \<noteq> CHR '' '') a = []" for s
    using assms(2) by (auto simp: takeWhile_append dropWhile_append takeWhile_eq_all_conv)
  have e: "strtok (CHR '' '' # s) = strtok s" for s
    unfolding strtok.simps [of "CHR '' '' # s"] strtok.simps [of s] by simp
  have "strtok [] = []" by (simp add: strtok.simps)
  then show "strtok a = [a]"
    unfolding strtok.simps [of a] using d [of "[]"] t(3,4) assms(1) by (simp del: dropWhile_eq_Nil_conv)
  show "strtok (a @ CHR '' '' # r) = a # strtok r"
    unfolding strtok.simps [of "a @ CHR '' '' # r"] using d [of "CHR '' '' # r"] t e assms(1) by simp
qed

fun line_tokens :: "string \<Rightarrow> (char \<times> char) list \<Rightarrow> string list" where
  "line_tokens a [] = [a @ [CHR 0x0A]]"
| "line_tokens a (w # ws) = a # line_tokens (od_word w) ws"

lemma set_od_word: "c \<in> set (od_word w) \<Longrightarrow> c \<noteq> CHR '' '' \<and> c \<noteq> CHR 0x0A \<and> c \<noteq> CHR 0x00"
  using hex_char_plain by (auto simp: od_word_def)

lemma od_word_not_empty [simp]: "od_word w \<noteq> []"
  by (simp add: od_word_def)

lemma strtok_line:
  assumes "a \<noteq> []" "CHR '' '' \<notin> set a"
  shows "strtok (a @ concat (map (\<lambda>w. CHR '' '' # od_word w) ws) @ [CHR 0x0A]) = line_tokens a ws"
  using assms
proof (induction ws arbitrary: a)
  case Nil
  then show ?case using strtok_append(2) [of "a @ [CHR 0x0A]"] by simp
next
  case (Cons w ws)
  have "CHR '' '' \<notin> set (od_word w)" using set_od_word by blast
  with Cons.IH [of "od_word w"] show ?case using strtok_append(1) [OF Cons.prems] by simp
qed

lemma add_line_tokens:
  assumes "length buf + 2 * length ws \<le> MAX_GDDV_FILE_SIZE"
  shows "add_tokens junk (tl (line_tokens a ws)) buf = buf @ concat (map word_bytes ws)"
  using assms
proof (induction ws arbitrary: a buf)
  case (Cons w ws)
  obtain r where r: "r = [] \<or> r = [CHR 0x0A]" "line_tokens (od_word w) ws = (od_word w @ r) # tl (line_tokens (od_word w) ws)"
    by (cases ws) auto
  have "\<not> MAX_GDDV_FILE_SIZE \<le> length buf" "length (word_bytes w) = 2" using Cons.prems by (simp_all add: word_bytes_def)
  then have "add_tokens junk (line_tokens (od_word w) ws) buf
      = add_tokens junk (tl (line_tokens (od_word w) ws)) (buf @ word_bytes w)"
    by (subst r(2)) (simp add: od_word_bytes [OF r(1)])
  also have "\<dots> = (buf @ word_bytes w) @ concat (map word_bytes ws)"
    using Cons.prems \<open>length (word_bytes w) = 2\<close> by (intro Cons.IH) simp
  finally show ?case by simp
qed simp

lemma file_lines_append:
  "CHR 0x0A \<notin> set a \<Longrightarrow> file_lines (a @ CHR 0x0A # s) = (a @ [CHR 0x0A]) # file_lines s"
  by (induction a) auto

lemma od_line_split:
  assumes "offset_text (fst l)"
  obtains a where "od_line l = a @ [CHR 0x0A]" "CHR 0x0A \<notin> set a" "CHR 0x00 \<notin> set a"
proof -
  let ?a = "fst l @ concat (map (\<lambda>w. CHR '' '' # od_word w) (snd l))"
  have "c \<noteq> CHR 0x0A \<and> c \<noteq> CHR 0x00" if "c \<in> set ?a" for c
    using that assms set_od_word [of c] by (auto simp: offset_text_def list_all_iff split: if_splits)
  then show thesis using that [of ?a] by (fastforce simp: od_line_def)
qed

lemma file_lines_dump:
  "\<forall>l\<in>set ls. offset_text (fst l) \<Longrightarrow> file_lines (concat (map od_line ls)) = map od_line ls"
proof (induction ls)
  case (Cons l ls)
  obtain a where "od_line l = a @ [CHR 0x0A]" "CHR 0x0A \<notin> set a" using od_line_split Cons.prems by (metis list.set_intros(1))
  then show ?case using Cons by (simp add: file_lines_append)
qed simp

lemma add_od_line:
  assumes "offset_text (fst l)" "length buf + 2 * length (snd l) \<le> MAX_GDDV_FILE_SIZE"
  shows "add_lines junk (od_line l # ls) buf = add_lines junk ls (buf @ concat (map word_bytes (snd l)))"
proof -
  obtain a where a: "od_line l = a @ [CHR 0x0A]" "CHR 0x00 \<notin> set a" using od_line_split [OF assms(1)] by metis
  then have "takeWhile (\<lambda>c. c \<noteq> CHR 0x00) (od_line l) = od_line l" by (auto simp: takeWhile_eq_all_conv)
  moreover have "strtok (od_line l) = line_tokens (fst l) (snd l)"
    unfolding od_line_def using assms(1) by (intro strtok_line) (auto simp: offset_text_def list_all_iff)
  moreover have "line_tokens (fst l) (snd l) \<noteq> []" by (cases "snd l") auto
  ultimately show ?thesis
    using add_line_tokens [OF assms(2), of junk "fst l"] by (cases "line_tokens (fst l) (snd l)") (simp_all del: takeWhile_eq_all_conv)
qed

lemma add_dump:
  assumes "\<forall>l\<in>set ls. offset_text (fst l)" "length buf + 2 * length (concat (map snd ls)) \<le> MAX_GDDV_FILE_SIZE"
  shows "add_lines junk (map od_line ls) buf = buf @ concat (map word_bytes (concat (map snd ls)))"
  using assms
proof (induction ls arbitrary: buf)
  case (Cons l ls)
  have "length (concat (map word_bytes ws)) = 2 * length ws" for ws by (induction ws) (simp_all add: word_bytes_def)
  with Cons show ?case by (simp del: add_lines.simps add: add_od_line)
qed simp

text \<open>
  A dump of a vault that fits the buffer is read back byte by byte, whatever the offsets are.
\<close>

theorem dump_read_back:
  assumes "vh_data_vault_fs v" "e_files e (TDCONFDIR @ ''/data_vault.hex'') = Some (Text (concat (map od_line ls)))"
    and "\<forall>l\<in>set ls. offset_text (fst l)" "2 * length (concat (map snd ls)) \<le> MAX_GDDV_FILE_SIZE"
  shows "gddv_load_hex junk v e = Some (concat (map word_bytes (concat (map snd ls))))"
  using assms add_dump [of ls "[]" junk] file_lines_dump [of ls] by (simp add: gddv_load_hex_def)

text \<open>Without the option \<^verbatim>\<open>-v\<close>, \<^verbatim>\<open>od\<close> writes an asterisk for lines that repeat the one before; those bytes are
  lost.\<close>

lemma asterisk_adds_nothing: "add_lines junk ([CHR ''*'', CHR 0x0A] # ls) buf = add_lines junk ls buf"
  by (simp add: strtok.simps)

end
