(* ===== verification/Spec2Isabelle.thy ===== *)
theory Spec2Isabelle
  imports Thd_DriverProps Thd_GddvVaultProps Thd_AdaptiveInv Thd_ParseProps Thd_XmlDoc Thd_Uevent Thd_DaemonProps
    Thd_Android Thd_SysCache Thd_CpuBinding Thd_VaultFile
begin

text \<open>
  This library models the thermal daemon (thermald): a program that reads the temperatures of a
  machine, compares them with trip points and drives cooling devices, with an engine thread, a D-Bus
  interface, configuration files and, on newer machines, the adaptive tables of a data vault in the
  firmware. The theories follow the sources under \<^verbatim>\<open>src/\<close>; a definition has the name of the
  function it translates where HOL allows it, and fallible code returns its error as a value.

  \<^bold>\<open>The program and the theories.\<close>

  \<^item> Foundations. \<^verbatim>\<open>Thd_Prelude\<close>: status codes of \<^verbatim>\<open>thermald.h\<close>, C integers (\<^verbatim>\<open>int\<close> as unbounded integers with
    the wrap-around \<^verbatim>\<open>s32\<close> where it matters, unsigned types as words), IEEE \<^verbatim>\<open>double\<close> and \<^verbatim>\<open>float\<close> as
    rationals with rounding. \<^verbatim>\<open>Thd_SysFs\<close>: the attribute files of \<^verbatim>\<open>thd_sys_fs.cpp\<close>; the kernel behind them is the
    record \<^verbatim>\<open>env\<close>, with functions for what a write and a sleep do to the files. \<^verbatim>\<open>Thd_SysCache\<close>: the objects of
    \<^verbatim>\<open>csys_fs\<close> with their cache of descriptors, creation of files, links.
  \<^item> Cooling devices. \<^verbatim>\<open>Thd_CdevDrv\<close>, \<^verbatim>\<open>Thd_CdevUpdate\<close>: the classes of \<^verbatim>\<open>thd_cdev_*.cpp\<close> (RAPL, DRAM, thermal sysfs,
    generic, cpufreq, intel_pstate, backlight), their state in the record \<^verbatim>\<open>cdev\<close>, virtual methods by their kind.
    \<^verbatim>\<open>Thd_Cdev\<close>: \<^verbatim>\<open>thd_cdev.cpp\<close>, the exponential controller and \<^verbatim>\<open>thd_cdev_set_state\<close>. \<^verbatim>\<open>Thd_CdevLimits\<close>: the list of trips
    that hold a device. \<^verbatim>\<open>Thd_Pid\<close>: \<^verbatim>\<open>thd_pid.cpp\<close>. \<^verbatim>\<open>Thd_PowerMeter\<close>, \<^verbatim>\<open>Thd_MeterScan\<close>: \<^verbatim>\<open>thd_rapl_power_meter.cpp\<close>.
    \<^verbatim>\<open>Thd_DriverProps\<close>: what the drivers guarantee.
  \<^item> Sensors, trips, zones. \<^verbatim>\<open>Thd_Sensor\<close>: \<^verbatim>\<open>thd_sensor*.cpp\<close> with virtual sensors and the messages to the engine.
    \<^verbatim>\<open>Thd_TripPoint\<close>, \<^verbatim>\<open>Thd_TripProps\<close>, \<^verbatim>\<open>Thd_TripRuns\<close>: \<^verbatim>\<open>thd_trip_point.cpp\<close>. \<^verbatim>\<open>Thd_Zone\<close>, \<^verbatim>\<open>Thd_ZoneProps\<close>: \<^verbatim>\<open>thd_zone.cpp\<close>.
    \<^verbatim>\<open>Thd_ZoneKinds\<close>, \<^verbatim>\<open>Thd_ZoneKindProps\<close>, \<^verbatim>\<open>Thd_ZoneRefs\<close>: the five classes of zones.
  \<^item> Engines. \<^verbatim>\<open>Thd_Engine\<close>, \<^verbatim>\<open>Thd_EngineUser\<close>: \<^verbatim>\<open>thd_engine.cpp\<close> and \<^verbatim>\<open>thd_int3400.cpp\<close>; the record \<^verbatim>\<open>engine\<close> extends the system of sensors, devices and messages
    (\<^verbatim>\<open>sys\<close>) by zones, polling state and mode; pointers to sensors and devices are positions in its
    vectors; virtual methods are the record \<^verbatim>\<open>engine_class\<close>. \<^verbatim>\<open>Thd_Preference\<close>, \<^verbatim>\<open>Thd_Platform\<close>: the preference and
    the platform classes. \<^verbatim>\<open>Thd_EngineDefault\<close>: \<^verbatim>\<open>thd_engine_default.cpp\<close>. \<^verbatim>\<open>Thd_EngineProps\<close>, \<^verbatim>\<open>Thd_EngineInv\<close>, \<^verbatim>\<open>Thd_DefaultProps\<close>,
    \<^verbatim>\<open>Thd_StartProps\<close>: their properties. \<^verbatim>\<open>Thd_Uevent\<close>: \<^verbatim>\<open>thd_kobj_uevent.cpp\<close>.
  \<^item> Data vault and adaptive engine. \<^verbatim>\<open>Thd_GddvBuf\<close>, \<^verbatim>\<open>Thd_Gddv\<close>, \<^verbatim>\<open>Thd_GddvVault\<close>, \<^verbatim>\<open>Thd_GddvCond\<close>: the readers, table
    parsers, vault structure and conditions of \<^verbatim>\<open>thd_gddv.cpp\<close> and the wrapper \<^verbatim>\<open>thd_lzma_dec.cpp\<close>. \<^verbatim>\<open>Thd_Adaptive\<close>:
    \<^verbatim>\<open>thd_engine_adaptive.cpp\<close>. \<^verbatim>\<open>Thd_GddvSafe\<close>, \<^verbatim>\<open>Thd_GddvProps\<close>, \<^verbatim>\<open>Thd_GddvCodec\<close>, \<^verbatim>\<open>Thd_GddvVaultProps\<close>, \<^verbatim>\<open>Thd_GddvCondProps\<close>,
    \<^verbatim>\<open>Thd_AdaptiveProps\<close>, \<^verbatim>\<open>Thd_AdaptiveInv\<close>: their properties. \<^verbatim>\<open>Thd_VaultFile\<close>: dumps of a vault and the tool
    \<^verbatim>\<open>tools/format_dv_name.c\<close>.
  \<^item> Configuration. \<^verbatim>\<open>Thd_Parse\<close>: \<^verbatim>\<open>thd_parse.cpp\<close>; \<^verbatim>\<open>Thd_ConfText\<close>, \<^verbatim>\<open>Thd_ParseProps\<close>: documents and their records.
    \<^verbatim>\<open>Thd_Features\<close>: \<^verbatim>\<open>thd_features_parse.cpp\<close> and \<^verbatim>\<open>thd_cdev_order_parser.cpp\<close>. \<^verbatim>\<open>Thd_Relations\<close>: \<^verbatim>\<open>thd_trt_art_reader.cpp\<close>;
    \<^verbatim>\<open>Thd_RelProps\<close>, \<^verbatim>\<open>Thd_RelConf\<close>, \<^verbatim>\<open>Thd_XmlDoc\<close>: the generated configuration and how it is read back.
  \<^item> The process. \<^verbatim>\<open>Thd_Dbus\<close>, \<^verbatim>\<open>Thd_DbusCalls\<close>: \<^verbatim>\<open>thd_dbus_interface.cpp\<close> and its interface file. \<^verbatim>\<open>Thd_DbusProps\<close>,
    \<^verbatim>\<open>Thd_DaemonProps\<close>: calls and the life of the daemon. \<^verbatim>\<open>Thd_Main\<close>: \<^verbatim>\<open>main.cpp\<close>. \<^verbatim>\<open>Thd_Android\<close>: \<^verbatim>\<open>android_main.cpp\<close> and the
    conditions built for Android. \<^verbatim>\<open>Thd_CpuBinding\<close>: the parts of \<^verbatim>\<open>thd_cpu_default_binding.cpp\<close>.

  \<^bold>\<open>How the parts interact.\<close> The engine thread waits for messages, kernel events and its timer
  (\<^verbatim>\<open>engine_round\<close>). It reads the sensors of the active zones; each zone checks its trips in order; a trip
  that is passed or left asks its devices for a state through \<^verbatim>\<open>thd_cdev_set_state\<close>, which keeps one limit per
  trip and writes the most restrictive one through the driver to an attribute file. Trips for polling
  send messages back to the engine. D-Bus handlers change zones, sensors and devices between rounds;
  the adaptive engine replaces the zones' trips by those of the target whose conditions hold.

  \<^bold>\<open>What the lemmas show.\<close>

  \<^item> Controller: after an activation a device meets the target of every trip that holds it, the strongest
    target wins over any sequence of requests, and repeated requests reach both ends of the range in a
    bounded number of steps. Drivers program what they record, and restore the state of power-on.
  \<^item> Trips and zones: the debounce of critical trips over all sequences of readings, the quiet band of
    the hysteresis, sequential control, polling trips below all others, and the frame of a check (which
    devices it may touch).
  \<^item> Engine: the references of zones and trips stay valid in every reachable state of the default engine,
    of the adaptive engine and of the daemon under D-Bus calls, restarts included; rounds return; polling
    refines a set of sensors.
  \<^item> Data vault: memory safety of all parsers on plain lengths, round trips of tables, the order in which keys are
    handled, first-match semantics of the conditions against a direct reading, the consolidation of tables against a
    reference; inputs on which the code overflows or does not end are named in theorems.
  \<^item> Configuration: only trusted files are parsed, documents are read back as written, the best platform
    is chosen, generated files are read as the tables they come from.
  \<^item> Process: D-Bus replies have the types of the interface file, how failures are reported, what the lock
    file guarantees; files read through cached descriptors are current, and files are not created through links.

  \<^bold>\<open>Interfaces as locales.\<close> \<^verbatim>\<open>cdev_driver\<close> (what the controller needs of a driver, interpreted on the
  drivers' methods), \<^verbatim>\<open>std_sort\<close> (the four orders of limits), \<^verbatim>\<open>sensor_set\<close> (the masks of polled sensors),
  \<^verbatim>\<open>engine_methods\<close> (what the engine needs of a derived class, interpreted on the default engine and used for every
  reachable state), \<^verbatim>\<open>table_codec\<close> (tables written and parsed, interpreted for three tables), \<^verbatim>\<open>failure_counts\<close> (the file
  of binding failures). State machines are inductive relations: \<^verbatim>\<open>engine_step\<close>, \<^verbatim>\<open>adaptive_step\<close>, \<^verbatim>\<open>daemon_step\<close>,
  \<^verbatim>\<open>target_run\<close>, \<^verbatim>\<open>cache_step\<close>.

  \<^bold>\<open>Bounds and fuel.\<close> Reading a virtual sensor recurses over links; \<^verbatim>\<open>read_fuel m i = (i + 1) * (m + 4)\<close> is
  proved to be enough when links lead to earlier sensors and have at most \<^verbatim>\<open>m\<close> entries, and a sensor linked to itself
  is proved to exhaust any fuel. The loops over a table of \<^verbatim>\<open>n\<close> bytes have fuel \<^verbatim>\<open>n + 1\<close>, which the safety
  theorems show to be enough; nested vaults take fuel for items and depth, and the theorem on bounds holds for any amount. The scan of the power meter
  directories has fuel for the longest path (4096). The controller's
  liveness is stated for ranges of at most \<^verbatim>\<open>2 ^ 20\<close> steps, under the hypothesis that so many steps do not leave 32 bits.

  \<^bold>\<open>Arguments of the model.\<close> The kernel (files, \<^verbatim>\<open>stat\<close>, \<^verbatim>\<open>ioctl\<close>, directory listings, sockets, time), libxml2 (the tree
  of a file; what is relied on is \<^verbatim>\<open>reads_text\<close> and \<^verbatim>\<open>reads_xml\<close>, with \<^verbatim>\<open>Thd_XmlDoc\<close> giving a reader that meets
  them), the LZMA decoder, \<^verbatim>\<open>cpuid\<close> and mapped registers, GLib (parsed options, bus calls), UPower, evdev, what
  uninitialised variables hold, and what the engine thread does while a D-Bus handler sleeps (any sequence of its steps).
  Faults are values: \<^verbatim>\<open>Out_of_bounds\<close> for accesses outside of an allocation or through null, \<^verbatim>\<open>Gddv_exception\<close> for thrown
  exceptions, \<^verbatim>\<open>Out_of_fuel\<close> for loops that do not end.

  \<^bold>\<open>Not modelled.\<close> \<^verbatim>\<open>LzmaDec.c\<close>, \<^verbatim>\<open>LzmaDec.h\<close> and \<^verbatim>\<open>7zTypes.h\<close> are third-party code of the LZMA SDK, and the kernel module under
  \<^verbatim>\<open>test/\<close> is not part of the daemon. \<^verbatim>\<open>do_default_binding\<close> cannot be compiled: its caller uses a member that is commented out.
  Functions that only write to the log (\<^verbatim>\<open>dump_*\<close>, \<^verbatim>\<open>zone_dump\<close>) change no state. Threads are interleaved at the
  granularity of rounds, handler calls and timer rounds; the mutexes themselves are not represented.
\<close>

end
